(* ===== verification/Prelude.thy ===== *)
theory Prelude
  imports Main "HOL-Library.List_Lexorder"
begin

text \<open>
  What every component theory shares: the collections of rewrite rules the component
  proofs add to the simplifier, generic facts on lists and options, and the small
  combinators of the Rust standard library that the source uses throughout
  (\<open>Option::filter\<close>, \<open>Option::or\<close>, \<open>Iterator::find\<close>, \<open>Iterator::min_by_key\<close>).
\<close>

section \<open>Collections\<close>

named_theorems str_simps \<open>evaluation rules of the string library\<close>
named_theorems sql_simps \<open>evaluation rules of the table operations\<close>

section \<open>Options\<close>

definition opt_filter :: "('a \<Rightarrow> bool) \<Rightarrow> 'a option \<Rightarrow> 'a option" where
  "opt_filter p x = (case x of None \<Rightarrow> None | Some a \<Rightarrow> if p a then Some a else None)"

definition opt_or :: "'a option \<Rightarrow> 'a option \<Rightarrow> 'a option" where
  "opt_or x y = (case x of None \<Rightarrow> y | Some a \<Rightarrow> Some a)"

definition unwrap_or :: "'a option \<Rightarrow> 'a \<Rightarrow> 'a" where
  "unwrap_or x d = (case x of None \<Rightarrow> d | Some a \<Rightarrow> a)"

definition is_some_and :: "'a option \<Rightarrow> ('a \<Rightarrow> bool) \<Rightarrow> bool" where
  "is_some_and x p = (case x of None \<Rightarrow> False | Some a \<Rightarrow> p a)"

lemma opt_filter_simps [simp]:
  "opt_filter p None = None"
  "opt_filter p (Some a) = (if p a then Some a else None)"
  by (simp_all add: opt_filter_def)

lemma opt_or_simps [simp]:
  "opt_or None y = y"
  "opt_or (Some a) y = Some a"
  "opt_or x None = x"
  by (simp_all add: opt_or_def split: option.split)

lemma unwrap_or_simps [simp]:
  "unwrap_or None d = d"
  "unwrap_or (Some a) d = a"
  by (simp_all add: unwrap_or_def)

lemma is_some_and_simps [simp]:
  "is_some_and None p = False"
  "is_some_and (Some a) p = p a"
  by (simp_all add: is_some_and_def)

lemma opt_filter_eq_Some [simp]: "opt_filter p x = Some a \<longleftrightarrow> x = Some a \<and> p a"
  by (cases x) auto

section \<open>Lists\<close>

text \<open>\<open>Iterator::min_by_key\<close>: the first of the least elements.\<close>

fun min_by :: "('a \<Rightarrow> 'b::linorder) \<Rightarrow> 'a list \<Rightarrow> 'a option" where
  "min_by k [] = None"
| "min_by k (x # xs) =
     (case min_by k xs of
        None \<Rightarrow> Some x
      | Some y \<Rightarrow> if k x \<le> k y then Some x else Some y)"

lemma min_by_None [simp]: "min_by k xs = None \<longleftrightarrow> xs = []"
  by (cases xs) (auto split: option.split)

lemma min_by_mem: "min_by k xs = Some y \<Longrightarrow> y \<in> set xs"
  by (induction xs arbitrary: y) (auto split: option.splits if_splits)

lemma min_by_le: "min_by k xs = Some y \<Longrightarrow> x \<in> set xs \<Longrightarrow> k y \<le> k x"
proof (induction xs arbitrary: y)
  case Nil
  then show ?case by simp
next
  case (Cons z zs)
  then show ?case
    by (cases "min_by k zs") (auto split: if_splits intro: order_trans)
qed

text \<open>\<open>position\<close>: the index of the first element with the property.\<close>

fun find_pos :: "('a \<Rightarrow> bool) \<Rightarrow> 'a list \<Rightarrow> nat option" where
  "find_pos p [] = None"
| "find_pos p (x # xs) = (if p x then Some 0 else map_option Suc (find_pos p xs))"

lemma find_pos_Some:
  "find_pos p xs = Some i \<Longrightarrow> i < length xs \<and> p (xs ! i) \<and> (\<forall>x \<in> set (take i xs). \<not> p x)"
  by (induction xs arbitrary: i) (auto split: if_splits)

lemma find_pos_None: "find_pos p xs = None \<longleftrightarrow> (\<forall>x \<in> set xs. \<not> p x)"
  by (induction xs) auto

lemma find_mem: "find p xs = Some x \<Longrightarrow> x \<in> set xs \<and> p x"
  by (induction xs) (auto split: if_splits)

text \<open>A find over a mapped list whose map keeps the key.\<close>

lemma find_map_key:
  assumes "\<And>x. P (f x) = P x"
  shows "find P (map f xs) = map_option f (find P xs)"
  using assms by (induction xs) auto

lemma map_if_id: "(\<And>x. x \<in> set xs \<Longrightarrow> \<not> p x) \<Longrightarrow> map (\<lambda>x. if p x then f x else x) xs = xs"
  by (induction xs) auto

lemma filter_map_if:
  assumes "\<And>x. p x \<Longrightarrow> \<not> q (f x)" and "\<And>x. p x \<Longrightarrow> q x"
  shows "filter q (map (\<lambda>x. if p x then f x else x) xs) = filter (\<lambda>x. q x \<and> \<not> p x) xs"
  using assms by (induction xs) auto

lemma distinct_map_if:
  assumes "\<And>x. k (f x) = k x"
  shows "map k (map (\<lambda>x. if p x then f x else x) xs) = map k xs"
  using assms by (induction xs) auto

section \<open>Fallible operations on a state\<close>

text \<open>An \<open>async fn\<close> that returns a \<open>Result\<close>: it may have changed the state when it fails. The
  operator \<open>?\<close> is \<open>andthen\<close>.\<close>

type_synonym ('s, 'e, 'a) rop = "'s \<Rightarrow> 's \<times> ('e + 'a)"

definition ret :: "'a \<Rightarrow> ('s, 'e, 'a) rop" where
  "ret x s = (s, Inr x)"

definition fail :: "'e \<Rightarrow> ('s, 'e, 'a) rop" where
  "fail e s = (s, Inl e)"

definition andthen :: "('s, 'e, 'a) rop \<Rightarrow> ('a \<Rightarrow> ('s, 'e, 'b) rop) \<Rightarrow> ('s, 'e, 'b) rop" where
  "andthen m f s = (case m s of (s', Inl e) \<Rightarrow> (s', Inl e) | (s', Inr x) \<Rightarrow> f x s')"

text \<open>A pure \<open>Result\<close>, with \<open>map_err\<close>.\<close>

definition lift_res :: "('e \<Rightarrow> 'f) \<Rightarrow> 'e + 'a \<Rightarrow> ('s, 'f, 'a) rop" where
  "lift_res h r = (case r of Inl e \<Rightarrow> fail (h e) | Inr x \<Rightarrow> ret x)"

lemma ret_iff [simp]: "ret x s = (s', r) \<longleftrightarrow> s' = s \<and> r = Inr x"
  by (auto simp: ret_def)

lemma fail_iff [simp]: "fail e s = (s', r) \<longleftrightarrow> s' = s \<and> r = Inl e"
  by (auto simp: fail_def)

lemma lift_res_iff [simp]:
  "lift_res h r s = (s', Inr x) \<longleftrightarrow> s' = s \<and> r = Inr x"
  "lift_res h r s = (s', Inl f) \<longleftrightarrow> s' = s \<and> (\<exists>e. r = Inl e \<and> f = h e)"
  by (auto simp: lift_res_def split: sum.splits)

lemma andthen_Inr [simp]:
  "andthen m f s = (s2, Inr y) \<longleftrightarrow> (\<exists>s1 x. m s = (s1, Inr x) \<and> f x s1 = (s2, Inr y))"
  by (auto simp: andthen_def split: prod.splits sum.splits)

lemma andthen_Inl [simp]:
  "andthen m f s = (s2, Inl e) \<longleftrightarrow>
     m s = (s2, Inl e) \<or> (\<exists>s1 x. m s = (s1, Inr x) \<and> f x s1 = (s2, Inl e))"
  by (auto simp: andthen_def split: prod.splits sum.splits)

text \<open>
  The contract of one operation: it keeps the invariant of the state, an error leaves what
  the state stands for unchanged, and a success relates what it stood for, the result and
  what it stands for now.
\<close>

definition op_ok :: "('s \<Rightarrow> bool) \<Rightarrow> ('s \<Rightarrow> 'b) \<Rightarrow> ('s, 'e, 'a) rop \<Rightarrow> ('b \<Rightarrow> 'a \<Rightarrow> 'b \<Rightarrow> bool) \<Rightarrow> bool" where
  "op_ok sinv sabs m P \<longleftrightarrow> (\<forall>s s' r. sinv s \<longrightarrow> m s = (s', r) \<longrightarrow>
     sinv s' \<and> (case r of Inl e \<Rightarrow> sabs s' = sabs s | Inr x \<Rightarrow> P (sabs s) x (sabs s')))"

lemma op_okD:
  assumes "op_ok sinv sabs m P" and "sinv s"
  shows "m s = (s', Inr x) \<Longrightarrow> sinv s' \<and> P (sabs s) x (sabs s')"
    and "m s = (s', Inl e) \<Longrightarrow> sinv s' \<and> sabs s' = sabs s"
proof -
  have a: "m s = (s', r) \<Longrightarrow> sinv s' \<and> (case r of Inl e \<Rightarrow> sabs s' = sabs s | Inr x \<Rightarrow> P (sabs s) x (sabs s'))" for r
    using assms unfolding op_ok_def by blast
  show "m s = (s', Inr x) \<Longrightarrow> sinv s' \<and> P (sabs s) x (sabs s')" using a [of "Inr x"] by simp
  show "m s = (s', Inl e) \<Longrightarrow> sinv s' \<and> sabs s' = sabs s" using a [of "Inl e"] by simp
qed

lemma op_okI:
  assumes "\<And>s s' x. sinv s \<Longrightarrow> m s = (s', Inr x) \<Longrightarrow> sinv s' \<and> P (sabs s) x (sabs s')"
    and "\<And>s s' e. sinv s \<Longrightarrow> m s = (s', Inl e) \<Longrightarrow> sinv s' \<and> sabs s' = sabs s"
  shows "op_ok sinv sabs m P"
  unfolding op_ok_def
proof (intro allI impI)
  fix s s' r
  assume "sinv s" and "m s = (s', r)"
  then show "sinv s' \<and> (case r of Inl e \<Rightarrow> sabs s' = sabs s | Inr x \<Rightarrow> P (sabs s) x (sabs s'))"
    using assms(1) [of s s'] assms(2) [of s s'] by (cases r) simp_all
qed

text \<open>
  The same with a relation for errors too, for operations that may fail half way; the
  relations compose along \<open>andthen\<close>.
\<close>

definition op_sat ::
  "('s \<Rightarrow> bool) \<Rightarrow> ('s \<Rightarrow> 'b) \<Rightarrow> ('s, 'e, 'a) rop \<Rightarrow> ('b \<Rightarrow> 'a \<Rightarrow> 'b \<Rightarrow> bool) \<Rightarrow> ('b \<Rightarrow> 'e \<Rightarrow> 'b \<Rightarrow> bool) \<Rightarrow> bool" where
  "op_sat sinv sabs m P F \<longleftrightarrow> (\<forall>s s' r. sinv s \<longrightarrow> m s = (s', r) \<longrightarrow>
     sinv s' \<and> (case r of Inl e \<Rightarrow> F (sabs s) e (sabs s') | Inr x \<Rightarrow> P (sabs s) x (sabs s')))"

lemma op_ok_sat: "op_ok sinv sabs m P \<longleftrightarrow> op_sat sinv sabs m P (\<lambda>a e a'. a' = a)"
  by (simp add: op_ok_def op_sat_def)

lemma op_sat_Inr:
  assumes "op_sat sinv sabs m P F" and "m s = (s', Inr x)" and "sinv s"
  shows "sinv s' \<and> P (sabs s) x (sabs s')"
proof -
  have "sinv s' \<and> (case Inr x of Inl e \<Rightarrow> F (sabs s) e (sabs s') | Inr x \<Rightarrow> P (sabs s) x (sabs s'))"
    using assms unfolding op_sat_def by blast
  then show ?thesis by simp
qed

lemma op_sat_Inl:
  assumes "op_sat sinv sabs m P F" and "m s = (s', Inl e)" and "sinv s"
  shows "sinv s' \<and> F (sabs s) e (sabs s')"
proof -
  have "sinv s' \<and> (case Inl e of Inl e \<Rightarrow> F (sabs s) e (sabs s') | Inr x \<Rightarrow> P (sabs s) x (sabs s'))"
    using assms unfolding op_sat_def by blast
  then show ?thesis by simp
qed

lemma op_satI:
  assumes "\<And>s s' x. sinv s \<Longrightarrow> m s = (s', Inr x) \<Longrightarrow> sinv s' \<and> P (sabs s) x (sabs s')"
    and "\<And>s s' e. sinv s \<Longrightarrow> m s = (s', Inl e) \<Longrightarrow> sinv s' \<and> F (sabs s) e (sabs s')"
  shows "op_sat sinv sabs m P F"
  unfolding op_sat_def
proof (intro allI impI)
  fix s s' r
  assume "sinv s" and "m s = (s', r)"
  then show "sinv s' \<and> (case r of Inl e \<Rightarrow> F (sabs s) e (sabs s') | Inr x \<Rightarrow> P (sabs s) x (sabs s'))"
    using assms(1) [of s s'] assms(2) [of s s'] by (cases r) simp_all
qed

lemma sat_ret: "op_sat sinv sabs (ret x) (\<lambda>a y a'. a' = a \<and> y = x) (\<lambda>a e a'. False)"
  by (rule op_satI) auto

lemma sat_fail: "op_sat sinv sabs (fail e) (\<lambda>a y a'. False) (\<lambda>a f a'. a' = a \<and> f = e)"
  by (rule op_satI) auto

lemma sat_lift: "op_sat sinv sabs (lift_res h r) (\<lambda>a y a'. a' = a \<and> r = Inr y) (\<lambda>a f a'. a' = a \<and> (\<exists>e. r = Inl e \<and> f = h e))"
  by (rule op_satI) auto

lemma sat_andthen:
  assumes m: "op_sat sinv sabs m P F" and f: "\<And>x. op_sat sinv sabs (f x) (R x) (G x)"
  shows "op_sat sinv sabs (andthen m f)
     (\<lambda>a y a''. \<exists>x a'. P a x a' \<and> R x a' y a'')
     (\<lambda>a e a''. F a e a'' \<or> (\<exists>x a'. P a x a' \<and> G x a' e a''))"
proof (rule op_satI)
  fix s s2 y
  assume i: "sinv s" and "andthen m f s = (s2, Inr y)"
  then obtain s1 x where 1: "m s = (s1, Inr x)" and 2: "f x s1 = (s2, Inr y)" by auto
  note a = op_sat_Inr [OF m 1 i]
  then show "sinv s2 \<and> (\<exists>x a'. P (sabs s) x a' \<and> R x a' y (sabs s2))"
    using op_sat_Inr [OF f 2] by blast
next
  fix s s2 e
  assume i: "sinv s" and "andthen m f s = (s2, Inl e)"
  then consider "m s = (s2, Inl e)" | s1 x where "m s = (s1, Inr x)" "f x s1 = (s2, Inl e)" by auto
  then show "sinv s2 \<and> (F (sabs s) e (sabs s2) \<or> (\<exists>x a'. P (sabs s) x a' \<and> G x a' e (sabs s2)))"
  proof cases
    case 1
    then show ?thesis using op_sat_Inl [OF m 1 i] by blast
  next
    case 2
    note a = op_sat_Inr [OF m 2(1) i]
    then show ?thesis using op_sat_Inl [OF f 2(2)] by blast
  qed
qed

lemma sat_weaken:
  assumes "op_sat sinv sabs m P F"
    and "\<And>a x a'. P a x a' \<Longrightarrow> Q a x a'" and "\<And>a e a'. F a e a' \<Longrightarrow> G a e a'"
  shows "op_sat sinv sabs m Q G"
  using op_sat_Inr [OF assms(1)] op_sat_Inl [OF assms(1)] assms(2,3) by (intro op_satI) blast+

lemma sat_if:
  assumes "b \<Longrightarrow> op_sat sinv sabs m P F" and "\<not> b \<Longrightarrow> op_sat sinv sabs n P F"
  shows "op_sat sinv sabs (if b then m else n) P F"
  using assms by simp

section \<open>Pure results\<close>

text \<open>\<open>?\<close> on a pure \<open>Result\<close>, and a loop that stops at the first error.\<close>

definition and_ok :: "'e + 'a \<Rightarrow> ('a \<Rightarrow> 'e + 'b) \<Rightarrow> 'e + 'b" where
  "and_ok r f = (case r of Inl e \<Rightarrow> Inl e | Inr x \<Rightarrow> f x)"

fun map_ok :: "('a \<Rightarrow> 'e + 'b) \<Rightarrow> 'a list \<Rightarrow> 'e + 'b list" where
  "map_ok f [] = Inr []"
| "map_ok f (x # xs) = and_ok (f x) (\<lambda>y. and_ok (map_ok f xs) (\<lambda>ys. Inr (y # ys)))"

lemma and_ok_simps [simp]:
  "and_ok (Inl e) f = Inl e"
  "and_ok (Inr x) f = f x"
  by (simp_all add: and_ok_def)

lemma and_ok_Inr: "and_ok r f = Inr y \<longleftrightarrow> (\<exists>x. r = Inr x \<and> f x = Inr y)"
  by (cases r) simp_all

lemma map_ok_Inr: "map_ok f xs = Inr ys \<longleftrightarrow> list_all2 (\<lambda>x y. f x = Inr y) xs ys"
proof (induction xs arbitrary: ys)
  case (Cons x xs)
  then show ?case by (cases ys) (auto simp: and_ok_Inr)
qed auto

end
