(* ===== verification/RustStr.thy ===== *)
theory RustStr
  imports Prelude
begin

text \<open>
  The part of Rust's \<open>str\<close> and \<open>char\<close> the source uses. A string is the list of its
  Unicode scalar values (\<open>str::chars\<close>); \<open>utf8_len\<close> is \<open>str::len\<close>, the number of UTF-8
  bytes. Byte offsets that the source computes with \<open>find\<close> and slices with are character
  offsets here: both name the same boundary. The order on strings is the lexicographic
  one of \<open>List_Lexorder\<close>, which on scalar values agrees with Rust's byte order.
\<close>

type_synonym uchar = nat
type_synonym ustr = "uchar list"

text \<open>An ASCII (or Latin-1) literal.\<close>

definition lit :: "string \<Rightarrow> ustr" where
  "lit cs = map of_char cs"

lemma lit_simps [simp]:
  "lit [] = []"
  "lit (c # cs) = of_char c # lit cs"
  by (simp_all add: lit_def)

lemma lit_eq_iff [simp]: "lit a = lit b \<longleftrightarrow> a = b"
  by (auto simp: lit_def map_injective inj_def)

section \<open>Characters\<close>

text \<open>\<open>char::is_whitespace\<close>: the Unicode property White\_Space.\<close>

definition is_ws :: "uchar \<Rightarrow> bool" where
  "is_ws c \<longleftrightarrow> (9 \<le> c \<and> c \<le> 13) \<or> c = 32 \<or> c = 133 \<or> c = 160 \<or> c = 5760
     \<or> (8192 \<le> c \<and> c \<le> 8202) \<or> c = 8232 \<or> c = 8233 \<or> c = 8239 \<or> c = 8287 \<or> c = 12288"

definition is_ascii_upper :: "uchar \<Rightarrow> bool" where
  "is_ascii_upper c \<longleftrightarrow> 65 \<le> c \<and> c \<le> 90"

definition is_ascii_lower :: "uchar \<Rightarrow> bool" where
  "is_ascii_lower c \<longleftrightarrow> 97 \<le> c \<and> c \<le> 122"

definition is_ascii_digit :: "uchar \<Rightarrow> bool" where
  "is_ascii_digit c \<longleftrightarrow> 48 \<le> c \<and> c \<le> 57"

definition is_ascii_alnum :: "uchar \<Rightarrow> bool" where
  "is_ascii_alnum c \<longleftrightarrow> is_ascii_upper c \<or> is_ascii_lower c \<or> is_ascii_digit c"

definition is_hexdigit :: "uchar \<Rightarrow> bool" where
  "is_hexdigit c \<longleftrightarrow> is_ascii_digit c \<or> (97 \<le> c \<and> c \<le> 102) \<or> (65 \<le> c \<and> c \<le> 70)"

definition ascii_lower :: "uchar \<Rightarrow> uchar" where
  "ascii_lower c = (if is_ascii_upper c then c + 32 else c)"

definition to_ascii_lowercase :: "ustr \<Rightarrow> ustr" where
  "to_ascii_lowercase s = map ascii_lower s"

lemmas char_defs = is_ascii_upper_def is_ascii_lower_def is_ascii_digit_def is_ascii_alnum_def
  is_hexdigit_def ascii_lower_def is_ws_def

lemma ascii_lower_idem [simp]: "ascii_lower (ascii_lower c) = ascii_lower c"
  by (auto simp: char_defs)

lemma to_ascii_lowercase_simps [simp]:
  "to_ascii_lowercase [] = []"
  "to_ascii_lowercase (c # s) = ascii_lower c # to_ascii_lowercase s"
  "to_ascii_lowercase (to_ascii_lowercase s) = to_ascii_lowercase s"
  "length (to_ascii_lowercase s) = length s"
  by (simp_all add: to_ascii_lowercase_def)

text \<open>\<open>str::to_lowercase\<close>: exact on Latin-1 and on every scalar value whose lower case contains
  an ASCII character (the Kelvin sign and the dotted capital I); the remaining cased letters
  are left as they are.\<close>

definition lower_char :: "uchar \<Rightarrow> ustr" where
  "lower_char c =
     (if is_ascii_upper c then [c + 32]
      else if 192 \<le> c \<and> c \<le> 222 \<and> c \<noteq> 215 then [c + 32]
      else if c = 8490 then [107]
      else if c = 304 then [105, 775]
      else [c])"

definition to_lowercase :: "ustr \<Rightarrow> ustr" where
  "to_lowercase s = concat (map lower_char s)"

lemma to_lowercase_simps [simp]:
  "to_lowercase [] = []"
  "to_lowercase (c # s) = lower_char c @ to_lowercase s"
  "to_lowercase (s @ t) = to_lowercase s @ to_lowercase t"
  by (simp_all add: to_lowercase_def)

text \<open>Texts that lower-casing leaves alone.\<close>

definition plain_lower :: "ustr \<Rightarrow> bool" where
  "plain_lower s \<longleftrightarrow> (\<forall>c \<in> set s. lower_char c = [c])"

lemma to_lowercase_plain: "plain_lower s \<Longrightarrow> to_lowercase s = s"
  by (induction s) (simp_all add: plain_lower_def)

text \<open>UTF-8 length of a scalar value and of a string (\<open>str::len\<close>).\<close>

definition utf8_width :: "uchar \<Rightarrow> nat" where
  "utf8_width c = (if c < 128 then 1 else if c < 2048 then 2 else if c < 65536 then 3 else 4)"

definition utf8_len :: "ustr \<Rightarrow> nat" where
  "utf8_len s = sum_list (map utf8_width s)"

lemma utf8_len_simps [simp]:
  "utf8_len [] = 0"
  "utf8_len (c # s) = utf8_width c + utf8_len s"
  "utf8_len (s @ t) = utf8_len s + utf8_len t"
  by (simp_all add: utf8_len_def)

lemma utf8_len_bounds: "length s \<le> utf8_len s \<and> utf8_len s \<le> 4 * length s"
  by (induction s) (auto simp: utf8_width_def)

lemma utf8_len_ascii: "(\<forall>c \<in> set s. c < 128) \<Longrightarrow> utf8_len s = length s"
  by (induction s) (auto simp: utf8_width_def)

section \<open>Prefixes and suffixes\<close>

definition starts_with :: "ustr \<Rightarrow> ustr \<Rightarrow> bool" where
  "starts_with s p \<longleftrightarrow> take (length p) s = p"

definition ends_with :: "ustr \<Rightarrow> ustr \<Rightarrow> bool" where
  "ends_with s p \<longleftrightarrow> starts_with (rev s) (rev p)"

definition strip_prefix :: "ustr \<Rightarrow> ustr \<Rightarrow> ustr option" where
  "strip_prefix s p = (if starts_with s p then Some (drop (length p) s) else None)"

lemma starts_with_iff: "starts_with s p \<longleftrightarrow> (\<exists>t. s = p @ t)"
  unfolding starts_with_def by (metis append_eq_conv_conj append_take_drop_id)

lemma starts_with_simps [simp]:
  "starts_with s []"
  "starts_with (p @ t) p"
  "starts_with s s"
  "\<not> starts_with [] (d # p)"
  "starts_with (c # s) (d # p) \<longleftrightarrow> c = d \<and> starts_with s p"
  by (auto simp: starts_with_def)

lemma starts_with_trans: "starts_with s p \<Longrightarrow> starts_with p q \<Longrightarrow> starts_with s q"
  by (auto simp: starts_with_iff)

lemma ends_with_iff: "ends_with s p \<longleftrightarrow> (\<exists>t. s = t @ p)"
  unfolding ends_with_def starts_with_iff by (metis rev_append rev_rev_ident)

lemma strip_prefix_Some: "strip_prefix s p = Some t \<longleftrightarrow> s = p @ t"
  by (auto simp: strip_prefix_def starts_with_iff)

section \<open>Trimming\<close>

definition trim_start_by :: "(uchar \<Rightarrow> bool) \<Rightarrow> ustr \<Rightarrow> ustr" where
  "trim_start_by p s = dropWhile p s"

definition trim_end_by :: "(uchar \<Rightarrow> bool) \<Rightarrow> ustr \<Rightarrow> ustr" where
  "trim_end_by p s = rev (dropWhile p (rev s))"

definition trim_by :: "(uchar \<Rightarrow> bool) \<Rightarrow> ustr \<Rightarrow> ustr" where
  "trim_by p s = trim_end_by p (trim_start_by p s)"

abbreviation trim_start :: "ustr \<Rightarrow> ustr" where "trim_start \<equiv> trim_start_by is_ws"
abbreviation trim_end :: "ustr \<Rightarrow> ustr" where "trim_end \<equiv> trim_end_by is_ws"
abbreviation trim :: "ustr \<Rightarrow> ustr" where "trim \<equiv> trim_by is_ws"

text \<open>\<open>trim_end_matches('/')\<close> and its kin: every trailing occurrence of one character.\<close>

abbreviation trim_end_char :: "uchar \<Rightarrow> ustr \<Rightarrow> ustr" where
  "trim_end_char c \<equiv> trim_end_by (\<lambda>x. x = c)"
abbreviation trim_start_char :: "uchar \<Rightarrow> ustr \<Rightarrow> ustr" where
  "trim_start_char c \<equiv> trim_start_by (\<lambda>x. x = c)"

lemmas trim_defs = trim_by_def trim_start_by_def trim_end_by_def

lemma trim_by_Nil [simp]: "trim_by p [] = []" "trim_start_by p [] = []" "trim_end_by p [] = []"
  by (simp_all add: trim_defs)

lemma trim_end_by_suffix: "\<exists>t. s = trim_end_by p s @ t \<and> (\<forall>c \<in> set t. p c)"
proof -
  have "s = rev (dropWhile p (rev s)) @ rev (takeWhile p (rev s))"
    by (metis rev_append rev_rev_ident takeWhile_dropWhile_id)
  moreover have "\<forall>c \<in> set (rev (takeWhile p (rev s))). p c"
    by (auto dest: set_takeWhileD)
  ultimately show ?thesis
    unfolding trim_end_by_def by blast
qed

lemma trim_end_by_last: "trim_end_by p s = [] \<or> \<not> p (last (trim_end_by p s))"
  unfolding trim_end_by_def by (metis hd_dropWhile last_rev rev.simps(1))

lemma trim_end_by_idem [simp]: "trim_end_by p (trim_end_by p s) = trim_end_by p s"
  by (simp add: trim_end_by_def)

lemma trim_start_by_hd: "trim_start_by p s = [] \<or> \<not> p (hd (trim_start_by p s))"
  unfolding trim_start_by_def by (metis hd_dropWhile)

lemma trim_end_by_id: "s \<noteq> [] \<Longrightarrow> \<not> p (last s) \<Longrightarrow> trim_end_by p s = s"
  unfolding trim_end_by_def
  by (metis dropWhile_eq_self_iff hd_rev rev_rev_ident)

lemma trim_start_by_id: "s \<noteq> [] \<Longrightarrow> \<not> p (hd s) \<Longrightarrow> trim_start_by p s = s"
  unfolding trim_start_by_def by (simp add: dropWhile_eq_self_iff)

lemma trim_by_ends:
  assumes "trim_by p s \<noteq> []"
  shows "\<not> p (hd (trim_by p s))" and "\<not> p (last (trim_by p s))"
proof -
  let ?m = "trim_start_by p s"
  obtain t where t: "?m = trim_by p s @ t"
    using trim_end_by_suffix [of ?m p] unfolding trim_by_def by blast
  then have "hd ?m = hd (trim_by p s)" and "?m \<noteq> []"
    using assms by auto
  then show "\<not> p (hd (trim_by p s))"
    using trim_start_by_hd [of p s] by auto
  show "\<not> p (last (trim_by p s))"
    using assms trim_end_by_last [of p ?m] unfolding trim_by_def by blast
qed

lemma trim_by_id: "s \<noteq> [] \<Longrightarrow> \<not> p (hd s) \<Longrightarrow> \<not> p (last s) \<Longrightarrow> trim_by p s = s"
  by (simp add: trim_by_def trim_start_by_id trim_end_by_id)

lemma trim_by_idem [simp]: "trim_by p (trim_by p s) = trim_by p s"
proof (cases "trim_by p s = []")
  case False
  then show ?thesis by (simp add: trim_by_id trim_by_ends)
qed simp

section \<open>Searching and splitting\<close>

text \<open>\<open>str::find(&str)\<close>: offset of the first occurrence.\<close>

fun find_str :: "ustr \<Rightarrow> ustr \<Rightarrow> nat option" where
  "find_str pat [] = (if pat = [] then Some 0 else None)"
| "find_str pat (c # s) =
     (if starts_with (c # s) pat then Some 0 else map_option Suc (find_str pat s))"

definition contains :: "ustr \<Rightarrow> ustr \<Rightarrow> bool" where
  "contains s pat \<longleftrightarrow> find_str pat s \<noteq> None"

lemma find_str_Some: "find_str pat s = Some i \<Longrightarrow> \<exists>t. s = take i s @ pat @ t"
proof (induction s arbitrary: i)
  case Nil
  then show ?case by (auto split: if_splits)
next
  case (Cons c s)
  show ?case
  proof (cases "starts_with (c # s) pat")
    case True
    with Cons.prems show ?thesis by (auto simp: starts_with_iff)
  next
    case False
    with Cons.prems obtain j where "find_str pat s = Some j" and "i = Suc j" by auto
    with Cons.IH show ?thesis by auto
  qed
qed

lemma find_str_here: "starts_with s pat \<Longrightarrow> find_str pat s = Some 0"
  by (cases s) (auto simp: starts_with_def)

lemma find_str_app: "find_str pat (a @ pat @ b) \<noteq> None"
  by (induction a) (auto simp: find_str_here)

lemma contains_iff: "contains s pat \<longleftrightarrow> (\<exists>a b. s = a @ pat @ b)"
  unfolding contains_def using find_str_Some find_str_app by fastforce

text \<open>\<open>split_once(c)\<close> and \<open>rsplit_once(c)\<close>: around the first, or the last, occurrence.\<close>

definition split_once :: "uchar \<Rightarrow> ustr \<Rightarrow> (ustr \<times> ustr) option" where
  "split_once c s =
     (if c \<in> set s then Some (takeWhile (\<lambda>x. x \<noteq> c) s, tl (dropWhile (\<lambda>x. x \<noteq> c) s)) else None)"

definition rsplit_once :: "uchar \<Rightarrow> ustr \<Rightarrow> (ustr \<times> ustr) option" where
  "rsplit_once c s =
     (if c \<in> set s
      then Some (rev (tl (dropWhile (\<lambda>x. x \<noteq> c) (rev s))), rev (takeWhile (\<lambda>x. x \<noteq> c) (rev s)))
      else None)"

lemma split_once_Some: "split_once c s = Some (a, b) \<longleftrightarrow> s = a @ c # b \<and> c \<notin> set a"
proof
  assume l: "split_once c s = Some (a, b)"
  then have c: "c \<in> set s" and a: "a = takeWhile (\<lambda>x. x \<noteq> c) s"
    and b: "b = tl (dropWhile (\<lambda>x. x \<noteq> c) s)"
    by (auto simp: split_once_def split: if_splits)
  from c have "dropWhile (\<lambda>x. x \<noteq> c) s \<noteq> []" by (auto simp: dropWhile_eq_Nil_conv)
  then have "dropWhile (\<lambda>x. x \<noteq> c) s = c # b"
    unfolding b by (metis (mono_tags, lifting) hd_dropWhile list.collapse)
  then show "s = a @ c # b \<and> c \<notin> set a"
    unfolding a by (metis (mono_tags, lifting) set_takeWhileD takeWhile_dropWhile_id)
next
  assume r: "s = a @ c # b \<and> c \<notin> set a"
  then have "takeWhile (\<lambda>x. x \<noteq> c) s = a" "dropWhile (\<lambda>x. x \<noteq> c) s = c # b"
    by (auto simp: takeWhile_append dropWhile_append)
  with r show "split_once c s = Some (a, b)" by (simp add: split_once_def)
qed

lemma split_once_None: "split_once c s = None \<longleftrightarrow> c \<notin> set s"
  by (simp add: split_once_def)

lemma rsplit_once_Some: "rsplit_once c s = Some (a, b) \<longleftrightarrow> s = a @ c # b \<and> c \<notin> set b"
proof -
  have "rsplit_once c s = map_option (\<lambda>(x, y). (rev y, rev x)) (split_once c (rev s))"
    by (simp add: rsplit_once_def split_once_def)
  also have "\<dots> = Some (a, b) \<longleftrightarrow> split_once c (rev s) = Some (rev b, rev a)"
    by auto
  also have "\<dots> \<longleftrightarrow> rev s = rev b @ c # rev a \<and> c \<notin> set b"
    by (simp add: split_once_Some)
  also have "rev s = rev b @ c # rev a \<longleftrightarrow> s = a @ c # b"
    by (metis append.assoc append_Cons append_Nil rev.simps(2) rev_append rev_rev_ident)
  finally show ?thesis .
qed

text \<open>\<open>str::split\<close> on the characters of a class: always at least one piece.\<close>

fun split_on :: "(uchar \<Rightarrow> bool) \<Rightarrow> ustr \<Rightarrow> ustr list" where
  "split_on p [] = [[]]"
| "split_on p (c # s) =
     (if p c then [] # split_on p s
      else (case split_on p s of [] \<Rightarrow> [[c]] | w # ws \<Rightarrow> (c # w) # ws))"

lemma split_on_ne [simp]: "split_on p s \<noteq> []"
  by (induction s) (auto split: list.split)

lemma split_on_clean: "w \<in> set (split_on p s) \<Longrightarrow> c \<in> set w \<Longrightarrow> \<not> p c"
proof (induction s arbitrary: w)
  case (Cons d s)
  obtain v vs where "split_on p s = v # vs"
    by (meson list.exhaust split_on_ne)
  moreover from this Cons.IH [of v] have "c \<in> set v \<Longrightarrow> \<not> p c" by simp
  ultimately show ?case using Cons by (auto split: if_splits)
qed simp

text \<open>\<open>split_whitespace\<close>: the non-empty pieces.\<close>

definition split_whitespace :: "ustr \<Rightarrow> ustr list" where
  "split_whitespace s = filter (\<lambda>w. w \<noteq> []) (split_on is_ws s)"

text \<open>\<open>str::lines\<close>: pieces between line feeds, a final empty one and one trailing carriage
  return of each dropped.\<close>

definition strip_cr :: "ustr \<Rightarrow> ustr" where
  "strip_cr l = (if l \<noteq> [] \<and> last l = 13 then butlast l else l)"

definition str_lines :: "ustr \<Rightarrow> ustr list" where
  "str_lines s =
     (let ps = split_on (\<lambda>c. c = 10) s
      in map strip_cr (butlast ps) @ (if last ps = [] then [] else [last ps]))"

text \<open>\<open>[String]::join\<close>.\<close>

fun join :: "ustr \<Rightarrow> ustr list \<Rightarrow> ustr" where
  "join sep [] = []"
| "join sep [w] = w"
| "join sep (w # v # ws) = w @ sep @ join sep (v # ws)"

lemma join_Cons: "ws \<noteq> [] \<Longrightarrow> join sep (w # ws) = w @ sep @ join sep ws"
  by (cases ws) auto

lemma join_split_on: "join [c] (split_on (\<lambda>x. x = c) s) = s"
proof (induction s)
  case Nil
  then show ?case by simp
next
  case (Cons x s)
  obtain w ws where ws: "split_on (\<lambda>x. x = c) s = w # ws"
    by (meson list.exhaust split_on_ne)
  with Cons show ?case by (cases ws) auto
qed

lemma split_on_no_sep: "(\<forall>c \<in> set s. \<not> p c) \<Longrightarrow> split_on p s = [s]"
  by (induction s) auto

lemma split_on_app_sep: "(\<forall>x \<in> set a. \<not> p x) \<Longrightarrow> p c \<Longrightarrow> split_on p (a @ c # b) = a # split_on p b"
  by (induction a) auto

text \<open>\<open>trim_start_matches(&str)\<close>, \<open>trim_end_matches(&str)\<close>: every occurrence.\<close>

function trim_start_str :: "ustr \<Rightarrow> ustr \<Rightarrow> ustr" where
  "trim_start_str p s = (if p \<noteq> [] \<and> starts_with s p then trim_start_str p (drop (length p) s) else s)"
  by pat_completeness auto
termination by (relation "measure (length \<circ> snd)") (auto simp: starts_with_iff)

declare trim_start_str.simps [simp del]

definition trim_end_str :: "ustr \<Rightarrow> ustr \<Rightarrow> ustr" where
  "trim_end_str p s = rev (trim_start_str (rev p) (rev s))"

text \<open>\<open>str::replace\<close> and \<open>str::replacen(_, _, 1)\<close>. An empty pattern stands between any two
  characters and at both ends.\<close>

function replace_str :: "ustr \<Rightarrow> ustr \<Rightarrow> ustr \<Rightarrow> ustr" where
  "replace_str p r s =
     (if p = [] then r @ concat (map (\<lambda>c. c # r) s)
      else case find_str p s of
             None \<Rightarrow> s
           | Some i \<Rightarrow> take i s @ r @ replace_str p r (drop (i + length p) s))"
  by pat_completeness auto
termination
proof (relation "measure (\<lambda>(p, r, s). length s)", goal_cases)
  case (2 p r s i)
  then obtain t where "s = take i s @ p @ t" using find_str_Some by blast
  then have "length s = length (take i s) + length p + length t" by (metis add.assoc length_append)
  with 2 show ?case by (cases s) auto
qed simp

declare replace_str.simps [simp del]

definition replace_first :: "ustr \<Rightarrow> ustr \<Rightarrow> ustr \<Rightarrow> ustr" where
  "replace_first p r s =
     (case find_str p s of None \<Rightarrow> s | Some i \<Rightarrow> take i s @ r @ drop (i + length p) s)"

text \<open>\<open>str::splitn(n, char)\<close>\<close>

fun splitn :: "nat \<Rightarrow> uchar \<Rightarrow> ustr \<Rightarrow> ustr list" where
  "splitn 0 c s = []"
| "splitn (Suc n) c s =
     (if n = 0 then [s]
      else case split_once c s of None \<Rightarrow> [s] | Some (a, b) \<Rightarrow> a # splitn n c b)"

section \<open>Numbers as text\<close>

fun dec :: "nat \<Rightarrow> ustr" where
  "dec n = (if n < 10 then [48 + n] else dec (n div 10) @ [48 + n mod 10])"

declare dec.simps [simp del]

text \<open>\<open>{:02}\<close> and \<open>{:02x}\<close>.\<close>

definition dec2 :: "nat \<Rightarrow> ustr" where
  "dec2 n = (if n < 10 then 48 # dec n else dec n)"

definition hex_digit :: "nat \<Rightarrow> uchar" where
  "hex_digit n = (if n < 10 then 48 + n else 87 + n)"

definition hex2 :: "nat \<Rightarrow> ustr" where
  "hex2 b = [hex_digit (b div 16 mod 16), hex_digit (b mod 16)]"

text \<open>\<open>format!("{n}")\<close> of a signed integer.\<close>

definition show_int :: "int \<Rightarrow> ustr" where
  "show_int i = (if i < 0 then 45 # dec (nat (- i)) else dec (nat i))"

text \<open>\<open>str::parse\<close> to an unsigned integer of \<open>w\<close> bits: an optional plus sign, at least one digit,
  no overflow.\<close>

definition digits_val :: "ustr \<Rightarrow> nat" where
  "digits_val s = foldl (\<lambda>v c. 10 * v + (c - 48)) 0 s"

definition parse_uint :: "nat \<Rightarrow> ustr \<Rightarrow> nat option" where
  "parse_uint w s =
     (let t = (if s \<noteq> [] \<and> hd s = 43 then tl s else s)
      in if t \<noteq> [] \<and> list_all is_ascii_digit t \<and> digits_val t < 2 ^ w
         then Some (digits_val t) else None)"

lemma dec_ne [simp]: "dec n \<noteq> []"
  by (subst dec.simps) simp

lemma dec_digits: "c \<in> set (dec n) \<Longrightarrow> is_ascii_digit c"
proof (induction n rule: dec.induct)
  case (1 n)
  show ?case
  proof (cases "n < 10")
    case True
    with "1.prems" show ?thesis by (simp add: dec.simps [of n] is_ascii_digit_def)
  next
    case False
    then have "c \<in> set (dec (n div 10)) \<or> c = 48 + n mod 10"
      using "1.prems" by (auto simp: dec.simps [of n])
    then show ?thesis
      using "1.IH" False by (auto simp: is_ascii_digit_def)
  qed
qed

lemma digits_val_snoc: "digits_val (s @ [c]) = 10 * digits_val s + (c - 48)"
  by (simp add: digits_val_def)

lemma digits_val_dec [simp]: "digits_val (dec n) = n"
proof (induction n rule: dec.induct)
  case (1 n)
  show ?case
  proof (cases "n < 10")
    case True
    then show ?thesis by (simp add: dec.simps [of n] digits_val_def)
  next
    case False
    with 1 show ?thesis by (simp add: dec.simps [of n] digits_val_snoc)
  qed
qed

lemma parse_uint_dec: "n < 2 ^ w \<Longrightarrow> parse_uint w (dec n) = Some n"
proof -
  assume n: "n < 2 ^ w"
  have "hd (dec n) \<in> set (dec n)" by simp
  then have "hd (dec n) \<noteq> 43" using dec_digits [of "hd (dec n)" n] by (auto simp: is_ascii_digit_def)
  moreover have "list_all is_ascii_digit (dec n)" by (simp add: list_all_iff dec_digits)
  ultimately show ?thesis using n by (simp add: parse_uint_def)
qed

end
