(* ===== verification/DeployDb.thy ===== *)
theory DeployDb
  imports RustStr
begin

text \<open>
  The tables of the control plane that the deployment queue reads and writes
  (\<open>apps/server/src/db.rs\<close>: \<open>projects\<close>, \<open>deployments\<close>, \<open>builder_events\<close>), and the SQL the
  queue runs on them. A table is the list of its rows; an \<open>UPDATE ... WHERE\<close> maps the rows
  its predicate holds of and returns them, a \<open>SELECT\<close> filters. A query can fail
  (\<open>sqlx::Error\<close>): the field \<open>faults\<close> is the schedule of the connection, one entry per
  query, true for a query that fails without an effect, empty once nothing fails any more.
\<close>

section \<open>Rows\<close>

text \<open>Time stamps are RFC 3339 texts of \<open>now_str\<close>, compared as texts.\<close>

type_synonym ts = ustr

text \<open>The values of \<open>deployments.status\<close> that the queries tell apart.\<close>

datatype dep_status =
    Queued | Running | Building | Pending | Deploying
  | Success | Deployed | OkStatus | Ready
  | Failed | ErrorStatus | Cancelled | Canceled
  | OtherStatus ustr

datatype proj_status = Live | ProjFailed | Idle | ProjDeploying | OtherProj ustr

record deployment =
  d_uuid :: ustr
  d_project :: int
  d_status :: dep_status
  d_env :: ustr
  d_git_sha :: "ustr option"
  d_target_sha :: "ustr option"
  d_logs :: "ustr option"
  d_error_summary :: "ustr option"
  d_error_hint :: "ustr option"
  d_live_sha :: "ustr option"
  d_finished_at :: "ts option"
  d_dismissed_at :: "ts option"
  d_created_at :: ts
  d_updated_at :: ts

record project =
  p_id :: int
  p_uuid :: ustr
  p_name :: ustr
  p_status :: proj_status
  p_server_id :: "ustr option"
  p_updated_at :: "ts option"

record event =
  ev_project :: ustr
  ev_kind :: ustr
  ev_status :: ustr
  ev_ref :: ustr
  ev_detail :: ustr
  ev_at :: ts

record db =
  deployments :: "deployment list"
  projects :: "project list"
  events :: "event list"
  faults :: "bool list"

datatype sql_error = SqlxError

definition production :: ustr where "production = lit ''production''"

section \<open>Queries\<close>

text \<open>Every query goes through the connection, which may fail it.\<close>

definition sql :: "(db \<Rightarrow> db \<times> 'a) \<Rightarrow> db \<Rightarrow> db \<times> 'a option" where
  "sql q s =
     (case faults s of
        [] \<Rightarrow> (case q s of (s', r) \<Rightarrow> (s', Some r))
      | f # fs \<Rightarrow>
          if f then (s\<lparr>faults := fs\<rparr>, None)
          else (case q (s\<lparr>faults := fs\<rparr>) of (s', r) \<Rightarrow> (s', Some r)))"

definition upd_deps :: "(deployment \<Rightarrow> bool) \<Rightarrow> (deployment \<Rightarrow> deployment) \<Rightarrow> db \<Rightarrow> db \<times> deployment list" where
  "upd_deps p f s =
     (s\<lparr>deployments := map (\<lambda>d. if p d then f d else d) (deployments s)\<rparr>,
      map f (filter p (deployments s)))"

definition sel_deps :: "(deployment \<Rightarrow> bool) \<Rightarrow> db \<Rightarrow> db \<times> deployment list" where
  "sel_deps p s = (s, filter p (deployments s))"

definition upd_projs :: "(project \<Rightarrow> bool) \<Rightarrow> (project \<Rightarrow> project) \<Rightarrow> db \<Rightarrow> db \<times> project list" where
  "upd_projs p f s =
     (s\<lparr>projects := map (\<lambda>r. if p r then f r else r) (projects s)\<rparr>,
      map f (filter p (projects s)))"

definition insert_event :: "event \<Rightarrow> db \<Rightarrow> db \<times> unit" where
  "insert_event e s = (s\<lparr>events := events s @ [e]\<rparr>, ())"

lemmas query_defs = upd_deps_def sel_deps_def upd_projs_def insert_event_def

text \<open>Rows by key.\<close>

definition dep_of :: "db \<Rightarrow> ustr \<Rightarrow> deployment option" where
  "dep_of s u = find (\<lambda>d. d_uuid d = u) (deployments s)"

definition proj_of :: "db \<Rightarrow> int \<Rightarrow> project option" where
  "proj_of s i = find (\<lambda>p. p_id p = i) (projects s)"

text \<open>\<open>uuid\<close> is \<open>UNIQUE\<close> in \<open>deployments\<close>, \<open>id\<close> is the primary key of \<open>projects\<close>.\<close>

definition db_wf :: "db \<Rightarrow> bool" where
  "db_wf s \<longleftrightarrow> distinct (map d_uuid (deployments s)) \<and> distinct (map p_id (projects s))"

section \<open>Status classes\<close>

text \<open>\<open>status IN ('queued', 'running', 'building')\<close>.\<close>

fun active3 :: "dep_status \<Rightarrow> bool" where
  "active3 Queued = True"
| "active3 Running = True"
| "active3 Building = True"
| "active3 _ = False"

text \<open>\<open>status IN ('queued', 'running', 'building', 'pending', 'deploying')\<close>.\<close>

fun active5 :: "dep_status \<Rightarrow> bool" where
  "active5 Pending = True"
| "active5 Deploying = True"
| "active5 st = active3 st"

fun succeeded :: "dep_status \<Rightarrow> bool" where
  "succeeded Success = True"
| "succeeded Deployed = True"
| "succeeded OkStatus = True"
| "succeeded _ = False"

fun failed :: "dep_status \<Rightarrow> bool" where
  "failed Failed = True"
| "failed ErrorStatus = True"
| "failed _ = False"

lemma active3_active5: "active3 st \<Longrightarrow> active5 st"
  by (cases st) auto

lemma active5_not_settled: "active5 st \<Longrightarrow> \<not> succeeded st \<and> \<not> failed st"
  by (cases st) auto

section \<open>Generic facts of the queries\<close>

text \<open>What holds of a query's effect holds of the query sent through the connection.\<close>

lemma sql_cases:
  obtains (fault) "sql q s = (s\<lparr>faults := tl (faults s)\<rparr>, None)" "faults s \<noteq> []"
  | (ran) s0 s' r where "s0 = s\<lparr>faults := tl (faults s)\<rparr>" "q s0 = (s', r)" "sql q s = (s', Some r)"
proof (cases "faults s")
  case Nil
  then have "s\<lparr>faults := tl (faults s)\<rparr> = s" by simp
  then show ?thesis
    using Nil that(2) [of s "fst (q s)" "snd (q s)"] by (simp add: sql_def split: prod.split)
next
  case (Cons f fs)
  let ?s0 = "s\<lparr>faults := fs\<rparr>"
  show ?thesis
  proof (cases f)
    case True
    then show ?thesis using Cons that(1) by (simp add: sql_def)
  next
    case False
    then show ?thesis
      using Cons that(2) [of ?s0 "fst (q ?s0)" "snd (q ?s0)"] by (simp add: sql_def split: prod.split)
  qed
qed

text \<open>The effect of a query on the rows of one table, whatever the connection does.\<close>

lemma sql_inv:
  assumes "sql q s = (s', r)"
    and "P (s\<lparr>faults := tl (faults s)\<rparr>)"
    and "\<And>s0 s1 x. P s0 \<Longrightarrow> q s0 = (s1, x) \<Longrightarrow> P s1"
  shows "P s'"
  using assms by (cases q s rule: sql_cases) auto

lemma sql_nofault [sql_simps]:
  "faults s = [] \<Longrightarrow> sql q s = (case q s of (s', r) \<Rightarrow> (s', Some r))"
  by (simp add: sql_def)

lemma upd_deps_proj [simp]:
  "projects (fst (upd_deps p f s)) = projects s"
  "events (fst (upd_deps p f s)) = events s"
  "faults (fst (upd_deps p f s)) = faults s"
  "deployments (fst (upd_deps p f s)) = map (\<lambda>d. if p d then f d else d) (deployments s)"
  by (simp_all add: upd_deps_def)

lemma upd_projs_proj [simp]:
  "deployments (fst (upd_projs p f s)) = deployments s"
  "events (fst (upd_projs p f s)) = events s"
  "faults (fst (upd_projs p f s)) = faults s"
  "projects (fst (upd_projs p f s)) = map (\<lambda>r. if p r then f r else r) (projects s)"
  by (simp_all add: upd_projs_def)

lemma sel_deps_simp [simp]: "sel_deps p s = (s, filter p (deployments s))"
  by (simp add: sel_deps_def)

lemma dep_of_map:
  assumes "\<And>d. d_uuid (f d) = d_uuid d"
  shows "find (\<lambda>d. d_uuid d = u) (map (\<lambda>d. if p d then f d else d) ds)
       = map_option (\<lambda>d. if p d then f d else d) (find (\<lambda>d. d_uuid d = u) ds)"
  by (rule find_map_key) (simp add: assms)

lemma dep_of_mem: "dep_of s u = Some d \<Longrightarrow> d \<in> set (deployments s) \<and> d_uuid d = u"
  by (auto simp: dep_of_def find_Some_iff)

lemma proj_of_id: "proj_of s i = Some p \<Longrightarrow> p_id p = i"
  by (auto simp: proj_of_def find_Some_iff)

lemma dep_of_unique:
  assumes "db_wf s" and "d \<in> set (deployments s)"
  shows "dep_of s (d_uuid d) = Some d"
proof -
  have "distinct (map d_uuid ds) \<Longrightarrow> d \<in> set ds \<Longrightarrow> find (\<lambda>e. d_uuid e = d_uuid d) ds = Some d" for ds
    by (induction ds) auto
  then show ?thesis using assms by (simp add: dep_of_def db_wf_def)
qed

lemma dep_of_cong: "deployments s = deployments t \<Longrightarrow> dep_of s u = dep_of t u"
  by (simp add: dep_of_def)

lemma proj_of_cong: "projects s = projects t \<Longrightarrow> proj_of s i = proj_of t i"
  by (simp add: proj_of_def)

lemma dep_of_faults [simp]: "dep_of (s\<lparr>faults := fs\<rparr>) u = dep_of s u"
  by (simp add: dep_of_def)

lemma proj_of_map:
  assumes "\<And>r. p_id (f r) = p_id r"
  shows "find (\<lambda>r. p_id r = i) (map (\<lambda>r. if p r then f r else r) rs)
       = map_option (\<lambda>r. if p r then f r else r) (find (\<lambda>r. p_id r = i) rs)"
  by (rule find_map_key) (simp add: assms)

end
