(* ===== verification/Json.thy ===== *)
theory Json
  imports RustStr
begin

text \<open>
  \<open>serde_json::Value\<close> as the source builds and reads it. An object is the list of its
  entries in key order (the \<open>BTreeMap\<close> behind \<open>serde_json::Map\<close> without
  \<open>preserve_order\<close>); a number is the text it was written with. Parsing and printing are
  the library's and are arguments of the definitions that use them.
\<close>

datatype json =
    JNull
  | JBool bool
  | JNum ustr
  | JStr ustr
  | JArr "json list"
  | JObj "(ustr \<times> json) list"

text \<open>\<open>Value::get(key)\<close>, \<open>as_str\<close>, \<open>as_bool\<close>.\<close>

fun jget :: "ustr \<Rightarrow> json \<Rightarrow> json option" where
  "jget k (JObj m) = map_of m k"
| "jget k _ = None"

fun as_str :: "json \<Rightarrow> ustr option" where
  "as_str (JStr s) = Some s"
| "as_str _ = None"

fun as_bool :: "json \<Rightarrow> bool option" where
  "as_bool (JBool b) = Some b"
| "as_bool _ = None"

abbreviation jgets :: "string \<Rightarrow> json \<Rightarrow> json option" where
  "jgets k \<equiv> jget (lit k)"

text \<open>\<open>Map::insert\<close>: replaces the entry of the key, or adds it in key order.\<close>

fun jinsert :: "ustr \<Rightarrow> json \<Rightarrow> (ustr \<times> json) list \<Rightarrow> (ustr \<times> json) list" where
  "jinsert k v [] = [(k, v)]"
| "jinsert k v ((l, w) # m) =
     (if k = l then (k, v) # m
      else if k < l then (k, v) # (l, w) # m
      else (l, w) # jinsert k v m)"

text \<open>Well-formed values: the keys of every object strictly increase.\<close>

fun json_wf :: "json \<Rightarrow> bool" where
  "json_wf (JArr vs) = (\<forall>v \<in> set vs. json_wf v)"
| "json_wf (JObj m) = (sorted_wrt (<) (map fst m) \<and> (\<forall>e \<in> set m. json_wf (snd e)))"
| "json_wf _ = True"

lemma map_of_jinsert: "map_of (jinsert k v m) = (map_of m)(k \<mapsto> v)"
  by (induction m) (auto simp: fun_eq_iff)

lemma set_jinsert: "set (map fst (jinsert k v m)) = insert k (set (map fst m))"
  by (induction k v m rule: jinsert.induct) auto

lemma sorted_jinsert:
  "sorted_wrt (<) (map fst m) \<Longrightarrow> sorted_wrt (<) (map fst (jinsert k v m))"
proof (induction m)
  case (Cons e m)
  obtain l w where e: "e = (l, w)" by (cases e)
  from Cons have "sorted_wrt (<) (map fst (jinsert k v m))" by simp
  with Cons.prems show ?case
    using set_jinsert [of k v m] by (auto simp: e)
qed simp

end
