(* ===== verification/DeployQueue.thy ===== *)
theory DeployQueue
  imports DeployDb Json
begin

text \<open>
  \<open>apps/server/src/deploy_queue.rs\<close>: one deployment at a time per node, cancellation
  tokens, and the SQL that moves a deployment through its statuses. The queue's own state
  is the record \<open>queue\<close>; the database is threaded as the second component. The channels of
  \<open>tokio::sync::watch\<close> are a parameter (\<open>watch_ops\<close>) with its documented behaviour as the
  hypothesis \<open>watch_ok\<close>.
\<close>

section \<open>Watch channels\<close>

record 'c watch_ops =
  w_channel :: 'c
  w_send :: "bool \<Rightarrow> 'c \<Rightarrow> 'c"
  w_subscribe :: "'c \<Rightarrow> 'c"
  w_drop_rx :: "'c \<Rightarrow> 'c"
  w_value :: "'c \<Rightarrow> bool"
  w_receivers :: "'c \<Rightarrow> nat"

text \<open>
  \<open>watch::channel(false)\<close> starts at false with one receiver; \<open>Sender::send\<close> stores the value
  when some receiver is alive and fails without an effect when none is; \<open>subscribe\<close> adds a
  receiver, dropping one removes it, and neither changes the value.
\<close>

definition watch_ok :: "'c watch_ops \<Rightarrow> bool" where
  "watch_ok W \<longleftrightarrow>
     \<not> w_value W (w_channel W) \<and> w_receivers W (w_channel W) = 1
   \<and> (\<forall>b c. w_receivers W (w_send W b c) = w_receivers W c)
   \<and> (\<forall>b c. w_receivers W c > 0 \<longrightarrow> w_value W (w_send W b c) = b)
   \<and> (\<forall>b c. w_receivers W c = 0 \<longrightarrow> w_value W (w_send W b c) = w_value W c)
   \<and> (\<forall>c. w_value W (w_subscribe W c) = w_value W c \<and> w_receivers W (w_subscribe W c) = Suc (w_receivers W c))
   \<and> (\<forall>c. w_value W (w_drop_rx W c) = w_value W c \<and> w_receivers W (w_drop_rx W c) = w_receivers W c - 1)"

text \<open>A concrete channel: its value and the number of its receivers.\<close>

definition pair_watch :: "(bool \<times> nat) watch_ops" where
  "pair_watch = \<lparr>w_channel = (False, 1),
     w_send = (\<lambda>b c. if snd c > 0 then (b, snd c) else c),
     w_subscribe = (\<lambda>c. (fst c, Suc (snd c))),
     w_drop_rx = (\<lambda>c. (fst c, snd c - 1)),
     w_value = fst, w_receivers = snd\<rparr>"

lemma pair_watch_ok: "watch_ok pair_watch"
  by (simp add: watch_ok_def pair_watch_def)

section \<open>The queue\<close>

text \<open>
  \<open>slots\<close>: the mutex of a node, once it has been asked for, with the deployment that holds
  it; \<open>cancels\<close>: the sender of a deployment's token; \<open>starts\<close>: the start mutex of a project.
\<close>

record 'c queue =
  slots :: "ustr \<rightharpoonup> ustr option"
  cancels :: "ustr \<rightharpoonup> 'c"
  starts :: "int \<rightharpoonup> ustr option"

definition new_queue :: "'c queue" where
  "new_queue = \<lparr>slots = Map.empty, cancels = Map.empty, starts = Map.empty\<rparr>"

definition slot_key :: "ustr \<Rightarrow> ustr" where
  "slot_key server_id = (let t = trim server_id in if t = [] then lit ''default'' else t)"

text \<open>A slot is taken only when it is free: \<open>None\<close> is the caller blocked on the mutex.\<close>

definition acquire :: "ustr \<Rightarrow> ustr \<Rightarrow> 'c queue \<Rightarrow> 'c queue option" where
  "acquire server_id who q =
     (case slots q (slot_key server_id) of
        Some (Some _) \<Rightarrow> None
      | _ \<Rightarrow> Some (q\<lparr>slots := (slots q)(slot_key server_id \<mapsto> Some who)\<rparr>))"

text \<open>Dropping the guard.\<close>

definition release :: "ustr \<Rightarrow> 'c queue \<Rightarrow> 'c queue" where
  "release server_id q = q\<lparr>slots := (slots q)(slot_key server_id \<mapsto> None)\<rparr>"

definition is_busy :: "ustr \<Rightarrow> 'c queue \<Rightarrow> bool" where
  "is_busy server_id q = (case slots q (slot_key server_id) of Some (Some _) \<Rightarrow> True | _ \<Rightarrow> False)"

definition lock_project_start :: "int \<Rightarrow> ustr \<Rightarrow> 'c queue \<Rightarrow> 'c queue option" where
  "lock_project_start pid who q =
     (case starts q pid of
        Some (Some _) \<Rightarrow> None
      | _ \<Rightarrow> Some (q\<lparr>starts := (starts q)(pid \<mapsto> Some who)\<rparr>))"

definition unlock_project_start :: "int \<Rightarrow> 'c queue \<Rightarrow> 'c queue" where
  "unlock_project_start pid q = q\<lparr>starts := (starts q)(pid \<mapsto> None)\<rparr>"

text \<open>The token replaced by a second registration is signalled; it is the second result.\<close>

definition register_cancel :: "'c watch_ops \<Rightarrow> ustr \<Rightarrow> 'c queue \<Rightarrow> 'c queue \<times> 'c option" where
  "register_cancel W u q =
     (q\<lparr>cancels := (cancels q)(u \<mapsto> w_channel W)\<rparr>, map_option (w_send W True) (cancels q u))"

definition has_live_task :: "'c watch_ops \<Rightarrow> ustr \<Rightarrow> 'c queue \<Rightarrow> bool" where
  "has_live_task W u q = is_some_and (cancels q u) (\<lambda>c. w_receivers W c > 0)"

definition unregister_cancel :: "ustr \<Rightarrow> 'c queue \<Rightarrow> 'c queue" where
  "unregister_cancel u q = q\<lparr>cancels := (cancels q)(u := None)\<rparr>"

definition signal_cancel :: "'c watch_ops \<Rightarrow> ustr \<Rightarrow> 'c queue \<Rightarrow> 'c queue" where
  "signal_cancel W u q =
     (case cancels q u of None \<Rightarrow> q | Some c \<Rightarrow> q\<lparr>cancels := (cancels q)(u \<mapsto> w_send W True c)\<rparr>)"

definition is_cancelled :: "'c watch_ops \<Rightarrow> ustr \<Rightarrow> 'c queue \<Rightarrow> bool" where
  "is_cancelled W u q = unwrap_or (map_option (w_value W) (cancels q u)) False"

section \<open>Texts written to the logs\<close>

definition e_acute :: ustr where "e_acute = [233]"

definition devforge_tag :: ustr where "devforge_tag = lit ''[devforge] ''"

definition note_superseded :: "ustr \<Rightarrow> ustr" where
  "note_superseded keep = [10] @ devforge_tag @ lit ''D'' @ e_acute @ lit ''ploiement annul'' @ e_acute
     @ lit '' : remplac'' @ e_acute @ lit '' par '' @ keep @ [10]"

definition summary_superseded :: ustr where
  "summary_superseded = lit ''Annul'' @ e_acute @ lit '' : un d'' @ e_acute @ lit ''ploiement plus r''
     @ e_acute @ lit ''cent a '' @ e_acute @ lit ''t'' @ e_acute @ lit '' lanc'' @ e_acute"

definition note_user_cancel :: ustr where
  "note_user_cancel = [10] @ devforge_tag @ lit ''D'' @ e_acute @ lit ''ploiement annul'' @ e_acute
     @ lit '' par l'utilisateur'' @ [10]"

definition summary_user_cancel :: ustr where
  "summary_user_cancel = lit ''Annul'' @ e_acute @ lit '' par l'utilisateur''"

definition note_orphan :: ustr where
  "note_orphan = [10] @ devforge_tag @ lit ''d'' @ e_acute @ lit ''ploiement interrompu (aucune t''
     @ [226] @ lit ''che active) '' @ [8212] @ lit '' marqu'' @ e_acute @ lit '' en '' @ e_acute
     @ lit ''chec.'' @ [10]"

definition summary_orphan :: ustr where
  "summary_orphan = lit ''D'' @ e_acute @ lit ''ploiement interrompu : aucune t'' @ [226]
     @ lit ''che active''"

definition note_requeued :: ustr where
  "note_requeued = [10] @ devforge_tag @ lit ''repris apr'' @ [232] @ lit ''s un red'' @ e_acute
     @ lit ''marrage.'' @ [10]"

definition waiting_note :: "ustr \<Rightarrow> (ustr \<times> ustr \<times> ustr) option \<Rightarrow> ustr" where
  "waiting_note server holder =
     devforge_tag @ lit ''en attente du n'' @ [339] @ lit ''ud '' @ [171, 32] @ server @ [32, 187] @
     (case holder of
        Some (name, env, uuid) \<Rightarrow>
          lit '' : occup'' @ e_acute @ lit '' par '' @ name @ lit '' ('' @ env @ lit '', '' @ take 8 uuid
          @ lit '') '' @ [8212] @ lit '' un seul build '' @ [224] @ lit '' la fois par n'' @ [339] @ lit ''ud.'' @ [10]
      | None \<Rightarrow>
          lit '' : un autre d'' @ e_acute @ lit ''ploiement est en cours '' @ [8212]
          @ lit '' un seul build '' @ [224] @ lit '' la fois par n'' @ [339] @ lit ''ud.'' @ [10])"

section \<open>Cancelling\<close>

text \<open>\<open>COALESCE(logs, '') || note\<close> and \<open>COALESCE(error_summary, text)\<close>.\<close>

definition append_log :: "ustr \<Rightarrow> deployment \<Rightarrow> deployment" where
  "append_log note d = d\<lparr>d_logs := Some (unwrap_or (d_logs d) [] @ note)\<rparr>"

definition close_row :: "dep_status \<Rightarrow> ustr \<Rightarrow> ustr \<Rightarrow> ts \<Rightarrow> deployment \<Rightarrow> deployment" where
  "close_row st note summary now d =
     (append_log note d)\<lparr>d_status := st,
       d_error_summary := Some (unwrap_or (d_error_summary d) summary),
       d_finished_at := Some now, d_updated_at := now\<rparr>"

text \<open>The environment the new deployment belongs to, \<open>'production'\<close> when it has no row.\<close>

definition keep_env :: "db \<Rightarrow> ustr \<Rightarrow> ustr" where
  "keep_env s keep = unwrap_or (map_option d_env (dep_of s keep)) production"

definition superseded_row :: "db \<Rightarrow> int \<Rightarrow> ustr \<Rightarrow> deployment \<Rightarrow> bool" where
  "superseded_row s pid keep d \<longleftrightarrow>
     d_project d = pid \<and> d_uuid d \<noteq> keep \<and> active3 (d_status d) \<and> d_env d = keep_env s keep"

definition supersede_in_progress ::
  "'c watch_ops \<Rightarrow> ts \<Rightarrow> int \<Rightarrow> ustr \<Rightarrow> 'c queue \<times> db \<Rightarrow> ('c queue \<times> db) \<times> ustr list" where
  "supersede_in_progress W now pid keep w =
     (let (q, s) = w;
          (s', rows) = sql (\<lambda>t. upd_deps (superseded_row t pid keep)
                                  (close_row Cancelled (note_superseded keep) summary_superseded now) t) s;
          uuids = map d_uuid (unwrap_or rows [])
      in ((fold (signal_cancel W) uuids q, s'), uuids))"

section \<open>The project's status\<close>

definition active_prod :: "int \<Rightarrow> deployment \<Rightarrow> bool" where
  "active_prod pid d \<longleftrightarrow> d_project d = pid \<and> d_env d = production \<and> active5 (d_status d)"

definition success_prod :: "int \<Rightarrow> deployment \<Rightarrow> bool" where
  "success_prod pid d \<longleftrightarrow> d_project d = pid \<and> d_env d = production \<and> succeeded (d_status d)"

definition open_failed_prod :: "int \<Rightarrow> deployment \<Rightarrow> bool" where
  "open_failed_prod pid d \<longleftrightarrow> d_project d = pid \<and> d_env d = production \<and> failed (d_status d)
     \<and> (d_dismissed_at d = None \<or> d_dismissed_at d = Some [])"

definition set_proj_status :: "proj_status \<Rightarrow> ts \<Rightarrow> project \<Rightarrow> project" where
  "set_proj_status st now p = p\<lparr>p_status := st, p_updated_at := Some now\<rparr>"

text \<open>\<open>SELECT COUNT(*)\<close>, with \<open>unwrap_or((0,))\<close> on a failed query.\<close>

definition count_deps :: "(deployment \<Rightarrow> bool) \<Rightarrow> db \<Rightarrow> db \<times> nat" where
  "count_deps p s = (let (s', rows) = sql (sel_deps p) s in (s', length (unwrap_or rows [])))"

definition write_proj_status :: "int \<Rightarrow> proj_status \<Rightarrow> ts \<Rightarrow> db \<Rightarrow> db" where
  "write_proj_status pid st now s =
     fst (sql (upd_projs (\<lambda>p. p_id p = pid) (set_proj_status st now)) s)"

definition recompute_project_status :: "ts \<Rightarrow> int \<Rightarrow> db \<Rightarrow> db \<times> (sql_error + unit)" where
  "recompute_project_status now pid s =
     (let (s1, active) = count_deps (active_prod pid) s in
      if active > 0 then (write_proj_status pid ProjDeploying now s1, Inr ())
      else
        (let (s2, has_success) = count_deps (success_prod pid) s1;
             (s3, open_failed) = count_deps (open_failed_prod pid) s2;
             st = (if has_success > 0 then Live else if open_failed > 0 then ProjFailed else Idle)
         in (write_proj_status pid st now s3, Inr ())))"

definition cancel_one_deployment ::
  "'c watch_ops \<Rightarrow> ts \<Rightarrow> ustr \<Rightarrow> 'c queue \<times> db \<Rightarrow> ('c queue \<times> db) \<times> (sql_error + bool)" where
  "cancel_one_deployment W now u w =
     (let (q, s) = w;
          (s1, rows) = sql (upd_deps (\<lambda>d. d_uuid d = u \<and> active5 (d_status d))
                              (close_row Cancelled note_user_cancel summary_user_cancel now)) s
      in (case rows of
            None \<Rightarrow> ((q, s1), Inl SqlxError)
          | Some [] \<Rightarrow> ((q, s1), Inr False)
          | Some (d # _) \<Rightarrow>
              (let q' = signal_cancel W u q;
                   (s2, r) = recompute_project_status now (d_project d) s1
               in ((q', s2), (case r of Inl e \<Rightarrow> Inl e | Inr _ \<Rightarrow> Inr True)))))"

section \<open>Running\<close>

text \<open>
  \<open>note_waiting_for_node\<close>: the deployment that holds the node, found through the project it
  belongs to, \<open>ORDER BY updated_at DESC LIMIT 1\<close>, is named in the log of one still queued.
  \<open>slot_column\<close> is \<open>COALESCE(NULLIF(TRIM(server_id), ''), 'default')\<close>; SQL's \<open>TRIM\<close> strips
  spaces.
\<close>

definition slot_column :: "project \<Rightarrow> ustr" where
  "slot_column p =
     (case p_server_id p of
        None \<Rightarrow> lit ''default''
      | Some t \<Rightarrow> (let u = trim_by (\<lambda>c. c = 32) t in if u = [] then lit ''default'' else u))"

definition holder_rows :: "ustr \<Rightarrow> ustr \<Rightarrow> db \<Rightarrow> (deployment \<times> project) list" where
  "holder_rows server_id u s =
     [(d, p). d \<leftarrow> deployments s, p \<leftarrow> projects s,
        p_id p = d_project d \<and> (d_status d = Running \<or> d_status d = Building) \<and> d_uuid d \<noteq> u
        \<and> slot_column p = slot_key server_id]"

definition latest_first :: "(deployment \<times> project) list \<Rightarrow> (deployment \<times> project) list" where
  "latest_first rows = rev (sort_key (\<lambda>r. d_updated_at (fst r)) (rev rows))"

definition note_waiting_for_node :: "ustr \<Rightarrow> ustr \<Rightarrow> db \<Rightarrow> db" where
  "note_waiting_for_node server_id u s =
     (let (s1, rows) = sql (\<lambda>t. (t, holder_rows server_id u t)) s;
          holder = (case latest_first (unwrap_or rows []) of
                      [] \<Rightarrow> None
                    | (d, p) # _ \<Rightarrow> Some (p_name p, d_env d, d_uuid d));
          note = waiting_note (slot_key server_id) holder
      in fst (sql (upd_deps (\<lambda>d. d_uuid d = u \<and> d_status d = Queued) (append_log note)) s1))"

definition mark_running_if_active :: "ts \<Rightarrow> ustr \<Rightarrow> db \<Rightarrow> db \<times> bool" where
  "mark_running_if_active now u s =
     (let (s', rows) = sql (upd_deps (\<lambda>d. d_uuid d = u \<and> active3 (d_status d))
                              (\<lambda>d. d\<lparr>d_status := Running, d_updated_at := now\<rparr>)) s
      in (s', is_some_and rows (\<lambda>r. length r = 1)))"

definition mark_status :: "ts \<Rightarrow> ustr \<Rightarrow> dep_status \<Rightarrow> db \<Rightarrow> db" where
  "mark_status now u st s =
     fst (sql (upd_deps (\<lambda>d. d_uuid d = u) (\<lambda>d. d\<lparr>d_status := st, d_updated_at := now\<rparr>)) s)"

definition set_live_logs :: "ts \<Rightarrow> ustr \<Rightarrow> ustr \<Rightarrow> db \<Rightarrow> db" where
  "set_live_logs now u logs s =
     fst (sql (upd_deps (\<lambda>d. d_uuid d = u \<and> active5 (d_status d))
                 (\<lambda>d. d\<lparr>d_logs := Some logs, d_updated_at := now\<rparr>)) s)"

text \<open>
  The log hook sends the whole log into a channel; the flusher task waits for a change,
  sleeps 400 ms, takes the latest value and writes it unless it is empty.
\<close>

record flusher =
  fl_value :: ustr
  fl_changed :: bool

definition hook_logs :: "ustr \<Rightarrow> flusher \<Rightarrow> flusher" where
  "hook_logs logs fl = fl\<lparr>fl_value := logs, fl_changed := True\<rparr>"

definition flush_tick :: "ts \<Rightarrow> ustr \<Rightarrow> flusher \<times> db \<Rightarrow> flusher \<times> db" where
  "flush_tick now u w =
     (let (fl, s) = w in
      if fl_changed fl
      then (fl\<lparr>fl_changed := False\<rparr>, if fl_value fl \<noteq> [] then set_live_logs now u (fl_value fl) s else s)
      else w)"

record outcome =
  o_status :: dep_status
  o_sha :: ustr
  o_logs :: ustr
  o_summary :: "ustr option"
  o_hint :: "ustr option"
  o_live :: "ustr option"

text \<open>\<open>COALESCE($n, column)\<close>: a bound value replaces the column, NULL keeps it.\<close>

definition final_row :: "outcome \<Rightarrow> ts \<Rightarrow> deployment \<Rightarrow> deployment" where
  "final_row r now d = d\<lparr>d_status := o_status r, d_git_sha := Some (o_sha r), d_logs := Some (o_logs r),
     d_error_summary := opt_or (o_summary r) (d_error_summary d),
     d_error_hint := opt_or (o_hint r) (d_error_hint d),
     d_live_sha := opt_or (o_live r) (d_live_sha d),
     d_finished_at := Some now, d_updated_at := now\<rparr>"

definition finalize_if_active :: "ts \<Rightarrow> ustr \<Rightarrow> outcome \<Rightarrow> db \<Rightarrow> db \<times> bool" where
  "finalize_if_active now u r s =
     (let (s', rows) = sql (upd_deps (\<lambda>d. d_uuid d = u \<and> active3 (d_status d)) (final_row r now)) s
      in (s', is_some_and rows (\<lambda>x. length x = 1)))"

section \<open>Recovery\<close>

text \<open>
  \<open>reap_orphans\<close>: rows active since before the cutoff with no live task become failed; the
  project is then settled, \<open>live\<close> only for a production row whose status is \<open>success\<close>.
\<close>

definition reap_project :: "ts \<Rightarrow> int \<Rightarrow> db \<Rightarrow> db" where
  "reap_project now pid s =
     fst (sql (\<lambda>t. upd_projs
            (\<lambda>p. p_id p = pid \<and> p_status p = ProjDeploying
               \<and> \<not> (\<exists>d \<in> set (deployments t). d_project d = pid \<and> d_env d = production \<and> active3 (d_status d)))
            (set_proj_status
               (if \<exists>d \<in> set (deployments t). d_project d = pid \<and> d_status d = Success \<and> d_env d = production
                then Live else ProjFailed) now) t) s)"

fun reap_rows :: "'c watch_ops \<Rightarrow> ts \<Rightarrow> 'c queue \<Rightarrow> (ustr \<times> int) list \<Rightarrow> nat \<Rightarrow> db \<Rightarrow> db \<times> nat" where
  "reap_rows W now q [] n s = (s, n)"
| "reap_rows W now q ((u, pid) # rows) n s =
     (if has_live_task W u q then reap_rows W now q rows n s
      else
        (let (s1, r) = sql (upd_deps (\<lambda>d. d_uuid d = u \<and> active3 (d_status d))
                              (close_row Failed note_orphan summary_orphan now)) s in
         if is_some_and r (\<lambda>x. length x = 1)
         then reap_rows W now q rows (Suc n) (reap_project now pid s1)
         else reap_rows W now q rows n s1))"

definition reap_orphans :: "'c watch_ops \<Rightarrow> ts \<Rightarrow> ts \<Rightarrow> 'c queue \<Rightarrow> db \<Rightarrow> db \<times> nat" where
  "reap_orphans W now cutoff q s =
     (let (s1, rows) = sql (sel_deps (\<lambda>d. active3 (d_status d) \<and> d_updated_at d < cutoff)) s
      in reap_rows W now q (map (\<lambda>d. (d_uuid d, d_project d)) (unwrap_or rows [])) 0 s1)"

text \<open>\<open>SETTLED_STATUS_SQL\<close> and \<open>NO_ACTIVE_DEPLOYMENT_SQL\<close>.\<close>

definition settled_status :: "db \<Rightarrow> int \<Rightarrow> proj_status" where
  "settled_status s pid =
     (if \<exists>d \<in> set (deployments s). success_prod pid d then Live
      else if \<exists>d \<in> set (deployments s). open_failed_prod pid d then ProjFailed
      else Idle)"

definition no_active_deployment :: "db \<Rightarrow> int \<Rightarrow> bool" where
  "no_active_deployment s pid \<longleftrightarrow> (\<forall>d \<in> set (deployments s). d_project d = pid \<longrightarrow> \<not> active5 (d_status d))"

definition release_deploying_if_no_active :: "ts \<Rightarrow> int \<Rightarrow> db \<Rightarrow> db \<times> bool" where
  "release_deploying_if_no_active now pid s =
     (let (s', rows) = sql (\<lambda>t. upd_projs
            (\<lambda>p. p_id p = pid \<and> p_status p = ProjDeploying \<and> no_active_deployment t (p_id p))
            (\<lambda>p. set_proj_status (settled_status t (p_id p)) now p) t) s
      in (s', is_some_and rows (\<lambda>r. length r = 1)))"

definition release_orphan_project_locks :: "ts \<Rightarrow> ts \<Rightarrow> db \<Rightarrow> db \<times> int list" where
  "release_orphan_project_locks now cutoff s =
     (let (s', rows) = sql (\<lambda>t. upd_projs
            (\<lambda>p. p_status p = ProjDeploying
               \<and> (case p_updated_at p of None \<Rightarrow> True | Some x \<Rightarrow> x < cutoff)
               \<and> no_active_deployment t (p_id p))
            (\<lambda>p. set_proj_status (settled_status t (p_id p)) now p) t) s
      in (s', map p_id (unwrap_or rows [])))"

definition requeue_interrupted :: "ts \<Rightarrow> db \<Rightarrow> db \<times> (sql_error + nat)" where
  "requeue_interrupted now s =
     (let (s', rows) = sql (upd_deps (\<lambda>d. d_status d = Running \<or> d_status d = Building)
            (\<lambda>d. (append_log note_requeued d)\<lparr>d_status := Queued, d_finished_at := None, d_updated_at := now\<rparr>)) s
      in (s', case rows of None \<Rightarrow> Inl SqlxError | Some r \<Rightarrow> Inr (length r)))"

text \<open>\<open>ORDER BY created_at, uuid\<close>.\<close>

definition list_queued_deployments :: "db \<Rightarrow> db \<times> (sql_error + ustr list)" where
  "list_queued_deployments s =
     (let (s', rows) = sql (sel_deps (\<lambda>d. d_status d = Queued)) s
      in (s', case rows of None \<Rightarrow> Inl SqlxError
            | Some r \<Rightarrow> Inr (map d_uuid (sort_key d_created_at (sort_key d_uuid r)))))"

definition try_claim_deployment :: "ts \<Rightarrow> ustr \<Rightarrow> db \<Rightarrow> db \<times> (sql_error + bool)" where
  "try_claim_deployment now u s =
     (let (s', rows) = sql (upd_deps (\<lambda>d. d_uuid d = u \<and> d_status d = Queued)
                              (\<lambda>d. d\<lparr>d_status := Running, d_updated_at := now\<rparr>)) s
      in (s', case rows of None \<Rightarrow> Inl SqlxError | Some r \<Rightarrow> Inr (length r = 1)))"

section \<open>Events\<close>

definition record_event :: "ts \<Rightarrow> ustr \<Rightarrow> ustr \<Rightarrow> ustr \<Rightarrow> ustr \<Rightarrow> ustr \<Rightarrow> db \<Rightarrow> db" where
  "record_event now puuid kind st ref_id detail s =
     fst (sql (insert_event \<lparr>ev_project = puuid, ev_kind = kind, ev_status = st, ev_ref = ref_id,
                 ev_detail = take 240 detail, ev_at = now\<rparr>) s)"

definition traced_tools :: "ustr set" where
  "traced_tools = {lit ''trigger_deploy'', lit ''http_smoke'', lit ''write_project_file'', lit ''get_deployment_logs''}"

definition json_str :: "json option \<Rightarrow> ustr option" where
  "json_str v = Option.bind v as_str"

definition trace_call :: "ts \<Rightarrow> ustr \<Rightarrow> json \<Rightarrow> db \<Rightarrow> db" where
  "trace_call now puuid call s =
     (let name = unwrap_or (json_str (jgets ''name'' call)) [] in
      if name \<notin> traced_tools then s
      else
        (let result = jgets ''result'' call;
             field = (\<lambda>k. Option.bind result (jget k));
             ok = unwrap_or (Option.bind (field (lit ''ok'')) as_bool) True;
             ref_id = unwrap_or (json_str (opt_or (field (lit ''deployment_uuid''))
                        (opt_or (field (lit ''url'')) (field (lit ''path''))))) [];
             detail = unwrap_or (json_str (opt_or (field (lit ''message''))
                        (opt_or (field (lit ''error'')) (opt_or (field (lit ''excerpt'')) (field (lit ''url''))))))
                        name
         in record_event now puuid name (if ok then lit ''ok'' else lit ''failed'') ref_id detail s))"

definition record_tool_trace :: "(ustr \<Rightarrow> json list option) \<Rightarrow> ts \<Rightarrow> ustr \<Rightarrow> ustr \<Rightarrow> db \<Rightarrow> db" where
  "record_tool_trace parse now puuid tools s =
     (case parse tools of None \<Rightarrow> s | Some calls \<Rightarrow> fold (trace_call now puuid) calls s)"

end
