(* ===== verification/DeployQueueFacts.thy ===== *)
theory DeployQueueFacts
  imports DeployQueue
begin

text \<open>
  What the operations of the queue may do to a row. \<open>row_law\<close> is the contract every write
  of the queue keeps: a relation between a row before and after that holds of each of the
  writes the code makes holds of any run of operations. It is interpreted on
  \<open>row_evolves\<close> (closed rows are frozen, keys never change) and on \<open>stays_claimed\<close> (nothing
  but a requeue makes a row queued).
\<close>

section \<open>Relations between tables\<close>

definition deps_rel :: "(deployment \<Rightarrow> deployment \<Rightarrow> bool) \<Rightarrow> db \<Rightarrow> db \<Rightarrow> bool" where
  "deps_rel R s s' \<longleftrightarrow> list_all2 R (deployments s) (deployments s')
     \<and> map p_id (projects s') = map p_id (projects s)"

text \<open>The operations of the queue as data, so that a run is a list of them.\<close>

datatype qop =
    ORegister ustr | OUnregister ustr | OSignal ustr
  | OSupersede ts int ustr | OCancel ts ustr | ORecompute ts int
  | OWaiting ustr ustr | OMarkRunning ts ustr | OLiveLogs ts ustr ustr
  | OFinalize ts ustr outcome | OReap ts ts | ORelease ts int | OReleaseOrphans ts ts
  | ORequeue ts | OClaim ts ustr | OEvent ts ustr ustr ustr ustr ustr

fun qop_step :: "'c watch_ops \<Rightarrow> qop \<Rightarrow> 'c queue \<times> db \<Rightarrow> 'c queue \<times> db" where
  "qop_step W (ORegister u) (q, s) = (fst (register_cancel W u q), s)"
| "qop_step W (OUnregister u) (q, s) = (unregister_cancel u q, s)"
| "qop_step W (OSignal u) (q, s) = (signal_cancel W u q, s)"
| "qop_step W (OSupersede now pid keep) (q, s) = fst (supersede_in_progress W now pid keep (q, s))"
| "qop_step W (OCancel now u) (q, s) = fst (cancel_one_deployment W now u (q, s))"
| "qop_step W (ORecompute now pid) (q, s) = (q, fst (recompute_project_status now pid s))"
| "qop_step W (OWaiting srv u) (q, s) = (q, note_waiting_for_node srv u s)"
| "qop_step W (OMarkRunning now u) (q, s) = (q, fst (mark_running_if_active now u s))"
| "qop_step W (OLiveLogs now u logs) (q, s) = (q, set_live_logs now u logs s)"
| "qop_step W (OFinalize now u r) (q, s) = (q, fst (finalize_if_active now u r s))"
| "qop_step W (OReap now cutoff) (q, s) = (q, fst (reap_orphans W now cutoff q s))"
| "qop_step W (ORelease now pid) (q, s) = (q, fst (release_deploying_if_no_active now pid s))"
| "qop_step W (OReleaseOrphans now cutoff) (q, s) = (q, fst (release_orphan_project_locks now cutoff s))"
| "qop_step W (ORequeue now) (q, s) = (q, fst (requeue_interrupted now s))"
| "qop_step W (OClaim now u) (q, s) = (q, fst (try_claim_deployment now u s))"
| "qop_step W (OEvent now pu k st r x) (q, s) = (q, record_event now pu k st r x s)"

definition qop_run :: "'c watch_ops \<Rightarrow> qop list \<Rightarrow> 'c queue \<times> db \<Rightarrow> 'c queue \<times> db" where
  "qop_run W ops w = fold (qop_step W) ops w"


text \<open>The operations that never put a row back to queued.\<close>

fun keeps_claims :: "qop \<Rightarrow> bool" where
  "keeps_claims (ORequeue now) = False"
| "keeps_claims (OFinalize now u r) = (o_status r \<noteq> Queued)"
| "keeps_claims _ = True"

lemma proj_id_set [simp]: "p_id (set_proj_status st now p) = p_id p"
  by (simp add: set_proj_status_def)

lemma close_row_fields [simp]:
  "d_uuid (close_row st n sm now d) = d_uuid d"
  "d_project (close_row st n sm now d) = d_project d"
  "d_env (close_row st n sm now d) = d_env d"
  "d_status (close_row st n sm now d) = st"
  "d_created_at (close_row st n sm now d) = d_created_at d"
  "d_target_sha (close_row st n sm now d) = d_target_sha d"
  "d_dismissed_at (close_row st n sm now d) = d_dismissed_at d"
  by (simp_all add: close_row_def append_log_def)

section \<open>The contract of a write\<close>

locale row_law =
  fixes R :: "deployment \<Rightarrow> deployment \<Rightarrow> bool"
  assumes refl [simp]: "R d d"
    and trans: "R a b \<Longrightarrow> R b c \<Longrightarrow> R a c"
    and uuid: "R d d' \<Longrightarrow> d_uuid d' = d_uuid d"
    and closing: "active5 (d_status d) \<Longrightarrow> st \<noteq> Queued \<Longrightarrow> R d (close_row st n sm now d)"
    and running: "active3 (d_status d) \<Longrightarrow> R d (d\<lparr>d_status := Running, d_updated_at := now\<rparr>)"
    and logging: "active5 (d_status d) \<Longrightarrow> R d (append_log n d)"
    and live_logs: "active5 (d_status d) \<Longrightarrow> R d (d\<lparr>d_logs := Some l, d_updated_at := now\<rparr>)"
    and final: "active3 (d_status d) \<Longrightarrow> o_status r \<noteq> Queued \<Longrightarrow> R d (final_row r now d)"
begin

abbreviation rel :: "db \<Rightarrow> db \<Rightarrow> bool" where "rel \<equiv> deps_rel R"

lemma rel_refl [simp]: "rel s s"
  by (simp add: deps_rel_def list_all2_refl)

lemma rel_trans: "rel a b \<Longrightarrow> rel b c \<Longrightarrow> rel a c"
  unfolding deps_rel_def using list_all2_trans [of R R R] trans
  by (metis (no_types, lifting))

lemma rel_same: "deployments s' = deployments s \<Longrightarrow> projects s' = projects s \<Longrightarrow> rel s s'"
  by (simp add: deps_rel_def list_all2_refl)

lemma rel_sql:
  assumes "\<And>s0. rel s0 (fst (q s0))"
  shows "rel s (fst (sql q s))"
proof -
  have 1: "rel s (s\<lparr>faults := fs\<rparr>)" for fs by (rule rel_same) simp_all
  show ?thesis
  proof (cases q s rule: sql_cases)
    case fault
    then show ?thesis using 1 by simp
  next
    case (ran s0 s' r)
    then have "rel s0 s'" using assms [of s0] by simp
    with ran 1 show ?thesis using rel_trans by auto
  qed
qed

lemma rel_upd_deps:
  assumes "\<And>d. p d \<Longrightarrow> R d (f d)"
  shows "rel s (fst (upd_deps p f s))"
  using assms by (auto simp: deps_rel_def list_all2_map2 intro: list_all2_refl list.rel_refl_strong)

lemma rel_upd_projs:
  assumes "\<And>r. p_id (f r) = p_id r"
  shows "rel s (fst (upd_projs p f s))"
  using assms by (auto simp: deps_rel_def list_all2_refl)

lemma rel_dep_of:
  assumes "rel s s'" and "dep_of s u = Some d"
  shows "\<exists>d'. dep_of s' u = Some d' \<and> R d d'"
proof -
  have "list_all2 R ds es \<Longrightarrow> find (\<lambda>d. d_uuid d = u) ds = Some d
      \<Longrightarrow> \<exists>d'. find (\<lambda>d. d_uuid d = u) es = Some d' \<and> R d d'" for ds es
    by (induction rule: list_all2_induct) (auto dest: uuid split: if_splits)
  then show ?thesis using assms by (auto simp: deps_rel_def dep_of_def)
qed

lemma rel_None: "rel s s' \<Longrightarrow> dep_of s u = None \<Longrightarrow> dep_of s' u = None"
proof -
  have "list_all2 R ds es \<Longrightarrow> find (\<lambda>d. d_uuid d = u) ds = None
      \<Longrightarrow> find (\<lambda>d. d_uuid d = u) es = None" for ds es
    by (induction rule: list_all2_induct) (auto dest: uuid split: if_splits)
  then show "rel s s' \<Longrightarrow> dep_of s u = None \<Longrightarrow> dep_of s' u = None"
    by (auto simp: deps_rel_def dep_of_def)
qed

lemma rel_uuids: "rel s s' \<Longrightarrow> map d_uuid (deployments s') = map d_uuid (deployments s)"
proof -
  have "list_all2 R ds es \<Longrightarrow> map d_uuid es = map d_uuid ds" for ds es
    by (induction rule: list_all2_induct) (auto dest: uuid)
  then show "rel s s' \<Longrightarrow> map d_uuid (deployments s') = map d_uuid (deployments s)"
    by (simp add: deps_rel_def)
qed

lemma rel_wf: "rel s s' \<Longrightarrow> db_wf s \<Longrightarrow> db_wf s'"
  using rel_uuids by (auto simp: db_wf_def deps_rel_def)

lemma rel_upd:
  assumes "\<And>d. p d \<Longrightarrow> R d (f d)"
  shows "rel s (fst (sql (upd_deps p f) s))"
  using assms by (intro rel_sql rel_upd_deps)

lemma rel_proj:
  assumes "\<And>r. p_id (f r) = p_id r"
  shows "rel s (fst (sql (upd_projs p f) s))"
  using assms by (intro rel_sql rel_upd_projs)

lemma rel_count: "rel s (fst (count_deps p s))"
  using rel_sql [of "sel_deps p" s] by (simp add: count_deps_def Let_def case_prod_beta)

lemma rel_write_proj: "rel s (write_proj_status pid st now s)"
  unfolding write_proj_status_def by (rule rel_proj) simp

lemma rel_supersede: "rel s (snd (fst (supersede_in_progress W now pid keep (q, s))))"
proof -
  have "rel s (fst (sql (\<lambda>t. upd_deps (superseded_row t pid keep)
      (close_row Cancelled (note_superseded keep) summary_superseded now) t) s))"
    by (intro rel_sql rel_upd_deps closing) (auto simp: superseded_row_def active3_active5)
  then show ?thesis
    by (simp add: supersede_in_progress_def Let_def case_prod_beta)
qed

lemma rel_recompute: "rel s (fst (recompute_project_status now pid s))"
  by (simp add: recompute_project_status_def Let_def case_prod_beta)
    (meson rel_count rel_trans rel_write_proj)

lemma rel_cancel_one: "rel s (snd (fst (cancel_one_deployment W now u (q, s))))"
proof -
  let ?s1 = "fst (sql (upd_deps (\<lambda>d. d_uuid d = u \<and> active5 (d_status d))
      (close_row Cancelled note_user_cancel summary_user_cancel now)) s)"
  have "rel s ?s1" by (rule rel_upd) (simp add: closing)
  moreover from this have "rel s (fst (recompute_project_status now pid ?s1))" for pid
    using rel_recompute rel_trans by blast
  ultimately show ?thesis
    by (simp add: cancel_one_deployment_def Let_def case_prod_beta split: option.split list.split)
qed

lemma rel_note_waiting: "rel s (note_waiting_for_node server_id u s)"
proof -
  let ?q = "\<lambda>t. (t, holder_rows server_id u t)"
  have 1: "rel s (fst (sql ?q s))" by (rule rel_sql) simp
  have 2: "rel t (fst (sql (upd_deps (\<lambda>d. d_uuid d = u \<and> d_status d = Queued) (append_log nt)) t))" for t nt
    by (rule rel_upd) (simp add: logging)
  show ?thesis
    using 1 rel_trans [OF _ 2] by (simp add: note_waiting_for_node_def Let_def case_prod_beta)
qed

lemma rel_mark_running: "rel s (fst (mark_running_if_active now u s))"
proof -
  have "rel s (fst (sql (upd_deps (\<lambda>d. d_uuid d = u \<and> active3 (d_status d))
      (\<lambda>d. d\<lparr>d_status := Running, d_updated_at := now\<rparr>)) s))"
    by (rule rel_upd) (simp add: running)
  then show ?thesis by (simp add: mark_running_if_active_def Let_def case_prod_beta)
qed

lemma rel_live_logs: "rel s (set_live_logs now u logs s)"
  unfolding set_live_logs_def by (rule rel_upd) (simp add: live_logs)

lemma rel_finalize: "o_status r \<noteq> Queued \<Longrightarrow> rel s (fst (finalize_if_active now u r s))"
proof -
  assume r: "o_status r \<noteq> Queued"
  have "rel s (fst (sql (upd_deps (\<lambda>d. d_uuid d = u \<and> active3 (d_status d)) (final_row r now)) s))"
    by (rule rel_upd) (simp add: final r)
  then show ?thesis by (simp add: finalize_if_active_def Let_def case_prod_beta)
qed

lemma rel_reap_project: "rel s (reap_project now pid s)"
  unfolding reap_project_def by (rule rel_sql) (rule rel_upd_projs, simp)

lemma rel_reap_rows: "rel s (fst (reap_rows W now q rows n s))"
proof (induction rows arbitrary: n s)
  case Nil
  then show ?case by simp
next
  case (Cons r rows)
  obtain u pid where r: "r = (u, pid)" by (cases r)
  let ?s1 = "fst (sql (upd_deps (\<lambda>d. d_uuid d = u \<and> active3 (d_status d))
      (close_row Failed note_orphan summary_orphan now)) s)"
  have "rel s ?s1" by (rule rel_upd) (simp add: closing active3_active5)
  moreover have "rel ?s1 (reap_project now pid ?s1)" by (rule rel_reap_project)
  ultimately show ?case
    using Cons.IH by (simp add: r Let_def case_prod_beta) (meson rel_trans)
qed

lemma rel_reap: "rel s (fst (reap_orphans W now cutoff q s))"
proof -
  have "rel s (fst (sql (sel_deps p) s))" for p by (rule rel_sql) simp
  then show ?thesis
    unfolding reap_orphans_def Let_def case_prod_beta
    by (rule rel_trans) (rule rel_reap_rows)
qed

lemma rel_release_one: "rel s (fst (release_deploying_if_no_active now pid s))"
proof -
  have "rel s (fst (sql (\<lambda>t. upd_projs
      (\<lambda>p. p_id p = pid \<and> p_status p = ProjDeploying \<and> no_active_deployment t (p_id p))
      (\<lambda>p. set_proj_status (settled_status t (p_id p)) now p) t) s))"
    by (rule rel_sql) (rule rel_upd_projs, simp)
  then show ?thesis by (simp add: release_deploying_if_no_active_def Let_def case_prod_beta)
qed

lemma rel_release_orphans: "rel s (fst (release_orphan_project_locks now cutoff s))"
proof -
  have "rel s (fst (sql (\<lambda>t. upd_projs
      (\<lambda>p. p_status p = ProjDeploying
         \<and> (case p_updated_at p of None \<Rightarrow> True | Some x \<Rightarrow> x < cutoff)
         \<and> no_active_deployment t (p_id p))
      (\<lambda>p. set_proj_status (settled_status t (p_id p)) now p) t) s))"
    by (rule rel_sql) (rule rel_upd_projs, simp)
  then show ?thesis by (simp add: release_orphan_project_locks_def Let_def case_prod_beta)
qed

lemma rel_claim: "rel s (fst (try_claim_deployment now u s))"
proof -
  have "rel s (fst (sql (upd_deps (\<lambda>d. d_uuid d = u \<and> d_status d = Queued)
      (\<lambda>d. d\<lparr>d_status := Running, d_updated_at := now\<rparr>)) s))"
    by (rule rel_upd) (simp add: running)
  then show ?thesis by (simp add: try_claim_deployment_def Let_def case_prod_beta)
qed

lemma rel_record_event: "rel s (record_event now puuid kind st r detail s)"
  unfolding record_event_def
  by (rule rel_sql) (rule rel_same; simp add: insert_event_def)

lemma rel_trace: "rel s (record_tool_trace parse now puuid tools s)"
proof -
  have 1: "rel t (trace_call now puuid c t)" for c t
    by (simp add: trace_call_def Let_def rel_record_event)
  have "rel t (fold (trace_call now puuid) cs t)" for cs t
    by (induction cs arbitrary: t) (auto intro: rel_trans 1)
  then show ?thesis by (simp add: record_tool_trace_def split: option.split)
qed

lemmas rel_ops = rel_supersede rel_cancel_one rel_recompute rel_note_waiting
  rel_mark_running rel_live_logs rel_reap rel_release_one
  rel_release_orphans rel_claim rel_record_event

lemma qop_step_claims: "keeps_claims op \<Longrightarrow> rel (snd w) (snd (qop_step W op w))"
  by (cases w, cases op) (auto intro: rel_ops rel_finalize)

lemma qop_run_claims: "\<forall>op \<in> set ops. keeps_claims op \<Longrightarrow> rel (snd w) (snd (qop_run W ops w))"
  unfolding qop_run_def
proof (induction ops arbitrary: w)
  case (Cons op ops)
  then have "rel (snd w) (snd (qop_step W op w))"
    and "rel (snd (qop_step W op w)) (snd (fold (qop_step W) ops (qop_step W op w)))"
    by (auto intro: qop_step_claims)
  then show ?case by (simp add: rel_trans [of "snd w"])
qed simp

end

text \<open>The contract of the writes that may also requeue.\<close>

locale row_law_all = row_law +
  assumes requeued: "d_status d = Running \<or> d_status d = Building \<Longrightarrow>
      R d ((append_log n d)\<lparr>d_status := Queued, d_finished_at := None, d_updated_at := now\<rparr>)"
    and final_any: "active3 (d_status d) \<Longrightarrow> R d (final_row r now d)"
begin

lemma rel_requeue: "rel s (fst (requeue_interrupted now s))"
proof -
  have "rel s (fst (sql (upd_deps (\<lambda>d. d_status d = Running \<or> d_status d = Building)
      (\<lambda>d. (append_log note_requeued d)\<lparr>d_status := Queued, d_finished_at := None, d_updated_at := now\<rparr>)) s))"
    by (rule rel_upd) (simp add: requeued)
  then show ?thesis by (simp add: requeue_interrupted_def Let_def case_prod_beta)
qed

lemma rel_finalize_any: "rel s (fst (finalize_if_active now u r s))"
proof -
  have "rel s (fst (sql (upd_deps (\<lambda>d. d_uuid d = u \<and> active3 (d_status d)) (final_row r now)) s))"
    by (rule rel_upd) (simp add: final_any)
  then show ?thesis by (simp add: finalize_if_active_def Let_def case_prod_beta)
qed

lemma qop_step_rel: "rel (snd w) (snd (qop_step W op w))"
  by (cases w, cases op) (auto intro: rel_ops rel_requeue rel_finalize_any)

lemma qop_run_rel: "rel (snd w) (snd (qop_run W ops w))"
  unfolding qop_run_def
proof (induction ops arbitrary: w)
  case (Cons op ops)
  have "rel (snd w) (snd (qop_step W op w))" by (rule qop_step_rel)
  moreover have "rel (snd (qop_step W op w)) (snd (fold (qop_step W) ops (qop_step W op w)))"
    by (rule Cons.IH)
  ultimately show ?case by (simp add: rel_trans [of "snd w"])
qed simp

end

section \<open>Closed rows are frozen\<close>

definition row_evolves :: "deployment \<Rightarrow> deployment \<Rightarrow> bool" where
  "row_evolves d d' \<longleftrightarrow> d_uuid d' = d_uuid d \<and> d_project d' = d_project d \<and> d_env d' = d_env d
     \<and> d_created_at d' = d_created_at d \<and> d_target_sha d' = d_target_sha d
     \<and> d_dismissed_at d' = d_dismissed_at d
     \<and> (\<not> active5 (d_status d) \<longrightarrow> d' = d)"

interpretation ev: row_law_all row_evolves
proof unfold_locales
  show "row_evolves a b \<Longrightarrow> row_evolves b c \<Longrightarrow> row_evolves a c" for a b c
    by (auto simp: row_evolves_def)
qed (auto simp: row_evolves_def active3_active5 append_log_def final_row_def)

section \<open>A claimed row stays claimed\<close>

definition stays_claimed :: "deployment \<Rightarrow> deployment \<Rightarrow> bool" where
  "stays_claimed d d' \<longleftrightarrow> d_uuid d' = d_uuid d \<and> (d_status d' = Queued \<longrightarrow> d_status d = Queued)"

interpretation cl: row_law stays_claimed
  by unfold_locales (auto simp: stays_claimed_def append_log_def final_row_def)

section \<open>Single-row statements\<close>

lemma filter_uuid:
  assumes "db_wf s"
  shows "filter (\<lambda>d. d_uuid d = u \<and> P d) (deployments s)
       = (case dep_of s u of None \<Rightarrow> [] | Some d \<Rightarrow> if P d then [d] else [])"
proof -
  have "distinct (map d_uuid ds) \<Longrightarrow> filter (\<lambda>d. d_uuid d = u \<and> P d) ds
       = (case find (\<lambda>d. d_uuid d = u) ds of None \<Rightarrow> [] | Some d \<Rightarrow> if P d then [d] else [])" for ds
  proof (induction ds)
    case (Cons d ds)
    show ?case
    proof (cases "d_uuid d = u")
      case True
      with Cons.prems have "\<forall>e \<in> set ds. d_uuid e \<noteq> u" by (auto simp: rev_image_eqI)
      then have "filter (\<lambda>d. d_uuid d = u \<and> P d) ds = []" by (auto simp: filter_empty_conv)
      with True show ?thesis by simp
    next
      case False
      with Cons show ?thesis by simp
    qed
  qed simp
  then show ?thesis using assms by (simp add: dep_of_def db_wf_def)
qed

text \<open>The result and the effect of \<open>UPDATE ... WHERE uuid = u AND P\<close>.\<close>

lemma sql_upd_row:
  assumes "sql (upd_deps (\<lambda>d. d_uuid d = u \<and> P d) f) s = (s', rows)" and "db_wf s"
    and "\<And>d. d_uuid (f d) = d_uuid d"
  shows "rows = None \<Longrightarrow> dep_of s' v = dep_of s v"
    and "rows = Some r \<Longrightarrow>
           dep_of s' v = (if v = u then map_option (\<lambda>d. if P d then f d else d) (dep_of s v) else dep_of s v)
         \<and> r = (case dep_of s u of None \<Rightarrow> [] | Some d \<Rightarrow> if P d then [f d] else [])"
proof -
  have upd: "dep_of (fst (upd_deps (\<lambda>d. d_uuid d = u \<and> P d) f t)) v
      = (if v = u then map_option (\<lambda>d. if P d then f d else d) (dep_of t v) else dep_of t v)" for t
  proof -
    have "map_option (\<lambda>d. if d_uuid d = u \<and> P d then f d else d) (dep_of t v)
        = (if v = u then map_option (\<lambda>d. if P d then f d else d) (dep_of t v) else dep_of t v)"
      by (cases "dep_of t v") (auto dest: dep_of_mem)
    then show ?thesis
      using dep_of_map [of f v "\<lambda>d. d_uuid d = u \<and> P d" "deployments t"] assms(3)
      by (simp add: dep_of_def)
  qed
  show "rows = None \<Longrightarrow> dep_of s' v = dep_of s v"
    using assms(1) by (cases "upd_deps (\<lambda>d. d_uuid d = u \<and> P d) f" s rule: sql_cases) auto
  assume rows: "rows = Some r"
  then obtain s0 where s0: "s0 = s\<lparr>faults := tl (faults s)\<rparr>"
    and q: "upd_deps (\<lambda>d. d_uuid d = u \<and> P d) f s0 = (s', r)"
    using assms(1) by (cases "upd_deps (\<lambda>d. d_uuid d = u \<and> P d) f" s rule: sql_cases) auto
  have "db_wf s0" using assms(2) by (simp add: s0 db_wf_def)
  then have "r = map f (case dep_of s0 u of None \<Rightarrow> [] | Some d \<Rightarrow> if P d then [d] else [])"
    using q by (simp add: upd_deps_def filter_uuid)
  then show "dep_of s' v = (if v = u then map_option (\<lambda>d. if P d then f d else d) (dep_of s v) else dep_of s v)
         \<and> r = (case dep_of s u of None \<Rightarrow> [] | Some d \<Rightarrow> if P d then [f d] else [])"
    using upd [of s0] q by (auto simp: s0 split: option.splits)
qed

end
