(* ===== verification/SlotRun.thy ===== *)
theory SlotRun
  imports DeployQueueFacts
begin

text \<open>
  Deployments running side by side: the task of a deployment, from \<open>run_real_deploy_inner\<close>
  (\<open>apps/server/src/routes.rs\<close>: start lock, token, supersession) through
  \<open>run_in_node_slot\<close> (\<open>apps/server/src/deploy_queue.rs\<close>: subscription, wait for the node,
  second check, work) to its end. Every \<open>await\<close> between two accesses to shared state is a
  point where other tasks, and the other operations of the queue, may run.
\<close>

section \<open>Tasks\<close>

text \<open>Where a task stands. \<open>PEnded c\<close>: the slot call returned, \<open>Cancelled\<close> when \<open>c\<close>.\<close>

datatype pc =
    PStart | PLocked | PRegistered | PSuperseded | PReady
  | PSubscribed | PWaiting | PHolding | PWorking
  | PEnded bool | PDone bool

record 'c world =
  w_queue :: "'c queue"
  w_db :: db
  w_pc :: "ustr \<Rightarrow> pc"

text \<open>The node and the project of a deployment.\<close>

record placement =
  pl_server :: "ustr \<Rightarrow> ustr"
  pl_project :: "ustr \<Rightarrow> int"

datatype action =
    ALock ustr | ARegister ustr | ASupersede ustr ts | AUnlock ustr
  | ASubscribe ustr | AQueue ustr | AAcquire ustr | AStartWork ustr ts
  | AFinish ustr | AAbort ustr | AUnregister ustr
  | AOther qop

text \<open>Operations of the rest of the server: tokens are registered and unregistered only by
  the task they belong to.\<close>

fun other_op :: "qop \<Rightarrow> bool" where
  "other_op (ORegister u) = False"
| "other_op (OUnregister u) = False"
| "other_op _ = True"

definition subscribe :: "'c watch_ops \<Rightarrow> ustr \<Rightarrow> 'c queue \<Rightarrow> 'c queue" where
  "subscribe W u q = q\<lparr>cancels := (cancels q)(u := map_option (w_subscribe W) (cancels q u))\<rparr>"

definition drop_rx :: "'c watch_ops \<Rightarrow> ustr \<Rightarrow> 'c queue \<Rightarrow> 'c queue" where
  "drop_rx W u q = q\<lparr>cancels := (cancels q)(u := map_option (w_drop_rx W) (cancels q u))\<rparr>"

definition goto :: "ustr \<Rightarrow> pc \<Rightarrow> 'c world \<Rightarrow> 'c world" where
  "goto u p w = w\<lparr>w_pc := (w_pc w)(u := p)\<rparr>"

text \<open>The end of \<open>run_in_node_slot\<close>: its receiver and, when it held the node, its guard are
  dropped.\<close>

definition leave_slot :: "'c watch_ops \<Rightarrow> placement \<Rightarrow> ustr \<Rightarrow> bool \<Rightarrow> 'c world \<Rightarrow> 'c world" where
  "leave_slot W pl u c w =
     goto u (PEnded c) (w\<lparr>w_queue := release (pl_server pl u) (drop_rx W u (w_queue w))\<rparr>)"

definition leave_wait :: "'c watch_ops \<Rightarrow> ustr \<Rightarrow> 'c world \<Rightarrow> 'c world" where
  "leave_wait W u w = goto u (PEnded True) (w\<lparr>w_queue := drop_rx W u (w_queue w)\<rparr>)"

section \<open>Steps\<close>

text \<open>
  One step, \<open>None\<close> when it is not possible in this state. The choice of \<open>tokio::select!\<close>
  between the work (or the node) and the cancellation is the choice between \<open>AFinish\<close>
  (\<open>AAcquire\<close>) and \<open>AAbort\<close>.
\<close>

fun fire :: "'c watch_ops \<Rightarrow> placement \<Rightarrow> action \<Rightarrow> 'c world \<Rightarrow> 'c world option" where
  "fire W pl (ALock u) w =
     (if w_pc w u = PStart
      then map_option (\<lambda>q. goto u PLocked (w\<lparr>w_queue := q\<rparr>)) (lock_project_start (pl_project pl u) u (w_queue w))
      else None)"
| "fire W pl (ARegister u) w =
     (if w_pc w u = PLocked
      then Some (goto u PRegistered (w\<lparr>w_queue := fst (register_cancel W u (w_queue w))\<rparr>))
      else None)"
| "fire W pl (ASupersede u now) w =
     (if w_pc w u = PRegistered
      then (case supersede_in_progress W now (pl_project pl u) u (w_queue w, w_db w) of
              ((q, s), _) \<Rightarrow> Some (goto u PSuperseded (w\<lparr>w_queue := q, w_db := s\<rparr>)))
      else None)"
| "fire W pl (AUnlock u) w =
     (if w_pc w u = PSuperseded
      then Some (goto u PReady (w\<lparr>w_queue := unlock_project_start (pl_project pl u) (drop_rx W u (w_queue w))\<rparr>))
      else None)"
| "fire W pl (ASubscribe u) w =
     (if w_pc w u = PReady
      then Some (goto u PSubscribed (w\<lparr>w_queue := subscribe W u (w_queue w)\<rparr>))
      else None)"
| "fire W pl (AQueue u) w =
     (if w_pc w u = PSubscribed
      then (if is_cancelled W u (w_queue w) then Some (leave_wait W u w)
            else Some (goto u PWaiting
                   (if is_busy (pl_server pl u) (w_queue w)
                    then w\<lparr>w_db := note_waiting_for_node (pl_server pl u) u (w_db w)\<rparr> else w)))
      else None)"
| "fire W pl (AAcquire u) w =
     (if w_pc w u = PWaiting
      then map_option (\<lambda>q. goto u PHolding (w\<lparr>w_queue := q\<rparr>)) (acquire (pl_server pl u) u (w_queue w))
      else None)"
| "fire W pl (AStartWork u now) w =
     (if w_pc w u = PHolding
      then (if is_cancelled W u (w_queue w) then Some (leave_slot W pl u True w)
            else (case mark_running_if_active now u (w_db w) of
                    (s, True) \<Rightarrow> Some (goto u PWorking (w\<lparr>w_db := s\<rparr>))
                  | (s, False) \<Rightarrow> Some (leave_slot W pl u True (w\<lparr>w_db := s\<rparr>))))
      else None)"
| "fire W pl (AFinish u) w =
     (if w_pc w u = PWorking then Some (leave_slot W pl u False w) else None)"
| "fire W pl (AAbort u) w =
     (if is_cancelled W u (w_queue w)
      then (case w_pc w u of
              PWaiting \<Rightarrow> Some (leave_wait W u w)
            | PWorking \<Rightarrow> Some (leave_slot W pl u True w)
            | _ \<Rightarrow> None)
      else None)"
| "fire W pl (AUnregister u) w =
     (case w_pc w u of
        PEnded c \<Rightarrow> Some (goto u (PDone c) (w\<lparr>w_queue := unregister_cancel u (w_queue w)\<rparr>))
      | _ \<Rightarrow> None)"
| "fire W pl (AOther op) w =
     (if other_op op
      then (case qop_step W op (w_queue w, w_db w) of (q, s) \<Rightarrow> Some (w\<lparr>w_queue := q, w_db := s\<rparr>))
      else None)"

definition start_world :: "db \<Rightarrow> 'c world" where
  "start_world s = \<lparr>w_queue = new_queue, w_db = s, w_pc = (\<lambda>_. PStart)\<rparr>"

inductive step :: "'c watch_ops \<Rightarrow> placement \<Rightarrow> 'c world \<Rightarrow> 'c world \<Rightarrow> bool" for W pl where
  fired: "fire W pl a w = Some w' \<Longrightarrow> step W pl w w'"

inductive steps :: "'c watch_ops \<Rightarrow> placement \<Rightarrow> 'c world \<Rightarrow> 'c world \<Rightarrow> bool" for W pl where
  stop: "steps W pl w w"
| more: "steps W pl w w' \<Longrightarrow> step W pl w' w'' \<Longrightarrow> steps W pl w w''"

inductive_cases stepE: "step W pl w w'"
inductive_simps steps_from_stop: "step W pl w w'"

fun fires :: "'c watch_ops \<Rightarrow> placement \<Rightarrow> action list \<Rightarrow> 'c world \<Rightarrow> 'c world option" where
  "fires W pl [] w = Some w"
| "fires W pl (a # as) w = Option.bind (fire W pl a w) (fires W pl as)"

lemma steps_trans: "steps W pl b c \<Longrightarrow> steps W pl a b \<Longrightarrow> steps W pl a c"
  by (induction rule: steps.induct) (auto intro: steps.intros)

lemma fires_steps: "fires W pl as w = Some w' \<Longrightarrow> steps W pl w w'"
proof (induction as arbitrary: w)
  case Nil
  then show ?case by (auto intro: steps.intros)
next
  case (Cons a as)
  then obtain w1 where "fire W pl a w = Some w1" "fires W pl as w1 = Some w'"
    by (auto simp: bind_eq_Some_conv)
  with Cons.IH [of w1] show ?case
    by (meson steps.intros step.intros steps_trans)
qed

section \<open>What a step does to the locks\<close>

lemma queue_locks [simp]:
  "slots (drop_rx W u q) = slots q" "starts (drop_rx W u q) = starts q"
  "slots (subscribe W u q) = slots q" "starts (subscribe W u q) = starts q"
  "slots (unregister_cancel u q) = slots q" "starts (unregister_cancel u q) = starts q"
  "slots (fst (register_cancel W u q)) = slots q" "starts (fst (register_cancel W u q)) = starts q"
  "starts (release k q) = starts q" "slots (unlock_project_start p q) = slots q"
  by (simp_all add: drop_rx_def subscribe_def unregister_cancel_def register_cancel_def release_def
      unlock_project_start_def)

lemma signal_locks [simp]: "slots (signal_cancel W u q) = slots q" "starts (signal_cancel W u q) = starts q"
  by (simp_all add: signal_cancel_def split: option.split)

lemma signals_locks [simp]:
  "slots (fold (signal_cancel W) us q) = slots q" "starts (fold (signal_cancel W) us q) = starts q"
  by (induction us arbitrary: q) simp_all

lemma supersede_locks:
  "slots (fst (fst (supersede_in_progress W now pid k (q, s)))) = slots q"
  "starts (fst (fst (supersede_in_progress W now pid k (q, s)))) = starts q"
  by (simp_all add: supersede_in_progress_def Let_def case_prod_beta)

lemma cancel_locks:
  "slots (fst (fst (cancel_one_deployment W now u (q, s)))) = slots q"
  "starts (fst (fst (cancel_one_deployment W now u (q, s)))) = starts q"
  by (simp_all add: cancel_one_deployment_def Let_def case_prod_beta split: option.split list.split)

lemma qop_locks:
  "slots (fst (qop_step W op (q, s))) = slots q \<and> starts (fst (qop_step W op (q, s))) = starts q"
  by (cases op) (simp_all add: supersede_locks cancel_locks)

lemma goto_simps [simp]:
  "w_queue (goto u p w) = w_queue w" "w_db (goto u p w) = w_db w" "w_pc (goto u p w) = (w_pc w)(u := p)"
  by (simp_all add: goto_def)

lemma leave_simps [simp]:
  "w_queue (leave_slot W pl u c w) = release (pl_server pl u) (drop_rx W u (w_queue w))"
  "w_db (leave_slot W pl u c w) = w_db w"
  "w_pc (leave_slot W pl u c w) = (w_pc w)(u := PEnded c)"
  "w_queue (leave_wait W u w) = drop_rx W u (w_queue w)"
  "w_db (leave_wait W u w) = w_db w"
  "w_pc (leave_wait W u w) = (w_pc w)(u := PEnded True)"
  by (simp_all add: leave_slot_def leave_wait_def)

section \<open>Mutual exclusion\<close>

definition holds_node :: "pc \<Rightarrow> bool" where
  "holds_node p \<longleftrightarrow> p = PHolding \<or> p = PWorking"

definition holds_start :: "pc \<Rightarrow> bool" where
  "holds_start p \<longleftrightarrow> p = PLocked \<or> p = PRegistered \<or> p = PSuperseded"

lemma holds_simps [simp]:
  "holds_node PHolding" "holds_node PWorking" "\<not> holds_node PStart" "\<not> holds_node PLocked"
  "\<not> holds_node PRegistered" "\<not> holds_node PSuperseded" "\<not> holds_node PReady"
  "\<not> holds_node PSubscribed" "\<not> holds_node PWaiting" "\<not> holds_node (PEnded c)" "\<not> holds_node (PDone c)"
  "holds_start PLocked" "holds_start PRegistered" "holds_start PSuperseded" "\<not> holds_start PStart"
  "\<not> holds_start PReady" "\<not> holds_start PSubscribed" "\<not> holds_start PWaiting" "\<not> holds_start PHolding"
  "\<not> holds_start PWorking" "\<not> holds_start (PEnded c)" "\<not> holds_start (PDone c)"
  by (simp_all add: holds_node_def holds_start_def)

text \<open>The mutex of a node is held exactly by the task that is between its acquisition and the
  end of its work; the start mutex of a project likewise.\<close>

definition locks_ok :: "placement \<Rightarrow> 'c world \<Rightarrow> bool" where
  "locks_ok pl w \<longleftrightarrow>
     (\<forall>u. holds_node (w_pc w u) \<longrightarrow> slots (w_queue w) (slot_key (pl_server pl u)) = Some (Some u))
   \<and> (\<forall>u. holds_start (w_pc w u) \<longrightarrow> starts (w_queue w) (pl_project pl u) = Some (Some u))
   \<and> (\<forall>k u. slots (w_queue w) k = Some (Some u) \<longrightarrow> holds_node (w_pc w u) \<and> slot_key (pl_server pl u) = k)
   \<and> (\<forall>p u. starts (w_queue w) p = Some (Some u) \<longrightarrow> holds_start (w_pc w u) \<and> pl_project pl u = p)"

lemma locks_ok_start: "locks_ok pl (start_world s)"
  by (simp add: locks_ok_def start_world_def new_queue_def)

text \<open>A step that keeps both mutexes and what the task holds.\<close>

lemma locks_ok_keep:
  assumes "locks_ok pl w"
    and "slots (w_queue w') = slots (w_queue w)" and "starts (w_queue w') = starts (w_queue w)"
    and "\<And>v. holds_node (w_pc w' v) = holds_node (w_pc w v)"
    and "\<And>v. holds_start (w_pc w' v) = holds_start (w_pc w v)"
  shows "locks_ok pl w'"
  using assms by (simp add: locks_ok_def)

lemma locks_ok_leave_slot:
  assumes "locks_ok pl w" and "holds_node (w_pc w u)"
  shows "locks_ok pl (leave_slot W pl u c w)"
proof -
  have "slots (w_queue w) (slot_key (pl_server pl u)) = Some (Some u)"
    using assms by (simp add: locks_ok_def)
  then have "slot_key (pl_server pl v) \<noteq> slot_key (pl_server pl u)" if "v \<noteq> u" "holds_node (w_pc w v)" for v
    using assms(1) that unfolding locks_ok_def by (metis option.inject)
  moreover have "\<not> holds_start (w_pc w u)" using assms(2) by (auto simp: holds_node_def)
  ultimately show ?thesis
    using assms(1) unfolding locks_ok_def by (simp add: release_def) metis
qed

lemma locks_ok_leave_start:
  assumes "locks_ok pl w" and "w_pc w u = PSuperseded"
  shows "locks_ok pl (goto u PReady (w\<lparr>w_queue := unlock_project_start (pl_project pl u) (drop_rx W u (w_queue w))\<rparr>))"
proof -
  have "holds_start (w_pc w u)" using assms(2) by simp
  then have "starts (w_queue w) (pl_project pl u) = Some (Some u)"
    using assms by (simp add: locks_ok_def)
  then have "pl_project pl v \<noteq> pl_project pl u" if "v \<noteq> u" "holds_start (w_pc w v)" for v
    using assms(1) that unfolding locks_ok_def by (metis option.inject)
  moreover have "\<not> holds_node (w_pc w u)" using assms(2) by simp
  ultimately show ?thesis
    using assms(1) unfolding locks_ok_def by (simp add: unlock_project_start_def) metis
qed

lemma locks_ok_db: "locks_ok pl (w\<lparr>w_db := s\<rparr>) = locks_ok pl w"
  by (simp add: locks_ok_def)

lemma locks_ok_take_start:
  assumes "locks_ok pl w" and "w_pc w u = PStart"
    and "lock_project_start (pl_project pl u) u (w_queue w) = Some q"
  shows "locks_ok pl (goto u PLocked (w\<lparr>w_queue := q\<rparr>))"
proof -
  have q: "q = (w_queue w)\<lparr>starts := (starts (w_queue w))(pl_project pl u \<mapsto> Some u)\<rparr>"
    and free: "\<And>v. starts (w_queue w) (pl_project pl u) \<noteq> Some (Some v)"
    using assms(3) by (auto simp: lock_project_start_def split: option.splits)
  have "\<not> (holds_start (w_pc w v) \<and> pl_project pl v = pl_project pl u)" for v
    using assms(1) free [of v] by (metis locks_ok_def)
  moreover have "\<not> holds_start (w_pc w u)" "\<not> holds_node (w_pc w u)" using assms(2) by simp_all
  ultimately show ?thesis using assms(1) unfolding locks_ok_def q by simp blast
qed

lemma locks_ok_take_node:
  assumes "locks_ok pl w" and "w_pc w u = PWaiting"
    and "acquire (pl_server pl u) u (w_queue w) = Some q"
  shows "locks_ok pl (goto u PHolding (w\<lparr>w_queue := q\<rparr>))"
proof -
  have q: "q = (w_queue w)\<lparr>slots := (slots (w_queue w))(slot_key (pl_server pl u) \<mapsto> Some u)\<rparr>"
    and free: "\<And>v. slots (w_queue w) (slot_key (pl_server pl u)) \<noteq> Some (Some v)"
    using assms(3) by (auto simp: acquire_def split: option.splits)
  have "\<not> (holds_node (w_pc w v) \<and> slot_key (pl_server pl v) = slot_key (pl_server pl u))" for v
    using assms(1) free [of v] by (metis locks_ok_def)
  moreover have "\<not> holds_start (w_pc w u)" "\<not> holds_node (w_pc w u)" using assms(2) by simp_all
  ultimately show ?thesis using assms(1) unfolding locks_ok_def q by simp blast
qed

lemma fire_locks_ok:
  assumes "fire W pl a w = Some w'" and "locks_ok pl w"
  shows "locks_ok pl w'"
proof (cases a)
  case (ALock u)
  with assms show ?thesis by (auto split: if_splits intro: locks_ok_take_start)
next
  case (AUnlock u)
  with assms show ?thesis by (auto split: if_splits intro: locks_ok_leave_start)
next
  case (AAcquire u)
  with assms show ?thesis by (auto split: if_splits intro: locks_ok_take_node)
next
  case (AStartWork u now)
  with assms have p: "w_pc w u = PHolding" by (auto split: if_splits)
  obtain s b where m: "mark_running_if_active now u (w_db w) = (s, b)" by (metis prod.exhaust)
  from p have h: "holds_node (w_pc (w\<lparr>w_db := s\<rparr>) u)" "holds_node (w_pc w u)" by simp_all
  have "locks_ok pl (goto u PWorking (w\<lparr>w_db := s\<rparr>))"
    by (rule locks_ok_keep [OF assms(2)]) (simp_all add: p)
  then show ?thesis
    using assms p m AStartWork locks_ok_leave_slot [OF _ h(1)] locks_ok_leave_slot [OF _ h(2)]
    by (auto simp: locks_ok_db split: if_splits bool.splits)
next
  case (AFinish u)
  with assms show ?thesis by (auto split: if_splits intro!: locks_ok_leave_slot)
next
  case (AAbort u)
  with assms show ?thesis
    by (auto split: if_splits pc.splits intro!: locks_ok_leave_slot elim!: locks_ok_keep)
next
  case (AOther op)
  with assms show ?thesis
    using qop_locks [of W op "w_queue w" "w_db w"]
    by (auto split: if_splits prod.splits elim!: locks_ok_keep)
next
  case (ASupersede u now)
  with assms show ?thesis
    using supersede_locks [of W now "pl_project pl u" u "w_queue w" "w_db w"]
    by (auto split: if_splits prod.splits elim!: locks_ok_keep)
qed (use assms in \<open>auto split: if_splits pc.splits elim!: locks_ok_keep\<close>)

lemma steps_locks_ok: "steps W pl w w' \<Longrightarrow> locks_ok pl w \<Longrightarrow> locks_ok pl w'"
  by (induction rule: steps.induct) (auto elim!: stepE intro: fire_locks_ok)

end
