(* ===== verification/DeployQueueProps.thy ===== *)
theory DeployQueueProps
  imports DeployQueueFacts
begin

text \<open>
  The properties of the deployment queue, over the operations of \<open>DeployQueue\<close> and with
  the facts of \<open>DeployQueueFacts\<close>. \<open>sample_db\<close> is the table the witnesses run on.
\<close>

section \<open>A sample table\<close>

definition sample_dep :: "string \<Rightarrow> int \<Rightarrow> dep_status \<Rightarrow> string \<Rightarrow> deployment" where
  "sample_dep u pid st env = \<lparr>d_uuid = lit u, d_project = pid, d_status = st, d_env = lit env,
     d_git_sha = None, d_target_sha = None, d_logs = None, d_error_summary = None,
     d_error_hint = None, d_live_sha = None, d_finished_at = None, d_dismissed_at = None,
     d_created_at = lit ''2026-01-01'', d_updated_at = lit ''2026-01-01''\<rparr>"

definition sample_db :: db where
  "sample_db = \<lparr>deployments = [sample_dep ''old'' 7 Running ''production'',
       sample_dep ''dev'' 7 Running ''dev'', sample_dep ''ok'' 7 Success ''production'',
       sample_dep ''new'' 7 Queued ''production''],
     projects = [\<lparr>p_id = 7, p_uuid = lit ''p'', p_name = lit ''p'', p_status = ProjDeploying,
       p_server_id = None, p_updated_at = Some (lit ''2026-01-01'')\<rparr>],
     events = [], faults = []\<rparr>"

definition sample_queue :: "(bool \<times> nat) queue" where
  "sample_queue = \<lparr>slots = Map.empty, cancels = [lit ''old'' \<mapsto> (False, 1)], starts = Map.empty\<rparr>"

definition sample_outcome :: outcome where
  "sample_outcome = \<lparr>o_status = Success, o_sha = lit ''abc1234'', o_logs = lit ''done'',
     o_summary = None, o_hint = None, o_live = None\<rparr>"

lemmas sample_defs = sample_db_def sample_dep_def sample_queue_def sample_outcome_def

lemma sample_wf: "db_wf sample_db"
  by (simp add: db_wf_def sample_defs)

section \<open>Frozen rows\<close>

text \<open>C10. A deployment whose status is not one of the five active ones (success, failed,
  cancelled, ...) is never written again: whatever operations of the queue run, in whatever
  order and with whatever database failures, its row stays exactly the same.\<close>

theorem closed_deployment_frozen:
  assumes "dep_of s u = Some d" and "\<not> active5 (d_status d)"
  shows "dep_of (snd (qop_run W ops (q, s))) u = Some d"
  using ev.rel_dep_of [OF ev.qop_run_rel [of "(q, s)"], of u d W ops] assms
  by (auto simp: row_evolves_def)

theorem closed_deployment_frozen_witness:
  "dep_of (snd (qop_run pair_watch [OFinalize [] (lit ''ok'') sample_outcome, ORequeue []]
       (sample_queue, sample_db))) (lit ''ok'') = Some (sample_dep ''ok'' 7 Success ''production'')"
  by (rule closed_deployment_frozen) (simp_all add: dep_of_def sample_defs)

section \<open>Supersession\<close>

lemma supersede_effect:
  assumes "faults s = []"
    and "supersede_in_progress W now pid keep (q, s) = ((q', s'), us)"
  shows "us = map d_uuid (filter (superseded_row s pid keep) (deployments s))"
    and "deployments s' = map (\<lambda>d. if superseded_row s pid keep d
           then close_row Cancelled (note_superseded keep) summary_superseded now d else d) (deployments s)"
    and "q' = fold (signal_cancel W) us q"
  using assms by (auto simp: supersede_in_progress_def sql_simps upd_deps_def o_def Let_def)

text \<open>Starting a deployment supersedes exactly the deployments of the same project and the
  same environment that are queued, running or building: afterwards none but the new one is,
  the returned list names the cancelled ones, and every other row is unchanged.\<close>

lemma supersede_exact:
  assumes "faults s = []" and "db_wf s"
    and "supersede_in_progress W now pid keep (q, s) = ((q', s'), us)"
  shows "(\<forall>d \<in> set (deployments s'). d_project d = pid \<and> d_env d = keep_env s keep
            \<and> active3 (d_status d) \<longrightarrow> d_uuid d = keep)
       \<and> (\<forall>u d. dep_of s u = Some d \<longrightarrow>
            (if u \<in> set us
             then superseded_row s pid keep d \<and> map_option d_status (dep_of s' u) = Some Cancelled
             else \<not> superseded_row s pid keep d \<and> dep_of s' u = Some d))"
proof (intro conjI allI impI)
  note eff = supersede_effect [OF assms(1,3)]
  show "\<forall>d \<in> set (deployments s'). d_project d = pid \<and> d_env d = keep_env s keep
            \<and> active3 (d_status d) \<longrightarrow> d_uuid d = keep"
    unfolding eff(2) by (simp add: superseded_row_def ball_Un) blast
  fix u d
  assume d: "dep_of s u = Some d"
  let ?g = "\<lambda>d. if superseded_row s pid keep d
    then close_row Cancelled (note_superseded keep) summary_superseded now d else d"
  have "dep_of s' u = map_option ?g (dep_of s u)"
    using dep_of_map [of "close_row Cancelled (note_superseded keep) summary_superseded now" u]
    by (simp add: dep_of_def eff)
  moreover have "u \<in> set us \<longleftrightarrow> superseded_row s pid keep d"
  proof
    assume "u \<in> set us"
    then obtain x where x: "x \<in> set (deployments s)" "d_uuid x = u" "superseded_row s pid keep x"
      by (auto simp: eff(1))
    with dep_of_unique [OF assms(2) x(1)] d show "superseded_row s pid keep d" by simp
  qed (use dep_of_mem [OF d] in \<open>auto simp: eff(1)\<close>)
  ultimately show "if u \<in> set us
      then superseded_row s pid keep d \<and> map_option d_status (dep_of s' u) = Some Cancelled
      else \<not> superseded_row s pid keep d \<and> dep_of s' u = Some d"
    using d by simp
qed

theorem supersede_exact_witness:
  "\<exists>q' s'. supersede_in_progress pair_watch [] 7 (lit ''new'') (sample_queue, sample_db) = ((q', s'), [lit ''old''])
     \<and> map_option d_status (dep_of s' (lit ''old'')) = Some Cancelled
     \<and> dep_of s' (lit ''dev'') = dep_of sample_db (lit ''dev'')"
proof -
  obtain q' s' us where r: "supersede_in_progress pair_watch [] 7 (lit ''new'') (sample_queue, sample_db) = ((q', s'), us)"
    by (metis prod.exhaust)
  have f: "faults sample_db = []" by (simp add: sample_defs)
  have us: "us = [lit ''old'']"
    using supersede_effect(1) [OF f r]
    by (simp add: sample_defs superseded_row_def keep_env_def dep_of_def)
  show ?thesis
  proof (intro exI conjI)
    note x = conjunct2 [OF supersede_exact [OF f sample_wf r], rule_format]
    show "supersede_in_progress pair_watch [] 7 (lit ''new'') (sample_queue, sample_db) = ((q', s'), [lit ''old''])"
      using r us by simp
    show "map_option d_status (dep_of s' (lit ''old'')) = Some Cancelled"
      using x [of "lit ''old''" "sample_dep ''old'' 7 Running ''production''"] us
      by (simp add: dep_of_def sample_db_def sample_dep_def)
    show "dep_of s' (lit ''dev'') = dep_of sample_db (lit ''dev'')"
      using x [of "lit ''dev''" "sample_dep ''dev'' 7 Running ''dev''"] us
      by (simp add: dep_of_def sample_db_def sample_dep_def)
  qed
qed

lemma fold_signal_cancels:
  "cancels (fold (signal_cancel W) us q) v =
     (if v \<in> set us then map_option (\<lambda>c. (w_send W True ^^ count_list us v) c) (cancels q v) else cancels q v)"
proof (induction us arbitrary: q)
  case (Cons u us)
  have "cancels (signal_cancel W u q) v
      = (if v = u then map_option (w_send W True) (cancels q v) else cancels q v)"
    by (auto simp: signal_cancel_def split: option.split)
  then show ?case
    using Cons.IH [of "signal_cancel W u q"]
    by (cases "cancels q v") (auto simp: funpow_swap1 count_list_0_iff)
qed simp

lemma send_power:
  assumes "watch_ok W" and "w_receivers W c > 0"
  shows "n > 0 \<Longrightarrow> w_value W ((w_send W True ^^ n) c)"
    and "w_receivers W ((w_send W True ^^ n) c) = w_receivers W c"
proof -
  show r: "w_receivers W ((w_send W True ^^ n) c) = w_receivers W c" for n
    using assms by (induction n) (auto simp: watch_ok_def)
  assume "n > 0"
  then obtain m where "n = Suc m" by (cases n) auto
  then show "w_value W ((w_send W True ^^ n) c)"
    using assms r [of m] by (simp add: watch_ok_def)
qed

text \<open>Every superseded deployment that a live task holds has its token signalled, so its
  task sees the cancellation; the token of the deployment that stays is untouched.\<close>

theorem supersede_signals_live_tasks:
  assumes "watch_ok W" and "faults s = []"
    and "supersede_in_progress W now pid keep (q, s) = ((q', s'), us)"
  shows "(\<forall>u \<in> set us. has_live_task W u q \<longrightarrow> is_cancelled W u q')
       \<and> cancels q' keep = cancels q keep"
proof
  note eff = supersede_effect [OF assms(2,3)]
  show "\<forall>u \<in> set us. has_live_task W u q \<longrightarrow> is_cancelled W u q'"
  proof (intro ballI impI)
    fix u
    assume u: "u \<in> set us" and live: "has_live_task W u q"
    then obtain c where c: "cancels q u = Some c" "w_receivers W c > 0"
      by (auto simp: has_live_task_def is_some_and_def split: option.splits)
    moreover have "count_list us u > 0" using u by (metis count_list_0_iff neq0_conv)
    ultimately show "is_cancelled W u q'"
      using send_power(1) [OF assms(1)] u
      by (simp add: is_cancelled_def eff(3) fold_signal_cancels)
  qed
  have "keep \<notin> set us" by (auto simp: eff(1) superseded_row_def)
  then show "cancels q' keep = cancels q keep" by (simp add: eff(3) fold_signal_cancels)
qed

theorem supersede_signals_live_tasks_witness:
  "is_cancelled pair_watch (lit ''old'')
     (fst (fst (supersede_in_progress pair_watch [] 7 (lit ''new'') (sample_queue, sample_db))))"
proof -
  obtain q' s' us where r: "supersede_in_progress pair_watch [] 7 (lit ''new'') (sample_queue, sample_db) = ((q', s'), us)"
    by (metis prod.exhaust)
  have f: "faults sample_db = []" by (simp add: sample_defs)
  have "lit ''old'' \<in> set us"
    using supersede_effect(1) [OF f r]
    by (simp add: sample_defs superseded_row_def keep_env_def dep_of_def)
  moreover have "has_live_task pair_watch (lit ''old'') sample_queue"
    by (simp add: has_live_task_def sample_defs pair_watch_def)
  ultimately show ?thesis
    using supersede_signals_live_tasks [OF pair_watch_ok f r] r by simp
qed

section \<open>One winner\<close>

lemma write_proj_deployments [simp]: "deployments (write_proj_status pid st now s) = deployments s"
  unfolding write_proj_status_def
  by (cases "upd_projs (\<lambda>p. p_id p = pid) (set_proj_status st now)" s rule: sql_cases)
    (auto simp: upd_projs_def)

lemma count_deployments [simp]: "deployments (fst (count_deps p s)) = deployments s"
  by (cases "sel_deps p" s rule: sql_cases) (auto simp: count_deps_def)

lemma recompute_deployments [simp]:
  "deployments (fst (recompute_project_status now pid s)) = deployments s"
  by (simp add: recompute_project_status_def Let_def case_prod_beta)

lemma sql_upd_dep_rows:
  assumes "sql (upd_deps (\<lambda>d. d_uuid d = u \<and> P d) f) s = (s', Some (x # xs))" and "db_wf s"
    and "\<And>d. d_uuid (f d) = d_uuid d"
  obtains d where "dep_of s u = Some d" "P d" "dep_of s' u = Some (f d)" "x = f d" "xs = []"
  using sql_upd_row(2) [OF assms, of "x # xs" u] that by (auto split: option.splits if_splits)

lemma cancelled_row:
  assumes "db_wf s" and "cancel_one_deployment W now u (q, s) = ((q', s'), Inr True)"
  shows "map_option d_status (dep_of s' u) = Some Cancelled"
proof -
  let ?f = "close_row Cancelled note_user_cancel summary_user_cancel now"
  obtain s1 rows where r: "sql (upd_deps (\<lambda>d. d_uuid d = u \<and> active5 (d_status d)) ?f) s = (s1, rows)"
    by (metis prod.exhaust)
  with assms(2) obtain x xs where rows: "rows = Some (x # xs)"
    and s': "s' = fst (recompute_project_status now (d_project x) s1)"
    by (auto simp: cancel_one_deployment_def Let_def case_prod_beta split: option.splits list.splits)
  from r rows obtain d where "dep_of s1 u = Some (?f d)"
    by (auto elim: sql_upd_dep_rows [OF _ assms(1)])
  then show ?thesis by (simp add: s' dep_of_def)
qed

lemma finalized_row:
  assumes "db_wf s" and "finalize_if_active now u r s = (s', True)"
  shows "map_option d_status (dep_of s' u) = Some (o_status r)"
    and "\<exists>d. dep_of s u = Some d \<and> active3 (d_status d)"
proof -
  obtain rows where "sql (upd_deps (\<lambda>d. d_uuid d = u \<and> active3 (d_status d)) (final_row r now)) s = (s', Some rows)"
    and "length rows = 1"
    using assms(2) by (cases "sql (upd_deps (\<lambda>d. d_uuid d = u \<and> active3 (d_status d)) (final_row r now)) s")
      (auto simp: finalize_if_active_def is_some_and_def split: option.splits)
  moreover from this obtain x xs where "rows = x # xs" by (cases rows) auto
  ultimately obtain d where "dep_of s u = Some d" "active3 (d_status d)" "dep_of s' u = Some (final_row r now d)"
    by (auto elim: sql_upd_dep_rows [OF _ assms(1)] simp: final_row_def)
  then show "map_option d_status (dep_of s' u) = Some (o_status r)"
    and "\<exists>d. dep_of s u = Some d \<and> active3 (d_status d)" by (simp_all add: final_row_def)
qed

lemma cancel_needs_active:
  assumes "db_wf s" and "cancel_one_deployment W now u (q, s) = ((q', s'), Inr True)"
  shows "\<exists>d. dep_of s u = Some d \<and> active5 (d_status d)"
proof -
  let ?f = "close_row Cancelled note_user_cancel summary_user_cancel now"
  obtain s1 rows where r: "sql (upd_deps (\<lambda>d. d_uuid d = u \<and> active5 (d_status d)) ?f) s = (s1, rows)"
    by (metis prod.exhaust)
  with assms(2) obtain x xs where "rows = Some (x # xs)"
    by (auto simp: cancel_one_deployment_def Let_def case_prod_beta split: option.splits list.splits)
  with r show ?thesis by (auto elim: sql_upd_dep_rows [OF _ assms(1)])
qed

text \<open>Cancelling beats finalising: once a deployment has been cancelled, no end of its task
  is written, whatever ran in between, and its status stays cancelled.\<close>

lemma cancelled_not_finalized:
  assumes "db_wf s" and "cancel_one_deployment W now u (q, s) = ((q', s'), Inr True)"
  shows "\<not> snd (finalize_if_active now' u r (snd (qop_run W ops (q', s'))))
       \<and> map_option d_status (dep_of (fst (finalize_if_active now' u r (snd (qop_run W ops (q', s'))))) u)
         = Some Cancelled"
proof -
  let ?t = "snd (qop_run W ops (q', s'))" and ?t' = "fst (finalize_if_active now' u r (snd (qop_run W ops (q', s'))))"
  have wf: "db_wf ?t"
    using assms ev.rel_cancel_one [of s W now u q] ev.qop_run_rel [of "(q', s')" W ops]
    by (auto intro: ev.rel_wf)
  obtain d where d: "dep_of s' u = Some d" "d_status d = Cancelled"
    using cancelled_row [OF assms] by auto
  then have t: "dep_of ?t u = Some d"
    using ev.rel_dep_of [OF ev.qop_run_rel [of "(q', s')" W ops]] by (fastforce simp: row_evolves_def)
  then have "dep_of ?t' u = Some d"
    using ev.rel_dep_of [OF ev.rel_finalize_any [of ?t now' u r]] d(2) by (fastforce simp: row_evolves_def)
  moreover have "\<not> snd (finalize_if_active now' u r ?t)"
    using finalized_row(2) [OF wf, of now' u r ?t'] t d(2)
    by (cases "finalize_if_active now' u r ?t") auto
  ultimately show ?thesis using d by simp
qed

lemma recompute_ok [simp]: "snd (recompute_project_status now pid s) = Inr ()"
  by (simp add: recompute_project_status_def split: prod.split)

lemma cancel_succeeds:
  assumes "faults s = []" and "db_wf s" and "dep_of s u = Some d" and "active5 (d_status d)"
  shows "snd (cancel_one_deployment W now u (q, s)) = Inr True"
proof -
  let ?f = "close_row Cancelled note_user_cancel summary_user_cancel now"
  have "filter (\<lambda>d. d_uuid d = u \<and> active5 (d_status d)) (deployments s) = [d]"
    using filter_uuid [OF assms(2), of u "\<lambda>d. active5 (d_status d)"] assms(3,4) by simp
  then obtain s1 where "sql (upd_deps (\<lambda>d. d_uuid d = u \<and> active5 (d_status d)) ?f) s = (s1, Some [?f d])"
    by (simp add: sql_nofault [OF assms(1)] upd_deps_def)
  then show ?thesis
    by (simp add: cancel_one_deployment_def Let_def case_prod_beta)
qed

theorem cancelled_not_finalized_witness:
  "\<exists>q' s'. cancel_one_deployment pair_watch [] (lit ''old'') (sample_queue, sample_db) = ((q', s'), Inr True)
     \<and> \<not> snd (finalize_if_active [] (lit ''old'') sample_outcome
              (snd (qop_run pair_watch [OClaim [] (lit ''old'')] (q', s'))))"
proof -
  have "snd (cancel_one_deployment pair_watch [] (lit ''old'') (sample_queue, sample_db)) = Inr True"
    by (rule cancel_succeeds [OF _ sample_wf, where d = "sample_dep ''old'' 7 Running ''production''"])
      (simp_all add: sample_defs dep_of_def)
  then obtain q' s' where r: "cancel_one_deployment pair_watch [] (lit ''old'') (sample_queue, sample_db) = ((q', s'), Inr True)"
    by (metis prod.exhaust snd_conv)
  then show ?thesis
    using conjunct1 [OF cancelled_not_finalized [OF sample_wf r, of "[]" sample_outcome "[OClaim [] (lit ''old'')]"]]
    by blast
qed

text \<open>Finalising beats cancelling: once the end of a deployment has been written with a
  status that is not active, no later cancellation succeeds and the status stays.\<close>

theorem finalized_not_cancelled:
  assumes "db_wf s" and "finalize_if_active now u r s = (s', True)" and "\<not> active5 (o_status r)"
  shows "snd (cancel_one_deployment W now' u (qop_run W ops (q, s'))) \<noteq> Inr True
       \<and> map_option d_status (dep_of (snd (fst (cancel_one_deployment W now' u (qop_run W ops (q, s'))))) u)
         = Some (o_status r)"
proof -
  obtain q1 t where w: "qop_run W ops (q, s') = (q1, t)" by (metis prod.exhaust)
  have rel: "ev.rel s' t" using ev.qop_run_rel [of "(q, s')" W ops] w by simp
  then have wf: "db_wf t"
    using assms(1,2) ev.rel_finalize_any [of s now u r] by (auto intro: ev.rel_wf)
  obtain d where d: "dep_of s' u = Some d" "d_status d = o_status r"
    using finalized_row(1) [OF assms(1,2)] by auto
  then have t: "dep_of t u = Some d"
    using ev.rel_dep_of [OF rel] assms(3) by (fastforce simp: row_evolves_def)
  then have "dep_of (snd (fst (cancel_one_deployment W now' u (q1, t)))) u = Some d"
    using ev.rel_dep_of [OF ev.rel_cancel_one [of t W now' u q1]] d(2) assms(3)
    by (fastforce simp: row_evolves_def)
  moreover have "snd (cancel_one_deployment W now' u (q1, t)) \<noteq> Inr True"
    using cancel_needs_active [OF wf, of W now' u q1] t d(2) assms(3)
    by (cases "cancel_one_deployment W now' u (q1, t)") auto
  ultimately show ?thesis using d w by simp
qed

theorem finalized_not_cancelled_witness:
  "\<exists>s'. finalize_if_active [] (lit ''old'') sample_outcome sample_db = (s', True)
     \<and> snd (cancel_one_deployment pair_watch [] (lit ''old'')
              (qop_run pair_watch [ORequeue []] (sample_queue, s'))) \<noteq> Inr True"
proof -
  obtain s' where r: "finalize_if_active [] (lit ''old'') sample_outcome sample_db = (s', True)"
    by (simp add: finalize_if_active_def Let_def sql_simps sample_defs upd_deps_def)
  have "\<not> active5 (o_status sample_outcome)" by (simp add: sample_outcome_def)
  from conjunct1 [OF finalized_not_cancelled [OF sample_wf r this]] show ?thesis
    using r by blast
qed

section \<open>Claims\<close>

lemma claimed_row:
  assumes "db_wf s" and "try_claim_deployment now u s = (s', Inr True)"
  shows "\<exists>d d'. dep_of s u = Some d \<and> d_status d = Queued \<and> dep_of s' u = Some d' \<and> d_status d' = Running"
proof -
  let ?f = "\<lambda>d. d\<lparr>d_status := Running, d_updated_at := now\<rparr>"
  obtain rows where r: "sql (upd_deps (\<lambda>d. d_uuid d = u \<and> d_status d = Queued) ?f) s = (s', Some rows)"
    and "length rows = 1"
    using assms(2) by (cases "sql (upd_deps (\<lambda>d. d_uuid d = u \<and> d_status d = Queued) ?f) s")
      (auto simp: try_claim_deployment_def split: option.splits)
  then obtain x xs where "rows = x # xs" by (cases rows) auto
  with r obtain d where "dep_of s u = Some d" "d_status d = Queued" "dep_of s' u = Some (?f d)"
    by (auto elim: sql_upd_dep_rows [OF _ assms(1)])
  then show ?thesis by simp
qed

text \<open>C9. A queued deployment is claimed at most once: after one claim, as long as nothing
  requeues it, every further claim of it fails, whatever operations ran in between.\<close>

theorem claimed_once:
  assumes "db_wf s" and "try_claim_deployment now u s = (s', Inr True)"
    and "\<forall>op \<in> set ops. keeps_claims op"
  shows "snd (try_claim_deployment now' u (snd (qop_run W ops (q, s')))) \<noteq> Inr True"
proof
  let ?t = "snd (qop_run W ops (q, s'))"
  assume c: "snd (try_claim_deployment now' u ?t) = Inr True"
  obtain d' where d': "dep_of s' u = Some d'" "d_status d' = Running"
    using claimed_row [OF assms(1,2)] by auto
  have rel: "cl.rel s' ?t" using cl.qop_run_claims [OF assms(3), of "(q, s')" W] by simp
  have "db_wf s'" using ev.rel_claim [of s now u] assms(1,2) by (auto intro: ev.rel_wf)
  then have "db_wf ?t" by (rule cl.rel_wf [OF rel])
  with c obtain e where "dep_of ?t u = Some e" "d_status e = Queued"
    using claimed_row [of ?t now' u] by (metis prod.collapse)
  then show False using cl.rel_dep_of [OF rel d'(1)] d'(2) by (auto simp: stays_claimed_def)
qed

theorem claimed_once_witness:
  "\<exists>s'. try_claim_deployment [] (lit ''new'') sample_db = (s', Inr True)
     \<and> snd (try_claim_deployment [] (lit ''new'')
          (snd (qop_run pair_watch [OCancel [] (lit ''old''), OReap [] []] (sample_queue, s')))) \<noteq> Inr True"
proof -
  obtain s' where r: "try_claim_deployment [] (lit ''new'') sample_db = (s', Inr True)"
    by (simp add: try_claim_deployment_def Let_def sql_simps sample_defs upd_deps_def)
  have "\<forall>op \<in> set [OCancel [] (lit ''old''), OReap [] []]. keeps_claims op" by simp
  from claimed_once [OF sample_wf r this] show ?thesis using r by blast
qed

section \<open>The project's status\<close>

lemma count_nofault:
  "faults s = [] \<Longrightarrow> count_deps p s = (s, length (filter p (deployments s)))"
  by (simp add: count_deps_def sql_simps)

lemma filter_count: "0 < length (filter p xs) \<longleftrightarrow> (\<exists>x \<in> set xs. p x)"
  by (auto simp: filter_empty_conv)

text \<open>The status a project should have, read off its rows.\<close>

definition derived_status :: "db \<Rightarrow> int \<Rightarrow> proj_status" where
  "derived_status s pid =
     (if \<exists>d \<in> set (deployments s). active_prod pid d then ProjDeploying else settled_status s pid)"

lemma recompute_eq:
  assumes "faults s = []"
  shows "recompute_project_status now pid s = (write_proj_status pid (derived_status s pid) now s, Inr ())"
  by (simp add: recompute_project_status_def count_nofault [OF assms] filter_count
      derived_status_def settled_status_def del: length_greater_0_conv)

lemma write_proj_of:
  assumes "faults s = []"
  shows "proj_of (write_proj_status pid st now s) i =
     (if i = pid then map_option (set_proj_status st now) (proj_of s i) else proj_of s i)"
proof -
  have "map_option (\<lambda>r. if p_id r = pid then set_proj_status st now r else r) (proj_of s i)
      = (if i = pid then map_option (set_proj_status st now) (proj_of s i) else proj_of s i)"
    by (cases "proj_of s i") (auto dest: proj_of_id)
  then show ?thesis
    using proj_of_map [of "set_proj_status st now" i "\<lambda>r. p_id r = pid" "projects s"]
    by (simp add: write_proj_status_def sql_nofault [OF assms] upd_projs_def proj_of_def)
qed

text \<open>When no query fails, recomputing a project's status gives the one its rows call for:
  deploying while a production deployment is active, else live after a success, else failed
  with an undismissed failure, else idle; no row and no other project changes, and a second
  recomputation changes nothing more than the time stamp.\<close>

lemma recompute_derives_status:
  assumes "faults s = []" and "proj_of s pid = Some p"
    and "recompute_project_status now pid s = (s', r)"
  shows "r = Inr () \<and> deployments s' = deployments s
       \<and> proj_of s' pid = Some (p\<lparr>p_status := derived_status s pid, p_updated_at := Some now\<rparr>)
       \<and> (\<forall>i. i \<noteq> pid \<longrightarrow> proj_of s' i = proj_of s i)
       \<and> derived_status s' pid = derived_status s pid"
proof -
  have s': "s' = write_proj_status pid (derived_status s pid) now s" and "r = Inr ()"
    using assms(3) recompute_eq [OF assms(1)] by auto
  moreover have "derived_status s' pid = derived_status s pid"
    by (simp add: s' derived_status_def settled_status_def)
  ultimately show ?thesis
    using assms(2) by (simp add: write_proj_of [OF assms(1)] set_proj_status_def)
qed

theorem recompute_derives_status_witness:
  "proj_of (fst (recompute_project_status [] 7 sample_db)) 7
     = Some \<lparr>p_id = 7, p_uuid = lit ''p'', p_name = lit ''p'', p_status = ProjDeploying,
              p_server_id = None, p_updated_at = Some []\<rparr>"
proof -
  obtain s' r where x: "recompute_project_status [] 7 sample_db = (s', r)" by (metis prod.exhaust)
  have f: "faults sample_db = []" by (simp add: sample_db_def)
  have p: "proj_of sample_db 7 = Some \<lparr>p_id = 7, p_uuid = lit ''p'', p_name = lit ''p'',
      p_status = ProjDeploying, p_server_id = None, p_updated_at = Some (lit ''2026-01-01'')\<rparr>"
    by (simp add: proj_of_def sample_db_def)
  have d: "derived_status sample_db 7 = ProjDeploying"
    by (simp add: derived_status_def active_prod_def production_def sample_defs)
  show ?thesis
    using recompute_derives_status [OF f p x] by (simp add: x d)
qed

section \<open>Recovery\<close>

text \<open>Releasing stale locks never releases a project that has an active deployment, in any
  environment, and never touches a deployment; when the query runs, exactly the projects that
  were deploying without an active deployment since before the cutoff are returned, and each
  gets its settled status.\<close>

theorem release_orphans_exact:
  assumes "release_orphan_project_locks now cutoff s = (s', ids)"
  shows "deployments s' = deployments s
       \<and> (\<forall>i \<in> set ids. no_active_deployment s i)
       \<and> (faults s = [] \<longrightarrow> projects s' = map (\<lambda>p.
            if p_status p = ProjDeploying
               \<and> (case p_updated_at p of None \<Rightarrow> True | Some x \<Rightarrow> x < cutoff)
               \<and> no_active_deployment s (p_id p)
            then p\<lparr>p_status := settled_status s (p_id p), p_updated_at := Some now\<rparr> else p) (projects s))"
proof -
  let ?q = "\<lambda>t. upd_projs
            (\<lambda>p. p_status p = ProjDeploying
               \<and> (case p_updated_at p of None \<Rightarrow> True | Some x \<Rightarrow> x < cutoff)
               \<and> no_active_deployment t (p_id p))
            (\<lambda>p. set_proj_status (settled_status t (p_id p)) now p) t"
  have ids: "ids = map p_id (unwrap_or (snd (sql ?q s)) [])" and s': "s' = fst (sql ?q s)"
    using assms by (simp_all add: release_orphan_project_locks_def Let_def case_prod_beta)
  have "deployments s' = deployments s \<and> (\<forall>i \<in> set ids. no_active_deployment s i)"
    by (cases ?q s rule: sql_cases) (auto simp: ids s' upd_projs_def no_active_deployment_def)
  moreover have "faults s = [] \<Longrightarrow> projects s' = map (\<lambda>p.
            if p_status p = ProjDeploying
               \<and> (case p_updated_at p of None \<Rightarrow> True | Some x \<Rightarrow> x < cutoff)
               \<and> no_active_deployment s (p_id p)
            then p\<lparr>p_status := settled_status s (p_id p), p_updated_at := Some now\<rparr> else p) (projects s)"
    by (simp add: s' sql_nofault upd_projs_def set_proj_status_def)
  ultimately show ?thesis by blast
qed

theorem release_orphans_exact_witness:
  "\<exists>s'. release_orphan_project_locks [] (lit ''2027'') sample_db = (s', [])
      \<and> deployments s' = deployments sample_db"
proof -
  obtain s' ids where x: "release_orphan_project_locks [] (lit ''2027'') sample_db = (s', ids)"
    by (metis prod.exhaust)
  moreover have "ids = []"
    using x by (auto simp: release_orphan_project_locks_def sql_simps upd_projs_def
        no_active_deployment_def sample_defs)
  ultimately show ?thesis using release_orphans_exact [OF x] by blast
qed

definition orphan :: "'c watch_ops \<Rightarrow> 'c queue \<Rightarrow> ustr set \<Rightarrow> deployment \<Rightarrow> bool" where
  "orphan W q us d \<longleftrightarrow> d_uuid d \<in> us \<and> active3 (d_status d) \<and> \<not> has_live_task W (d_uuid d) q"

abbreviation close_orphan :: "ts \<Rightarrow> deployment \<Rightarrow> deployment" where
  "close_orphan now \<equiv> close_row Failed note_orphan summary_orphan now"

lemma reap_project_same:
  "faults s = [] \<Longrightarrow> deployments (reap_project now pid s) = deployments s \<and> faults (reap_project now pid s) = []"
  by (simp add: reap_project_def sql_nofault upd_projs_def)

lemma orphan_step:
  assumes "\<not> has_live_task W u q"
  shows "map (\<lambda>d. if orphan W q us d then close_orphan now d else d)
       (map (\<lambda>d. if d_uuid d = u \<and> active3 (d_status d) then close_orphan now d else d) ds)
     = map (\<lambda>d. if orphan W q (insert u us) d then close_orphan now d else d) ds"
  using assms by (auto simp: orphan_def)

lemma orphan_live:
  assumes "has_live_task W u q"
  shows "orphan W q (insert u us) d = orphan W q us d"
  using assms by (auto simp: orphan_def)

lemma reap_rows_nofault:
  assumes "faults s = []"
  shows "deployments (fst (reap_rows W now q rows n s))
       = map (\<lambda>d. if orphan W q (fst ` set rows) d then close_orphan now d else d) (deployments s)"
  using assms
proof (induction rows arbitrary: n s)
  case Nil
  then show ?case by (simp add: orphan_def)
next
  case (Cons r rows)
  obtain u pid where r: "r = (u, pid)" by (cases r)
  show ?case
  proof (cases "has_live_task W u q")
    case True
    then show ?thesis by (simp add: r Cons.IH [OF Cons.prems] orphan_live)
  next
    case False
    let ?s1 = "s\<lparr>deployments := map (\<lambda>d. if d_uuid d = u \<and> active3 (d_status d) then close_orphan now d else d) (deployments s)\<rparr>"
    have f: "faults ?s1 = []" using Cons.prems by simp
    have "deployments (fst (reap_rows W now q rows m t)) =
        map (\<lambda>d. if orphan W q (insert u (fst ` set rows)) d then close_orphan now d else d) (deployments s)"
      if "faults t = []" "deployments t = deployments ?s1" for t m
      using Cons.IH [OF that(1)] that(2) orphan_step [OF False] by simp
    then show ?thesis
      using reap_project_same [OF f, of now pid] f False
      by (simp add: r sql_nofault [OF Cons.prems] upd_deps_def)
  qed
qed

lemma reap_orphans_rows:
  assumes "faults s = []" and "db_wf s" and "reap_orphans W now cutoff q s = (s', n)"
  shows "deployments s' = map (\<lambda>d.
     if active3 (d_status d) \<and> d_updated_at d < cutoff \<and> \<not> has_live_task W (d_uuid d) q
     then close_orphan now d else d) (deployments s)"
proof -
  let ?P = "\<lambda>d. active3 (d_status d) \<and> d_updated_at d < cutoff"
  let ?rows = "map (\<lambda>d. (d_uuid d, d_project d)) (filter ?P (deployments s))"
  have us: "fst ` set ?rows = d_uuid ` {d \<in> set (deployments s). ?P d}" by force
  have s': "s' = fst (reap_rows W now q ?rows 0 s)"
    using assms(3) by (simp add: reap_orphans_def sql_nofault [OF assms(1)] prod_eq_iff)
  have "orphan W q (fst ` set ?rows) d
      \<longleftrightarrow> active3 (d_status d) \<and> d_updated_at d < cutoff \<and> \<not> has_live_task W (d_uuid d) q"
    if "d \<in> set (deployments s)" for d
  proof -
    have "d_uuid d \<in> fst ` set ?rows \<longleftrightarrow> ?P d"
    proof
      assume "d_uuid d \<in> fst ` set ?rows"
      then obtain e where "e \<in> set (deployments s)" "?P e" "d_uuid e = d_uuid d"
        unfolding us by auto
      moreover from this have "e = d"
        using dep_of_unique [OF assms(2)] that by (metis option.inject)
      ultimately show "?P d" by simp
    qed (use that us in auto)
    then show ?thesis by (auto simp: orphan_def)
  qed
  then show ?thesis
    unfolding s' reap_rows_nofault [OF assms(1)] by (intro map_cong) simp_all
qed

text \<open>When no query fails, reaping closes exactly the deployments that were queued, running
  or building since before the cutoff and that no live task holds: each becomes failed with the
  orphan note; a deployment a task still holds, a recent one and a closed one stay as they are.\<close>

lemma reap_orphans_exact:
  assumes "faults s = []" and "db_wf s" and "reap_orphans W now cutoff q s = (s', n)"
  shows "deployments s' = map (\<lambda>d.
     if active3 (d_status d) \<and> d_updated_at d < cutoff \<and> \<not> has_live_task W (d_uuid d) q
     then close_orphan now d else d) (deployments s)"
  using assms by (rule reap_orphans_rows)

theorem reap_orphans_exact_witness:
  "\<exists>s' n. reap_orphans pair_watch [] (lit ''2027'') sample_queue sample_db = (s', n)
     \<and> map d_status (deployments s') = [Running, Failed, Success, Failed]"
proof -
  obtain s' n where x: "reap_orphans pair_watch [] (lit ''2027'') sample_queue sample_db = (s', n)"
    by (metis prod.exhaust)
  have f: "faults sample_db = []" by (simp add: sample_db_def)
  show ?thesis
    using reap_orphans_exact [OF f sample_wf x] x
    by (simp add: sample_defs has_live_task_def pair_watch_def)
qed

end
