(* ===== verification/SlotProps.thy ===== *)
theory SlotProps
  imports SlotRun DeployQueueProps
begin

text \<open>
  The properties of deployments running side by side, over the steps of \<open>SlotRun\<close>: mutual
  exclusion, no work for a closed row, progress, and what the token of a task sees.
\<close>

section \<open>A run of two deployments\<close>

definition sample_place :: placement where
  "sample_place = \<lparr>pl_server = (\<lambda>_. lit '' srv ''), pl_project = (\<lambda>u. if u = lit ''dev'' then 8 else 7)\<rparr>"

definition sample_to_work :: "action list" where
  "sample_to_work = [ALock (lit ''new''), ARegister (lit ''new''), ASupersede (lit ''new'') [],
     AUnlock (lit ''new''), ASubscribe (lit ''new''), AQueue (lit ''new''), AAcquire (lit ''new''),
     AStartWork (lit ''new'') []]"

text \<open>A concrete run: one task gets to work, a second one waits.\<close>

lemma sample_run:
  "\<exists>w. fires pair_watch sample_place sample_to_work (start_world sample_db) = Some w \<and> w_pc w (lit ''new'') = PWorking"
proof -
  let ?u = "lit ''new''"
  obtain q s us where sup: "supersede_in_progress pair_watch [] 7 ?u
      (fst (register_cancel pair_watch ?u (new_queue\<lparr>starts := [7 \<mapsto> Some ?u]\<rparr>)), sample_db) = ((q, s), us)"
    by (metis prod.exhaust)
  have f: "faults sample_db = []" by (simp add: sample_db_def)
  note eff = supersede_effect [OF f sup]
  have us: "us = [lit ''old'']"
    using eff(1) by (simp add: sample_defs superseded_row_def keep_env_def dep_of_def)
  have q: "q = \<lparr>slots = Map.empty, cancels = [?u \<mapsto> (False, 1)], starts = [7 \<mapsto> Some ?u]\<rparr>"
    using eff(3) by (simp add: us signal_cancel_def register_cancel_def new_queue_def pair_watch_def)
  have s: "faults s = []" "dep_of s ?u = Some (sample_dep ''new'' 7 Queued ''production'')" "db_wf s"
  proof -
    show "db_wf s" using ev.rel_supersede [of sample_db pair_watch "[]" 7 ?u] ev.rel_wf [OF _ sample_wf] sup
      by (metis fst_conv snd_conv ev.rel_supersede)
    show "faults s = []"
      using sup by (auto simp: supersede_in_progress_def sql_nofault [OF f] upd_deps_def f Let_def)
    show "dep_of s ?u = Some (sample_dep ''new'' 7 Queued ''production'')"
      using conjunct2 [OF supersede_exact [OF f sample_wf sup], rule_format, of ?u "sample_dep ''new'' 7 Queued ''production''"] us
      by (simp add: dep_of_def sample_db_def sample_dep_def)
  qed
  have m: "snd (mark_running_if_active [] ?u s)"
    using s filter_uuid [OF s(3), of ?u "\<lambda>d. active3 (d_status d)"]
    by (simp add: mark_running_if_active_def sql_nofault upd_deps_def sample_dep_def)
  then obtain s1 where m: "mark_running_if_active [] ?u s = (s1, True)" by (metis prod.collapse)
  show ?thesis
    using sup m
    by (simp add: sample_to_work_def start_world_def goto_def lock_project_start_def new_queue_def
        sample_place_def q unlock_project_start_def drop_rx_def subscribe_def is_cancelled_def
        pair_watch_def is_busy_def acquire_def)
qed

section \<open>Mutual exclusion\<close>

text \<open>C5. At most one deployment at a time holds a node, whatever spelling of the node's id
  its project uses, and at most one at a time is between taking the start mutex of a project
  and releasing it, so that supersessions of a project never interleave.\<close>

theorem one_deployment_per_node:
  assumes "steps W pl (start_world s) w"
  shows "(holds_node (w_pc w u) \<and> holds_node (w_pc w v)
            \<and> slot_key (pl_server pl u) = slot_key (pl_server pl v) \<longrightarrow> u = v)
       \<and> (holds_start (w_pc w u) \<and> holds_start (w_pc w v) \<and> pl_project pl u = pl_project pl v \<longrightarrow> u = v)"
proof -
  have "locks_ok pl w" using steps_locks_ok [OF assms locks_ok_start] .
  then show ?thesis unfolding locks_ok_def by (metis option.inject)
qed

theorem one_deployment_per_node_witness:
  "\<exists>w. steps pair_watch sample_place (start_world sample_db) w \<and> w_pc w (lit ''new'') = PWorking
     \<and> (\<forall>v. holds_node (w_pc w v) \<longrightarrow> v = lit ''new'')"
proof -
  obtain w where w: "fires pair_watch sample_place sample_to_work (start_world sample_db) = Some w"
    and pc: "w_pc w (lit ''new'') = PWorking" using sample_run by blast
  from w have st: "steps pair_watch sample_place (start_world sample_db) w" by (rule fires_steps)
  have "v = lit ''new''" if "holds_node (w_pc w v)" for v
    using one_deployment_per_node [OF st, of v "lit ''new''"] that pc by (simp add: sample_place_def)
  then show ?thesis using st pc by blast
qed

section \<open>Closed rows never get a task\<close>

lemma fire_evolves:
  assumes "fire W pl a w = Some w'"
  shows "ev.rel (w_db w) (w_db w')"
proof (cases a)
  case (ASupersede u now)
  then show ?thesis
    using assms ev.rel_supersede [of "w_db w" W now "pl_project pl u" u "w_queue w"]
    by (auto split: if_splits prod.splits)
next
  case (AQueue u)
  then show ?thesis using assms by (auto split: if_splits intro: ev.rel_note_waiting)
next
  case (AStartWork u now)
  then show ?thesis
    using assms ev.rel_mark_running [of "w_db w" now u]
    by (auto split: if_splits prod.splits bool.splits)
next
  case (AOther op)
  then show ?thesis
    using assms ev.qop_step_rel [of "(w_queue w, w_db w)" W op] by (auto split: if_splits prod.splits)
qed (use assms in \<open>auto split: if_splits pc.splits\<close>)

lemma mark_running_active:
  assumes "db_wf s" and "mark_running_if_active now u s = (s', True)"
  shows "\<exists>d. dep_of s u = Some d \<and> active3 (d_status d)"
proof -
  let ?f = "\<lambda>d. d\<lparr>d_status := Running, d_updated_at := now\<rparr>"
  obtain rows where r: "sql (upd_deps (\<lambda>d. d_uuid d = u \<and> active3 (d_status d)) ?f) s = (s', Some rows)"
    and "length rows = 1"
    using assms(2) by (cases "sql (upd_deps (\<lambda>d. d_uuid d = u \<and> active3 (d_status d)) ?f) s")
      (auto simp: mark_running_if_active_def is_some_and_def split: option.splits)
  then obtain x xs where "rows = x # xs" by (cases rows) auto
  with r show ?thesis by (auto elim: sql_upd_dep_rows [OF _ assms(1)])
qed

text \<open>The states of a task that did its work, or is at it.\<close>

definition worked :: "pc \<Rightarrow> bool" where
  "worked p \<longleftrightarrow> p = PWorking \<or> p = PEnded False \<or> p = PDone False"

lemma fire_worked:
  assumes "fire W pl a w = Some w'" and "worked (w_pc w' u)" and "\<not> worked (w_pc w u)"
  shows "\<exists>now s. a = AStartWork u now \<and> mark_running_if_active now u (w_db w) = (s, True)"
  using assms
  by (cases a) (auto simp: worked_def split: if_splits prod.splits bool.splits pc.splits option.splits)

text \<open>C1. A deployment whose row is closed (cancelled, superseded, failed, reaped) and whose
  task has not started to work never works, at no later point and under no interleaving: its
  task can only end as cancelled.\<close>

theorem closed_row_never_works:
  assumes "steps W pl w w'" and "db_wf (w_db w)"
    and "dep_of (w_db w) u = Some d" and "\<not> active5 (d_status d)" and "\<not> worked (w_pc w u)"
  shows "\<not> worked (w_pc w' u) \<and> dep_of (w_db w') u = Some d"
proof -
  have "db_wf (w_db w') \<and> dep_of (w_db w') u = Some d \<and> \<not> worked (w_pc w' u)"
    using assms
  proof (induction rule: steps.induct)
    case (more w w1 w2)
    then have ih: "db_wf (w_db w1)" "dep_of (w_db w1) u = Some d" "\<not> worked (w_pc w1 u)" by auto
    from more obtain a where a: "fire W pl a w1 = Some w2" by (auto elim: stepE)
    have "dep_of (w_db w2) u = Some d"
      using ev.rel_dep_of [OF fire_evolves [OF a] ih(2)] more.prems by (auto simp: row_evolves_def)
    moreover have "\<not> worked (w_pc w2 u)"
    proof
      assume "worked (w_pc w2 u)"
      then obtain e where "dep_of (w_db w1) u = Some e" "active3 (d_status e)"
        using fire_worked [OF a _ ih(3)] mark_running_active [OF ih(1)] by blast
      then show False using ih(2) more.prems active3_active5 by auto
    qed
    ultimately show ?case using ev.rel_wf [OF fire_evolves [OF a] ih(1)] by blast
  qed simp
  then show ?thesis by blast
qed

theorem closed_row_never_works_witness:
  "\<exists>w. steps pair_watch sample_place (start_world sample_db) w \<and> w_pc w (lit ''new'') = PWorking
     \<and> \<not> worked (w_pc w (lit ''ok''))
     \<and> dep_of (w_db w) (lit ''ok'') = Some (sample_dep ''ok'' 7 Success ''production'')"
proof -
  obtain w where w: "fires pair_watch sample_place sample_to_work (start_world sample_db) = Some w"
    and pc: "w_pc w (lit ''new'') = PWorking" using sample_run by blast
  from w have st: "steps pair_watch sample_place (start_world sample_db) w" by (rule fires_steps)
  have "\<not> worked (w_pc w (lit ''ok'')) \<and> dep_of (w_db w) (lit ''ok'') = Some (sample_dep ''ok'' 7 Success ''production'')"
  proof (rule closed_row_never_works [OF st])
    show "db_wf (w_db (start_world sample_db))" by (simp add: start_world_def sample_wf)
  qed (simp_all add: start_world_def worked_def sample_db_def sample_dep_def dep_of_def)
  then show ?thesis using st pc by blast
qed

section \<open>What a token sees\<close>

text \<open>The number of receivers the token of a task has, by where the task stands.\<close>

fun expected_rx :: "pc \<Rightarrow> nat option" where
  "expected_rx PStart = None"
| "expected_rx PLocked = None"
| "expected_rx PRegistered = Some 1"
| "expected_rx PSuperseded = Some 1"
| "expected_rx PReady = Some 0"
| "expected_rx (PEnded c) = Some 0"
| "expected_rx (PDone c) = None"
| "expected_rx _ = Some 1"

definition receivers :: "'c watch_ops \<Rightarrow> 'c queue \<Rightarrow> ustr \<Rightarrow> nat option" where
  "receivers W q u = map_option (w_receivers W) (cancels q u)"

definition rx_ok :: "'c watch_ops \<Rightarrow> 'c world \<Rightarrow> bool" where
  "rx_ok W w \<longleftrightarrow> (\<forall>u n. expected_rx (w_pc w u) = Some n \<longrightarrow> receivers W (w_queue w) u = Some n)"

lemma receivers_simps:
  assumes "watch_ok W"
  shows "receivers W (fst (register_cancel W u q)) v = (if v = u then Some 1 else receivers W q v)"
    and "receivers W (subscribe W u q) v = (if v = u then map_option Suc (receivers W q v) else receivers W q v)"
    and "receivers W (drop_rx W u q) v = (if v = u then map_option (\<lambda>n. n - 1) (receivers W q v) else receivers W q v)"
    and "receivers W (signal_cancel W u q) v = receivers W q v"
    and "receivers W (unregister_cancel u q) v = (if v = u then None else receivers W q v)"
    and "receivers W (release k q) v = receivers W q v"
    and "receivers W (unlock_project_start p q) v = receivers W q v"
    and "receivers W (q\<lparr>starts := st\<rparr>) v = receivers W q v"
    and "receivers W (q\<lparr>slots := sl\<rparr>) v = receivers W q v"
  using assms
  by (auto simp: receivers_def watch_ok_def register_cancel_def subscribe_def drop_rx_def release_def
      signal_cancel_def unregister_cancel_def unlock_project_start_def option.map_comp o_def
      split: option.split)

lemma receivers_signals: "watch_ok W \<Longrightarrow> receivers W (fold (signal_cancel W) us q) v = receivers W q v"
  by (induction us arbitrary: q) (simp_all add: receivers_simps)

lemma receivers_supersede:
  "watch_ok W \<Longrightarrow> receivers W (fst (fst (supersede_in_progress W now pid k (q, s)))) v = receivers W q v"
  by (simp add: supersede_in_progress_def Let_def case_prod_beta receivers_signals)

lemma receivers_cancel:
  "watch_ok W \<Longrightarrow> receivers W (fst (fst (cancel_one_deployment W now u (q, s)))) v = receivers W q v"
  by (simp add: cancel_one_deployment_def Let_def case_prod_beta receivers_simps split: option.split list.split)

lemma receivers_other:
  "watch_ok W \<Longrightarrow> other_op op \<Longrightarrow> receivers W (fst (qop_step W op (q, s))) v = receivers W q v"
  by (cases op) (simp_all add: receivers_simps receivers_supersede receivers_cancel)

text \<open>A step that moves one task only.\<close>

lemma rx_ok_move:
  assumes "rx_ok W w" and "w_pc w' = (w_pc w)(u := p)"
    and "\<And>v. v \<noteq> u \<Longrightarrow> receivers W (w_queue w') v = receivers W (w_queue w) v"
    and "\<And>n. expected_rx p = Some n \<Longrightarrow> receivers W (w_queue w') u = Some n"
  shows "rx_ok W w'"
  using assms by (simp add: rx_ok_def)

lemma acquire_rx: "watch_ok W \<Longrightarrow> acquire k u q = Some q' \<Longrightarrow> receivers W q' v = receivers W q v"
  by (auto simp: acquire_def receivers_simps split: option.splits)

lemma lock_rx: "watch_ok W \<Longrightarrow> lock_project_start k u q = Some q' \<Longrightarrow> receivers W q' v = receivers W q v"
  by (auto simp: lock_project_start_def receivers_simps split: option.splits)

lemma rx_okD: "rx_ok W w \<Longrightarrow> expected_rx (w_pc w u) = Some n \<Longrightarrow> receivers W (w_queue w) u = Some n"
  by (simp add: rx_ok_def)

text \<open>Where a task goes in a step of its own, and what the step does to the receivers.\<close>

lemma leave_rx_ok:
  assumes "watch_ok W" and "rx_ok W w" and "expected_rx (w_pc w u) = Some 1"
  shows "rx_ok W (leave_slot W pl u c w)" and "rx_ok W (leave_wait W u w)"
proof -
  note r = rx_okD [OF assms(2,3)] receivers_simps [OF assms(1)]
  show "rx_ok W (leave_slot W pl u c w)"
    by (rule rx_ok_move [OF assms(2), where u = u and p = "PEnded c"]) (simp_all add: r)
  show "rx_ok W (leave_wait W u w)"
    by (rule rx_ok_move [OF assms(2), where u = u and p = "PEnded True"]) (simp_all add: r)
qed

lemma rx_ok_db: "rx_ok W (w\<lparr>w_db := s\<rparr>) = rx_ok W w"
  by (simp add: rx_ok_def)

lemma fire_rx_ok:
  assumes "watch_ok W" and "fire W pl a w = Some w'" and "rx_ok W w"
  shows "rx_ok W w'"
proof (cases a)
  case (ALock u)
  with assms(2) obtain q where q: "lock_project_start (pl_project pl u) u (w_queue w) = Some q"
    and w': "w' = goto u PLocked (w\<lparr>w_queue := q\<rparr>)" by (auto split: if_splits)
  show ?thesis
    by (rule rx_ok_move [OF assms(3), where u = u and p = PLocked]) (simp_all add: w' lock_rx [OF assms(1) q])
next
  case (ARegister u)
  then have w': "w' = goto u PRegistered (w\<lparr>w_queue := fst (register_cancel W u (w_queue w))\<rparr>)"
    using assms(2) by (auto split: if_splits)
  show ?thesis
    by (rule rx_ok_move [OF assms(3), where u = u and p = PRegistered]) (simp_all add: w' receivers_simps [OF assms(1)])
next
  case (ASupersede u now)
  obtain q s us where x: "supersede_in_progress W now (pl_project pl u) u (w_queue w, w_db w) = ((q, s), us)"
    by (metis prod.exhaust)
  with ASupersede assms(2) have pc: "w_pc w u = PRegistered"
    and w': "w' = goto u PSuperseded (w\<lparr>w_queue := q, w_db := s\<rparr>)" by (auto split: if_splits)
  have "receivers W q v = receivers W (w_queue w) v" for v
    using receivers_supersede [OF assms(1), of now "pl_project pl u" u "w_queue w" "w_db w" v] x by simp
  then show ?thesis
    using rx_okD [OF assms(3), of u] pc by (intro rx_ok_move [OF assms(3), where u = u and p = PSuperseded]) (simp_all add: w')
next
  case (AUnlock u)
  then have pc: "w_pc w u = PSuperseded"
    and w': "w' = goto u PReady (w\<lparr>w_queue := unlock_project_start (pl_project pl u) (drop_rx W u (w_queue w))\<rparr>)"
    using assms(2) by (auto split: if_splits)
  show ?thesis
    using rx_okD [OF assms(3), of u] pc by (intro rx_ok_move [OF assms(3), where u = u and p = PReady]) (simp_all add: w' receivers_simps [OF assms(1)])
next
  case (ASubscribe u)
  then have pc: "w_pc w u = PReady"
    and w': "w' = goto u PSubscribed (w\<lparr>w_queue := subscribe W u (w_queue w)\<rparr>)"
    using assms(2) by (auto split: if_splits)
  show ?thesis
    using rx_okD [OF assms(3), of u] pc by (intro rx_ok_move [OF assms(3), where u = u and p = PSubscribed]) (simp_all add: w' receivers_simps [OF assms(1)])
next
  case (AQueue u)
  then have pc: "w_pc w u = PSubscribed" using assms(2) by (auto split: if_splits)
  have "rx_ok W (goto u PWaiting (w\<lparr>w_db := s\<rparr>))" for s
    using rx_okD [OF assms(3), of u] pc by (intro rx_ok_move [OF assms(3), where u = u and p = PWaiting]) simp_all
  from this [of "w_db w"] this show ?thesis
    using assms(2) AQueue pc leave_rx_ok(2) [OF assms(1) assms(3), of u] by (auto split: if_splits)
next
  case (AAcquire u)
  with assms(2) obtain q where q: "acquire (pl_server pl u) u (w_queue w) = Some q" and pc: "w_pc w u = PWaiting"
    and w': "w' = goto u PHolding (w\<lparr>w_queue := q\<rparr>)" by (auto split: if_splits)
  show ?thesis
    using rx_okD [OF assms(3), of u] pc
    by (intro rx_ok_move [OF assms(3), where u = u and p = PHolding]) (simp_all add: w' acquire_rx [OF assms(1) q])
next
  case (AStartWork u now)
  then have pc: "w_pc w u = PHolding" using assms(2) by (auto split: if_splits)
  obtain s b where x: "mark_running_if_active now u (w_db w) = (s, b)" by (metis prod.exhaust)
  have "rx_ok W (goto u PWorking (w\<lparr>w_db := s\<rparr>))"
    using rx_okD [OF assms(3), of u] pc by (intro rx_ok_move [OF assms(3), where u = u and p = PWorking]) simp_all
  then show ?thesis
    using assms(2,3) AStartWork pc x leave_rx_ok(1) [OF assms(1), of "w\<lparr>w_db := s\<rparr>" u] leave_rx_ok(1) [OF assms(1) assms(3), of u]
    by (cases b) (auto simp: rx_ok_db split: if_splits)
next
  case (AFinish u)
  then show ?thesis using assms(2) leave_rx_ok(1) [OF assms(1) assms(3), of u] by (auto split: if_splits)
next
  case (AAbort u)
  then show ?thesis
    using assms(2) leave_rx_ok(1) [OF assms(1) assms(3), of u] leave_rx_ok(2) [OF assms(1) assms(3), of u] by (auto split: if_splits pc.splits)
next
  case (AUnregister u)
  then obtain c where pc: "w_pc w u = PEnded c"
    and w': "w' = goto u (PDone c) (w\<lparr>w_queue := unregister_cancel u (w_queue w)\<rparr>)"
    using assms(2) by (auto split: pc.splits)
  show ?thesis by (rule rx_ok_move [OF assms(3), where u = u and p = "PDone c"]) (simp_all add: w' receivers_simps [OF assms(1)])
next
  case (AOther op)
  obtain q s where x: "qop_step W op (w_queue w, w_db w) = (q, s)" by (metis prod.exhaust)
  with AOther assms(2) have "other_op op" and w': "w' = w\<lparr>w_queue := q, w_db := s\<rparr>" by (auto split: if_splits)
  then show ?thesis
    using receivers_other [OF assms(1), of op "w_queue w" "w_db w"] assms(3) x by (simp add: rx_ok_def)
qed

lemma rx_ok_start: "rx_ok W (start_world s)"
  by (simp add: rx_ok_def start_world_def)

lemma steps_rx_ok: "steps W pl w w' \<Longrightarrow> watch_ok W \<Longrightarrow> rx_ok W w \<Longrightarrow> rx_ok W w'"
  by (induction rule: steps.induct) (auto elim!: stepE intro: fire_rx_ok)

text \<open>A task that waits for its node, holds it or works is never taken for an orphan: its
  token has a receiver, so the reaper skips its row and a cancellation reaches it.\<close>

lemma waiting_task_is_live:
  assumes "watch_ok W" and "steps W pl (start_world s) w"
    and "w_pc w u \<in> {PSubscribed, PWaiting, PHolding, PWorking}"
  shows "has_live_task W u (w_queue w)
       \<and> is_cancelled W u (fst (qop_step W (OSignal u) (w_queue w, w_db w)))
       \<and> (db_wf (w_db w) \<longrightarrow> faults (w_db w) = [] \<longrightarrow>
            dep_of (fst (reap_orphans W now cutoff (w_queue w) (w_db w))) u = dep_of (w_db w) u)"
proof -
  have "rx_ok W w" using steps_rx_ok [OF assms(2,1) rx_ok_start] .
  then have "receivers W (w_queue w) u = Some 1"
    by (rule rx_okD) (use assms(3) in auto)
  then obtain c where c: "cancels (w_queue w) u = Some c" "w_receivers W c = 1"
    by (auto simp: receivers_def)
  then have live: "has_live_task W u (w_queue w)" by (simp add: has_live_task_def)
  moreover have "is_cancelled W u (signal_cancel W u (w_queue w))"
    using assms(1) c by (simp add: is_cancelled_def signal_cancel_def watch_ok_def)
  moreover have "dep_of (fst (reap_orphans W now cutoff (w_queue w) (w_db w))) u = dep_of (w_db w) u"
    if "db_wf (w_db w)" "faults (w_db w) = []"
  proof -
    let ?p = "\<lambda>d. active3 (d_status d) \<and> d_updated_at d < cutoff \<and> \<not> has_live_task W (d_uuid d) (w_queue w)"
    obtain t n where x: "reap_orphans W now cutoff (w_queue w) (w_db w) = (t, n)" by (metis prod.exhaust)
    have "dep_of t u = map_option (\<lambda>d. if ?p d then close_orphan now d else d) (dep_of (w_db w) u)"
      using reap_orphans_rows [OF that(2,1) x] dep_of_map [of "close_orphan now" u ?p "deployments (w_db w)"]
      by (simp add: dep_of_def)
    also have "\<dots> = dep_of (w_db w) u"
      using live by (cases "dep_of (w_db w) u") (auto dest: dep_of_mem)
    finally show ?thesis using x by simp
  qed
  ultimately show ?thesis by simp
qed

theorem waiting_task_is_live_witness:
  "\<exists>w. steps pair_watch sample_place (start_world sample_db) w \<and> has_live_task pair_watch (lit ''new'') (w_queue w)"
proof -
  obtain w where "fires pair_watch sample_place sample_to_work (start_world sample_db) = Some w"
    and pc: "w_pc w (lit ''new'') = PWorking" using sample_run by blast
  then have st: "steps pair_watch sample_place (start_world sample_db) w" by (blast intro: fires_steps)
  have "w_pc w (lit ''new'') \<in> {PSubscribed, PWaiting, PHolding, PWorking}" using pc by simp
  then show ?thesis using waiting_task_is_live [OF pair_watch_ok st] st by blast
qed

text \<open>C13. Between the release of the start mutex and the subscription of \<open>run_in_node_slot\<close> the
  token has no receiver: a cancellation sent then is lost, the task is not seen as live, and
  only the check of the row at the start of the work stops it.\<close>

theorem signal_lost_before_subscription:
  assumes "watch_ok W" and "steps W pl (start_world s) w" and "w_pc w u = PReady"
  shows "is_cancelled W u (signal_cancel W u (w_queue w)) = is_cancelled W u (w_queue w)
       \<and> \<not> has_live_task W u (w_queue w)"
proof -
  have "rx_ok W w" using steps_rx_ok [OF assms(2,1) rx_ok_start] .
  then have "receivers W (w_queue w) u = Some 0" by (rule rx_okD) (simp add: assms(3))
  then obtain c where "cancels (w_queue w) u = Some c" "w_receivers W c = 0"
    by (auto simp: receivers_def)
  then show ?thesis
    using assms(1) by (simp add: is_cancelled_def signal_cancel_def watch_ok_def has_live_task_def)
qed

lemma sample_ready:
  "\<exists>w. fires pair_watch sample_place (take 4 sample_to_work) (start_world sample_db) = Some w
     \<and> w_pc w (lit ''new'') = PReady"
proof -
  obtain w where "fires pair_watch sample_place sample_to_work (start_world sample_db) = Some w"
    using sample_run by blast
  then have "fires pair_watch sample_place (take 4 sample_to_work @ drop 4 sample_to_work) (start_world sample_db) \<noteq> None"
    by simp
  moreover have "fires W pl (as @ bs) w \<noteq> None \<Longrightarrow> fires W pl as w \<noteq> None" for as bs W pl and w :: "'c world"
    by (induction as arbitrary: w) (auto simp: bind_eq_None_conv split: bind_splits)
  ultimately obtain w where w: "fires pair_watch sample_place (take 4 sample_to_work) (start_world sample_db) = Some w"
    by blast
  then have "w_pc w (lit ''new'') = PReady"
    by (auto simp: sample_to_work_def bind_eq_Some_conv split: if_splits prod.splits)
  then show ?thesis using w by blast
qed

theorem signal_lost_before_subscription_witness:
  "\<exists>w. steps pair_watch sample_place (start_world sample_db) w
     \<and> \<not> has_live_task pair_watch (lit ''new'') (w_queue w)"
proof -
  obtain w where "fires pair_watch sample_place (take 4 sample_to_work) (start_world sample_db) = Some w"
    and pc: "w_pc w (lit ''new'') = PReady" using sample_ready by blast
  then have st: "steps pair_watch sample_place (start_world sample_db) w" by (blast intro: fires_steps)
  show ?thesis using signal_lost_before_subscription [OF pair_watch_ok st pc] st by blast
qed

section \<open>Progress\<close>

text \<open>The task's next step is enabled.\<close>

definition can_move :: "'c watch_ops \<Rightarrow> placement \<Rightarrow> 'c world \<Rightarrow> ustr \<Rightarrow> bool" where
  "can_move W pl w u \<longleftrightarrow> (\<exists>a w'. fire W pl a w = Some w' \<and> w_pc w' u \<noteq> w_pc w u)"

lemma can_moveI: "fire W pl a w = Some w' \<Longrightarrow> w_pc w' u \<noteq> w_pc w u \<Longrightarrow> can_move W pl w u"
  by (auto simp: can_move_def)

lemma moves_unless_blocked:
  assumes "w_pc w u \<noteq> PStart" and "w_pc w u \<noteq> PWaiting" and "\<And>c. w_pc w u \<noteq> PDone c"
  shows "can_move W pl w u"
proof (cases "w_pc w u")
  case PLocked
  then show ?thesis by (intro can_moveI [of W pl "ARegister u" w]) auto
next
  case PRegistered
  obtain q s us where "supersede_in_progress W [] (pl_project pl u) u (w_queue w, w_db w) = ((q, s), us)"
    by (metis prod.exhaust)
  with PRegistered show ?thesis by (intro can_moveI [of W pl "ASupersede u []" w]) auto
next
  case PSuperseded
  then show ?thesis by (intro can_moveI [of W pl "AUnlock u" w]) auto
next
  case PReady
  then show ?thesis by (intro can_moveI [of W pl "ASubscribe u" w]) auto
next
  case PSubscribed
  let ?w = "if is_cancelled W u (w_queue w) then leave_wait W u w
    else goto u PWaiting (if is_busy (pl_server pl u) (w_queue w)
                    then w\<lparr>w_db := note_waiting_for_node (pl_server pl u) u (w_db w)\<rparr> else w)"
  show ?thesis by (rule can_moveI [of W pl "AQueue u" w ?w]) (use PSubscribed in auto)
next
  case PHolding
  obtain s b where m: "mark_running_if_active [] u (w_db w) = (s, b)" by (metis prod.exhaust)
  let ?w = "if is_cancelled W u (w_queue w) then leave_slot W pl u True w
    else if b then goto u PWorking (w\<lparr>w_db := s\<rparr>) else leave_slot W pl u True (w\<lparr>w_db := s\<rparr>)"
  show ?thesis by (rule can_moveI [of W pl "AStartWork u []" w ?w]) (use PHolding m in \<open>auto split: bool.split\<close>)
next
  case PWorking
  then show ?thesis by (intro can_moveI [of W pl "AFinish u" w]) auto
next
  case (PEnded c)
  then show ?thesis by (intro can_moveI [of W pl "AUnregister u" w]) auto
qed (use assms in auto)

lemma lock_free: "\<forall>v. starts q p \<noteq> Some (Some v) \<Longrightarrow> \<exists>q'. lock_project_start p u q = Some q'"
  by (auto simp: lock_project_start_def split: option.split)

lemma node_free: "\<forall>v. slots q (slot_key k) \<noteq> Some (Some v) \<Longrightarrow> \<exists>q'. acquire k u q = Some q'"
  by (auto simp: acquire_def split: option.split)

text \<open>What a task is blocked by: the holder of the lock, which is never blocked itself.\<close>

lemma start_blocked:
  assumes "locks_ok pl w" and "w_pc w u = PStart"
  shows "can_move W pl w u
       \<or> (\<exists>v. v \<noteq> u \<and> can_move W pl w v \<and> starts (w_queue w) (pl_project pl u) = Some (Some v))"
proof (cases "\<exists>v. starts (w_queue w) (pl_project pl u) = Some (Some v)")
  case True
  then obtain v where v: "starts (w_queue w) (pl_project pl u) = Some (Some v)" by blast
  then have h: "holds_start (w_pc w v)" using assms(1) by (auto simp: locks_ok_def)
  then have "can_move W pl w v" by (intro moves_unless_blocked) (auto simp: holds_start_def)
  moreover have "v \<noteq> u" using h assms(2) by auto
  ultimately show ?thesis using v by blast
next
  case False
  then obtain q where "lock_project_start (pl_project pl u) u (w_queue w) = Some q"
    using lock_free by blast
  with assms(2) have "can_move W pl w u" by (intro can_moveI [of W pl "ALock u" w]) auto
  then show ?thesis ..
qed

lemma node_blocked:
  assumes "locks_ok pl w" and "w_pc w u = PWaiting"
  shows "can_move W pl w u
       \<or> (\<exists>v. v \<noteq> u \<and> can_move W pl w v \<and> slots (w_queue w) (slot_key (pl_server pl u)) = Some (Some v))"
proof (cases "\<exists>v. slots (w_queue w) (slot_key (pl_server pl u)) = Some (Some v)")
  case True
  then obtain v where v: "slots (w_queue w) (slot_key (pl_server pl u)) = Some (Some v)" by blast
  then have h: "holds_node (w_pc w v)" using assms(1) by (auto simp: locks_ok_def)
  then have "can_move W pl w v" by (intro moves_unless_blocked) (auto simp: holds_node_def)
  moreover have "v \<noteq> u" using h assms(2) by auto
  ultimately show ?thesis using v by blast
next
  case False
  then obtain q where "acquire (pl_server pl u) u (w_queue w) = Some q"
    using node_free by blast
  with assms(2) have "can_move W pl w u" by (intro can_moveI [of W pl "AAcquire u" w]) auto
  then show ?thesis ..
qed

text \<open>C11. The queue never deadlocks: a task that has not ended can take its next step, or it
  waits for a start mutex or a node held by another task that can take its own.\<close>

theorem no_deadlock:
  assumes "steps W pl (start_world s) w" and "\<And>c. w_pc w u \<noteq> PDone c"
  shows "can_move W pl w u
       \<or> (\<exists>v. v \<noteq> u \<and> can_move W pl w v
            \<and> (w_pc w u = PStart \<and> starts (w_queue w) (pl_project pl u) = Some (Some v)
               \<or> w_pc w u = PWaiting \<and> slots (w_queue w) (slot_key (pl_server pl u)) = Some (Some v)))"
proof -
  have ok: "locks_ok pl w" using steps_locks_ok [OF assms(1) locks_ok_start] .
  consider "w_pc w u = PStart" | "w_pc w u = PWaiting"
    | "w_pc w u \<noteq> PStart" "w_pc w u \<noteq> PWaiting" by blast
  then show ?thesis
  proof cases
    case 1
    then show ?thesis using start_blocked [OF ok 1] by blast
  next
    case 2
    then show ?thesis using node_blocked [OF ok 2] by blast
  next
    case 3
    then show ?thesis using assms(2) by (blast intro: moves_unless_blocked)
  qed
qed

theorem no_deadlock_witness: "can_move pair_watch sample_place (start_world sample_db) (lit ''new'')"
proof -
  have "w_pc (start_world sample_db :: (bool \<times> nat) world) (lit ''new'') \<noteq> PDone c" for c
    by (simp add: start_world_def)
  from no_deadlock [OF steps.stop this, of pair_watch sample_place] show ?thesis
    by (simp add: start_world_def new_queue_def)
qed

end
