(* ===== verification/ClusterModel.thy ===== *)
theory ClusterModel
  imports RustStr "HOL-Library.Word" "HOL-Library.AList"
begin

text \<open>
  \<open>crates/cluster\<close>: the data of the cluster (\<open>models.rs\<close>), the rules on announced URLs and
  eligible nodes (\<open>placement.rs\<close>) and the election of an interim leader (\<open>failover.rs\<close>).
  Floating point metrics are only stored and forwarded by what is modelled: their type is
  left abstract.
\<close>

section \<open>Data\<close>

typedecl f64

datatype role = Leader | Worker
datatype node_status = Online | Offline | Joining

text \<open>The length in seconds of the silence after which a node counts as offline.\<close>

definition leader_node_id :: ustr where "leader_node_id = lit ''default''"
definition heartbeat_stale_secs :: int where "heartbeat_stale_secs = 45"

fun role_str :: "role \<Rightarrow> ustr" where
  "role_str Leader = lit ''leader''"
| "role_str Worker = lit ''worker''"

definition role_parse :: "ustr \<Rightarrow> role" where
  "role_parse s = (if to_lowercase (trim s) = lit ''worker'' then Worker else Leader)"

fun status_str :: "node_status \<Rightarrow> ustr" where
  "status_str Online = lit ''online''"
| "status_str Offline = lit ''offline''"
| "status_str Joining = lit ''joining''"

definition status_parse :: "ustr \<Rightarrow> node_status" where
  "status_parse s =
     (let t = to_lowercase (trim s)
      in if t = lit ''online'' then Online else if t = lit ''joining'' then Joining else Offline)"

record metrics =
  m_cpu_percent :: "f64 option"
  m_mem_used :: "64 word option"
  m_mem_total :: "64 word option"
  m_disk_used :: "64 word option"
  m_disk_total :: "64 word option"
  m_load_1 :: "f64 option"
  m_docker_ok :: "bool option"
  m_containers :: "32 word option"
  m_software_version :: "ustr option"
  m_public_ip :: "ustr option"

definition default_metrics :: metrics where
  "default_metrics = \<lparr>m_cpu_percent = None, m_mem_used = None, m_mem_total = None, m_disk_used = None,
     m_disk_total = None, m_load_1 = None, m_docker_ok = None, m_containers = None,
     m_software_version = None, m_public_ip = None\<rparr>"

record node =
  n_id :: ustr
  n_name :: ustr
  n_role :: role
  n_url :: ustr
  n_status :: node_status
  n_os :: ustr
  n_arch :: ustr
  n_caps :: "ustr list"
  n_ssh_host :: "ustr option"
  n_ssh_user :: "ustr option"
  n_ssh_port :: "16 word option"
  n_last_seen :: "ustr option"
  n_last_error :: "ustr option"
  n_drained :: bool
  n_ingress :: ustr
  n_metrics :: metrics
  n_created :: ustr
  n_updated :: ustr

text \<open>The row of the leader itself, as \<open>ensure_leader\<close> and \<open>seed_leader\<close> write it.\<close>

definition leader_node :: "ustr \<Rightarrow> ustr \<Rightarrow> ustr \<Rightarrow> ustr \<Rightarrow> ustr \<Rightarrow> node" where
  "leader_node name url os arch now = \<lparr>n_id = leader_node_id, n_name = name, n_role = Leader, n_url = url,
     n_status = Online, n_os = os, n_arch = arch, n_caps = [lit ''docker''], n_ssh_host = None,
     n_ssh_user = None, n_ssh_port = None, n_last_seen = Some now, n_last_error = None,
     n_drained = False, n_ingress = [], n_metrics = default_metrics, n_created = now, n_updated = now\<rparr>"

record token_row =
  t_id :: ustr
  t_hash :: ustr
  t_expires :: ustr
  t_revoked :: "ustr option"
  t_by :: ustr
  t_created :: ustr

record invite =
  i_id :: ustr
  i_token :: ustr
  i_leader_url :: ustr
  i_expires :: ustr

record local_state =
  l_role :: role
  l_leader_url :: ustr
  l_node_id :: ustr
  l_secret :: ustr
  l_name :: ustr
  l_url :: ustr
  l_pref_id :: ustr
  l_pref_url :: ustr
  l_failover_secret :: ustr
  l_generation :: int
  l_acting :: bool
  l_term :: int
  l_fenced :: bool

definition default_local :: local_state where
  "default_local = \<lparr>l_role = Leader, l_leader_url = [], l_node_id = leader_node_id, l_secret = [],
     l_name = lit ''Leader'', l_url = [], l_pref_id = leader_node_id, l_pref_url = [],
     l_failover_secret = [], l_generation = 0, l_acting = False, l_term = 1, l_fenced = False\<rparr>"

record join_request =
  j_token :: ustr
  j_name :: ustr
  j_url :: ustr
  j_os :: ustr
  j_arch :: ustr
  j_caps :: "ustr list"
  j_ssh_host :: "ustr option"
  j_ssh_user :: "ustr option"
  j_ssh_port :: "16 word option"

record join_response =
  jr_node :: node
  jr_secret :: ustr
  jr_leader_url :: ustr

record heartbeat =
  h_node_id :: ustr
  h_url :: "ustr option"
  h_os :: "ustr option"
  h_arch :: "ustr option"
  h_caps :: "ustr list option"
  h_metrics :: "metrics option"

record roster_entry =
  r_id :: ustr
  r_name :: ustr
  r_role :: role
  r_url :: ustr
  r_drained :: bool

record ack =
  a_generation :: int
  a_pref_id :: ustr
  a_pref_url :: ustr
  a_failover_secret :: ustr
  a_acting :: bool
  a_acting_id :: ustr
  a_term :: int
  a_roster :: "roster_entry list"

record failover_status =
  f_acting :: bool
  f_node_id :: ustr
  f_term :: int

record summary =
  s_role :: role
  s_nodes :: nat
  s_online :: nat

lemma role_roundtrip [simp]: "role_parse (role_str r) = r"
  by (cases r) (simp_all add: role_parse_def lower_char_def trim_by_id char_defs)

lemma status_roundtrip [simp]: "status_parse (status_str st) = st"
  by (cases st) (simp_all add: status_parse_def lower_char_def trim_by_id char_defs)

section \<open>Announced URLs\<close>

definition http_url :: "ustr \<Rightarrow> bool" where
  "http_url u \<longleftrightarrow> starts_with u (lit ''http://'') \<or> starts_with u (lit ''https://'')"

definition is_loopback_host :: "ustr \<Rightarrow> bool" where
  "is_loopback_host host =
     (let h = to_ascii_lowercase (trim_by (\<lambda>c. c = 91 \<or> c = 93) (trim host))
      in h = lit ''localhost'' \<or> h = lit ''127.0.0.1'' \<or> h = lit ''::1'' \<or> h = lit ''0.0.0.0''
         \<or> ends_with h (lit ''.localhost''))"

text \<open>The authority of an http(s) URL, after the user part.\<close>

definition url_host :: "ustr \<Rightarrow> ustr option" where
  "url_host url =
     (let u = trim url in
      case opt_or (strip_prefix u (lit ''https://'')) (strip_prefix u (lit ''http://'')) of
        None \<Rightarrow> None
      | Some rest \<Rightarrow>
          (let hostport = last (split_on (\<lambda>c. c = 64) (hd (split_on (\<lambda>c. c = 47) rest)))
           in if hostport = [] then None else Some hostport))"

definition is_loopback_advertise_url :: "ustr \<Rightarrow> bool" where
  "is_loopback_advertise_url url =
     (case url_host url of
        None \<Rightarrow> False
      | Some hp \<Rightarrow>
          (case strip_prefix hp (lit ''['') of
             Some inner \<Rightarrow> is_loopback_host (hd (split_on (\<lambda>c. c = 93) inner))
           | None \<Rightarrow>
               is_loopback_host (if count_list hp 58 = 1 then hd (split_on (\<lambda>c. c = 58) hp) else hp)))"

datatype url_error = UrlRequired | UrlScheme | UrlLoopback

definition trim_url :: "ustr \<Rightarrow> ustr" where
  "trim_url u = trim_end_char 47 (trim u)"

definition validate_worker_advertise_url :: "ustr \<Rightarrow> url_error + ustr" where
  "validate_worker_advertise_url raw =
     (let u = trim_url raw in
      if u = [] then Inl UrlRequired
      else if \<not> http_url u then Inl UrlScheme
      else if is_loopback_advertise_url u then Inl UrlLoopback
      else Inr u)"

definition normalize_http_url :: "ustr \<Rightarrow> url_error + ustr" where
  "normalize_http_url raw =
     (let u = trim_url raw in
      if u = [] then Inl UrlRequired
      else if \<not> http_url u then Inl UrlScheme
      else Inr u)"

section \<open>Eligible nodes\<close>

definition worker_eligible :: "node \<Rightarrow> bool" where
  "worker_eligible n \<longleftrightarrow> n_role n = Worker \<and> \<not> n_drained n \<and> n_status n = Online
     \<and> trim (n_url n) \<noteq> [] \<and> \<not> is_loopback_advertise_url (n_url n)"

definition replication_peers :: "node list \<Rightarrow> ustr \<Rightarrow> node list" where
  "replication_peers nodes self = filter (\<lambda>n. n_id n \<noteq> self \<and> worker_eligible n) nodes"

definition nodes_to_evacuate :: "node list \<Rightarrow> ustr \<Rightarrow> node list" where
  "nodes_to_evacuate nodes self = filter (\<lambda>n. n_id n \<noteq> self \<and> n_status n = Offline) nodes"

section \<open>Election\<close>

definition failover_fail_streak :: nat where "failover_fail_streak = 4"

definition candidate :: "roster_entry \<Rightarrow> bool" where
  "candidate n \<longleftrightarrow> r_role n = Worker \<and> \<not> r_drained n \<and> trim (r_url n) \<noteq> []"

definition pick_failover_winner :: "roster_entry list \<Rightarrow> roster_entry option" where
  "pick_failover_winner cs = min_by r_id (filter candidate cs)"

definition i_am_failover_winner :: "ustr \<Rightarrow> roster_entry list \<Rightarrow> bool" where
  "i_am_failover_winner my cs = is_some_and (pick_failover_winner cs) (\<lambda>w. r_id w = my)"

definition must_yield_to_interim :: "ustr \<Rightarrow> int \<Rightarrow> ustr \<Rightarrow> bool \<Rightarrow> int \<Rightarrow> bool" where
  "must_yield_to_interim my_id my_term remote_id remote_acting remote_term =
     (if \<not> remote_acting \<or> remote_id = [] \<or> remote_id = my_id then False
      else remote_term = 0 \<or> remote_term \<ge> my_term)"

definition earlier_candidates :: "ustr \<Rightarrow> roster_entry list \<Rightarrow> roster_entry list" where
  "earlier_candidates my cs = sort_key r_id (filter (\<lambda>n. candidate n \<and> r_id n < my) cs)"

lemma winner_spec:
  assumes "pick_failover_winner cs = Some w"
  shows "w \<in> set cs \<and> candidate w" and "n \<in> set cs \<Longrightarrow> candidate n \<Longrightarrow> r_id w \<le> r_id n"
  using assms min_by_mem [of r_id "filter candidate cs" w] min_by_le [of r_id "filter candidate cs" w n]
  by (auto simp: pick_failover_winner_def)

lemma winner_exists: "pick_failover_winner cs \<noteq> None \<longleftrightarrow> (\<exists>n \<in> set cs. candidate n)"
  by (auto simp: pick_failover_winner_def filter_empty_conv)

end
