(* ===== verification/Tables.thy ===== *)
theory Tables
  imports Prelude "HOL-Library.AList"
begin

text \<open>
  Tables with a primary key: a table is the list of its rows, and the three statements the
  source runs on one row of it (\<open>INSERT ... ON CONFLICT DO UPDATE\<close>, \<open>DELETE\<close> and \<open>SELECT\<close> by
  key), with what they do to the rows found by every key; and hash maps as lists of entries
  that sit under their own key.
\<close>

text \<open>\<open>INSERT ... ON CONFLICT(key) DO UPDATE\<close>: \<open>upd old new\<close> is the row kept.\<close>

definition upsert_row :: "('r \<Rightarrow> 'k) \<Rightarrow> ('r \<Rightarrow> 'r \<Rightarrow> 'r) \<Rightarrow> 'r \<Rightarrow> 'r list \<Rightarrow> 'r list" where
  "upsert_row k upd new rows =
     (if \<exists>r \<in> set rows. k r = k new
      then map (\<lambda>r. if k r = k new then upd r new else r) rows
      else rows @ [new])"

definition delete_row :: "('r \<Rightarrow> 'k) \<Rightarrow> 'k \<Rightarrow> 'r list \<Rightarrow> 'r list" where
  "delete_row k i rows = filter (\<lambda>r. k r \<noteq> i) rows"

definition select_row :: "('r \<Rightarrow> 'k) \<Rightarrow> 'k \<Rightarrow> 'r list \<Rightarrow> 'r option" where
  "select_row k i rows = find (\<lambda>r. k r = i) rows"

lemma select_row_key: "select_row k i rows = Some r \<Longrightarrow> r \<in> set rows \<and> k r = i"
  by (auto simp: select_row_def find_Some_iff)

lemma select_row_None: "select_row k i rows = None \<longleftrightarrow> (\<forall>r \<in> set rows. k r \<noteq> i)"
  by (auto simp: select_row_def find_None_iff)

lemma select_row_mem: "distinct (map k rows) \<Longrightarrow> r \<in> set rows \<Longrightarrow> select_row k (k r) rows = Some r"
  by (induction rows) (auto simp: select_row_def)

lemma select_row_map:
  assumes "\<And>r. k (f r) = k r"
  shows "select_row k i (map f rows) = map_option f (select_row k i rows)"
  by (simp add: select_row_def find_map_key assms)

lemma select_upsert:
  assumes "\<And>old new. k new = k old \<Longrightarrow> k (upd old new) = k old"
  shows "select_row k i (upsert_row k upd new rows) =
     (if i = k new
      then Some (case select_row k i rows of None \<Rightarrow> new | Some old \<Rightarrow> upd old new)
      else select_row k i rows)"
proof (cases "\<exists>r \<in> set rows. k r = k new")
  case True
  let ?f = "\<lambda>r. if k r = k new then upd r new else r"
  have "select_row k i (upsert_row k upd new rows) = map_option ?f (select_row k i rows)"
    unfolding upsert_row_def if_P [OF True] by (rule select_row_map) (simp add: assms)
  moreover have "select_row k (k new) rows \<noteq> None" using True by (simp add: select_row_None)
  ultimately show ?thesis
    by (cases "select_row k i rows") (auto dest: select_row_key)
next
  case False
  then have "find (\<lambda>r. k r = i) (rows @ [new]) =
      (case find (\<lambda>r. k r = i) rows of None \<Rightarrow> if k new = i then Some new else None | Some r \<Rightarrow> Some r)"
    by (induction rows) auto
  then show ?thesis
    using False select_row_None [of k "k new" rows]
    by (auto simp: upsert_row_def select_row_def split: option.splits)
qed

lemma select_put:
  "select_row k i (upsert_row k (\<lambda>old new. new) r rows) = (if i = k r then Some r else select_row k i rows)"
  using select_upsert [of k "\<lambda>old new. new" i r rows] by (simp split: option.splits)

lemma distinct_upsert:
  assumes "distinct (map k rows)" and "\<And>old new. k new = k old \<Longrightarrow> k (upd old new) = k old"
  shows "distinct (map k (upsert_row k upd new rows))"
proof (cases "\<exists>r \<in> set rows. k r = k new")
  case True
  have "map k (map (\<lambda>r. if k r = k new then upd r new else r) rows) = map k rows"
    by (simp add: assms(2))
  then show ?thesis using True assms(1) unfolding upsert_row_def if_P [OF True] by (simp only:)
next
  case False
  then show ?thesis using assms(1) by (auto simp: upsert_row_def)
qed

lemma select_delete: "select_row k i (delete_row k j rows) = (if i = j then None else select_row k i rows)"
  by (induction rows) (auto simp: select_row_def delete_row_def)

lemma mem_delete_row [simp]: "r \<in> set (delete_row k i rows) \<longleftrightarrow> r \<in> set rows \<and> k r \<noteq> i"
  by (auto simp: delete_row_def)

lemma distinct_delete_row: "distinct (map k rows) \<Longrightarrow> distinct (map k (delete_row k i rows))"
  by (simp add: delete_row_def distinct_map_filter)

section \<open>Hash maps as lists of entries\<close>

text \<open>Keys are unique and every entry sits under its own id.\<close>

definition keyed :: "('a \<Rightarrow> 'k) \<Rightarrow> ('k \<times> 'a) list \<Rightarrow> bool" where
  "keyed k m \<longleftrightarrow> distinct (map fst m) \<and> (\<forall>(i, x) \<in> set m. k x = i)"

lemma keyed_map: "keyed k m \<Longrightarrow> map (\<lambda>x. (k x, x)) (map snd m) = m"
  by (induction m) (auto simp: keyed_def)

lemma keyed_keys: "keyed k m \<Longrightarrow> map k (map snd m) = map fst m"
  by (induction m) (auto simp: keyed_def)

lemma update_mem: "e \<in> set (AList.update i x m) \<Longrightarrow> e = (i, x) \<or> e \<in> set m"
  by (induction m) (auto split: if_splits)

lemma keyed_update: "keyed k m \<Longrightarrow> k x = i \<Longrightarrow> keyed k (AList.update i x m)"
  by (auto simp: keyed_def distinct_update dest!: update_mem)

lemma keyed_delete: "keyed k m \<Longrightarrow> keyed k (AList.delete i m)"
  by (auto simp: keyed_def AList.delete_eq distinct_map_filter)

lemma map_of_perm:
  assumes "set xs = set ys" and "distinct (map k xs)" and "distinct (map k ys)"
  shows "map_of (map (\<lambda>x. (k x, x)) xs) = map_of (map (\<lambda>x. (k x, x)) ys)"
proof (rule map_of_eqI)
  show "set (map fst (map (\<lambda>x. (k x, x)) xs)) = set (map fst (map (\<lambda>x. (k x, x)) ys))"
    using assms(1) by (auto simp: image_iff)
next
  show "\<forall>i \<in> set (map fst (map (\<lambda>x. (k x, x)) xs)).
      map_of (map (\<lambda>x. (k x, x)) xs) i = map_of (map (\<lambda>x. (k x, x)) ys) i"
  proof
    fix i
    assume "i \<in> set (map fst (map (\<lambda>x. (k x, x)) xs))"
    then obtain x where x: "x \<in> set xs" "k x = i" by auto
    then have "(i, x) \<in> set (map (\<lambda>x. (k x, x)) xs)" "(i, x) \<in> set (map (\<lambda>x. (k x, x)) ys)"
      using assms(1) by auto
    moreover have "distinct (map fst (map (\<lambda>x. (k x, x)) xs))" "distinct (map fst (map (\<lambda>x. (k x, x)) ys))"
      using assms(2,3) by (simp_all add: o_def)
    ultimately show "map_of (map (\<lambda>x. (k x, x)) xs) i = map_of (map (\<lambda>x. (k x, x)) ys) i"
      by (metis map_of_is_SomeI)
  qed
qed

text \<open>Sorting the entries of a keyed list changes nothing of the map.\<close>

lemma keyed_listed:
  assumes "keyed k m" and "set xs = set (map snd m)" and "distinct (map k xs)"
  shows "map_of (map (\<lambda>x. (k x, x)) xs) = map_of m"
proof -
  have "distinct (map k (map snd m))"
    using keyed_keys [OF assms(1)] assms(1) unfolding keyed_def by metis
  then have "map_of (map (\<lambda>x. (k x, x)) xs) = map_of (map (\<lambda>x. (k x, x)) (map snd m))"
    using assms by (intro map_of_perm)
  then show ?thesis by (simp only: keyed_map [OF assms(1)])
qed

lemma distinct_sort_key: "distinct (map k xs) \<Longrightarrow> distinct (map k (sort_key g xs))"
  by (simp add: distinct_map)

end
