(* ===== verification/ClusterStore.thy ===== *)
theory ClusterStore
  imports ClusterModel Tables
begin

text \<open>
  The interface \<open>ClusterStore\<close> (\<open>crates/cluster/src/store.rs\<close>) and its two implementations:
  \<open>MemoryClusterStore\<close> (same file) and \<open>SqliteClusterStore\<close>
  (\<open>apps/server/src/cluster_store.rs\<close>). \<open>Arc<dyn ClusterStore>\<close> is a record of operations;
  the locale \<open>cluster_store\<close> is the contract the callers rely on, stated over the maps a
  store stands for, and both implementations interpret it.
\<close>

section \<open>The interface\<close>

datatype derr =
    StoreError
  | NodeNotFound ustr
  | InvalidInvite | RevokedInvite | ExpiredInvite
  | NameRequired | LeaderUrlRequired | LeaderNotDrainable | LeaderNotRemovable
  | SecretMissing | SecretInvalid
  | UnknownNode ustr | NodeDrained ustr | NodeOffline ustr | NodeWithoutUrl ustr
  | UrlErr url_error

record 's store_ops =
  get_local :: "('s, derr, local_state) rop"
  set_local :: "local_state \<Rightarrow> ('s, derr, unit) rop"
  list_nodes :: "('s, derr, node list) rop"
  get_node :: "ustr \<Rightarrow> ('s, derr, node option) rop"
  upsert_node :: "node \<Rightarrow> ('s, derr, unit) rop"
  delete_node :: "ustr \<Rightarrow> ('s, derr, bool) rop"
  insert_token :: "token_row \<Rightarrow> ('s, derr, unit) rop"
  get_token_by_hash :: "ustr \<Rightarrow> ('s, derr, token_row option) rop"
  get_token :: "ustr \<Rightarrow> ('s, derr, token_row option) rop"
  list_tokens :: "('s, derr, token_row list) rop"
  revoke_token :: "ustr \<Rightarrow> ustr \<Rightarrow> ('s, derr, bool) rop"
  get_node_secret :: "ustr \<Rightarrow> ('s, derr, ustr option) rop"
  set_node_secret :: "ustr \<Rightarrow> ustr \<Rightarrow> ustr \<Rightarrow> ('s, derr, unit) rop"
  delete_node_secret :: "ustr \<Rightarrow> ('s, derr, unit) rop"

text \<open>What a store stands for.\<close>

record astore =
  as_local :: local_state
  as_nodes :: "ustr \<rightharpoonup> node"
  as_tokens :: "ustr \<rightharpoonup> token_row"
  as_secrets :: "ustr \<rightharpoonup> ustr"

text \<open>The local states a store keeps as they are: the table keeps the term at one at least
  and gives an empty preferred leader its default.\<close>

definition local_ok :: "local_state \<Rightarrow> bool" where
  "local_ok l \<longleftrightarrow> l_term l \<ge> 1 \<and> l_pref_id l \<noteq> []"

definition listed :: "node list \<Rightarrow> (ustr \<rightharpoonup> node) \<Rightarrow> bool" where
  "listed ns m \<longleftrightarrow> distinct (map n_id ns) \<and> m = map_of (map (\<lambda>n. (n_id n, n)) ns) \<and> sorted (map n_name ns)"

text \<open>The upserts that leave the creation time of a node that exists as it is; for the others the
  two stores differ: one overwrites it, the other keeps it.\<close>

definition keeps_created :: "(ustr \<rightharpoonup> node) \<Rightarrow> node \<Rightarrow> bool" where
  "keeps_created m n \<longleftrightarrow> (\<forall>old. m (n_id n) = Some old \<longrightarrow> n_created old = n_created n)"

locale cluster_store =
  fixes S :: "'s store_ops" and sinv :: "'s \<Rightarrow> bool" and sabs :: "'s \<Rightarrow> astore"
  assumes get_local_ok: "op_ok sinv sabs (get_local S) (\<lambda>a l a'. a' = a \<and> l = as_local a)"
    and set_local_ok: "local_ok l \<Longrightarrow> op_ok sinv sabs (set_local S l) (\<lambda>a _ a'. a' = a\<lparr>as_local := l\<rparr>)"
    and list_nodes_ok: "op_ok sinv sabs (list_nodes S) (\<lambda>a ns a'. a' = a \<and> listed ns (as_nodes a))"
    and get_node_ok: "op_ok sinv sabs (get_node S i) (\<lambda>a n a'. a' = a \<and> n = as_nodes a i)"
    and upsert_node_ok: "op_ok sinv sabs (upsert_node S n)
          (\<lambda>a _ a'. \<exists>c. a' = a\<lparr>as_nodes := (as_nodes a)(n_id n \<mapsto> n\<lparr>n_created := c\<rparr>)\<rparr>
              \<and> (keeps_created (as_nodes a) n \<longrightarrow> c = n_created n))"
    and delete_node_ok: "op_ok sinv sabs (delete_node S i)
          (\<lambda>a b a'. a' = a\<lparr>as_nodes := (as_nodes a)(i := None)\<rparr> \<and> b = (as_nodes a i \<noteq> None))"
    and insert_token_ok: "op_ok sinv sabs (insert_token S t)
          (\<lambda>a _ a'. as_tokens a (t_id t) = None \<longrightarrow> a' = a\<lparr>as_tokens := (as_tokens a)(t_id t \<mapsto> t)\<rparr>)"
    and get_token_by_hash_ok: "op_ok sinv sabs (get_token_by_hash S h)
          (\<lambda>a t a'. a' = a \<and> (case t of None \<Rightarrow> \<forall>i u. as_tokens a i = Some u \<longrightarrow> t_hash u \<noteq> h
                                | Some u \<Rightarrow> t_hash u = h \<and> as_tokens a (t_id u) = Some u))"
    and get_token_ok: "op_ok sinv sabs (get_token S i) (\<lambda>a t a'. a' = a \<and> t = as_tokens a i)"
    and list_tokens_ok: "op_ok sinv sabs (list_tokens S)
          (\<lambda>a ts a'. a' = a \<and> distinct (map t_id ts) \<and> as_tokens a = map_of (map (\<lambda>t. (t_id t, t)) ts))"
    and revoke_token_ok: "op_ok sinv sabs (revoke_token S i now)
          (\<lambda>a b a'. (case as_tokens a i of
               None \<Rightarrow> a' = a \<and> \<not> b
             | Some t \<Rightarrow> (\<exists>r. a' = a\<lparr>as_tokens := (as_tokens a)(i \<mapsto> t\<lparr>t_revoked := Some r\<rparr>)\<rparr>)))"
    and get_node_secret_ok: "op_ok sinv sabs (get_node_secret S i) (\<lambda>a x a'. a' = a \<and> x = as_secrets a i)"
    and set_node_secret_ok: "op_ok sinv sabs (set_node_secret S i x h)
          (\<lambda>a _ a'. a' = a\<lparr>as_secrets := (as_secrets a)(i \<mapsto> x)\<rparr>)"
    and delete_node_secret_ok: "op_ok sinv sabs (delete_node_secret S i)
          (\<lambda>a _ a'. a' = a\<lparr>as_secrets := (as_secrets a)(i := None)\<rparr>)"

section \<open>In memory\<close>

text \<open>The hash maps, each as the list of its entries: the order in which \<open>values()\<close> yields
  them is the order of the list.\<close>

record mem =
  mem_local :: local_state
  mem_nodes :: "(ustr \<times> node) list"
  mem_tokens :: "(ustr \<times> token_row) list"
  mem_secrets :: "(ustr \<times> (ustr \<times> ustr)) list"

definition new_mem :: mem where
  "new_mem = \<lparr>mem_local = default_local, mem_nodes = [], mem_tokens = [], mem_secrets = []\<rparr>"

definition seed_leader :: "ustr \<Rightarrow> ustr \<Rightarrow> ustr \<Rightarrow> ustr \<Rightarrow> ustr \<Rightarrow> mem \<Rightarrow> mem" where
  "seed_leader name url os arch now s =
     (let n = leader_node (if trim name = [] then lit ''Leader'' else name) url os arch now in
      s\<lparr>mem_nodes := AList.update (n_id n) n (mem_nodes s),
        mem_local := (mem_local s)\<lparr>l_role := Leader, l_node_id := leader_node_id, l_name := name,
          l_leader_url := url, l_url := url\<rparr>\<rparr>)"

definition memory_store :: "mem store_ops" where
  "memory_store = \<lparr>
     get_local = (\<lambda>s. (s, Inr (mem_local s))),
     set_local = (\<lambda>l s. (s\<lparr>mem_local := l\<rparr>, Inr ())),
     list_nodes = (\<lambda>s. (s, Inr (sort_key n_name (map snd (mem_nodes s))))),
     get_node = (\<lambda>i s. (s, Inr (map_of (mem_nodes s) i))),
     upsert_node = (\<lambda>n s. (s\<lparr>mem_nodes := AList.update (n_id n) n (mem_nodes s)\<rparr>, Inr ())),
     delete_node = (\<lambda>i s. (s\<lparr>mem_nodes := AList.delete i (mem_nodes s)\<rparr>, Inr (map_of (mem_nodes s) i \<noteq> None))),
     insert_token = (\<lambda>t s. (s\<lparr>mem_tokens := AList.update (t_id t) t (mem_tokens s)\<rparr>, Inr ())),
     get_token_by_hash = (\<lambda>h s. (s, Inr (find (\<lambda>t. t_hash t = h) (map snd (mem_tokens s))))),
     get_token = (\<lambda>i s. (s, Inr (map_of (mem_tokens s) i))),
     list_tokens = (\<lambda>s. (s, Inr (rev (sort_key t_created (rev (map snd (mem_tokens s))))))),
     revoke_token = (\<lambda>i now s.
       (case map_of (mem_tokens s) i of
          None \<Rightarrow> (s, Inr False)
        | Some t \<Rightarrow> (s\<lparr>mem_tokens := AList.update i (t\<lparr>t_revoked := Some now\<rparr>) (mem_tokens s)\<rparr>, Inr True))),
     get_node_secret = (\<lambda>i s. (s, Inr (map_option fst (map_of (mem_secrets s) i)))),
     set_node_secret = (\<lambda>i x h s. (s\<lparr>mem_secrets := AList.update i (x, h) (mem_secrets s)\<rparr>, Inr ())),
     delete_node_secret = (\<lambda>i s. (s\<lparr>mem_secrets := AList.delete i (mem_secrets s)\<rparr>, Inr ()))\<rparr>"

definition mem_inv :: "mem \<Rightarrow> bool" where
  "mem_inv s \<longleftrightarrow> keyed n_id (mem_nodes s) \<and> keyed t_id (mem_tokens s) \<and> distinct (map fst (mem_secrets s))"

definition mem_abs :: "mem \<Rightarrow> astore" where
  "mem_abs s = \<lparr>as_local = mem_local s, as_nodes = map_of (mem_nodes s), as_tokens = map_of (mem_tokens s),
     as_secrets = map_option fst \<circ> map_of (mem_secrets s)\<rparr>"

lemma mem_listed: "keyed n_id m \<Longrightarrow> listed (sort_key n_name (map snd m)) (map_of m)"
proof -
  assume k: "keyed n_id m"
  have "distinct (map n_id (map snd m))" using keyed_keys [OF k] k unfolding keyed_def by metis
  then have d: "distinct (map n_id (sort_key n_name (map snd m)))" by (rule distinct_sort_key)
  then show ?thesis
    using keyed_listed [OF k, of "sort_key n_name (map snd m)"] by (simp add: listed_def)
qed

lemma mem_tokens_listed:
  assumes "keyed t_id m"
  shows "distinct (map t_id (rev (sort_key t_created (rev (map snd m)))))"
    and "map_of m = map_of (map (\<lambda>t. (t_id t, t)) (rev (sort_key t_created (rev (map snd m)))))"
proof -
  have "distinct (map t_id (rev (map snd m)))"
    using keyed_keys [OF assms] assms unfolding keyed_def by (metis distinct_rev rev_map)
  then show d: "distinct (map t_id (rev (sort_key t_created (rev (map snd m)))))"
    by (metis distinct_rev distinct_sort_key rev_map)
  show "map_of m = map_of (map (\<lambda>t. (t_id t, t)) (rev (sort_key t_created (rev (map snd m)))))"
    using keyed_listed [OF assms _ d] by simp
qed

lemma keyed_find:
  assumes "keyed t_id m"
  shows "case find (\<lambda>t. t_hash t = h) (map snd m) of
      None \<Rightarrow> \<forall>i u. map_of m i = Some u \<longrightarrow> t_hash u \<noteq> h
    | Some u \<Rightarrow> t_hash u = h \<and> map_of m (t_id u) = Some u"
proof (cases "find (\<lambda>t. t_hash t = h) (map snd m)")
  case None
  then have "\<forall>u \<in> set (map snd m). t_hash u \<noteq> h" by (simp only: find_None_iff) blast
  then have "map_of m i = Some u \<Longrightarrow> t_hash u \<noteq> h" for i u
    using map_of_SomeD [of m i u] by force
  then show ?thesis using None by simp
next
  case (Some u)
  then have "u \<in> set (map snd m)" "t_hash u = h" by (auto simp: find_Some_iff)
  then obtain i where "(i, u) \<in> set m" by auto
  then have "(t_id u, u) \<in> set m" using assms by (auto simp: keyed_def)
  then have "map_of m (t_id u) = Some u" using assms by (simp add: keyed_def)
  then show ?thesis using Some \<open>t_hash u = h\<close> by simp
qed

lemma map_fst_upd: "map_option fst \<circ> m(i \<mapsto> (x, h)) = (map_option fst \<circ> m)(i \<mapsto> x)"
  by auto

lemma map_fst_del: "map_option fst \<circ> m(i := None) = (map_option fst \<circ> m)(i := None)"
  by auto

interpretation mem: cluster_store memory_store mem_inv mem_abs
proof unfold_locales
  fix l :: local_state
  show "op_ok mem_inv mem_abs (get_local memory_store) (\<lambda>a l a'. a' = a \<and> l = as_local a)"
    by (auto simp: memory_store_def mem_abs_def intro!: op_okI)
  show "op_ok mem_inv mem_abs (set_local memory_store l) (\<lambda>a _ a'. a' = a\<lparr>as_local := l\<rparr>)"
    by (auto simp: memory_store_def mem_abs_def mem_inv_def intro!: op_okI)
next
  show "op_ok mem_inv mem_abs (list_nodes memory_store) (\<lambda>a ns a'. a' = a \<and> listed ns (as_nodes a))"
    by (auto simp: memory_store_def mem_abs_def mem_inv_def intro!: op_okI mem_listed)
next
  fix i
  show "op_ok mem_inv mem_abs (get_node memory_store i) (\<lambda>a n a'. a' = a \<and> n = as_nodes a i)"
    by (auto simp: memory_store_def mem_abs_def intro!: op_okI)
  show "op_ok mem_inv mem_abs (delete_node memory_store i)
          (\<lambda>a b a'. a' = a\<lparr>as_nodes := (as_nodes a)(i := None)\<rparr> \<and> b = (as_nodes a i \<noteq> None))"
    by (auto simp: memory_store_def mem_abs_def mem_inv_def delete_conv' keyed_delete intro!: op_okI)
  show "op_ok mem_inv mem_abs (get_token memory_store i) (\<lambda>a t a'. a' = a \<and> t = as_tokens a i)"
    by (auto simp: memory_store_def mem_abs_def intro!: op_okI)
  show "op_ok mem_inv mem_abs (get_node_secret memory_store i) (\<lambda>a x a'. a' = a \<and> x = as_secrets a i)"
    by (auto simp: memory_store_def mem_abs_def intro!: op_okI)
  show "op_ok mem_inv mem_abs (delete_node_secret memory_store i)
          (\<lambda>a _ a'. a' = a\<lparr>as_secrets := (as_secrets a)(i := None)\<rparr>)"
    by (auto simp: memory_store_def mem_abs_def mem_inv_def delete_conv' map_fst_del distinct_delete intro!: op_okI)
next
  fix n
  show "op_ok mem_inv mem_abs (upsert_node memory_store n)
          (\<lambda>a _ a'. \<exists>c. a' = a\<lparr>as_nodes := (as_nodes a)(n_id n \<mapsto> n\<lparr>n_created := c\<rparr>)\<rparr>
              \<and> (keeps_created (as_nodes a) n \<longrightarrow> c = n_created n))"
  proof (rule op_okI)
    fix s s' x
    assume "mem_inv s" and "upsert_node memory_store n s = (s', Inr x)"
    then have "mem_inv s' \<and> mem_abs s' = (mem_abs s)\<lparr>as_nodes := (as_nodes (mem_abs s))(n_id n \<mapsto> n\<lparr>n_created := n_created n\<rparr>)\<rparr>"
      by (auto simp: memory_store_def mem_abs_def mem_inv_def update_conv' keyed_update)
    then show "mem_inv s' \<and> (\<exists>c. mem_abs s' = (mem_abs s)\<lparr>as_nodes := (as_nodes (mem_abs s))(n_id n \<mapsto> n\<lparr>n_created := c\<rparr>)\<rparr>
        \<and> (keeps_created (as_nodes (mem_abs s)) n \<longrightarrow> c = n_created n))" by blast
  qed (simp add: memory_store_def)
next
  fix t
  show "op_ok mem_inv mem_abs (insert_token memory_store t)
          (\<lambda>a _ a'. as_tokens a (t_id t) = None \<longrightarrow> a' = a\<lparr>as_tokens := (as_tokens a)(t_id t \<mapsto> t)\<rparr>)"
    by (auto simp: memory_store_def mem_abs_def mem_inv_def update_conv' keyed_update intro!: op_okI)
next
  fix h
  show "op_ok mem_inv mem_abs (get_token_by_hash memory_store h)
          (\<lambda>a t a'. a' = a \<and> (case t of None \<Rightarrow> \<forall>i u. as_tokens a i = Some u \<longrightarrow> t_hash u \<noteq> h
                                | Some u \<Rightarrow> t_hash u = h \<and> as_tokens a (t_id u) = Some u))"
  proof (rule op_okI)
    fix s s' x
    assume s: "mem_inv s" and "get_token_by_hash memory_store h s = (s', Inr x)"
    then have "s' = s" and "x = find (\<lambda>t. t_hash t = h) (map snd (mem_tokens s))"
      by (auto simp: memory_store_def)
    then show "mem_inv s' \<and> mem_abs s' = mem_abs s \<and> (case x of None \<Rightarrow> \<forall>i u. as_tokens (mem_abs s) i = Some u \<longrightarrow> t_hash u \<noteq> h
                                | Some u \<Rightarrow> t_hash u = h \<and> as_tokens (mem_abs s) (t_id u) = Some u)"
      unfolding mem_abs_def using keyed_find [of "mem_tokens s" h] s
      by (simp add: mem_inv_def cong: option.case_cong)
  qed (simp add: memory_store_def)
next
  show "op_ok mem_inv mem_abs (list_tokens memory_store)
          (\<lambda>a ts a'. a' = a \<and> distinct (map t_id ts) \<and> as_tokens a = map_of (map (\<lambda>t. (t_id t, t)) ts))"
    by (rule op_okI) (use mem_tokens_listed in \<open>fastforce simp: memory_store_def mem_abs_def mem_inv_def\<close>)+
next
  fix i now
  show "op_ok mem_inv mem_abs (revoke_token memory_store i now)
          (\<lambda>a b a'. (case as_tokens a i of
               None \<Rightarrow> a' = a \<and> \<not> b
             | Some t \<Rightarrow> (\<exists>r. a' = a\<lparr>as_tokens := (as_tokens a)(i \<mapsto> t\<lparr>t_revoked := Some r\<rparr>)\<rparr>)))"
  proof (rule op_okI)
    fix s s' x
    assume s: "mem_inv s" and r: "revoke_token memory_store i now s = (s', Inr x)"
    show "mem_inv s' \<and> (case as_tokens (mem_abs s) i of
               None \<Rightarrow> mem_abs s' = mem_abs s \<and> \<not> x
             | Some t \<Rightarrow> (\<exists>r. mem_abs s' = mem_abs s\<lparr>as_tokens := (as_tokens (mem_abs s))(i \<mapsto> t\<lparr>t_revoked := Some r\<rparr>)\<rparr>))"
    proof (cases "map_of (mem_tokens s) i")
      case None
      then show ?thesis using s r by (auto simp: memory_store_def mem_abs_def)
    next
      case (Some t)
      then have "t_id t = i" using s map_of_SomeD [OF Some] by (auto simp: mem_inv_def keyed_def)
      then show ?thesis
        using s r Some by (auto simp: memory_store_def mem_abs_def mem_inv_def update_conv' intro!: keyed_update)
    qed
  qed (auto simp: memory_store_def split: option.splits)
next
  fix i x h
  show "op_ok mem_inv mem_abs (set_node_secret memory_store i x h)
          (\<lambda>a _ a'. a' = a\<lparr>as_secrets := (as_secrets a)(i \<mapsto> x)\<rparr>)"
    by (auto simp: memory_store_def mem_abs_def mem_inv_def update_conv' map_fst_upd distinct_update intro!: op_okI)
qed

end
