(* ===== verification/ClusterSql.thy ===== *)
theory ClusterSql
  imports ClusterStore Tables
begin

text \<open>
  \<open>SqliteClusterStore\<close> (\<open>apps/server/src/cluster_store.rs\<close>): the tables \<open>cluster_local\<close>,
  \<open>cluster_nodes\<close>, \<open>cluster_join_tokens\<close> and \<open>cluster_node_secrets\<close>, their rows and the
  conversions. A table is the list of its rows; \<open>sq_faults\<close> is the schedule of failing
  queries. The two JSON columns hold the value they serialise.
\<close>

section \<open>Rows\<close>

record local_row =
  lr_role :: ustr
  lr_leader_url :: ustr
  lr_node_id :: ustr
  lr_secret :: ustr
  lr_name :: ustr
  lr_url :: ustr
  lr_pref_id :: ustr
  lr_pref_url :: ustr
  lr_failover_secret :: ustr
  lr_generation :: int
  lr_acting :: int
  lr_term :: int
  lr_fenced :: int

record node_row =
  nr_id :: ustr
  nr_name :: ustr
  nr_role :: ustr
  nr_url :: ustr
  nr_status :: ustr
  nr_os :: ustr
  nr_arch :: ustr
  nr_caps :: "ustr list"
  nr_ssh_host :: "ustr option"
  nr_ssh_user :: "ustr option"
  nr_ssh_port :: "int option"
  nr_last_seen :: "ustr option"
  nr_last_error :: "ustr option"
  nr_drained :: int
  nr_ingress :: ustr
  nr_metrics :: metrics
  nr_created :: ustr
  nr_updated :: ustr

record secret_row =
  sr_node :: ustr
  sr_secret :: ustr
  sr_hash :: ustr

record sqldb =
  sq_local :: "local_row option"
  sq_nodes :: "node_row list"
  sq_tokens :: "token_row list"
  sq_secrets :: "secret_row list"
  sq_faults :: "bool list"

text \<open>\<open>u16::try_from\<close>.\<close>

definition port_of_int :: "int \<Rightarrow> 16 word option" where
  "port_of_int p = (if 0 \<le> p \<and> p < 65536 then Some (word_of_int p) else None)"

definition node_of_row :: "node_row \<Rightarrow> node" where
  "node_of_row r = \<lparr>n_id = nr_id r, n_name = nr_name r, n_role = role_parse (nr_role r), n_url = nr_url r,
     n_status = status_parse (nr_status r), n_os = nr_os r, n_arch = nr_arch r, n_caps = nr_caps r,
     n_ssh_host = nr_ssh_host r, n_ssh_user = nr_ssh_user r,
     n_ssh_port = Option.bind (nr_ssh_port r) port_of_int, n_last_seen = nr_last_seen r,
     n_last_error = nr_last_error r, n_drained = (nr_drained r \<noteq> 0), n_ingress = nr_ingress r,
     n_metrics = nr_metrics r, n_created = nr_created r, n_updated = nr_updated r\<rparr>"

definition row_of_node :: "node \<Rightarrow> node_row" where
  "row_of_node n = \<lparr>nr_id = n_id n, nr_name = n_name n, nr_role = role_str (n_role n), nr_url = n_url n,
     nr_status = status_str (n_status n), nr_os = n_os n, nr_arch = n_arch n, nr_caps = n_caps n,
     nr_ssh_host = n_ssh_host n, nr_ssh_user = n_ssh_user n,
     nr_ssh_port = map_option uint (n_ssh_port n), nr_last_seen = n_last_seen n,
     nr_last_error = n_last_error n, nr_drained = (if n_drained n then 1 else 0),
     nr_ingress = n_ingress n, nr_metrics = n_metrics n, nr_created = n_created n, nr_updated = n_updated n\<rparr>"

definition local_of_row :: "local_row \<Rightarrow> local_state" where
  "local_of_row r = \<lparr>l_role = role_parse (lr_role r), l_leader_url = lr_leader_url r,
     l_node_id = lr_node_id r, l_secret = lr_secret r, l_name = lr_name r, l_url = lr_url r,
     l_pref_id = (if lr_pref_id r = [] then lit ''default'' else lr_pref_id r), l_pref_url = lr_pref_url r,
     l_failover_secret = lr_failover_secret r, l_generation = lr_generation r,
     l_acting = (lr_acting r \<noteq> 0), l_term = (if lr_term r < 1 then 1 else lr_term r),
     l_fenced = (lr_fenced r \<noteq> 0)\<rparr>"

definition row_of_local :: "local_state \<Rightarrow> local_row" where
  "row_of_local l = \<lparr>lr_role = role_str (l_role l), lr_leader_url = l_leader_url l,
     lr_node_id = l_node_id l, lr_secret = l_secret l, lr_name = l_name l, lr_url = l_url l,
     lr_pref_id = l_pref_id l, lr_pref_url = l_pref_url l, lr_failover_secret = l_failover_secret l,
     lr_generation = l_generation l, lr_acting = (if l_acting l then 1 else 0),
     lr_term = (if l_term l < 1 then 1 else l_term l), lr_fenced = (if l_fenced l then 1 else 0)\<rparr>"

lemma port_roundtrip: "port_of_int (uint (p :: 16 word)) = Some p"
  using uint_lt2p [of p] by (simp add: port_of_int_def)

lemma node_row_roundtrip: "node_of_row (row_of_node n) = n"
  by (cases "n_ssh_port n") (simp_all add: node_of_row_def row_of_node_def port_roundtrip)

lemma local_row_roundtrip: "local_ok l \<Longrightarrow> local_of_row (row_of_local l) = l"
  by (simp add: local_of_row_def row_of_local_def local_ok_def)

section \<open>Queries\<close>

definition sq_query :: "(sqldb \<Rightarrow> sqldb \<times> 'a) \<Rightarrow> (sqldb, derr, 'a) rop" where
  "sq_query q s =
     (case sq_faults s of
        [] \<Rightarrow> (case q s of (s', x) \<Rightarrow> (s', Inr x))
      | f # fs \<Rightarrow>
          if f then (s\<lparr>sq_faults := fs\<rparr>, Inl StoreError)
          else (case q (s\<lparr>sq_faults := fs\<rparr>) of (s', x) \<Rightarrow> (s', Inr x)))"

text \<open>What each conflict clause keeps of the old row.\<close>

definition node_conflict :: "node_row \<Rightarrow> node_row \<Rightarrow> node_row" where
  "node_conflict old new = new\<lparr>nr_created := nr_created old\<rparr>"

definition token_conflict :: "token_row \<Rightarrow> token_row \<Rightarrow> token_row" where
  "token_conflict old new = new\<lparr>t_by := t_by old, t_created := t_created old\<rparr>"

definition sql_store :: "sqldb store_ops" where
  "sql_store = \<lparr>
     get_local = sq_query (\<lambda>s. (s, case sq_local s of None \<Rightarrow> default_local | Some r \<Rightarrow> local_of_row r)),
     set_local = (\<lambda>l. sq_query (\<lambda>s. (s\<lparr>sq_local := Some (row_of_local l)\<rparr>, ()))),
     list_nodes = sq_query (\<lambda>s. (s, map node_of_row (sort_key nr_name (sq_nodes s)))),
     get_node = (\<lambda>i. sq_query (\<lambda>s. (s, map_option node_of_row (select_row nr_id i (sq_nodes s))))),
     upsert_node = (\<lambda>n. sq_query (\<lambda>s.
       (s\<lparr>sq_nodes := upsert_row nr_id node_conflict (row_of_node n) (sq_nodes s)\<rparr>, ()))),
     delete_node = (\<lambda>i. sq_query (\<lambda>s.
       (s\<lparr>sq_nodes := delete_row nr_id i (sq_nodes s)\<rparr>, \<exists>r \<in> set (sq_nodes s). nr_id r = i))),
     insert_token = (\<lambda>t. sq_query (\<lambda>s.
       (s\<lparr>sq_tokens := upsert_row t_id token_conflict t (sq_tokens s)\<rparr>, ()))),
     get_token_by_hash = (\<lambda>h. sq_query (\<lambda>s. (s, find (\<lambda>t. t_hash t = h) (sq_tokens s)))),
     get_token = (\<lambda>i. sq_query (\<lambda>s. (s, select_row t_id i (sq_tokens s)))),
     list_tokens = sq_query (\<lambda>s. (s, rev (sort_key t_created (rev (sq_tokens s))))),
     revoke_token = (\<lambda>i now. sq_query (\<lambda>s.
       (s\<lparr>sq_tokens := map (\<lambda>t. if t_id t = i \<and> t_revoked t = None then t\<lparr>t_revoked := Some now\<rparr> else t)
            (sq_tokens s)\<rparr>,
        \<exists>t \<in> set (sq_tokens s). t_id t = i \<and> t_revoked t = None))),
     get_node_secret = (\<lambda>i. sq_query (\<lambda>s. (s, map_option sr_secret (select_row sr_node i (sq_secrets s))))),
     set_node_secret = (\<lambda>i x h. sq_query (\<lambda>s.
       (s\<lparr>sq_secrets := upsert_row sr_node (\<lambda>old new. new) \<lparr>sr_node = i, sr_secret = x, sr_hash = h\<rparr>
            (sq_secrets s)\<rparr>, ()))),
     delete_node_secret = (\<lambda>i. sq_query (\<lambda>s. (s\<lparr>sq_secrets := delete_row sr_node i (sq_secrets s)\<rparr>, ())))\<rparr>"

section \<open>Refinement\<close>

definition sql_inv :: "sqldb \<Rightarrow> bool" where
  "sql_inv s \<longleftrightarrow> distinct (map nr_id (sq_nodes s)) \<and> distinct (map t_id (sq_tokens s))
     \<and> distinct (map sr_node (sq_secrets s))"

definition sql_abs :: "sqldb \<Rightarrow> astore" where
  "sql_abs s = \<lparr>
     as_local = (case sq_local s of None \<Rightarrow> default_local | Some r \<Rightarrow> local_of_row r),
     as_nodes = (\<lambda>i. map_option node_of_row (select_row nr_id i (sq_nodes s))),
     as_tokens = (\<lambda>i. select_row t_id i (sq_tokens s)),
     as_secrets = (\<lambda>i. map_option sr_secret (select_row sr_node i (sq_secrets s)))\<rparr>"

lemma select_sort:
  assumes "distinct (map k rows)"
  shows "map_of (map (\<lambda>r. (k r, r)) (sort_key g rows)) i = select_row k i rows"
proof -
  have "map_of (map (\<lambda>r. (k r, r)) (sort_key g rows)) = map_of (map (\<lambda>r. (k r, r)) rows)"
    by (rule map_of_perm) (simp_all add: assms distinct_sort_key)
  moreover have "map_of (map (\<lambda>r. (k r, r)) rows) i = select_row k i rows"
    by (induction rows) (auto simp: select_row_def)
  ultimately show ?thesis by simp
qed

text \<open>A query keeps what its body keeps, and a fault changes nothing.\<close>

lemma sq_query_ok:
  assumes "\<And>s s' x. sql_inv s \<Longrightarrow> q s = (s', x) \<Longrightarrow> sql_inv s' \<and> P (sql_abs s) x (sql_abs s')"
  shows "op_ok sql_inv sql_abs (sq_query q) P"
proof (rule op_okI)
  have f: "sql_inv (s\<lparr>sq_faults := fs\<rparr>) = sql_inv s" "sql_abs (s\<lparr>sq_faults := fs\<rparr>) = sql_abs s" for s fs
    by (simp_all add: sql_inv_def sql_abs_def)
  fix s s' x
  assume i: "sql_inv s" and "sq_query q s = (s', Inr x)"
  then obtain s0 where "q s0 = (s', x)" "sql_inv s0" "sql_abs s0 = sql_abs s"
    by (auto simp: sq_query_def f split: list.splits prod.splits if_splits)
  then show "sql_inv s' \<and> P (sql_abs s) x (sql_abs s')" using assms [of s0 s' x] by simp
next
  fix s s' e
  assume "sql_inv s" and "sq_query q s = (s', Inl e)"
  then show "sql_inv s' \<and> sql_abs s' = sql_abs s"
    by (auto simp: sq_query_def sql_inv_def sql_abs_def split: list.splits prod.splits if_splits)
qed

lemmas abs_defs = sql_abs_def sql_inv_def

lemma upsert_node_abs:
  "\<exists>c. sql_abs (s\<lparr>sq_nodes := upsert_row nr_id node_conflict (row_of_node n) (sq_nodes s)\<rparr>)
       = (sql_abs s)\<lparr>as_nodes := (as_nodes (sql_abs s))(n_id n \<mapsto> n\<lparr>n_created := c\<rparr>)\<rparr>
     \<and> (keeps_created (as_nodes (sql_abs s)) n \<longrightarrow> c = n_created n)"
proof -
  let ?old = "select_row nr_id (n_id n) (sq_nodes s)"
  let ?c = "case ?old of None \<Rightarrow> n_created n | Some old \<Rightarrow> nr_created old"
  have id: "nr_id (row_of_node n) = n_id n" by (simp add: row_of_node_def)
  have "node_conflict old (row_of_node n) = row_of_node (n\<lparr>n_created := nr_created old\<rparr>)" for old
    by (simp add: node_conflict_def row_of_node_def)
  then have "node_of_row (case ?old of None \<Rightarrow> row_of_node n | Some old \<Rightarrow> node_conflict old (row_of_node n))
      = n\<lparr>n_created := ?c\<rparr>"
    by (simp add: node_row_roundtrip split: option.split)
  then have "sql_abs (s\<lparr>sq_nodes := upsert_row nr_id node_conflict (row_of_node n) (sq_nodes s)\<rparr>)
       = (sql_abs s)\<lparr>as_nodes := (as_nodes (sql_abs s))(n_id n \<mapsto> n\<lparr>n_created := ?c\<rparr>)\<rparr>"
    by (simp add: sql_abs_def fun_eq_iff select_upsert node_conflict_def id)
  moreover have "keeps_created (as_nodes (sql_abs s)) n \<Longrightarrow> ?c = n_created n"
    by (auto simp: keeps_created_def sql_abs_def node_of_row_def split: option.split)
  ultimately show ?thesis by blast
qed

lemma revoke_abs:
  assumes "select_row t_id i (sq_tokens s) = Some t"
  shows "\<exists>r. sql_abs (s\<lparr>sq_tokens := map (\<lambda>t. if t_id t = i \<and> t_revoked t = None then t\<lparr>t_revoked := Some now\<rparr> else t)
            (sq_tokens s)\<rparr>)
       = (sql_abs s)\<lparr>as_tokens := (as_tokens (sql_abs s))(i \<mapsto> t\<lparr>t_revoked := Some r\<rparr>)\<rparr>"
proof -
  let ?f = "\<lambda>t. if t_id t = i \<and> t_revoked t = None then t\<lparr>t_revoked := Some now\<rparr> else t"
  have sel: "select_row t_id j (map ?f (sq_tokens s)) = map_option ?f (select_row t_id j (sq_tokens s))" for j
    by (rule select_row_map) simp
  have "j \<noteq> i \<Longrightarrow> map_option ?f (select_row t_id j (sq_tokens s)) = select_row t_id j (sq_tokens s)" for j
    by (cases "select_row t_id j (sq_tokens s)") (auto dest: select_row_key)
  moreover have "?f t = t\<lparr>t_revoked := Some (unwrap_or (t_revoked t) now)\<rparr>"
    using select_row_key [OF assms] by (cases "t_revoked t") (auto simp: unwrap_or_def)
  ultimately have "sql_abs (s\<lparr>sq_tokens := map ?f (sq_tokens s)\<rparr>)
       = (sql_abs s)\<lparr>as_tokens := (as_tokens (sql_abs s))(i \<mapsto> t\<lparr>t_revoked := Some (unwrap_or (t_revoked t) now)\<rparr>)\<rparr>"
    using assms by (simp add: sql_abs_def fun_eq_iff sel)
  then show ?thesis ..
qed

lemma list_nodes_abs:
  assumes "distinct (map nr_id rows)"
  shows "listed (map node_of_row (sort_key nr_name rows)) (\<lambda>i. map_option node_of_row (select_row nr_id i rows))"
proof -
  have id: "n_id (node_of_row r) = nr_id r" and nm: "n_name (node_of_row r) = nr_name r" for r
    by (simp_all add: node_of_row_def)
  have "map_of (map (\<lambda>n. (n_id n, n)) (map node_of_row xs)) i
      = map_option node_of_row (map_of (map (\<lambda>r. (nr_id r, r)) xs) i)" for xs i
    by (induction xs) (auto simp: id)
  then show ?thesis
    using select_sort [OF assms, of nr_name] distinct_sort_key [OF assms, of nr_name]
    by (simp add: listed_def fun_eq_iff id nm o_def)
qed

interpretation sql: cluster_store sql_store sql_inv sql_abs
proof unfold_locales
  show "op_ok sql_inv sql_abs (get_local sql_store) (\<lambda>a l a'. a' = a \<and> l = as_local a)"
    unfolding sql_store_def store_ops.simps by (rule sq_query_ok) (auto simp: sql_abs_def)
next
  fix l
  assume "local_ok l"
  then show "op_ok sql_inv sql_abs (set_local sql_store l) (\<lambda>a _ a'. a' = a\<lparr>as_local := l\<rparr>)"
    unfolding sql_store_def store_ops.simps
    by (intro sq_query_ok) (auto simp: abs_defs local_row_roundtrip)
next
  show "op_ok sql_inv sql_abs (list_nodes sql_store) (\<lambda>a ns a'. a' = a \<and> listed ns (as_nodes a))"
    unfolding sql_store_def store_ops.simps
    by (rule sq_query_ok) (auto simp: abs_defs list_nodes_abs)
next
  fix i
  show "op_ok sql_inv sql_abs (get_node sql_store i) (\<lambda>a n a'. a' = a \<and> n = as_nodes a i)"
    unfolding sql_store_def store_ops.simps by (rule sq_query_ok) (auto simp: sql_abs_def)
  show "op_ok sql_inv sql_abs (delete_node sql_store i)
          (\<lambda>a b a'. a' = a\<lparr>as_nodes := (as_nodes a)(i := None)\<rparr> \<and> b = (as_nodes a i \<noteq> None))"
    unfolding sql_store_def store_ops.simps
    by (rule sq_query_ok)
      (auto simp: abs_defs fun_eq_iff select_delete distinct_delete_row select_row_None dest!: select_row_key)
  show "op_ok sql_inv sql_abs (get_token sql_store i) (\<lambda>a t a'. a' = a \<and> t = as_tokens a i)"
    unfolding sql_store_def store_ops.simps by (rule sq_query_ok) (auto simp: sql_abs_def)
  show "op_ok sql_inv sql_abs (get_node_secret sql_store i) (\<lambda>a x a'. a' = a \<and> x = as_secrets a i)"
    unfolding sql_store_def store_ops.simps by (rule sq_query_ok) (auto simp: sql_abs_def)
  show "op_ok sql_inv sql_abs (delete_node_secret sql_store i)
          (\<lambda>a _ a'. a' = a\<lparr>as_secrets := (as_secrets a)(i := None)\<rparr>)"
    unfolding sql_store_def store_ops.simps
    by (rule sq_query_ok) (auto simp: abs_defs fun_eq_iff select_delete distinct_delete_row)
next
  fix n
  show "op_ok sql_inv sql_abs (upsert_node sql_store n)
          (\<lambda>a _ a'. \<exists>c. a' = a\<lparr>as_nodes := (as_nodes a)(n_id n \<mapsto> n\<lparr>n_created := c\<rparr>)\<rparr>
              \<and> (keeps_created (as_nodes a) n \<longrightarrow> c = n_created n))"
    unfolding sql_store_def store_ops.simps
    by (rule sq_query_ok)
      (auto simp: upsert_node_abs sql_inv_def node_conflict_def intro!: distinct_upsert)
next
  fix t
  show "op_ok sql_inv sql_abs (insert_token sql_store t)
          (\<lambda>a _ a'. as_tokens a (t_id t) = None \<longrightarrow> a' = a\<lparr>as_tokens := (as_tokens a)(t_id t \<mapsto> t)\<rparr>)"
    unfolding sql_store_def store_ops.simps
    by (rule sq_query_ok)
      (auto simp: abs_defs fun_eq_iff select_upsert token_conflict_def intro!: distinct_upsert)
next
  fix h
  show "op_ok sql_inv sql_abs (get_token_by_hash sql_store h)
          (\<lambda>a t a'. a' = a \<and> (case t of None \<Rightarrow> \<forall>i u. as_tokens a i = Some u \<longrightarrow> t_hash u \<noteq> h
                                | Some u \<Rightarrow> t_hash u = h \<and> as_tokens a (t_id u) = Some u))"
    unfolding sql_store_def store_ops.simps
  proof (rule sq_query_ok)
    fix s s' x
    assume s: "sql_inv s" and "(s, find (\<lambda>t. t_hash t = h) (sq_tokens s)) = (s', x)"
    then have x: "s' = s" "x = find (\<lambda>t. t_hash t = h) (sq_tokens s)" by auto
    have a: "as_tokens (sql_abs s) i = select_row t_id i (sq_tokens s)" for i by (simp add: sql_abs_def)
    have "case find (\<lambda>t. t_hash t = h) (sq_tokens s) of
        None \<Rightarrow> \<forall>i u. as_tokens (sql_abs s) i = Some u \<longrightarrow> t_hash u \<noteq> h
      | Some u \<Rightarrow> t_hash u = h \<and> as_tokens (sql_abs s) (t_id u) = Some u"
      using s by (auto simp: a sql_inv_def find_None_iff find_Some_iff split: option.split
          dest!: select_row_key intro!: select_row_mem)
    then show "sql_inv s' \<and> sql_abs s' = sql_abs s \<and> (case x of None \<Rightarrow> \<forall>i u. as_tokens (sql_abs s) i = Some u \<longrightarrow> t_hash u \<noteq> h
                                | Some u \<Rightarrow> t_hash u = h \<and> as_tokens (sql_abs s) (t_id u) = Some u)"
      using s unfolding x by blast
  qed
next
  show "op_ok sql_inv sql_abs (list_tokens sql_store)
          (\<lambda>a ts a'. a' = a \<and> distinct (map t_id ts) \<and> as_tokens a = map_of (map (\<lambda>t. (t_id t, t)) ts))"
    unfolding sql_store_def store_ops.simps
  proof (rule sq_query_ok)
    fix s s' ts
    assume s: "sql_inv s" and "(s, rev (sort_key t_created (rev (sq_tokens s)))) = (s', ts)"
    then have x: "s' = s" "ts = rev (sort_key t_created (rev (sq_tokens s)))" by auto
    have d: "distinct (map t_id (sq_tokens s))" using s by (simp add: sql_inv_def)
    then have d': "distinct (map t_id ts)"
      by (simp add: x(2) distinct_map)
    have "map_of (map (\<lambda>t. (t_id t, t)) ts) = map_of (map (\<lambda>t. (t_id t, t)) (sort_key t_created (sq_tokens s)))"
      using d' by (intro map_of_perm) (simp_all add: distinct_sort_key [OF d] x(2))
    then have "as_tokens (sql_abs s) = map_of (map (\<lambda>t. (t_id t, t)) ts)"
      using select_sort [OF d, of t_created] by (simp add: sql_abs_def fun_eq_iff)
    then show "sql_inv s' \<and> sql_abs s' = sql_abs s \<and> distinct (map t_id ts)
        \<and> as_tokens (sql_abs s) = map_of (map (\<lambda>t. (t_id t, t)) ts)"
      using s d' x(1) by blast
  qed
next
  fix i now
  show "op_ok sql_inv sql_abs (revoke_token sql_store i now)
          (\<lambda>a b a'. (case as_tokens a i of
               None \<Rightarrow> a' = a \<and> \<not> b
             | Some t \<Rightarrow> (\<exists>r. a' = a\<lparr>as_tokens := (as_tokens a)(i \<mapsto> t\<lparr>t_revoked := Some r\<rparr>)\<rparr>)))"
    unfolding sql_store_def store_ops.simps
  proof (rule sq_query_ok)
    fix s s' b
    let ?f = "\<lambda>t. if t_id t = i \<and> t_revoked t = None then t\<lparr>t_revoked := Some now\<rparr> else t"
    assume s: "sql_inv s" and "(s\<lparr>sq_tokens := map ?f (sq_tokens s)\<rparr>,
        \<exists>t \<in> set (sq_tokens s). t_id t = i \<and> t_revoked t = None) = (s', b)"
    then have x: "s' = s\<lparr>sq_tokens := map ?f (sq_tokens s)\<rparr>"
        "b = (\<exists>t \<in> set (sq_tokens s). t_id t = i \<and> t_revoked t = None)" by auto
    have "map t_id (map ?f (sq_tokens s)) = map t_id (sq_tokens s)" by simp
    then have inv: "sql_inv s'" using s unfolding sql_inv_def x(1) by (simp del: map_map)
    have a: "as_tokens (sql_abs s) i = select_row t_id i (sq_tokens s)" by (simp add: sql_abs_def)
    show "sql_inv s' \<and> (case as_tokens (sql_abs s) i of
               None \<Rightarrow> sql_abs s' = sql_abs s \<and> \<not> b
             | Some t \<Rightarrow> (\<exists>r. sql_abs s' = sql_abs s\<lparr>as_tokens := (as_tokens (sql_abs s))(i \<mapsto> t\<lparr>t_revoked := Some r\<rparr>)\<rparr>))"
    proof (cases "select_row t_id i (sq_tokens s)")
      case None
      then have n: "\<forall>t \<in> set (sq_tokens s). t_id t \<noteq> i" by (simp add: select_row_None)
      then have "map ?f (sq_tokens s) = sq_tokens s" by (intro map_if_id) auto
      then have "s' = s" by (simp add: x(1))
      then show ?thesis using None n inv by (simp add: a x(2))
    next
      case (Some t)
      then show ?thesis using revoke_abs [OF Some, of now] inv by (simp add: a x(1))
    qed
  qed
next
  fix i x h
  show "op_ok sql_inv sql_abs (set_node_secret sql_store i x h)
          (\<lambda>a _ a'. a' = a\<lparr>as_secrets := (as_secrets a)(i \<mapsto> x)\<rparr>)"
    unfolding sql_store_def store_ops.simps
    by (rule sq_query_ok) (auto simp: abs_defs fun_eq_iff select_upsert intro!: distinct_upsert split: option.split)
qed

end
