(* ===== verification/JoinCode.thy ===== *)
theory JoinCode
  imports ClusterModel
begin

text \<open>
  Invitations (\<open>crates/cluster/src/crypto.rs\<close>): the tokens, the code \<open>dfjoin_...@https://leader\<close>
  and the three forms in which a user may paste one. The random UUIDs are arguments.
\<close>

section \<open>Tokens\<close>

definition token_prefix :: ustr where "token_prefix = lit ''dfjoin_''"

definition new_join_token :: "ustr \<Rightarrow> ustr" where
  "new_join_token uuid = token_prefix @ uuid"

definition new_node_secret :: "ustr \<Rightarrow> ustr" where
  "new_node_secret uuid = lit ''dfnode_'' @ uuid"

definition new_node_id :: "ustr \<Rightarrow> ustr" where
  "new_node_id uuid = lit ''node_'' @ take 12 uuid"

section \<open>Codes\<close>

definition format_join_code :: "ustr \<Rightarrow> ustr \<Rightarrow> ustr" where
  "format_join_code leader_url token = trim token @ 64 # trim_url leader_url"

text \<open>\<open>split_whitespace().collect::<String>()\<close>.\<close>

definition compact :: "ustr \<Rightarrow> ustr" where
  "compact s = concat (split_whitespace s)"

definition extract_join_token :: "ustr \<Rightarrow> ustr option" where
  "extract_join_token raw =
     (let c = compact raw;
          fallback = find (\<lambda>s. starts_with s token_prefix) (split_on (\<lambda>x. x = 64 \<or> is_ws x) c)
      in (case split_once 64 c of
            Some (tok, url) \<Rightarrow> if starts_with tok token_prefix \<and> http_url url then Some tok else fallback
          | None \<Rightarrow> fallback))"

definition parse_code :: "ustr \<Rightarrow> (ustr \<times> ustr) option" where
  "parse_code raw =
     (case split_once 64 (compact raw) of
        None \<Rightarrow> None
      | Some (tok, url) \<Rightarrow>
          if \<not> starts_with tok token_prefix then None
          else if \<not> http_url url then None
          else Some (trim_end_char 47 url, tok))"

text \<open>The last \<open>token=\<close> or \<open>t=\<close> of a query string.\<close>

definition query_token :: "ustr \<Rightarrow> ustr option" where
  "query_token q =
     fold (\<lambda>part acc. case split_once 61 part of
              Some (k, v) \<Rightarrow> if k = lit ''token'' \<or> k = lit ''t'' then Some v else acc
            | None \<Rightarrow> acc)
       (split_on (\<lambda>c. c = 38) q) None"

text \<open>\<open>split_once("://")\<close>.\<close>

definition split_scheme :: "ustr \<Rightarrow> (ustr \<times> ustr) option" where
  "split_scheme s = map_option (\<lambda>i. (take i s, drop (i + 3) s)) (find_str (lit ''://'') s)"

definition parse_join_url :: "ustr \<Rightarrow> (ustr \<times> ustr) option" where
  "parse_join_url raw =
     (let s = trim raw in
      if \<not> http_url s then None
      else
        (let (without_frag, frag) = (case split_once 35 s of Some (a, b) \<Rightarrow> (a, Some b) | None \<Rightarrow> (s, None));
             (base, query) = (case split_once 63 without_frag of
                                Some (b, q) \<Rightarrow> (b, Some q) | None \<Rightarrow> (without_frag, None));
             from_query = Option.bind query query_token;
             token = opt_or from_query (opt_filter (\<lambda>h. starts_with h token_prefix) frag)
         in (case token of
               None \<Rightarrow> None
             | Some tok \<Rightarrow>
                 if \<not> starts_with tok token_prefix then None
                 else (case split_scheme base of
                         None \<Rightarrow> None
                       | Some (scheme, rest) \<Rightarrow>
                           (let hostport = hd (split_on (\<lambda>c. c = 47) rest)
                            in if hostport = [] then None
                               else Some (scheme @ lit ''://'' @ hostport, tok))))))"

definition two_lines_step :: "ustr \<Rightarrow> ustr option \<times> ustr option \<Rightarrow> ustr option \<times> ustr option" where
  "two_lines_step line acc =
     (if starts_with line token_prefix then (fst acc, Some line)
      else if http_url line then (Some (trim_end_char 47 line), snd acc)
      else acc)"

definition parse_two_lines :: "ustr \<Rightarrow> (ustr \<times> ustr) option" where
  "parse_two_lines raw =
     (case fold two_lines_step (filter (\<lambda>l. l \<noteq> []) (map trim (str_lines raw))) (None, None) of
        (Some u, Some t) \<Rightarrow> Some (u, t)
      | _ \<Rightarrow> None)"

datatype invite_error = InviteInvalid | InviteIncomplete

definition parse_join_invite :: "ustr \<Rightarrow> ustr \<Rightarrow> invite_error + (ustr \<times> ustr)" where
  "parse_join_invite token leader_url =
     (let raw = trim token; url_in = trim leader_url in
      case opt_or (parse_code raw) (opt_or (parse_join_url raw) (parse_two_lines raw)) of
        Some pair \<Rightarrow> Inr pair
      | None \<Rightarrow>
          (let tok = trim (unwrap_or (find (\<lambda>s. starts_with s token_prefix) (split_whitespace raw)) raw);
               url = trim_end_char 47 url_in
           in if \<not> starts_with tok token_prefix then Inl InviteInvalid
              else if \<not> http_url url then Inl InviteIncomplete
              else Inr (url, tok)))"

section \<open>Round trip\<close>

definition clean :: "ustr \<Rightarrow> bool" where
  "clean s \<longleftrightarrow> (\<forall>c \<in> set s. \<not> is_ws c)"

lemma compact_clean: "clean s \<Longrightarrow> compact s = s"
  by (simp add: compact_def split_whitespace_def clean_def split_on_no_sep)

lemma trim_clean: "clean s \<Longrightarrow> trim s = s"
  by (cases "s = []") (auto simp: clean_def intro!: trim_by_id)

text \<open>What reading back the code of a leader needs: the token is one that \<open>new_join_token\<close>
  makes, the URL has a host.\<close>

definition token_ok :: "ustr \<Rightarrow> bool" where
  "token_ok t \<longleftrightarrow> starts_with t token_prefix \<and> clean t \<and> 64 \<notin> set t"

lemma code_split:
  assumes "token_ok tok" and "clean url" and "http_url (trim_url url)"
  shows "format_join_code url tok = tok @ 64 # trim_end_char 47 url"
    and "clean (format_join_code url tok)"
    and "split_once 64 (format_join_code url tok) = Some (tok, trim_end_char 47 url)"
proof -
  have t: "trim tok = tok" and u: "trim url = url"
    using assms by (simp_all add: token_ok_def trim_clean)
  show f: "format_join_code url tok = tok @ 64 # trim_end_char 47 url"
    by (simp add: format_join_code_def trim_url_def t u)
  obtain s where "url = trim_end_char 47 url @ s" using trim_end_by_suffix by blast
  then have "set (trim_end_char 47 url) \<subseteq> set url" by (metis set_append Un_upper1)
  moreover have "\<not> is_ws 64" by (simp add: is_ws_def)
  ultimately show "clean (format_join_code url tok)"
    using assms(1,2) unfolding f clean_def token_ok_def by auto
  show "split_once 64 (format_join_code url tok) = Some (tok, trim_end_char 47 url)"
    using assms(1) by (simp add: f split_once_Some token_ok_def)
qed

text \<open>Pasting the code a leader printed gives back its URL and its token, whatever is in
  the field for the URL; and the token alone is found in the code.\<close>

lemma join_code_roundtrip:
  assumes "token_ok tok" and "clean url" and "http_url (trim_url url)"
  shows "parse_join_invite (format_join_code url tok) field = Inr (trim_url url, tok)
       \<and> extract_join_token (format_join_code url tok) = Some tok"
proof -
  note c = code_split [OF assms]
  have u: "trim_url url = trim_end_char 47 url" by (simp add: trim_url_def trim_clean assms(2))
  have p: "starts_with tok token_prefix" using assms(1) by (simp add: token_ok_def)
  have "parse_code (format_join_code url tok) = Some (trim_url url, tok)"
    using assms(3) p by (simp add: parse_code_def compact_clean c(2,3) u)
  moreover have "extract_join_token (format_join_code url tok) = Some tok"
    using assms(3) p by (simp add: extract_join_token_def compact_clean c(2,3) u)
  ultimately show ?thesis
    by (simp add: parse_join_invite_def trim_clean [OF c(2)])
qed

theorem join_code_roundtrip_witness:
  "parse_join_invite (format_join_code (lit ''https://web.example/'') (new_join_token (lit ''0af3''))) []
     = Inr (lit ''https://web.example'', lit ''dfjoin_0af3'')"
proof -
  have t: "token_ok (new_join_token (lit ''0af3''))"
    by (simp add: token_ok_def new_join_token_def token_prefix_def clean_def is_ws_def)
  have u: "clean (lit ''https://web.example/'')" by (simp add: clean_def is_ws_def)
  have v: "trim_url (lit ''https://web.example/'') = lit ''https://web.example''"
    by (simp add: trim_url_def trim_by_id is_ws_def) (simp add: trim_end_by_def)
  then have "http_url (trim_url (lit ''https://web.example/''))" by (simp add: http_url_def)
  from join_code_roundtrip [OF t u this] show ?thesis
    by (simp only: v) (simp add: new_join_token_def token_prefix_def)
qed

end
