(* ===== verification/ClusterFacade.thy ===== *)
theory ClusterFacade
  imports ClusterSql JoinCode
begin

text \<open>
  \<open>ClusterFacade\<close> (\<open>crates/cluster/src/facade.rs\<close>) and the dispatch of a command to a node
  (\<open>executor.rs\<close>), over any \<open>ClusterStore\<close>. What the code takes from other crates is in
  \<open>cenv\<close>: the SHA-256 of \<open>hash_secret\<close>, chrono's RFC 3339 parser and printer, the clock (in
  nanoseconds, read once per call) and the machine's names.
\<close>

record cenv =
  e_hash :: "ustr \<Rightarrow> ustr"
  e_parse :: "ustr \<Rightarrow> int option"
  e_show :: "int \<Rightarrow> ustr"
  e_now :: int
  e_os :: ustr
  e_arch :: ustr

definition nanos :: "int \<Rightarrow> int" where "nanos secs = secs * 1000000000"

definition now_text :: "cenv \<Rightarrow> ustr" where "now_text E = e_show E (e_now E)"

section \<open>The leader's own row\<close>

text \<open>The fields of an existing leader's local state that are filled in when empty.\<close>

definition repair_local :: "ustr \<Rightarrow> ustr \<Rightarrow> local_state \<Rightarrow> local_state" where
  "repair_local uuid url l = l\<lparr>
     l_node_id := (if l_node_id l = [] then leader_node_id else l_node_id l),
     l_failover_secret := (if l_failover_secret l = [] then new_node_secret uuid else l_failover_secret l),
     l_pref_id := (if l_pref_id l = [] then leader_node_id else l_pref_id l),
     l_pref_url := (if l_pref_url l = [] \<and> url \<noteq> [] then url else l_pref_url l)\<rparr>"

definition needs_repair :: "ustr \<Rightarrow> local_state \<Rightarrow> bool" where
  "needs_repair url l \<longleftrightarrow> l_node_id l = [] \<or> l_failover_secret l = [] \<or> l_pref_id l = []
     \<or> l_pref_url l = [] \<and> url \<noteq> []"

definition claim_local :: "ustr \<Rightarrow> ustr \<Rightarrow> ustr \<Rightarrow> local_state \<Rightarrow> local_state" where
  "claim_local uuid url name l = l\<lparr>l_role := Leader, l_node_id := leader_node_id,
     l_name := name, l_pref_id := leader_node_id,
     l_leader_url := (if l_leader_url l = [] then url else l_leader_url l),
     l_pref_url := (if l_pref_url l = [] then url else l_pref_url l),
     l_url := (if l_url l = [] then url else l_url l),
     l_failover_secret := (if l_failover_secret l = [] then new_node_secret uuid else l_failover_secret l),
     l_acting := False\<rparr>"

definition ensure_leader :: "cenv \<Rightarrow> 's store_ops \<Rightarrow> ustr \<Rightarrow> ustr \<Rightarrow> ustr \<Rightarrow> ('s, derr, node) rop" where
  "ensure_leader E S uuid name url =
     andthen (get_node S leader_node_id) (\<lambda>found. case found of
       Some existing \<Rightarrow>
         andthen (get_local S) (\<lambda>l.
           if l_role l = Leader \<and> needs_repair url l
           then andthen (set_local S (repair_local uuid url l)) (\<lambda>_. ret existing)
           else ret existing)
     | None \<Rightarrow>
         (let n = leader_node (if trim name = [] then lit ''Leader'' else trim name) url (e_os E) (e_arch E) (now_text E)
          in andthen (upsert_node S n) (\<lambda>_.
             andthen (get_local S) (\<lambda>l.
               if l_role l \<noteq> Worker
               then andthen (set_local S (claim_local uuid url (n_name n) l)) (\<lambda>_. ret n)
               else ret n))))"

section \<open>The nodes as they are seen\<close>

definition is_stale :: "cenv \<Rightarrow> node \<Rightarrow> bool" where
  "is_stale E n =
     (case Option.bind (n_last_seen n) (e_parse E) of
        None \<Rightarrow> True
      | Some t \<Rightarrow> e_now E - t > nanos heartbeat_stale_secs)"

definition seen_status :: "cenv \<Rightarrow> local_state \<Rightarrow> node \<Rightarrow> node_status" where
  "seen_status E l n =
     (let by_clock = (if n_status n = Joining then Joining else if is_stale E n then Offline else Online) in
      if n_id n = leader_node_id \<or> n_role n = Leader
      then (if l_acting l \<and> n_id n = l_pref_id l then Offline
            else if \<not> l_acting l \<and> (l_node_id l = n_id n \<or> n_id n = leader_node_id) then Online
            else by_clock)
      else by_clock)"

definition facade_list_nodes :: "cenv \<Rightarrow> 's store_ops \<Rightarrow> ('s, derr, node list) rop" where
  "facade_list_nodes E S =
     andthen (list_nodes S) (\<lambda>ns.
     andthen (get_local S) (\<lambda>l.
     ret (map (\<lambda>n. n\<lparr>n_status := seen_status E l n\<rparr>) ns)))"

definition facade_summary :: "cenv \<Rightarrow> 's store_ops \<Rightarrow> ('s, derr, summary) rop" where
  "facade_summary E S =
     andthen (get_local S) (\<lambda>l.
     andthen (facade_list_nodes E S) (\<lambda>ns.
     ret \<lparr>s_role = l_role l, s_nodes = length ns, s_online = length (filter (\<lambda>n. n_status n = Online) ns)\<rparr>))"

section \<open>Invitations and joining\<close>

definition create_invite :: "cenv \<Rightarrow> 's store_ops \<Rightarrow> ustr \<Rightarrow> ustr \<Rightarrow> ustr \<Rightarrow> ustr \<Rightarrow> int \<Rightarrow> ('s, derr, invite) rop" where
  "create_invite E S uuid uuid2 created_by leader_url ttl_hours =
     (let url = trim leader_url in
      if url = [] then fail LeaderUrlRequired
      else
        (let token = new_join_token uuid;
             row = \<lparr>t_id = lit ''inv_'' @ take 10 uuid2, t_hash = e_hash E token,
                    t_expires = e_show E (e_now E + nanos (max ttl_hours 1 * 3600)), t_revoked = None,
                    t_by = created_by, t_created = now_text E\<rparr>
         in andthen (insert_token S row) (\<lambda>_.
            ret \<lparr>i_id = t_id row, i_token = token, i_leader_url = trim_end_char 47 url, i_expires = t_expires row\<rparr>)))"

definition reusable :: "join_request \<Rightarrow> ustr \<Rightarrow> ustr \<Rightarrow> node \<Rightarrow> bool" where
  "reusable req name url n \<longleftrightarrow> n_role n = Worker \<and> (n_status n = Joining \<or> n_status n = Offline)
     \<and> (n_name n = name \<or> url \<noteq> [] \<and> n_url n = url
        \<or> is_some_and (j_ssh_host req) (\<lambda>h. n_ssh_host n = Some h))"

definition joined_node :: "cenv \<Rightarrow> join_request \<Rightarrow> ustr \<Rightarrow> ustr \<Rightarrow> node option \<Rightarrow> ustr \<Rightarrow> node" where
  "joined_node E req name url reuse uuid = \<lparr>
     n_id = unwrap_or (map_option n_id reuse) (new_node_id uuid),
     n_name = name, n_role = Worker, n_url = url, n_status = Online, n_os = j_os req, n_arch = j_arch req,
     n_caps = (if j_caps req = [] then [lit ''docker''] else j_caps req),
     n_ssh_host = opt_or (opt_filter (\<lambda>s. trim s \<noteq> []) (j_ssh_host req)) (Option.bind reuse n_ssh_host),
     n_ssh_user = opt_or (opt_filter (\<lambda>s. trim s \<noteq> []) (j_ssh_user req)) (Option.bind reuse n_ssh_user),
     n_ssh_port = opt_or (opt_filter (\<lambda>p. p > 0) (j_ssh_port req)) (Option.bind reuse n_ssh_port),
     n_last_seen = Some (now_text E), n_last_error = None,
     n_drained = unwrap_or (map_option n_drained reuse) False,
     n_ingress = unwrap_or (map_option n_ingress reuse) [],
     n_metrics = unwrap_or (map_option n_metrics reuse) default_metrics,
     n_created = unwrap_or (map_option n_created reuse) (now_text E),
     n_updated = now_text E\<rparr>"

definition expired :: "cenv \<Rightarrow> ustr \<Rightarrow> bool" where
  "expired E t = (case e_parse E t of None \<Rightarrow> True | Some x \<Rightarrow> x < e_now E)"

definition check_invite :: "cenv \<Rightarrow> 's store_ops \<Rightarrow> ustr \<Rightarrow> ('s, derr, unit) rop" where
  "check_invite E S raw =
     (case extract_join_token raw of
        None \<Rightarrow> fail InvalidInvite
      | Some token \<Rightarrow>
          andthen (get_token_by_hash S (e_hash E token)) (\<lambda>found.
            case found of
              None \<Rightarrow> fail InvalidInvite
            | Some row \<Rightarrow>
                if t_revoked row \<noteq> None then fail RevokedInvite
                else if expired E (t_expires row) then fail ExpiredInvite
                else ret ()))"

definition join_cluster ::
  "cenv \<Rightarrow> 's store_ops \<Rightarrow> ustr \<Rightarrow> ustr \<Rightarrow> join_request \<Rightarrow> ustr \<Rightarrow> ('s, derr, join_response) rop" where
  "join_cluster E S uuid uuid2 req leader_url =
     andthen (check_invite E S (j_token req)) (\<lambda>_.
       (let name = trim (j_name req) in
        if name = [] then fail NameRequired
        else
          andthen (lift_res UrlErr (validate_worker_advertise_url (j_url req))) (\<lambda>url.
          andthen (list_nodes S) (\<lambda>existing.
            (let n = joined_node E req name url (find (reusable req name url) existing) uuid;
                 secret = new_node_secret uuid2
             in andthen (upsert_node S n) (\<lambda>_.
                andthen (set_node_secret S (n_id n) secret (e_hash E secret)) (\<lambda>_.
                ret \<lparr>jr_node = n, jr_secret = secret, jr_leader_url = trim_url leader_url\<rparr>)))))))"

section \<open>Heartbeats\<close>

definition verify_node_secret :: "cenv \<Rightarrow> ustr \<Rightarrow> ustr \<Rightarrow> bool" where
  "verify_node_secret E provided stored \<longleftrightarrow> e_hash E provided = e_hash E stored \<or> provided = stored"

definition authenticate :: "cenv \<Rightarrow> 's store_ops \<Rightarrow> ustr \<Rightarrow> ustr \<Rightarrow> ('s, derr, node) rop" where
  "authenticate E S secret i =
     andthen (get_node S i) (\<lambda>found. case found of
       None \<Rightarrow> fail (NodeNotFound i)
     | Some n \<Rightarrow>
         andthen (get_node_secret S (n_id n)) (\<lambda>stored. case stored of
           None \<Rightarrow> fail SecretMissing
         | Some x \<Rightarrow> if verify_node_secret E secret x then ret n else fail SecretInvalid))"

text \<open>\<open>Some\<close> of a non-empty value replaces, anything else keeps.\<close>

definition if_given :: "'a list option \<Rightarrow> 'a list \<Rightarrow> 'a list" where
  "if_given x old = (case x of None \<Rightarrow> old | Some v \<Rightarrow> if v = [] then old else v)"

definition announced_url :: "node \<Rightarrow> ustr option \<Rightarrow> url_error + ustr" where
  "announced_url n u =
     (case u of
        None \<Rightarrow> Inr (n_url n)
      | Some url \<Rightarrow>
          if trim url = [] then Inr (n_url n)
          else if n_role n = Worker then validate_worker_advertise_url url
          else Inr (trim_url url))"

definition heartbeat_node :: "cenv \<Rightarrow> 's store_ops \<Rightarrow> ustr \<Rightarrow> heartbeat \<Rightarrow> ('s, derr, node) rop" where
  "heartbeat_node E S secret p =
     andthen (authenticate E S secret (h_node_id p)) (\<lambda>n.
     andthen (lift_res UrlErr (announced_url n (h_url p))) (\<lambda>url.
       (let n' = n\<lparr>n_status := Online, n_last_seen := Some (now_text E), n_updated := now_text E,
                   n_last_error := None, n_url := url, n_os := if_given (h_os p) (n_os n),
                   n_arch := if_given (h_arch p) (n_arch n), n_caps := if_given (h_caps p) (n_caps n),
                   n_metrics := unwrap_or (h_metrics p) (n_metrics n)\<rparr>
        in andthen (upsert_node S n') (\<lambda>_. ret n'))))"

definition heartbeat_ack :: "cenv \<Rightarrow> 's store_ops \<Rightarrow> ustr \<Rightarrow> heartbeat \<Rightarrow> ('s, derr, ack) rop" where
  "heartbeat_ack E S secret p =
     andthen (heartbeat_node E S secret p) (\<lambda>_.
     andthen (get_local S) (\<lambda>l.
     andthen (facade_list_nodes E S) (\<lambda>ns.
     ret \<lparr>a_generation = l_generation l,
          a_pref_id = (if trim (l_pref_id l) = [] then leader_node_id else l_pref_id l),
          a_pref_url = (if trim (l_pref_url l) = [] then l_leader_url l else l_pref_url l),
          a_failover_secret = l_failover_secret l, a_acting = l_acting l, a_acting_id = l_node_id l,
          a_term = l_term l,
          a_roster = map (\<lambda>n. \<lparr>r_id = n_id n, r_name = n_name n, r_role = n_role n, r_url = n_url n,
                                r_drained = n_drained n\<rparr>) ns\<rparr>)))"

section \<open>Changing and removing a node\<close>

definition patch_name :: "'s store_ops \<Rightarrow> ustr option \<Rightarrow> node \<Rightarrow> ('s, derr, node) rop" where
  "patch_name S name n =
     (case name of
        None \<Rightarrow> ret n
      | Some x \<Rightarrow>
          if trim x = [] then fail NameRequired
          else (let n' = n\<lparr>n_name := trim x\<rparr> in
                if n_role n = Leader
                then andthen (get_local S) (\<lambda>l. andthen (set_local S (l\<lparr>l_name := n_name n'\<rparr>)) (\<lambda>_. ret n'))
                else ret n'))"

definition patch_drain :: "bool option \<Rightarrow> node \<Rightarrow> ('s, derr, node) rop" where
  "patch_drain drained n =
     (case drained of
        None \<Rightarrow> ret n
      | Some d \<Rightarrow> if n_role n = Leader \<and> d then fail LeaderNotDrainable else ret (n\<lparr>n_drained := d\<rparr>))"

definition patch_url :: "'s store_ops \<Rightarrow> ustr option \<Rightarrow> node \<Rightarrow> ('s, derr, node) rop" where
  "patch_url S url n =
     (case url of
        None \<Rightarrow> ret n
      | Some u \<Rightarrow>
          andthen (lift_res UrlErr (if n_role n = Worker then validate_worker_advertise_url u else normalize_http_url u)) (\<lambda>v.
            if n_role n = Leader
            then andthen (get_local S) (\<lambda>l.
                 andthen (set_local S (l\<lparr>l_leader_url := v, l_url := v\<rparr>)) (\<lambda>_. ret (n\<lparr>n_url := v\<rparr>)))
            else ret (n\<lparr>n_url := v\<rparr>)))"

definition patch_ingress :: "ustr option \<Rightarrow> node \<Rightarrow> node" where
  "patch_ingress host n = (case host of None \<Rightarrow> n | Some h \<Rightarrow> n\<lparr>n_ingress := trim_end_char 46 (trim h)\<rparr>)"

definition patch_node ::
  "cenv \<Rightarrow> 's store_ops \<Rightarrow> ustr \<Rightarrow> ustr option \<Rightarrow> bool option \<Rightarrow> ustr option \<Rightarrow> ustr option \<Rightarrow> ('s, derr, node) rop" where
  "patch_node E S i name drained url ingress =
     andthen (get_node S i) (\<lambda>found. case found of
       None \<Rightarrow> fail (NodeNotFound i)
     | Some n0 \<Rightarrow>
         andthen (patch_name S name n0) (\<lambda>n1.
         andthen (patch_drain drained n1) (\<lambda>n2.
         andthen (patch_url S url n2) (\<lambda>n3.
           (let n4 = (patch_ingress ingress n3)\<lparr>n_updated := now_text E\<rparr>
            in andthen (upsert_node S n4) (\<lambda>_. ret n4))))))"

definition patch_local :: "cenv \<Rightarrow> 's store_ops \<Rightarrow> ustr option \<Rightarrow> ustr option \<Rightarrow> ('s, derr, local_state) rop" where
  "patch_local E S leader_url url =
     andthen (get_local S) (\<lambda>l0.
     andthen (case leader_url of
         None \<Rightarrow> ret l0
       | Some u \<Rightarrow>
           andthen (lift_res UrlErr (normalize_http_url u)) (\<lambda>v.
             if l_role l0 = Leader
             then andthen (get_node S leader_node_id) (\<lambda>found.
                  andthen (case found of
                      None \<Rightarrow> ret ()
                    | Some n \<Rightarrow> upsert_node S (n\<lparr>n_url := v, n_updated := now_text E\<rparr>)) (\<lambda>_.
                  ret (l0\<lparr>l_leader_url := v, l_url := v\<rparr>)))
             else ret (l0\<lparr>l_leader_url := v\<rparr>))) (\<lambda>l1.
     andthen (case url of
         None \<Rightarrow> ret l1
       | Some u \<Rightarrow> andthen (lift_res UrlErr (normalize_http_url u)) (\<lambda>v. ret (l1\<lparr>l_url := v\<rparr>))) (\<lambda>l2.
     andthen (set_local S l2) (\<lambda>_. ret l2))))"

definition remove_node :: "'s store_ops \<Rightarrow> ustr \<Rightarrow> ('s, derr, bool) rop" where
  "remove_node S i =
     (if i = leader_node_id then fail LeaderNotRemovable
      else andthen (delete_node_secret S i) (\<lambda>_. delete_node S i))"

section \<open>Where a command runs\<close>

definition is_local :: "ustr \<Rightarrow> node option \<Rightarrow> bool" where
  "is_local server_id n \<longleftrightarrow>
     trim server_id = [] \<or> trim server_id = leader_node_id \<or> trim server_id = lit ''*''
     \<or> is_some_and n (\<lambda>x. n_role x = Leader)"

text \<open>The executor's choice: the inner executor, or an HTTP call with an end point and a bearer
  secret. A failed read of the local state counts as none.\<close>

datatype route = Inner | Remote ustr ustr

definition route_exec :: "'s store_ops \<Rightarrow> ustr \<Rightarrow> ('s, derr, route) rop" where
  "route_exec S server_id s =
     (let (s1, l) = get_local S s;
          self = (case l of Inl _ \<Rightarrow> False | Inr x \<Rightarrow> l_node_id x = trim server_id \<and> l_node_id x \<noteq> []) in
      if self then (s1, Inr Inner)
      else
        andthen (get_node S server_id) (\<lambda>found.
          if is_local server_id found then ret Inner
          else (case found of
              None \<Rightarrow> fail (UnknownNode server_id)
            | Some n \<Rightarrow>
                if n_drained n then fail (NodeDrained (n_name n))
                else if n_status n = Offline then fail (NodeOffline (n_name n))
                else if trim_url (n_url n) = [] then fail (NodeWithoutUrl (n_name n))
                else andthen (get_node_secret S (n_id n)) (\<lambda>x. case x of
                    None \<Rightarrow> fail SecretMissing
                  | Some secret \<Rightarrow> ret (Remote (trim_url (n_url n) @ lit ''/internal/exec'') secret)))) s1)"

section \<open>What the callers of a store get\<close>

text \<open>An invitation that may be used: issued, not revoked, not expired.\<close>

definition valid_invite :: "cenv \<Rightarrow> astore \<Rightarrow> ustr \<Rightarrow> bool" where
  "valid_invite E a raw \<longleftrightarrow> (\<exists>token row. extract_join_token raw = Some token
     \<and> as_tokens a (t_id row) = Some row \<and> t_hash row = e_hash E token
     \<and> t_revoked row = None \<and> \<not> expired E (t_expires row))"

text \<open>What a successful join does, provided the random id is not taken: it registers a worker
  under that id or takes over one that was joining or offline, and gives it a secret.\<close>

definition join_effect :: "ustr \<Rightarrow> ustr \<Rightarrow> join_request \<Rightarrow> astore \<Rightarrow> node \<Rightarrow> ustr \<Rightarrow> astore \<Rightarrow> bool" where
  "join_effect uuid uuid2 req a n secret a' \<longleftrightarrow>
     n_role n = Worker \<and> n_status n = Online \<and> n_name n = trim (j_name req) \<and> n_name n \<noteq> []
   \<and> validate_worker_advertise_url (j_url req) = Inr (n_url n) \<and> secret = new_node_secret uuid2
   \<and> (case as_nodes a (n_id n) of
        None \<Rightarrow> n_id n = new_node_id uuid
      | Some old \<Rightarrow> n_role old = Worker \<and> n_status old \<noteq> Online \<and> n_drained n = n_drained old)
   \<and> a' = a\<lparr>as_nodes := (as_nodes a)(n_id n \<mapsto> n), as_secrets := (as_secrets a)(n_id n \<mapsto> secret)\<rparr>"

lemma listed_find:
  assumes "listed ns m" and "find p ns = Some n"
  shows "m (n_id n) = Some n \<and> p n"
proof -
  from assms(2) have "n \<in> set ns" "p n" by (auto simp: find_Some_iff)
  then have "(n_id n, n) \<in> set (map (\<lambda>n. (n_id n, n)) ns)" by auto
  moreover have "distinct (map fst (map (\<lambda>n. (n_id n, n)) ns))"
    using assms(1) by (simp add: listed_def o_def)
  ultimately have "map_of (map (\<lambda>n. (n_id n, n)) ns) (n_id n) = Some n" by (rule map_of_is_SomeI [rotated])
  then show ?thesis using assms(1) \<open>p n\<close> unfolding listed_def by metis
qed

lemma joined_fields [simp]:
  "n_role (joined_node E req name url reuse uuid) = Worker"
  "n_status (joined_node E req name url reuse uuid) = Online"
  "n_name (joined_node E req name url reuse uuid) = name"
  "n_url (joined_node E req name url reuse uuid) = url"
  "n_id (joined_node E req name url None uuid) = new_node_id uuid"
  "n_id (joined_node E req name url (Some old) uuid) = n_id old"
  "n_drained (joined_node E req name url (Some old) uuid) = n_drained old"
  "n_created (joined_node E req name url (Some old) uuid) = n_created old"
  by (simp_all add: joined_node_def)

lemma joined_node_effect:
  assumes "listed ns (as_nodes a)" and "as_nodes a (new_node_id uuid) = None"
    and "n = joined_node E req name url (find (reusable req name url) ns) uuid"
  shows "keeps_created (as_nodes a) n"
    and "case as_nodes a (n_id n) of
        None \<Rightarrow> n_id n = new_node_id uuid
      | Some old \<Rightarrow> n_role old = Worker \<and> n_status old \<noteq> Online \<and> n_drained n = n_drained old"
proof -
  have "keeps_created (as_nodes a) n \<and> (case as_nodes a (n_id n) of
        None \<Rightarrow> n_id n = new_node_id uuid
      | Some old \<Rightarrow> n_role old = Worker \<and> n_status old \<noteq> Online \<and> n_drained n = n_drained old)"
  proof (cases "find (reusable req name url) ns")
    case None
    then show ?thesis using assms(2,3) by (simp add: keeps_created_def)
  next
    case (Some old)
    then show ?thesis
      using listed_find [OF assms(1) Some] assms(3) by (auto simp: keeps_created_def reusable_def)
  qed
  then show "keeps_created (as_nodes a) n" and "case as_nodes a (n_id n) of
        None \<Rightarrow> n_id n = new_node_id uuid
      | Some old \<Rightarrow> n_role old = Worker \<and> n_status old \<noteq> Online \<and> n_drained n = n_drained old" by simp_all
qed

context cluster_store
begin

lemmas sat_ops =
  get_local_ok [unfolded op_ok_sat] list_nodes_ok [unfolded op_ok_sat] get_node_ok [unfolded op_ok_sat]
  get_token_by_hash_ok [unfolded op_ok_sat] get_node_secret_ok [unfolded op_ok_sat]
  upsert_node_ok [unfolded op_ok_sat] set_node_secret_ok [unfolded op_ok_sat]
  delete_node_ok [unfolded op_ok_sat] delete_node_secret_ok [unfolded op_ok_sat]
  insert_token_ok [unfolded op_ok_sat] revoke_token_ok [unfolded op_ok_sat]

lemmas sat_basic = sat_ret sat_fail sat_lift

lemma check_invite_ok:
  "op_ok sinv sabs (check_invite E S raw) (\<lambda>a _ a'. a' = a \<and> valid_invite E a raw)"
  unfolding op_ok_sat
proof (cases "extract_join_token raw")
  case None
  then show "op_sat sinv sabs (check_invite E S raw) (\<lambda>a _ a'. a' = a \<and> valid_invite E a raw) (\<lambda>a e a'. a' = a)"
    by (simp add: check_invite_def) (rule sat_weaken [OF sat_fail], auto)
next
  case (Some token)
  let ?check = "\<lambda>found. case found of
              None \<Rightarrow> fail InvalidInvite
            | Some row \<Rightarrow>
                if t_revoked row \<noteq> None then fail RevokedInvite
                else if expired E (t_expires row) then fail ExpiredInvite
                else ret ()"
  have "op_sat sinv sabs (?check found)
      (\<lambda>a _ a'. a' = a \<and> (\<exists>row. found = Some row \<and> t_revoked row = None \<and> \<not> expired E (t_expires row)))
      (\<lambda>a e a'. a' = a)" for found
    by (auto intro!: op_satI split: option.splits if_splits)
  from sat_andthen [OF get_token_by_hash_ok [unfolded op_ok_sat] this]
  show "op_sat sinv sabs (check_invite E S raw) (\<lambda>a _ a'. a' = a \<and> valid_invite E a raw) (\<lambda>a e a'. a' = a)"
    unfolding check_invite_def Some option.case
    by (rule sat_weaken) (auto simp: valid_invite_def Some)
qed

lemma authenticate_ok:
  "op_ok sinv sabs (authenticate E S secret i)
     (\<lambda>a n a'. a' = a \<and> as_nodes a i = Some n
        \<and> (\<exists>x. as_secrets a (n_id n) = Some x \<and> verify_node_secret E secret x))"
  unfolding op_ok_sat
proof -
  have 1: "op_sat sinv sabs (case stored of
           None \<Rightarrow> fail SecretMissing
         | Some x \<Rightarrow> if verify_node_secret E secret x then ret n else fail SecretInvalid)
      (\<lambda>a y a'. a' = a \<and> y = n \<and> (\<exists>x. stored = Some x \<and> verify_node_secret E secret x)) (\<lambda>a e a'. a' = a)" for stored n
    by (auto intro!: op_satI split: option.splits if_splits)
  have 2: "op_sat sinv sabs (case found of
       None \<Rightarrow> fail (NodeNotFound i)
     | Some n \<Rightarrow>
         andthen (get_node_secret S (n_id n)) (\<lambda>stored. case stored of
           None \<Rightarrow> fail SecretMissing
         | Some x \<Rightarrow> if verify_node_secret E secret x then ret n else fail SecretInvalid))
      (\<lambda>a y a'. a' = a \<and> found = Some y \<and> (\<exists>x. as_secrets a (n_id y) = Some x \<and> verify_node_secret E secret x))
      (\<lambda>a e a'. a' = a)" for found
  proof (cases found)
    case None
    then show ?thesis by (auto intro!: op_satI)
  next
    case (Some n)
    show ?thesis
      unfolding Some option.case
      by (rule sat_weaken [OF sat_andthen [OF get_node_secret_ok [unfolded op_ok_sat] 1]]) auto
  qed
  show "op_sat sinv sabs (authenticate E S secret i)
     (\<lambda>a n a'. a' = a \<and> as_nodes a i = Some n
        \<and> (\<exists>x. as_secrets a (n_id n) = Some x \<and> verify_node_secret E secret x)) (\<lambda>a e a'. a' = a)"
    unfolding authenticate_def
    by (rule sat_weaken [OF sat_andthen [OF get_node_ok [unfolded op_ok_sat] 2]]) auto
qed

lemma join_ok:
  "op_sat sinv sabs (join_cluster E S uuid uuid2 req leader_url)
     (\<lambda>a r a'. valid_invite E a (j_token req)
        \<and> (as_nodes a (new_node_id uuid) = None \<longrightarrow> join_effect uuid uuid2 req a (jr_node r) (jr_secret r) a'))
     (\<lambda>a e a'. valid_invite E a (j_token req) \<or> a' = a)"
proof -
  let ?name = "trim (j_name req)" and ?secret = "new_node_secret uuid2"
  let ?n = "\<lambda>url existing. joined_node E req ?name url (find (reusable req ?name url) existing) uuid"
  let ?put = "\<lambda>n. andthen (upsert_node S n) (\<lambda>_.
                andthen (set_node_secret S (n_id n) ?secret (e_hash E ?secret)) (\<lambda>_.
                ret \<lparr>jr_node = n, jr_secret = ?secret, jr_leader_url = trim_url leader_url\<rparr>))"
  have wr: "op_sat sinv sabs (?put n)
      (\<lambda>a r a'. jr_node r = n \<and> jr_secret r = ?secret \<and> (keeps_created (as_nodes a) n \<longrightarrow>
          a' = a\<lparr>as_nodes := (as_nodes a)(n_id n \<mapsto> n), as_secrets := (as_secrets a)(n_id n \<mapsto> ?secret)\<rparr>))
      (\<lambda>a e a'. True)" for n
    by (rule sat_weaken [OF sat_andthen [OF upsert_node_ok [unfolded op_ok_sat]
          sat_andthen [OF set_node_secret_ok [unfolded op_ok_sat] sat_ret]]]) auto
  have url: "op_sat sinv sabs (andthen (list_nodes S) (\<lambda>existing. ?put (?n url existing)))
      (\<lambda>a r a'. as_nodes a (new_node_id uuid) = None \<longrightarrow>
         (validate_worker_advertise_url (j_url req) = Inr url \<longrightarrow> ?name \<noteq> [] \<longrightarrow>
          join_effect uuid uuid2 req a (jr_node r) (jr_secret r) a'))
      (\<lambda>a e a'. True)" for url
  proof (rule sat_weaken [OF sat_andthen [OF list_nodes_ok [unfolded op_ok_sat] wr]])
    fix a :: astore and r a'
    assume "\<exists>x a1. (a1 = a \<and> listed x (as_nodes a)) \<and> jr_node r = ?n url x \<and> jr_secret r = ?secret
        \<and> (keeps_created (as_nodes a1) (?n url x) \<longrightarrow>
          a' = a1\<lparr>as_nodes := (as_nodes a1)(n_id (?n url x) \<mapsto> ?n url x),
                  as_secrets := (as_secrets a1)(n_id (?n url x) \<mapsto> ?secret)\<rparr>)"
    then obtain ns where l: "listed ns (as_nodes a)" and r: "jr_node r = ?n url ns" "jr_secret r = ?secret"
      and a': "keeps_created (as_nodes a) (?n url ns) \<longrightarrow>
          a' = a\<lparr>as_nodes := (as_nodes a)(n_id (?n url ns) \<mapsto> ?n url ns),
                  as_secrets := (as_secrets a)(n_id (?n url ns) \<mapsto> ?secret)\<rparr>" by blast
    show "as_nodes a (new_node_id uuid) = None \<longrightarrow>
         (validate_worker_advertise_url (j_url req) = Inr url \<longrightarrow> ?name \<noteq> [] \<longrightarrow>
          join_effect uuid uuid2 req a (jr_node r) (jr_secret r) a')"
      using joined_node_effect [OF l, of uuid "?n url ns" E req ?name url] a'
      unfolding join_effect_def r by auto
  qed auto
  have body: "op_sat sinv sabs (let name = ?name in if name = [] then fail NameRequired
        else andthen (lift_res UrlErr (validate_worker_advertise_url (j_url req))) (\<lambda>url.
          andthen (list_nodes S) (\<lambda>existing. let n = joined_node E req name url (find (reusable req name url) existing) uuid;
                 secret = new_node_secret uuid2 in andthen (upsert_node S n) (\<lambda>_.
                andthen (set_node_secret S (n_id n) secret (e_hash E secret)) (\<lambda>_.
                ret \<lparr>jr_node = n, jr_secret = secret, jr_leader_url = trim_url leader_url\<rparr>)))))
      (\<lambda>a r a'. as_nodes a (new_node_id uuid) = None \<longrightarrow> join_effect uuid uuid2 req a (jr_node r) (jr_secret r) a')
      (\<lambda>a e a'. True)"
    unfolding Let_def
  proof (rule sat_if)
    show "op_sat sinv sabs (fail NameRequired)
      (\<lambda>a r a'. as_nodes a (new_node_id uuid) = None \<longrightarrow> join_effect uuid uuid2 req a (jr_node r) (jr_secret r) a')
      (\<lambda>a e a'. True)"
      by (rule sat_weaken [OF sat_fail]) auto
    assume "?name \<noteq> []"
    then show "op_sat sinv sabs (andthen (lift_res UrlErr (validate_worker_advertise_url (j_url req))) (\<lambda>url.
          andthen (list_nodes S) (\<lambda>existing. ?put (?n url existing))))
      (\<lambda>a r a'. as_nodes a (new_node_id uuid) = None \<longrightarrow> join_effect uuid uuid2 req a (jr_node r) (jr_secret r) a')
      (\<lambda>a e a'. True)"
      by (intro sat_weaken [OF sat_andthen [OF sat_lift url]]) auto
  qed
  show ?thesis
    unfolding join_cluster_def
    by (rule sat_weaken [OF sat_andthen [OF check_invite_ok [unfolded op_ok_sat] body]]) auto
qed

lemma heartbeat_ok:
  "op_ok sinv sabs (heartbeat_node E S secret p)
     (\<lambda>a n a'. \<exists>old x. as_nodes a (h_node_id p) = Some old \<and> as_secrets a (n_id old) = Some x
        \<and> verify_node_secret E secret x
        \<and> n_id n = n_id old \<and> n_role n = n_role old \<and> n_status n = Online \<and> n_drained n = n_drained old
        \<and> n_name n = n_name old \<and> n_last_seen n = Some (now_text E)
        \<and> (as_nodes a (n_id old) = Some old \<longrightarrow> a' = a\<lparr>as_nodes := (as_nodes a)(n_id old \<mapsto> n)\<rparr>))"
proof -
  have "op_sat sinv sabs (andthen (lift_res UrlErr (announced_url n (h_url p))) (\<lambda>url.
       (let n' = n\<lparr>n_status := Online, n_last_seen := Some (now_text E), n_updated := now_text E,
                   n_last_error := None, n_url := url, n_os := if_given (h_os p) (n_os n),
                   n_arch := if_given (h_arch p) (n_arch n), n_caps := if_given (h_caps p) (n_caps n),
                   n_metrics := unwrap_or (h_metrics p) (n_metrics n)\<rparr>
        in andthen (upsert_node S n') (\<lambda>_. ret n'))))
      (\<lambda>a n' a'. n_id n' = n_id n \<and> n_role n' = n_role n \<and> n_status n' = Online \<and> n_drained n' = n_drained n
        \<and> n_name n' = n_name n \<and> n_last_seen n' = Some (now_text E)
        \<and> (as_nodes a (n_id n) = Some n \<longrightarrow> a' = a\<lparr>as_nodes := (as_nodes a)(n_id n \<mapsto> n')\<rparr>))
      (\<lambda>a e a'. a' = a)" for n
    unfolding Let_def
    by (rule sat_weaken [OF sat_andthen [OF sat_lift sat_andthen [OF upsert_node_ok [unfolded op_ok_sat] sat_ret]]])
      (auto simp: keeps_created_def)
  from sat_andthen [OF authenticate_ok [unfolded op_ok_sat] this]
  show ?thesis
    unfolding heartbeat_node_def op_ok_sat by (rule sat_weaken) blast+
qed

lemma remove_ok:
  "op_sat sinv sabs (remove_node S i)
     (\<lambda>a b a'. i \<noteq> leader_node_id \<and> b = (as_nodes a i \<noteq> None)
        \<and> a' = a\<lparr>as_nodes := (as_nodes a)(i := None), as_secrets := (as_secrets a)(i := None)\<rparr>)
     (\<lambda>a e a'. a' = a \<or> i \<noteq> leader_node_id \<and> a' = a\<lparr>as_secrets := (as_secrets a)(i := None)\<rparr>)"
  unfolding remove_node_def
proof (rule sat_if)
  assume "i \<noteq> leader_node_id"
  then show "op_sat sinv sabs (andthen (delete_node_secret S i) (\<lambda>_. delete_node S i))
     (\<lambda>a b a'. i \<noteq> leader_node_id \<and> b = (as_nodes a i \<noteq> None)
        \<and> a' = a\<lparr>as_nodes := (as_nodes a)(i := None), as_secrets := (as_secrets a)(i := None)\<rparr>)
     (\<lambda>a e a'. a' = a \<or> i \<noteq> leader_node_id \<and> a' = a\<lparr>as_secrets := (as_secrets a)(i := None)\<rparr>)"
    by (intro sat_weaken [OF sat_andthen [OF delete_node_secret_ok [unfolded op_ok_sat] delete_node_ok [unfolded op_ok_sat]]]) auto
next
  show "op_sat sinv sabs (fail LeaderNotRemovable)
     (\<lambda>a b a'. i \<noteq> leader_node_id \<and> b = (as_nodes a i \<noteq> None)
        \<and> a' = a\<lparr>as_nodes := (as_nodes a)(i := None), as_secrets := (as_secrets a)(i := None)\<rparr>)
     (\<lambda>a e a'. a' = a \<or> i \<noteq> leader_node_id \<and> a' = a\<lparr>as_secrets := (as_secrets a)(i := None)\<rparr>)"
    by (rule sat_weaken [OF sat_fail]) auto
qed

end

end
