(* ===== verification/ClusterProps.thy ===== *)
theory ClusterProps
  imports ClusterFacade
begin

text \<open>
  The properties of the cluster's membership: proved once in the locale \<open>cluster_store\<close>, they
  hold of the production store (\<open>sql_store\<close>, with any schedule of failing queries) and of the
  one in memory by interpretation.
\<close>

section \<open>No stored node is offline\<close>

definition tidy :: "astore \<Rightarrow> bool" where
  "tidy a \<longleftrightarrow> local_ok (as_local a) \<and> (\<forall>i n. as_nodes a i = Some n \<longrightarrow> n_status n \<noteq> Offline)"

text \<open>The operation keeps the invariant of the store and the absence of offline rows, whether it
  succeeds or fails, and its result satisfies \<open>Q\<close>.\<close>

definition keeps_online ::
  "('s \<Rightarrow> bool) \<Rightarrow> ('s \<Rightarrow> astore) \<Rightarrow> ('s, derr, 'a) rop \<Rightarrow> ('a \<Rightarrow> bool) \<Rightarrow> bool" where
  "keeps_online sinv sabs m Q \<longleftrightarrow>
     op_sat (\<lambda>s. sinv s \<and> tidy (sabs s)) sabs m (\<lambda>a x a'. Q x) (\<lambda>a e a'. True)"

lemma online_andthen:
  assumes "keeps_online sinv sabs m Q" and "\<And>x. Q x \<Longrightarrow> keeps_online sinv sabs (f x) R"
  shows "keeps_online sinv sabs (andthen m f) R"
  unfolding keeps_online_def
proof (rule op_satI)
  fix s s2 y
  assume i: "sinv s \<and> tidy (sabs s)" and "andthen m f s = (s2, Inr y)"
  then obtain s1 x where m: "m s = (s1, Inr x)" and f: "f x s1 = (s2, Inr y)" by auto
  note 1 = op_sat_Inr [OF assms(1) [unfolded keeps_online_def] m i]
  then show "(sinv s2 \<and> tidy (sabs s2)) \<and> R y"
    using op_sat_Inr [OF assms(2) [unfolded keeps_online_def] f] by blast
next
  fix s s2 e
  assume i: "sinv s \<and> tidy (sabs s)" and "andthen m f s = (s2, Inl e)"
  then consider "m s = (s2, Inl e)" | s1 x where "m s = (s1, Inr x)" "f x s1 = (s2, Inl e)" by auto
  then show "(sinv s2 \<and> tidy (sabs s2)) \<and> True"
  proof cases
    case 1
    then show ?thesis using op_sat_Inl [OF assms(1) [unfolded keeps_online_def] 1 i] by blast
  next
    case 2
    note 1 = op_sat_Inr [OF assms(1) [unfolded keeps_online_def] 2(1) i]
    then show ?thesis using op_sat_Inl [OF assms(2) [unfolded keeps_online_def] 2(2)] by blast
  qed
qed

lemma online_ret: "Q x \<Longrightarrow> keeps_online sinv sabs (ret x) Q"
  unfolding keeps_online_def by (rule op_satI) auto

lemma online_fail: "keeps_online sinv sabs (fail e) Q"
  unfolding keeps_online_def by (rule op_satI) auto

lemma online_lift: "keeps_online sinv sabs (lift_res h r) (\<lambda>x. True)"
  unfolding keeps_online_def by (rule op_satI) auto

lemma online_of_ok:
  assumes "op_ok sinv sabs m P" and "\<And>a x a'. P a x a' \<Longrightarrow> tidy a \<Longrightarrow> tidy a' \<and> Q x"
  shows "keeps_online sinv sabs m Q"
  unfolding keeps_online_def
  using op_okD [OF assms(1)] assms(2) by (intro op_satI) metis+

lemma online_weaken: "keeps_online sinv sabs m Q \<Longrightarrow> (\<And>x. Q x \<Longrightarrow> R x) \<Longrightarrow> keeps_online sinv sabs m R"
  unfolding keeps_online_def by (erule sat_weaken) auto

abbreviation not_off :: "node \<Rightarrow> bool" where "not_off n \<equiv> n_status n \<noteq> Offline"

context cluster_store
begin

abbreviation online :: "('s, derr, 'a) rop \<Rightarrow> ('a \<Rightarrow> bool) \<Rightarrow> bool" where
  "online \<equiv> keeps_online sinv sabs"

lemma online_get_local: "online (get_local S) local_ok"
  by (rule online_of_ok [OF get_local_ok]) (simp add: tidy_def)

lemma online_set_local: "local_ok l \<Longrightarrow> online (set_local S l) (\<lambda>_. True)"
  by (rule online_of_ok [OF set_local_ok]) (simp_all add: tidy_def)

lemma online_get_node: "online (get_node S i) (\<lambda>n. \<forall>x. n = Some x \<longrightarrow> not_off x)"
  by (rule online_of_ok [OF get_node_ok]) (auto simp: tidy_def dest: sym)

lemma online_list_nodes: "online (list_nodes S) (\<lambda>ns. \<forall>x \<in> set ns. not_off x)"
proof (rule online_of_ok [OF list_nodes_ok])
  fix a ns a'
  assume l: "a' = a \<and> listed ns (as_nodes a)" and o: "tidy a"
  have "not_off x" if "x \<in> set ns" for x
  proof -
    have "(n_id x, x) \<in> set (map (\<lambda>n. (n_id n, n)) ns)" using that by auto
    moreover have "distinct (map fst (map (\<lambda>n. (n_id n, n)) ns))" using l by (simp add: listed_def o_def)
    ultimately have "as_nodes a (n_id x) = Some x"
      using l map_of_is_SomeI unfolding listed_def by metis
    then show ?thesis using o by (auto simp: tidy_def)
  qed
  then show "tidy a' \<and> (\<forall>x \<in> set ns. not_off x)" using l o by blast
qed

lemma online_upsert: "not_off n \<Longrightarrow> online (upsert_node S n) (\<lambda>_. True)"
  by (rule online_of_ok [OF upsert_node_ok]) (auto simp: tidy_def split: if_splits)

lemma online_rest:
  "online (get_token_by_hash S h) (\<lambda>_. True)" "online (get_node_secret S i) (\<lambda>_. True)"
  "online (set_node_secret S i x y) (\<lambda>_. True)" "online (delete_node S i) (\<lambda>_. True)"
  "online (delete_node_secret S i) (\<lambda>_. True)"
  by (rule online_of_ok [OF get_token_by_hash_ok] online_of_ok [OF get_node_secret_ok]
      online_of_ok [OF set_node_secret_ok] online_of_ok [OF delete_node_ok]
      online_of_ok [OF delete_node_secret_ok], auto simp: tidy_def)+

lemmas online_ops = online_get_node online_list_nodes online_rest

lemma online_check: "online (check_invite E S raw) (\<lambda>_. True)"
  by (rule online_of_ok [OF check_invite_ok]) simp

lemma online_authenticate: "online (authenticate E S secret i) not_off"
  by (rule online_of_ok [OF authenticate_ok]) (auto simp: tidy_def)

lemma online_join: "online (join_cluster E S uuid uuid2 req url) (\<lambda>r. not_off (jr_node r))"
  unfolding join_cluster_def Let_def
  by (rule online_andthen [OF online_check])
    (auto intro!: online_fail online_ret online_upsert online_andthen [OF online_lift]
      online_andthen [OF online_list_nodes] online_andthen [OF online_upsert] online_andthen [OF online_rest(3)])

lemma online_heartbeat: "online (heartbeat_node E S secret p) not_off"
  unfolding heartbeat_node_def Let_def
  by (rule online_andthen [OF online_authenticate])
    (auto intro!: online_ret online_andthen [OF online_lift] online_andthen [OF online_upsert])

lemma online_remove: "online (remove_node S i) (\<lambda>_. True)"
  unfolding remove_node_def by (auto intro!: online_fail online_rest online_andthen [OF online_rest(5)])

lemma online_patch_name: "not_off n \<Longrightarrow> online (patch_name S name n) not_off"
  unfolding patch_name_def Let_def
  by (auto simp: local_ok_def intro!: online_ret online_fail online_andthen [OF online_get_local]
      online_andthen [OF online_set_local] split: option.split)

lemma online_patch_drain: "not_off n \<Longrightarrow> online (patch_drain d n) not_off"
  unfolding patch_drain_def by (auto intro!: online_ret online_fail split: option.split)

lemma online_patch_url: "not_off n \<Longrightarrow> online (patch_url S url n) not_off"
  unfolding patch_url_def
  by (auto simp: local_ok_def intro!: online_ret online_andthen [OF online_lift] online_andthen [OF online_get_local]
      online_andthen [OF online_set_local] split: option.split)

lemma online_patch_node: "online (patch_node E S i name drained url ingress) not_off"
  unfolding patch_node_def Let_def
proof (rule online_andthen [OF online_get_node])
  fix found :: "node option"
  assume f: "\<forall>x. found = Some x \<longrightarrow> not_off x"
  have w: "not_off n \<Longrightarrow> online (andthen (upsert_node S (patch_ingress ingress n\<lparr>n_updated := now_text E\<rparr>))
      (\<lambda>_. ret (patch_ingress ingress n\<lparr>n_updated := now_text E\<rparr>))) not_off" for n
    by (auto simp: patch_ingress_def intro!: online_ret online_andthen [OF online_upsert] split: option.split)
  show "online (case found of None \<Rightarrow> fail (NodeNotFound i)
      | Some n0 \<Rightarrow> andthen (patch_name S name n0) (\<lambda>n1. andthen (patch_drain drained n1) (\<lambda>n2.
          andthen (patch_url S url n2) (\<lambda>n3. andthen (upsert_node S (patch_ingress ingress n3\<lparr>n_updated := now_text E\<rparr>))
            (\<lambda>_. ret (patch_ingress ingress n3\<lparr>n_updated := now_text E\<rparr>)))))) not_off"
  proof (cases found)
    case None
    then show ?thesis by (simp add: online_fail)
  next
    case (Some n)
    then show ?thesis
      using f by (auto intro!: w online_andthen [OF online_patch_name] online_andthen [OF online_patch_drain]
          online_andthen [OF online_patch_url])
  qed
qed

lemma online_patch_local: "online (patch_local E S leader_url url) (\<lambda>_. True)"
proof -
  have u: "online (case found of None \<Rightarrow> ret () | Some n \<Rightarrow> upsert_node S (n\<lparr>n_url := v, n_updated := now_text E\<rparr>)) (\<lambda>_. True)"
    if "\<forall>x. found = Some x \<longrightarrow> not_off x" for found v
    using that by (cases found) (auto intro!: online_ret online_upsert)
  have 1: "online (case leader_url of
         None \<Rightarrow> ret l0
       | Some u \<Rightarrow>
           andthen (lift_res UrlErr (normalize_http_url u)) (\<lambda>v.
             if l_role l0 = Leader
             then andthen (get_node S leader_node_id) (\<lambda>found.
                  andthen (case found of
                      None \<Rightarrow> ret ()
                    | Some n \<Rightarrow> upsert_node S (n\<lparr>n_url := v, n_updated := now_text E\<rparr>)) (\<lambda>_.
                  ret (l0\<lparr>l_leader_url := v, l_url := v\<rparr>)))
             else ret (l0\<lparr>l_leader_url := v\<rparr>))) local_ok" if "local_ok l0" for l0
    using that by (auto simp: local_ok_def intro!: online_ret online_andthen [OF online_lift]
        online_andthen [OF online_get_node] online_andthen [OF u] split: option.split)
  have 2: "online (case url of
         None \<Rightarrow> ret l1
       | Some u \<Rightarrow> andthen (lift_res UrlErr (normalize_http_url u)) (\<lambda>v. ret (l1\<lparr>l_url := v\<rparr>))) local_ok"
    if "local_ok l1" for l1
    using that by (auto simp: local_ok_def intro!: online_ret online_andthen [OF online_lift] split: option.split)
  show ?thesis
    unfolding patch_local_def
    by (rule online_andthen [OF online_get_local], erule online_andthen [OF 1], erule online_andthen [OF 2],
        erule online_andthen [OF online_set_local]) (rule online_ret, simp)
qed

lemma online_ensure_leader: "online (ensure_leader E S uuid name url) not_off"
  unfolding ensure_leader_def Let_def
proof (rule online_andthen [OF online_get_node])
  have r: "local_ok l \<Longrightarrow> local_ok (repair_local uuid url l)" "local_ok l \<Longrightarrow> local_ok (claim_local uuid url nm l)" for l nm
    by (auto simp: local_ok_def repair_local_def claim_local_def leader_node_id_def)
  let ?n = "leader_node (if trim name = [] then lit ''Leader'' else trim name) url (e_os E) (e_arch E) (now_text E)"
  have n: "not_off ?n" by (simp add: leader_node_def)
  fix found :: "node option"
  assume f: "\<forall>x. found = Some x \<longrightarrow> not_off x"
  show "online (case found of
       None \<Rightarrow> andthen (upsert_node S ?n) (\<lambda>_. andthen (get_local S) (\<lambda>l.
               if l_role l \<noteq> Worker then andthen (set_local S (claim_local uuid url (n_name ?n) l)) (\<lambda>_. ret ?n)
               else ret ?n))
     | Some existing \<Rightarrow> andthen (get_local S) (\<lambda>l.
           if l_role l = Leader \<and> needs_repair url l
           then andthen (set_local S (repair_local uuid url l)) (\<lambda>_. ret existing) else ret existing)) not_off"
  proof (cases found)
    case None
    then show ?thesis
      using n r by (auto intro!: online_ret online_andthen [OF online_upsert] online_andthen [OF online_get_local]
          online_andthen [OF online_set_local])
  next
    case (Some e)
    then show ?thesis
      using f r by (auto intro!: online_ret online_andthen [OF online_get_local] online_andthen [OF online_set_local])
  qed
qed

end

section \<open>The cluster's operations\<close>

text \<open>The calls of the facade as data.\<close>

datatype cluster_op =
    CEnsure ustr ustr ustr
  | CJoin ustr ustr join_request ustr
  | CHeartbeat ustr heartbeat
  | CPatch ustr "ustr option" "bool option" "ustr option" "ustr option"
  | CPatchLocal "ustr option" "ustr option"
  | CRemove ustr

fun cluster_step :: "cenv \<Rightarrow> 's store_ops \<Rightarrow> cluster_op \<Rightarrow> 's \<Rightarrow> 's" where
  "cluster_step E S (CEnsure uuid name url) s = fst (ensure_leader E S uuid name url s)"
| "cluster_step E S (CJoin uuid uuid2 req url) s = fst (join_cluster E S uuid uuid2 req url s)"
| "cluster_step E S (CHeartbeat secret p) s = fst (heartbeat_node E S secret p s)"
| "cluster_step E S (CPatch i name drained url ingress) s = fst (patch_node E S i name drained url ingress s)"
| "cluster_step E S (CPatchLocal u v) s = fst (patch_local E S u v s)"
| "cluster_step E S (CRemove i) s = fst (remove_node S i s)"

context cluster_store
begin

lemma online_fst:
  assumes "online m Q" and "sinv s" and "tidy (sabs s)"
  shows "sinv (fst (m s)) \<and> tidy (sabs (fst (m s)))"
proof (cases "m s")
  case (Pair s' r)
  then show ?thesis
    using assms op_sat_Inr [OF assms(1) [unfolded keeps_online_def]]
      op_sat_Inl [OF assms(1) [unfolded keeps_online_def]] by (cases r) auto
qed

lemma online_step:
  assumes "sinv s" and "tidy (sabs s)"
  shows "sinv (cluster_step E S op s) \<and> tidy (sabs (cluster_step E S op s))"
  using online_fst [OF online_ensure_leader assms] online_fst [OF online_join assms]
    online_fst [OF online_heartbeat assms] online_fst [OF online_patch_node assms]
    online_fst [OF online_patch_local assms] online_fst [OF online_remove assms]
  by (cases op) simp_all

lemma online_steps:
  assumes "sinv s" and "tidy (sabs s)"
  shows "sinv (fold (cluster_step E S) ops s) \<and> tidy (sabs (fold (cluster_step E S) ops s))"
  using assms by (induction ops arbitrary: s) (simp_all add: online_step)

end

section \<open>Properties\<close>

definition sample_env :: cenv where
  "sample_env = \<lparr>e_hash = id, e_parse = (\<lambda>_. None), e_show = (\<lambda>_. []), e_now = 0, e_os = [], e_arch = []\<rparr>"

definition sample_sql :: sqldb where
  "sample_sql = \<lparr>sq_local = None,
     sq_nodes = [row_of_node ((leader_node (lit ''nas'') (lit ''http://nas'') [] [] [])\<lparr>n_id := lit ''w1'', n_role := Worker\<rparr>)],
     sq_tokens = [], sq_secrets = [\<lparr>sr_node = lit ''w1'', sr_secret = lit ''k'', sr_hash = lit ''k''\<rparr>],
     sq_faults = []\<rparr>"

lemma sample_sql_inv: "sql_inv sample_sql"
  by (simp add: sql_inv_def sample_sql_def)

text \<open>C15. Only a valid invitation lets a node in: with an unknown, revoked or expired code the
  join fails and changes nothing; a successful join registers the node as an online worker
  with its announced URL and its secret, under the new id or in place of a worker that was
  not online, and changes nothing else.\<close>

theorem join_contract:
  assumes "sql_inv s" and "join_cluster E sql_store uuid uuid2 req url s = (s', r)"
    and "as_nodes (sql_abs s) (new_node_id uuid) = None"
  shows "case r of
      Inl e \<Rightarrow> valid_invite E (sql_abs s) (j_token req) \<or> sql_abs s' = sql_abs s
    | Inr resp \<Rightarrow> valid_invite E (sql_abs s) (j_token req)
        \<and> join_effect uuid uuid2 req (sql_abs s) (jr_node resp) (jr_secret resp) (sql_abs s')"
  using op_sat_Inl [OF sql.join_ok _ assms(1)] op_sat_Inr [OF sql.join_ok _ assms(1)] assms(2,3)
  by (cases r) auto

definition sample_request :: join_request where
  "sample_request = \<lparr>j_token = lit ''dfjoin_x'', j_name = lit ''n'', j_url = lit ''http://n'', j_os = [], j_arch = [],
     j_caps = [], j_ssh_host = None, j_ssh_user = None, j_ssh_port = None\<rparr>"

theorem join_contract_witness:
  "\<exists>s' e. join_cluster sample_env sql_store (lit ''u'') (lit ''v'') sample_request [] sample_sql = (s', Inl e)
     \<and> sql_abs s' = sql_abs sample_sql"
proof -
  obtain s' r where j: "join_cluster sample_env sql_store (lit ''u'') (lit ''v'') sample_request [] sample_sql = (s', r)"
    by (metis prod.exhaust)
  have "as_nodes (sql_abs sample_sql) (new_node_id (lit ''u'')) = None"
    by (simp add: sql_abs_def sample_sql_def select_row_def row_of_node_def new_node_id_def)
  note c = join_contract [OF sample_sql_inv j this]
  have "\<not> valid_invite sample_env (sql_abs sample_sql) (j_token sample_request)"
    by (simp add: valid_invite_def sql_abs_def sample_sql_def select_row_def)
  then show ?thesis using c j by (cases r) auto
qed

text \<open>Removing a node revokes it: the leader cannot be removed, and once the removal of
  another node succeeded no secret authenticates it any more.\<close>

lemma removed_node_revoked:
  assumes "sql_inv s" and "remove_node sql_store i s = (s', Inr b)"
  shows "i \<noteq> leader_node_id \<and> (b \<longleftrightarrow> as_nodes (sql_abs s) i \<noteq> None)
       \<and> (\<forall>secret. \<nexists>s'' n. authenticate E sql_store secret i s' = (s'', Inr n))"
proof -
  note r = op_sat_Inr [OF sql.remove_ok assms(2,1)]
  have "authenticate E sql_store secret i s' \<noteq> (s'', Inr n)" for secret s'' n
    using op_okD(1) [OF sql.authenticate_ok, of s' E secret i s'' n] r by auto
  then show ?thesis using r by blast
qed

theorem removed_node_revoked_witness:
  "\<exists>s' b. remove_node sql_store (lit ''w1'') sample_sql = (s', Inr b)
     \<and> (\<nexists>s'' n. authenticate sample_env sql_store (lit ''k'') (lit ''w1'') s' = (s'', Inr n))"
proof -
  obtain s' b where r: "remove_node sql_store (lit ''w1'') sample_sql = (s', Inr b)"
    by (simp add: remove_node_def leader_node_id_def andthen_def sql_store_def sq_query_def sample_sql_def)
  show ?thesis using removed_node_revoked [OF sample_sql_inv r, of sample_env] r by blast
qed

text \<open>A heartbeat is taken only with the node's own secret; it marks that node online, keeps
  its role and drain flag, and touches no other row; a refused one changes nothing.\<close>

lemma heartbeat_contract:
  assumes "sql_inv s" and "heartbeat_node E sql_store secret p s = (s', r)"
  shows "case r of
      Inl e \<Rightarrow> sql_abs s' = sql_abs s
    | Inr n \<Rightarrow> \<exists>old x. as_nodes (sql_abs s) (h_node_id p) = Some old
        \<and> as_secrets (sql_abs s) (h_node_id p) = Some x \<and> verify_node_secret E secret x
        \<and> n_role n = n_role old \<and> n_drained n = n_drained old \<and> n_status n = Online
        \<and> sql_abs s' = (sql_abs s)\<lparr>as_nodes := (as_nodes (sql_abs s))(h_node_id p \<mapsto> n)\<rparr>"
proof (cases r)
  case (Inl e)
  then show ?thesis using op_okD(2) [OF sql.heartbeat_ok assms(1)] assms(2) by simp
next
  case (Inr n)
  have id: "as_nodes (sql_abs s) i = Some old \<Longrightarrow> n_id old = i" for i old
    by (auto simp: sql_abs_def node_of_row_def dest: select_row_key)
  have "heartbeat_node E sql_store secret p s = (s', Inr n)" using assms(2) Inr by simp
  from op_okD(1) [OF sql.heartbeat_ok assms(1) this] obtain old x
    where o: "as_nodes (sql_abs s) (h_node_id p) = Some old" "as_secrets (sql_abs s) (n_id old) = Some x"
      "verify_node_secret E secret x" "n_role n = n_role old" "n_drained n = n_drained old" "n_status n = Online"
      "as_nodes (sql_abs s) (n_id old) = Some old \<longrightarrow> sql_abs s' = (sql_abs s)\<lparr>as_nodes := (as_nodes (sql_abs s))(n_id old \<mapsto> n)\<rparr>"
    by blast
  then show ?thesis using id [OF o(1)] by (simp add: Inr)
qed

theorem heartbeat_contract_witness:
  "\<exists>s' e. heartbeat_node sample_env sql_store (lit ''wrong'')
       \<lparr>h_node_id = lit ''w1'', h_url = None, h_os = None, h_arch = None, h_caps = None, h_metrics = None\<rparr> sample_sql
     = (s', Inl e) \<and> sql_abs s' = sql_abs sample_sql"
proof -
  let ?p = "\<lparr>h_node_id = lit ''w1'', h_url = None, h_os = None, h_arch = None, h_caps = None, h_metrics = None\<rparr>"
  obtain s' r where h: "heartbeat_node sample_env sql_store (lit ''wrong'') ?p sample_sql = (s', r)"
    by (metis prod.exhaust)
  note c = heartbeat_contract [OF sample_sql_inv h]
  have "as_secrets (sql_abs sample_sql) (lit ''w1'') = Some (lit ''k'')"
    by (simp add: sql_abs_def sample_sql_def select_row_def)
  moreover have "\<not> verify_node_secret sample_env (lit ''wrong'') (lit ''k'')"
    by (simp add: verify_node_secret_def sample_env_def)
  ultimately show ?thesis using c h by (cases r) auto
qed

text \<open>No operation of the cluster ever stores the status offline: whatever is called, in
  whatever order and with whatever database failures, every stored node is online or joining.
  The executor's refusal of an offline node and the reuse of an offline worker's row by a
  join, which both read the stored status, therefore never happen.\<close>

theorem never_stored_offline:
  assumes "sql_inv s" and "tidy (sql_abs s)"
    and "as_nodes (sql_abs (fold (cluster_step E sql_store) ops s)) i = Some n"
  shows "n_status n \<noteq> Offline"
  using sql.online_steps [OF assms(1,2), of E ops] assms(3) by (simp add: tidy_def)

lemma sample_tidy: "tidy (sql_abs sample_sql)"
  by (auto simp: tidy_def sql_abs_def sample_sql_def local_ok_def default_local_def leader_node_id_def
      select_row_def node_row_roundtrip leader_node_def split: if_splits)

theorem never_stored_offline_witness:
  "\<exists>n. as_nodes (sql_abs (fold (cluster_step sample_env sql_store) [] sample_sql)) (lit ''w1'') = Some n
     \<and> n_status n \<noteq> Offline"
proof -
  obtain n where "as_nodes (sql_abs (fold (cluster_step sample_env sql_store) [] sample_sql)) (lit ''w1'') = Some n"
    by (simp add: sql_abs_def sample_sql_def select_row_def row_of_node_def)
  then show ?thesis using never_stored_offline [OF sample_sql_inv sample_tidy] by blast
qed

text \<open>Renaming and draining the leader in one request fails half way: the request is refused
  because a leader cannot be drained, its node row keeps the old name, and the local state
  already carries the new one.\<close>

theorem patch_leader_half_done:
  assumes "map_of (mem_nodes s) i = Some n" and "n_role n = Leader" and "trim name \<noteq> []"
  shows "patch_node E memory_store i (Some name) (Some True) url ingress s
       = (s\<lparr>mem_local := (mem_local s)\<lparr>l_name := trim name\<rparr>\<rparr>, Inl LeaderNotDrainable)"
  using assms
  by (simp add: patch_node_def patch_name_def patch_drain_def andthen_def memory_store_def ret_def fail_def)

theorem patch_leader_half_done_witness:
  "snd (patch_node sample_env memory_store leader_node_id (Some (lit ''x'')) (Some True) None None
      (seed_leader (lit ''L'') [] [] [] [] new_mem)) = Inl LeaderNotDrainable"
proof -
  have "map_of (mem_nodes (seed_leader (lit ''L'') [] [] [] [] new_mem)) leader_node_id
      = Some (leader_node (lit ''L'') [] [] [] [])"
    by (simp add: seed_leader_def new_mem_def leader_node_def trim_by_id is_ws_def)
  moreover have "trim (lit ''x'') \<noteq> []" by (simp add: trim_by_id is_ws_def)
  ultimately show ?thesis
    using patch_leader_half_done [of "seed_leader (lit ''L'') [] [] [] [] new_mem" leader_node_id
        "leader_node (lit ''L'') [] [] [] []" "lit ''x''" sample_env None None]
    by (simp add: leader_node_def)
qed

text \<open>What the production store writes it reads back: after an upsert, the node of that id is
  the one written, through its text and integer columns (role, status, port, flag), and every
  other node is as before.\<close>

lemma upsert_get_roundtrip:
  assumes "sql_inv s" and "keeps_created (as_nodes (sql_abs s)) n"
    and "upsert_node sql_store n s = (s1, Inr ())" and "get_node sql_store i s1 = (s2, Inr r)"
  shows "r = (if i = n_id n then Some n else as_nodes (sql_abs s) i)"
  using op_okD(1) [OF sql.upsert_node_ok assms(1,3)] op_okD(1) [OF sql.get_node_ok _ assms(4)] assms(2)
  by auto

theorem upsert_get_roundtrip_witness:
  "\<exists>s2. get_node sql_store (lit ''x'')
      (fst (upsert_node sql_store ((leader_node (lit ''nas'') [] [] [] [])\<lparr>n_id := lit ''x'', n_ssh_port := Some 22\<rparr>) sample_sql))
    = (s2, Inr (Some ((leader_node (lit ''nas'') [] [] [] [])\<lparr>n_id := lit ''x'', n_ssh_port := Some 22\<rparr>)))"
proof -
  let ?n = "(leader_node (lit ''nas'') [] [] [] [])\<lparr>n_id := lit ''x'', n_ssh_port := Some 22\<rparr>"
  obtain s1 where u: "upsert_node sql_store ?n sample_sql = (s1, Inr ())" "sq_faults s1 = []"
    by (simp add: sql_store_def sq_query_def sample_sql_def)
  then obtain s2 r where g: "get_node sql_store (lit ''x'') s1 = (s2, Inr r)"
    by (simp add: sql_store_def sq_query_def)
  have "keeps_created (as_nodes (sql_abs sample_sql)) ?n"
    by (simp add: keeps_created_def sql_abs_def sample_sql_def select_row_def row_of_node_def)
  from upsert_get_roundtrip [OF sample_sql_inv this u(1) g] show ?thesis
    using g u by simp
qed

end
