(* ===== verification/Failover.thy ===== *)
theory Failover
  imports ClusterModel
begin

text \<open>
  The interim leader: the rounds of a worker, the election, the promotion and the return of
  the preferred leader (\<open>apps/server/src/worker.rs\<close>), and the handlers the nodes call on each
  other (\<open>apps/server/src/cluster_routes.rs\<close>). A node is its local state, the files of
  \<open>crates/cluster/src/client.rs\<close> and whether its process runs or is restarting. What comes
  from the network, and whether a write to the store or to a file succeeds, are arguments.
\<close>

section \<open>A node\<close>

text \<open>\<open>fn_reclaim\<close>: no file, an unreadable one, or the identity it holds. \<open>fn_identity\<close> is
  \<open>None\<close> when the file is missing or unreadable.\<close>

record fnode =
  fn_local :: local_state
  fn_identity :: "local_state option"
  fn_promote :: bool
  fn_reclaim :: "local_state option option"
  fn_roster :: "roster_entry list"
  fn_snapshot :: bool
  fn_pending :: bool
  fn_hold :: bool
  fn_running :: bool
  fn_fail :: nat

definition i64_max :: int where "i64_max = 2 ^ 63 - 1"

text \<open>\<open>i64::saturating_add(1)\<close>.\<close>

definition succ_sat :: "int \<Rightarrow> int" where
  "succ_sat t = (if t = i64_max then t else t + 1)"

definition store_local :: "bool \<Rightarrow> local_state \<Rightarrow> fnode \<Rightarrow> fnode" where
  "store_local ok l n = (if ok then n\<lparr>fn_local := l\<rparr> else n)"

definition write_identity :: "bool \<Rightarrow> local_state \<Rightarrow> fnode \<Rightarrow> fnode" where
  "write_identity ok l n = (if ok then n\<lparr>fn_identity := Some l\<rparr> else n)"

section \<open>At boot\<close>

definition promoted :: "local_state \<Rightarrow> local_state" where
  "promoted l = l\<lparr>l_role := Leader, l_acting := True, l_fenced := False,
     l_term := max (succ_sat (l_term l)) 1, l_leader_url := l_url l\<rparr>"

definition apply_promote_flag :: "bool \<Rightarrow> bool \<Rightarrow> fnode \<Rightarrow> fnode" where
  "apply_promote_flag ok_store ok_file n =
     (if \<not> fn_promote n then n
      else (case fn_identity n of
              None \<Rightarrow> n\<lparr>fn_promote := False\<rparr>
            | Some ident \<Rightarrow>
                if \<not> ok_store then n
                else (write_identity ok_file (promoted ident) (n\<lparr>fn_local := promoted ident\<rparr>))\<lparr>fn_promote := False\<rparr>))"

definition reclaimed :: "local_state \<Rightarrow> local_state" where
  "reclaimed l = (let l' = l\<lparr>l_role := Leader, l_acting := False, l_fenced := False\<rparr> in
     if trim (l_url l') \<noteq> [] then l'\<lparr>l_leader_url := l_url l'\<rparr> else l')"

definition apply_reclaim_flag :: "bool \<Rightarrow> bool \<Rightarrow> fnode \<Rightarrow> fnode" where
  "apply_reclaim_flag ok_store ok_file n =
     (case fn_reclaim n of
        None \<Rightarrow> n
      | Some None \<Rightarrow> n
      | Some (Some ident) \<Rightarrow>
          if \<not> ok_store then n
          else (write_identity ok_file (reclaimed ident) (n\<lparr>fn_local := reclaimed ident\<rparr>))\<lparr>fn_reclaim := None\<rparr>)"

definition release_orphan_fence :: "bool \<Rightarrow> fnode \<Rightarrow> fnode" where
  "release_orphan_fence ok_store n =
     (if \<not> l_fenced (fn_local n) \<or> \<not> l_acting (fn_local n) then n
      else store_local ok_store ((fn_local n)\<lparr>l_fenced := False\<rparr>) n)"

definition boot :: "bool \<Rightarrow> bool \<Rightarrow> bool \<Rightarrow> bool \<Rightarrow> bool \<Rightarrow> fnode \<Rightarrow> fnode" where
  "boot ok1 file1 ok2 file2 ok3 n =
     (release_orphan_fence ok3 (apply_reclaim_flag ok2 file2 (apply_promote_flag ok1 file1 n)))\<lparr>fn_running := True, fn_fail := 0\<rparr>"

section \<open>A worker's round\<close>

definition acked :: "ack \<Rightarrow> local_state \<Rightarrow> local_state" where
  "acked a l = l\<lparr>
     l_pref_id := (if a_pref_id a \<noteq> [] then a_pref_id a else l_pref_id l),
     l_pref_url := (if a_pref_url a \<noteq> [] then a_pref_url a else l_pref_url l),
     l_failover_secret := (if a_failover_secret a \<noteq> [] then a_failover_secret a else l_failover_secret l),
     l_term := (if a_term a > l_term l then a_term a else l_term l),
     l_generation := a_generation a\<rparr>"

definition persist_ack :: "bool \<Rightarrow> bool \<Rightarrow> bool \<Rightarrow> local_state \<Rightarrow> ack \<Rightarrow> fnode \<Rightarrow> fnode" where
  "persist_ack ok_store ok_roster ok_file l a n =
     (let n1 = store_local ok_store (acked a l) n;
          n2 = (if a_roster a \<noteq> [] \<and> ok_roster then n1\<lparr>fn_roster := a_roster a\<rparr> else n1)
      in write_identity ok_file (acked a l) n2)"

text \<open>The first earlier candidate that says it is the interim leader.\<close>

definition interim_to_follow :: "(ustr \<Rightarrow> bool) \<Rightarrow> local_state \<Rightarrow> roster_entry list \<Rightarrow> roster_entry option" where
  "interim_to_follow acting l roster =
     (if l_failover_secret l = [] then None
      else find (\<lambda>p. acting (r_url p)) (earlier_candidates (l_node_id l) roster))"

record elect_io =
  io_acting :: "ustr \<Rightarrow> bool"
  io_standby :: bool
  io_store :: bool
  io_identity :: bool
  io_copy :: bool
  io_flag :: bool

definition try_elect :: "elect_io \<Rightarrow> local_state \<Rightarrow> fnode \<Rightarrow> fnode" where
  "try_elect io l n =
     (if fn_roster n = [] then n
      else (case interim_to_follow (io_acting io) l (fn_roster n) of
          Some p \<Rightarrow> store_local (io_store io) (l\<lparr>l_leader_url := r_url p\<rparr>) n
        | None \<Rightarrow>
            if \<not> i_am_failover_winner (l_node_id l) (fn_roster n) then n
            else if \<not> io_standby io \<and> \<not> fn_snapshot n then n
            else if \<not> io_identity io then n
            else (let n1 = n\<lparr>fn_identity := Some l\<rparr> in
                  if \<not> io_standby io \<and> \<not> io_copy io then n1
                  else (let n2 = (if io_standby io then n1 else n1\<lparr>fn_pending := True\<rparr>) in
                        if \<not> io_flag io then n2
                        else n2\<lparr>fn_promote := True, fn_running := False\<rparr>))))"

text \<open>One turn of the loop: the heartbeat's answer, then what it leads to.\<close>

datatype reply = Acked ack | NoAnswer

record round_io =
  ri_reply :: reply
  ri_store :: bool
  ri_roster :: bool
  ri_file :: bool
  ri_due :: bool
  ri_fetched :: bool
  ri_pref_alive :: bool
  ri_elect :: elect_io

definition preferred_url :: "local_state \<Rightarrow> ustr" where
  "preferred_url l = (if trim (l_pref_url l) = [] then l_leader_url l else l_pref_url l)"

definition worker_round :: "round_io \<Rightarrow> fnode \<Rightarrow> fnode" where
  "worker_round io n =
     (let l = fn_local n in
      if l_role l \<noteq> Worker \<or> l_secret l = [] then n
      else (case ri_reply io of
          Acked a \<Rightarrow>
            (let n1 = persist_ack (ri_store io) (ri_roster io) (ri_file io) l a (n\<lparr>fn_fail := 0\<rparr>);
                 need_snap = (a_generation a > l_generation l \<or> ri_due io)
             in if need_snap \<and> \<not> io_standby (ri_elect io) \<and> ri_fetched io then n1\<lparr>fn_snapshot := True\<rparr> else n1)
        | NoAnswer \<Rightarrow>
            (let fails = Suc (fn_fail n) in
             if preferred_url l \<noteq> l_leader_url l \<and> ri_pref_alive io
             then store_local (ri_store io) (l\<lparr>l_leader_url := preferred_url l, l_acting := False\<rparr>) (n\<lparr>fn_fail := 0\<rparr>)
             else if fails \<ge> failover_fail_streak
             then (try_elect (ri_elect io) l n)\<lparr>fn_fail := 0\<rparr>
             else n\<lparr>fn_fail := fails\<rparr>)))"

section \<open>The preferred leader comes back\<close>

text \<open>What could be obtained from an interim: a physical copy, a dump, or nothing.\<close>

datatype copy = CloneOk | DumpOk | NoCopy

record reclaim_io =
  rc_hold_status :: "ustr \<Rightarrow> failover_status option"
  rc_status :: "ustr \<Rightarrow> failover_status option"
  rc_copy :: "ustr \<Rightarrow> copy"
  rc_store :: "ustr \<Rightarrow> bool"
  rc_file :: bool
  rc_reopen :: bool

definition reopen_writes :: "bool \<Rightarrow> local_state \<Rightarrow> fnode \<Rightarrow> fnode" where
  "reopen_writes ok l n = (if \<not> l_fenced l then n else store_local ok (l\<lparr>l_fenced := False\<rparr>) n)"

text \<open>Every question asked over the network may be answered differently: \<open>rc_hold_status\<close> are the
  answers of the first pass, made while the hold file exists, \<open>rc_status\<close> those of the second.\<close>

definition yields_to :: "(ustr \<Rightarrow> failover_status option) \<Rightarrow> local_state \<Rightarrow> node \<Rightarrow> failover_status option" where
  "yields_to status l p =
     (if trim (n_url p) = [] \<or> n_id p = l_node_id l then None
      else opt_filter (\<lambda>st. must_yield_to_interim (l_node_id l) (l_term l) (f_node_id st) (f_acting st) (f_term st))
             (status (n_url p)))"

definition resumed :: "local_state \<Rightarrow> failover_status \<Rightarrow> local_state" where
  "resumed l st = l\<lparr>l_term := (if f_term st > l_term l then f_term st else l_term l),
     l_fenced := True, l_acting := False, l_role := Leader\<rparr>"

fun reclaim_from :: "reclaim_io \<Rightarrow> local_state \<Rightarrow> node list \<Rightarrow> fnode \<Rightarrow> fnode" where
  "reclaim_from io l [] n = reopen_writes (rc_reopen io) l n"
| "reclaim_from io l (p # ps) n =
     (case yields_to (rc_status io) l p of
        None \<Rightarrow> reclaim_from io l ps n
      | Some st \<Rightarrow>
          (case rc_copy io (n_url p) of
             NoCopy \<Rightarrow> reclaim_from io l ps n
           | c \<Rightarrow>
               (let n1 = (if c = DumpOk then n\<lparr>fn_pending := True\<rparr> else n) in
                if \<not> rc_store io (n_url p) then reclaim_from io l ps n1
                else (let n2 = n1\<lparr>fn_local := resumed l st\<rparr>;
                          n3 = (if rc_file io then n2\<lparr>fn_reclaim := Some (Some ((resumed l st)\<lparr>l_fenced := False\<rparr>))\<rparr> else n2)
                      in n3\<lparr>fn_running := False\<rparr>))))"

text \<open>The list of nodes is \<open>None\<close> when the store cannot be read.\<close>

definition maybe_reclaim_preferred :: "reclaim_io \<Rightarrow> node list option \<Rightarrow> fnode \<Rightarrow> fnode" where
  "maybe_reclaim_preferred io nodes n =
     (let l = fn_local n in
      if l_role l \<noteq> Leader \<or> l_acting l then n
      else if l_node_id l \<noteq> l_pref_id l \<and> l_node_id l \<noteq> leader_node_id then n
      else (case nodes of
          None \<Rightarrow> reopen_writes (rc_reopen io) l n
        | Some ps \<Rightarrow>
            if fn_hold n
            then (if \<exists>p \<in> set ps. yields_to (rc_hold_status io) l p \<noteq> None then reopen_writes (rc_reopen io) l n
                  else reclaim_from io l ps (n\<lparr>fn_hold := False\<rparr>))
            else reclaim_from io l ps n))"

section \<open>Handlers\<close>

definition cluster_auth_ok :: "local_state \<Rightarrow> ustr \<Rightarrow> bool" where
  "cluster_auth_ok l provided =
     (if provided = [] then False
      else if l_secret l \<noteq> [] \<and> provided = l_secret l then True
      else if l_failover_secret l \<noteq> [] \<and> provided = l_failover_secret l then True
      else False)"

datatype http_error = Unauthorized | Conflict | BadRequest | Internal

definition failover_status_of :: "ustr \<Rightarrow> fnode \<Rightarrow> http_error + failover_status" where
  "failover_status_of secret n =
     (if \<not> cluster_auth_ok (fn_local n) secret then Inl Unauthorized
      else Inr \<lparr>f_acting = l_acting (fn_local n), f_node_id = l_node_id (fn_local n), f_term = l_term (fn_local n)\<rparr>)"

text \<open>\<open>ok_pg\<close>: Postgres accepted the quiesce.\<close>

definition failover_quiesce :: "bool \<Rightarrow> bool \<Rightarrow> ustr \<Rightarrow> fnode \<Rightarrow> fnode \<times> (http_error + unit)" where
  "failover_quiesce ok_pg ok_store secret n =
     (let l = fn_local n in
      if \<not> cluster_auth_ok l secret then (n, Inl Unauthorized)
      else if \<not> l_acting l \<and> l_role l \<noteq> Leader then (n, Inl Conflict)
      else if \<not> ok_pg then (n, Inl Internal)
      else if \<not> ok_store then (n, Inl Internal)
      else (n\<lparr>fn_local := l\<lparr>l_fenced := True\<rparr>\<rparr>, Inr ()))"

definition quiesce_timeout :: "bool \<Rightarrow> fnode \<Rightarrow> fnode" where
  "quiesce_timeout ok_store n =
     (if l_fenced (fn_local n) \<and> l_acting (fn_local n)
      then store_local ok_store ((fn_local n)\<lparr>l_fenced := False\<rparr>) n else n)"

definition failover_resume :: "bool \<Rightarrow> ustr \<Rightarrow> fnode \<Rightarrow> fnode \<times> (http_error + unit)" where
  "failover_resume ok_store secret n =
     (if \<not> cluster_auth_ok (fn_local n) secret then (n, Inl Unauthorized)
      else if \<not> ok_store then (n, Inl Internal)
      else (n\<lparr>fn_local := (fn_local n)\<lparr>l_fenced := False\<rparr>\<rparr>, Inr ()))"

definition demoted :: "ustr \<Rightarrow> local_state \<Rightarrow> local_state" where
  "demoted url l =
     (let u = trim_url url;
          l1 = (if u \<noteq> [] then l\<lparr>l_leader_url := u, l_pref_url := u\<rparr> else l)
      in l1\<lparr>l_role := Worker, l_acting := False, l_fenced := False\<rparr>)"

definition failover_demote :: "bool \<Rightarrow> bool \<Rightarrow> ustr \<Rightarrow> ustr \<Rightarrow> fnode \<Rightarrow> fnode \<times> (http_error + unit)" where
  "failover_demote ok_store ok_file secret url n =
     (let l = fn_local n in
      if \<not> cluster_auth_ok l secret then (n, Inl Unauthorized)
      else if \<not> l_acting l then (n, Inl BadRequest)
      else if \<not> ok_store then (n, Inl Internal)
      else ((write_identity ok_file (demoted url l) (n\<lparr>fn_local := demoted url l\<rparr>))\<lparr>fn_running := False\<rparr>, Inr ()))"

definition reopen_cluster_writes :: "bool \<Rightarrow> bool \<Rightarrow> bool \<Rightarrow> fnode \<Rightarrow> fnode \<times> (http_error + unit)" where
  "reopen_cluster_writes admin ok_store ok_file n =
     (let l = (fn_local n)\<lparr>l_acting := False, l_fenced := False\<rparr> in
      if \<not> admin then (n, Inl Unauthorized)
      else if \<not> ok_store then (n, Inl Internal)
      else if \<not> ok_file then (n\<lparr>fn_local := l\<rparr>, Inl Internal)
      else (n\<lparr>fn_local := l, fn_hold := True\<rparr>, Inr ()))"

text \<open>The gate in front of every request; \<open>None\<close>: the local state cannot be read.\<close>

definition read_methods :: "ustr set" where
  "read_methods = {lit ''GET'', lit ''HEAD'', lit ''OPTIONS'', lit ''TRACE''}"

definition fence_lets_through :: "ustr \<Rightarrow> ustr \<Rightarrow> local_state option \<Rightarrow> bool" where
  "fence_lets_through verb path l =
     (if verb \<in> read_methods \<or> path = lit ''/api/v1/cluster/reopen-writes'' then True
      else \<not> unwrap_or (map_option l_fenced l) False)"

section \<open>A node's life\<close>

inductive fstep :: "fnode \<Rightarrow> fnode \<Rightarrow> bool" where
  round: "fn_running n \<Longrightarrow> ri_file io \<Longrightarrow> fstep n (worker_round io n)"
| reclaim: "fn_running n \<Longrightarrow> rc_file io \<Longrightarrow> fstep n (maybe_reclaim_preferred io nodes n)"
| quiesce: "fn_running n \<Longrightarrow> fstep n (fst (failover_quiesce pg ok secret n))"
| timeout: "fn_running n \<Longrightarrow> fstep n (quiesce_timeout ok n)"
| resume: "fn_running n \<Longrightarrow> fstep n (fst (failover_resume ok secret n))"
| demote: "fn_running n \<Longrightarrow> fstep n (fst (failover_demote ok True secret url n))"
| reopen: "fn_running n \<Longrightarrow> fstep n (fst (reopen_cluster_writes admin ok file n))"
| crash: "fstep n (n\<lparr>fn_running := False\<rparr>)"
| boot: "\<not> fn_running n \<Longrightarrow> fstep n (boot ok1 True ok2 True ok3 n)"

inductive_cases fstepE: "fstep n n'"

inductive freach :: "fnode \<Rightarrow> fnode \<Rightarrow> bool" where
  refl: "freach n n"
| step: "freach n n' \<Longrightarrow> fstep n' n'' \<Longrightarrow> freach n n''"

end
