(* ===== verification/FailoverProps.thy ===== *)
theory FailoverProps
  imports Failover
begin

text \<open>
  The properties of elections, terms and fences, over the steps of \<open>Failover\<close>.
\<close>

section \<open>Elections\<close>

text \<open>C13. Workers that share a roster elect at most one of them, and the winner is the eligible
  worker (not drained, with an announced URL) with the least id; there is a winner as soon as
  one worker is eligible.\<close>

theorem election_unique:
  shows "(i_am_failover_winner a cs \<and> i_am_failover_winner b cs \<longrightarrow> a = b)
       \<and> (i_am_failover_winner a cs \<longrightarrow> (\<exists>w \<in> set cs. r_id w = a \<and> candidate w) \<and> (\<forall>n \<in> set cs. candidate n \<longrightarrow> a \<le> r_id n))
       \<and> ((\<exists>n \<in> set cs. candidate n) \<longrightarrow> (\<exists>a. i_am_failover_winner a cs))"
proof -
  have "pick_failover_winner cs = Some w \<Longrightarrow> w \<in> set cs \<and> candidate w \<and> (\<forall>n \<in> set cs. candidate n \<longrightarrow> r_id w \<le> r_id n)" for w
    using winner_spec by blast
  moreover have "(\<exists>n \<in> set cs. candidate n) \<longleftrightarrow> (\<exists>w. pick_failover_winner cs = Some w)"
    using winner_exists [of cs] by auto
  moreover have "i_am_failover_winner x cs \<longleftrightarrow> (\<exists>w. pick_failover_winner cs = Some w \<and> r_id w = x)" for x
    by (auto simp: i_am_failover_winner_def is_some_and_def split: option.splits)
  ultimately show ?thesis by auto
qed

definition sample_roster :: "roster_entry list" where
  "sample_roster = [\<lparr>r_id = lit ''b'', r_name = lit ''b'', r_role = Worker, r_url = lit ''http://b'', r_drained = False\<rparr>,
     \<lparr>r_id = lit ''a'', r_name = lit ''a'', r_role = Worker, r_url = lit ''http://a'', r_drained = True\<rparr>]"

theorem election_unique_witness:
  "i_am_failover_winner (lit ''b'') sample_roster \<and> \<not> i_am_failover_winner (lit ''a'') sample_roster"
proof -
  have "trim (lit ''http://b'') \<noteq> []" by (simp add: trim_by_id is_ws_def)
  then have "\<exists>n \<in> set sample_roster. candidate n"
    by (simp add: sample_roster_def candidate_def)
  then obtain x where x: "i_am_failover_winner x sample_roster"
    using election_unique [of x sample_roster x] by blast
  then obtain w where "w \<in> set sample_roster" "r_id w = x" "candidate w"
    using election_unique [of x sample_roster x] by blast
  then have "x = lit ''b''" by (auto simp: sample_roster_def candidate_def)
  then show ?thesis using x election_unique [of "lit ''a''" sample_roster "lit ''b''"] by auto
qed

section \<open>Terms\<close>

text \<open>A pending promotion is a worker's, a pending return is a leader's, and neither file holds
  an older term than the node.\<close>

definition files_ok :: "fnode \<Rightarrow> bool" where
  "files_ok n \<longleftrightarrow>
     (fn_promote n \<longrightarrow> l_role (fn_local n) = Worker \<and> (\<forall>l. fn_identity n = Some l \<longrightarrow> l_term (fn_local n) \<le> l_term l))
   \<and> (fn_reclaim n \<noteq> None \<longrightarrow> l_role (fn_local n) = Leader \<and> \<not> l_acting (fn_local n)
        \<and> (\<forall>l. fn_reclaim n = Some (Some l) \<longrightarrow> l_term (fn_local n) \<le> l_term l))"

definition grows :: "fnode \<Rightarrow> fnode \<Rightarrow> bool" where
  "grows n n' \<longleftrightarrow> files_ok n' \<and> l_term (fn_local n) \<le> l_term (fn_local n')"

lemma grows_refl: "files_ok n \<Longrightarrow> grows n n"
  by (simp add: grows_def)

lemma grows_trans: "grows a b \<Longrightarrow> grows b c \<Longrightarrow> grows a c"
  by (auto simp: grows_def)

lemma succ_sat_le: "t \<le> succ_sat t"
  by (simp add: succ_sat_def)

lemma grows_promote: "files_ok n \<Longrightarrow> grows n (apply_promote_flag ok True n)"
  using succ_sat_le
  by (auto simp: grows_def files_ok_def apply_promote_flag_def promoted_def write_identity_def
      split: option.split intro: order_trans [OF _ max.cobounded1] order_trans)

lemma grows_reclaim: "files_ok n \<Longrightarrow> grows n (apply_reclaim_flag ok file n)"
  by (auto simp: grows_def files_ok_def apply_reclaim_flag_def reclaimed_def write_identity_def Let_def
      split: option.split)

lemma grows_release: "files_ok n \<Longrightarrow> grows n (release_orphan_fence ok n)"
  by (auto simp: grows_def files_ok_def release_orphan_fence_def store_local_def)

lemma grows_boot: "files_ok n \<Longrightarrow> grows n (boot ok1 True ok2 True ok3 n)"
proof -
  assume "files_ok n"
  then have 1: "grows n (apply_promote_flag ok1 True n)" by (rule grows_promote)
  then have 2: "grows (apply_promote_flag ok1 True n) (apply_reclaim_flag ok2 True (apply_promote_flag ok1 True n))"
    by (intro grows_reclaim) (simp add: grows_def)
  then have "grows (apply_reclaim_flag ok2 True (apply_promote_flag ok1 True n))
      (release_orphan_fence ok3 (apply_reclaim_flag ok2 True (apply_promote_flag ok1 True n)))"
    by (intro grows_release) (simp add: grows_def)
  with 1 2 have "grows n (release_orphan_fence ok3 (apply_reclaim_flag ok2 True (apply_promote_flag ok1 True n)))"
    by (blast intro: grows_trans)
  then show ?thesis by (simp add: boot_def grows_def files_ok_def)
qed

lemma grows_elect:
  assumes "files_ok n" and "l_role (fn_local n) = Worker"
  shows "grows n (try_elect io (fn_local n) n)"
  using assms
  by (auto simp: try_elect_def grows_def files_ok_def store_local_def Let_def split: option.split)

lemma grows_round:
  assumes "files_ok n" and "ri_file io"
  shows "grows n (worker_round io n)"
proof (cases "l_role (fn_local n) \<noteq> Worker \<or> l_secret (fn_local n) = []")
  case True
  then show ?thesis using assms by (simp add: worker_round_def grows_refl)
next
  case w: False
  then have r: "fn_reclaim n = None" using assms(1) by (auto simp: files_ok_def)
  show ?thesis
  proof (cases "ri_reply io")
    case (Acked a)
    then show ?thesis
      using assms w r
      by (auto simp: worker_round_def persist_ack_def acked_def store_local_def write_identity_def
          grows_def files_ok_def Let_def)
  next
    case NoAnswer
    have e: "grows n ((try_elect (ri_elect io) (fn_local n) n)\<lparr>fn_fail := 0\<rparr>)"
      using grows_elect [OF assms(1), of "ri_elect io"] w by (simp add: grows_def files_ok_def)
    have s: "grows n (store_local ok ((fn_local n)\<lparr>l_leader_url := u, l_acting := False\<rparr>) (n\<lparr>fn_fail := 0\<rparr>))" for ok u
      using assms w r by (simp add: store_local_def grows_def files_ok_def)
    have f: "grows n (n\<lparr>fn_fail := k\<rparr>)" for k
      using assms by (simp add: grows_def files_ok_def)
    show ?thesis using NoAnswer w e s f by (simp add: worker_round_def Let_def)
  qed
qed

lemma grows_reopen: "files_ok n \<Longrightarrow> grows n (reopen_writes ok (fn_local n) n)"
  by (auto simp: reopen_writes_def store_local_def grows_def files_ok_def)

lemma grows_reclaim_from:
  assumes "files_ok n" and "l_role (fn_local n) = Leader" and "\<not> l_acting (fn_local n)"
    and "rc_file io" and "fn_local n = l"
  shows "grows n (reclaim_from io l ps n)"
  using assms
proof (induction ps arbitrary: n)
  case Nil
  then show ?case using grows_reopen by auto
next
  case (Cons p ps)
  let ?p = "n\<lparr>fn_pending := True\<rparr>"
  have p: "grows n (reclaim_from io l ps ?p)"
    using Cons.IH [of ?p] Cons.prems by (auto simp: grows_def files_ok_def)
  have d: "grows n (m\<lparr>fn_local := resumed l st, fn_reclaim := Some (Some ((resumed l st)\<lparr>l_fenced := False\<rparr>)), fn_running := False\<rparr>)"
    if "m = n \<or> m = ?p" for m st
    using that Cons.prems by (auto simp: grows_def files_ok_def resumed_def)
  show ?case
    using p d [of n] d [of ?p] Cons.IH [OF Cons.prems] Cons.prems(4)
    by (auto simp: Let_def split: option.split copy.split)
qed

lemma grows_maybe_reclaim:
  assumes "files_ok n" and "rc_file io"
  shows "grows n (maybe_reclaim_preferred io nodes n)"
proof -
  let ?h = "n\<lparr>fn_hold := False\<rparr>"
  have "grows n (reclaim_from io (fn_local n) ps ?h)" if "l_role (fn_local n) = Leader" "\<not> l_acting (fn_local n)" for ps
    using grows_reclaim_from [of ?h io "fn_local n" ps] that assms by (auto simp: grows_def files_ok_def)
  moreover have "grows n (reclaim_from io (fn_local n) ps n)" if "l_role (fn_local n) = Leader" "\<not> l_acting (fn_local n)" for ps
    using grows_reclaim_from [of n io "fn_local n" ps] that assms by simp
  ultimately show ?thesis
    using assms grows_reopen grows_refl by (auto simp: maybe_reclaim_preferred_def Let_def split: option.split)
qed

lemma grows_handlers:
  assumes "files_ok n"
  shows "grows n (fst (failover_quiesce pg ok secret n))" and "grows n (quiesce_timeout ok n)"
    and "grows n (fst (failover_resume ok secret n))" and "grows n (fst (failover_demote ok True secret url n))"
    and "grows n (fst (reopen_cluster_writes admin ok file n))"
  using assms
  by (auto simp: grows_def files_ok_def failover_quiesce_def quiesce_timeout_def failover_resume_def
      failover_demote_def reopen_cluster_writes_def store_local_def write_identity_def demoted_def Let_def)

lemma fstep_grows: "fstep n n' \<Longrightarrow> files_ok n \<Longrightarrow> grows n n'"
proof (induction rule: fstep.induct)
  case (crash n)
  then show ?case by (simp add: grows_def files_ok_def)
qed (simp_all only: grows_round grows_maybe_reclaim grows_handlers grows_boot)

lemma freach_grows: "freach n n' \<Longrightarrow> files_ok n \<Longrightarrow> grows n n'"
proof (induction rule: freach.induct)
  case (step n n1 n2)
  then have "grows n n1" by simp
  with fstep_grows [OF step.hyps(2)] show ?case by (auto simp: grows_def)
qed (rule grows_refl)

definition sample_worker :: fnode where
  "sample_worker = \<lparr>fn_local = default_local\<lparr>l_role := Worker, l_node_id := lit ''b'', l_secret := lit ''s'',
       l_url := lit ''http://b'', l_term := 4\<rparr>,
     fn_identity = None, fn_promote = False, fn_reclaim = None, fn_roster = sample_roster,
     fn_snapshot = True, fn_pending = False, fn_hold = False, fn_running = True, fn_fail = 3\<rparr>"

text \<open>The fourth heartbeat in a row without an answer, while everything else works.\<close>

definition sample_lost :: round_io where
  "sample_lost = \<lparr>ri_reply = NoAnswer, ri_store = True, ri_roster = True, ri_file = True, ri_due = False,
     ri_fetched = False, ri_pref_alive = False,
     ri_elect = \<lparr>io_acting = (\<lambda>_. False), io_standby = False, io_store = True, io_identity = True,
       io_copy = True, io_flag = True\<rparr>\<rparr>"



text \<open>A worker that won an election, wrote its flags and reboots with a working store leads
  as the interim with writes open and a higher term: the leader it replaces, whose term it
  had acknowledged, yields to it when it comes back.\<close>

theorem interim_supersedes:
  assumes "files_ok n" and "fn_promote n" and "fn_identity n = Some l" and "l_term l < i64_max"
    and "t \<le> l_term (fn_local n)" and "l_node_id l \<noteq> []" and "l_node_id l \<noteq> old"
  shows "let l' = fn_local (boot True True ok2 True ok3 n) in
         l_role l' = Leader \<and> l_acting l' \<and> \<not> l_fenced l' \<and> l_term (fn_local n) < l_term l'
       \<and> must_yield_to_interim old t (l_node_id l') (l_acting l') (l_term l')"
proof -
  have r: "fn_reclaim n = None" and le: "l_term (fn_local n) \<le> l_term l"
    using assms(1-3) by (auto simp: files_ok_def)
  have "fn_local (boot True True ok2 True ok3 n) = promoted l"
    using assms(2,3) r
    by (simp add: boot_def apply_promote_flag_def apply_reclaim_flag_def write_identity_def
        release_orphan_fence_def promoted_def)
  then show ?thesis
    using assms(4-7) le by (auto simp: promoted_def succ_sat_def must_yield_to_interim_def Let_def)
qed

definition sample_promoted :: fnode where
  "sample_promoted = sample_worker\<lparr>fn_identity := Some (fn_local sample_worker), fn_promote := True, fn_running := False\<rparr>"

theorem interim_supersedes_witness:
  "must_yield_to_interim leader_node_id 4 (lit ''b'') True
     (l_term (fn_local (boot True True True True True sample_promoted)))"
proof -
  have b: "l_node_id (fn_local (boot True True True True True sample_promoted)) = lit ''b''"
      "l_acting (fn_local (boot True True True True True sample_promoted))"
    by (simp_all add: boot_def apply_promote_flag_def apply_reclaim_flag_def write_identity_def
        release_orphan_fence_def promoted_def sample_promoted_def sample_worker_def)
  have "let l' = fn_local (boot True True True True True sample_promoted) in
         l_role l' = Leader \<and> l_acting l' \<and> \<not> l_fenced l' \<and> l_term (fn_local sample_promoted) < l_term l'
       \<and> must_yield_to_interim leader_node_id 4 (l_node_id l') (l_acting l') (l_term l')"
    by (rule interim_supersedes [where l = "fn_local sample_worker"])
      (simp_all add: files_ok_def sample_promoted_def sample_worker_def i64_max_def leader_node_id_def)
  then show ?thesis using b by (simp add: Let_def)
qed

section \<open>Fences\<close>

lemma reclaim_from_fences:
  assumes "fn_running n" and "\<not> fn_running (reclaim_from io l ps n)"
  shows "\<exists>p \<in> set ps. \<exists>st. yields_to (rc_status io) l p = Some st \<and> rc_copy io (n_url p) \<noteq> NoCopy
      \<and> fn_local (reclaim_from io l ps n) = resumed l st"
  using assms
proof (induction ps arbitrary: n)
  case Nil
  then show ?case by (auto simp: reopen_writes_def store_local_def split: if_splits)
next
  case (Cons p ps)
  let ?p = "n\<lparr>fn_pending := True\<rparr>"
  show ?case
  proof (cases "yields_to (rc_status io) l p")
    case None
    then show ?thesis using Cons by simp
  next
    case (Some st)
    show ?thesis
    proof (cases "rc_copy io (n_url p) = NoCopy")
      case True
      then show ?thesis using Cons Some by simp
    next
      case c: False
      show ?thesis
      proof (cases "rc_store io (n_url p)")
        case True
        then show ?thesis using c Some by (cases "rc_copy io (n_url p)") (auto simp: Let_def)
      next
        case False
        then show ?thesis
          using c Some Cons.IH [of n] Cons.IH [of ?p] Cons.prems
          by (cases "rc_copy io (n_url p)") (auto simp: Let_def)
      qed
    qed
  qed
qed

text \<open>C14. The preferred leader that yields closes its writes in the store before it restarts:
  whenever a return is armed the running process lets no writing request through, the one
  that reopens writes apart, and it does so only with a copy of the interim's data.\<close>

theorem reclaim_closes_writes:
  assumes "fn_running n" and "\<not> fn_running (maybe_reclaim_preferred io nodes n)"
    and "verb \<notin> read_methods" and "path \<noteq> lit ''/api/v1/cluster/reopen-writes''"
  shows "\<not> fence_lets_through verb path (Some (fn_local (maybe_reclaim_preferred io nodes n)))
       \<and> (\<exists>ps p st. nodes = Some ps \<and> p \<in> set ps \<and> yields_to (rc_status io) (fn_local n) p = Some st
            \<and> rc_copy io (n_url p) \<noteq> NoCopy)"
proof -
  let ?l = "fn_local n" and ?r = "maybe_reclaim_preferred io nodes n"
  have ro: "fn_running (reopen_writes ok ?l n) = fn_running n" for ok
    by (simp add: reopen_writes_def store_local_def)
  obtain ps where ps: "nodes = Some ps" and "?r = reclaim_from io ?l ps n \<or> ?r = reclaim_from io ?l ps (n\<lparr>fn_hold := False\<rparr>)"
    using assms(1,2) ro
    by (cases nodes) (auto simp: maybe_reclaim_preferred_def Let_def split: if_splits)
  then obtain m where m: "fn_running m" and r: "?r = reclaim_from io ?l ps m"
    using assms(1) by (metis fnode.select_convs(9) fnode.surjective fnode.update_convs(8))
  have "\<not> fn_running (reclaim_from io ?l ps m)" using assms(2) r by simp
  from reclaim_from_fences [OF m this]
  obtain p st where p: "p \<in> set ps" "yields_to (rc_status io) ?l p = Some st" "rc_copy io (n_url p) \<noteq> NoCopy"
    and l: "fn_local ?r = resumed ?l st" unfolding r by blast
  have "\<not> fence_lets_through verb path (Some (fn_local ?r))"
    using assms(3,4) by (simp add: fence_lets_through_def l resumed_def)
  then show ?thesis using ps p by blast
qed

definition sample_leader :: fnode where
  "sample_leader = sample_worker\<lparr>fn_local := default_local\<lparr>l_url := lit ''http://l''\<rparr>, fn_fail := 0\<rparr>"

definition sample_interim :: node where
  "sample_interim = (leader_node (lit ''b'') (lit ''http://b'') [] [] [])\<lparr>n_id := lit ''b'', n_role := Worker\<rparr>"

definition sample_reclaim :: reclaim_io where
  "sample_reclaim = \<lparr>rc_hold_status = (\<lambda>_. None),
     rc_status = (\<lambda>_. Some \<lparr>f_acting = True, f_node_id = lit ''b'', f_term = 5\<rparr>),
     rc_copy = (\<lambda>_. CloneOk), rc_store = (\<lambda>_. True), rc_file = True, rc_reopen = True\<rparr>"

theorem reclaim_closes_writes_witness:
  "\<not> fence_lets_through (lit ''POST'') (lit ''/api/v1/projects'')
      (Some (fn_local (maybe_reclaim_preferred sample_reclaim (Some [sample_interim]) sample_leader)))"
proof -
  have t: "trim (lit ''http://b'') \<noteq> []" by (simp add: trim_by_id is_ws_def)
  then have "\<not> fn_running (maybe_reclaim_preferred sample_reclaim (Some [sample_interim]) sample_leader)"
    by (simp add: maybe_reclaim_preferred_def sample_leader_def sample_worker_def default_local_def
        sample_interim_def leader_node_def yields_to_def must_yield_to_interim_def sample_reclaim_def
        leader_node_id_def Let_def)
  moreover have "fn_running sample_leader" by (simp add: sample_leader_def sample_worker_def)
  ultimately show ?thesis
    using reclaim_closes_writes [of sample_leader sample_reclaim "Some [sample_interim]"
        "lit ''POST''" "lit ''/api/v1/projects''"]
    by (simp add: read_methods_def)
qed

end
