(* ===== verification/WakeStore.thy ===== *)
theory WakeStore
  imports RustStr Tables
begin

text \<open>
  The tables behind the automatic wakes of the agents (\<open>wake_causes.rs\<close> and \<open>wake_gate.rs\<close> of
  \<open>apps/server/src\<close>): \<open>agent_wake_causes\<close>, \<open>agent_wake_state\<close>, \<open>agent_wake_log\<close> and the part of
  \<open>agent_runs\<close> and \<open>agent_messages\<close> they use. As for the deployments, a table is the list of its
  rows and \<open>wk_faults\<close> is the schedule of the connection. Instants and durations are in
  nanoseconds; an operation reads the clock once.
\<close>

section \<open>Instants\<close>

type_synonym instant = int
type_synonym duration = int

definition minutes :: "int \<Rightarrow> duration" where "minutes m = m * 60000000000"

definition hours :: "int \<Rightarrow> duration" where "hours h = minutes (h * 60)"

lemma minutes_mono [simp]:
  "minutes a \<le> minutes b \<longleftrightarrow> a \<le> b" "minutes a < minutes b \<longleftrightarrow> a < b" "minutes 0 = 0"
  by (simp_all add: minutes_def)

section \<open>Rows\<close>

record cause_row =
  wc_project :: ustr
  wc_hash :: ustr
  wc_kind :: ustr
  wc_summary :: ustr
  wc_first :: instant
  wc_last :: instant
  wc_occ :: int
  wc_action :: "ustr option"
  wc_wake :: "instant option"
  wc_dep :: "ustr option"

record state_row =
  ws_project :: ustr
  ws_key :: ustr
  ws_hash :: ustr
  ws_outcome :: ustr
  ws_at :: instant

record log_row =
  wl_id :: int
  wl_project :: ustr
  wl_source :: ustr
  wl_key :: ustr
  wl_label :: ustr
  wl_outcome :: ustr
  wl_cause :: ustr
  wl_hash :: ustr
  wl_run :: "ustr option"
  wl_repeat :: int
  wl_created :: instant
  wl_last :: instant

record run_row =
  ar_uuid :: ustr
  ar_project :: ustr
  ar_agent :: ustr
  ar_status :: ustr
  ar_error :: "ustr option"
  ar_created :: ustr

record message_row =
  am_project :: ustr
  am_agent :: ustr
  am_content :: ustr
  am_at :: ustr

text \<open>The log is kept in the order of its ids, which \<open>BIGSERIAL\<close> draws from \<open>wk_next\<close>.\<close>

record wake_db =
  wk_causes :: "cause_row list"
  wk_states :: "state_row list"
  wk_log :: "log_row list"
  wk_runs :: "run_row list"
  wk_messages :: "message_row list"
  wk_next :: int
  wk_faults :: "bool list"

definition empty_wakes :: wake_db where
  "empty_wakes = \<lparr>wk_causes = [], wk_states = [], wk_log = [], wk_runs = [], wk_messages = [],
     wk_next = 1, wk_faults = []\<rparr>"

definition cause_key :: "cause_row \<Rightarrow> ustr \<times> ustr" where
  "cause_key r = (wc_project r, wc_hash r)"

definition state_key :: "state_row \<Rightarrow> ustr \<times> ustr" where
  "state_key r = (ws_project r, ws_key r)"

lemma cause_key_upd [simp]:
  "cause_key (r\<lparr>wc_summary := a\<rparr>) = cause_key r" "cause_key (r\<lparr>wc_first := b\<rparr>) = cause_key r"
  "cause_key (r\<lparr>wc_last := b\<rparr>) = cause_key r" "cause_key (r\<lparr>wc_occ := c\<rparr>) = cause_key r"
  "cause_key (r\<lparr>wc_action := d\<rparr>) = cause_key r" "cause_key (r\<lparr>wc_wake := e\<rparr>) = cause_key r"
  "cause_key (r\<lparr>wc_dep := d\<rparr>) = cause_key r"
  by (simp_all add: cause_key_def)

definition cause_of :: "wake_db \<Rightarrow> ustr \<Rightarrow> ustr \<Rightarrow> cause_row option" where
  "cause_of w p h = select_row cause_key (p, h) (wk_causes w)"

definition state_of :: "wake_db \<Rightarrow> ustr \<Rightarrow> ustr \<Rightarrow> state_row option" where
  "state_of w p k = select_row state_key (p, k) (wk_states w)"

section \<open>Queries\<close>

definition wq :: "(wake_db \<Rightarrow> wake_db \<times> 'a) \<Rightarrow> wake_db \<Rightarrow> wake_db \<times> 'a option" where
  "wq q w =
     (case wk_faults w of
        [] \<Rightarrow> (case q w of (w', r) \<Rightarrow> (w', Some r))
      | f # fs \<Rightarrow>
          if f then (w\<lparr>wk_faults := fs\<rparr>, None)
          else (case q (w\<lparr>wk_faults := fs\<rparr>) of (w', r) \<Rightarrow> (w', Some r)))"

lemma wq_nofault: "wk_faults w = [] \<Longrightarrow> wq q w = (case q w of (w', r) \<Rightarrow> (w', Some r))"
  by (simp add: wq_def)

text \<open>What a query's body keeps, the query keeps.\<close>

lemma wq_keeps:
  assumes "P w" and "\<And>v. P v \<Longrightarrow> P (fst (q v))" and "\<And>v fs. P v \<Longrightarrow> P (v\<lparr>wk_faults := fs\<rparr>)"
  shows "P (fst (wq q w))"
  using assms(1) assms(2) [of w] assms(2) [of "w\<lparr>wk_faults := tl (wk_faults w)\<rparr>"] assms(3) [of w]
  by (auto simp: wq_def split: list.split prod.split)

lemma wq_field:
  assumes "\<And>v. f (fst (q v)) = f v" and "\<And>v fs. f (v\<lparr>wk_faults := fs\<rparr>) = f v"
  shows "f (fst (wq q w)) = f w"
  using wq_keeps [of "\<lambda>v. f v = f w" w q] assms by simp

lemma wq_faults_nil:
  assumes "wk_faults w = []" and "\<And>v. wk_faults (fst (q v)) = wk_faults v"
  shows "wk_faults (fst (wq q w)) = []"
  using assms(1) assms(2) [of w] by (cases "q w") (simp add: wq_nofault)

end
