(* ===== verification/WakeCauses.thy ===== *)
theory WakeCauses
  imports WakeStore Json DeployDb
begin

text \<open>
  The causes of automatic wakes (\<open>apps/server/src/wake_causes.rs\<close>): a failure is counted by the
  hash of its normalised diagnosis, and the count decides between a repair, an escalation and
  silence. SHA-256, the \<open>regex\<close> crate and the JSON parser are arguments.
\<close>

section \<open>The hash of a cause\<close>

record wake_env =
  we_sha256 :: "ustr \<Rightarrow> nat list"
  we_replace_all :: "ustr \<Rightarrow> ustr \<Rightarrow> ustr \<Rightarrow> ustr"
  we_parse :: "ustr \<Rightarrow> json option"

text \<open>The pattern of every normaliser and what replaces its matches.\<close>

definition normalizers :: "(ustr \<times> ustr) list" where
  "normalizers =
    [(lit ''[0-9a-f]{8}-[0-9a-f]{4}-[0-9a-f]{4}-[0-9a-f]{4}-[0-9a-f]{12}'', lit ''<uuid>''),
     ([92] @ lit ''b[0-9a-f]{7,40}'' @ [92] @ lit ''b'', lit ''<sha>''),
     (lit ''(/tmp|/var/folders|/private/var)/[^'' @ [92] @ lit ''s:'' @ [39, 92]
     @ lit ''x22]+'', lit ''<tmp>''),
     ([92] @ lit ''d{4}-'' @ [92] @ lit ''d{2}-'' @ [92] @ lit ''d{2}[t ]['' @ [92]
     @ lit ''d:.]+z?'',
        lit ''<ts>''),
     ([92] @ lit ''d+'', lit ''<n>''),
     ([92] @ lit ''s+'', lit '' '')]"

definition normalize_summary :: "wake_env \<Rightarrow> ustr \<Rightarrow> ustr" where
  "normalize_summary E summary =
     trim (fold (\<lambda>(re, rep) s. we_replace_all E re rep s) normalizers (to_lowercase summary))"

definition hex16 :: "nat list \<Rightarrow> ustr" where
  "hex16 digest = concat (map hex2 (take 8 digest))"

definition cause_hash :: "wake_env \<Rightarrow> ustr \<Rightarrow> ustr \<Rightarrow> ustr" where
  "cause_hash E kind summary = hex16 (we_sha256 E (kind @ [10] @ normalize_summary E summary))"

section \<open>The decision\<close>

datatype wake_decision = Normal | Escalate | Silent

definition kind_deploy_fail :: ustr where "kind_deploy_fail = lit ''deploy_fail''"
definition silence_window_hours :: int where "silence_window_hours = 6"
definition resolved_act :: ustr where "resolved_act = lit ''resolved''"

definition decide_wake :: "int \<Rightarrow> ustr option \<Rightarrow> instant option \<Rightarrow> instant \<Rightarrow> wake_decision" where
  "decide_wake occurrences last_action last_wake_at now =
     (if occurrences \<le> 1 \<or> last_action = Some resolved_act then Normal
      else (let recent = unwrap_or (map_option (\<lambda>t. now - t < hours silence_window_hours) last_wake_at) False
            in if occurrences \<ge> 3 \<and> recent then Silent else Escalate))"

record cause_state =
  cs_hash :: ustr
  cs_occurrences :: int
  cs_action :: "ustr option"
  cs_first :: instant
  cs_decision :: wake_decision

section \<open>Recording\<close>

text \<open>The columns \<open>ON CONFLICT\<close> computes from the old row.\<close>

definition cause_conflict :: "cause_row \<Rightarrow> cause_row \<Rightarrow> cause_row" where
  "cause_conflict old new =
     (let same = (wc_dep old = wc_dep new); over = (wc_action old = Some resolved_act) in
      old\<lparr>wc_occ := (if same then wc_occ old else if over then 1 else wc_occ old + 1),
          wc_first := (if over \<and> \<not> same then wc_first new else wc_first old),
          wc_action := (if over \<and> \<not> same then None else wc_action old),
          wc_last := wc_last new, wc_summary := wc_summary new, wc_dep := wc_dep new\<rparr>)"

definition new_cause :: "ustr \<Rightarrow> ustr \<Rightarrow> ustr \<Rightarrow> ustr \<Rightarrow> ustr \<Rightarrow> instant \<Rightarrow> cause_row" where
  "new_cause p hash kind summary dep now = \<lparr>wc_project = p, wc_hash = hash, wc_kind = kind,
     wc_summary = summary, wc_first = now, wc_last = now, wc_occ = 1, wc_action = None,
     wc_wake = None, wc_dep = Some dep\<rparr>"

text \<open>\<open>INSERT ... RETURNING\<close>: the row as it is afterwards.\<close>

definition upsert_cause :: "cause_row \<Rightarrow> wake_db \<Rightarrow> wake_db \<times> cause_row" where
  "upsert_cause r w =
     (w\<lparr>wk_causes := upsert_row cause_key cause_conflict r (wk_causes w)\<rparr>,
      (case select_row cause_key (cause_key r) (wk_causes w) of
         None \<Rightarrow> r | Some old \<Rightarrow> cause_conflict old r))"

definition register_failure ::
  "wake_env \<Rightarrow> instant \<Rightarrow> ustr \<Rightarrow> ustr \<Rightarrow> ustr \<Rightarrow> ustr \<Rightarrow> wake_db \<Rightarrow> wake_db \<times> (sql_error + cause_state)" where
  "register_failure E now p kind summary dep w =
     (let hash = cause_hash E kind summary;
          (w', row) = wq (upsert_cause (new_cause p hash kind summary dep now)) w
      in case row of
           None \<Rightarrow> (w', Inl SqlxError)
         | Some r \<Rightarrow> (w', Inr \<lparr>cs_hash = hash, cs_occurrences = wc_occ r, cs_action = wc_action r,
              cs_first = wc_first r, cs_decision = decide_wake (wc_occ r) (wc_action r) (wc_wake r) now\<rparr>))"

definition upd_causes :: "(cause_row \<Rightarrow> bool) \<Rightarrow> (cause_row \<Rightarrow> cause_row) \<Rightarrow> wake_db \<Rightarrow> wake_db \<times> unit" where
  "upd_causes p f w = (w\<lparr>wk_causes := map (\<lambda>r. if p r then f r else r) (wk_causes w)\<rparr>, ())"

definition mark_woken :: "instant \<Rightarrow> ustr \<Rightarrow> ustr \<Rightarrow> wake_db \<Rightarrow> wake_db" where
  "mark_woken now p hash w =
     fst (wq (upd_causes (\<lambda>r. wc_project r = p \<and> wc_hash r = hash) (\<lambda>r. r\<lparr>wc_wake := Some now\<rparr>)) w)"

definition resolve_deploy_causes :: "ustr \<Rightarrow> wake_db \<Rightarrow> wake_db" where
  "resolve_deploy_causes p w =
     fst (wq (upd_causes (\<lambda>r. wc_project r = p \<and> wc_kind r = kind_deploy_fail)
                         (\<lambda>r. r\<lparr>wc_action := Some resolved_act\<rparr>)) w)"

section \<open>What a wake did\<close>

text \<open>The leftmost match of \<open>Cause #([0-9a-f]{16})\<close>.\<close>

definition is_lower_hex :: "uchar \<Rightarrow> bool" where
  "is_lower_hex c \<longleftrightarrow> is_ascii_digit c \<or> (97 \<le> c \<and> c \<le> 102)"

definition cause_here :: "ustr \<Rightarrow> ustr option" where
  "cause_here s =
     Option.bind (strip_prefix s (lit ''Cause #''))
       (\<lambda>t. if 16 \<le> length t \<and> list_all is_lower_hex (take 16 t) then Some (take 16 t) else None)"

fun cause_in_message :: "ustr \<Rightarrow> ustr option" where
  "cause_in_message [] = None"
| "cause_in_message (c # s) = opt_or (cause_here (c # s)) (cause_in_message s)"

definition call_name :: "json \<Rightarrow> ustr" where
  "call_name c = unwrap_or (Option.bind (jgets ''name'' c) as_str) []"

definition call_ok :: "json \<Rightarrow> bool" where
  "call_ok c \<longleftrightarrow> Option.bind (Option.bind (jgets ''result'' c) (jgets ''ok'')) as_bool \<noteq> Some False"

definition pushes :: "json \<Rightarrow> bool" where
  "pushes c \<longleftrightarrow> call_name c \<in> {lit ''create_github_fix'', lit ''sync_workdir_to_github'', lit ''publish_to_github''} \<and> call_ok c"

definition asks_approval :: "json \<Rightarrow> bool" where
  "asks_approval c \<longleftrightarrow>
     (let r = jgets ''result'' c in
      Option.bind (Option.bind r (jgets ''code'')) as_str = Some (lit ''publish_approval_required'')
    \<or> Option.bind (Option.bind r (jgets ''kind'')) as_str = Some (lit ''publish_approval''))"

definition edits_locally :: "json \<Rightarrow> bool" where
  "edits_locally c \<longleftrightarrow> call_name c \<in> {lit ''write_project_file'', lit ''run_workdir_command''} \<and> call_ok c"

text \<open>Text that is not an array of calls counts as no call.\<close>

definition tool_calls :: "wake_env \<Rightarrow> ustr \<Rightarrow> json list" where
  "tool_calls E s = (case we_parse E s of Some (JArr cs) \<Rightarrow> cs | _ \<Rightarrow> [])"

definition action_from_tools :: "wake_env \<Rightarrow> ustr \<Rightarrow> ustr option" where
  "action_from_tools E tools_json =
     (let calls = tool_calls E tools_json in
      if list_ex pushes calls then Some (lit ''pushed'')
      else if list_ex asks_approval calls then Some (lit ''escalated'')
      else if list_ex edits_locally calls then Some (lit ''local_fix'')
      else None)"

definition record_run_action :: "wake_env \<Rightarrow> ustr \<Rightarrow> ustr \<Rightarrow> ustr \<Rightarrow> wake_db \<Rightarrow> wake_db" where
  "record_run_action E p user_message tools_json w =
     (case cause_in_message user_message of
        None \<Rightarrow> w
      | Some hash \<Rightarrow>
          (case action_from_tools E tools_json of
             None \<Rightarrow> w
           | Some act \<Rightarrow>
               fst (wq (upd_causes
                 (\<lambda>r. wc_project r = p \<and> wc_hash r = hash \<and> wc_action r \<noteq> Some resolved_act)
                 (\<lambda>r. r\<lparr>wc_action := Some act\<rparr>)) w)))"

section \<open>The text of an escalation\<close>

definition ago :: "duration \<Rightarrow> ustr" where
  "ago d =
     (let m = nat (d div minutes 1) in
      if m < 60 then dec m @ lit '' min''
      else if m < 48 * 60 then dec (m div 60) @ lit '' h '' @ dec2 (m mod 60)
      else dec (m div (24 * 60)) @ lit '' j'')"

definition what_was_done :: "ustr option \<Rightarrow> ustr" where
  "what_was_done last_act =
     (if last_act = Some (lit ''local_fix'')
      then lit ''Le correctif local n'' @ [39] @ lit ''a pas '' @ [233] @ lit ''t'' @ [233]
        @ lit '' publi'' @ [233] @ lit ''.''
      else if last_act = Some (lit ''pushed'')
      then lit ''Le correctif a '' @ [233] @ lit ''t'' @ [233] @ lit '' pouss'' @ [233]
        @ lit '' mais le d'' @ [233] @ lit ''ploiement '' @ [233]
        @ lit ''choue toujours : la cause est ailleurs.''
      else if last_act = Some (lit ''escalated'')
      then lit ''La validation de publication est toujours en attente.''
      else lit ''La r'' @ [233] @ lit ''paration pr'' @ [233] @ lit ''c'' @ [233] @ lit ''dente n''
        @ [39] @ lit ''a rien chang'' @ [233] @ lit ''.'')"

definition escalation_text :: "instant \<Rightarrow> cause_state \<Rightarrow> ustr \<Rightarrow> ustr" where
  "escalation_text now cs summary =
     [9888, 65039] @ lit '' M'' @ [234] @ lit ''me cause qu'' @ [39] @ lit ''il y a '' @ ago (now - cs_first cs) @ lit '' (n='' @ show_int (cs_occurrences cs) @ lit ''). ''
     @ what_was_done (cs_action cs) @ [10] @ lit ''Diagnostic : '' @ summary @ [10]
     @ lit ''Ne refais pas le correctif : v'' @ [233] @ lit ''rifie l'' @ [39, 233]
     @ lit ''tat local (git status / diff via run_workdir_command), puis demande UNE fois la validation pour pousser le correctif (bouton ''
     @ [171] @ lit '' Valider la publication '' @ [187] @ lit ''). Si la cause n'' @ [39]
     @ lit ''est pas dans le code, explique ce qui bloque.''"

end
