(* ===== verification/WakeGate.thy ===== *)
theory WakeGate
  imports WakeCauses
begin

text \<open>
  The gate in front of every automatic run of an agent (\<open>apps/server/src/wake_gate.rs\<close>): the
  fingerprint of the observed state is compared with the one of the last run, and every
  launch and every skipped run is written to a log.
\<close>

section \<open>Fingerprint\<close>

text \<open>\<open>keys.sort()\<close> and an \<open>insert\<close> per key; the values are made canonical on the way.\<close>

fun canonical :: "json \<Rightarrow> json" where
  "canonical (JObj m) = JObj (fold (\<lambda>e. jinsert (fst e) (snd e)) (sort_key fst (map (\<lambda>(k, v). (k, canonical v)) m)) [])"
| "canonical (JArr vs) = JArr (map canonical vs)"
| "canonical v = v"

definition fingerprint :: "wake_env \<Rightarrow> (json \<Rightarrow> ustr) \<Rightarrow> json \<Rightarrow> ustr" where
  "fingerprint E print observed = hex16 (we_sha256 E (print (canonical observed)))"

section \<open>Decision\<close>

definition launched :: ustr where "launched = lit ''launched''"
definition skipped :: ustr where "skipped = lit ''skipped''"
definition run_done :: ustr where "run_done = lit ''done''"
definition run_failed :: ustr where "run_failed = lit ''failed''"

lemmas outcome_defs = launched_def skipped_def run_done_def run_failed_def

datatype decision = Launch ustr | Skip ustr

definition gate_decide :: "(ustr \<times> ustr) option \<Rightarrow> ustr \<Rightarrow> decision" where
  "gate_decide prev hash =
     (case prev of
        None \<Rightarrow> Launch (lit ''premier passage'')
      | Some (h, outcome) \<Rightarrow>
          if h \<noteq> hash then Launch ([233] @ lit ''tat chang'' @ [233])
          else if outcome = run_failed
          then Skip (lit ''m'' @ [234] @ lit ''me '' @ [233] @ lit ''tat que l'' @ [39, 233]
            @ lit ''chec pr'' @ [233] @ lit ''c'' @ [233] @ lit ''dent '' @ [8212]
            @ lit '' nouvel essai au prochain changement'')
          else if outcome = launched then Skip (lit ''run d'' @ [233] @ lit ''j'' @ [224] @ lit '' lanc'' @ [233] @ lit '' sur cet ''
     @ [233] @ lit ''tat'')
          else Skip ([233] @ lit ''tat inchang'' @ [233]))"

definition is_unattended :: "ustr \<Rightarrow> bool" where
  "is_unattended content =
     (let c = trim_start content in
      starts_with c (lit ''COORD-WAKE:'') \<or> starts_with c (lit ''AGENT-WAKE:CRON'')
    \<or> starts_with c (lit ''ROUTINE:'') \<or> starts_with c (lit ''CRON:'') \<or> starts_with c (lit ''EVENT:'')
    \<or> contains c (lit ''AUTO-R'' @ [201] @ lit ''PARATION''))"

record gate =
  g_decision :: decision
  g_hash :: ustr
  g_log :: "int option"

fun is_launch :: "decision \<Rightarrow> bool" where
  "is_launch (Launch c) = True"
| "is_launch (Skip c) = False"

section \<open>The log\<close>

definition last_log :: "(log_row \<Rightarrow> bool) \<Rightarrow> wake_db \<Rightarrow> wake_db \<times> log_row option" where
  "last_log p w = (w, find p (rev (wk_log w)))"

definition upd_log :: "int \<Rightarrow> (log_row \<Rightarrow> log_row) \<Rightarrow> wake_db \<Rightarrow> wake_db \<times> unit" where
  "upd_log i f w = (w\<lparr>wk_log := map (\<lambda>r. if wl_id r = i then f r else r) (wk_log w)\<rparr>, ())"

text \<open>\<open>INSERT ... RETURNING id\<close>; \<open>repeat\<close>, \<open>created_at\<close> and \<open>last_at\<close> have their defaults.\<close>

definition insert_log :: "log_row \<Rightarrow> wake_db \<Rightarrow> wake_db \<times> int" where
  "insert_log r w =
     (w\<lparr>wk_log := wk_log w @ [r\<lparr>wl_id := wk_next w\<rparr>], wk_next := wk_next w + 1\<rparr>, wk_next w)"

definition repeats :: "ustr \<Rightarrow> ustr \<Rightarrow> log_row \<Rightarrow> bool" where
  "repeats hash cause r \<longleftrightarrow> wl_outcome r = skipped \<and> wl_hash r = hash \<and> wl_cause r = cause"

definition append_row ::
  "instant \<Rightarrow> ustr \<Rightarrow> ustr \<Rightarrow> ustr \<Rightarrow> ustr \<Rightarrow> ustr \<Rightarrow> ustr \<Rightarrow> ustr \<Rightarrow> ustr option \<Rightarrow> wake_db \<Rightarrow> wake_db \<times> int option" where
  "append_row now p source key label outcome cause hash run =
     wq (insert_log \<lparr>wl_id = 0, wl_project = p, wl_source = source, wl_key = key, wl_label = take 120 label,
          wl_outcome = outcome, wl_cause = cause, wl_hash = hash, wl_run = run, wl_repeat = 1,
          wl_created = now, wl_last = now\<rparr>)"

definition record_wake ::
  "instant \<Rightarrow> ustr \<Rightarrow> ustr \<Rightarrow> ustr \<Rightarrow> ustr \<Rightarrow> ustr \<Rightarrow> ustr \<Rightarrow> ustr \<Rightarrow> ustr option \<Rightarrow> wake_db \<Rightarrow> wake_db \<times> int option" where
  "record_wake now p source key label outcome cause0 hash run w =
     (let cause = take 240 cause0 in
      if outcome \<noteq> skipped then append_row now p source key label outcome cause hash run w
      else (case wq (last_log (\<lambda>r. wl_project r = p \<and> wl_key r = key)) w of
              (w1, Some (Some r)) \<Rightarrow>
                if repeats hash cause r
                then (fst (wq (upd_log (wl_id r) (\<lambda>r. r\<lparr>wl_repeat := wl_repeat r + 1, wl_last := now\<rparr>)) w1), Some (wl_id r))
                else append_row now p source key label outcome cause hash run w1
            | (w1, _) \<Rightarrow> append_row now p source key label outcome cause hash run w1))"

section \<open>Before and after a run\<close>

definition set_state :: "instant \<Rightarrow> ustr \<Rightarrow> ustr \<Rightarrow> ustr \<Rightarrow> ustr \<Rightarrow> wake_db \<Rightarrow> wake_db" where
  "set_state now p key hash outcome w =
     fst (wq (\<lambda>w. (w\<lparr>wk_states := upsert_row state_key (\<lambda>old new. new)
              \<lparr>ws_project = p, ws_key = key, ws_hash = hash, ws_outcome = outcome, ws_at = now\<rparr> (wk_states w)\<rparr>, ())) w)"

definition check ::
  "wake_env \<Rightarrow> (json \<Rightarrow> ustr) \<Rightarrow> instant \<Rightarrow> ustr \<Rightarrow> ustr \<Rightarrow> ustr \<Rightarrow> ustr \<Rightarrow> json \<Rightarrow> wake_db \<Rightarrow> wake_db \<times> gate" where
  "check E print now p source key label observed w =
     (let hash = fingerprint E print observed;
          (w1, prev) = wq (\<lambda>w. (w, map_option (\<lambda>r. (ws_hash r, ws_outcome r)) (state_of w p key))) w;
          decision = gate_decide (Option.bind prev id) hash
      in case decision of
           Skip cause \<Rightarrow>
             (fst (record_wake now p source key label skipped cause hash None w1),
              \<lparr>g_decision = decision, g_hash = hash, g_log = None\<rparr>)
         | Launch cause \<Rightarrow>
             (let (w3, log_id) = record_wake now p source key label launched cause hash None
                                   (set_state now p key hash launched w1)
              in (w3, \<lparr>g_decision = decision, g_hash = hash, g_log = log_id\<rparr>)))"

definition finished_row :: "instant \<Rightarrow> ustr \<Rightarrow> ustr \<Rightarrow> ustr option \<Rightarrow> log_row \<Rightarrow> log_row" where
  "finished_row now outcome cause run r =
     r\<lparr>wl_outcome := outcome, wl_cause := (if take 240 cause = [] then wl_cause r else take 240 cause),
       wl_run := opt_or run (wl_run r), wl_last := now\<rparr>"

definition finish ::
  "instant \<Rightarrow> ustr \<Rightarrow> ustr \<Rightarrow> gate \<Rightarrow> bool \<Rightarrow> ustr \<Rightarrow> ustr option \<Rightarrow> wake_db \<Rightarrow> wake_db" where
  "finish now p key g ok cause run w =
     (let outcome = (if ok then run_done else run_failed);
          w1 = set_state now p key (g_hash g) outcome w
      in case g_log g of
           None \<Rightarrow> w1
         | Some i \<Rightarrow> fst (wq (upd_log i (finished_row now outcome cause run)) w1))"

section \<open>The run of a wake\<close>

definition run_ok :: "ustr \<Rightarrow> bool" where
  "run_ok status \<longleftrightarrow> status \<in> {lit ''completed'', lit ''success'', lit ''done''}"

definition run_open :: "ustr \<Rightarrow> bool" where
  "run_open status \<longleftrightarrow> status \<in> {lit ''pending'', lit ''queued'', lit ''running''}"

definition run_cause :: "bool \<Rightarrow> ustr \<Rightarrow> ustr option \<Rightarrow> ustr" where
  "run_cause ok status error =
     (if ok then []
      else unwrap_or (opt_filter (\<lambda>e. trim e \<noteq> []) error) (lit ''run '' @ status))"

definition finish_by_run :: "instant \<Rightarrow> ustr \<Rightarrow> wake_db \<Rightarrow> wake_db" where
  "finish_by_run now run w =
     (case wq (last_log (\<lambda>r. wl_run r = Some run \<and> wl_outcome r = launched)) w of
        (w1, Some (Some row)) \<Rightarrow>
          (let (w2, found) = wq (\<lambda>w. (w, map_option (\<lambda>r. (ar_status r, ar_error r)) (select_row ar_uuid run (wk_runs w)))) w1;
               (status, error) = unwrap_or (Option.bind found id) (run_failed, Some (lit ''run introuvable''));
               ok = run_ok status
           in finish now (wl_project row) (wl_key row)
                \<lparr>g_decision = Launch [], g_hash = wl_hash row, g_log = Some (wl_id row)\<rparr>
                ok (run_cause ok status error) (Some run) w2)
      | (w1, _) \<Rightarrow> w1)"

text \<open>The runs of an agent that are open or began after the wake, the latest first; the database
  prints the creation time of the log row with \<open>stamp\<close>, and no row gives the empty text.\<close>

definition wake_run :: "(instant \<Rightarrow> ustr) \<Rightarrow> ustr \<Rightarrow> ustr \<Rightarrow> int \<Rightarrow> wake_db \<Rightarrow> run_row option" where
  "wake_run stamp p agent since w =
     (let from = (case find (\<lambda>l. wl_id l = since) (wk_log w) of None \<Rightarrow> [] | Some l \<Rightarrow> stamp (wl_created l));
          hits = filter (\<lambda>r. ar_project r = p \<and> ar_agent r = agent \<and> (run_open (ar_status r) \<or> from \<le> ar_created r)) (wk_runs w)
      in case rev (sort_key ar_created (rev hits)) of [] \<Rightarrow> None | r # _ \<Rightarrow> Some r)"

definition after_wake ::
  "(instant \<Rightarrow> ustr) \<Rightarrow> instant \<Rightarrow> ustr \<Rightarrow> ustr \<Rightarrow> ustr \<Rightarrow> gate \<Rightarrow> ustr + unit \<Rightarrow> wake_db \<Rightarrow> wake_db" where
  "after_wake stamp now p key agent g res w =
     (case res of
        Inl e \<Rightarrow> finish now p key g False (lit ''r'' @ [233] @ lit ''veil impossible : '' @ e) None w
      | Inr _ \<Rightarrow>
          (let (w1, found) = wq (\<lambda>w. (w, wake_run stamp p agent (unwrap_or (g_log g) 0) w)) w in
           case (Option.bind found id, g_log g) of
             (Some r, Some i) \<Rightarrow>
               (let w2 = fst (wq (upd_log i (\<lambda>l. l\<lparr>wl_run := Some (ar_uuid r)\<rparr>)) w1) in
                if run_open (ar_status r) then w2 else finish_by_run now (ar_uuid r) w2)
           | _ \<Rightarrow> finish now p key g True (lit ''aucun run (r'' @ [233] @ lit ''veil d'' @ [233] @ lit ''j'' @ [224]
                 @ lit '' envoy'' @ [233] @ lit '' ou agent d'' @ [233] @ lit ''sactiv'' @ [233]
                 @ lit '')'') None w1))"

end
