(* ===== verification/DeployFailure.thy ===== *)
theory DeployFailure
  imports WakeGate DeployDb
begin

text \<open>
  What follows a failed deployment (\<open>handle_deploy_failure\<close> in \<open>apps/server/src/routes.rs\<close> with
  \<open>platform_failure\<close> of \<open>correction.rs\<close>): the cause is counted, then the failure is repaired,
  escalated or kept silent. Starting a repair and waking an agent go to other parts of the
  server and to the model behind the agents: whether they succeed, the runs they leave in
  \<open>agent_runs\<close> and the coordinator of the project are arguments.
\<close>

section \<open>The diagnosis\<close>

definition generic_failure :: ustr where
  "generic_failure = [201] @ lit ''chec du d'' @ [233] @ lit ''ploiement''"

definition deploy_failure_summary :: "ustr \<Rightarrow> ustr \<Rightarrow> db \<Rightarrow> db \<times> ustr" where
  "deploy_failure_summary dep summary s =
     (let (s', row) = sql (\<lambda>s. (s, dep_of s dep)) s;
          stored = opt_filter (\<lambda>x. trim x \<noteq> []) (Option.bind (Option.bind row id) d_error_summary)
      in (s', case stored of
                Some x \<Rightarrow> if trim summary = [] \<or> starts_with summary generic_failure then x else summary
              | None \<Rightarrow> summary))"

definition slow_container :: ustr where
  "slow_container =
     lit ''La plateforme DevForge n'' @ [8217] @ lit ''a pas r'' @ [233] @ lit ''ussi ''
     @ [224] @ lit '' mettre '' @ [224] @ lit '' jour le conteneur '' @ [224]
     @ lit '' temps (d'' @ [233] @ lit ''lai Docker).''"

definition mute_container :: ustr where
  "mute_container =
     lit ''Le conteneur n'' @ [8217] @ lit ''a pas r'' @ [233] @ lit ''pondu '' @ [224]
     @ lit '' temps, sans erreur de l'' @ [8217] @ lit ''app : probl'' @ [232]
     @ lit ''me probable de la plateforme DevForge.''"

definition app_errors :: "ustr list" where
  "app_errors = [lit ''error:'', lit ''exception'', lit ''panic'', lit ''cannot find module'',
     lit ''syntaxerror'', lit ''typeerror'', lit ''referenceerror'']"

definition platform_failure :: "ustr \<Rightarrow> ustr \<Rightarrow> ustr option" where
  "platform_failure summary logs =
     (let s = to_lowercase (summary @ [10] @ logs) in
      if contains s (lit ''docker_update_labels'')
         \<or> (contains s (lit ''update labels'') \<and> contains s (lit ''timeout''))
      then Some slow_container
      else if contains s (lit ''wait_container_ready'')
         \<or> contains s (lit ''conteneur pas pr'' @ [234] @ lit ''t'')
         \<or> contains s (lit ''container not ready'')
      then (let app_error = list_ex (contains s) app_errors;
                localhost_bind = (contains s (lit ''listening on http://localhost'') \<and> \<not> contains s (lit ''network:''))
            in if localhost_bind then None
               else if \<not> app_error then Some mute_container
               else None)
      else None)"

section \<open>Handling\<close>

record fail_io =
  fi_repair :: "ustr + unit"
  fi_wake :: "ustr + unit"
  fi_runs :: "run_row list"
  fi_coordinator :: "ustr option"
  fi_stamp :: "instant \<Rightarrow> ustr"

text \<open>What became of the failure; a woken agent gets a message.\<close>

datatype fail_act = Silenced | PlatformNoted ustr | RepairStarted | Woken ustr

fun decision_name :: "wake_decision \<Rightarrow> ustr" where
  "decision_name Normal = lit ''Normal''"
| "decision_name Escalate = lit ''Escalate''"
| "decision_name Silent = lit ''Silent''"

definition fail_key :: "ustr \<Rightarrow> ustr" where
  "fail_key hash = lit ''deploy_fail:'' @ hash"

definition fail_label :: ustr where
  "fail_label = [201] @ lit ''chec de d'' @ [233] @ lit ''ploiement''"

definition log_failure :: "instant \<Rightarrow> ustr \<Rightarrow> ustr \<Rightarrow> ustr \<Rightarrow> ustr \<Rightarrow> wake_db \<Rightarrow> wake_db \<times> int option" where
  "log_failure now p hash outcome cause w =
     record_wake now p kind_deploy_fail (fail_key hash) fail_label outcome cause hash None w"

definition uncounted :: "wake_env \<Rightarrow> instant \<Rightarrow> ustr \<Rightarrow> cause_state" where
  "uncounted E now summary = \<lparr>cs_hash = cause_hash E kind_deploy_fail summary, cs_occurrences = 1,
     cs_action = None, cs_first = now, cs_decision = Normal\<rparr>"

definition normal_message :: "ustr \<Rightarrow> ustr \<Rightarrow> ustr \<Rightarrow> ustr \<Rightarrow> ustr" where
  "normal_message dep summary hint hash =
     [201] @ lit ''v'' @ [233] @ lit ''nement projet : '' @ [233] @ lit ''chec de d'' @ [233]
     @ lit ''ploiement.'' @ [10] @ lit ''D'' @ [233] @ lit ''ploiement : '' @ dep
     @ [10] @ lit ''Diagnostic : '' @ summary @ (if hint = [] then [] else [10] @ lit ''Indice : '' @ hint)
     @ [10] @ lit ''Cause #'' @ hash
     @ [10, 10]
     @ lit ''Tu es le Coordinateur (fil permanent). Analyse la situation, propose un plan, et pour une r''
     @ [233] @ lit ''paration lourde d'' @ [233] @ lit ''l'' @ [232]
     @ lit ''gue via un sous-agent (kind=subagent, parent=toi) plut'' @ [244]
     @ lit ''t que de cr'' @ [233] @ lit ''er un nouveau fil permanent. Tu peux aussi t''
     @ [8217] @ lit ''appuyer sur l'' @ [8217] @ lit ''agent Deploy.''"

definition escalate_message :: "instant \<Rightarrow> ustr \<Rightarrow> cause_state \<Rightarrow> ustr \<Rightarrow> ustr" where
  "escalate_message now dep cs summary =
     [201] @ lit ''v'' @ [233] @ lit ''nement projet : '' @ [233] @ lit ''chec de d'' @ [233]
     @ lit ''ploiement (r'' @ [233] @ lit ''current).'' @ [10] @ lit ''D'' @ [233]
     @ lit ''ploiement : '' @ dep
     @ [10] @ lit ''Cause #'' @ cs_hash cs @ [10, 10] @ escalation_text now cs summary"

text \<open>The last part: the launch is logged, the coordinator woken, and the cause marked.\<close>

definition wake_for_failure ::
  "instant \<Rightarrow> fail_io \<Rightarrow> ustr \<Rightarrow> cause_state \<Rightarrow> ustr \<Rightarrow> wake_db \<Rightarrow> wake_db \<times> fail_act \<times> (ustr + unit)" where
  "wake_for_failure now io p cs content w =
     (let hash = cs_hash cs;
          (w1, log_id) = log_failure now p hash launched
             (decision_name (cs_decision cs) @ lit '' (P1-07, n='' @ show_int (cs_occurrences cs) @ lit '')'') w;
          w2 = w1\<lparr>wk_runs := fi_runs io\<rparr>;
          w3 = (case fi_coordinator io of
                  None \<Rightarrow> w2
                | Some coord \<Rightarrow> after_wake (fi_stamp io) now p (fail_key hash) coord
                     \<lparr>g_decision = Launch [], g_hash = hash, g_log = log_id\<rparr> (fi_wake io) w2)
      in (mark_woken now p hash w3, Woken content, fi_wake io))"

text \<open>The part after the counting, by the decision.\<close>

definition dispatch_failure ::
  "instant \<Rightarrow> fail_io \<Rightarrow> ustr \<Rightarrow> ustr \<Rightarrow> ustr \<Rightarrow> ustr \<Rightarrow> bool \<Rightarrow> cause_state \<Rightarrow> db \<Rightarrow> wake_db
   \<Rightarrow> (db \<times> wake_db) \<times> fail_act \<times> (ustr + unit)" where
  "dispatch_failure now io p dep summary hint auto_repair cs s1 w1 =
     (let hash = cs_hash cs
      in case cs_decision cs of
           Silent \<Rightarrow>
             ((s1, fst (log_failure now p hash skipped
                    (lit ''m'' @ [234] @ lit ''me cause d'' @ [233] @ lit ''j'' @ [224] @ lit '' escalad''
                     @ [233] @ lit ''e (P1-07, n='' @ show_int (cs_occurrences cs) @ lit '')'') w1)),
              Silenced, Inr ())
         | Escalate \<Rightarrow>
             (let (w2, act, r) = wake_for_failure now io p cs (escalate_message now dep cs summary) w1
              in ((s1, w2), act, r))
         | Normal \<Rightarrow>
             (let (s2, row) = sql (\<lambda>s. (s, dep_of s dep)) s1;
                  logs = unwrap_or (Option.bind (Option.bind row id) d_logs) []
              in case platform_failure summary logs of
                   Some note \<Rightarrow>
                     ((s2, mark_woken now p hash (fst (log_failure now p hash skipped
                             (lit ''probl'' @ [232] @ lit ''me de plateforme DevForge : pas de r'' @ [233]
                              @ lit ''paration de l'' @ [39] @ lit ''app'') w1))),
                      PlatformNoted note, Inr ())
                 | None \<Rightarrow>
                     if auto_repair \<and> fi_repair io = Inr ()
                     then ((s2, mark_woken now p hash (fst (log_failure now p hash launched
                             (lit ''r'' @ [233] @ lit ''paration confi'' @ [233] @ lit ''e '' @ [224]
                              @ lit '' Rustine'') w1))),
                           RepairStarted, Inr ())
                     else (let (w2, act, r) = wake_for_failure now io p cs (normal_message dep summary hint hash) w1
                           in ((s2, w2), act, r))))"

definition handle_deploy_failure ::
  "wake_env \<Rightarrow> instant \<Rightarrow> fail_io \<Rightarrow> ustr \<Rightarrow> ustr \<Rightarrow> ustr \<Rightarrow> ustr \<Rightarrow> bool \<Rightarrow> db \<times> wake_db
   \<Rightarrow> (db \<times> wake_db) \<times> fail_act \<times> (ustr + unit)" where
  "handle_deploy_failure E now io p dep summary0 hint auto_repair sw =
     (let (s1, summary) = deploy_failure_summary dep summary0 (fst sw);
          (w1, counted) = register_failure E now p kind_deploy_fail summary dep (snd sw);
          cs = (case counted of Inr c \<Rightarrow> c | Inl _ \<Rightarrow> uncounted E now summary)
      in dispatch_failure now io p dep summary hint auto_repair cs s1 w1)"

end
