(* ===== verification/DeployGuard.thy ===== *)
theory DeployGuard
  imports DeployFailure DeployQueue
begin

text \<open>
  The guard of the automatic deployments (\<open>apps/server/src/auto_deploy_guard.rs\<close>): a commit that
  failed is not deployed again on its own, and new commits wait after failures in a row. What it
  holds back is logged by the gate of \<open>WakeGate\<close> and told once to the project.
\<close>

section \<open>Commits\<close>

text \<open>\<open>str::len\<close> counts bytes; only hexadecimal digits pass, of one byte each.\<close>

definition usable :: "ustr \<Rightarrow> bool" where
  "usable sha = (let s = trim sha in utf8_len s \<ge> 7 \<and> list_all is_hexdigit s)"

definition same_sha :: "ustr \<Rightarrow> ustr \<Rightarrow> bool" where
  "same_sha a0 b0 =
     (let a = to_ascii_lowercase (trim a0); b = to_ascii_lowercase (trim b0)
      in usable a \<and> usable b \<and> (starts_with a b \<or> starts_with b a))"

section \<open>The decision\<close>

record attempt =
  at_sha :: "ustr option"
  at_status :: dep_status
  at_created :: instant

datatype guard = Go | SameShaFailed ustr | Backoff instant nat

definition base_backoff_min :: int where "base_backoff_min = 2"
definition max_backoff_min :: int where "max_backoff_min = 60"

definition backoff_for :: "nat \<Rightarrow> duration" where
  "backoff_for failures =
     (if failures = 0 then 0
      else (let ex = min (failures - 1) 10 in minutes (min (push_bit ex base_backoff_min) max_backoff_min)))"

fun settles :: "dep_status \<Rightarrow> bool" where
  "settles Success = True"
| "settles Ready = True"
| "settles _ = False"

text \<open>The scan: the failures counted so far and the time of the latest of them.\<close>

fun scan :: "ustr \<Rightarrow> attempt list \<Rightarrow> nat \<Rightarrow> instant option \<Rightarrow> ustr + nat \<times> instant option" where
  "scan tip [] failures latest = Inr (failures, latest)"
| "scan tip (a # as) failures latest =
     (if settles (at_status a) then Inr (failures, latest)
      else if failed (at_status a)
      then (if is_some_and (at_sha a) (\<lambda>s. same_sha s tip) then Inl (take 7 tip)
            else scan tip as (failures + 1) (Some (unwrap_or latest (at_created a))))
      else scan tip as failures latest)"

definition guard_decide :: "ustr \<Rightarrow> attempt list \<Rightarrow> instant \<Rightarrow> guard" where
  "guard_decide tip history now =
     (case scan tip history 0 None of
        Inl sha \<Rightarrow> SameShaFailed sha
      | Inr (failures, Some t) \<Rightarrow>
          if now < t + backoff_for failures then Backoff (t + backoff_for failures) failures else Go
      | Inr (failures, None) \<Rightarrow> Go)"

section \<open>The history\<close>

text \<open>The text of a time stamp is read by \<open>chrono\<close>, an argument; one that does not parse counts
  as now. A row without an environment is a production row, and its column here says so.\<close>

definition history_rows :: "int \<Rightarrow> ustr \<Rightarrow> db \<Rightarrow> deployment list" where
  "history_rows pid env s =
     take 20 (rev (sort_key d_created_at (rev (filter (\<lambda>d. d_project d = pid \<and> d_env d = env) (deployments s)))))"

definition attempt_of :: "(ustr \<Rightarrow> instant option) \<Rightarrow> instant \<Rightarrow> deployment \<Rightarrow> attempt" where
  "attempt_of parse now d =
     \<lparr>at_sha = opt_or (opt_filter usable (d_git_sha d)) (opt_filter usable (d_target_sha d)),
      at_status = d_status d, at_created = unwrap_or (parse (d_created_at d)) now\<rparr>"

definition load_history :: "(ustr \<Rightarrow> instant option) \<Rightarrow> instant \<Rightarrow> int \<Rightarrow> ustr \<Rightarrow> db \<Rightarrow> db \<times> attempt list" where
  "load_history parse now pid env s =
     (let (s', rows) = sql (\<lambda>s. (s, history_rows pid env s)) s
      in (s', map (attempt_of parse now) (unwrap_or rows [])))"

definition set_target_sha :: "ustr \<Rightarrow> ustr \<Rightarrow> db \<Rightarrow> db" where
  "set_target_sha dep sha s = fst (sql (upd_deps (\<lambda>d. d_uuid d = dep) (\<lambda>d. d\<lparr>d_target_sha := Some sha\<rparr>)) s)"

section \<open>Telling the project\<close>

definition kind_auto_deploy_paused :: ustr where "kind_auto_deploy_paused = lit ''auto_deploy_paused''"

definition paused_text :: "ustr \<Rightarrow> ustr \<Rightarrow> ustr" where
  "paused_text env sha =
     [9208, 65039] @ lit '' Mise en ligne automatique ''
     @ (if env = lit ''dev'' then lit ''de l'' @ [39] @ lit ''environnement DEV''
        else lit ''en production'')
     @ lit '' en pause : le commit '' @ sha
     @ lit '' a '' @ [233] @ lit ''chou'' @ [233]
     @ lit '' et je ne le relance plus tout seul.'' @ [10]
     @ lit ''Elle reprendra au prochain commit pouss'' @ [233]
     @ lit '' sur la branche, ou tout de suite avec '' @ [171] @ lit '' R'' @ [233]
     @ lit ''essayer la mise en ligne '' @ [187] @ lit ''.'' @ [10]
     @ lit ''La version actuellement en ligne reste servie.''"

definition pause_summary :: "ustr \<Rightarrow> ustr" where
  "pause_summary env = lit ''auto-deploy '' @ env @ lit '' en pause sur un commit en '' @ [233] @ lit ''chec''"

definition pause_marker :: "ustr \<Rightarrow> ustr \<Rightarrow> ustr" where
  "pause_marker env sha = env @ lit '':'' @ sha"

text \<open>\<open>coordinator\<close> is the answer of \<open>ensure_coordinator_agent\<close>, \<open>stamp\<close> the text of the clock.\<close>

definition insert_message :: "message_row \<Rightarrow> wake_db \<Rightarrow> wake_db \<times> unit" where
  "insert_message m w = (w\<lparr>wk_messages := wk_messages w @ [m]\<rparr>, ())"

definition escalate_once ::
  "wake_env \<Rightarrow> instant \<Rightarrow> ts \<Rightarrow> ustr option \<Rightarrow> ustr \<Rightarrow> ustr \<Rightarrow> ustr \<Rightarrow> db \<times> wake_db \<Rightarrow> (db \<times> wake_db) \<times> bool" where
  "escalate_once E now stamp coordinator p env sha sw =
     (let summary = pause_summary env;
          hash = cause_hash E kind_auto_deploy_paused summary;
          marker = pause_marker env sha;
          (w1, seen) = wq (\<lambda>w. (w, map_option wc_dep (cause_of w p hash))) (snd sw)
      in if Option.bind (Option.bind seen id) id = Some marker then ((fst sw, w1), False)
         else (let (w2, cause) = register_failure E now p kind_auto_deploy_paused summary marker w1;
                   text = paused_text env sha;
                   s2 = record_event stamp p (lit ''deploy'') (lit ''auto_paused'') sha text (fst sw);
                   w3 = (case coordinator of
                           None \<Rightarrow> w2
                         | Some a \<Rightarrow> fst (wq (insert_message
                             \<lparr>am_project = p, am_agent = a, am_content = text, am_at = stamp\<rparr>) w2));
                   w4 = (case cause of Inl _ \<Rightarrow> w3 | Inr c \<Rightarrow> mark_woken now p (cs_hash c) w3)
               in ((s2, w4), True)))"

definition guard_log ::
  "instant \<Rightarrow> ustr \<Rightarrow> ustr \<Rightarrow> ustr \<Rightarrow> ustr \<Rightarrow> wake_db \<Rightarrow> wake_db" where
  "guard_log now p env cause hash w =
     fst (record_wake now p (lit ''auto_deploy'') (lit ''auto_deploy:'' @ env) (lit ''Mise en ligne automatique'')
            skipped cause hash None w)"

text \<open>\<open>clock\<close> prints the hour of an instant.\<close>

definition guard_gate ::
  "wake_env \<Rightarrow> (ustr \<Rightarrow> instant option) \<Rightarrow> (instant \<Rightarrow> ustr) \<Rightarrow> instant \<Rightarrow> ts \<Rightarrow> ustr option \<Rightarrow> project \<Rightarrow> ustr \<Rightarrow> ustr
   \<Rightarrow> db \<times> wake_db \<Rightarrow> (db \<times> wake_db) \<times> guard" where
  "guard_gate E parse clock now stamp coordinator pr env tip sw =
     (let (s1, history) = load_history parse now (p_id pr) env (fst sw);
          g = guard_decide tip history now
      in case g of
           Go \<Rightarrow> ((s1, snd sw), g)
         | SameShaFailed sha \<Rightarrow>
             (let w1 = guard_log now (p_uuid pr) env
                    (lit ''commit '' @ sha @ lit '' d'' @ [233] @ lit ''j'' @ [224] @ lit '' en '' @ [233]
     @ lit ''chec : pas de relance automatique'') sha (snd sw)
              in (fst (escalate_once E now stamp coordinator (p_uuid pr) env sha (s1, w1)), g))
         | Backoff until failures \<Rightarrow>
             ((s1, guard_log now (p_uuid pr) env
                 (dec failures @ lit '' '' @ [233] @ lit ''chec(s) cons'' @ [233] @ lit ''cutif(s) : attente jusqu''
                 @ [39, 224] @ lit '' '' @ clock until) tip (snd sw)), g))"

end
