(* ===== verification/WakeGateProps.thy ===== *)
theory WakeGateProps
  imports WakeGate "HOL-Library.Multiset"
begin

text \<open>
  The properties of the gate: which runs it lets through, what its log holds, and what the end
  of a run changes.
\<close>

section \<open>What each operation does to the states\<close>

text \<open>The fingerprint kept for a wake.\<close>

definition kept_hash :: "wake_db \<Rightarrow> ustr \<times> ustr \<Rightarrow> ustr option" where
  "kept_hash w k = map_option ws_hash (select_row state_key k (wk_states w))"

lemma kept_hash_cong: "wk_states v = wk_states w \<Longrightarrow> kept_hash v = kept_hash w"
  by (simp add: kept_hash_def fun_eq_iff)

lemma upd_log_states [simp]: "wk_states (fst (wq (upd_log i f) w)) = wk_states w"
  by (rule wq_field) (simp_all add: upd_log_def)

lemma last_log_same [simp]: "wk_states (fst (wq (last_log p) w)) = wk_states w"
  by (rule wq_field) (simp_all add: last_log_def)

lemma append_row_states [simp]:
  "wk_states (fst (append_row now p src k lbl out cause h run w)) = wk_states w"
  unfolding append_row_def by (rule wq_field) (simp_all add: insert_log_def)

lemma record_states [simp]:
  "wk_states (fst (record_wake now p src k lbl out cause h run w)) = wk_states w"
proof -
  obtain w1 x where "wq (last_log (\<lambda>r. wl_project r = p \<and> wl_key r = k)) w = (w1, x)" by (metis prod.exhaust)
  then show ?thesis
    using last_log_same [of "\<lambda>r. wl_project r = p \<and> wl_key r = k" w]
    by (auto simp: record_wake_def Let_def split: option.split)
qed

lemma select_same [simp]: "wk_states (fst (wq (\<lambda>w. (w, f w)) w)) = wk_states w"
  by (rule wq_field) simp_all

lemma set_state_hash:
  "kept_hash (set_state now p k h out w) k' = kept_hash w k' \<or> k' = (p, k) \<and> kept_hash (set_state now p k h out w) k' = Some h"
  unfolding set_state_def
proof (rule wq_keeps [where P = "\<lambda>v. kept_hash v k' = kept_hash w k' \<or> k' = (p, k) \<and> kept_hash v k' = Some h"])
  fix v
  let ?r = "\<lparr>ws_project = p, ws_key = k, ws_hash = h, ws_outcome = out, ws_at = now\<rparr>"
  have "kept_hash (v\<lparr>wk_states := upsert_row state_key (\<lambda>old new. new) ?r (wk_states v)\<rparr>) k'
      = (if k' = (p, k) then Some h else kept_hash v k')"
    by (auto simp: kept_hash_def select_put state_key_def)
  moreover assume "kept_hash v k' = kept_hash w k' \<or> k' = (p, k) \<and> kept_hash v k' = Some h"
  ultimately show "kept_hash (fst (v\<lparr>wk_states := upsert_row state_key (\<lambda>old new. new) ?r (wk_states v)\<rparr>, ())) k' = kept_hash w k'
      \<or> k' = (p, k) \<and> kept_hash (fst (v\<lparr>wk_states := upsert_row state_key (\<lambda>old new. new) ?r (wk_states v)\<rparr>, ())) k' = Some h"
    by auto
qed (simp_all add: kept_hash_def)

lemma set_state_nofault:
  "wk_faults w = [] \<Longrightarrow> kept_hash (set_state now p k h out w) (p, k) = Some h"
  by (simp add: set_state_def wq_nofault kept_hash_def select_put state_key_def)

section \<open>The operations of the gate\<close>

datatype wake_op =
    OCheck instant ustr ustr ustr ustr json
  | OFinish instant ustr ustr gate bool ustr "ustr option"
  | ORecord instant ustr ustr ustr ustr ustr ustr ustr "ustr option"
  | OByRun instant ustr

fun run_op :: "wake_env \<Rightarrow> (json \<Rightarrow> ustr) \<Rightarrow> wake_op \<Rightarrow> wake_db \<Rightarrow> wake_db" where
  "run_op E print (OCheck now p src k lbl obs) w = fst (check E print now p src k lbl obs w)"
| "run_op E print (OFinish now p k g ok cause run) w = finish now p k g ok cause run w"
| "run_op E print (ORecord now p src k lbl out cause h run) w = fst (record_wake now p src k lbl out cause h run w)"
| "run_op E print (OByRun now run) w = finish_by_run now run w"

text \<open>The wake whose fingerprint an operation may set, and that fingerprint.\<close>

fun op_writes :: "wake_env \<Rightarrow> (json \<Rightarrow> ustr) \<Rightarrow> wake_op \<Rightarrow> wake_db \<Rightarrow> ((ustr \<times> ustr) \<times> ustr) option" where
  "op_writes E print (OCheck now p src k lbl obs) w = Some ((p, k), fingerprint E print obs)"
| "op_writes E print (OFinish now p k g ok cause run) w = Some ((p, k), g_hash g)"
| "op_writes E print (ORecord now p src k lbl out cause h run) w = None"
| "op_writes E print (OByRun now run) w =
     map_option (\<lambda>r. ((wl_project r, wl_key r), wl_hash r))
       (find (\<lambda>r. wl_run r = Some run \<and> wl_outcome r = launched) (rev (wk_log w)))"

section \<open>Fingerprints change only by the operations of their wake\<close>

text \<open>Along the run, whatever is written for the wake \<open>k\<close> is the fingerprint \<open>h\<close>.\<close>

fun only_writes ::
  "('op \<Rightarrow> 's \<Rightarrow> 's) \<Rightarrow> ('op \<Rightarrow> 's \<Rightarrow> ('k \<times> 'h) option) \<Rightarrow> 'k \<Rightarrow> 'h \<Rightarrow> 'op list \<Rightarrow> 's \<Rightarrow> bool" where
  "only_writes run writes k h [] s = True"
| "only_writes run writes k h (op # ops) s =
     ((\<forall>h'. writes op s = Some (k, h') \<longrightarrow> h' = h) \<and> only_writes run writes k h ops (run op s))"

text \<open>The contract of every operation on the kept fingerprints, and what follows for any sequence
  of operations.\<close>

locale fingerprint_law =
  fixes run :: "'op \<Rightarrow> 's \<Rightarrow> 's"
    and kept :: "'s \<Rightarrow> 'k \<Rightarrow> 'h option"
    and writes :: "'op \<Rightarrow> 's \<Rightarrow> ('k \<times> 'h) option"
  assumes law: "kept (run op s) k = kept s k \<or> (\<exists>h. writes op s = Some (k, h) \<and> kept (run op s) k = Some h)"
begin

lemma kept_along:
  "kept s k = Some h \<Longrightarrow> only_writes run writes k h ops s \<Longrightarrow> kept (fold run ops s) k = Some h"
proof (induction ops arbitrary: s)
  case (Cons op ops)
  have "kept (run op s) k = Some h" using law [of op s k] Cons.prems by auto
  then show ?case using Cons.IH [of "run op s"] Cons.prems(2) by simp
qed simp

end

lemma check_hash:
  "kept_hash (fst (check E print now p src k lbl obs w)) k' = kept_hash w k'
   \<or> k' = (p, k) \<and> kept_hash (fst (check E print now p src k lbl obs w)) k' = Some (fingerprint E print obs)"
proof -
  let ?q = "\<lambda>w. (w, map_option (\<lambda>r. (ws_hash r, ws_outcome r)) (state_of w p k))"
  obtain w1 prev where q: "wq ?q w = (w1, prev)" by (cases "wq ?q w") (rule that)
  have s: "wk_states w1 = wk_states w"
    using select_same [of "\<lambda>w. map_option (\<lambda>r. (ws_hash r, ws_outcome r)) (state_of w p k)" w]
    unfolding q fst_conv .
  show ?thesis
  proof (cases "gate_decide (Option.bind prev id) (fingerprint E print obs)")
    case (Launch c)
    let ?h = "fingerprint E print obs"
    obtain w3 i where r: "record_wake now p src k lbl launched c ?h None (set_state now p k ?h launched w1) = (w3, i)"
      by (metis prod.exhaust)
    then have "wk_states w3 = wk_states (set_state now p k ?h launched w1)"
      using record_states [of now p src k lbl launched c ?h None] by (metis fst_conv)
    then show ?thesis
      using Launch q r kept_hash_cong [OF s] set_state_hash [of now p k ?h launched w1 k']
      by (auto simp: check_def dest: kept_hash_cong)
  next
    case (Skip c)
    then have "wk_states (fst (check E print now p src k lbl obs w)) = wk_states w1"
      using q by (simp add: check_def Let_def)
    then show ?thesis using kept_hash_cong s by metis
  qed
qed

lemma finish_hash:
  "kept_hash (finish now p k g ok cause run w) k' = kept_hash w k'
   \<or> k' = (p, k) \<and> kept_hash (finish now p k g ok cause run w) k' = Some (g_hash g)"
proof -
  let ?w = "set_state now p k (g_hash g) (if ok then run_done else run_failed) w"
  have "wk_states (finish now p k g ok cause run w) = wk_states ?w"
    by (simp add: finish_def Let_def split: option.split)
  then have "kept_hash (finish now p k g ok cause run w) = kept_hash ?w" by (rule kept_hash_cong)
  then show ?thesis using set_state_hash by metis
qed

lemma last_log_row: "wq (last_log f) w = (w1, Some (Some row)) \<Longrightarrow> find f (rev (wk_log w)) = Some row"
  by (auto simp: wq_def last_log_def split: list.splits if_splits)

lemma by_run_hash:
  "kept_hash (finish_by_run now run w) k = kept_hash w k
   \<or> (\<exists>h. op_writes E print (OByRun now run) w = Some (k, h) \<and> kept_hash (finish_by_run now run w) k = Some h)"
proof -
  let ?f = "\<lambda>r. wl_run r = Some run \<and> wl_outcome r = launched"
  obtain w1 x where l: "wq (last_log ?f) w = (w1, x)" by (cases "wq (last_log ?f) w") (rule that)
  have s: "wk_states w1 = wk_states w" using last_log_same [of ?f w] unfolding l fst_conv .
  show ?thesis
  proof (cases "\<exists>row. x = Some (Some row)")
    case False
    then have "finish_by_run now run w = w1"
      by (simp add: finish_by_run_def l split: option.split)
    then show ?thesis using kept_hash_cong [OF s] by simp
  next
    case True
    then obtain row where row: "wq (last_log ?f) w = (w1, Some (Some row))" using l by blast
    let ?q = "\<lambda>w. (w, map_option (\<lambda>r. (ar_status r, ar_error r)) (select_row ar_uuid run (wk_runs w)))"
    obtain w2 y where q: "wq ?q w1 = (w2, y)" by (cases "wq ?q w1") (rule that)
    have s2: "wk_states w2 = wk_states w1"
      using select_same [of "\<lambda>w. map_option (\<lambda>r. (ar_status r, ar_error r)) (select_row ar_uuid run (wk_runs w))" w1]
      unfolding q fst_conv .
    obtain st er where e: "unwrap_or (Option.bind y id) (run_failed, Some (lit ''run introuvable'')) = (st, er)"
      by (rule prod.exhaust)
    let ?g = "\<lparr>g_decision = Launch [], g_hash = wl_hash row, g_log = Some (wl_id row)\<rparr>"
    have "finish_by_run now run w =
        finish now (wl_project row) (wl_key row) ?g (run_ok st) (run_cause (run_ok st) st er) (Some run) w2"
      using row q e by (simp add: finish_by_run_def Let_def)
    then show ?thesis
      using finish_hash [of now "wl_project row" "wl_key row" ?g "run_ok st" "run_cause (run_ok st) st er" "Some run" w2 k]
        last_log_row [OF row]
        kept_hash_cong [OF s] kept_hash_cong [OF s2]
      by auto
  qed
qed

interpretation gate_law: fingerprint_law "run_op E print" kept_hash "op_writes E print" for E print
proof
  fix op w k
  show "kept_hash (run_op E print op w) k = kept_hash w k
      \<or> (\<exists>h. op_writes E print op w = Some (k, h) \<and> kept_hash (run_op E print op w) k = Some h)"
  proof (cases op)
    case (OCheck now p src key lbl obs)
    then show ?thesis using check_hash [of E print now p src key lbl obs w k] by auto
  next
    case (OFinish now p key g ok cause run)
    then show ?thesis using finish_hash [of now p key g ok cause run w k] by auto
  next
    case (ORecord now p src key lbl out cause h run)
    then show ?thesis
      using kept_hash_cong [OF record_states [of now p src key lbl out cause h run w]] by simp
  next
    case (OByRun now run)
    then show ?thesis using by_run_hash [of now run w k E print] by simp
  qed
qed

section \<open>No second run on the same state\<close>

lemma check_decides:
  assumes "wk_faults w = []"
  shows "g_decision (snd (check E print now p src k lbl obs w)) =
           gate_decide (map_option (\<lambda>r. (ws_hash r, ws_outcome r)) (state_of w p k)) (fingerprint E print obs)"
    and "g_hash (snd (check E print now p src k lbl obs w)) = fingerprint E print obs"
  using assms
  by (simp_all add: check_def wq_nofault Let_def case_prod_beta split: decision.split)

lemma gate_decide_launch: "is_launch (gate_decide prev h) \<longleftrightarrow> map_option fst prev \<noteq> Some h"
  by (auto simp: gate_decide_def split: option.split)

lemma check_launches:
  assumes "wk_faults w = []"
  shows "is_launch (g_decision (snd (check E print now p src k lbl obs w)))
     \<longleftrightarrow> kept_hash w (p, k) \<noteq> Some (fingerprint E print obs)"
  by (cases "state_of w p k")
    (simp_all add: check_decides [OF assms] gate_decide_launch kept_hash_def state_of_def)

lemma append_row_faults: "wk_faults w = [] \<Longrightarrow> wk_faults (fst (append_row now p src k lbl out c h run w)) = []"
  unfolding append_row_def by (rule wq_faults_nil) (simp_all add: insert_log_def)

lemma record_faults:
  assumes "wk_faults w = []"
  shows "wk_faults (fst (record_wake now p src k lbl out c h run w)) = []"
  using assms append_row_faults
  by (auto simp: record_wake_def wq_nofault last_log_def upd_log_def Let_def split: option.split)

lemma set_state_faults: "wk_faults w = [] \<Longrightarrow> wk_faults (set_state now p k h out w) = []"
  unfolding set_state_def by (rule wq_faults_nil) simp_all

lemma check_effect:
  assumes "wk_faults w = []"
  shows "wk_faults (fst (check E print now p src k lbl obs w)) = []"
    and "kept_hash (fst (check E print now p src k lbl obs w)) (p, k) = Some (fingerprint E print obs)"
proof -
  let ?h = "fingerprint E print obs"
  have s: "wq (\<lambda>w. (w, map_option (\<lambda>r. (ws_hash r, ws_outcome r)) (state_of w p k))) w
      = (w, Some (map_option (\<lambda>r. (ws_hash r, ws_outcome r)) (state_of w p k)))"
    by (simp add: wq_nofault assms)
  have "wk_faults (fst (check E print now p src k lbl obs w)) = []
      \<and> kept_hash (fst (check E print now p src k lbl obs w)) (p, k) = Some ?h"
  proof (cases "g_decision (snd (check E print now p src k lbl obs w))")
    case (Launch c)
    then have g: "gate_decide (map_option (\<lambda>r. (ws_hash r, ws_outcome r)) (state_of w p k)) ?h = Launch c"
      by (simp add: check_decides assms)
    let ?v = "set_state now p k ?h launched w"
    have "fst (check E print now p src k lbl obs w) = fst (record_wake now p src k lbl launched c ?h None ?v)"
      by (simp add: check_def s g case_prod_beta Let_def)
    then show ?thesis
      using record_faults [OF set_state_faults [OF assms]] set_state_nofault [OF assms]
        kept_hash_cong [OF record_states [of now p src k lbl launched c ?h None ?v]]
      by metis
  next
    case (Skip c)
    then have g: "gate_decide (map_option (\<lambda>r. (ws_hash r, ws_outcome r)) (state_of w p k)) ?h = Skip c"
      by (simp add: check_decides assms)
    have "kept_hash w (p, k) = Some ?h"
      using check_launches [OF assms, of E print now p src k lbl obs] Skip by simp
    moreover have "fst (check E print now p src k lbl obs w) = fst (record_wake now p src k lbl skipped c ?h None w)"
      by (simp add: check_def s g Let_def)
    ultimately show ?thesis
      using record_faults [OF assms] kept_hash_cong [OF record_states [of now p src k lbl skipped c ?h None w]]
      by metis
  qed
  then show "wk_faults (fst (check E print now p src k lbl obs w)) = []"
    and "kept_hash (fst (check E print now p src k lbl obs w)) (p, k) = Some ?h" by auto
qed

lemma finish_faults: "wk_faults w = [] \<Longrightarrow> wk_faults (finish now p k g ok c run w) = []"
  using set_state_faults [of w now p k "g_hash g" "if ok then run_done else run_failed"]
  by (auto simp: finish_def Let_def upd_log_def wq_nofault split: option.split)

lemma by_run_faults: "wk_faults w = [] \<Longrightarrow> wk_faults (finish_by_run now run w) = []"
  by (auto simp: finish_by_run_def wq_nofault last_log_def Let_def finish_faults case_prod_beta split: option.split)

lemma run_op_faults: "wk_faults w = [] \<Longrightarrow> wk_faults (run_op E print op w) = []"
  by (cases op) (simp_all add: check_effect record_faults finish_faults by_run_faults)

lemma run_ops_faults: "wk_faults w = [] \<Longrightarrow> wk_faults (fold (run_op E print) ops w) = []"
  by (induction ops arbitrary: w) (simp_all add: run_op_faults)

definition sample_wenv :: wake_env where
  "sample_wenv = \<lparr>we_sha256 = id, we_replace_all = (\<lambda>re rep s. s), we_parse = (\<lambda>_. None)\<rparr>"

definition sample_print :: "json \<Rightarrow> ustr" where
  "sample_print v = (case as_str v of None \<Rightarrow> [] | Some s \<Rightarrow> s)"

lemma sample_prints:
  "fingerprint sample_wenv sample_print (JStr [97]) \<noteq> fingerprint sample_wenv sample_print (JStr [98])"
  by (simp add: fingerprint_def sample_wenv_def sample_print_def hex16_def hex2_def hex_digit_def)



text \<open>The end of a run writes back the fingerprint its wake was launched with. When the
  observed state changed meanwhile and a second run was launched, the end of the first one
  forgets the second: the next check launches a third run on a state that already has one.\<close>

theorem late_finish_relaunches:
  assumes "wk_faults w = []" and "fingerprint E print old \<noteq> fingerprint E print new"
    and "check E print t1 p src key lbl old w = (w1, g1)"
    and "check E print t2 p src key lbl new w1 = (w2, g2)"
  shows "is_launch (g_decision g2)
    \<and> \<not> is_launch (g_decision (snd (check E print t3 p src key lbl new w2)))
    \<and> is_launch (g_decision (snd (check E print t3 p src key lbl new (finish t3 p key g1 ok cause run w2))))"
proof -
  note e1 = check_effect [OF assms(1), of E print t1 p src key lbl old, unfolded assms(3) fst_conv]
  note e2 = check_effect [OF e1(1), of E print t2 p src key lbl new, unfolded assms(4) fst_conv]
  have 1: "is_launch (g_decision g2)"
    using check_launches [OF e1(1), of E print t2 p src key lbl new] e1(2) assms(2,4) by simp
  have 2: "\<not> is_launch (g_decision (snd (check E print t3 p src key lbl new w2)))"
    using check_launches [OF e2(1)] e2(2) by simp
  have h: "g_hash g1 = fingerprint E print old"
    using check_decides(2) [OF assms(1), of E print t1 p src key lbl old] assms(3) by simp
  let ?s = "set_state t3 p key (g_hash g1) (if ok then run_done else run_failed) w2"
  have "wk_states (finish t3 p key g1 ok cause run w2) = wk_states ?s"
    by (simp add: finish_def Let_def split: option.split)
  then have "kept_hash (finish t3 p key g1 ok cause run w2) (p, key) = Some (fingerprint E print old)"
    using set_state_nofault [OF e2(1)] h kept_hash_cong by metis
  then have "is_launch (g_decision (snd (check E print t3 p src key lbl new (finish t3 p key g1 ok cause run w2))))"
    using check_launches [OF finish_faults [OF e2(1)]] assms(2) by simp
  with 1 2 show ?thesis by simp
qed

theorem late_finish_relaunches_witness:
  "\<exists>w g. is_launch (g_decision (snd (check sample_wenv sample_print 30 [] [] [] [] (JStr [98])
       (finish 30 [] [] g True [] None w))))
     \<and> \<not> is_launch (g_decision (snd (check sample_wenv sample_print 30 [] [] [] [] (JStr [98]) w)))"
proof -
  obtain w1 g1 where 1: "check sample_wenv sample_print 0 [] [] [] [] (JStr [97]) empty_wakes = (w1, g1)"
    by (rule prod.exhaust)
  obtain w2 g2 where 2: "check sample_wenv sample_print 10 [] [] [] [] (JStr [98]) w1 = (w2, g2)"
    by (rule prod.exhaust)
  have "wk_faults empty_wakes = []" by (simp add: empty_wakes_def)
  from late_finish_relaunches [OF this sample_prints 1 2, of 30 True "[]" None] show ?thesis
    by blast
qed

section \<open>The log\<close>

text \<open>Ids grow with the log and \<open>wk_next\<close> is fresh.\<close>

definition log_wf :: "wake_db \<Rightarrow> bool" where
  "log_wf w \<longleftrightarrow> distinct (map wl_id (wk_log w)) \<and> (\<forall>r \<in> set (wk_log w). wl_id r < wk_next w)"

definition bumped :: "instant \<Rightarrow> log_row \<Rightarrow> log_row" where
  "bumped t r = r\<lparr>wl_repeat := wl_repeat r + 1, wl_last := t\<rparr>"

lemma bumped_simps [simp]:
  "wl_id (bumped t r) = wl_id r" "wl_project (bumped t r) = wl_project r" "wl_key (bumped t r) = wl_key r"
  "repeats h c (bumped t r) = repeats h c r"
  by (simp_all add: bumped_def repeats_def)

lemma record_bumps:
  assumes "wk_faults w = []" and "wk_log w = L @ [x]" and "\<forall>r \<in> set L. wl_id r \<noteq> wl_id x"
    and "wl_project x = p" and "wl_key x = key" and "repeats h (take 240 cause) x"
  shows "fst (record_wake t p src key lbl skipped cause h run w) = w\<lparr>wk_log := L @ [bumped t x]\<rparr>"
proof -
  have "map (\<lambda>r. if wl_id r = wl_id x then r\<lparr>wl_repeat := wl_repeat r + 1, wl_last := t\<rparr> else r) (L @ [x])
      = L @ [bumped t x]"
    using map_if_id [of L "\<lambda>r. wl_id r = wl_id x"] assms(3) by (simp add: bumped_def)
  then show ?thesis
    using assms by (simp add: record_wake_def wq_nofault last_log_def upd_log_def)
qed

lemma records_bump:
  assumes "wk_faults w = []" and "wk_log w = L @ [x]" and "\<forall>r \<in> set L. wl_id r \<noteq> wl_id x"
    and "wl_project x = p" and "wl_key x = key" and "repeats h (take 240 cause) x"
  shows "fold (\<lambda>t w. fst (record_wake t p src key lbl skipped cause h run w)) ts w
       = w\<lparr>wk_log := L @ [x\<lparr>wl_repeat := wl_repeat x + int (length ts), wl_last := last (wl_last x # ts)\<rparr>]\<rparr>"
  using assms
proof (induction ts arbitrary: w x)
  case Nil
  then show ?case by simp
next
  case (Cons t ts)
  let ?w = "w\<lparr>wk_log := L @ [bumped t x]\<rparr>"
  have "fold (\<lambda>t w. fst (record_wake t p src key lbl skipped cause h run w)) ts ?w
      = ?w\<lparr>wk_log := L @ [(bumped t x)\<lparr>wl_repeat := wl_repeat (bumped t x) + int (length ts), wl_last := last (wl_last (bumped t x) # ts)\<rparr>]\<rparr>"
    by (rule Cons.IH) (use Cons.prems in simp_all)
  then show ?case
    using record_bumps [OF Cons.prems] by (simp add: bumped_def algebra_simps)
qed

text \<open>C36. Skipped runs that repeat are one row: recording the same skip \<open>n + 1\<close> times adds a
  single row to the log, with the count, the time of the first and the time of the last.\<close>

theorem skipped_runs_grouped:
  assumes "wk_faults w = []" and "log_wf w"
    and "\<And>r. find (\<lambda>r. wl_project r = p \<and> wl_key r = key) (rev (wk_log w)) = Some r \<Longrightarrow> \<not> repeats h (take 240 cause) r"
  shows "wk_log (fold (\<lambda>t w. fst (record_wake t p src key lbl skipped cause h run w)) (t0 # ts) w)
       = wk_log w @ [\<lparr>wl_id = wk_next w, wl_project = p, wl_source = src, wl_key = key, wl_label = take 120 lbl,
           wl_outcome = skipped, wl_cause = take 240 cause, wl_hash = h, wl_run = run,
           wl_repeat = 1 + int (length ts), wl_created = t0, wl_last = last (t0 # ts)\<rparr>]"
proof -
  let ?x = "\<lparr>wl_id = wk_next w, wl_project = p, wl_source = src, wl_key = key, wl_label = take 120 lbl,
     wl_outcome = skipped, wl_cause = take 240 cause, wl_hash = h, wl_run = run,
     wl_repeat = 1, wl_created = t0, wl_last = t0\<rparr>"
  let ?w = "w\<lparr>wk_log := wk_log w @ [?x], wk_next := wk_next w + 1\<rparr>"
  have 1: "fst (record_wake t0 p src key lbl skipped cause h run w) = ?w"
    using assms(1,3)
    by (auto simp: record_wake_def wq_nofault last_log_def append_row_def insert_log_def Let_def
        split: option.split)
  have "fold (\<lambda>t w. fst (record_wake t p src key lbl skipped cause h run w)) ts ?w
      = ?w\<lparr>wk_log := wk_log w @ [?x\<lparr>wl_repeat := wl_repeat ?x + int (length ts), wl_last := last (wl_last ?x # ts)\<rparr>]\<rparr>"
    by (rule records_bump) (use assms(1,2) in \<open>auto simp: repeats_def log_wf_def\<close>)
  then show ?thesis by (simp add: 1)
qed

theorem skipped_runs_grouped_witness:
  "map wl_repeat (wk_log (fold (\<lambda>t w. fst (record_wake t [] [] [] [] skipped [99] [104] None w)) [1, 2, 3] empty_wakes)) = [3]"
  using skipped_runs_grouped [of empty_wakes "[]" "[]" "[104]" "[99]" "[]" "[]" None 1 "[2, 3]"]
  by (simp add: empty_wakes_def log_wf_def)

lemma finish_effect:
  assumes "wk_faults w = []" and "g_log g = Some i"
  shows "finish t p k g ok c run w = w\<lparr>
      wk_states := upsert_row state_key (\<lambda>old new. new)
        \<lparr>ws_project = p, ws_key = k, ws_hash = g_hash g, ws_outcome = (if ok then run_done else run_failed), ws_at = t\<rparr> (wk_states w),
      wk_log := map (\<lambda>x. if wl_id x = i then finished_row t (if ok then run_done else run_failed) c run x else x) (wk_log w)\<rparr>"
  using assms by (simp add: finish_def set_state_def wq_nofault upd_log_def Let_def)

lemma by_run_none:
  assumes "wk_faults v = []" and "find (\<lambda>x. wl_run x = Some u \<and> wl_outcome x = launched) (rev (wk_log v)) = None"
  shows "finish_by_run t u v = v"
  using assms by (simp add: finish_by_run_def wq_nofault last_log_def)

lemma by_run_effect:
  assumes "wk_faults w = []" and "r \<in> set (wk_log w)"
    and "wl_run r = Some u" and "wl_outcome r = launched"
    and "\<And>x. x \<in> set (wk_log w) \<Longrightarrow> wl_run x = Some u \<Longrightarrow> wl_outcome x = launched \<Longrightarrow> x = r"
    and "out = (if is_some_and (select_row ar_uuid u (wk_runs w)) (\<lambda>a. run_ok (ar_status a)) then run_done else run_failed)"
  shows "\<exists>c. finish_by_run t u w = w\<lparr>
      wk_states := upsert_row state_key (\<lambda>old new. new)
        \<lparr>ws_project = wl_project r, ws_key = wl_key r, ws_hash = wl_hash r, ws_outcome = out, ws_at = t\<rparr> (wk_states w),
      wk_log := map (\<lambda>x. if wl_id x = wl_id r then finished_row t out c (Some u) x else x) (wk_log w)\<rparr>"
proof -
  let ?f = "\<lambda>x. wl_run x = Some u \<and> wl_outcome x = launched"
  have "find ?f (rev (wk_log w)) \<noteq> None" using assms(2-4) by (auto simp: find_None_iff)
  then obtain x where x: "find ?f (rev (wk_log w)) = Some x" by blast
  then have "x \<in> set (wk_log w) \<and> ?f x" using find_mem [OF x] by simp
  then have "x = r" using assms(5) by blast
  with x have r: "find ?f (rev (wk_log w)) = Some r" by simp
  have nf: "\<not> run_ok run_failed" by (simp add: run_ok_def run_failed_def)
  let ?a = "select_row ar_uuid u (wk_runs w)"
  obtain st er where e: "unwrap_or (map_option (\<lambda>r. (ar_status r, ar_error r)) ?a) (run_failed, Some (lit ''run introuvable'')) = (st, er)"
    by (rule prod.exhaust)
  then have st: "run_ok st = is_some_and ?a (\<lambda>a. run_ok (ar_status a))"
    using nf by (cases ?a) auto
  let ?g = "\<lparr>g_decision = Launch [], g_hash = wl_hash r, g_log = Some (wl_id r)\<rparr>"
  have "finish_by_run t u w = finish t (wl_project r) (wl_key r) ?g (run_ok st) (run_cause (run_ok st) st er) (Some u) w"
    using assms(1) r e by (simp add: finish_by_run_def wq_nofault last_log_def Let_def)
  then show ?thesis
    using finish_effect [OF assms(1), of ?g "wl_id r" t "wl_project r" "wl_key r" "run_ok st" "run_cause (run_ok st) st er" "Some u"]
    unfolding st assms(6) [symmetric] by auto
qed

text \<open>When the run of a wake ends, the row of the log that was launched with it and the state
  of its wake take the outcome of the run (a run that is gone counts as failed), and the row
  is closed: a second notice of the same end changes nothing.\<close>

lemma run_outcome_recorded:
  assumes "wk_faults w = []" and "log_wf w" and "r \<in> set (wk_log w)"
    and "wl_run r = Some u" and "wl_outcome r = launched"
    and "\<And>x. x \<in> set (wk_log w) \<Longrightarrow> wl_run x = Some u \<Longrightarrow> wl_outcome x = launched \<Longrightarrow> x = r"
  shows "let out = (if is_some_and (select_row ar_uuid u (wk_runs w)) (\<lambda>a. run_ok (ar_status a)) then run_done else run_failed);
             w' = finish_by_run t u w
         in map_option (\<lambda>s. (ws_hash s, ws_outcome s)) (state_of w' (wl_project r) (wl_key r)) = Some (wl_hash r, out)
          \<and> (\<forall>x \<in> set (wk_log w'). wl_id x = wl_id r \<longrightarrow> wl_outcome x = out)
          \<and> finish_by_run t' u w' = w'"
proof -
  define out where "out = (if is_some_and (select_row ar_uuid u (wk_runs w)) (\<lambda>a. run_ok (ar_status a)) then run_done else run_failed)"
  let ?w = "finish_by_run t u w" and ?f = "\<lambda>x. wl_run x = Some u \<and> wl_outcome x = launched"
  obtain c where e: "?w = w\<lparr>
      wk_states := upsert_row state_key (\<lambda>old new. new)
        \<lparr>ws_project = wl_project r, ws_key = wl_key r, ws_hash = wl_hash r, ws_outcome = out, ws_at = t\<rparr> (wk_states w),
      wk_log := map (\<lambda>x. if wl_id x = wl_id r then finished_row t out c (Some u) x else x) (wk_log w)\<rparr>"
    using by_run_effect [OF assms(1,3-6) out_def] by blast
  have s: "map_option (\<lambda>s. (ws_hash s, ws_outcome s)) (state_of ?w (wl_project r) (wl_key r)) = Some (wl_hash r, out)"
    by (simp add: e state_of_def select_put state_key_def)
  have o: "out \<noteq> launched" by (simp add: out_def outcome_defs)
  have l: "\<forall>x \<in> set (wk_log ?w). wl_id x = wl_id r \<longrightarrow> wl_outcome x = out"
    by (auto simp: e finished_row_def)
  have "\<not> ?f x" if "x \<in> set (wk_log ?w)" for x
    using that assms(6) o by (auto simp: e finished_row_def split: if_splits)
  then have "find ?f (rev (wk_log ?w)) = None" by (simp add: find_None_iff)
  moreover have "wk_faults ?w = []" by (rule by_run_faults [OF assms(1)])
  ultimately have "finish_by_run t' u ?w = ?w" by (intro by_run_none)
  with s l show ?thesis unfolding Let_def out_def by blast
qed

definition sample_running :: wake_db where
  "sample_running = empty_wakes\<lparr>
     wk_log := [\<lparr>wl_id = 1, wl_project = [], wl_source = [], wl_key = [107], wl_label = [], wl_outcome = launched,
       wl_cause = [], wl_hash = [104], wl_run = Some [114], wl_repeat = 1, wl_created = 0, wl_last = 0\<rparr>],
     wk_next := 2,
     wk_runs := [\<lparr>ar_uuid = [114], ar_project = [], ar_agent = [], ar_status = lit ''completed'', ar_error = None,
       ar_created = []\<rparr>]\<rparr>"

theorem run_outcome_recorded_witness:
  "map_option (\<lambda>s. (ws_hash s, ws_outcome s)) (state_of (finish_by_run 9 [114] sample_running) [] [107]) = Some ([104], run_done)"
  using run_outcome_recorded [of sample_running "hd (wk_log sample_running)" "[114]" 9 9]
  by (simp add: sample_running_def empty_wakes_def log_wf_def select_row_def run_ok_def Let_def)

section \<open>The fingerprint and the order of keys\<close>

text \<open>The same value with the entries of its objects in another order, at any depth.\<close>

inductive reordered :: "json \<Rightarrow> json \<Rightarrow> bool" where
  same: "reordered v v"
| arr: "list_all2 reordered vs ws \<Longrightarrow> reordered (JArr vs) (JArr ws)"
| obj: "distinct (map fst m) \<Longrightarrow> mset m = mset m1 \<Longrightarrow>
        list_all2 (\<lambda>e f. fst e = fst f \<and> reordered (snd e) (snd f)) m1 m2 \<Longrightarrow> reordered (JObj m) (JObj m2)"

lemma canonical_obj_perm:
  assumes "distinct (map fst m)" and "mset m = mset m1"
  shows "canonical (JObj m) = canonical (JObj m1)"
proof -
  let ?f = "\<lambda>(k, v). (k, canonical v)"
  have k: "map fst (map ?f m) = map fst m" by (induction m) auto
  have "mset (map ?f m) = mset (map ?f m1)" using assms(2) by simp
  moreover have "inj_on fst (set (map ?f m))" using assms(1) k by (metis distinct_map)
  ultimately have "sort_key fst (map ?f m) = sort_key fst (map ?f m1)"
    by (intro sort_key_inj_key_eq) simp_all
  then show ?thesis by simp
qed

lemma canonical_reordered: "reordered a b \<Longrightarrow> canonical a = canonical b"
proof (induction rule: reordered.induct)
  case (arr vs ws)
  then have "map canonical vs = map canonical ws"
    by (auto simp: list_all2_conv_all_nth intro: nth_equalityI)
  then show ?case by simp
next
  case (obj m m1 m2)
  have "map (\<lambda>(k, v). (k, canonical v)) m1 = map (\<lambda>(k, v). (k, canonical v)) m2"
    using obj.IH by (auto simp: list_all2_conv_all_nth case_prod_beta intro: nth_equalityI)
  then have "canonical (JObj m1) = canonical (JObj m2)" by simp
  then show ?case using canonical_obj_perm [OF obj.hyps(1,2)] by simp
qed simp

lemma jinsert_last: "\<forall>k \<in> set (map fst m). k < x \<Longrightarrow> jinsert x v m = m @ [(x, v)]"
  by (induction m) auto

lemma fold_jinsert:
  "sorted_wrt (<) (map fst (out @ m)) \<Longrightarrow> fold (\<lambda>e. jinsert (fst e) (snd e)) m out = out @ m"
proof (induction m arbitrary: out)
  case (Cons e m)
  have "jinsert (fst e) (snd e) out = out @ [e]"
    using Cons.prems by (subst jinsert_last) (auto simp: sorted_wrt_append)
  then show ?case using Cons.IH [of "out @ [e]"] Cons.prems by simp
qed simp

lemma fold_jinsert_sorted:
  "sorted_wrt (<) (map fst out) \<Longrightarrow> sorted_wrt (<) (map fst (fold (\<lambda>e. jinsert (fst e) (snd e)) m out))"
  by (induction m arbitrary: out) (simp_all add: sorted_jinsert)

text \<open>C18. The fingerprint depends on the observed values and not on the order in which the keys
  of an object were written, at any depth; a value in key order is its own canonical form.\<close>

theorem fingerprint_ignores_order:
  shows "(reordered a b \<longrightarrow> fingerprint E print a = fingerprint E print b)
       \<and> (json_wf v \<longrightarrow> canonical v = v)"
proof -
  have "json_wf v \<Longrightarrow> canonical v = v"
  proof (induction v rule: canonical.induct)
    case (1 m)
    have m: "map (\<lambda>(k, v). (k, canonical v)) m = m"
      using 1 by (auto intro!: map_idI)
    have "sorted (map fst m)" using 1 by (simp add: strict_sorted_iff)
    then have "sort_key fst m = m" by (simp add: sort_key_id_if_sorted)
    then show ?case using m fold_jinsert [of "[]" m] 1 by simp
  qed (auto intro: map_idI)
  then show ?thesis using canonical_reordered by (auto simp: fingerprint_def)
qed

theorem fingerprint_ignores_order_witness:
  "fingerprint sample_wenv sample_print (JObj [(lit ''b'', JNull), (lit ''a'', JBool True)])
     = fingerprint sample_wenv sample_print (JObj [(lit ''a'', JBool True), (lit ''b'', JNull)])"
proof -
  have "reordered (JObj [(lit ''b'', JNull), (lit ''a'', JBool True)]) (JObj [(lit ''a'', JBool True), (lit ''b'', JNull)])"
    by (rule reordered.obj [of _ "[(lit ''a'', JBool True), (lit ''b'', JNull)]"])
      (auto simp: add_mset_commute intro: reordered.same)
  then show ?thesis using fingerprint_ignores_order by blast
qed

end
