(* ===== verification/DeployFailureProps.thy ===== *)
theory DeployFailureProps
  imports DeployFailure WakeGateProps
begin

text \<open>
  The properties of the counting of causes and of what a failed deployment leads to.
\<close>

section \<open>The gate leaves the causes alone\<close>

lemma upd_log_causes [simp]: "wk_causes (fst (wq (upd_log i f) w)) = wk_causes w"
  by (rule wq_field) (simp_all add: upd_log_def)

lemma last_log_causes [simp]: "wk_causes (fst (wq (last_log p) w)) = wk_causes w"
  by (rule wq_field) (simp_all add: last_log_def)

lemma append_row_causes [simp]:
  "wk_causes (fst (append_row now p src k lbl out cause h run w)) = wk_causes w"
  unfolding append_row_def by (rule wq_field) (simp_all add: insert_log_def)

lemma record_causes [simp]:
  "wk_causes (fst (record_wake now p src k lbl out cause h run w)) = wk_causes w"
proof -
  let ?f = "\<lambda>r. wl_project r = p \<and> wl_key r = k"
  obtain w1 x where "wq (last_log ?f) w = (w1, x)" by (cases "wq (last_log ?f) w") (rule that)
  then show ?thesis
    using last_log_causes [of ?f w] by (auto simp: record_wake_def Let_def split: option.split)
qed

lemma set_state_causes [simp]: "wk_causes (set_state now p k h out w) = wk_causes w"
  unfolding set_state_def by (rule wq_field) simp_all

lemma finish_causes [simp]: "wk_causes (finish now p k g ok c run w) = wk_causes w"
  by (simp add: finish_def Let_def split: option.split)

lemma query_causes [simp]: "wk_causes (fst (wq (\<lambda>w. (w, f w)) w)) = wk_causes w"
  by (rule wq_field) simp_all

lemma by_run_causes [simp]: "wk_causes (finish_by_run now run w) = wk_causes w"
proof -
  let ?f = "\<lambda>r. wl_run r = Some run \<and> wl_outcome r = launched"
  obtain w1 x where l: "wq (last_log ?f) w = (w1, x)" by (cases "wq (last_log ?f) w") (rule that)
  have "wk_causes w1 = wk_causes w" using last_log_causes [of ?f w] unfolding l fst_conv .
  then show ?thesis by (simp add: finish_by_run_def l Let_def case_prod_beta split: option.split)
qed

lemma after_wake_causes [simp]: "wk_causes (after_wake stamp now p k agent g res w) = wk_causes w"
proof -
  let ?q = "\<lambda>w. (w, wake_run stamp p agent (unwrap_or (g_log g) 0) w)"
  obtain w1 x where q: "wq ?q w = (w1, x)" by (cases "wq ?q w") (rule that)
  have "wk_causes w1 = wk_causes w"
    using query_causes [of "wake_run stamp p agent (unwrap_or (g_log g) 0)" w] unfolding q fst_conv .
  then show ?thesis
    by (auto simp: after_wake_def q Let_def split: sum.split option.split)
qed

lemma after_wake_faults:
  assumes "wk_faults w = []"
  shows "wk_faults (after_wake stamp now p k agent g res w) = []"
  using assms finish_faults by_run_faults
  by (auto simp: after_wake_def wq_nofault upd_log_def Let_def split: sum.split option.split)

lemma mark_woken_faults: "wk_faults w = [] \<Longrightarrow> wk_faults (mark_woken now p h w) = []"
  unfolding mark_woken_def by (rule wq_faults_nil) (simp_all add: upd_causes_def)

section \<open>Causes by key\<close>

lemma cause_of_causes: "wk_causes v = wk_causes w \<Longrightarrow> cause_of v p h = cause_of w p h"
  by (simp add: cause_of_def)

lemma cause_conflict_key: "cause_key new = cause_key old \<Longrightarrow> cause_key (cause_conflict old new) = cause_key old"
  by (simp add: cause_conflict_def Let_def)

lemma mark_woken_cause:
  assumes "wk_faults w = []"
  shows "cause_of (mark_woken now p h w) p h = map_option (\<lambda>r. r\<lparr>wc_wake := Some now\<rparr>) (cause_of w p h)"
proof -
  let ?g = "\<lambda>r. if wc_project r = p \<and> wc_hash r = h then r\<lparr>wc_wake := Some now\<rparr> else r"
  have "cause_of (mark_woken now p h w) p h = map_option ?g (cause_of w p h)"
    using assms select_row_map [of cause_key ?g "(p, h)" "wk_causes w"]
    by (simp add: mark_woken_def wq_nofault upd_causes_def cause_of_def)
  then show ?thesis
    by (cases "cause_of w p h") (auto simp: cause_of_def cause_key_def dest: select_row_key)
qed

text \<open>The row of the cause after its failure was counted.\<close>

definition counted_row :: "cause_row option \<Rightarrow> cause_row \<Rightarrow> cause_row" where
  "counted_row old new = (case old of None \<Rightarrow> new | Some r \<Rightarrow> cause_conflict r new)"

lemma register_effect:
  assumes "wk_faults w = []" and "h = cause_hash E kind summary"
    and "r = counted_row (cause_of w p h) (new_cause p h kind summary dep now)"
  obtains w' where "register_failure E now p kind summary dep w = (w', Inr \<lparr>cs_hash = h, cs_occurrences = wc_occ r,
        cs_action = wc_action r, cs_first = wc_first r, cs_decision = decide_wake (wc_occ r) (wc_action r) (wc_wake r) now\<rparr>)"
    and "wk_faults w' = []" and "cause_of w' p h = Some r"
proof -
  let ?n = "new_cause p h kind summary dep now"
  let ?w = "w\<lparr>wk_causes := upsert_row cause_key cause_conflict ?n (wk_causes w)\<rparr>"
  have k: "cause_key ?n = (p, h)" by (simp add: new_cause_def cause_key_def)
  have "select_row cause_key (p, h) (upsert_row cause_key cause_conflict ?n (wk_causes w)) = Some r"
    using select_upsert [of cause_key cause_conflict "(p, h)" ?n "wk_causes w", OF cause_conflict_key]
    by (simp add: k counted_row_def cause_of_def assms(3))
  then have c: "cause_of ?w p h = Some r" by (simp add: cause_of_def)
  have u: "upsert_cause ?n w = (?w, r)"
    by (simp add: upsert_cause_def k counted_row_def cause_of_def assms(3))
  show thesis
    by (rule that [of ?w])
      (use c u assms(1) in \<open>simp_all add: register_failure_def wq_nofault assms(2) [symmetric] Let_def\<close>)
qed

section \<open>What handling a failure does to its cause\<close>

lemma log_failure_keeps:
  "wk_causes (fst (log_failure now p h out c w)) = wk_causes w"
  "wk_faults w = [] \<Longrightarrow> wk_faults (fst (log_failure now p h out c w)) = []"
  by (simp_all add: log_failure_def record_faults)

lemma summary_effect:
  assumes "faults s = []"
  shows "fst (deploy_failure_summary dep sm s) = s"
  using assms by (simp add: deploy_failure_summary_def sql_nofault Let_def)

text \<open>A failure that is not silenced leaves its cause marked with the time.\<close>

definition woken_row :: "instant \<Rightarrow> wake_decision \<Rightarrow> cause_row \<Rightarrow> cause_row" where
  "woken_row now d r = (if d = Silent then r else r\<lparr>wc_wake := Some now\<rparr>)"

lemma marked:
  assumes "wk_faults w = []" and "cause_of w p h = Some r" and "d \<noteq> Silent"
  shows "wk_faults (mark_woken now p h w) = [] \<and> cause_of (mark_woken now p h w) p h = Some (woken_row now d r)"
  using assms mark_woken_cause [OF assms(1)] mark_woken_faults by (simp add: woken_row_def)

lemma wake_for_failure_effect:
  assumes "wk_faults w = []" and "cause_of w p (cs_hash cs) = Some r" and "d \<noteq> Silent"
    and "wake_for_failure now io p cs content w = (w', act, res)"
  shows "wk_faults w' = [] \<and> cause_of w' p (cs_hash cs) = Some (woken_row now d r) \<and> act = Woken content"
proof -
  obtain w1 i where l: "log_failure now p (cs_hash cs) launched
      (decision_name (cs_decision cs) @ lit '' (P1-07, n='' @ show_int (cs_occurrences cs) @ lit '')'') w = (w1, i)"
    by (rule prod.exhaust)
  have k: "wk_causes w1 = wk_causes w" "wk_faults w1 = []"
    using log_failure_keeps(1) [of now p "cs_hash cs" launched
        "decision_name (cs_decision cs) @ lit '' (P1-07, n='' @ show_int (cs_occurrences cs) @ lit '')''" w]
      log_failure_keeps(2) [OF assms(1), of now p "cs_hash cs" launched
        "decision_name (cs_decision cs) @ lit '' (P1-07, n='' @ show_int (cs_occurrences cs) @ lit '')''"]
    unfolding l fst_conv .
  let ?g = "\<lparr>g_decision = Launch [], g_hash = cs_hash cs, g_log = i\<rparr>"
  let ?w2 = "w1\<lparr>wk_runs := fi_runs io\<rparr>"
  let ?w3 = "case fi_coordinator io of None \<Rightarrow> ?w2
     | Some coord \<Rightarrow> after_wake (fi_stamp io) now p (fail_key (cs_hash cs)) coord ?g (fi_wake io) ?w2"
  have "wk_causes ?w3 = wk_causes w" "wk_faults ?w3 = []"
    using k assms(1) by (simp_all add: after_wake_faults split: option.split)
  then have "wk_faults ?w3 = []" "cause_of ?w3 p (cs_hash cs) = Some r"
    using assms(2) cause_of_causes [of ?w3 w p "cs_hash cs"] by simp_all
  note m = marked [OF this assms(3), of now]
  have "mark_woken now p (cs_hash cs) ?w3 = w' \<and> Woken content = act \<and> fi_wake io = res"
    using assms(4) unfolding wake_for_failure_def Let_def l case_prod_conv prod.inject .
  then show ?thesis using m by blast
qed

lemma dispatch_effect:
  assumes "faults s = []" and "wk_faults w = []" and "cause_of w p (cs_hash cs) = Some r"
    and "dispatch_failure now io p dep sm hint auto_repair cs s w = ((s', w'), act, res)"
  shows "s' = s \<and> wk_faults w' = [] \<and> cause_of w' p (cs_hash cs) = Some (woken_row now (cs_decision cs) r)
     \<and> (act = Silenced \<longleftrightarrow> cs_decision cs = Silent)"
proof -
  have logged: "wk_faults (fst (log_failure now p h out c w)) = [] \<and> cause_of (fst (log_failure now p h out c w)) p (cs_hash cs) = Some r"
    for h out c using log_failure_keeps assms(2,3) cause_of_causes by metis
  show ?thesis
  proof (cases "cs_decision cs")
    case Silent
    then show ?thesis using assms(4) logged by (auto simp: dispatch_failure_def woken_row_def)
  next
    case Escalate
    obtain w2 a x where wf: "wake_for_failure now io p cs (escalate_message now dep cs sm) w = (w2, a, x)"
      by (rule prod_cases3)
    show ?thesis
      using wake_for_failure_effect [OF assms(2,3) _ wf, of Escalate] assms(4) wf Escalate
      by (auto simp: dispatch_failure_def)
  next
    case Normal
    obtain w2 a x where wf: "wake_for_failure now io p cs (normal_message dep sm hint (cs_hash cs)) w = (w2, a, x)"
      by (rule prod_cases3)
    have m: "wk_faults (mark_woken now p (cs_hash cs) (fst (log_failure now p (cs_hash cs) out c w))) = []
        \<and> cause_of (mark_woken now p (cs_hash cs) (fst (log_failure now p (cs_hash cs) out c w))) p (cs_hash cs)
            = Some (woken_row now Normal r)" for out c
      using marked logged by blast
    show ?thesis
      using wake_for_failure_effect [OF assms(2,3) _ wf, of Normal] m assms(4) wf Normal
      by (auto simp: dispatch_failure_def sql_nofault [OF assms(1)] Let_def split: option.splits if_splits)
  qed
qed

lemma handle_effect:
  assumes "faults s = []" and "wk_faults w = []"
    and "handle_deploy_failure E now io p dep sm hint auto_repair (s, w) = ((s', w'), act, res)"
    and "h = cause_hash E kind_deploy_fail (snd (deploy_failure_summary dep sm s))"
    and "r = counted_row (cause_of w p h) (new_cause p h kind_deploy_fail (snd (deploy_failure_summary dep sm s)) dep now)"
    and "d = decide_wake (wc_occ r) (wc_action r) (wc_wake r) now"
  shows "s' = s \<and> wk_faults w' = [] \<and> cause_of w' p h = Some (woken_row now d r) \<and> (act = Silenced \<longleftrightarrow> d = Silent)"
proof -
  obtain u where ds: "deploy_failure_summary dep sm s = (s, u)"
    using summary_effect [OF assms(1), of dep sm] by (cases "deploy_failure_summary dep sm s") auto
  let ?c = "\<lparr>cs_hash = h, cs_occurrences = wc_occ r, cs_action = wc_action r, cs_first = wc_first r, cs_decision = d\<rparr>"
  have h: "h = cause_hash E kind_deploy_fail u" and r: "r = counted_row (cause_of w p h) (new_cause p h kind_deploy_fail u dep now)"
    using assms(4,5) ds by simp_all
  obtain w1 where reg: "register_failure E now p kind_deploy_fail u dep w = (w1, Inr ?c)"
    and w1: "wk_faults w1 = []" "cause_of w1 p h = Some r"
    unfolding assms(6) by (rule register_effect [OF assms(2) h r])
  have "dispatch_failure now io p dep u hint auto_repair ?c s w1 = ((s', w'), act, res)"
    using assms(3) by (simp add: handle_deploy_failure_def ds reg)
  from dispatch_effect [OF assms(1) w1(1) _ this, of r] show ?thesis using w1(2) by simp
qed

section \<open>How often a cause wakes somebody\<close>

text \<open>A list of failures: when, which deployment, and the summary its caller passes.\<close>

fun handle_all ::
  "wake_env \<Rightarrow> fail_io \<Rightarrow> ustr \<Rightarrow> ustr \<Rightarrow> bool \<Rightarrow> (instant \<times> ustr \<times> ustr) list \<Rightarrow> db \<times> wake_db \<Rightarrow> (instant \<times> fail_act) list" where
  "handle_all E io p hint auto_repair [] sw = []"
| "handle_all E io p hint auto_repair ((now, dep, sm) # xs) sw =
     (case handle_deploy_failure E now io p dep sm hint auto_repair sw of
        (sw', act, _) \<Rightarrow> (now, act) # handle_all E io p hint auto_repair xs sw')"

fun failed_dep :: "instant \<times> ustr \<times> ustr \<Rightarrow> ustr" where
  "failed_dep (now, dep, sm) = dep"

definition wake_times :: "(instant \<times> fail_act) list \<Rightarrow> instant list" where
  "wake_times xs = map fst (filter (\<lambda>x. snd x \<noteq> Silenced) xs)"

definition far :: "instant \<Rightarrow> instant \<Rightarrow> bool" where
  "far a b \<longleftrightarrow> a + hours silence_window_hours \<le> b"

lemma far_trans: "far a b \<Longrightarrow> far b c \<Longrightarrow> far a c"
  by (auto simp: far_def hours_def minutes_def silence_window_hours_def)

text \<open>From the third failure on.\<close>

lemma later_wakes_far:
  assumes "faults s = []" and "wk_faults w = []" and "cause_of w p h = Some r"
    and "wc_occ r \<ge> 2" and "wc_wake r = Some tw" and "wc_action r \<noteq> Some resolved_act" and "wc_dep r = Some d0"
    and "distinct_adj (d0 # map failed_dep xs)"
    and "\<forall>(now, dep, sm) \<in> set xs. cause_hash E kind_deploy_fail (snd (deploy_failure_summary dep sm s)) = h"
  shows "sorted_wrt far (tw # wake_times (handle_all E io p hint auto_repair xs (s, w)))"
  using assms(2-)
proof (induction xs arbitrary: w r tw d0)
  case Nil
  then show ?case by (simp add: wake_times_def)
next
  case (Cons x xs)
  obtain now dep sm where x: "x = (now, dep, sm)" by (rule prod_cases3)
  let ?n = "new_cause p h kind_deploy_fail (snd (deploy_failure_summary dep sm s)) dep now"
  let ?r = "counted_row (cause_of w p h) ?n"
  let ?d = "decide_wake (wc_occ ?r) (wc_action ?r) (wc_wake ?r) now"
  obtain s' w' act res where hd: "handle_deploy_failure E now io p dep sm hint auto_repair (s, w) = ((s', w'), act, res)"
    by (metis prod.exhaust)
  have dd: "d0 \<noteq> dep" "distinct_adj (dep # map failed_dep xs)" using Cons.prems(7) x by auto
  have r: "wc_occ ?r = wc_occ r + 1" "wc_action ?r = wc_action r" "wc_wake ?r = Some tw" "wc_dep ?r = Some dep"
    using Cons.prems(2,4-6) dd(1) by (simp_all add: counted_row_def cause_conflict_def new_cause_def Let_def)
  have "h = cause_hash E kind_deploy_fail (snd (deploy_failure_summary dep sm s))" using Cons.prems(8) x by simp
  note e = handle_effect [OF assms(1) Cons.prems(1) hd this refl refl]
  have d: "?d = (if now - tw < hours silence_window_hours then Silent else Escalate)"
    using Cons.prems(3,5) r by (simp add: decide_wake_def)
  let ?tw = "if ?d = Silent then tw else now"
  have "sorted_wrt far (?tw # wake_times (handle_all E io p hint auto_repair xs (s, w')))"
    by (rule Cons.IH [of w' "woken_row now ?d ?r" ?tw dep])
      (use e r Cons.prems(3,5,8) dd(2) in \<open>auto simp: woken_row_def\<close>)
  then have rest: "sorted_wrt far (?tw # wake_times (handle_all E io p hint auto_repair xs (s', w')))" using e by simp
  have w: "wake_times (handle_all E io p hint auto_repair (x # xs) (s, w)) =
      (if act = Silenced then [] else [now]) @ wake_times (handle_all E io p hint auto_repair xs (s', w'))"
    by (simp add: wake_times_def x hd)
  show ?case
  proof (cases "?d = Silent")
    case True
    then show ?thesis using rest w e by simp
  next
    case False
    then have "far tw now" using d by (auto simp: far_def split: if_splits)
    then show ?thesis using rest w e False far_trans by auto
  qed
qed


definition sample_io :: fail_io where
  "sample_io = \<lparr>fi_repair = Inr (), fi_wake = Inr (), fi_runs = [], fi_coordinator = None, fi_stamp = (\<lambda>_. [])\<rparr>"

definition no_rows :: db where
  "no_rows = \<lparr>deployments = [], projects = [], events = [], faults = []\<rparr>"


end
