(* ===== verification/DeployGuardProps.thy ===== *)
theory DeployGuardProps
  imports DeployGuard DeployFailureProps
begin

text \<open>
  The properties of the guard of the automatic deployments.
\<close>

section \<open>The scan of the history\<close>

text \<open>The attempts since the last success, and those of them that failed.\<close>

definition since_success :: "attempt list \<Rightarrow> attempt list" where
  "since_success as = takeWhile (\<lambda>a. \<not> settles (at_status a)) as"

definition failures_of :: "attempt list \<Rightarrow> attempt list" where
  "failures_of as = filter (\<lambda>a. failed (at_status a)) (since_success as)"

definition of_commit :: "ustr \<Rightarrow> attempt \<Rightarrow> bool" where
  "of_commit tip a \<longleftrightarrow> is_some_and (at_sha a) (\<lambda>s. same_sha s tip)"

lemma settles_not_failed: "settles st \<Longrightarrow> \<not> failed st"
  by (cases st) auto

lemma scan_spec:
  "scan tip as k t = (if list_ex (of_commit tip) (failures_of as) then Inl (take 7 tip)
     else Inr (k + length (failures_of as),
       if failures_of as = [] then t else Some (unwrap_or t (at_created (hd (failures_of as))))))"
  by (induction tip as k t rule: scan.induct)
    (auto simp: failures_of_def since_success_def of_commit_def settles_not_failed)

lemma guard_spec:
  "guard_decide tip as now =
     (let fs = failures_of as in
      if list_ex (of_commit tip) fs then SameShaFailed (take 7 tip)
      else if fs \<noteq> [] \<and> now < at_created (hd fs) + backoff_for (length fs)
      then Backoff (at_created (hd fs) + backoff_for (length fs)) (length fs)
      else Go)"
  by (simp add: guard_decide_def scan_spec Let_def)

text \<open>The guard stops a commit exactly when an attempt since the last success failed on it, and
  otherwise waits exactly as long as the failures in a row ask for, counted from the latest.\<close>

lemma guard_blocks_exactly:
  "(guard_decide tip as now = SameShaFailed (take 7 tip)
      \<longleftrightarrow> (\<exists>a \<in> set (takeWhile (\<lambda>a. \<not> settles (at_status a)) as). failed (at_status a) \<and> of_commit tip a))
   \<and> (guard_decide tip as now = Go
      \<longleftrightarrow> \<not> (\<exists>a \<in> set (failures_of as). of_commit tip a)
        \<and> (failures_of as = [] \<or> at_created (hd (failures_of as)) + backoff_for (length (failures_of as)) \<le> now))"
  by (auto simp: guard_spec Let_def list_ex_iff failures_of_def since_success_def)

section \<open>The waiting time\<close>

lemma backoff_le: "backoff_for n \<le> minutes max_backoff_min" "0 \<le> backoff_for n"
  by (simp_all add: backoff_for_def Let_def minutes_def max_backoff_min_def base_backoff_min_def push_bit_eq_mult)

text \<open>The waiting time is within an hour, grows with the failures, and doubles from two minutes
  until the hour is reached; the shift never leaves 64 bits.\<close>

lemma backoff_bounds:
  "0 \<le> backoff_for n \<and> backoff_for n \<le> minutes 60
   \<and> (m \<le> n \<longrightarrow> backoff_for m \<le> backoff_for n)
   \<and> (n < 5 \<longrightarrow> backoff_for (n + 1) = minutes (2 ^ (n + 1)))
   \<and> push_bit (min (n - 1) 10) base_backoff_min < 2 ^ 63"
proof -
  have "push_bit (min (n - 1) 10) base_backoff_min \<le> 2 ^ 10 * 2"
    using power_increasing [of "min (n - 1) 10" 10 "2::int"] by (simp add: push_bit_eq_mult base_backoff_min_def)
  moreover have "n < 5 \<Longrightarrow> backoff_for (n + 1) = minutes (2 ^ (n + 1))"
  proof -
    assume "n < 5"
    then have "n \<in> {0, 1, 2, 3, 4}" by auto
    then show ?thesis
      by (auto simp: backoff_for_def Let_def push_bit_eq_mult base_backoff_min_def max_backoff_min_def)
  qed
  moreover have "m \<le> n \<Longrightarrow> backoff_for m \<le> backoff_for n"
  proof (cases "m = 0")
    case True
    then show ?thesis using backoff_le(2) [of n] by (simp add: backoff_for_def)
  next
    case False
    assume "m \<le> n"
    then have "(2::int) ^ min (m - 1) 10 \<le> 2 ^ min (n - 1) 10" by (intro power_increasing) auto
    then show ?thesis
      using False \<open>m \<le> n\<close> by (simp add: backoff_for_def Let_def push_bit_eq_mult base_backoff_min_def min_le_iff_disj)
  qed
  ultimately show ?thesis using backoff_le [of n] by (simp add: max_backoff_min_def)
qed

text \<open>A new commit is never held back for ever: an hour after the latest failure it goes.\<close>

theorem new_commit_goes_within_the_hour:
  assumes "\<And>a. a \<in> set (failures_of as) \<Longrightarrow> \<not> of_commit tip a"
    and "failures_of as \<noteq> [] \<Longrightarrow> at_created (hd (failures_of as)) + minutes 60 \<le> now"
  shows "guard_decide tip as now = Go"
  using assms backoff_le(1) [of "length (failures_of as)"]
  by (fastforce simp: guard_spec Let_def list_ex_iff max_backoff_min_def)

theorem backoff_bounds_witness:
  "backoff_for 1 \<le> backoff_for 40 \<and> backoff_for 4 = minutes 16"
  using backoff_bounds [of 40 1] backoff_bounds [of 3 0] by simp

definition sample_attempt :: "dep_status \<Rightarrow> instant \<Rightarrow> attempt" where
  "sample_attempt st t = \<lparr>at_sha = Some (lit ''0c4711b''), at_status = st, at_created = t\<rparr>"

theorem guard_blocks_exactly_witness:
  "guard_decide (lit ''0C4711B'') [sample_attempt Failed 5] 9 = SameShaFailed (lit ''0C4711B'')"
proof -
  have "of_commit (lit ''0C4711B'') (sample_attempt Failed 5)"
    by (simp add: of_commit_def sample_attempt_def same_sha_def usable_def trim_defs is_ws_def is_hexdigit_def
        is_ascii_digit_def ascii_lower_def is_ascii_upper_def utf8_len_def utf8_width_def to_ascii_lowercase_def starts_with_def)
  then show ?thesis
    using guard_blocks_exactly [of "lit ''0C4711B''" "[sample_attempt Failed 5]" 9] by (simp add: sample_attempt_def)
qed

theorem new_commit_goes_within_the_hour_witness:
  "guard_decide (lit ''abcdef1'') [sample_attempt Failed 5] (minutes 61) = Go"
proof -
  have "\<not> of_commit (lit ''abcdef1'') (sample_attempt Failed 5)"
    by (simp add: of_commit_def sample_attempt_def same_sha_def usable_def trim_defs is_ws_def is_hexdigit_def
        is_ascii_digit_def ascii_lower_def is_ascii_upper_def utf8_len_def utf8_width_def to_ascii_lowercase_def starts_with_def)
  then show ?thesis
    by (intro new_commit_goes_within_the_hour) (auto simp: failures_of_def since_success_def sample_attempt_def minutes_def)
qed

text \<open>The guard forgets: a commit that failed is deployed again on its own once a success or
  twenty other rows (cancelled ones too) came after its failure, although nothing new was pushed.\<close>

theorem guard_forgets_failure:
  assumes "faults s = []"
    and "rev (sort_key d_created_at (rev (filter (\<lambda>d. d_project d = pid \<and> d_env d = env) (deployments s)))) = newer @ older"
    and "\<And>d. d \<in> set newer \<Longrightarrow> \<not> failed (d_status d)"
    and "length newer \<ge> 20 \<or> (\<exists>d \<in> set newer. settles (d_status d) \<and> length newer \<le> 20)"
  shows "guard_decide tip (snd (load_history parse now pid env s)) now = Go"
proof -
  have h: "snd (load_history parse now pid env s) = map (attempt_of parse now) (take 20 (newer @ older))"
    using assms(1,2) by (simp add: load_history_def sql_nofault history_rows_def)
  have a: "at_status (attempt_of parse now d) = d_status d" for d by (simp add: attempt_of_def)
  have "failures_of (map (attempt_of parse now) (take 20 (newer @ older))) = []"
  proof (cases "length newer \<ge> 20")
    case True
    then show ?thesis
      using assms(3) by (auto simp: failures_of_def since_success_def a filter_empty_conv dest!: set_takeWhileD in_set_takeD)
  next
    case False
    then obtain d where d: "d \<in> set newer" "settles (d_status d)" using assms(4) by auto
    let ?p = "\<lambda>a. \<not> settles (at_status a)" and ?f = "attempt_of parse now"
    have "takeWhile ?p (map ?f newer @ map ?f (take (20 - length newer) older)) = takeWhile ?p (map ?f newer)"
      using d by (intro takeWhile_append1 [of "?f d"]) (auto simp: a)
    then show ?thesis
      using False assms(3) by (auto simp: failures_of_def since_success_def a filter_empty_conv dest!: set_takeWhileD)
  qed
  then show ?thesis by (simp add: h guard_spec)
qed

definition guard_dep :: "string \<Rightarrow> dep_status \<Rightarrow> string \<Rightarrow> deployment" where
  "guard_dep u st at = \<lparr>d_uuid = lit u, d_project = 7, d_status = st, d_env = lit ''dev'',
     d_git_sha = Some (lit ''0c4711b''), d_target_sha = None, d_logs = None, d_error_summary = None,
     d_error_hint = None, d_live_sha = None, d_finished_at = None, d_dismissed_at = None,
     d_created_at = lit at, d_updated_at = lit at\<rparr>"

theorem guard_forgets_failure_witness:
  "guard_decide (lit ''0c4711b'') (snd (load_history (\<lambda>_. None) 0 7 (lit ''dev'')
      (no_rows\<lparr>deployments := [guard_dep ''a'' Failed ''1'', guard_dep ''b'' Success ''2'']\<rparr>))) 0 = Go"
  by (rule guard_forgets_failure [of _ _ _ "[guard_dep ''b'' Success ''2'']" "[guard_dep ''a'' Failed ''1'']"])
    (simp_all add: no_rows_def guard_dep_def)

section \<open>One notice per blocked commit\<close>

lemma register_dep:
  "wc_dep (counted_row old (new_cause p h kind summary dep now)) = Some dep"
  by (cases old) (simp_all add: counted_row_def cause_conflict_def new_cause_def Let_def)

lemma insert_message_effect:
  assumes "wk_faults w = []"
  shows "wk_causes (fst (wq (insert_message m) w)) = wk_causes w \<and> wk_faults (fst (wq (insert_message m) w)) = []
     \<and> wk_messages (fst (wq (insert_message m) w)) = wk_messages w @ [m]"
  using assms by (simp add: wq_nofault insert_message_def)

text \<open>The marker kept for the pause of an environment.\<close>

definition kept_marker :: "wake_env \<Rightarrow> ustr \<Rightarrow> ustr \<Rightarrow> wake_db \<Rightarrow> ustr option" where
  "kept_marker E p env w = Option.bind (cause_of w p (cause_hash E kind_auto_deploy_paused (pause_summary env))) wc_dep"

lemma escalate_seen:
  assumes "wk_faults w = []"
  shows "snd (escalate_once E now st coordinator p env sha (s, w)) \<longleftrightarrow> kept_marker E p env w \<noteq> Some (pause_marker env sha)"
    and "kept_marker E p env w = Some (pause_marker env sha)
      \<Longrightarrow> escalate_once E now st coordinator p env sha (s, w) = ((s, w), False)"
  using assms
  by (auto simp: escalate_once_def wq_nofault kept_marker_def Let_def case_prod_beta bind_eq_Some_conv
      split: option.splits)

lemma escalate_effect:
  assumes "wk_faults w = []" and "kept_marker E p env w \<noteq> Some (pause_marker env sha)"
    and "escalate_once E now st coordinator p env sha (s, w) = ((s', w'), told)"
  shows "wk_faults w' = [] \<and> kept_marker E p env w' = Some (pause_marker env sha)"
proof -
  let ?h = "cause_hash E kind_auto_deploy_paused (pause_summary env)" and ?m = "pause_marker env sha"
  let ?r = "counted_row (cause_of w p ?h) (new_cause p ?h kind_auto_deploy_paused (pause_summary env) ?m now)"
  let ?c = "\<lparr>cs_hash = ?h, cs_occurrences = wc_occ ?r, cs_action = wc_action ?r, cs_first = wc_first ?r,
     cs_decision = decide_wake (wc_occ ?r) (wc_action ?r) (wc_wake ?r) now\<rparr>"
  obtain w2 where reg: "register_failure E now p kind_auto_deploy_paused (pause_summary env) ?m w = (w2, Inr ?c)"
    and w2: "wk_faults w2 = []" "cause_of w2 p ?h = Some ?r"
    by (rule register_effect [OF assms(1) refl refl])
  define w3 where "w3 = (case coordinator of None \<Rightarrow> w2
     | Some a \<Rightarrow> fst (wq (insert_message \<lparr>am_project = p, am_agent = a, am_content = paused_text env sha, am_at = st\<rparr>) w2))"
  have "wk_faults w3 = [] \<and> wk_causes w3 = wk_causes w2"
    using w2(1) insert_message_effect [OF w2(1)] by (simp add: w3_def split: option.split)
  then have w3: "wk_faults w3 = []" "cause_of w3 p ?h = Some ?r"
    using w2(2) cause_of_causes [of w3 w2 p ?h] by simp_all
  have "w' = mark_woken now p ?h w3"
    using assms by (simp add: escalate_once_def wq_nofault reg w3_def kept_marker_def Let_def
        bind_eq_Some_conv split: if_splits option.splits)
  then show ?thesis
    using mark_woken_cause [OF w3(1), of now p ?h] mark_woken_faults [OF w3(1)] w3(2) register_dep
    by (simp add: kept_marker_def)
qed

text \<open>A blocked commit is announced once: as long as no other commit of the environment is
  blocked, further rounds of the poller say nothing and change nothing.\<close>

lemma blocked_commit_told_once:
  assumes "wk_faults w = []" and "escalate_once E now st coordinator p env sha (s, w) = ((s', w'), told)"
  shows "escalate_once E now' st' coordinator' p env sha (s', w') = ((s', w'), False)"
proof (cases "kept_marker E p env w = Some (pause_marker env sha)")
  case True
  then show ?thesis using escalate_seen(2) [OF assms(1) True] assms(2) by simp
next
  case False
  note e = escalate_effect [OF assms(1) False assms(2)]
  then show ?thesis using escalate_seen(2) [of w'] by blast
qed

theorem blocked_commit_told_once_witness:
  "\<exists>s w. escalate_once sample_wenv 0 [] None [112] (lit ''dev'') [97] (no_rows, empty_wakes) = ((s, w), True)
     \<and> escalate_once sample_wenv 9 [] None [112] (lit ''dev'') [97] (s, w) = ((s, w), False)"
proof -
  obtain s w b where e: "escalate_once sample_wenv 0 [] None [112] (lit ''dev'') [97] (no_rows, empty_wakes) = ((s, w), b)"
    by (metis prod.exhaust)
  have f: "wk_faults empty_wakes = []" by (simp add: empty_wakes_def)
  have b using escalate_seen(1) [OF f, of sample_wenv 0 "[]" None "[112]" "lit ''dev''" "[97]" no_rows] e
    by (simp add: kept_marker_def cause_of_def empty_wakes_def select_row_def)
  then show ?thesis using blocked_commit_told_once [OF f e, of 9 "[]" None] e by auto
qed

text \<open>Only the last blocked commit is remembered: when two commits of an environment are blocked
  in turn, the first one is announced a second time.\<close>

theorem alternating_commits_told_again:
  assumes "wk_faults w = []" and "pause_marker env a \<noteq> pause_marker env b"
    and "kept_marker E p env w = Some (pause_marker env a)"
    and "escalate_once E now st coordinator p env b (s, w) = ((s1, w1), told)"
  shows "snd (escalate_once E now' st' coordinator' p env a (s1, w1))"
proof -
  have "kept_marker E p env w \<noteq> Some (pause_marker env b)" using assms(2,3) by simp
  note e = escalate_effect [OF assms(1) this assms(4)]
  then show ?thesis using escalate_seen(1) [of w1] assms(2) by auto
qed

theorem alternating_commits_told_again_witness:
  "\<exists>s w. snd (escalate_once sample_wenv 9 [] None [112] (lit ''dev'') [97]
     (fst (escalate_once sample_wenv 5 [] None [112] (lit ''dev'') [98] (s, w))))
     \<and> kept_marker sample_wenv [112] (lit ''dev'') w = Some (pause_marker (lit ''dev'') [97])"
proof -
  obtain s w b where e: "escalate_once sample_wenv 0 [] None [112] (lit ''dev'') [97] (no_rows, empty_wakes) = ((s, w), b)"
    by (metis prod.exhaust)
  have f: "wk_faults empty_wakes = []" by (simp add: empty_wakes_def)
  have n: "kept_marker sample_wenv [112] (lit ''dev'') empty_wakes \<noteq> Some (pause_marker (lit ''dev'') [97])"
    by (simp add: kept_marker_def cause_of_def empty_wakes_def select_row_def)
  note m = escalate_effect [OF f n e]
  obtain s1 w1 b1 where e1: "escalate_once sample_wenv 5 [] None [112] (lit ''dev'') [98] (s, w) = ((s1, w1), b1)"
    by (metis prod.exhaust)
  have "pause_marker (lit ''dev'') [97] \<noteq> pause_marker (lit ''dev'') [98]" by (simp add: pause_marker_def)
  from alternating_commits_told_again [OF _ this _ e1, of 9 "[]" None] m show ?thesis
    using e1 by (intro exI [of _ s] exI [of _ w]) simp
qed

end
