(* ===== verification/Shell.thy ===== *)
theory Shell
  imports RustStr
begin

text \<open>
  Quoting of arguments: \<open>shell_escape\<close> of \<open>crates/deploy/src/docker.rs\<close> and
  \<open>shell_single_quote\<close> of \<open>crates/deploy/src/lib.rs\<close>, against a reader of shell words.

  \<open>sh_words\<close> is the specification: how a POSIX shell splits a simple command into words
  (blanks, single quotes, double quotes, backslash). It is partial on purpose: a character
  that may mean anything else to the shell when it is not quoted (expansion, redirection,
  separator, pattern) makes the whole text unreadable, so a text that is read as a list of
  words is a simple command with exactly these arguments.
\<close>

section \<open>The reader\<close>

datatype quoting = Bare | Single | Double

definition sh_plain :: "uchar \<Rightarrow> bool" where
  "sh_plain c \<longleftrightarrow> is_ascii_alnum c \<or> c \<in> set (lit ''-_./:=,+@'')"

definition cur :: "ustr option \<Rightarrow> ustr" where
  "cur w = unwrap_or w []"

definition flush :: "ustr option \<Rightarrow> ustr list \<Rightarrow> ustr list" where
  "flush w ws = (case w of None \<Rightarrow> ws | Some x \<Rightarrow> x # ws)"

fun sh_lex :: "quoting \<Rightarrow> ustr option \<Rightarrow> ustr \<Rightarrow> ustr list option" where
  "sh_lex Bare w [] = Some (flush w [])"
| "sh_lex Single w [] = None"
| "sh_lex Double w [] = None"
| "sh_lex Single w (c # s) =
     (if c = 39 then sh_lex Bare (Some (cur w)) s else sh_lex Single (Some (cur w @ [c])) s)"
| "sh_lex Double w (c # s) =
     (if c = 34 then sh_lex Bare (Some (cur w)) s
      else if c = 36 \<or> c = 96 \<or> c = 92 then None
      else sh_lex Double (Some (cur w @ [c])) s)"
| "sh_lex Bare w (c # s) =
     (if c = 32 \<or> c = 9 then map_option (flush w) (sh_lex Bare None s)
      else if c = 39 then sh_lex Single (Some (cur w)) s
      else if c = 34 then sh_lex Double (Some (cur w)) s
      else if c = 92 then (case s of [] \<Rightarrow> None | d # t \<Rightarrow> if d = 10 then None else sh_lex Bare (Some (cur w @ [d])) t)
      else if sh_plain c then sh_lex Bare (Some (cur w @ [c])) s
      else None)"

definition sh_words :: "ustr \<Rightarrow> ustr list option" where
  "sh_words s = sh_lex Bare None s"

lemma cur_simps [simp]: "cur None = []" "cur (Some x) = x"
  by (simp_all add: cur_def)

lemma flush_simps [simp]: "flush None ws = ws" "flush (Some x) ws = x # ws"
  by (simp_all add: flush_def)

section \<open>The source's quoting\<close>

text \<open>\<open>s.replace('\'', "'\\''")\<close>\<close>

definition requote :: "ustr \<Rightarrow> ustr" where
  "requote s = concat (map (\<lambda>c. if c = 39 then [39, 92, 39, 39] else [c]) s)"

definition shell_single_quote :: "ustr \<Rightarrow> ustr" where
  "shell_single_quote s = [39] @ requote s @ [39]"

definition shell_safe :: "uchar \<Rightarrow> bool" where
  "shell_safe c \<longleftrightarrow> is_ascii_alnum c \<or> c \<in> set (lit ''-_./:='')"

definition shell_escape :: "ustr \<Rightarrow> ustr" where
  "shell_escape s = (if list_all shell_safe s then s else [39] @ requote s @ [39])"

section \<open>Texts that are read as one piece of a word\<close>

text \<open>\<open>reads a s\<close>: wherever it stands outside quotes, the text \<open>a\<close> adds \<open>s\<close> to the current
  word, and makes one if there is none.\<close>

definition reads :: "ustr \<Rightarrow> ustr \<Rightarrow> bool" where
  "reads a s \<longleftrightarrow> (\<forall>w r. sh_lex Bare w (a @ r) = sh_lex Bare (Some (cur w @ s)) r)"

named_theorems reads_intros \<open>texts read as one piece\<close>

lemma reads_single: "sh_lex Single w (requote s @ 39 # r) = sh_lex Bare (Some (cur w @ s)) r"
proof (induction s arbitrary: w)
  case Nil
  then show ?case by (simp add: requote_def)
next
  case (Cons c s)
  have q: "requote (c # s) = (if c = 39 then [39, 92, 39, 39] else [c]) @ requote s"
    by (simp add: requote_def)
  show ?case
  proof (cases "c = 39")
    case True
    with Cons.IH [of "Some (cur w @ [39])"] show ?thesis unfolding q by simp
  next
    case False
    with Cons.IH [of "Some (cur w @ [c])"] show ?thesis unfolding q by simp
  qed
qed

lemma reads_quoted [reads_intros]: "reads (shell_single_quote s) s"
  unfolding reads_def shell_single_quote_def by (simp add: reads_single)

lemma reads_plain [reads_intros]: "s \<noteq> [] \<Longrightarrow> list_all sh_plain s \<Longrightarrow> reads s s"
proof -
  have step: "sh_plain c \<Longrightarrow> sh_lex Bare w (c # r) = sh_lex Bare (Some (cur w @ [c])) r" for c w r
    by (auto simp: sh_plain_def char_defs)
  have "list_all sh_plain s \<Longrightarrow> sh_lex Bare (Some x) (s @ r) = sh_lex Bare (Some (x @ s)) r" for x r
    by (induction s arbitrary: x) (simp_all add: step del: sh_lex.simps)
  then show "s \<noteq> [] \<Longrightarrow> list_all sh_plain s \<Longrightarrow> reads s s"
    unfolding reads_def by (cases s) (simp_all add: step del: sh_lex.simps)
qed

lemma safe_plain: "shell_safe c \<Longrightarrow> sh_plain c"
  by (auto simp: shell_safe_def sh_plain_def)

lemma reads_escape [reads_intros]: "s \<noteq> [] \<Longrightarrow> reads (shell_escape s) s"
proof (cases "list_all shell_safe s")
  case True
  then have "list_all sh_plain s" by (auto simp: list_all_iff safe_plain)
  with True show "s \<noteq> [] \<Longrightarrow> reads (shell_escape s) s"
    by (simp add: shell_escape_def reads_plain)
next
  case False
  then show "reads (shell_escape s) s"
    using reads_quoted [of s] by (simp add: shell_escape_def shell_single_quote_def)
qed

lemma reads_append [reads_intros]: "reads a s \<Longrightarrow> reads b t \<Longrightarrow> reads (a @ b) (s @ t)"
  by (simp add: reads_def)

text \<open>An empty argument is escaped to nothing and adds nothing.\<close>

lemma escape_Nil [simp]: "shell_escape [] = []"
  by (simp add: shell_escape_def)

text \<open>Texts that are read as words, joined with blanks, are read as the list of these words.\<close>

lemma words_join:
  assumes "list_all2 reads as ws"
  shows "sh_words (join [32] as) = Some ws"
proof -
  have "list_all2 reads as ws \<Longrightarrow> as \<noteq> [] \<Longrightarrow> sh_lex Bare None (join [32] as) = Some ws"
  proof (induction as arbitrary: ws)
    case (Cons a as)
    then obtain w vs where ws: "ws = w # vs" and a: "reads a w" and as: "list_all2 reads as vs"
      by (cases ws) auto
    have head: "sh_lex Bare None (a @ r) = sh_lex Bare (Some w) r" for r
      using a by (simp add: reads_def)
    show ?case
    proof (cases "as = []")
      case True
      with as head [of "[]"] ws show ?thesis by simp
    next
      case False
      with Cons.IH [OF as] have "sh_lex Bare None (join [32] as) = Some vs" by simp
      with False ws show ?thesis by (simp add: join_Cons head)
    qed
  qed simp
  with assms show ?thesis
    by (cases "as = []") (auto simp: sh_words_def)
qed

end
