(* ===== verification/Redact.thy ===== *)
theory Redact
  imports Json
begin

text \<open>
  Redaction of secrets (\<open>crates/shared/src/redact.rs\<close>): which names call for it, which texts
  look like credentials, how a secret, a URL, a text and a JSON value are shown, and how an
  update recognises what was shown. The JSON parser and printer are arguments of
  \<open>redact_json_str\<close>.
\<close>

section \<open>Names\<close>

definition MASK :: ustr where "MASK = lit ''***''"

definition sensitive_fragments :: "ustr list" where
  "sensitive_fragments = map lit [''token'', ''secret'', ''password'', ''passwd'', ''passphrase'',
     ''api_key'', ''apikey'', ''private_key'', ''privatekey'', ''access_key'', ''secret_key'',
     ''signing_key'', ''encryption_key'', ''master_key'', ''client_key'', ''authorization'',
     ''auth_header'', ''cookie'', ''credential'', ''bearer'', ''session_key'', ''dsn'',
     ''database_url'', ''connection_string'']"

definition sensitive_exact :: "ustr list" where
  "sensitive_exact = map lit [''pwd'', ''pass'', ''pat'', ''jwt'', ''otp'', ''x_api_key'']"

definition non_sensitive_exact :: "ustr list" where
  "non_sensitive_exact = map lit [''secret_keys'', ''token_type'', ''token_endpoint'',
     ''token_endpoint_auth_method'', ''token_prefix'', ''token_hint'', ''secrets_masked'',
     ''has_secrets'', ''has_api_key'', ''has_token'', ''has_value'', ''max_tokens'',
     ''max_output_tokens'', ''prompt_tokens'', ''completion_tokens'', ''total_tokens'',
     ''input_tokens'', ''output_tokens'', ''oauth_connected'', ''oauth_expires_at'',
     ''oauth_scopes'', ''secret'']"

definition secret_containers :: "ustr list" where
  "secret_containers = map lit [''headers'', ''secrets'', ''env'', ''environment'', ''env_vars'']"

text \<open>The loop of \<open>normalise_key\<close>: an underscore before a capital that follows a small letter or a
  digit, and for every separator.\<close>

fun norm_key :: "bool \<Rightarrow> ustr \<Rightarrow> ustr" where
  "norm_key prev_lower [] = []"
| "norm_key prev_lower (c # s) =
     (if is_ascii_upper c \<and> prev_lower then [95] else []) @
     (if c = 45 \<or> c = 32 \<or> c = 46 then 95 else ascii_lower c) #
     norm_key (is_ascii_lower c \<or> is_ascii_digit c) s"

definition normalise_key :: "ustr \<Rightarrow> ustr" where
  "normalise_key key = norm_key False (trim key)"

definition is_sensitive_key :: "ustr \<Rightarrow> bool" where
  "is_sensitive_key key =
     (let k = normalise_key key
      in if k = [] then False
         else if k \<in> set non_sensitive_exact \<or> starts_with k (lit ''has_'')
                 \<or> list_ex (ends_with k) (map lit [''_expires_at'', ''_scopes'', ''_masked'',
                     ''_has_value'', ''_tokens'', ''_keys'', ''public_key''])
         then False
         else if k \<in> set sensitive_exact then True
         else list_ex (contains k) sensitive_fragments
                \<or> list_ex (ends_with k) (map lit [''_key'', ''_pat'', ''_pass'']))"

section \<open>Masks\<close>

definition is_masked_placeholder :: "ustr \<Rightarrow> bool" where
  "is_masked_placeholder value =
     (let v = trim value
      in if v = [] then False
         else if list_all (\<lambda>c. c = 42 \<or> c = 8226) v \<and> length v \<ge> 3 then True
         else if contains v [8226, 8226, 8226, 8226] \<or> contains v (lit '':***@'')
                 \<or> contains v (lit ''=***'') \<or> starts_with v (lit ''***@'') then True
         else (case split_on (\<lambda>c. c = 8230) v of
                 [a, b] \<Rightarrow> length a = 4 \<and> length b = 4
               | _ \<Rightarrow> False))"

definition mask_secret :: "ustr \<Rightarrow> ustr" where
  "mask_secret value =
     (if value = [] then []
      else if is_masked_placeholder value then value
      else if length value < 20 then MASK
      else take 4 value @ [8230] @ drop (length value - 4) value)"

text \<open>\<open>keep_secret_on_placeholder\<close>: what an update stores.\<close>

definition keep_secret_on_placeholder :: "ustr \<Rightarrow> ustr option \<Rightarrow> bool \<Rightarrow> ustr" where
  "keep_secret_on_placeholder incoming previous keep_on_empty =
     (let placeholder = is_masked_placeholder incoming \<or> (keep_on_empty \<and> trim incoming = [])
      in if placeholder
         then (case previous of
                 Some prev \<Rightarrow> prev
               | None \<Rightarrow> if is_masked_placeholder incoming then [] else incoming)
         else incoming)"

section \<open>Texts that look like credentials\<close>

definition token_prefixes :: "ustr list" where
  "token_prefixes = map lit [''ghp_'', ''gho_'', ''ghu_'', ''ghs_'', ''ghr_'', ''github_pat_'',
     ''glpat-'', ''xoxb-'', ''xoxp-'', ''xoxa-'', ''xoxr-'', ''xoxs-'', ''xapp-'', ''sk-'',
     ''sk_live_'', ''sk_test_'', ''rk_live_'', ''pk_live_'', ''AKIA'', ''ASIA'', ''AIza'', ''ya29.'',
     ''npm_'', ''pypi-'', ''hf_'', ''dop_v1_'', ''SG.'', ''shpat_'']"

definition has_auth_scheme :: "ustr \<Rightarrow> bool" where
  "has_auth_scheme v =
     (let (a, b) = (case split_once 32 v of None \<Rightarrow> (v, []) | Some p \<Rightarrow> p);
          scheme = to_ascii_lowercase a;
          rest = trim b
      in scheme \<in> set (map lit [''bearer'', ''basic'', ''token'', ''bot'']) \<and> rest \<noteq> [] \<and> 32 \<notin> set rest)"

definition jwt_char :: "uchar \<Rightarrow> bool" where
  "jwt_char c \<longleftrightarrow> is_ascii_alnum c \<or> c \<in> set (lit ''-_='')"

definition looks_like_token :: "ustr \<Rightarrow> bool" where
  "looks_like_token value =
     (let v = trim value
      in if v = [] \<or> (list_ex is_ws v \<and> \<not> has_auth_scheme v) then False
         else if has_auth_scheme v then True
         else if utf8_len v \<ge> 16 \<and> list_ex (starts_with v) token_prefixes
         then list_all (\<lambda>c. is_ascii_alnum c \<or> c \<in> set (lit ''_-.=/+'')) v
         else let segs = split_on (\<lambda>c. c = 46) v
              in length segs = 3 \<and> starts_with v (lit ''eyJ'')
                 \<and> list_all (\<lambda>s. utf8_len s \<ge> 8 \<and> list_all jwt_char s) segs)"

section \<open>URLs\<close>

definition scheme_char :: "uchar \<Rightarrow> bool" where
  "scheme_char c \<longleftrightarrow> is_ascii_alnum c \<or> c \<in> set (lit ''+-.'')"

definition is_sensitive_query_key :: "ustr \<Rightarrow> bool" where
  "is_sensitive_query_key k \<longleftrightarrow> is_sensitive_key k \<or>
     normalise_key k \<in> set (map lit [''key'', ''sig'', ''signature'', ''code'', ''access_token'', ''auth'',
       ''apikey'', ''x_amz_signature''])"

definition authority_stop :: "uchar \<Rightarrow> bool" where
  "authority_stop c \<longleftrightarrow> c = 47 \<or> c = 63 \<or> c = 35"

definition redact_authority :: "ustr \<Rightarrow> ustr" where
  "redact_authority a =
     (case rsplit_once 64 a of
        None \<Rightarrow> a
      | Some (userinfo, host) \<Rightarrow>
          (case split_once 58 userinfo of
             Some (user, _) \<Rightarrow> user @ [58] @ MASK @ [64] @ host
           | None \<Rightarrow> MASK @ [64] @ host))"

definition redact_param :: "ustr \<Rightarrow> ustr" where
  "redact_param pair =
     (case split_once 61 pair of
        Some (k, v) \<Rightarrow>
          if v \<noteq> [] \<and> (is_sensitive_query_key k \<or> looks_like_token v) then k @ [61] @ MASK else pair
      | None \<Rightarrow> pair)"

definition redact_query :: "ustr \<Rightarrow> ustr" where
  "redact_query q =
     (case q of
        [] \<Rightarrow> []
      | c # body \<Rightarrow>
          [63] @ join [38] (map redact_param (split_on (\<lambda>c. c = 38) (takeWhile (\<lambda>c. c \<noteq> 35) body)))
            @ dropWhile (\<lambda>c. c \<noteq> 35) body)"

definition redact_url :: "ustr \<Rightarrow> ustr" where
  "redact_url url =
     (case find_str (lit ''://'') url of
        None \<Rightarrow> url
      | Some scheme_end \<Rightarrow>
          if take scheme_end url = [] \<or> \<not> list_all scheme_char (take scheme_end url) then url
          else let scheme = take (scheme_end + 3) url;
                   rest = drop (scheme_end + 3) url;
                   authority = takeWhile (\<lambda>c. \<not> authority_stop c) rest;
                   tail = dropWhile (\<lambda>c. \<not> authority_stop c) rest
               in scheme @ redact_authority authority
                    @ takeWhile (\<lambda>c. c \<noteq> 63) tail @ redact_query (dropWhile (\<lambda>c. c \<noteq> 63) tail))"

definition redact_remote :: "ustr \<Rightarrow> ustr" where
  "redact_remote url =
     (let t = trim url
      in case find_str (lit ''://'') t of
           None \<Rightarrow> t
         | Some scheme_end \<Rightarrow>
             let scheme = take (scheme_end + 3) t;
                 rest = drop (scheme_end + 3) t
             in case rsplit_once 64 (takeWhile (\<lambda>c. \<not> authority_stop c) rest) of
                  None \<Rightarrow> t
                | Some (u, _) \<Rightarrow> scheme @ MASK @ drop (length u) rest)"

text \<open>The URLs of a text. The loop goes on after each \<open>://\<close>.\<close>

definition url_stop :: "uchar \<Rightarrow> bool" where
  "url_stop c \<longleftrightarrow> is_ws c \<or> c \<in> set (lit ''/?#'') \<or> c = 39 \<or> c = 34 \<or> c = 60 \<or> c = 62 \<or> c = 96"

definition skip_userinfo :: "ustr \<Rightarrow> ustr \<times> ustr" where
  "skip_userinfo rest =
     (case rsplit_once 64 (takeWhile (\<lambda>c. \<not> url_stop c) rest) of
        None \<Rightarrow> ([], rest)
      | Some (u, _) \<Rightarrow> (MASK, drop (length u) rest))"

lemma skip_userinfo_length: "length (snd (skip_userinfo rest)) \<le> length rest"
  by (simp add: skip_userinfo_def split: option.split)

lemma find_str_bound: "find_str pat s = Some i \<Longrightarrow> i + length pat \<le> length s"
proof (induction s arbitrary: i)
  case (Cons c s)
  show ?case
  proof (cases "starts_with (c # s) pat")
    case True
    with Cons.prems show ?thesis by (auto simp: starts_with_iff dest: arg_cong [where f = length])
  next
    case False
    with Cons show ?thesis by auto
  qed
qed (auto split: if_splits)

function redact_urls_in_text :: "ustr \<Rightarrow> ustr" where
  "redact_urls_in_text s =
     (case find_str (lit ''://'') s of
        None \<Rightarrow> s
      | Some i \<Rightarrow>
          take (i + 3) s @ fst (skip_userinfo (drop (i + 3) s))
            @ redact_urls_in_text (snd (skip_userinfo (drop (i + 3) s))))"
  by auto
termination
proof (relation "measure length")
  fix s :: ustr and i
  assume "find_str (lit ''://'') s = Some i"
  then have "i + 3 \<le> length s" using find_str_bound by fastforce
  then show "(snd (skip_userinfo (drop (i + 3) s)), s) \<in> measure length"
    using skip_userinfo_length [of "drop (i + 3) s"] by simp
qed simp

declare redact_urls_in_text.simps [simp del]

definition looks_like_url :: "ustr \<Rightarrow> bool" where
  "looks_like_url v =
     (case find_str (lit ''://'') v of
        None \<Rightarrow> False
      | Some i \<Rightarrow> 0 < i \<and> i < 20 \<and> \<not> list_ex is_ws v \<and> list_all scheme_char (take i v))"

definition redact_str :: "ustr \<Rightarrow> ustr" where
  "redact_str value =
     (if looks_like_url value then redact_url value
      else if looks_like_token value then mask_secret value
      else value)"

section \<open>JSON values\<close>

fun mask_value :: "json \<Rightarrow> json" where
  "mask_value (JStr s) = JStr (mask_secret s)"
| "mask_value JNull = JNull"
| "mask_value (JBool b) = JBool b"
| "mask_value (JNum n) = JStr MASK"
| "mask_value (JArr a) = JArr (map mask_value a)"
| "mask_value (JObj m) = JObj (map (\<lambda>(k, v). (k, mask_value v)) m)"

definition value_present :: "json \<Rightarrow> bool" where
  "value_present v = (case v of JNull \<Rightarrow> False | JStr s \<Rightarrow> s \<noteq> [] | _ \<Rightarrow> True)"

text \<open>What an object says of its entry \<open>value\<close>: the name in \<open>key\<close> or \<open>name\<close>, and the flag
  \<open>secret\<close>.\<close>

definition pair_name :: "(ustr \<times> json) list \<Rightarrow> ustr option" where
  "pair_name m = Option.bind (opt_or (map_of m (lit ''key'')) (map_of m (lit ''name''))) as_str"

definition pair_secret :: "(ustr \<times> json) list \<Rightarrow> bool" where
  "pair_secret m = unwrap_or (Option.bind (map_of m (lit ''secret'')) as_bool) False"

definition is_pair :: "(ustr \<times> json) list \<Rightarrow> bool" where
  "is_pair m \<longleftrightarrow> pair_name m \<noteq> None \<and> map_of m (lit ''value'') \<noteq> None"

text \<open>The entry is the value of a pair, and its pair is secret.\<close>

definition value_of_pair :: "(ustr \<times> json) list \<Rightarrow> ustr \<Rightarrow> bool" where
  "value_of_pair m k \<longleftrightarrow> is_pair m \<and> k = lit ''value''"

definition secret_pair :: "(ustr \<times> json) list \<Rightarrow> bool" where
  "secret_pair m \<longleftrightarrow> pair_secret m \<or> is_sensitive_key (unwrap_or (pair_name m) [])"

definition is_jstr :: "json \<Rightarrow> bool" where
  "is_jstr v = (case v of JStr s \<Rightarrow> True | _ \<Rightarrow> False)"

definition masked_entry :: "ustr \<Rightarrow> json \<Rightarrow> bool" where
  "masked_entry k v \<longleftrightarrow> is_sensitive_key k \<or> (normalise_key k = lit ''secret'' \<and> is_jstr v)"

definition add_has_value :: "(ustr \<times> json) list \<Rightarrow> (ustr \<times> json) list \<Rightarrow> (ustr \<times> json) list" where
  "add_has_value m out =
     (if is_pair m \<and> map_of m (lit ''has_value'') = None
      then jinsert (lit ''has_value'')
             (JBool (case map_of m (lit ''value'') of None \<Rightarrow> False | Some v \<Rightarrow> value_present v)) out
      else out)"

text \<open>An argument \<open>--key=value\<close> of a command line.\<close>

definition redact_flag :: "ustr \<Rightarrow> ustr" where
  "redact_flag s =
     (case split_once 61 (trim_start_char 45 s) of
        Some (k, v) \<Rightarrow>
          if is_sensitive_key k then take (length s - length v - 1) s @ [61] @ mask_secret v
          else redact_str s
      | None \<Rightarrow> s)"

definition flag_masks_next :: "ustr \<Rightarrow> bool" where
  "flag_masks_next s \<longleftrightarrow> 61 \<notin> set (trim_start_char 45 s) \<and> is_sensitive_key (trim_start_char 45 s)"

text \<open>The functions of the source recurse through iterators; here every iteration is a function
  of its own: the elements of an array, the entries of an object (with the whole object) and the
  entries of a container of secrets.\<close>

fun redact_json :: "json \<Rightarrow> json"
  and redact_array :: "bool \<Rightarrow> json list \<Rightarrow> json list"
  and redact_entries :: "(ustr \<times> json) list \<Rightarrow> (ustr \<times> json) list \<Rightarrow> (ustr \<times> json) list"
  and redact_container :: "(ustr \<times> json) list \<Rightarrow> (ustr \<times> json) list" where
  "redact_json (JObj m) = JObj (add_has_value m (redact_entries m m))"
| "redact_json (JArr a) = JArr (redact_array False a)"
| "redact_json (JStr s) = JStr (redact_str s)"
| "redact_json v = v"
| "redact_array mask_next [] = []"
| "redact_array mask_next (JStr s # items) =
     (if mask_next then JStr (mask_secret s) # redact_array False items
      else if starts_with s [45] then JStr (redact_flag s) # redact_array (flag_masks_next s) items
      else JStr (redact_str s) # redact_array False items)"
| "redact_array mask_next (v # items) = redact_json v # redact_array False items"
| "redact_entries m [] = []"
| "redact_entries m ((k, v) # es) =
     (k, if value_of_pair m k then if secret_pair m then mask_value v else redact_json v
         else if masked_entry k v then mask_value v
         else if normalise_key k \<in> set secret_containers
         then (case v of JObj inner \<Rightarrow> JObj (redact_container inner) | _ \<Rightarrow> redact_json v)
         else redact_json v) # redact_entries m es"
| "redact_container [] = []"
| "redact_container ((k, v) # es) =
     (k, case v of
           JObj m \<Rightarrow> JObj (add_has_value m (redact_entries m m))
         | JArr a \<Rightarrow> JArr (redact_array False a)
         | scalar \<Rightarrow> mask_value scalar) # redact_container es"

definition redact_object :: "(ustr \<times> json) list \<Rightarrow> (ustr \<times> json) list" where
  "redact_object m = add_has_value m (redact_entries m m)"

definition redact_json_str :: "(ustr \<Rightarrow> json option) \<Rightarrow> (json \<Rightarrow> ustr option) \<Rightarrow> ustr \<Rightarrow> ustr" where
  "redact_json_str parse print raw =
     (case parse raw of
        Some (JObj m) \<Rightarrow> unwrap_or (print (redact_json (JObj m))) raw
      | Some (JArr a) \<Rightarrow> unwrap_or (print (redact_json (JArr a))) raw
      | _ \<Rightarrow> raw)"

definition masked_map :: "(ustr \<times> ustr) list \<Rightarrow> (ustr \<times> json) list" where
  "masked_map entries =
     foldl (\<lambda>m (k, v). jinsert k (JObj [(lit ''has_value'', JBool (v \<noteq> [])), (lit ''masked'', JStr (mask_secret v))]) m)
       [] entries"

end
