(* ===== verification/GitSync.thy ===== *)
theory GitSync
  imports Shell Redact
begin

text \<open>
  The synchronisation of a working directory with its Git repository, the pure functions of
  \<open>crates/deploy/src/lib.rs\<close>: the URL that is cloned, the shell script that fetches or clones, the
  suffix that pins a commit, the refusal of committed conflict markers, and what of Git's output
  goes to the log. The Base64 encoder of the \<open>base64\<close> crate is an argument. The branches for
  Windows hosts are left out.
\<close>

section \<open>Paths\<close>

text \<open>\<open>Path::join\<close>\<close>

definition path_join :: "ustr \<Rightarrow> ustr \<Rightarrow> ustr" where
  "path_join a b =
     (if starts_with b [47] then b
      else if a = [] \<or> last a = 47 then a @ b
      else a @ [47] @ b)"

text \<open>\<open>DEVFORGE_DATA_DIR\<close> and the current directory are read from the environment.\<close>

definition data_dir_base :: "ustr option \<Rightarrow> ustr option \<Rightarrow> ustr" where
  "data_dir_base data_dir cwd =
     (case data_dir of Some v \<Rightarrow> v | None \<Rightarrow> path_join (unwrap_or cwd (lit ''.'')) (lit ''data''))"

definition resolve_workdir :: "ustr option \<Rightarrow> ustr option \<Rightarrow> ustr \<Rightarrow> ustr \<Rightarrow> ustr" where
  "resolve_workdir data_dir cwd workdir uuid =
     (let w = trim workdir;
          path = (if w = [] then path_join (path_join (data_dir_base data_dir cwd) (lit ''applications'')) uuid else w)
      in if starts_with path [47] then path else path_join (unwrap_or cwd (lit ''.'')) path)"

definition resolve_repo_subdir :: "ustr \<Rightarrow> ustr \<Rightarrow> ustr" where
  "resolve_repo_subdir workdir rel =
     (let r = trim rel
      in if r = [] \<or> r = lit ''/'' \<or> r = lit ''.'' then workdir
         else workdir @ [47] @ trim_start_char 47 (trim_start_str (lit ''./'') r))"

definition normalize_repo_rel :: "ustr \<Rightarrow> ustr" where
  "normalize_repo_rel rel = trim_start_char 47 (trim_start_str (lit ''./'') (trim rel))"

definition path_relative_to :: "ustr \<Rightarrow> ustr \<Rightarrow> ustr" where
  "path_relative_to full workdir =
     (let a = trim_end_char 47 full; w = trim_end_char 47 workdir
      in if a = w then lit ''.''
         else case strip_prefix a w of
                Some rest \<Rightarrow>
                  let rest = trim_start_char 47 rest in if rest = [] then lit ''.'' else rest
              | None \<Rightarrow> a)"

section \<open>The repository\<close>

definition git_clone_url :: "ustr \<Rightarrow> ustr option \<Rightarrow> ustr" where
  "git_clone_url repo_text token =
     (let repo = trim_end_str (lit ''.git'') (trim repo_text);
          https =
            (if starts_with repo (lit ''http://'') \<or> starts_with repo (lit ''https://'') then repo @ lit ''.git''
             else if contains repo (lit ''github.com/'')
             then (if starts_with repo (lit ''git@'')
                   then let path = (case split_on (\<lambda>c. c = 58) repo of _ # p # _ \<Rightarrow> p | _ \<Rightarrow> repo)
                        in lit ''https://github.com/'' @ trim_end_str (lit ''.git'') path @ lit ''.git''
                   else lit ''https://'' @ trim_start_str (lit ''https://'') repo @ lit ''.git'')
             else lit ''https://github.com/'' @ repo @ lit ''.git'')
      in case opt_filter (\<lambda>t. t \<noteq> []) token of
           Some t \<Rightarrow> replace_first (lit ''https://'') (lit ''https://x-access-token:'' @ t @ lit ''@'') https
         | None \<Rightarrow> https)"

datatype fetch_from = FromOrigin | FromUrl ustr

section \<open>The scripts\<close>

definition fetch_text :: "ustr \<Rightarrow> ustr \<Rightarrow> fetch_from \<Rightarrow> ustr" where
  "fetch_text workdir branch from =
     lit ''git -C '' @ shell_single_quote workdir @ lit '' fetch '' @
     (case from of
        FromOrigin \<Rightarrow> lit ''origin''
      | FromUrl u \<Rightarrow> shell_single_quote u @ lit '' '' @
          shell_single_quote (lit ''+refs/heads/'' @ branch @ lit '':refs/remotes/origin/'' @ branch))"

definition git_sync_command :: "ustr \<Rightarrow> ustr \<Rightarrow> ustr \<Rightarrow> fetch_from \<Rightarrow> ustr option \<Rightarrow> ustr" where
  "git_sync_command workdir clone_url branch from clean_remote =
     (let w = shell_single_quote workdir;
          url = shell_single_quote clone_url;
          b = shell_single_quote branch;
          tmp = [34] @ lit ''$tmp'' @ [34];
          sync =
            lit ''if [ -d '' @ w @ lit ''/.git ]; then '' @
              fetch_text workdir branch from @ lit '' && git -C '' @ w @ lit '' checkout '' @ b @
              lit '' && git -C '' @ w @ lit '' reset --hard origin/'' @ b @ lit ''; else '' @
            lit ''if [ -d '' @ w @ lit '' ] && [ '' @ [34] @ lit ''$(ls -A '' @ w @ lit '' 2>/dev/null)'' @ [34] @
              lit '' ]; then tmp='' @ [34] @ w @ lit ''.tmp.git'' @ [34] @ lit ''; '' @
              lit ''git clone --branch '' @ b @ lit '' --single-branch '' @ url @ lit '' '' @ tmp @ lit '' && mv '' @
              tmp @ lit ''/.git '' @ w @ lit ''/.git && mv '' @ tmp @ lit ''/* '' @ w @ lit ''/ 2>/dev/null; mv '' @
              tmp @ lit ''/.[!.]* '' @ w @ lit ''/ 2>/dev/null; rm -rf '' @ tmp @ lit ''; else '' @
              lit ''git clone --branch '' @ b @ lit '' --single-branch '' @ url @ lit '' '' @ w @
            lit ''; fi; fi''
      in case clean_remote of
           Some c \<Rightarrow>
             lit ''{ '' @ sync @ lit ''; }; rc=$?; if [ -d '' @ w @ lit ''/.git ]; then git -C '' @ w @
             lit '' remote set-url origin '' @ shell_single_quote c @ lit '' 2>/dev/null; fi; (exit $rc)''
         | None \<Rightarrow> sync)"

definition basic_auth_value :: "(ustr \<Rightarrow> ustr) \<Rightarrow> ustr \<Rightarrow> ustr" where
  "basic_auth_value base64 token = base64 (lit ''x-access-token:'' @ token)"

definition git_sync_command_header_auth :: "(ustr \<Rightarrow> ustr) \<Rightarrow> ustr \<Rightarrow> ustr \<Rightarrow> ustr \<Rightarrow> ustr \<Rightarrow> ustr" where
  "git_sync_command_header_auth base64 workdir clean_url branch token =
     (let w = shell_single_quote workdir;
          url = shell_single_quote clean_url;
          header = shell_single_quote (lit ''AUTHORIZATION: basic '' @ basic_auth_value base64 token)
      in lit ''export GIT_CONFIG_COUNT=1 GIT_CONFIG_KEY_0=http.https://github.com/.extraheader GIT_CONFIG_VALUE_0='' @
         header @ lit '' GIT_TERMINAL_PROMPT=0; '' @
         lit ''if [ -d '' @ w @ lit ''/.git ]; then git -C '' @ w @ lit '' remote set-url origin '' @ url @ lit ''; fi; '' @
         git_sync_command workdir clean_url branch (FromUrl clean_url) None)"

definition pin_sha_suffix :: "ustr \<Rightarrow> ustr \<Rightarrow> fetch_from \<Rightarrow> ustr option" where
  "pin_sha_suffix workdir sha_text from =
     (let sha = trim sha_text; w = shell_single_quote workdir
      in if \<not> (7 \<le> utf8_len sha \<and> utf8_len sha \<le> 40) \<or> \<not> list_all is_hexdigit sha then None
         else Some (lit '' && git -C '' @ w @ lit '' fetch '' @
                (case from of FromOrigin \<Rightarrow> lit ''origin'' | FromUrl u \<Rightarrow> shell_single_quote u) @
                lit '' '' @ sha @ lit '' && git -C '' @ w @ lit '' reset --hard '' @ sha))"

section \<open>What goes to the log\<close>

definition redact_git_output :: "(ustr \<Rightarrow> ustr) \<Rightarrow> ustr \<Rightarrow> ustr option \<Rightarrow> ustr" where
  "redact_git_output base64 s token =
     redact_urls_in_text
       (case opt_filter (\<lambda>t. 4 \<le> utf8_len t) (map_option trim token) of
          Some t \<Rightarrow> replace_str t MASK (replace_str (basic_auth_value base64 t) MASK s)
        | None \<Rightarrow> s)"

definition git_auth_log_line :: "(ustr \<Rightarrow> ustr) \<Rightarrow> ustr option \<Rightarrow> bool \<Rightarrow> ustr option \<Rightarrow> ustr" where
  "git_auth_log_line base64 token ephemeral extra =
     (let has_token = (case token of Some t \<Rightarrow> trim t \<noteq> [] | None \<Rightarrow> False);
          mode =
            (if \<not> has_token then lit ''aucun jeton (acc'' @ [232] @ lit ''s anonyme : d'' @ [233] @ lit ''p'' @ [244] @ lit ''ts publics uniquement)''
             else if ephemeral then lit ''GitHub App (jeton d'' @ [39] @ lit ''installation limit'' @ [233] @ lit '' au d'' @ [233] @ lit ''p'' @ [244] @ lit ''t)''
             else lit ''jeton classique (PAT d'' @ [39] @ lit ''instance)'');
          transport =
            (if \<not> has_token then []
             else lit '', en-t'' @ [234] @ lit ''te HTTP, jamais '' @ [233] @ lit ''crit dans .git/config'');
          line = lit ''[git] auth : '' @ mode @ transport
      in (case opt_filter (\<lambda>n. n \<noteq> []) (map_option trim extra) of
            Some n \<Rightarrow> line @ [32, 8212, 32] @ redact_git_output base64 n token
          | None \<Rightarrow> line) @ [10])"

section \<open>Conflict markers\<close>

definition conflict_grep_cmd :: ustr where
  "conflict_grep_cmd =
     lit ''git grep -nIE '' @ [39] @ lit ''^(<<<<<<<|>>>>>>>)( |$)'' @ [39] @ lit '' -- . '' @
     [39] @ lit '':!*.md'' @ [39] @ lit '' '' @ [39] @ lit '':!*.mdx'' @ [39] @ lit '' '' @ [39] @ lit '':!*.txt'' @ [39] @ lit '' '' @
     [39] @ lit '':!*.rst'' @ [39] @ lit '' '' @ [39] @ lit '':!*.patch'' @ [39] @ lit '' '' @ [39] @ lit '':!*.diff'' @ [39] @
     lit '' | head -n 20''"

definition is_marker_line :: "ustr \<Rightarrow> bool" where
  "is_marker_line l \<longleftrightarrow> contains l (lit '':<<<<<<<'') \<or> contains l (lit '':>>>>>>>'')"

text \<open>One location per file, the first one.\<close>

fun conflict_files :: "ustr list \<Rightarrow> ustr list \<Rightarrow> ustr list" where
  "conflict_files files [] = files"
| "conflict_files files (h # hits) =
     conflict_files
       (case splitn 3 58 h of
          f # n # _ \<Rightarrow>
            if list_ex (\<lambda>x. starts_with x (f @ [58])) files then files else files @ [f @ [58] @ n]
        | _ \<Rightarrow> files) hits"

definition conflict_marker_message :: "int \<Rightarrow> ustr \<Rightarrow> ustr option" where
  "conflict_marker_message exit_code output =
     (let hits = filter is_marker_line (map trim (str_lines output))
      in if exit_code \<noteq> 0 \<or> hits = [] then None
         else Some
           (lit ''[conflit] Marqueurs de conflit Git commit'' @ [233] @ lit ''s dans '' @
            join (lit '', '') (conflict_files [] hits) @ [32, 8212] @ lit '' build non lanc'' @ [233] @ lit ''.'' @ [10] @
            lit ''[conflit] R'' @ [233] @ lit ''sous le conflit (garde une seule version, supprime les lignes <<<<<<< ======= >>>>>>>) puis pousse un nouveau commit.'' @ [10]))"

end
