(* ===== verification/RunSpec.thy ===== *)
theory RunSpec
  imports RustStr "HOL-Library.Word"
begin

text \<open>
  \<open>crates/deploy/src/runtime.rs\<close>: the options of a \<open>docker run\<close> that a project asks for
  (memory, cpus, health check, published ports, sidecars), their validation, and the
  reading of the answers of the public name. Reading JSON is an argument of \<open>from_json\<close>.
\<close>

section \<open>Data\<close>

record published_port =
  pp_host :: "16 word"
  pp_container :: "16 word"
  pp_protocol :: ustr

record healthcheck =
  hc_cmd :: ustr
  hc_interval :: ustr
  hc_timeout :: ustr
  hc_retries :: "32 word"
  hc_start_period :: ustr

record sidecar =
  sc_name :: ustr
  sc_image :: ustr
  sc_ports :: "published_port list"
  sc_memory :: "ustr option"

record runtime =
  rt_memory :: "ustr option"
  rt_cpus :: "ustr option"
  rt_healthcheck :: "healthcheck option"
  rt_ports :: "published_port list"
  rt_sidecars :: "sidecar list"

definition default_runtime :: runtime where
  "default_runtime = \<lparr> rt_memory = None, rt_cpus = None, rt_healthcheck = None, rt_ports = [], rt_sidecars = [] \<rparr>"

text \<open>The flags of one \<open>docker run\<close>.\<close>

record run_tune =
  tu_ports :: "published_port list"
  tu_memory :: "ustr option"
  tu_cpus :: "ustr option"
  tu_healthcheck :: "healthcheck option"
  tu_alias :: "ustr option"

definition tune_of_runtime :: "runtime \<Rightarrow> run_tune" where
  "tune_of_runtime r = \<lparr> tu_ports = rt_ports r, tu_memory = rt_memory r, tu_cpus = rt_cpus r,
     tu_healthcheck = rt_healthcheck r, tu_alias = None \<rparr>"

definition tune_of_sidecar :: "sidecar \<Rightarrow> run_tune" where
  "tune_of_sidecar c = \<lparr> tu_ports = sc_ports c, tu_memory = sc_memory c, tu_cpus = None,
     tu_healthcheck = None, tu_alias = Some (sc_name c) \<rparr>"

definition publish_flag :: "published_port \<Rightarrow> ustr" where
  "publish_flag p =
     dec (unat (pp_host p)) @ lit '':'' @ dec (unat (pp_container p)) @
     (if pp_protocol p = lit ''udp'' then lit ''/udp'' else [])"

section \<open>Validation\<close>

datatype run_error =
    BadMemory ustr | BadCpus ustr | HealthCmdRefused | BadDuration ustr ustr | BadRetries
  | PortZero | BadProtocol ustr | BadSidecarName ustr | NoImage | BadImage ustr
  | DuplicateSidecar ustr | BadSidecarMemory ustr

fun split_num :: "bool \<Rightarrow> ustr \<Rightarrow> ustr \<times> ustr" where
  "split_num dot [] = ([], [])"
| "split_num dot (c # s) =
     (if is_ascii_digit c then (let (n, u) = split_num dot s in (c # n, u))
      else if c = 46 \<and> \<not> dot then (let (n, u) = split_num True s in (c # n, u))
      else ([], c # s))"

definition split_number :: "ustr \<Rightarrow> ustr \<times> ustr" where
  "split_number s = split_num False s"

definition valid_memory :: "ustr \<Rightarrow> bool" where
  "valid_memory raw =
     (let (num, unit) = split_number (to_ascii_lowercase (trim raw))
      in num \<noteq> [] \<and> unit \<in> {[], lit ''b'', lit ''k'', lit ''kb'', lit ''m'', lit ''mb'', lit ''g'', lit ''gb''})"

definition valid_cpus :: "ustr \<Rightarrow> bool" where
  "valid_cpus raw = (let (num, unit) = split_number (trim raw) in num \<noteq> [] \<and> unit = [] \<and> num \<noteq> [46])"

definition validate_duration :: "ustr \<Rightarrow> ustr \<Rightarrow> run_error + unit" where
  "validate_duration raw label =
     (let s = trim raw;
          digits = takeWhile is_ascii_digit s;
          unit = drop (length digits) s
      in if digits = [] \<or> unit \<notin> {lit ''ms'', lit ''s'', lit ''m'', lit ''h''}
         then Inl (BadDuration label raw) else Inr ())"

definition validate_health_cmd :: "ustr \<Rightarrow> run_error + unit" where
  "validate_health_cmd cmd =
     (if utf8_len cmd > 500 \<or> (\<exists>c \<in> set cmd. c = 10 \<or> c = 13 \<or> c = 96)
      then Inl HealthCmdRefused else Inr ())"

text \<open>\<open>;  &  |  `  $  "  '  \  <  >\<close>\<close>

definition image_refused :: "uchar \<Rightarrow> bool" where
  "image_refused c \<longleftrightarrow> is_ws c \<or> c \<in> {59, 38, 124, 96, 36, 34, 39, 92, 60, 62}"

definition validate_image :: "ustr \<Rightarrow> run_error + unit" where
  "validate_image img =
     (if img = [] \<or> utf8_len img > 200 then Inl NoImage
      else if \<exists>c \<in> set img. image_refused c then Inl (BadImage img) else Inr ())"

definition sidecar_name_ok :: "ustr \<Rightarrow> bool" where
  "sidecar_name_ok name \<longleftrightarrow>
     name \<noteq> [] \<and> utf8_len name \<le> 32 \<and>
     (\<forall>c \<in> set name. is_ascii_lower c \<or> is_ascii_digit c \<or> c = 45) \<and>
     is_ascii_alnum (hd name) \<and> \<not> ends_with name [45]"

definition validate_sidecar_name :: "ustr \<Rightarrow> run_error + unit" where
  "validate_sidecar_name name = (if sidecar_name_ok name then Inr () else Inl (BadSidecarName name))"

definition normalize_port :: "published_port \<Rightarrow> run_error + published_port" where
  "normalize_port p =
     (if pp_host p = 0 \<or> pp_container p = 0 then Inl PortZero
      else let t = to_ascii_lowercase (trim (pp_protocol p));
               q = (if t = [] then lit ''tcp'' else t)
           in if q \<noteq> lit ''tcp'' \<and> q \<noteq> lit ''udp'' then Inl (BadProtocol q)
              else Inr (p\<lparr>pp_protocol := q\<rparr>))"

text \<open>A memory or cpu option: trimmed, dropped when blank, refused when it is not one.\<close>

definition normalize_limit :: "(ustr \<Rightarrow> bool) \<Rightarrow> (ustr \<Rightarrow> run_error) \<Rightarrow> ustr option \<Rightarrow> run_error + ustr option" where
  "normalize_limit ok err v =
     (case v of None \<Rightarrow> Inr None
      | Some m \<Rightarrow> if trim m = [] then Inr None
                  else if \<not> ok (trim m) then Inl (err (trim m)) else Inr (Some (trim m)))"

definition or_default :: "ustr \<Rightarrow> ustr \<Rightarrow> ustr" where
  "or_default v d = (if trim v = [] then d else v)"

definition check_health :: "healthcheck \<Rightarrow> run_error + healthcheck" where
  "check_health h =
     and_ok (validate_health_cmd (hc_cmd h)) (\<lambda>_.
     and_ok (validate_duration (hc_interval h) (lit ''interval'')) (\<lambda>_.
     and_ok (validate_duration (hc_timeout h) (lit ''timeout'')) (\<lambda>_.
     and_ok (validate_duration (hc_start_period h) (lit ''start_period'')) (\<lambda>_.
     if hc_retries h = 0 \<or> hc_retries h > 20 then Inl BadRetries else Inr h))))"

definition normalize_health :: "healthcheck option \<Rightarrow> run_error + healthcheck option" where
  "normalize_health v =
     (case v of None \<Rightarrow> Inr None
      | Some hc \<Rightarrow>
          if trim (hc_cmd hc) = [] then Inr None
          else and_ok (check_health
                 (hc\<lparr> hc_cmd := trim (hc_cmd hc),
                      hc_interval := or_default (hc_interval hc) (lit ''30s''),
                      hc_timeout := or_default (hc_timeout hc) (lit ''10s''),
                      hc_start_period := or_default (hc_start_period hc) (lit ''2m'') \<rparr>)) (\<lambda>h. Inr (Some h)))"

definition normalize_sidecar :: "ustr list \<Rightarrow> sidecar \<Rightarrow> run_error + sidecar" where
  "normalize_sidecar names c =
     (let name = to_ascii_lowercase (trim (sc_name c)); img = trim (sc_image c)
      in and_ok (validate_sidecar_name name) (\<lambda>_.
         and_ok (validate_image img) (\<lambda>_.
         if name \<in> set names then Inl (DuplicateSidecar name)
         else and_ok (normalize_limit valid_memory (\<lambda>_. BadSidecarMemory name) (sc_memory c)) (\<lambda>mem.
              and_ok (map_ok normalize_port (sc_ports c)) (\<lambda>ports.
              Inr \<lparr> sc_name = name, sc_image = img, sc_ports = ports, sc_memory = mem \<rparr>)))))"

fun normalize_sidecars :: "ustr list \<Rightarrow> sidecar list \<Rightarrow> run_error + sidecar list" where
  "normalize_sidecars names [] = Inr []"
| "normalize_sidecars names (c # cs) =
     and_ok (normalize_sidecar names c) (\<lambda>d.
     and_ok (normalize_sidecars (names @ [sc_name d]) cs) (\<lambda>ds. Inr (d # ds)))"

text \<open>\<open>RuntimeSpec::normalize\<close>: the callers drop the half-normalised value on an error.\<close>

definition normalize :: "runtime \<Rightarrow> run_error + runtime" where
  "normalize r =
     and_ok (normalize_limit valid_memory BadMemory (rt_memory r)) (\<lambda>mem.
     and_ok (normalize_limit valid_cpus BadCpus (rt_cpus r)) (\<lambda>cpus.
     and_ok (normalize_health (rt_healthcheck r)) (\<lambda>hc.
     and_ok (map_ok normalize_port (rt_ports r)) (\<lambda>ports.
     and_ok (normalize_sidecars [] (rt_sidecars r)) (\<lambda>sides.
     Inr \<lparr> rt_memory = mem, rt_cpus = cpus, rt_healthcheck = hc, rt_ports = ports, rt_sidecars = sides \<rparr>)))))"

datatype 'e json_error = BadJson 'e | BadSpec run_error

definition from_json :: "(ustr \<Rightarrow> 'e + runtime) \<Rightarrow> ustr \<Rightarrow> 'e json_error + runtime" where
  "from_json parse raw =
     (let t = trim raw
      in if t = [] \<or> t = lit ''null'' then Inr default_runtime
         else case parse t of
                Inl e \<Rightarrow> Inl (BadJson e)
              | Inr spec \<Rightarrow> (case normalize spec of Inl e \<Rightarrow> Inl (BadSpec e) | Inr r \<Rightarrow> Inr r))"

section \<open>Who answered on the public name\<close>

definition app_http_is_up :: "16 word \<Rightarrow> bool" where
  "app_http_is_up code \<longleftrightarrow> 100 \<le> code \<and> code < 600"

datatype public_reach = App | ProxyOnly | Down

definition traefik_ping_path :: "ustr \<Rightarrow> bool" where
  "traefik_ping_path url =
     (let rest = (case find_str (lit ''://'') url of Some i \<Rightarrow> drop (i + 3) url | None \<Rightarrow> url);
          path = (case find_str (lit ''/'') rest of Some i \<Rightarrow> drop i rest | None \<Rightarrow> lit ''/'')
      in starts_with (hd (split_on (\<lambda>c. c = 63 \<or> c = 35) path)) (lit ''/ping''))"

definition classify_public_response :: "16 word \<Rightarrow> ustr \<Rightarrow> bool \<Rightarrow> ustr \<Rightarrow> public_reach" where
  "classify_public_response code body complete url =
     (if traefik_ping_path url \<and> complete \<and> to_ascii_lowercase (trim body) = lit ''ok'' then ProxyOnly
      else if code = 404 \<and> complete \<and> trim body = lit ''404 page not found'' then ProxyOnly
      else if code \<in> {502, 503, 504} \<or> \<not> app_http_is_up code then Down
      else App)"

end
