(* ===== verification/DockerCmd.thy ===== *)
theory DockerCmd
  imports RunSpec Shell Json
begin

text \<open>
  The command builders of \<open>crates/deploy/src/docker.rs\<close> that a deployment uses, as the texts
  they build (the branches for Windows hosts are left out), and the reading of a
  readiness probe. The scripts are lists of lines joined with line feeds.
\<close>

type_synonym port = "16 word"

definition port_str :: "port \<Rightarrow> ustr" where "port_str p = dec (unat p)"

definition nonempty :: "ustr option \<Rightarrow> ustr option" where
  "nonempty v = opt_filter (\<lambda>s. s \<noteq> []) v"

section \<open>Names and mounts\<close>

definition docker_char :: "uchar \<Rightarrow> bool" where
  "docker_char c \<longleftrightarrow> is_ascii_alnum c \<or> c = 45 \<or> c = 95 \<or> c = 46"

definition is_safe_docker_name :: "ustr \<Rightarrow> bool" where
  "is_safe_docker_name s \<longleftrightarrow> s \<noteq> [] \<and> utf8_len s \<le> 128 \<and> list_all docker_char s"

definition container_name_ok :: "ustr \<Rightarrow> bool" where
  "container_name_ok name \<longleftrightarrow>
     name \<noteq> [] \<and> is_ascii_alnum (hd name) \<and> utf8_len name \<le> 80 \<and> list_all docker_char name"

definition is_docker_volume_name :: "ustr \<Rightarrow> bool" where
  "is_docker_volume_name s =
     (case strip_prefix s (lit ''df-'') of
        Some rest \<Rightarrow> rest \<noteq> [] \<and> utf8_len s \<le> 128 \<and> list_all docker_char rest
      | None \<Rightarrow> False)"

datatype mount_error = EmptyMount | MountChars ustr | MountFormat ustr | MountPaths ustr | MountMode ustr

text \<open>\<open>;  &  |  `  $  "  '  \\<close> and line ends.\<close>

definition mount_refused :: "uchar \<Rightarrow> bool" where
  "mount_refused c \<longleftrightarrow> is_ws c \<or> c \<in> {59, 38, 124, 96, 36, 34, 39, 92, 10, 13}"

definition normalize_volume_mount :: "ustr \<Rightarrow> mount_error + ustr" where
  "normalize_volume_mount raw0 =
     (let raw = trim raw0
      in if raw = [] then Inl EmptyMount
         else if \<exists>c \<in> set raw. mount_refused c then Inl (MountChars raw)
         else let parts = split_on (\<lambda>c. c = 58) raw
              in if length parts < 2 \<or> length parts > 3 then Inl (MountFormat raw)
                 else let host = parts ! 0; container = parts ! 1
                      in if host = [] \<or> container = []
                            \<or> (\<not> starts_with host (lit ''/'') \<and> \<not> is_docker_volume_name host)
                            \<or> \<not> starts_with container (lit ''/'')
                            \<or> contains host (lit ''..'') \<or> contains container (lit ''..'')
                         then Inl (MountPaths raw)
                         else if length parts = 3 \<and> parts ! 2 \<noteq> lit ''ro'' \<and> parts ! 2 \<noteq> lit ''rw''
                         then Inl (MountMode raw)
                         else Inr raw)"

fun add_mounts :: "ustr list \<Rightarrow> ustr list \<Rightarrow> mount_error + ustr list" where
  "add_mounts out [] = Inr out"
| "add_mounts out (raw # rs) =
     and_ok (normalize_volume_mount raw) (\<lambda>m. add_mounts (if m \<in> set out then out else out @ [m]) rs)"

definition normalize_volume_mounts :: "ustr list \<Rightarrow> mount_error + ustr list" where
  "normalize_volume_mounts inputs = add_mounts [] inputs"

definition decode_volume_mounts :: "(ustr \<Rightarrow> ustr list option) \<Rightarrow> ustr \<Rightarrow> ustr list" where
  "decode_volume_mounts parse raw =
     (case parse raw of None \<Rightarrow> []
      | Some v \<Rightarrow> (case normalize_volume_mounts v of Inl _ \<Rightarrow> [] | Inr ms \<Rightarrow> ms))"

section \<open>docker run\<close>

type_synonym rotation = "(32 word \<times> 32 word) option"

definition set_rotation :: "rotation \<Rightarrow> rotation" where
  "set_rotation r = opt_filter (\<lambda>(mb, n). mb > 0 \<and> n > 0) r"

definition log_rotation_args :: "rotation \<Rightarrow> ustr list" where
  "log_rotation_args r =
     (case r of
        Some (mb, n) \<Rightarrow>
          if mb > 0 \<and> n > 0
          then [lit ''--log-opt'', lit ''max-size='' @ dec (unat mb) @ lit ''m'',
                lit ''--log-opt'', lit ''max-file='' @ dec (unat n)]
          else []
      | None \<Rightarrow> [])"

definition flag :: "string \<Rightarrow> ustr option \<Rightarrow> ustr list" where
  "flag f v = (case nonempty v of None \<Rightarrow> [] | Some s \<Rightarrow> [lit f, shell_escape s])"

definition label_args :: "json option \<Rightarrow> ustr list" where
  "label_args labels =
     (case labels of
        Some (JObj m) \<Rightarrow>
          concat (map (\<lambda>(k, v). [lit ''--label'', shell_escape k @ lit ''='' @ shell_escape (unwrap_or (as_str v) [])]) m)
      | _ \<Rightarrow> [])"

definition health_args :: "healthcheck option \<Rightarrow> ustr list" where
  "health_args h =
     (case h of None \<Rightarrow> []
      | Some hc \<Rightarrow>
          [lit ''--health-cmd'', shell_escape (hc_cmd hc),
           lit ''--health-interval'', shell_escape (hc_interval hc),
           lit ''--health-timeout'', shell_escape (hc_timeout hc),
           lit ''--health-retries'', dec (unat (hc_retries hc)),
           lit ''--health-start-period'', shell_escape (hc_start_period hc)])"

definition listen_args :: "port option \<Rightarrow> (port \<times> port) list \<Rightarrow> ustr list" where
  "listen_args listen ports =
     (case opt_or listen (case ports of [] \<Rightarrow> None | (h, c) # _ \<Rightarrow> Some c) of
        None \<Rightarrow> []
      | Some p \<Rightarrow> [lit ''-e'', lit ''PORT='' @ port_str p])"

definition run_args ::
  "rotation \<Rightarrow> ustr \<Rightarrow> ustr \<Rightarrow> (port \<times> port) list \<Rightarrow> ustr option \<Rightarrow> ustr option \<Rightarrow> json option \<Rightarrow>
   bool \<Rightarrow> bool \<Rightarrow> ustr list \<Rightarrow> run_tune \<Rightarrow> port option \<Rightarrow> ustr list" where
  "run_args rot name img ports env_file network labels nvidia dri volumes tune listen =
     [lit ''docker'', lit ''run'', lit ''-d'', lit ''--name'', shell_escape name,
      lit ''--restart'', lit ''unless-stopped''] @
     log_rotation_args rot @
     (if nvidia then [lit ''--gpus'', lit ''all''] else []) @
     (if dri then [lit ''--device'', lit ''/dev/dri''] else []) @
     flag ''--network'' network @
     label_args labels @
     concat (map (\<lambda>(h, c). [lit ''-p'', port_str h @ lit '':'' @ port_str c]) ports) @
     concat (map (\<lambda>p. [lit ''-p'', publish_flag p]) (tu_ports tune)) @
     flag ''--memory'' (tu_memory tune) @
     flag ''--cpus'' (tu_cpus tune) @
     flag ''--network-alias'' (tu_alias tune) @
     health_args (tu_healthcheck tune) @
     (case env_file of None \<Rightarrow> [] | Some f \<Rightarrow> [lit ''--env-file'', shell_escape f]) @
     [lit ''-e'', lit ''HOST=0.0.0.0''] @
     listen_args listen ports @
     concat (map (\<lambda>v. [lit ''-v'', shell_escape v]) volumes) @
     [shell_escape img]"

definition docker_run_ex ::
  "rotation \<Rightarrow> ustr \<Rightarrow> ustr \<Rightarrow> (port \<times> port) list \<Rightarrow> ustr option \<Rightarrow> ustr option \<Rightarrow> json option \<Rightarrow>
   bool \<Rightarrow> bool \<Rightarrow> ustr list \<Rightarrow> run_tune \<Rightarrow> port option \<Rightarrow> ustr" where
  "docker_run_ex rot name img ports env_file network labels nvidia dri volumes tune listen =
     join [32] (run_args rot name img ports env_file network labels nvidia dri volumes tune listen)"

definition default_tune :: run_tune where
  "default_tune = \<lparr> tu_ports = [], tu_memory = None, tu_cpus = None, tu_healthcheck = None, tu_alias = None \<rparr>"

definition docker_run :: "rotation \<Rightarrow> ustr \<Rightarrow> ustr \<Rightarrow> (port \<times> port) list \<Rightarrow> ustr option \<Rightarrow> ustr" where
  "docker_run rot name img ports env_file =
     docker_run_ex rot name img ports env_file None None False False [] default_tune
       (case ports of [] \<Rightarrow> None | (h, c) # _ \<Rightarrow> Some c)"

section \<open>Networks, ports, restarts\<close>

definition docker_network_attach :: "ustr \<Rightarrow> ustr \<Rightarrow> ustr option \<Rightarrow> ustr" where
  "docker_network_attach network container alias =
     (let net = shell_escape network; ctr = shell_escape container
      in case nonempty (map_option trim alias) of
           Some a \<Rightarrow>
             lit ''docker network create '' @ net @ lit '' >/dev/null 2>&1 || true; docker network disconnect '' @ net @ lit '' '' @ ctr @ lit '' >/dev/null 2>&1 || true; docker network connect --alias '' @ shell_escape a @ lit '' '' @ net @ lit '' '' @ ctr
         | None \<Rightarrow>
             lit ''docker network create '' @ net @ lit '' >/dev/null 2>&1 || true; docker network connect '' @ net @ lit '' '' @ ctr @ lit '' >/dev/null 2>&1 || true'')"

definition is_proxy_reserved_host_port :: "port \<Rightarrow> bool" where
  "is_proxy_reserved_host_port p \<longleftrightarrow> p \<in> {0, 80, 443}"

definition proxy_guard_sh :: ustr where
  "proxy_guard_sh =
     lit ''case '' @ [34] @ lit ''$(docker inspect '' @ [34] @ lit ''$id'' @ [34]
     @ lit '' --format '' @ [39] @ lit ''{{.Name}} {{index .Config.Labels '' @ [34]
     @ lit ''devforge.proxy'' @ [34] @ lit ''}}'' @ [39] @ lit '' 2>/dev/null)'' @ [34]
     @ lit '' in /devforge-traefik*|*'' @ [39] @ lit '' true'' @ [39]
     @ lit '') continue;; esac;''"

text \<open>The shell line continuations of the source's literals are blanks here.\<close>

definition docker_prepare_run :: "ustr \<Rightarrow> port \<Rightarrow> ustr" where
  "docker_prepare_run name host_port =
     (if is_proxy_reserved_host_port host_port
      then lit ''docker rm -f '' @ shell_escape name @ lit '' >/dev/null 2>&1 || true''
      else lit ''docker rm -f '' @ shell_escape name @ lit '' >/dev/null 2>&1 || true; for id in $(docker ps -aq --filter publish='' @ port_str host_port @ lit '' 2>/dev/null || true); do '' @ proxy_guard_sh @ lit '' docker rm -f '' @ [34] @ lit ''$id'' @ [34]
           @ lit '' >/dev/null 2>&1 || true; done'')"

definition docker_prepare_run_except :: "ustr \<Rightarrow> port \<Rightarrow> ustr" where
  "docker_prepare_run_except except host_port =
     (if is_proxy_reserved_host_port host_port then lit ''true''
      else lit ''for id in $(docker ps -aq --filter publish='' @ port_str host_port @ lit '' 2>/dev/null || true); do '' @ proxy_guard_sh @ lit '' n=$(docker inspect '' @ [34] @ lit ''$id'' @ [34] @ lit '' --format '' @ [39]
           @ lit ''{{.Name}}'' @ [39] @ lit '' 2>/dev/null || echo '' @ [39, 39] @ lit ''); if [ ''
           @ [34] @ lit ''$n'' @ [34] @ lit '' != '' @ [39] @ lit ''/'' @ shell_escape except @ [39] @ lit '' ] && [ '' @ [34] @ lit ''$n'' @ [34] @ lit '' != '' @ [39] @ shell_escape except @ [39] @ lit '' ]; then docker rm -f '' @ [34] @ lit ''$id'' @ [34]
           @ lit '' >/dev/null 2>&1 || true; fi; done'')"

definition docker_stop :: "ustr \<Rightarrow> ustr" where
  "docker_stop name = lit ''docker stop '' @ shell_escape name @ lit '' && docker rm -f '' @ shell_escape name"

definition docker_restart :: "ustr \<Rightarrow> ustr" where
  "docker_restart name = lit ''docker restart '' @ shell_escape name"

definition docker_build :: "ustr \<Rightarrow> ustr \<Rightarrow> ustr \<Rightarrow> ustr" where
  "docker_build workdir img dockerfile =
     lit ''docker build -f '' @ shell_escape dockerfile @ lit '' -t '' @ shell_escape img @ lit '' '' @ shell_escape workdir"

definition docker_compose_up :: "ustr \<Rightarrow> ustr" where
  "docker_compose_up file = lit ''docker compose -f '' @ shell_escape file @ lit '' up -d --build''"

section \<open>Recreating a container with other labels\<close>

definition label_lines :: "json \<Rightarrow> ustr" where
  "label_lines labels =
     (case labels of
        JObj m \<Rightarrow> concat (map (\<lambda>(k, v). k @ lit ''='' @ unwrap_or (as_str v) [] @ [10]) m)
      | _ \<Rightarrow> [])"

definition recreate_head :: ustr where
  "recreate_head = join [10] [lit ''set -e'', lit ''N='']"

definition recreate_read :: ustr where
  "recreate_read =
     join [10]
     [[],
      lit ''if ! docker inspect '' @ [34] @ lit ''$N'' @ [34]
        @ lit '' >/dev/null 2>&1; then echo '' @ [34] @ lit ''container $N introuvable'' @ [34]
        @ lit ''; exit 1; fi'',
      lit ''IMG=$(docker inspect -f '' @ [34] @ lit ''{{.Config.Image}}'' @ [34] @ lit '' ''
        @ [34] @ lit ''$N'' @ [34] @ lit '')'',
      lit ''NET=$(docker inspect -f '' @ [34] @ lit ''{{range '' @ [92] @ lit ''$k, '' @ [92]
        @ lit ''$v := .NetworkSettings.Networks}}{{println '' @ [92] @ lit ''$k}}{{end}}''
        @ [34] @ lit '' '' @ [34] @ lit ''$N'' @ [34] @ lit '' | head -n1)'',
      lit ''ENV_FILE=$(mktemp)'',
      lit ''docker inspect -f '' @ [34] @ lit ''{{range .Config.Env}}{{println .}}{{end}}''
        @ [34] @ lit '' '' @ [34] @ lit ''$N'' @ [34] @ lit '' > '' @ [34] @ lit ''$ENV_FILE''
        @ [34],
      lit ''LABEL_FILE=$(mktemp)'',
      lit ''cat >'' @ [34] @ lit ''$LABEL_FILE'' @ [34] @ lit '' <<'']"

definition recreate_labels_eof :: ustr where
  "recreate_labels_eof = lit ''LABELS_EOF''"

definition recreate_run :: ustr where
  "recreate_run =
     join [10]
     [lit ''LABELS_EOF'',
      [],
      lit ''# Build docker run args via positional parameters (safe for backticks/special chars)'',
      lit ''set -- -d --name '' @ [34] @ lit ''$N'' @ [34] @ lit '' --restart unless-stopped'',
      [],
      lit ''# Add labels from file (each --label is a separate argv, preventing command substitution)'',
      lit ''while IFS= read -r line; do'',
      lit ''  [ -n '' @ [34] @ lit ''$line'' @ [34] @ lit '' ] && set -- '' @ [34]
        @ lit ''$@'' @ [34] @ lit '' --label '' @ [34] @ lit ''$line'' @ [34],
      lit ''done < '' @ [34] @ lit ''$LABEL_FILE'' @ [34],
      [],
      lit ''# Add network if present and not bridge'',
      lit ''if [ -n '' @ [34] @ lit ''$NET'' @ [34] @ lit '' ] && [ '' @ [34] @ lit ''$NET''
        @ [34] @ lit '' != '' @ [34] @ lit ''bridge'' @ [34] @ lit '' ]; then'',
      lit ''  set -- '' @ [34] @ lit ''$@'' @ [34] @ lit '' --network '' @ [34] @ lit ''$NET''
        @ [34],
      lit ''fi'',
      [],
      lit ''# Add port mappings'',
      lit ''for spec in $(docker inspect -f '' @ [34] @ lit ''{{range '' @ [92] @ lit ''$p, ''
        @ [92] @ lit ''$conf := .HostConfig.PortBindings}}{{range '' @ [92]
        @ lit ''$conf}}{{.HostPort}}:{'' @ [92] @ lit ''${p}} {{end}}{{end}}'' @ [34]
        @ lit '' '' @ [34] @ lit ''$N'' @ [34] @ lit ''); do'',
      lit ''  [ -n '' @ [34] @ lit ''$spec'' @ [34] @ lit '' ] && set -- '' @ [34]
        @ lit ''$@'' @ [34] @ lit '' -p '' @ [34] @ lit ''$spec'' @ [34],
      lit ''done'',
      [],
      lit ''# Bind mounts and named volumes (lost otherwise: docker run is rebuilt from inspect)'',
      lit ''MOUNT_FILE=$(mktemp)'',
      lit ''docker inspect -f '' @ [34]
        @ lit ''{{range .Mounts}}{{.Type}}|{{.Source}}|{{.Destination}}|{{.RW}}|{{.Name}}'',
      lit ''{{end}}'' @ [34] @ lit '' '' @ [34] @ lit ''$N'' @ [34] @ lit '' > '' @ [34]
        @ lit ''$MOUNT_FILE'' @ [34],
      lit ''while IFS='' @ [34] @ lit ''|'' @ [34] @ lit '' read -r typ src dst rw name; do'',
      lit ''  spec='' @ [34, 34],
      lit ''  if [ '' @ [34] @ lit ''$typ'' @ [34] @ lit '' = '' @ [34] @ lit ''bind'' @ [34]
        @ lit '' ] && [ -n '' @ [34] @ lit ''$src'' @ [34] @ lit '' ] && [ -n '' @ [34]
        @ lit ''$dst'' @ [34] @ lit '' ]; then'',
      lit ''    spec='' @ [34] @ lit ''$src:$dst'' @ [34],
      lit ''  elif [ '' @ [34] @ lit ''$typ'' @ [34] @ lit '' = '' @ [34] @ lit ''volume''
        @ [34] @ lit '' ] && [ -n '' @ [34] @ lit ''$name'' @ [34] @ lit '' ] && [ -n '' @ [34]
        @ lit ''$dst'' @ [34] @ lit '' ]; then'',
      lit ''    spec='' @ [34] @ lit ''$name:$dst'' @ [34],
      lit ''  fi'',
      lit ''  if [ -n '' @ [34] @ lit ''$spec'' @ [34] @ lit '' ]; then'',
      lit ''    if [ '' @ [34] @ lit ''$rw'' @ [34] @ lit '' = '' @ [34] @ lit ''false''
        @ [34] @ lit '' ]; then spec='' @ [34] @ lit ''${spec}:ro'' @ [34] @ lit ''; fi'',
      lit ''    set -- '' @ [34] @ lit ''$@'' @ [34] @ lit '' -v '' @ [34] @ lit ''$spec''
        @ [34],
      lit ''  fi'',
      lit ''done < '' @ [34] @ lit ''$MOUNT_FILE'' @ [34],
      lit ''rm -f '' @ [34] @ lit ''$MOUNT_FILE'' @ [34],
      [],
      lit ''REQ=$(docker inspect -f '' @ [34] @ lit ''{{json .HostConfig.DeviceRequests}}''
        @ [34] @ lit '' '' @ [34] @ lit ''$N'' @ [34] @ lit '' 2>/dev/null || echo null)'',
      lit ''echo '' @ [34] @ lit ''$REQ'' @ [34] @ lit '' | grep -q gpu && set -- '' @ [34]
        @ lit ''$@'' @ [34] @ lit '' --gpus all'',
      lit ''DEV=$(docker inspect -f '' @ [34] @ lit ''{{json .HostConfig.Devices}}'' @ [34]
        @ lit '' '' @ [34] @ lit ''$N'' @ [34] @ lit '' 2>/dev/null || echo null)'',
      lit ''echo '' @ [34] @ lit ''$DEV'' @ [34] @ lit '' | grep -q '' @ [34]
        @ lit ''/dev/dri'' @ [34] @ lit '' && set -- '' @ [34] @ lit ''$@'' @ [34]
        @ lit '' --device /dev/dri'',
      [],
      lit ''MEM=$(docker inspect -f '' @ [34] @ lit ''{{.HostConfig.Memory}}'' @ [34]
        @ lit '' '' @ [34] @ lit ''$N'' @ [34] @ lit '' 2>/dev/null || echo 0)'',
      lit ''if [ -n '' @ [34] @ lit ''$MEM'' @ [34] @ lit '' ] && [ '' @ [34] @ lit ''$MEM''
        @ [34] @ lit '' != '' @ [34] @ lit ''0'' @ [34] @ lit '' ] && [ '' @ [34] @ lit ''$MEM''
        @ [34] @ lit '' != '' @ [34] @ lit ''<no value>'' @ [34] @ lit '' ]; then'',
      lit ''  set -- '' @ [34] @ lit ''$@'' @ [34] @ lit '' --memory '' @ [34] @ lit ''$MEM''
        @ [34],
      lit ''fi'',
      lit ''NANO=$(docker inspect -f '' @ [34] @ lit ''{{.HostConfig.NanoCpus}}'' @ [34]
        @ lit '' '' @ [34] @ lit ''$N'' @ [34] @ lit '' 2>/dev/null || echo 0)'',
      lit ''if [ -n '' @ [34] @ lit ''$NANO'' @ [34] @ lit '' ] && [ '' @ [34] @ lit ''$NANO''
        @ [34] @ lit '' != '' @ [34] @ lit ''0'' @ [34] @ lit '' ] && [ '' @ [34]
        @ lit ''$NANO'' @ [34] @ lit '' != '' @ [34] @ lit ''<no value>'' @ [34]
        @ lit '' ]; then'',
      lit ''  set -- '' @ [34] @ lit ''$@'' @ [34] @ lit '' --cpu-period 100000 --cpu-quota ''
        @ [34] @ lit ''$((NANO / 10000))'' @ [34],
      lit ''fi'',
      lit ''HC_CMD=$(docker inspect -f '' @ [34]
        @ lit ''{{if .Config.Healthcheck}}{{index .Config.Healthcheck.Test 1}}{{end}}'' @ [34]
        @ lit '' '' @ [34] @ lit ''$N'' @ [34] @ lit '' 2>/dev/null || true)'',
      lit ''if [ -n '' @ [34] @ lit ''$HC_CMD'' @ [34] @ lit '' ]; then'',
      lit ''  HC_INT=$(docker inspect -f '' @ [34] @ lit ''{{.Config.Healthcheck.Interval}}''
        @ [34] @ lit '' '' @ [34] @ lit ''$N'' @ [34] @ lit '' 2>/dev/null || echo 30s)'',
      lit ''  HC_TO=$(docker inspect -f '' @ [34] @ lit ''{{.Config.Healthcheck.Timeout}}''
        @ [34] @ lit '' '' @ [34] @ lit ''$N'' @ [34] @ lit '' 2>/dev/null || echo 10s)'',
      lit ''  HC_RET=$(docker inspect -f '' @ [34] @ lit ''{{.Config.Healthcheck.Retries}}''
        @ [34] @ lit '' '' @ [34] @ lit ''$N'' @ [34] @ lit '' 2>/dev/null || echo 5)'',
      lit ''  HC_START=$(docker inspect -f '' @ [34]
        @ lit ''{{.Config.Healthcheck.StartPeriod}}'' @ [34] @ lit '' '' @ [34] @ lit ''$N''
        @ [34] @ lit '' 2>/dev/null || echo 0s)'',
      lit ''  set -- '' @ [34] @ lit ''$@'' @ [34] @ lit '' --health-cmd '' @ [34]
        @ lit ''$HC_CMD'' @ [34] @ lit '' --health-interval '' @ [34] @ lit ''$HC_INT'' @ [34]
        @ lit '' --health-timeout '' @ [34] @ lit ''$HC_TO'' @ [34] @ lit '' --health-retries ''
        @ [34] @ lit ''$HC_RET'' @ [34],
      lit ''  if [ -n '' @ [34] @ lit ''$HC_START'' @ [34] @ lit '' ] && [ '' @ [34]
        @ lit ''$HC_START'' @ [34] @ lit '' != '' @ [34] @ lit ''0s'' @ [34] @ lit '' ]; then'',
      lit ''    set -- '' @ [34] @ lit ''$@'' @ [34] @ lit '' --health-start-period '' @ [34]
        @ lit ''$HC_START'' @ [34],
      lit ''  fi'',
      lit ''fi'',
      [],
      lit ''# Add env file'',
      lit ''set -- '' @ [34] @ lit ''$@'' @ [34] @ lit '' --env-file '' @ [34]
        @ lit ''$ENV_FILE'' @ [34],
      [],
      lit ''# Add image'',
      lit ''set -- '' @ [34] @ lit ''$@'' @ [34] @ lit '' '' @ [34] @ lit ''$IMG'' @ [34],
      [],
      lit ''# R'' @ [233] @ lit ''seaux suppl'' @ [233]
        @ lit ''mentaires (groupe, sidecars) + alias : perdus sinon par la recr'' @ [233]
        @ lit ''ation.'',
      lit ''OLD_ID=$(docker inspect -f '' @ [34] @ lit ''{{.Id}}'' @ [34] @ lit '' '' @ [34]
        @ lit ''$N'' @ [34] @ lit '' | cut -c1-12)'',
      lit ''EXTRA_NETS=$(docker inspect -f '' @ [34] @ lit ''{{range '' @ [92] @ lit ''$k, ''
        @ [92] @ lit ''$v := .NetworkSettings.Networks}}{{'' @ [92] @ lit ''$k}}|{{range ''
        @ [92] @ lit ''$v.Aliases}}{{.}},{{end}}{{println}}{{end}}'' @ [34] @ lit '' '' @ [34]
        @ lit ''$N'' @ [34] @ lit '' | tail -n +2)'',
      [],
      lit ''docker stop '' @ [34] @ lit ''$N'' @ [34] @ lit '' >/dev/null'',
      lit ''docker rm -f '' @ [34] @ lit ''$N'' @ [34] @ lit '' >/dev/null'',
      lit ''CID=$(docker run '' @ [34] @ lit ''$@'' @ [34] @ lit '')'',
      lit ''rm -f '' @ [34] @ lit ''$ENV_FILE'' @ [34] @ lit '' '' @ [34]
        @ lit ''$LABEL_FILE'' @ [34],
      lit ''echo '' @ [34] @ lit ''$EXTRA_NETS'' @ [34] @ lit '' | while IFS='' @ [34]
        @ lit ''|'' @ [34] @ lit '' read -r xn xa; do'',
      lit ''  [ -n '' @ [34] @ lit ''$xn'' @ [34] @ lit '' ] || continue'',
      lit ''  [ '' @ [34] @ lit ''$xn'' @ [34] @ lit '' != '' @ [34] @ lit ''bridge'' @ [34]
        @ lit '' ] || continue'',
      lit ''  set --'',
      lit ''  for a in $(echo '' @ [34] @ lit ''$xa'' @ [34] @ lit '' | tr '' @ [34]
        @ lit '','' @ [34] @ lit '' '' @ [34] @ lit '' '' @ [34] @ lit ''); do'',
      lit ''    [ '' @ [34] @ lit ''$a'' @ [34] @ lit '' = '' @ [34] @ lit ''$OLD_ID'' @ [34]
        @ lit '' ] || [ '' @ [34] @ lit ''$a'' @ [34] @ lit '' = '' @ [34] @ lit ''$N'' @ [34]
        @ lit '' ] || set -- '' @ [34] @ lit ''$@'' @ [34] @ lit '' --alias '' @ [34]
        @ lit ''$a'' @ [34],
      lit ''  done'',
      lit ''  docker network connect '' @ [34] @ lit ''$@'' @ [34] @ lit '' '' @ [34]
        @ lit ''$xn'' @ [34] @ lit '' '' @ [34] @ lit ''$CID'' @ [34]
        @ lit '' >/dev/null 2>&1 || true'',
      lit ''done'',
      [],
      lit ''# CRITICAL FIX (2026-09-14 incident C): Ensure df-* containers are connected to devforge network'',
      lit ''# If container name starts with df-, always connect it to devforge network for Traefik routing'',
      lit ''if echo '' @ [34] @ lit ''$N'' @ [34] @ lit '' | grep -q '' @ [34] @ lit ''^df-''
        @ [34] @ lit ''; then'',
      lit ''  if ! echo '' @ [34] @ lit ''$NET'' @ [34] @ lit '' | grep -q '' @ [34]
        @ lit ''devforge'' @ [34] @ lit ''; then'',
      lit ''    # Not on devforge network, connect it now (handles bridge-only deployments)'',
      lit ''    if docker network inspect devforge >/dev/null 2>&1; then'',
      lit ''      docker network connect devforge '' @ [34] @ lit ''$CID'' @ [34]
        @ lit '' 2>/dev/null || true'',
      lit ''      echo '' @ [34]
        @ lit ''recreated $N with traefik labels + connected to devforge network'' @ [34],
      lit ''    else'',
      lit ''      echo '' @ [34]
        @ lit ''recreated $N with traefik labels (devforge network missing)'' @ [34],
      lit ''    fi'',
      lit ''  else'',
      lit ''    echo '' @ [34] @ lit ''recreated $N with traefik labels'' @ [34],
      lit ''  fi'',
      lit ''else'',
      lit ''  echo '' @ [34] @ lit ''recreated $N with traefik labels'' @ [34],
      lit ''fi'',
      []]"

text \<open>The whole script stands between single quotes; the quotes around \<open>LABELS_EOF\<close> are
  written as closing quote, quoted quote, opening quote.\<close>

definition quoted_quote :: ustr where "quoted_quote = [39, 34, 39, 34, 39]"

definition docker_recreate_with_labels :: "ustr \<Rightarrow> json \<Rightarrow> ustr" where
  "docker_recreate_with_labels name labels =
     lit ''sh -c '' @ [39] @ recreate_head @ shell_escape name @ recreate_read @
     quoted_quote @ recreate_labels_eof @ quoted_quote @ [10] @ label_lines labels @ recreate_run @ [39]"

definition docker_update_labels :: "ustr \<Rightarrow> json \<Rightarrow> ustr" where
  "docker_update_labels name labels = docker_recreate_with_labels name labels"

section \<open>Labels of the reverse proxy\<close>

definition sso_middleware :: ustr where "sso_middleware = lit ''devforge-sso-auth''"

definition host_router_key :: "ustr \<Rightarrow> ustr" where
  "host_router_key host =
     (let out = foldl (\<lambda>out c. if is_ascii_alnum c then out @ [ascii_lower c]
                              else if ends_with out [45] then out else out @ [45]) [] host;
          trimmed = trim_by (\<lambda>c. c = 45) out
      in if trimmed = [] then lit ''host'' else take 48 trimmed)"

text \<open>\<open>Map::insert\<close> of texts, one after the other.\<close>

definition put_labels :: "(ustr \<times> ustr) list \<Rightarrow> (ustr \<times> json) list \<Rightarrow> (ustr \<times> json) list" where
  "put_labels kvs m = foldl (\<lambda>m (k, v). jinsert k (JStr v) m) m kvs"

definition router_rule :: "ustr \<Rightarrow> ustr \<Rightarrow> ustr" where
  "router_rule host path_prefix =
     (let path = (if trim path_prefix = [] then lit ''/'' else path_prefix);
          named = lit ''Host(`'' @ host @ lit ''`)''
      in if path = lit ''/'' then named
         else named @ lit '' && PathPrefix(`'' @ path @ lit ''`)'')"

definition service_labels :: "ustr \<Rightarrow> ustr \<Rightarrow> ustr \<Rightarrow> port \<Rightarrow> (ustr \<times> ustr) list" where
  "service_labels service router rule p =
     [(lit ''traefik.enable'', lit ''true''),
      (lit ''traefik.http.routers.http-'' @ router @ lit ''.rule'', rule),
      (lit ''traefik.http.routers.http-'' @ router @ lit ''.entrypoints'', lit ''http''),
      (lit ''traefik.http.routers.https-'' @ router @ lit ''.rule'', rule),
      (lit ''traefik.http.routers.https-'' @ router @ lit ''.entrypoints'', lit ''https''),
      (lit ''traefik.http.routers.https-'' @ router @ lit ''.tls'', lit ''true''),
      (lit ''traefik.http.services.'' @ service @ lit ''.loadbalancer.server.port'', port_str p),
      (lit ''traefik.http.routers.http-'' @ router @ lit ''.service'', service),
      (lit ''traefik.http.routers.https-'' @ router @ lit ''.service'', service)]"

definition sso_labels :: "ustr \<Rightarrow> ustr \<Rightarrow> (ustr \<times> ustr) list" where
  "sso_labels router addr =
     (let mw = lit ''traefik.http.middlewares.'' @ sso_middleware @ lit ''.forwardauth.''
      in [(mw @ lit ''address'', addr),
          (mw @ lit ''trustForwardHeader'', lit ''true''),
          (mw @ lit ''authResponseHeaders'',
           lit ''X-Auth-Request-User,X-Auth-Request-Email,X-Auth-Request-Preferred-Username,X-Auth-Request-Groups,Authorization''),
          (lit ''traefik.http.routers.http-'' @ router @ lit ''.middlewares'', sso_middleware),
          (lit ''traefik.http.routers.https-'' @ router @ lit ''.middlewares'', sso_middleware)])"

definition traefik_labels_for_service :: "ustr \<Rightarrow> ustr \<Rightarrow> ustr \<Rightarrow> port \<Rightarrow> ustr option \<Rightarrow> json" where
  "traefik_labels_for_service service host path_prefix p auth =
     (let router = service @ lit ''-'' @ host_router_key host
      in JObj (put_labels
           (service_labels service router (router_rule host path_prefix) p @
            (case nonempty (map_option trim auth) of None \<Rightarrow> [] | Some addr \<Rightarrow> sso_labels router addr)) []))"

definition traefik_labels :: "ustr \<Rightarrow> ustr \<Rightarrow> ustr \<Rightarrow> port \<Rightarrow> ustr option \<Rightarrow> json" where
  "traefik_labels uuid host path_prefix p auth =
     traefik_labels_for_service (lit ''df-'' @ take 8 uuid) host path_prefix p auth"

definition traefik_dev_labels :: "ustr \<Rightarrow> ustr \<Rightarrow> port \<Rightarrow> json" where
  "traefik_dev_labels uuid host p =
     traefik_labels_for_service (lit ''dfdev-'' @ take 8 uuid) host (lit ''/'') p None"

definition dev_container_name :: "ustr \<Rightarrow> ustr" where
  "dev_container_name uuid = lit ''df-dev-'' @ take 12 uuid"

fun entries :: "json \<Rightarrow> (ustr \<times> json) list" where
  "entries (JObj m) = m"
| "entries _ = []"

definition traefik_labels_for_routes :: "ustr \<Rightarrow> (ustr \<times> ustr \<times> port) list \<Rightarrow> ustr option \<Rightarrow> json" where
  "traefik_labels_for_routes uuid routes auth =
     JObj (foldl (\<lambda>m (host, path, p).
             foldl (\<lambda>m (k, v). if k = lit ''traefik.enable'' then m else jinsert k v m) m
               (entries (traefik_labels uuid host path p auth)))
           (jinsert (lit ''traefik.enable'') (JStr (lit ''true'')) []) routes)"

section \<open>The preview of a workshop\<close>

definition docker_run_dev_preview_args ::
  "ustr \<Rightarrow> ustr \<Rightarrow> ustr option \<Rightarrow> json \<Rightarrow> port \<Rightarrow> ustr \<Rightarrow> ustr \<Rightarrow> ustr list" where
  "docker_run_dev_preview_args name host_workdir network labels p shell_command img =
     [lit ''run'', lit ''-d'', lit ''--name'', name, lit ''--restart'', lit ''unless-stopped'',
      lit ''-v'', host_workdir @ lit '':/app'', lit ''-w'', lit ''/app'',
      lit ''-e'', lit ''HOST=0.0.0.0'', lit ''-e'', lit ''PORT='' @ port_str p,
      lit ''-e'', lit ''BROWSER=none'', lit ''-e'', lit ''PUPPETEER_SKIP_DOWNLOAD=1'',
      lit ''-e'', lit ''PUPPETEER_SKIP_CHROMIUM_DOWNLOAD=1''] @
     (case nonempty network of None \<Rightarrow> [] | Some n \<Rightarrow> [lit ''--network'', n]) @
     concat (map (\<lambda>(k, v). [lit ''--label'', k @ lit ''='' @ unwrap_or (as_str v) []]) (entries labels)) @
     [img, lit ''sh'', lit ''-c'', shell_command]"

definition docker_run_dev_preview ::
  "ustr \<Rightarrow> ustr \<Rightarrow> ustr option \<Rightarrow> json \<Rightarrow> port \<Rightarrow> ustr \<Rightarrow> ustr \<Rightarrow> ustr" where
  "docker_run_dev_preview name host_workdir network labels p shell_command img =
     join [32] (lit ''docker'' #
       map shell_escape (docker_run_dev_preview_args name host_workdir network labels p shell_command img))"

section \<open>The network of the reverse proxy\<close>

definition docker_detect_traefik_network :: ustr where
  "docker_detect_traefik_network =
     join [10]
     [lit ''sh -c '' @ [39],
      lit ''# Strategy 1: Check common proxy container name patterns'',
      lit ''for pattern in traefik caddy proxy devforge zima casaos; do'',
      lit ''  for cid in $(docker ps -q --filter '' @ [34] @ lit ''name=$pattern'' @ [34]
        @ lit '' 2>/dev/null); do'',
      lit ''    NET=$(docker inspect '' @ [34] @ lit ''$cid'' @ [34] @ lit '' --format ''
        @ [34] @ lit ''{{range '' @ [92] @ lit ''$k, '' @ [92]
        @ lit ''$v := .NetworkSettings.Networks}}{{println '' @ [92] @ lit ''$k}}{{end}}''
        @ [34] @ lit '' 2>/dev/null | grep -v '' @ [34] @ lit ''^bridge$'' @ [34]
        @ lit '' | head -n1)'',
      lit ''    if [ -n '' @ [34] @ lit ''$NET'' @ [34] @ lit '' ]; then'',
      lit ''      echo '' @ [34] @ lit ''$NET'' @ [34],
      lit ''      exit 0'',
      lit ''    fi'',
      lit ''  done'',
      lit ''done'',
      [],
      lit ''# Strategy 2: Check containers by image containing '' @ [34] @ lit ''traefik''
        @ [34],
      lit ''for cid in $(docker ps -q 2>/dev/null); do'',
      lit ''  IMG=$(docker inspect '' @ [34] @ lit ''$cid'' @ [34] @ lit '' --format '' @ [34]
        @ lit ''{{.Config.Image}}'' @ [34] @ lit '' 2>/dev/null || echo '' @ [34, 34]
        @ lit '')'',
      lit ''  if echo '' @ [34] @ lit ''$IMG'' @ [34] @ lit '' | grep -qi '' @ [34]
        @ lit ''traefik'' @ [34] @ lit ''; then'',
      lit ''    NET=$(docker inspect '' @ [34] @ lit ''$cid'' @ [34] @ lit '' --format ''
        @ [34] @ lit ''{{range '' @ [92] @ lit ''$k, '' @ [92]
        @ lit ''$v := .NetworkSettings.Networks}}{{println '' @ [92] @ lit ''$k}}{{end}}''
        @ [34] @ lit '' 2>/dev/null | grep -v '' @ [34] @ lit ''^bridge$'' @ [34]
        @ lit '' | head -n1)'',
      lit ''    if [ -n '' @ [34] @ lit ''$NET'' @ [34] @ lit '' ]; then'',
      lit ''      echo '' @ [34] @ lit ''$NET'' @ [34],
      lit ''      exit 0'',
      lit ''    fi'',
      lit ''  fi'',
      lit ''done'',
      [],
      lit ''# Strategy 3: Containers publishing port 80 or 443 (likely reverse proxy)'',
      lit ''for port in 80 443; do'',
      lit ''  for cid in $(docker ps -q --filter '' @ [34] @ lit ''publish=$port'' @ [34]
        @ lit '' 2>/dev/null); do'',
      lit ''    NET=$(docker inspect '' @ [34] @ lit ''$cid'' @ [34] @ lit '' --format ''
        @ [34] @ lit ''{{range '' @ [92] @ lit ''$k, '' @ [92]
        @ lit ''$v := .NetworkSettings.Networks}}{{println '' @ [92] @ lit ''$k}}{{end}}''
        @ [34] @ lit '' 2>/dev/null | grep -v '' @ [34] @ lit ''^bridge$'' @ [34]
        @ lit '' | head -n1)'',
      lit ''    if [ -n '' @ [34] @ lit ''$NET'' @ [34] @ lit '' ]; then'',
      lit ''      echo '' @ [34] @ lit ''$NET'' @ [34],
      lit ''      exit 0'',
      lit ''    fi'',
      lit ''  done'',
      lit ''done'',
      [],
      lit ''# Strategy 4: Containers with traefik.enable=true label (proxy infrastructure)'',
      lit ''for cid in $(docker ps -q 2>/dev/null); do'',
      lit ''  ENABLED=$(docker inspect '' @ [34] @ lit ''$cid'' @ [34] @ lit '' --format ''
        @ [34] @ lit ''{{index .Config.Labels '' @ [92, 34] @ lit ''traefik.enable'' @ [92, 34]
        @ lit ''}}'' @ [34] @ lit '' 2>/dev/null || echo '' @ [34, 34] @ lit '')'',
      lit ''  if [ '' @ [34] @ lit ''$ENABLED'' @ [34] @ lit '' = '' @ [34] @ lit ''true''
        @ [34] @ lit '' ]; then'',
      lit ''    NET=$(docker inspect '' @ [34] @ lit ''$cid'' @ [34] @ lit '' --format ''
        @ [34] @ lit ''{{range '' @ [92] @ lit ''$k, '' @ [92]
        @ lit ''$v := .NetworkSettings.Networks}}{{println '' @ [92] @ lit ''$k}}{{end}}''
        @ [34] @ lit '' 2>/dev/null | grep -v '' @ [34] @ lit ''^bridge$'' @ [34]
        @ lit '' | head -n1)'',
      lit ''    if [ -n '' @ [34] @ lit ''$NET'' @ [34] @ lit '' ]; then'',
      lit ''      echo '' @ [34] @ lit ''$NET'' @ [34],
      lit ''      exit 0'',
      lit ''    fi'',
      lit ''  fi'',
      lit ''done'',
      [],
      [],
      lit ''# Strategy 5: Check for host-network mode proxies'',
      lit ''# If proxy uses NetworkMode=host, return special marker '' @ [34]
        @ lit ''host-network-detected'' @ [34],
      lit ''for pattern in traefik caddy proxy zima casaos; do'',
      lit ''  for cid in $(docker ps -q --filter '' @ [34] @ lit ''name=$pattern'' @ [34]
        @ lit '' 2>/dev/null); do'',
      lit ''    MODE=$(docker inspect '' @ [34] @ lit ''$cid'' @ [34] @ lit '' --format ''
        @ [34] @ lit ''{{.HostConfig.NetworkMode}}'' @ [34] @ lit '' 2>/dev/null || echo ''
        @ [34, 34] @ lit '')'',
      lit ''    if [ '' @ [34] @ lit ''$MODE'' @ [34] @ lit '' = '' @ [34] @ lit ''host''
        @ [34] @ lit '' ]; then'',
      lit ''      echo '' @ [34] @ lit ''host-network-detected'' @ [34],
      lit ''      exit 0'',
      lit ''    fi'',
      lit ''  done'',
      lit ''done'',
      [],
      lit ''# Strategy 6: Networks containing DevForge apps (df- substring)'',
      lit ''for pattern in df-; do'',
      lit ''  for cid in $(docker ps -q --filter '' @ [34] @ lit ''name=$pattern'' @ [34]
        @ lit '' 2>/dev/null); do'',
      lit ''    NET=$(docker inspect '' @ [34] @ lit ''$cid'' @ [34] @ lit '' --format ''
        @ [34] @ lit ''{{range '' @ [92] @ lit ''$k, '' @ [92]
        @ lit ''$v := .NetworkSettings.Networks}}{{println '' @ [92] @ lit ''$k}}{{end}}''
        @ [34] @ lit '' 2>/dev/null | grep -v '' @ [34] @ lit ''^bridge$'' @ [34]
        @ lit '' | head -n1)'',
      lit ''    if [ -n '' @ [34] @ lit ''$NET'' @ [34] @ lit '' ]; then'',
      lit ''      echo '' @ [34] @ lit ''$NET'' @ [34],
      lit ''      exit 0'',
      lit ''    fi'',
      lit ''  done'',
      lit ''done'',
      [],
      lit ''echo '' @ [34, 34],
      [39]]"

section \<open>Readiness\<close>

definition probe_path_ok :: "ustr \<Rightarrow> bool" where
  "probe_path_ok path \<longleftrightarrow>
     starts_with path (lit ''/'') \<and>
     list_all (\<lambda>c. is_ascii_alnum c \<or> c \<in> set (lit ''/-_.~?=&%'')) path"

definition docker_http_probe :: "ustr \<Rightarrow> ustr \<Rightarrow> port \<Rightarrow> ustr \<Rightarrow> ustr option" where
  "docker_http_probe container network p path0 =
     (if \<not> is_safe_docker_name container \<or> \<not> is_safe_docker_name network then None
      else let path = (if probe_path_ok path0 then path0 else lit ''/'')
           in Some (join [10]
        [lit ''ST=$(docker inspect -f '' @ [39]
           @ lit ''{{.State.Status}}|{{if .State.Health}}{{.State.Health.Status}}{{end}}'' @ [39]
           @ lit '' '' @ container @ lit '' 2>/dev/null || echo '' @ [39] @ lit ''missing|'' @ [39] @ lit '')'',
         lit ''IP=$(docker inspect -f '' @ [39] @ lit ''{{with index .NetworkSettings.Networks ''
           @ [34] @ network @ [34] @ lit ''}}{{.IPAddress}}{{end}}'' @ [39] @ lit '' '' @ container @ lit '' 2>/dev/null)'',
         lit ''CODE=noprobe'',
         lit ''if [ -n '' @ [34] @ lit ''$IP'' @ [34] @ lit '' ] && [ '' @ [34]
           @ lit ''$(docker inspect -f '' @ [39] @ lit ''{{.State.Running}}'' @ [39]
           @ lit '' devforge-traefik 2>/dev/null)'' @ [34] @ lit '' = '' @ [34] @ lit ''true''
           @ [34] @ lit '' ]; then'',
         lit ''  CODE=$(docker exec devforge-traefik wget -S -q -O /dev/null -T 3 '' @ [34]
           @ lit ''http://$IP:'' @ port_str p @ path @ [34] @ lit '' 2>&1 | awk '' @ [39] @ lit ''/^ *HTTP'' @ [92]
           @ lit ''//{c=$2} END{print c}'' @ [39] @ lit '')'',
         lit ''  [ -n '' @ [34] @ lit ''$CODE'' @ [34] @ lit '' ] || CODE=000'',
         lit ''fi'',
         lit ''echo '' @ [34] @ lit ''state=$ST ip=$IP code=$CODE'' @ [34]]))"

datatype ready_probe = Ready | Wait | NotFound | Dead | NoProbe

definition probe_line :: "ustr \<Rightarrow> ustr option" where
  "probe_line out = find (\<lambda>l. contains l (lit ''state='')) (rev (str_lines out))"

definition probe_field :: "ustr \<Rightarrow> ustr \<Rightarrow> ustr" where
  "probe_field line k =
     (case find (\<lambda>t. starts_with t k) (split_whitespace line) of
        None \<Rightarrow> [] | Some t \<Rightarrow> drop (length k) t)"

definition classify_ready_probe :: "ustr \<Rightarrow> ready_probe" where
  "classify_ready_probe out =
     (let line = unwrap_or (probe_line out) [];
          st = probe_field line (lit ''state='');
          (status, health) = unwrap_or (split_once 124 st) (st, [])
      in if status = lit ''created'' \<or> status = lit ''restarting'' then Wait
         else if status \<noteq> lit ''running'' then Dead
         else if health \<noteq> [] then (if health = lit ''healthy'' then Ready else Wait)
         else let code = probe_field line (lit ''code='')
              in if code = lit ''noprobe'' \<or> code = [] then NoProbe
                 else case parse_uint 16 code of
                        Some c \<Rightarrow> if c = 404 then NotFound
                                  else if 100 \<le> c \<and> c < 500 then Ready else Wait
                      | None \<Rightarrow> Wait)"

end
