(* ===== verification/Builders.thy ===== *)
theory Builders
  imports DockerCmd
begin

text \<open>
  How an image is built: \<open>crates/deploy/src/builders.rs\<close> and the Dockerfiles and build commands of
  \<open>crates/deploy/src/docker.rs\<close>. The environment variables of the server are arguments, and so is
  the JSON parser. The branches for Windows hosts are left out.
\<close>

section \<open>Build commands\<close>

text \<open>The Dockerfile is a here-document, up to a line \<open>DFEOF\<close>.\<close>

definition docker_build_from_content :: "ustr \<Rightarrow> ustr \<Rightarrow> ustr" where
  "docker_build_from_content img dockerfile =
     lit ''docker build -t '' @ shell_escape img @ lit '' -f - . <<'' @ [39] @ lit ''DFEOF'' @ [39, 10] @
     dockerfile @ [10] @ lit ''DFEOF''"

definition nixpacks_build :: "ustr \<Rightarrow> ustr" where
  "nixpacks_build img = lit ''nixpacks build . --name '' @ shell_escape img"

section \<open>Dockerfiles\<close>

definition node_inline_dockerfile :: "port \<Rightarrow> ustr" where
  "node_inline_dockerfile port =
     join [10]
     [lit ''FROM node:22-bookworm-slim AS build'',
      lit ''WORKDIR /app'',
      lit ''RUN apt-get update '' @ [92],
      lit ''  && apt-get install -y --no-install-recommends ca-certificates '' @ [92],
      lit ''  && rm -rf /var/lib/apt/lists/*'',
      lit ''ENV PUPPETEER_SKIP_DOWNLOAD=1 '' @ [92],
      lit ''    PUPPETEER_SKIP_CHROMIUM_DOWNLOAD=1'',
      lit ''COPY package.json package-lock.json* npm-shrinkwrap.json* yarn.lock* pnpm-lock.yaml* ./'',
      lit ''RUN if [ -f package-lock.json ]; then npm ci; '' @ [92],
      lit ''  elif [ -f yarn.lock ]; then corepack enable && yarn install --frozen-lockfile; ''
        @ [92],
      lit ''  elif [ -f pnpm-lock.yaml ]; then corepack enable && pnpm install --frozen-lockfile; ''
        @ [92],
      lit ''  else npm install; fi'',
      lit ''COPY . .'',
      lit ''RUN node -e '' @ [39] @ lit ''const p=require('' @ [34] @ lit ''./package.json''
        @ [34] @ lit ''); if(!(p.scripts&&p.scripts.build)){console.log('' @ [34]
        @ lit ''skip build'' @ [34] @ lit ''); process.exit(0)} process.exit(1)'' @ [39]
        @ lit '' '' @ [92],
      lit ''  || npm run build'',
      [],
      lit ''FROM node:22-bookworm-slim'',
      lit ''WORKDIR /app'',
      lit ''RUN apt-get update '' @ [92],
      lit ''  && apt-get install -y --no-install-recommends ca-certificates '' @ [92],
      lit ''  && rm -rf /var/lib/apt/lists/*'',
      lit ''ENV NODE_ENV=production HOST=0.0.0.0 PORT='' @ port_str port @ lit '' '' @ [92],
      lit ''    PUPPETEER_SKIP_DOWNLOAD=1 '' @ [92],
      lit ''    PUPPETEER_SKIP_CHROMIUM_DOWNLOAD=1'',
      lit ''COPY --from=build /app /app'',
      lit ''EXPOSE '' @ port_str port,
      lit ''CMD sh -c '' @ [39]
        @ lit ''if [ -f .output/server/index.mjs ]; then exec node .output/server/index.mjs; elif [ -f .output/server/index.js ]; then exec node .output/server/index.js; elif node -e ''
        @ [34] @ lit ''const p=require('' @ [92, 34] @ lit ''./package.json'' @ [92, 34]
        @ lit ''); process.exit(p.scripts&&p.scripts.start?0:1)'' @ [34]
        @ lit ''; then exec npm run start; elif [ -f server.js ]; then exec node server.js; elif [ -f index.js ]; then exec node index.js; else echo ''
        @ [34] @ lit ''[devforge] ni script start, ni server.js, ni index.js'' @ [34]
        @ lit ''; exit 1; fi'' @ [39],
      []]"

definition npm_build_if_present_shell :: ustr where
  "npm_build_if_present_shell =
     lit ''if node -e '' @ [39] @ lit ''const p=require('' @ [34] @ lit ''./package.json''
     @ [34] @ lit ''); process.exit(p.scripts&&p.scripts.build?1:0)'' @ [39]
     @ lit ''; then echo '' @ [34] @ lit ''[node] pas de script build '' @ [8212]
     @ lit '' skip'' @ [34] @ lit ''; else npm run build; fi''"

definition npm_start_if_present_shell :: ustr where
  "npm_start_if_present_shell =
     lit ''if [ -f .output/server/index.mjs ]; then exec node .output/server/index.mjs; elif [ -f .output/server/index.js ]; then exec node .output/server/index.js; elif node -e ''
     @ [39] @ lit ''const p=require('' @ [34] @ lit ''./package.json'' @ [34]
     @ lit ''); process.exit(p.scripts&&p.scripts.start?0:1)'' @ [39]
     @ lit ''; then exec npm run start; elif [ -f server.js ]; then exec node server.js; elif [ -f index.js ]; then exec node index.js; else echo ''
     @ [34] @ lit ''[devforge] ni script start, ni server.js, ni index.js'' @ [34]
     @ lit ''; exit 1; fi''"

text \<open>The published directory, with its double quotes removed, is the value of a variable.\<close>

definition publish_dir :: "ustr \<Rightarrow> ustr" where
  "publish_dir directory =
     (let d = trim_start_char 47 (trim directory)
      in filter (\<lambda>c. c \<noteq> 34) (if d = [] then lit ''dist'' else d))"

definition static_before :: "ustr list" where
  "static_before =
     [lit ''FROM node:22-bookworm-slim AS build'',
      lit ''WORKDIR /app'',
      lit ''RUN apt-get update '' @ [92],
      lit ''  && apt-get install -y --no-install-recommends ca-certificates '' @ [92],
      lit ''  && rm -rf /var/lib/apt/lists/*'',
      lit ''ENV PUPPETEER_SKIP_DOWNLOAD=1 '' @ [92],
      lit ''    PUPPETEER_SKIP_CHROMIUM_DOWNLOAD=1 '' @ [92]]"

definition static_after :: "ustr list" where
  "static_after =
     [lit ''COPY package.json package-lock.json* npm-shrinkwrap.json* yarn.lock* pnpm-lock.yaml* ./'',
      lit ''RUN if [ -f package-lock.json ]; then npm ci; '' @ [92],
      lit ''  elif [ -f yarn.lock ]; then corepack enable && yarn install --frozen-lockfile; ''
        @ [92],
      lit ''  elif [ -f pnpm-lock.yaml ]; then corepack enable && pnpm install --frozen-lockfile; ''
        @ [92],
      lit ''  else npm install; fi'',
      lit ''COPY . .'',
      lit ''RUN npm run build '' @ [92],
      lit '' && if [ -f .output/server/index.mjs ] || [ -f .vercel/output/nitro.json ]; then ''
        @ [92],
      lit ''      echo '' @ [34] @ lit ''[devforge] application serveur (Nitro) '' @ [8212]
        @ lit '' le pack statique nginx ne la publie pas'' @ [34] @ lit '' >&2; '' @ [92],
      lit ''      exit 1; '' @ [92],
      lit ''    fi '' @ [92],
      lit '' && src='' @ [34, 34] @ lit '' '' @ [92],
      lit '' && for c in '' @ [34] @ lit ''$DEVFORGE_PUBLISH_DIR'' @ [34]
        @ lit '' dist build out .output/public .vercel/output/static public; do '' @ [92],
      lit ''      if [ -d '' @ [34] @ lit ''$c'' @ [34] @ lit '' ]; then src='' @ [34]
        @ lit ''$c'' @ [34] @ lit ''; break; fi; '' @ [92],
      lit ''    done '' @ [92],
      lit '' && if [ -z '' @ [34] @ lit ''$src'' @ [34] @ lit '' ]; then echo '' @ [34]
        @ lit ''[devforge] r'' @ [233]
        @ lit ''pertoire de publication introuvable ($DEVFORGE_PUBLISH_DIR)'' @ [34]
        @ lit '' >&2; exit 1; fi '' @ [92],
      lit '' && echo '' @ [34] @ lit ''[devforge] publication $src'' @ [34] @ lit '' '' @ [92],
      lit '' && mkdir -p /devforge-static '' @ [92],
      lit '' && cp -a '' @ [34] @ lit ''$src'' @ [34] @ lit ''/. /devforge-static/'',
      [],
      lit ''FROM nginx:alpine'',
      lit ''# Redirections relatives (`/apps/x` '' @ [8594]
        @ lit '' `Location: /apps/x/`) : derri'' @ [232] @ lit ''re le proxy'',
      lit ''# TLS, nginx re'' @ [231] @ lit ''oit du http et g'' @ [233] @ lit ''n'' @ [233]
        @ lit ''rerait sinon `http://h'' @ [244] @ lit ''te/apps/x/`.'',
      lit ''RUN printf '' @ [39] @ lit ''absolute_redirect off;'' @ [92] @ lit ''n'' @ [39]
        @ lit '' > /etc/nginx/conf.d/00-devforge-redirect.conf'',
      lit ''COPY --from=build /devforge-static /usr/share/nginx/html'',
      lit ''EXPOSE 80'',
      []]"

definition static_inline_dockerfile :: "ustr \<Rightarrow> ustr" where
  "static_inline_dockerfile directory =
     join [10] (static_before @ [lit ''    DEVFORGE_PUBLISH_DIR='' @ [34] @ publish_dir directory @ [34]] @ static_after)"

text \<open>The source writes the port over a mark that stands nowhere else in the text.\<close>

definition nitro_node_dockerfile :: "port \<Rightarrow> ustr" where
  "nitro_node_dockerfile port =
     join [10]
     [lit ''FROM node:22-bookworm-slim'',
      lit ''WORKDIR /app'',
      lit ''RUN apt-get update '' @ [92],
      lit ''  && apt-get install -y --no-install-recommends ca-certificates '' @ [92],
      lit ''  && rm -rf /var/lib/apt/lists/*'',
      lit ''ENV PUPPETEER_SKIP_DOWNLOAD=1 '' @ [92],
      lit ''    PUPPETEER_SKIP_CHROMIUM_DOWNLOAD=1 '' @ [92],
      lit ''    NITRO_PRESET=node_server '' @ [92],
      lit ''    NODE_ENV=production '' @ [92],
      lit ''    HOST=0.0.0.0 '' @ [92],
      lit ''    NITRO_HOST=0.0.0.0 '' @ [92],
      lit ''    PORT='' @ port_str port @ lit '' '' @ [92],
      lit ''    NITRO_PORT='' @ port_str port,
      lit ''COPY package.json package-lock.json* npm-shrinkwrap.json* yarn.lock* pnpm-lock.yaml* ./'',
      lit ''RUN if [ -f package-lock.json ]; then npm ci; '' @ [92],
      lit ''  elif [ -f yarn.lock ]; then corepack enable && yarn install --frozen-lockfile; ''
        @ [92],
      lit ''  elif [ -f pnpm-lock.yaml ]; then corepack enable && pnpm install --frozen-lockfile; ''
        @ [92],
      lit ''  else npm install; fi'',
      lit ''COPY . .'',
      lit ''RUN node --input-type=module -e '' @ [34] @ lit ''import fs from '' @ [39]
        @ lit ''node:fs'' @ [39] @ lit ''; const files=['' @ [39] @ lit ''vite.config.ts''
        @ [39] @ lit '','' @ [39] @ lit ''vite.config.js'' @ [39] @ lit '','' @ [39]
        @ lit ''vite.config.mjs'' @ [39] @ lit '','' @ [39] @ lit ''vite.config.mts'' @ [39]
        @ lit '','' @ [39] @ lit ''nitro.config.ts'' @ [39] @ lit '','' @ [39]
        @ lit ''nitro.config.js'' @ [39] @ lit '','' @ [39] @ lit ''nitro.config.mjs'' @ [39]
        @ lit '']; const re=/preset'' @ [92, 92] @ lit ''s*:'' @ [92, 92] @ lit ''s*([''
        @ [92, 34, 39]
        @ lit ''])(?:vercel|netlify|netlify_edge|cloudflare|cloudflare_module|cloudflare_pages|aws_lambda|deno_deploy)''
        @ [92, 92]
        @ lit ''1/g; for (const f of files) { if (!fs.existsSync(f)) continue; const s=fs.readFileSync(f,''
        @ [39] @ lit ''utf8'' @ [39] @ lit ''); const n=s.replace(re,'' @ [39]
        @ lit ''preset: '' @ [92, 34] @ lit ''node_server'' @ [92, 34, 39]
        @ lit ''); if (n!==s) { fs.writeFileSync(f,n); console.log('' @ [39]
        @ lit ''[devforge] preset node_server dans '' @ [39] @ lit ''+f); } }'' @ [34],
      lit ''RUN if node -e '' @ [39] @ lit ''const p=require('' @ [34]
        @ lit ''./package.json'' @ [34]
        @ lit ''); process.exit(p.scripts&&p.scripts.build?1:0)'' @ [39] @ lit ''; then echo ''
        @ [34] @ lit ''[nitro] pas de script build'' @ [34] @ lit ''; else npm run build; fi ''
        @ [92],
      lit '' && if [ -f .output/server/index.mjs ] || [ -f .output/server/index.js ]; then echo ''
        @ [34] @ lit ''[nitro] serveur OK'' @ [34] @ lit ''; else echo '' @ [34]
        @ lit ''[devforge] .output/server introuvable apr'' @ [232] @ lit ''s le build'' @ [34]
        @ lit '' >&2; exit 1; fi'',
      lit ''EXPOSE '' @ port_str port,
      lit ''CMD ['' @ [34] @ lit ''sh'' @ [34] @ lit '', '' @ [34] @ lit ''-c'' @ [34]
        @ lit '', '' @ [34]
        @ lit ''if [ -f .output/server/index.mjs ]; then exec node .output/server/index.mjs; else exec node .output/server/index.js; fi''
        @ [34] @ lit '']'',
      []]"

definition nitro_keys :: "ustr list" where
  "nitro_keys = [lit ''nitro'', lit ''@tanstack/react-start'', lit ''@tanstack/start'']"

definition package_json_is_nitro_server :: "(ustr \<Rightarrow> json option) \<Rightarrow> ustr \<Rightarrow> bool" where
  "package_json_is_nitro_server parse_json s =
     (case parse_json s of
        Some (JObj package) \<Rightarrow>
          list_ex (\<lambda>sec. case map_of package sec of
                Some (JObj m) \<Rightarrow> list_ex (\<lambda>k. map_of m k \<noteq> None) nitro_keys
              | _ \<Rightarrow> False)
            [lit ''dependencies'', lit ''devDependencies'']
      | _ \<Rightarrow> False)"

section \<open>Variables of the build\<close>

definition is_build_env_key :: "ustr \<Rightarrow> bool" where
  "is_build_env_key key =
     (let k = trim key
      in list_ex (starts_with k) [lit ''PUPPETEER_'', lit ''NODE_'', lit ''NPM_'', lit ''YARN_'', lit ''PNPM_''] \<or>
         k = lit ''CI'' \<or> k = lit ''NODE_OPTIONS'')"

definition skip_keys :: "ustr list" where
  "skip_keys = [lit ''PUPPETEER_SKIP_DOWNLOAD'', lit ''PUPPETEER_SKIP_CHROMIUM_DOWNLOAD'']"

definition build_env_of_line :: "ustr \<Rightarrow> (ustr \<times> ustr) option" where
  "build_env_of_line text_line =
     (let line = trim text_line
      in if line = [] \<or> starts_with line [35] then None
         else case split_once 61 line of
                None \<Rightarrow> None
              | Some (k, v) \<Rightarrow>
                  if trim k = [] \<or> \<not> is_build_env_key (trim k) then None
                  else Some (trim k, trim_by (\<lambda>c. c = 39) (trim_by (\<lambda>c. c = 34) (trim v))))"

definition collect_build_envs :: "ustr option \<Rightarrow> (ustr \<times> ustr) list" where
  "collect_build_envs env_file =
     (let out = (case env_file of None \<Rightarrow> [] | Some body \<Rightarrow> List.map_filter build_env_of_line (str_lines body))
      in if list_ex (\<lambda>(k, v). k \<in> set skip_keys) out then out
         else out @ map (\<lambda>k. (k, lit ''1'')) skip_keys)"

section \<open>Nixpacks\<close>

definition NIXPACKS_CLI_VERSION :: ustr where "NIXPACKS_CLI_VERSION = lit ''1.41.0''"

definition DEFAULT_NIXPACKS_IMAGE :: ustr where "DEFAULT_NIXPACKS_IMAGE = lit ''devforge/nixpacks:1.41.0''"

text \<open>The last part of an image name: behind the last slash, then behind the last colon.\<close>

definition is_provider_base_image :: "ustr \<Rightarrow> bool" where
  "is_provider_base_image img =
     (let last_part = last (split_on (\<lambda>c. c = 47) img);
          tag = last (split_on (\<lambda>c. c = 58) last_part)
      in tag = lit ''ubuntu'' \<or> tag = lit ''debian'' \<or> starts_with tag (lit ''ubuntu-'') \<or> starts_with tag (lit ''debian-''))"

definition resolve_nixpacks_image :: "ustr option \<Rightarrow> ustr" where
  "resolve_nixpacks_image configured =
     (case opt_filter (\<lambda>s. s \<noteq> []) (map_option trim configured) of
        Some img \<Rightarrow> if is_provider_base_image img then DEFAULT_NIXPACKS_IMAGE else img
      | None \<Rightarrow> DEFAULT_NIXPACKS_IMAGE)"

text \<open>\<open>DEVFORGE_NIXPACKS_IMAGE\<close>\<close>

definition nixpacks_image :: "ustr option \<Rightarrow> ustr" where
  "nixpacks_image env = resolve_nixpacks_image env"

definition is_managed_cli_image :: "ustr \<Rightarrow> bool" where
  "is_managed_cli_image img \<longleftrightarrow> img = DEFAULT_NIXPACKS_IMAGE \<or> starts_with img (lit ''devforge/nixpacks:'')"

definition token_safe :: "uchar \<Rightarrow> bool" where
  "token_safe c \<longleftrightarrow> is_ascii_alnum c \<or> c \<in> set (lit ''-_./:=@'')"

definition shell_escape_token :: "ustr \<Rightarrow> ustr" where
  "shell_escape_token s = (if list_all token_safe s then s else shell_single_quote s)"

definition nixpacks_cli_dockerfile :: ustr where
  "nixpacks_cli_dockerfile =
     join [10]
     [lit ''FROM docker:27-cli'',
      lit ''ARG TARGETARCH'',
      lit ''RUN apk add --no-cache ca-certificates curl tar git '' @ [92],
      lit '' && case '' @ [34] @ lit ''$TARGETARCH'' @ [34] @ lit '' in '' @ [92],
      lit ''      amd64) ASSET=x86_64-unknown-linux-musl ;; '' @ [92],
      lit ''      arm64) ASSET=aarch64-unknown-linux-musl ;; '' @ [92],
      lit ''      *) echo '' @ [34] @ lit ''arch $TARGETARCH non support'' @ [233] @ lit ''e''
        @ [34] @ lit '' >&2; exit 1 ;; '' @ [92],
      lit ''    esac '' @ [92],
      lit '' && curl -fsSL -o /tmp/nixpacks.tgz '' @ [34]
        @ lit ''https://github.com/railwayapp/nixpacks/releases/download/v'' @ NIXPACKS_CLI_VERSION @ lit ''/nixpacks-v'' @ NIXPACKS_CLI_VERSION @ lit ''-${ASSET}.tar.gz'' @ [34] @ lit '' '' @ [92],
      lit '' && tar -xzf /tmp/nixpacks.tgz -C /usr/local/bin '' @ [92],
      lit '' && chmod +x /usr/local/bin/nixpacks '' @ [92],
      lit '' && rm -f /tmp/nixpacks.tgz '' @ [92],
      lit '' && nixpacks --version'',
      lit ''ENTRYPOINT ['' @ [34] @ lit ''nixpacks'' @ [34] @ lit '']'',
      []]"

definition nixpacks_cli_ensure :: "ustr \<Rightarrow> ustr" where
  "nixpacks_cli_ensure img =
     (if \<not> is_managed_cli_image img then []
      else join [10]
       [lit ''if ! docker image inspect '' @ shell_escape_token img @ lit '' >/dev/null 2>&1; then '' @ [92],
        lit ''echo '' @ [34] @ lit ''[nixpacks-cli] construction '' @ shell_escape_token img @ [34] @ lit ''; '' @ [92],
        lit ''CLI_CTX=$(mktemp -d 2>/dev/null || echo /tmp/df-nixpacks-cli-ctx); '' @ [92],
        lit ''mkdir -p '' @ [34] @ lit ''$CLI_CTX'' @ [34] @ lit ''; '' @ [92],
        lit ''docker build -t '' @ shell_escape_token img @ lit '' -f - '' @ [34] @ lit ''$CLI_CTX'' @ [34] @ lit '' <<'' @ [39]
          @ lit ''NIXPACKS_CLI_EOF'' @ [39],
        nixpacks_cli_dockerfile @ lit ''NIXPACKS_CLI_EOF'',
        lit ''ec=$?; rm -rf '' @ [34] @ lit ''$CLI_CTX'' @ [34] @ lit ''; '' @ [92],
        lit ''if [ '' @ [34] @ lit ''$ec'' @ [34] @ lit '' -ne 0 ]; then exit '' @ [34]
          @ lit ''$ec'' @ [34] @ lit ''; fi; '' @ [92],
        lit ''fi; ''])"

definition format_nixpacks_env_flags :: "(ustr \<times> ustr) list \<Rightarrow> ustr" where
  "format_nixpacks_env_flags build_envs =
     concat (map (\<lambda>(k, v). lit '' --env '' @ shell_escape_token k @ [61] @ shell_escape_token v) build_envs)"

definition nix_args :: "ustr \<Rightarrow> (ustr \<times> ustr) list \<Rightarrow> ustr" where
  "nix_args img build_envs =
     lit ''build . --name '' @ shell_escape_token img @ format_nixpacks_env_flags build_envs"

text \<open>\<open>DEVFORGE_SELF_CONTAINER\<close> is a hint, without its quotes and dollars.\<close>

definition nixpacks_docker_build_image :: "ustr option \<Rightarrow> ustr \<Rightarrow> ustr \<Rightarrow> (ustr \<times> ustr) list \<Rightarrow> ustr" where
  "nixpacks_docker_build_image self_env builder img build_envs =
     (let self_hint = filter (\<lambda>c. c \<noteq> 34 \<and> c \<noteq> 96 \<and> c \<noteq> 36) (trim (unwrap_or self_env []));
          b = shell_escape_token builder; args = nix_args img build_envs
      in nixpacks_cli_ensure builder @
     join [10]
     [lit ''SELF_CTR='' @ [34] @ self_hint @ [34] @ lit ''; '' @ [92],
      lit ''if [ -z '' @ [34] @ lit ''$SELF_CTR'' @ [34] @ lit '' ] && [ -n '' @ [34]
        @ lit ''${DEVFORGE_SELF_CONTAINER:-}'' @ [34] @ lit '' ]; then SELF_CTR='' @ [34]
        @ lit ''$DEVFORGE_SELF_CONTAINER'' @ [34] @ lit ''; fi; '' @ [92],
      lit ''if [ -n '' @ [34] @ lit ''$SELF_CTR'' @ [34] @ lit '' ] && docker inspect ''
        @ [34] @ lit ''$SELF_CTR'' @ [34] @ lit '' >/dev/null 2>&1; then '' @ [92],
      lit ''  docker run --rm --entrypoint nixpacks -v /var/run/docker.sock:/var/run/docker.sock --volumes-from ''
        @ [34] @ lit ''$SELF_CTR'' @ [34] @ lit '' -w '' @ [34] @ lit ''$PWD'' @ [34]
        @ lit '' '' @ b @ lit '' '' @ args @ lit ''; '' @ [92],
      lit ''elif [ -f /.dockerenv ] && docker inspect '' @ [34] @ lit ''$(hostname)'' @ [34]
        @ lit '' >/dev/null 2>&1; then '' @ [92],
      lit ''  docker run --rm --entrypoint nixpacks -v /var/run/docker.sock:/var/run/docker.sock --volumes-from ''
        @ [34] @ lit ''$(hostname)'' @ [34] @ lit '' -w '' @ [34] @ lit ''$PWD'' @ [34]
        @ lit '' '' @ b @ lit '' '' @ args @ lit ''; '' @ [92],
      lit ''else '' @ [92],
      lit ''  docker run --rm --entrypoint nixpacks -v /var/run/docker.sock:/var/run/docker.sock -v ''
        @ [34] @ lit ''$PWD'' @ [34] @ lit '':/app -w /app '' @ b @ lit '' '' @ args @ lit ''; '' @ [92],
      lit ''fi''])"

definition nixpacks_docker_build :: "ustr option \<Rightarrow> ustr option \<Rightarrow> ustr \<Rightarrow> (ustr \<times> ustr) list \<Rightarrow> ustr" where
  "nixpacks_docker_build nix_env self_env img build_envs =
     nixpacks_docker_build_image self_env (nixpacks_image nix_env) img build_envs"

section \<open>Dockerfiles of the project\<close>

text \<open>The label that goes to the log, and the command.\<close>

definition fallback_label :: ustr where
  "fallback_label = lit ''Dockerfile du projet, sinon Node (build seulement si le script existe)''"

definition fallback_image_build_cmd :: "ustr \<Rightarrow> port \<Rightarrow> ustr" where
  "fallback_image_build_cmd img port =
     (let node = docker_build_from_content img (node_inline_dockerfile port);
          df = docker_build (lit ''.'') img (lit ''Dockerfile'')
      in join [10]
         [lit ''if [ -L Dockerfile ] && [ ! -e Dockerfile ]; then'',
          lit ''echo '' @ [34]
            @ lit ''[error] Dockerfile est un lien symbolique casse (cible manquante)'' @ [34]
            @ lit '' >&2'',
          lit ''exit 1'',
          lit ''fi'',
          lit ''if [ -f Dockerfile ]; then '' @ df,
          lit ''elif [ -f package.json ]; then'',
          node,
          lit ''else'',
          lit ''echo '' @ [34] @ lit ''[fallback] ni Dockerfile ni package.json '' @ [8212]
            @ lit '' Nixpacks est requis pour ce runtime'' @ [34] @ lit '' >&2'',
          lit ''exit 1'',
          lit ''fi'',
          []])"

definition dockerfile_image_build_cmd :: "ustr \<Rightarrow> ustr \<Rightarrow> ustr \<Rightarrow> ustr" where
  "dockerfile_image_build_cmd img dockerfile ctx =
     (let build = docker_build ctx img dockerfile; df = shell_escape_token dockerfile
      in join [10]
         [lit ''if [ -L '' @ df @ lit '' ] && [ ! -e '' @ df @ lit '' ]; then echo '' @ [34]
            @ lit ''[error] Dockerfile est un lien symbolique casse: '' @ dockerfile @ lit '' (cible manquante)'' @ [34] @ lit '' >&2; exit 1; fi'',
          lit ''if [ ! -f '' @ df @ lit '' ]; then echo '' @ [34] @ lit ''[error] Dockerfile introuvable: '' @ dockerfile @ [34] @ lit '' >&2; exit 1; fi'',
          build])"

section \<open>Looking at containers\<close>

definition docker_check_host_conflicts :: "ustr \<Rightarrow> ustr" where
  "docker_check_host_conflicts fqdn =
     (let escaped = shell_escape fqdn
      in join [10]
         [lit ''sh -c '' @ [39],
          lit ''HOST='' @ [34] @ escaped @ [34],
          lit ''for cid in $(docker ps -q 2>/dev/null); do'',
          lit ''  NAME=$(docker inspect '' @ [34] @ lit ''$cid'' @ [34] @ lit '' --format ''
            @ [34] @ lit ''{{.Name}}'' @ [34] @ lit '' 2>/dev/null | sed '' @ [34] @ lit ''s/^''
            @ [92] @ lit ''///'' @ [34] @ lit '' || echo '' @ [34, 34] @ lit '')'',
          lit ''  '',
          lit ''  # Extraire tous les labels traefik.http.routers.*.rule'',
          lit ''  RULES=$(docker inspect '' @ [34] @ lit ''$cid'' @ [34] @ lit '' --format ''
            @ [34] @ lit ''{{range '' @ [92] @ lit ''$k, '' @ [92]
            @ lit ''$v := .Config.Labels}}{{if contains '' @ [92] @ lit ''$k '' @ [92, 34]
            @ lit ''traefik.http.routers.'' @ [92, 34] @ lit ''}}{{if contains '' @ [92]
            @ lit ''$k '' @ [92, 34] @ lit ''.rule'' @ [92, 34] @ lit ''}}{{println '' @ [92]
            @ lit ''$v}}{{end}}{{end}}{{end}}'' @ [34] @ lit '' 2>/dev/null || echo '' @ [34, 34]
            @ lit '')'',
          lit ''  '',
          lit ''  # V'' @ [233] @ lit ''rifier si une r'' @ [232]
            @ lit ''gle contient Host(`$HOST`)'',
          lit ''  if echo '' @ [34] @ lit ''$RULES'' @ [34] @ lit '' | grep -qF '' @ [34]
            @ lit ''Host('' @ [92] @ lit ''`$HOST'' @ [92] @ lit ''`)'' @ [34] @ lit ''; then'',
          lit ''    # Trouv'' @ [233] @ lit '' conflit : afficher nom ou id'',
          lit ''    if [ -n '' @ [34] @ lit ''$NAME'' @ [34] @ lit '' ]; then'',
          lit ''      echo '' @ [34] @ lit ''$NAME'' @ [34],
          lit ''    else'',
          lit ''      echo '' @ [34] @ lit ''$cid'' @ [34],
          lit ''    fi'',
          lit ''    exit 0'',
          lit ''  fi'',
          lit ''done'',
          lit ''echo '' @ [34, 34],
          [39]])"

definition docker_ps_status :: "ustr \<Rightarrow> ustr" where
  "docker_ps_status name =
     lit ''docker ps -a --filter name='' @ shell_escape name @ lit '' --format '' @ [39] @ lit ''{{.Status}}'' @ [39]"

definition rollback_tag_command :: "ustr \<Rightarrow> nat \<Rightarrow> ustr" where
  "rollback_tag_command img seconds =
     (let repo = hd (split_on (\<lambda>c. c = 58) img);
          target = repo @ lit '':r'' @ dec seconds;
          i = shell_escape img; t = shell_escape target
      in lit ''docker image inspect '' @ i @ lit '' >/dev/null 2>&1 && docker tag '' @ i @ lit '' '' @ t @
         lit '' && echo '' @ [39] @ lit ''tag rollback '' @ t @ [39] @ lit '' || true'')"

end
