(* ===== verification/DeployAct.thy ===== *)
theory DeployAct
  imports GitSync Builders
begin

text \<open>
  What a deployment does to a server: the commands it sends through \<open>RemoteExecutor\<close>
  (\<open>crates/deploy/src/lib.rs\<close>), the messages of its log, its pauses and its readings of the
  clock. An action maps the state of the world to its result, the events it caused in
  order, and the next state; it is \<open>None\<close> when it does not return. The executor, the clock,
  the environment variables and the local file system are the fields of a \<open>site\<close>.
\<close>

section \<open>Commands\<close>

record extras =
  ex_nvidia :: bool
  ex_dri :: bool
  ex_group_network :: "ustr option"
  ex_group_alias :: "ustr option"
  ex_volumes :: "ustr list"
  ex_runtime :: runtime

text \<open>The commands of a deployment besides those on containers. The scripts of Git and of the
  image builds are carried as the texts their functions built.\<close>

datatype step_cmd =
    MakeDir ustr
  | SyncGit ustr
  | HeadSha
  | GrepConflicts
  | WriteEnv ustr
  | ClearEnv
  | ProbeEngine
  | ReadPackage
  | BuildImage ustr ustr
  | ComposeUp ustr
  | TagImage ustr nat
  | NpmInstall
  | NpmBuild

fun step_text :: "step_cmd \<Rightarrow> ustr" where
  "step_text (MakeDir dir) = lit ''mkdir -p '' @ shell_single_quote dir"
| "step_text (SyncGit script) = script"
| "step_text HeadSha = lit ''git rev-parse --short HEAD''"
| "step_text GrepConflicts = conflict_grep_cmd"
| "step_text (WriteEnv body) =
     lit ''printf '' @ [39] @ lit ''%s'' @ [39, 32, 39] @ replace_str [39] [39, 92, 39, 39] body @ [39] @ lit '' > .env''"
| "step_text ClearEnv = lit ''rm -f .env 2>/dev/null; true''"
| "step_text ProbeEngine =
     lit ''command -v docker >/dev/null && docker version --format '' @ [39] @ lit ''{{.Server.Version}}'' @ [39]"
| "step_text ReadPackage = lit ''cat package.json''"
| "step_text (BuildImage img script) = script"
| "step_text (ComposeUp file) = docker_compose_up file"
| "step_text (TagImage img t) = rollback_tag_command img t"
| "step_text NpmInstall =
     lit ''export PUPPETEER_SKIP_DOWNLOAD=1 PUPPETEER_SKIP_CHROMIUM_DOWNLOAD=1; '' @
     lit ''if [ -f package-lock.json ]; then npm ci; else npm install; fi''"
| "step_text NpmBuild = npm_build_if_present_shell"

datatype cmd =
    Step step_cmd
  | ListContainer ustr
  | InspectState ustr
  | FreePort ustr port
  | TestEnvFile
  | DetectNetwork
  | CheckNetwork ustr
  | RemoveQuiet ustr
  | RemoveForce ustr
  | StartSidecar ustr ustr sidecar
  | RunApp ustr ustr "(port \<times> port) list" "ustr option" "ustr option" extras port
  | Attach ustr ustr "ustr option"
  | Probe ustr ustr
  | TailLogs nat ustr
  | SetLabels ustr json
  | StopRemove ustr
  | Rename ustr ustr
  | CheckTraefik

text \<open>The texts the executor receives. A probe carries the text \<open>docker_http_probe\<close> built.\<close>

fun cmd_text :: "rotation \<Rightarrow> cmd \<Rightarrow> ustr" where
  "cmd_text rot (Step c) = step_text c"
| "cmd_text rot (ListContainer name) =
     lit ''docker ps -a --filter name=^'' @ name @ lit ''$ --format '' @ [39] @ lit ''{{.ID}}'' @ [39]"
| "cmd_text rot (InspectState name) =
     lit ''docker inspect '' @ name @ lit '' --format '' @ [39] @ lit ''{{.State.Status}}'' @ [39]"
| "cmd_text rot (FreePort name p) = docker_prepare_run_except name p"
| "cmd_text rot TestEnvFile = lit ''test -f .env''"
| "cmd_text rot DetectNetwork = docker_detect_traefik_network"
| "cmd_text rot (CheckNetwork n) =
     lit ''docker network inspect '' @ n @ lit '' >/dev/null 2>&1 && echo '' @ n"
| "cmd_text rot (RemoveQuiet name) = lit ''docker rm -f '' @ name @ lit '' 2>/dev/null || true''"
| "cmd_text rot (RemoveForce name) = lit ''docker rm -f '' @ name"
| "cmd_text rot (StartSidecar net cname side) =
     lit ''docker network create '' @ net @ lit '' >/dev/null 2>&1 || true; docker rm -f '' @ cname @
     lit '' >/dev/null 2>&1 || true; '' @
     docker_run_ex rot cname (sc_image side) [] None (Some net) None False False [] (tune_of_sidecar side) None"
| "cmd_text rot (RunApp name img ports env_file network x listen) =
     docker_run_ex rot name img ports env_file network None (ex_nvidia x) (ex_dri x) (ex_volumes x)
       (tune_of_runtime (ex_runtime x)) (Some listen)"
| "cmd_text rot (Attach net ctr alias) = docker_network_attach net ctr alias"
| "cmd_text rot (Probe ctr t) = t"
| "cmd_text rot (TailLogs n ctr) = lit ''docker logs --tail '' @ dec n @ lit '' '' @ ctr @ lit '' 2>&1''"
| "cmd_text rot (SetLabels name labels) = docker_update_labels name labels"
| "cmd_text rot (StopRemove name) = lit ''docker stop '' @ name @ lit '' && docker rm -f '' @ name"
| "cmd_text rot (Rename a b) = lit ''docker rename '' @ a @ lit '' '' @ b"
| "cmd_text rot CheckTraefik =
     lit ''docker ps --filter name=^traefik$ --format '' @ [39] @ lit ''{{.Status}}'' @ [39] @
     lit '' 2>/dev/null || echo '' @ [39] @ lit ''missing'' @ [39]"

section \<open>Messages of the deployment log\<close>

text \<open>One constructor per message of the source, with the values it shows.\<close>

datatype prep_message =
    OldProtected ustr | OldUnhealthy ustr | PortReserved port | PrepareOut ustr | PrepareWarn ustr
  | NetworkUnset | HostNetwork | NetworkFound ustr | DetectFailed | FallbackNetwork ustr

datatype start_message =
    LabelsLater | NoHostPort | Starting ustr | VolumesUsed "ustr list"
  | Limits "ustr option" "ustr option" | PublishedPorts "ustr list"
  | SidecarFailed | StartExit int ustr | StartError ustr | NewNotStarted | OldKept ustr

datatype network_message =
    SidecarStarting ustr ustr | SidecarUp ustr | SidecarExit ustr int ustr | SidecarError ustr ustr
  | SidecarNetwork ustr | AppLinked | SidecarWarn ustr
  | GroupNetwork ustr | GroupLinked | GroupWarn ustr | GroupAlias ustr ustr | GroupAliasWarn ustr

datatype ready_message =
    HealthState ustr ustr | NoSharedNetwork | ReadyLine ustr nat ustr
  | ReadyHttp ustr nat | DiedStarting ustr | ReadyLogs ustr | ProbeUnavailable
  | Tolerated404 ustr | NotReady ustr nat ustr

datatype swap_message =
    WaitingHttp | NewUnhealthy | OldKeptUnready ustr | NewHealthy | ApplyingLabels | LabelsApplied
  | LabelsRefused ustr | LabelsError ustr | NotReadyAfterLabels | OldKeptAfterLabels ustr
  | StoppingOld ustr | Renaming ustr ustr | SwapDone | RenameError ustr | NewKeepsTempName ustr

datatype proxy_message =
    CheckingTraefik | TraefikUp | TraefikMissing | TraefikState ustr | TraefikError ustr

datatype setup_message =
    Deploying ustr ustr ustr | DirMade | DirOut ustr | DirError ustr ustr
  | GitAuth ustr | PinAsked ustr | PinInvalid | SyncStarted | GitExit int ustr | GitError ustr
  | Head ustr | Conflicts ustr
  | EnvCloned | EnvRemote int | EnvError ustr | EnvCleared
  | EngineOk ustr | EngineExit int ustr | EngineError ustr | EngineAbsent

datatype build_message =
    Beat ustr nat | Nitro | Building ustr | Built ustr int ustr | BuildError ustr ustr
  | ComposeNoNetwork | ComposeNoMounts | BuilderLabel ustr
  | NixUsing ustr "ustr list" | NixStarted | NixDone ustr | NixExit int ustr | NixError ustr | Fallback ustr

datatype end_message =
    NoPackage | NpmExit ustr int ustr | NpmError ustr ustr | LocalStopWarn ustr
  | LocalStarted nat port | LocalStartError ustr | LocalProbe ustr | LocalProbeError ustr
  | DeployedLocally | LocalFailed | ImageTagged ustr | ImageNotStarted | DeployedOk | DeployFailed

datatype message =
    Setup setup_message | Build build_message | Ending end_message
  | Prep prep_message | Start start_message | Net network_message | Health ready_message
  | Swap swap_message | Proxy proxy_message

section \<open>Actions\<close>

record exec_result =
  er_ok :: bool
  er_code :: int
  er_out :: ustr

text \<open>\<open>Result<ExecResult>\<close>; an error is the text it displays.\<close>

type_synonym reply = "ustr + exec_result"

datatype event = Exec cmd nat reply | Say message | Slept nat

text \<open>The executor takes the server, the working directory, the command and its time limit in
  seconds; times are nanoseconds.\<close>

record 's site =
  si_exec :: "ustr \<Rightarrow> ustr \<Rightarrow> ustr \<Rightarrow> nat \<Rightarrow> 's \<Rightarrow> 's \<times> reply"
  si_sleep :: "nat \<Rightarrow> 's \<Rightarrow> 's"
  si_now :: "'s \<Rightarrow> nat"
  si_exists :: "ustr \<Rightarrow> 's \<Rightarrow> bool"
  si_network :: "ustr option"
  si_ready_timeout :: "ustr option"
  si_rotation :: rotation
  si_server :: ustr
  si_workdir :: ustr

type_synonym ('s, 'a) act = "'s \<Rightarrow> ('a \<times> event list \<times> 's) option"

definition secs :: "nat \<Rightarrow> nat" where "secs n = n * 1000000000"

definition give :: "'a \<Rightarrow> ('s, 'a) act" where
  "give x s = Some (x, [], s)"

definition seq :: "('s, 'a) act \<Rightarrow> ('a \<Rightarrow> ('s, 'b) act) \<Rightarrow> ('s, 'b) act" where
  "seq m f s =
     (case m s of None \<Rightarrow> None
      | Some (x, es, s1) \<Rightarrow>
          (case f x s1 of None \<Rightarrow> None | Some (y, fs, s2) \<Rightarrow> Some (y, es @ fs, s2)))"

abbreviation seq0 :: "('s, 'a) act \<Rightarrow> ('s, 'b) act \<Rightarrow> ('s, 'b) act" where
  "seq0 m n \<equiv> seq m (\<lambda>_. n)"

definition run_cmd :: "'s site \<Rightarrow> cmd \<Rightarrow> nat \<Rightarrow> ('s, reply) act" where
  "run_cmd h c t s =
     (let (s', r) = si_exec h (si_server h) (si_workdir h) (cmd_text (si_rotation h) c) t s
      in Some (r, [Exec c t r], s'))"

definition say :: "message \<Rightarrow> ('s, unit) act" where
  "say m s = Some ((), [Say m], s)"

definition pause :: "'s site \<Rightarrow> nat \<Rightarrow> ('s, unit) act" where
  "pause h d s = Some ((), [Slept d], si_sleep h d s)"

definition clock :: "'s site \<Rightarrow> ('s, nat) act" where
  "clock h s = Some (si_now h s, [], s)"

definition look :: "('s \<Rightarrow> 'a) \<Rightarrow> ('s, 'a) act" where
  "look f s = Some (f s, [], s)"

text \<open>A loop: each round ends it with a result or goes on with a new loop state.\<close>

partial_function (option) iterate ::
  "('l \<Rightarrow> 's \<Rightarrow> (('a + 'l) \<times> event list \<times> 's) option) \<Rightarrow> 'l \<Rightarrow> 's \<Rightarrow> ('a \<times> event list \<times> 's) option" where
  "iterate round l s =
     (case round l s of None \<Rightarrow> None
      | Some (Inl x, es, s1) \<Rightarrow> Some (x, es, s1)
      | Some (Inr l1, es, s1) \<Rightarrow>
          Option.bind (iterate round l1 s1) (\<lambda>(x, fs, s2). Some (x, es @ fs, s2)))"

declare iterate.simps [code]

section \<open>Reasoning on actions\<close>

subsection \<open>Results\<close>

lemmas act_defs = give_def run_cmd_def say_def pause_def clock_def look_def

lemma give_iff [simp]: "give x s = Some (y, es, s') \<longleftrightarrow> y = x \<and> es = [] \<and> s' = s"
  by (auto simp: give_def)

lemma say_iff [simp]: "say m s = Some (y, es, s') \<longleftrightarrow> es = [Say m] \<and> s' = s"
  by (auto simp: say_def)

lemma pause_iff [simp]: "pause h d s = Some (y, es, s') \<longleftrightarrow> es = [Slept d] \<and> s' = si_sleep h d s"
  by (auto simp: pause_def)

lemma clock_iff [simp]: "clock h s = Some (y, es, s') \<longleftrightarrow> y = si_now h s \<and> es = [] \<and> s' = s"
  by (auto simp: clock_def)

lemma look_iff [simp]: "look f s = Some (y, es, s') \<longleftrightarrow> y = f s \<and> es = [] \<and> s' = s"
  by (auto simp: look_def)

lemma run_cmd_iff:
  "run_cmd h c t s = Some (r, es, s') \<longleftrightarrow>
     si_exec h (si_server h) (si_workdir h) (cmd_text (si_rotation h) c) t s = (s', r) \<and> es = [Exec c t r]"
  by (auto simp: run_cmd_def split: prod.split)

lemma seq_iff:
  "seq m f s = Some (y, gs, s2) \<longleftrightarrow>
     (\<exists>x es s1 fs. m s = Some (x, es, s1) \<and> f x s1 = Some (y, fs, s2) \<and> gs = es @ fs)"
  by (auto simp: seq_def split: option.split)

lemma seqE:
  assumes "seq m f s = Some (y, gs, s2)"
  obtains x es s1 fs where "m s = Some (x, es, s1)" and "f x s1 = Some (y, fs, s2)" and "gs = es @ fs"
  using assms unfolding seq_iff by blast

lemma seq_give [simp]: "seq (give x) f = f x"
  by (auto simp: seq_def give_def fun_eq_iff split: option.split)

subsection \<open>What holds of every event\<close>

definition all_events :: "(event \<Rightarrow> bool) \<Rightarrow> ('s, 'a) act \<Rightarrow> bool" where
  "all_events P m \<longleftrightarrow> (\<forall>s x es s'. m s = Some (x, es, s') \<longrightarrow> list_all P es)"

named_theorems all_events_intros \<open>introduction rules for all_events\<close>

lemma all_eventsD: "all_events P m \<Longrightarrow> m s = Some (x, es, s') \<Longrightarrow> list_all P es"
  by (auto simp: all_events_def)

lemma all_events_give [all_events_intros]: "all_events P (give x)"
  by (simp add: all_events_def)

lemma all_events_look [all_events_intros]: "all_events P (look f)" "all_events P (clock h)"
  by (simp_all add: all_events_def)

lemma all_events_say [all_events_intros]: "P (Say m) \<Longrightarrow> all_events P (say m)"
  by (simp add: all_events_def)

lemma all_events_pause [all_events_intros]: "P (Slept d) \<Longrightarrow> all_events P (pause h d)"
  by (simp add: all_events_def)

lemma all_events_cmd [all_events_intros]: "(\<And>r. P (Exec c t r)) \<Longrightarrow> all_events P (run_cmd h c t)"
  by (auto simp: all_events_def run_cmd_iff)

lemma all_events_seq [all_events_intros]:
  "all_events P m \<Longrightarrow> (\<And>x. all_events P (f x)) \<Longrightarrow> all_events P (seq m f)"
  unfolding all_events_def seq_iff by fastforce

lemma all_events_if [all_events_intros]:
  "(b \<Longrightarrow> all_events P m) \<Longrightarrow> (\<not> b \<Longrightarrow> all_events P n) \<Longrightarrow> all_events P (if b then m else n)"
  by simp

lemma all_events_option [all_events_intros]:
  "(v = None \<Longrightarrow> all_events P m) \<Longrightarrow> (\<And>x. v = Some x \<Longrightarrow> all_events P (f x)) \<Longrightarrow>
   all_events P (case v of None \<Rightarrow> m | Some x \<Rightarrow> f x)"
  by (cases v) simp_all

lemma all_events_sum [all_events_intros]:
  "(\<And>x. v = Inl x \<Longrightarrow> all_events P (f x)) \<Longrightarrow> (\<And>x. v = Inr x \<Longrightarrow> all_events P (g x)) \<Longrightarrow>
   all_events P (case v of Inl x \<Rightarrow> f x | Inr x \<Rightarrow> g x)"
  by (cases v) simp_all

end
