(* ===== verification/BlueGreen.thy ===== *)
theory BlueGreen
  imports DeployAct
begin

text \<open>
  The blue/green replacement of a container, \<open>crates/deploy/src/lib.rs\<close>:
  \<open>docker_restart_container\<close> with the functions it calls. The new container is started next
  to the old one, has to answer, receives the labels of the proxy, has to answer again, and
  only then takes the name of the old one. The function is cut where its comments are:
  preparation, start, wait, cutover.
\<close>

section \<open>Names and texts\<close>

definition container_name :: "ustr \<Rightarrow> ustr" where
  "container_name uuid = lit ''df-'' @ take 12 uuid"

definition image_name :: "ustr \<Rightarrow> ustr" where
  "image_name uuid = lit ''df-'' @ take 12 uuid @ lit '':latest''"

text \<open>\<open>trim_start_matches("df-")\<close>: every leading occurrence.\<close>

fun strip_df :: "ustr \<Rightarrow> ustr" where
  "strip_df (a # b # c # s) = (if [a, b, c] = [100, 102, 45] then strip_df s else a # b # c # s)"
| "strip_df s = s"

definition sidecar_network :: "ustr \<Rightarrow> ustr" where
  "sidecar_network app = lit ''dfside-'' @ strip_df app"

definition new_name :: "ustr \<Rightarrow> ustr" where
  "new_name name = name @ lit ''-new''"

definition sidecar_container :: "ustr \<Rightarrow> sidecar \<Rightarrow> ustr" where
  "sidecar_container app side = app @ lit ''-'' @ sc_name side"

text \<open>Long outputs keep their first 2000 and last 6000 characters.\<close>

definition trim_out :: "ustr \<Rightarrow> ustr" where
  "trim_out s =
     (if length s \<le> 8000 then s
      else take 2000 s @ [10, 8230] @ lit ''[truncated '' @ dec (length s - 2000 - 6000) @
           lit '' chars]'' @ [8230, 10] @ rev (take 6000 (rev s)))"

section \<open>Reading the state of a container\<close>

definition container_exists :: "'s site \<Rightarrow> ustr \<Rightarrow> ('s, bool) act" where
  "container_exists h name =
     seq (run_cmd h (ListContainer name) 10) (\<lambda>r.
     give (case r of Inl _ \<Rightarrow> False | Inr x \<Rightarrow> er_ok x \<and> trim (er_out x) \<noteq> []))"

definition container_is_healthy :: "'s site \<Rightarrow> ustr \<Rightarrow> ('s, bool) act" where
  "container_is_healthy h name =
     seq (run_cmd h (InspectState name) 10) (\<lambda>r.
     case r of Inl _ \<Rightarrow> give False
     | Inr x \<Rightarrow>
         if er_ok x
         then seq0 (say (Health (HealthState name (trim (er_out x)))))
                (give (trim (er_out x) = lit ''running''))
         else give False)"

section \<open>Waiting for an answer\<close>

text \<open>What the loop keeps: when the first 404 came, how many probes could not be made, and the
  last line shown.\<close>

type_synonym wait_state = "nat option \<times> nat \<times> ustr"

definition probe_output :: "reply \<Rightarrow> ustr" where
  "probe_output r = (case r of Inl e \<Rightarrow> lit ''error '' @ e | Inr x \<Rightarrow> er_out x)"

definition probe_summary :: "ustr \<Rightarrow> ustr" where
  "probe_summary out = unwrap_or (probe_line out) (trim out)"

definition show_tail :: "'s site \<Rightarrow> nat \<Rightarrow> ustr \<Rightarrow> ('s, unit) act" where
  "show_tail h n ctr =
     seq (run_cmd h (TailLogs n ctr) 15) (\<lambda>r.
     case r of Inl _ \<Rightarrow> give () | Inr x \<Rightarrow> say (Health (ReadyLogs (trim_out (er_out x)))))"

text \<open>The end of a round that has not decided.\<close>

definition next_round ::
  "'s site \<Rightarrow> ustr \<Rightarrow> nat \<Rightarrow> nat \<Rightarrow> wait_state \<Rightarrow> ('s, bool + wait_state) act" where
  "next_round h ctr timeout deadline l =
     seq (clock h) (\<lambda>t.
     if t \<ge> deadline
     then seq0 (say (Health (NotReady ctr timeout (snd (snd l)))))
            (seq0 (show_tail h 40 ctr) (give (Inl False)))
     else seq0 (pause h (secs 1)) (give (Inr l)))"

text \<open>What a round does with the verdict of its probe.\<close>

definition on_verdict ::
  "'s site \<Rightarrow> ustr \<Rightarrow> nat \<Rightarrow> nat \<Rightarrow> nat \<Rightarrow> nat option \<Rightarrow> nat \<Rightarrow> ustr \<Rightarrow> ready_probe \<Rightarrow> ('s, bool + wait_state) act" where
  "on_verdict h ctr timeout started deadline first_404 noprobe summary v =
     (case v of
        Ready \<Rightarrow>
          seq (clock h) (\<lambda>t. seq0 (say (Health (ReadyHttp ctr ((t - started) div secs 1)))) (give (Inl True)))
      | Dead \<Rightarrow>
          seq0 (say (Health (DiedStarting ctr))) (seq0 (show_tail h 20 ctr) (give (Inl False)))
      | NoProbe \<Rightarrow>
          if noprobe + 1 \<ge> 3
          then seq0 (say (Health ProbeUnavailable)) (seq (container_is_healthy h ctr) (\<lambda>b. give (Inl b)))
          else next_round h ctr timeout deadline (first_404, noprobe + 1, summary)
      | NotFound \<Rightarrow>
          seq (case first_404 of Some t \<Rightarrow> give t | None \<Rightarrow> clock h) (\<lambda>since.
          seq (clock h) (\<lambda>t.
          if t - since \<ge> secs 30
          then seq0 (say (Health (Tolerated404 ctr))) (give (Inl True))
          else next_round h ctr timeout deadline (Some since, noprobe, summary)))
      | Wait \<Rightarrow> next_round h ctr timeout deadline (None, noprobe, summary))"

definition show_summary :: "'s site \<Rightarrow> ustr \<Rightarrow> nat \<Rightarrow> ustr \<Rightarrow> ustr \<Rightarrow> ('s, unit) act" where
  "show_summary h ctr started shown summary =
     (if summary \<noteq> shown
      then seq (clock h) (\<lambda>t. say (Health (ReadyLine ctr ((t - started) div secs 1) summary)))
      else give ())"

definition ready_round ::
  "'s site \<Rightarrow> ustr \<Rightarrow> ustr \<Rightarrow> nat \<Rightarrow> nat \<Rightarrow> nat \<Rightarrow> wait_state \<Rightarrow> ('s, bool + wait_state) act" where
  "ready_round h ctr probe timeout started deadline l =
     (case l of (first_404, noprobe, shown) \<Rightarrow>
      seq (run_cmd h (Probe ctr probe) 20) (\<lambda>r.
      let summary = probe_summary (probe_output r)
      in seq0 (show_summary h ctr started shown summary)
           (on_verdict h ctr timeout started deadline first_404 noprobe summary
              (classify_ready_probe (probe_output r)))))"

definition ready_timeout :: "ustr option \<Rightarrow> nat" where
  "ready_timeout env =
     unwrap_or (opt_filter (\<lambda>v. 5 \<le> v \<and> v \<le> 900) (Option.bind env (parse_uint 64))) 90"

definition wait_container_ready ::
  "'s site \<Rightarrow> ustr \<Rightarrow> ustr option \<Rightarrow> port \<Rightarrow> ('s, bool) act" where
  "wait_container_ready h ctr network p =
     (case Option.bind network (\<lambda>n. docker_http_probe ctr n p (lit ''/'')) of
        None \<Rightarrow> seq0 (say (Health NoSharedNetwork)) (container_is_healthy h ctr)
      | Some probe \<Rightarrow>
          seq (clock h) (\<lambda>started.
          let timeout = ready_timeout (si_ready_timeout h);
              deadline = started + secs timeout
          in iterate (ready_round h ctr probe timeout started deadline) (None, 0, [])))"

section \<open>Preparation\<close>

definition look_at_old :: "'s site \<Rightarrow> ustr \<Rightarrow> ('s, bool \<times> bool) act" where
  "look_at_old h name =
     seq (container_exists h name) (\<lambda>old_exists.
     seq (if old_exists then container_is_healthy h name else give False) (\<lambda>old_healthy.
     seq0 (if old_healthy then say (Prep (OldProtected name))
           else if old_exists then say (Prep (OldUnhealthy name)) else give ())
       (give (old_exists, old_healthy))))"

definition free_host_port :: "'s site \<Rightarrow> ustr \<Rightarrow> port \<Rightarrow> ('s, unit) act" where
  "free_host_port h name host_port =
     (if is_proxy_reserved_host_port host_port then say (Prep (PortReserved host_port))
      else seq (run_cmd h (FreePort name host_port) 60) (\<lambda>r.
           case r of
             Inr x \<Rightarrow> if trim (er_out x) \<noteq> [] then say (Prep (PrepareOut (trim_out (er_out x)))) else give ()
           | Inl e \<Rightarrow> say (Prep (PrepareWarn e))))"

definition find_env_file :: "'s site \<Rightarrow> ('s, ustr option) act" where
  "find_env_file h =
     seq (look (si_exists h (si_workdir h @ lit ''/.env''))) (\<lambda>here.
     if here then give (Some (lit ''.env''))
     else seq (run_cmd h TestEnvFile 10) (\<lambda>r.
          give (case r of Inl _ \<Rightarrow> None | Inr x \<Rightarrow> if er_ok x then Some (lit ''.env'') else None)))"

fun try_networks :: "'s site \<Rightarrow> ustr list \<Rightarrow> ('s, ustr option) act" where
  "try_networks h [] = give None"
| "try_networks h (n # ns) =
     seq (run_cmd h (CheckNetwork n) 5) (\<lambda>r.
     case r of
       Inl _ \<Rightarrow> try_networks h ns
     | Inr x \<Rightarrow>
         if er_ok x \<and> trim (er_out x) \<noteq> []
         then seq0 (say (Prep (FallbackNetwork n))) (give (Some n))
         else try_networks h ns)"

definition fallback_networks :: "ustr list" where
  "fallback_networks = [lit ''devforge-net'', lit ''traefik-public'', lit ''traefik'']"

definition choose_network :: "'s site \<Rightarrow> bool \<Rightarrow> ('s, ustr option) act" where
  "choose_network h has_labels =
     (let network = opt_filter (\<lambda>s. trim s \<noteq> []) (si_network h)
      in if has_labels \<and> network = None
         then seq0 (say (Prep NetworkUnset))
              (seq (run_cmd h DetectNetwork 20) (\<lambda>r.
               let fallback = seq0 (say (Prep DetectFailed)) (try_networks h fallback_networks)
               in case r of
                    Inl _ \<Rightarrow> fallback
                  | Inr x \<Rightarrow>
                      if er_ok x \<and> trim (er_out x) \<noteq> []
                      then if trim (er_out x) = lit ''host-network-detected''
                           then seq0 (say (Prep HostNetwork)) (give None)
                           else seq0 (say (Prep (NetworkFound (trim (er_out x))))) (give (Some (trim (er_out x))))
                      else fallback))
         else give network)"

definition swap_ports :: "bool \<Rightarrow> ustr option \<Rightarrow> port \<Rightarrow> port \<Rightarrow> (port \<times> port) list" where
  "swap_ports has_labels network host_port container_port =
     (if has_labels \<and> network \<noteq> None then []
      else if is_proxy_reserved_host_port host_port then [(0, container_port)]
      else [(host_port, container_port)])"

section \<open>Start\<close>

fun start_sidecars :: "'s site \<Rightarrow> ustr \<Rightarrow> ustr \<Rightarrow> sidecar list \<Rightarrow> ('s, bool) act" where
  "start_sidecars h app network [] = give True"
| "start_sidecars h app network (side # sides) =
     (let cname = sidecar_container app side
      in seq0 (say (Net (SidecarStarting cname (sc_image side))))
         (seq (run_cmd h (StartSidecar network cname side) 180) (\<lambda>r.
          case r of
            Inl e \<Rightarrow> seq0 (say (Net (SidecarError cname e))) (give False)
          | Inr x \<Rightarrow>
              if er_ok x
              then seq0 (say (Net (SidecarUp cname))) (start_sidecars h app network sides)
              else seq0 (say (Net (SidecarExit cname (er_code x) (trim_out (er_out x))))) (give False))))"

definition say_when :: "bool \<Rightarrow> message \<Rightarrow> ('s, unit) act" where
  "say_when b m = (if b then say m else give ())"

definition announce_start :: "ustr \<Rightarrow> bool \<Rightarrow> ustr option \<Rightarrow> extras \<Rightarrow> ('s, unit) act" where
  "announce_start new has_labels network x =
     (let r = ex_runtime x
      in seq0 (say_when has_labels (Start LabelsLater))
         (seq0 (say_when (has_labels \<and> network \<noteq> None) (Start NoHostPort))
         (seq0 (say (Start (Starting new)))
         (seq0 (say_when (ex_volumes x \<noteq> []) (Start (VolumesUsed (ex_volumes x))))
         (seq0 (say_when (rt_memory r \<noteq> None \<or> rt_cpus r \<noteq> None) (Start (Limits (rt_memory r) (rt_cpus r))))
               (say_when (rt_ports r \<noteq> []) (Start (PublishedPorts (map publish_flag (rt_ports r))))))))))"

definition attach_to ::
  "'s site \<Rightarrow> ustr \<Rightarrow> ustr \<Rightarrow> ustr option \<Rightarrow> message \<Rightarrow> (ustr \<Rightarrow> message) \<Rightarrow> ('s, unit) act" where
  "attach_to h net ctr alias done warn =
     seq (run_cmd h (Attach net ctr alias) 30) (\<lambda>r.
     case r of Inl e \<Rightarrow> say (warn e)
     | Inr x \<Rightarrow> if er_ok x then say done else say (warn (trim_out (er_out x))))"

definition link_networks :: "'s site \<Rightarrow> ustr \<Rightarrow> ustr \<Rightarrow> extras \<Rightarrow> ('s, unit) act" where
  "link_networks h side_net new x =
     seq0 (if rt_sidecars (ex_runtime x) \<noteq> []
           then seq0 (say (Net (SidecarNetwork side_net)))
                  (attach_to h side_net new None (Net AppLinked) (Net \<circ> SidecarWarn))
           else give ())
     (case nonempty (ex_group_network x) of
        None \<Rightarrow> give ()
      | Some net \<Rightarrow> seq0 (say (Net (GroupNetwork net)))
                     (attach_to h net new None (Net GroupLinked) (Net \<circ> GroupWarn)))"

definition start_new ::
  "'s site \<Rightarrow> ustr \<Rightarrow> ustr \<Rightarrow> port \<Rightarrow> port \<Rightarrow> bool \<Rightarrow> extras \<Rightarrow> bool \<Rightarrow> ustr option \<Rightarrow> ustr option \<Rightarrow> ('s, bool) act" where
  "start_new h name img host_port container_port has_labels x old_healthy env_file network =
     (let new = new_name name; side_net = sidecar_network name
      in seq0 (run_cmd h (RemoveQuiet new) 10)
         (seq0 (announce_start new has_labels network x)
         (seq (start_sidecars h name side_net (rt_sidecars (ex_runtime x))) (\<lambda>sides.
          if \<not> sides then seq0 (say (Start SidecarFailed)) (give False)
          else seq (run_cmd h (RunApp new img (swap_ports has_labels network host_port container_port)
                                 env_file network x container_port) 120) (\<lambda>r.
               seq (case r of
                      Inl e \<Rightarrow> seq0 (say (Start (StartError e))) (give False)
                    | Inr y \<Rightarrow> seq0 (say (Start (StartExit (er_code y) (trim_out (er_out y))))) (give (er_ok y)))
               (\<lambda>started.
                if \<not> started
                then seq0 (say (Start NewNotStarted))
                     (seq0 (say_when old_healthy (Start (OldKept name))) (give False))
                else seq0 (link_networks h side_net new x) (give True)))))))"

section \<open>Waiting for the new container\<close>

definition apply_labels :: "'s site \<Rightarrow> ustr \<Rightarrow> json \<Rightarrow> ('s, unit) act" where
  "apply_labels h new labels =
     seq0 (say (Swap ApplyingLabels))
     (seq (run_cmd h (SetLabels new labels) 60) (\<lambda>r.
      case r of
        Inl e \<Rightarrow> say (Swap (LabelsError e))
      | Inr x \<Rightarrow> if er_ok x then say (Swap LabelsApplied) else say (Swap (LabelsRefused (trim_out (er_out x))))))"

definition discard_new :: "'s site \<Rightarrow> ustr \<Rightarrow> bool \<Rightarrow> message \<Rightarrow> ('s, bool) act" where
  "discard_new h new told m =
     seq0 (run_cmd h (RemoveForce new) 30) (seq0 (say_when told m) (give False))"

text \<open>Posing the labels recreates the container, so it has to answer again.\<close>

definition relabel ::
  "'s site \<Rightarrow> ustr \<Rightarrow> port \<Rightarrow> json \<Rightarrow> extras \<Rightarrow> bool \<Rightarrow> ustr option \<Rightarrow> ('s, bool) act" where
  "relabel h name container_port labels x old_exists network =
     (let new = new_name name
      in seq0 (apply_labels h new labels)
         (seq0 (if rt_sidecars (ex_runtime x) \<noteq> []
                then seq0 (run_cmd h (Attach (sidecar_network name) new None) 30) (give ())
                else give ())
         (seq (wait_container_ready h new network container_port) (\<lambda>ready.
          if \<not> ready
          then seq0 (say (Swap NotReadyAfterLabels))
                 (discard_new h new old_exists (Swap (OldKeptAfterLabels name)))
          else seq0 (if old_exists then pause h (secs 3) else give ()) (give True)))))"

definition await_new ::
  "'s site \<Rightarrow> ustr \<Rightarrow> port \<Rightarrow> json option \<Rightarrow> extras \<Rightarrow> bool \<Rightarrow> bool \<Rightarrow> ustr option \<Rightarrow> ('s, bool) act" where
  "await_new h name container_port labels x old_exists old_healthy network =
     (let new = new_name name
      in seq0 (say (Swap WaitingHttp))
         (seq0 (pause h (secs 1))
         (seq (wait_container_ready h new network container_port) (\<lambda>healthy.
          if \<not> healthy
          then seq0 (say (Swap NewUnhealthy))
                 (discard_new h new old_healthy (Swap (OldKeptUnready name)))
          else seq0 (say (Swap NewHealthy))
               (case labels of None \<Rightarrow> give True
                | Some l \<Rightarrow> relabel h name container_port l x old_exists network)))))"

section \<open>Cutover\<close>

definition check_traefik :: "'s site \<Rightarrow> ('s, unit) act" where
  "check_traefik h =
     seq0 (say (Proxy CheckingTraefik))
     (seq (run_cmd h CheckTraefik 10) (\<lambda>r.
      say (Proxy (case r of
        Inl e \<Rightarrow> TraefikError e
      | Inr x \<Rightarrow>
          if er_ok x \<and> starts_with (trim (er_out x)) (lit ''Up'') then TraefikUp
          else if er_ok x \<and> trim (er_out x) = lit ''missing'' then TraefikMissing
          else TraefikState (trim (er_out x))))))"

text \<open>Any answer of the executor counts as a successful renaming.\<close>

definition take_name :: "'s site \<Rightarrow> ustr \<Rightarrow> bool \<Rightarrow> extras \<Rightarrow> ('s, bool) act" where
  "take_name h name has_labels x =
     (let new = new_name name
      in seq0 (say (Swap (Renaming new name)))
         (seq (run_cmd h (Rename new name) 10) (\<lambda>r.
          seq (case r of
                 Inr _ \<Rightarrow> seq0 (say (Swap SwapDone)) (give True)
               | Inl e \<Rightarrow> seq0 (say (Swap (RenameError e))) (seq0 (say (Swap (NewKeepsTempName new))) (give False)))
          (\<lambda>renamed.
           seq0 (case nonempty (ex_group_network x) of
                   None \<Rightarrow> give ()
                 | Some net \<Rightarrow>
                     let live = (if renamed then name else new)
                     in attach_to h net live (ex_group_alias x)
                          (Net (GroupAlias (unwrap_or (ex_group_alias x) [8212]) live)) (Net \<circ> GroupAliasWarn))
           (seq0 (if has_labels then check_traefik h else give ())
           (give True))))))"

text \<open>The result of stopping the old container is not looked at.\<close>

definition stop_old :: "'s site \<Rightarrow> ustr \<Rightarrow> bool \<Rightarrow> ('s, unit) act" where
  "stop_old h name old_exists =
     (if old_exists
      then seq0 (say (Swap (StoppingOld name))) (seq0 (run_cmd h (StopRemove name) 30) (give ()))
      else give ())"

definition cutover :: "'s site \<Rightarrow> ustr \<Rightarrow> bool \<Rightarrow> extras \<Rightarrow> bool \<Rightarrow> ('s, bool) act" where
  "cutover h name has_labels x old_exists = seq0 (stop_old h name old_exists) (take_name h name has_labels x)"

section \<open>The whole replacement\<close>

definition docker_restart_container ::
  "'s site \<Rightarrow> ustr \<Rightarrow> ustr \<Rightarrow> port \<Rightarrow> port \<Rightarrow> json option \<Rightarrow> extras \<Rightarrow> ('s, bool) act" where
  "docker_restart_container h name img host_port container_port labels x =
     (let has_labels = (labels \<noteq> None)
      in seq (look_at_old h name) (\<lambda>(old_exists, old_healthy).
         seq0 (free_host_port h name host_port)
         (seq (find_env_file h) (\<lambda>env_file.
          seq (choose_network h has_labels) (\<lambda>network.
          seq (start_new h name img host_port container_port has_labels x old_healthy env_file network) (\<lambda>started.
          if \<not> started then give False
          else seq (await_new h name container_port labels x old_exists old_healthy network) (\<lambda>ready.
               if \<not> ready then give False
               else cutover h name has_labels x old_exists)))))))"

text \<open>What a superseded deployment leaves behind is removed; its log goes to the tracing of the
  server and is not modelled.\<close>

definition abort_in_flight_swap :: "'s site \<Rightarrow> ustr \<Rightarrow> ustr \<Rightarrow> ('s, unit) act" where
  "abort_in_flight_swap h uuid server_id =
     seq0 (run_cmd (h\<lparr> si_server := (if trim server_id = [] then lit ''default'' else trim server_id),
                       si_workdir := [] \<rparr>)
             (RemoveQuiet (new_name (container_name uuid))) 30) (give ())"

end
