(* ===== verification/DeploySetup.thy ===== *)
theory DeploySetup
  imports BlueGreen
begin

text \<open>
  What a deployment does before it builds an image, \<open>deploy_with_log_hook\<close> of
  \<open>crates/deploy/src/lib.rs\<close>: the request and the host it runs on, long commands, the working
  directory, the synchronisation with Git, the search of conflict markers, the \<open>.env\<close> file, the
  probe of docker, and the runtime without docker. The log buffer is the list of the messages said.
\<close>

section \<open>Requests and hosts\<close>

record deploy_request =
  rq_uuid :: ustr
  rq_server :: ustr
  rq_workdir :: ustr
  rq_repository :: ustr
  rq_branch :: ustr
  rq_pack :: ustr
  rq_port :: port
  rq_base :: ustr
  rq_compose :: "ustr option"
  rq_dockerfile :: "ustr option"
  rq_context :: "ustr option"
  rq_publish :: "ustr option"
  rq_static :: bool
  rq_token :: "ustr option"
  rq_ephemeral :: bool
  rq_auth_note :: "ustr option"
  rq_pin_sha :: "ustr option"
  rq_env_file :: "ustr option"
  rq_labels :: "json option"
  rq_extras :: extras

text \<open>What a deployment uses besides the executor: the files of the machine the server runs on
  (an error is the text it displays), its processes and ports, the ticks of the heartbeat while
  a command runs (seconds since its start), environment variables and library functions.\<close>

record 's host =
  ho_site :: "'s site"
  ho_make_dir :: "ustr \<Rightarrow> 's \<Rightarrow> 's \<times> ustr option"
  ho_read :: "ustr \<Rightarrow> 's \<Rightarrow> ustr option"
  ho_write :: "ustr \<Rightarrow> ustr \<Rightarrow> 's \<Rightarrow> 's \<times> ustr option"
  ho_remove :: "ustr \<Rightarrow> 's \<Rightarrow> 's \<times> ustr option"
  ho_is_file :: "ustr \<Rightarrow> 's \<Rightarrow> bool"
  ho_process :: "ustr list \<Rightarrow> 's \<Rightarrow> 's \<times> unit"
  ho_spawn :: "ustr list \<Rightarrow> ustr \<Rightarrow> (ustr \<times> ustr) list \<Rightarrow> 's \<Rightarrow> 's \<times> (ustr + nat)"
  ho_connect :: "port \<Rightarrow> 's \<Rightarrow> 's \<times> (ustr + unit) option"
  ho_ticks :: "cmd \<Rightarrow> 's \<Rightarrow> nat list"
  ho_unix_now :: "'s \<Rightarrow> nat"
  ho_base64 :: "ustr \<Rightarrow> ustr"
  ho_json :: "ustr \<Rightarrow> json option"
  ho_data_dir :: "ustr option"
  ho_cwd :: "ustr option"
  ho_build_timeout :: "ustr option"
  ho_nixpacks :: "ustr option"
  ho_self :: "ustr option"

text \<open>The executor in a working directory, and an operation of the machine itself.\<close>

definition at :: "'s host \<Rightarrow> ustr \<Rightarrow> 's site" where
  "at H dir = (ho_site H)\<lparr> si_workdir := dir \<rparr>"

definition local :: "('s \<Rightarrow> 's \<times> 'a) \<Rightarrow> ('s, 'a) act" where
  "local f s = (let (s', x) = f s in Some (x, [], s'))"

section \<open>Long commands\<close>

definition DEFAULT_DOCKER_BUILD_TIMEOUT_SECS :: nat where "DEFAULT_DOCKER_BUILD_TIMEOUT_SECS = 3600"

definition parse_docker_build_timeout :: "ustr option \<Rightarrow> nat" where
  "parse_docker_build_timeout raw =
     unwrap_or (opt_filter (\<lambda>v. 300 \<le> v \<and> v \<le> 14400) (Option.bind raw (\<lambda>v. parse_uint 64 (trim v))))
       DEFAULT_DOCKER_BUILD_TIMEOUT_SECS"

definition docker_build_timeout_secs :: "'s host \<Rightarrow> nat" where
  "docker_build_timeout_secs H = parse_docker_build_timeout (ho_build_timeout H)"

fun beats :: "ustr \<Rightarrow> nat list \<Rightarrow> ('s, unit) act" where
  "beats label [] = give ()"
| "beats label (t # ts) = seq0 (say (Build (Beat label t))) (beats label ts)"

definition exec_with_heartbeat :: "'s host \<Rightarrow> ustr \<Rightarrow> cmd \<Rightarrow> nat \<Rightarrow> ustr \<Rightarrow> ('s, reply) act" where
  "exec_with_heartbeat H dir c timeout label =
     seq (look (ho_ticks H c)) (\<lambda>ticks. seq0 (beats label ticks) (run_cmd (at H dir) c timeout))"

section \<open>Working directory and source\<close>

definition make_workdir :: "'s host \<Rightarrow> ustr \<Rightarrow> ('s, bool) act" where
  "make_workdir H dir =
     seq (local (ho_make_dir H dir)) (\<lambda>made.
     case made of
       None \<Rightarrow> seq0 (say (Setup DirMade)) (give True)
     | Some fs_e \<Rightarrow>
         seq (run_cmd (at H []) (Step (MakeDir dir)) 60) (\<lambda>r.
         case r of
           Inr x \<Rightarrow> seq0 (say (Setup (DirOut (trim_out (er_out x))))) (give True)
         | Inl e \<Rightarrow> seq0 (say (Setup (DirError e fs_e))) (give False)))"

definition request_token :: "deploy_request \<Rightarrow> ustr option" where
  "request_token req = opt_filter (\<lambda>t. t \<noteq> []) (map_option trim (rq_token req))"

definition request_branch :: "deploy_request \<Rightarrow> ustr" where
  "request_branch req = (if trim (rq_branch req) = [] then lit ''main'' else trim (rq_branch req))"

text \<open>The script, and where a pinned commit is fetched from.\<close>

definition sync_command :: "'s host \<Rightarrow> deploy_request \<Rightarrow> ustr \<Rightarrow> ustr \<times> fetch_from" where
  "sync_command H req dir =
     (let clean = git_clone_url (rq_repository req) None
      in case request_token req of
           Some tok \<Rightarrow>
             (git_sync_command_header_auth (ho_base64 H) dir clean (request_branch req) tok, FromUrl clean)
         | None \<Rightarrow> (git_sync_command dir clean (request_branch req) FromOrigin None, FromOrigin))"

definition pin_commit :: "deploy_request \<Rightarrow> ustr \<Rightarrow> ustr \<times> fetch_from \<Rightarrow> ('s, ustr) act" where
  "pin_commit req dir p =
     (case p of (script, from) \<Rightarrow>
      case rq_pin_sha req of
        None \<Rightarrow> give script
      | Some sha \<Rightarrow>
          (case pin_sha_suffix dir sha from of
             Some suffix \<Rightarrow> seq0 (say (Setup (PinAsked sha))) (give (script @ suffix))
           | None \<Rightarrow> seq0 (say (Setup PinInvalid)) (give script)))"

definition sync_git :: "'s host \<Rightarrow> deploy_request \<Rightarrow> ustr \<Rightarrow> ('s, bool) act" where
  "sync_git H req dir =
     (let token = request_token req
      in seq0 (say (Setup (GitAuth (git_auth_log_line (ho_base64 H) token (rq_ephemeral req) (rq_auth_note req)))))
         (seq (pin_commit req dir (sync_command H req dir)) (\<lambda>script.
          seq0 (say (Setup SyncStarted))
          (seq (exec_with_heartbeat H [] (Step (SyncGit script)) 600 (lit ''git'')) (\<lambda>r.
           case r of
             Inr x \<Rightarrow>
               seq0 (say (Setup (GitExit (er_code x) (redact_git_output (ho_base64 H) (trim_out (er_out x)) token))))
                 (give (er_ok x))
           | Inl e \<Rightarrow>
               seq0 (say (Setup (GitError (redact_git_output (ho_base64 H) e token)))) (give False))))))"

definition read_head :: "'s host \<Rightarrow> ustr \<Rightarrow> ('s, ustr option) act" where
  "read_head H dir =
     seq (run_cmd (at H dir) (Step HeadSha) 30) (\<lambda>r.
     case r of
       Inr x \<Rightarrow> if er_ok x then seq0 (say (Setup (Head (trim (er_out x))))) (give (Some (trim (er_out x)))) else give None
     | Inl e \<Rightarrow> give None)"

text \<open>The result says whether the deployment goes on.\<close>

definition look_for_conflicts :: "'s host \<Rightarrow> ustr \<Rightarrow> ('s, bool) act" where
  "look_for_conflicts H dir =
     seq (run_cmd (at H dir) (Step GrepConflicts) 60) (\<lambda>r.
     case r of
       Inr x \<Rightarrow>
         (case conflict_marker_message (er_code x) (er_out x) of
            Some msg \<Rightarrow> seq0 (say (Setup (Conflicts msg))) (give False)
          | None \<Rightarrow> give True)
     | Inl e \<Rightarrow> give True)"

definition clone_env :: "'s host \<Rightarrow> deploy_request \<Rightarrow> ustr \<Rightarrow> ('s, unit) act" where
  "clone_env H req dir =
     (let path = path_join dir (lit ''.env'')
      in case opt_filter (\<lambda>s. s \<noteq> []) (map_option trim (rq_env_file req)) of
           Some body \<Rightarrow>
             seq (local (ho_write H path body)) (\<lambda>failed.
             if failed = None then say (Setup EnvCloned)
             else seq (run_cmd (at H dir) (Step (WriteEnv body)) 30) (\<lambda>r.
                  case r of Inr x \<Rightarrow> say (Setup (EnvRemote (er_code x))) | Inl e \<Rightarrow> say (Setup (EnvError e))))
         | None \<Rightarrow>
             seq0 (local (ho_remove H path))
             (seq0 (run_cmd (at H dir) (Step ClearEnv) 15) (say (Setup EnvCleared))))"

definition request_build_dir :: "deploy_request \<Rightarrow> ustr \<Rightarrow> ustr" where
  "request_build_dir req dir =
     (let base = trim (rq_base req)
      in if base = [] \<or> base = lit ''/'' then dir else dir @ [47] @ trim_start_char 47 base)"

definition probe_docker :: "'s host \<Rightarrow> ('s, bool) act" where
  "probe_docker H =
     seq (run_cmd (at H []) (Step ProbeEngine) 30) (\<lambda>r.
     case r of
       Inr x \<Rightarrow>
         if er_ok x then seq0 (say (Setup (EngineOk (trim_out (trim (er_out x)))))) (give True)
         else seq0 (say (Setup (EngineExit (er_code x) (trim_out (er_out x))))) (give False)
     | Inl e \<Rightarrow> seq0 (say (Setup (EngineError e))) (give False))"

section \<open>Without docker\<close>

definition pid_path :: "ustr \<Rightarrow> ustr" where
  "pid_path dir = path_join dir (lit ''.devforge.pid'')"

definition stop_local_runtime :: "'s host \<Rightarrow> ustr \<Rightarrow> port \<Rightarrow> ('s, ustr + unit) act" where
  "stop_local_runtime H dir p =
     seq (look (ho_read H (pid_path dir))) (\<lambda>file.
     seq0 (case file of
             None \<Rightarrow> give ()
           | Some txt \<Rightarrow>
               seq0 (case parse_uint 32 (trim txt) of
                       Some pid \<Rightarrow> local (ho_process H [lit ''kill'', lit ''-9'', dec pid])
                     | None \<Rightarrow> give ())
                 (seq0 (local (ho_remove H (pid_path dir))) (give ())))
     (seq0 (local (ho_process H [lit ''fuser'', dec (unat p) @ lit ''/tcp'', lit ''-k'']))
     (seq0 (pause (ho_site H) 400000000) (give (Inr ())))))"

definition local_command :: "'s host \<Rightarrow> ustr \<Rightarrow> 's \<Rightarrow> ustr list" where
  "local_command H dir s =
     (let nitro_mjs = path_join dir (lit ''.output/server/index.mjs'');
          nitro_js = path_join dir (lit ''.output/server/index.js'');
          entry = path_join dir (lit ''dist/server/entry.mjs'')
      in if ho_is_file H nitro_mjs s then [lit ''node'', nitro_mjs]
         else if ho_is_file H nitro_js s then [lit ''node'', nitro_js]
         else if ho_is_file H entry s then [lit ''node'', entry]
         else [lit ''sh'', lit ''-c'', npm_start_if_present_shell])"

definition spawn_local_runtime :: "'s host \<Rightarrow> ustr \<Rightarrow> port \<Rightarrow> ('s, ustr + nat) act" where
  "spawn_local_runtime H dir p =
     seq (local (ho_write H (path_join dir (lit ''.devforge.out'')) [])) (\<lambda>out.
     case out of Some e \<Rightarrow> give (Inl e) | None \<Rightarrow>
     seq (local (ho_write H (path_join dir (lit ''.devforge.err'')) [])) (\<lambda>err.
     case err of Some e \<Rightarrow> give (Inl e) | None \<Rightarrow>
     seq (look (local_command H dir)) (\<lambda>argv.
     seq (local (ho_spawn H argv dir
            [(lit ''HOST'', lit ''0.0.0.0''), (lit ''PORT'', dec (unat p)), (lit ''NODE_ENV'', lit ''production'')])) (\<lambda>child.
     case child of
       Inl e \<Rightarrow> give (Inl (lit ''spawn failed: '' @ e))
     | Inr pid \<Rightarrow>
         seq (local (ho_write H (pid_path dir) (dec pid))) (\<lambda>wrote.
         give (case wrote of Some e \<Rightarrow> Inl e | None \<Rightarrow> Inr pid))))))"

definition probe_local_http :: "'s host \<Rightarrow> port \<Rightarrow> ('s, ustr + ustr) act" where
  "probe_local_http H p =
     seq (local (ho_connect H p)) (\<lambda>r.
     give (case r of Some (Inr _) \<Rightarrow> Inr (lit ''200'') | Some (Inl e) \<Rightarrow> Inl e | None \<Rightarrow> Inl (lit ''timeout'')))"

fun probe_local :: "'s host \<Rightarrow> port \<Rightarrow> nat \<Rightarrow> ustr \<Rightarrow> ('s, bool) act" where
  "probe_local H p 0 refused = seq0 (say (Ending (LocalProbeError refused))) (give False)"
| "probe_local H p (Suc n) refused =
     seq (probe_local_http H p) (\<lambda>r.
     case r of
       Inr code \<Rightarrow>
         seq0 (say (Ending (LocalProbe code)))
           (give (code \<in> set [lit ''200'', lit ''301'', lit ''302'', lit ''307'', lit ''308'', lit ''alive'']))
     | Inl e \<Rightarrow> seq0 (if 0 < n then pause (ho_site H) (secs 1) else give ()) (probe_local H p n e))"

text \<open>One \<open>npm\<close> step: goes on when it succeeded.\<close>

definition npm_step :: "'s host \<Rightarrow> ustr \<Rightarrow> step_cmd \<Rightarrow> ustr \<Rightarrow> ('s, bool) act" where
  "npm_step H dir c label =
     seq (run_cmd (at H dir) (Step c) 900) (\<lambda>r.
     case r of
       Inr x \<Rightarrow> seq0 (say (Ending (NpmExit label (er_code x) (trim_out (er_out x))))) (give (er_ok x))
     | Inl e \<Rightarrow> seq0 (say (Ending (NpmError label e))) (give False))"

definition start_local :: "'s host \<Rightarrow> ustr \<Rightarrow> port \<Rightarrow> ('s, bool) act" where
  "start_local H dir p =
     seq (stop_local_runtime H dir p) (\<lambda>stopped.
     seq0 (case stopped of Inl e \<Rightarrow> say (Ending (LocalStopWarn e)) | Inr _ \<Rightarrow> give ())
     (seq (spawn_local_runtime H dir p) (\<lambda>started.
      case started of
        Inr pid \<Rightarrow> seq0 (say (Ending (LocalStarted pid p))) (probe_local H p 8 [])
      | Inl e \<Rightarrow> seq0 (say (Ending (LocalStartError e))) (give False))))"

definition try_local_node_runtime :: "'s host \<Rightarrow> ustr \<Rightarrow> port \<Rightarrow> ('s, bool) act" where
  "try_local_node_runtime H dir p =
     seq (look (ho_is_file H (path_join dir (lit ''package.json'')))) (\<lambda>pkg.
     if \<not> pkg then seq0 (say (Ending NoPackage)) (give False)
     else seq (npm_step H dir NpmInstall (lit ''install'')) (\<lambda>installed.
          if \<not> installed then give False
          else seq (npm_step H dir NpmBuild (lit ''build'')) (\<lambda>built.
               if \<not> built then give False else start_local H dir p)))"

end
