(* ===== verification/DeployRun.thy ===== *)
theory DeployRun
  imports DeploySetup
begin

text \<open>
  The end of a deployment, \<open>deploy_with_log_hook\<close> of \<open>crates/deploy/src/lib.rs\<close>: the image is
  built for the pack of the project and its container replaced, and the whole deployment. Each arm
  of the \<open>match\<close> on the pack is a definition.
\<close>

section \<open>Building an image\<close>

definition read_package_json :: "'s host \<Rightarrow> ustr \<Rightarrow> ('s, ustr option) act" where
  "read_package_json H dir =
     seq (look (ho_read H (path_join dir (lit ''package.json'')))) (\<lambda>here.
     case opt_filter (\<lambda>t. trim t \<noteq> []) here of
       Some t \<Rightarrow> give (Some t)
     | None \<Rightarrow>
         seq (run_cmd (at H dir) (Step ReadPackage) 20) (\<lambda>r.
         give (case r of Inr x \<Rightarrow> if er_ok x \<and> trim (er_out x) \<noteq> [] then Some (er_out x) else None
               | Inl e \<Rightarrow> None)))"

text \<open>What every arm shares: the label of the log, the directory of the build and its command;
  the container is replaced after a build that succeeded.\<close>

definition build_then ::
  "'s host \<Rightarrow> ustr \<Rightarrow> cmd \<Rightarrow> ustr \<Rightarrow> ('s, bool) act \<Rightarrow> ('s, bool) act" where
  "build_then H dir c label start =
     seq0 (say (Build (Building label)))
     (seq (exec_with_heartbeat H dir c (docker_build_timeout_secs H) label) (\<lambda>r.
      case r of
        Inr x \<Rightarrow>
          seq0 (say (Build (Built label (er_code x) (trim_out (er_out x)))))
            (if er_ok x then start else give False)
      | Inl e \<Rightarrow> seq0 (say (Build (BuildError label e))) (give False)))"

text \<open>The values the arms use: build directory, image, container and port.\<close>

record job =
  jb_dir :: ustr
  jb_image :: ustr
  jb_name :: ustr
  jb_port :: port

definition request_job :: "deploy_request \<Rightarrow> ustr \<Rightarrow> job" where
  "request_job req dir =
     \<lparr> jb_dir = request_build_dir req dir, jb_image = image_name (rq_uuid req),
       jb_name = container_name (rq_uuid req), jb_port = (if rq_port req = 0 then 3000 else rq_port req) \<rparr>"

definition replace_container :: "'s host \<Rightarrow> deploy_request \<Rightarrow> job \<Rightarrow> port \<Rightarrow> ('s, bool) act" where
  "replace_container H req j container_port =
     docker_restart_container (at H (jb_dir j)) (jb_name j) (jb_image j) (jb_port j) container_port
       (rq_labels req) (rq_extras req)"

definition deploy_nitro_node :: "'s host \<Rightarrow> deploy_request \<Rightarrow> job \<Rightarrow> ('s, bool) act" where
  "deploy_nitro_node H req j =
     seq0 (say (Build Nitro))
       (build_then H (jb_dir j)
          (Step (BuildImage (jb_image j) (docker_build_from_content (jb_image j) (nitro_node_dockerfile (jb_port j)))))
          (lit ''nitro-build'') (replace_container H req j (jb_port j)))"

definition deploy_compose :: "'s host \<Rightarrow> deploy_request \<Rightarrow> job \<Rightarrow> ('s, bool) act" where
  "deploy_compose H req j =
     (let x = rq_extras req;
          file = trim_start_char 47 (unwrap_or (rq_compose req) (lit ''/docker-compose.yaml''))
      in seq0 (if ex_nvidia x \<or> ex_dri x \<or> ex_group_network x \<noteq> None then say (Build ComposeNoNetwork) else give ())
         (seq0 (if ex_volumes x \<noteq> [] \<or> rt_sidecars (ex_runtime x) \<noteq> [] then say (Build ComposeNoMounts) else give ())
            (build_then H (jb_dir j) (Step (ComposeUp file)) (lit ''compose'') (give True))))"

definition deploy_static :: "'s host \<Rightarrow> deploy_request \<Rightarrow> job \<Rightarrow> ('s, bool) act" where
  "deploy_static H req j =
     (let pub_dir = trim_start_char 47 (unwrap_or (rq_publish req) (lit ''dist''))
      in build_then H (jb_dir j)
           (Step (BuildImage (jb_image j) (docker_build_from_content (jb_image j) (static_inline_dockerfile pub_dir))))
           (lit ''static-build'') (replace_container H req j 80))"

text \<open>The image command, the label for the log and the directory of the pack \<open>dockerfile\<close>.\<close>

definition dockerfile_plan :: "deploy_request \<Rightarrow> ustr \<Rightarrow> job \<Rightarrow> ustr \<times> ustr \<times> ustr" where
  "dockerfile_plan req dir j =
     (let explicit_df = opt_filter (\<lambda>s. s \<noteq> []) (map_option trim (rq_dockerfile req));
          explicit_ctx = opt_filter (\<lambda>s. s \<noteq> []) (map_option trim (rq_context req));
          context_dir = resolve_repo_subdir dir (unwrap_or explicit_ctx (trim (rq_base req)))
      in if explicit_df \<noteq> None \<or> explicit_ctx \<noteq> None
         then let df_rel = (case explicit_df of
                              Some p \<Rightarrow> normalize_repo_rel p
                            | None \<Rightarrow> path_relative_to (context_dir @ lit ''/Dockerfile'') dir);
                  ctx_rel = path_relative_to context_dir dir
              in (dockerfile_image_build_cmd (jb_image j) df_rel ctx_rel,
                  lit ''docker build -f '' @ df_rel @ lit '' '' @ ctx_rel, dir)
         else (fallback_image_build_cmd (jb_image j) (jb_port j), fallback_label, jb_dir j))"

definition deploy_dockerfile :: "'s host \<Rightarrow> deploy_request \<Rightarrow> ustr \<Rightarrow> job \<Rightarrow> ('s, bool) act" where
  "deploy_dockerfile H req dir j =
     (case dockerfile_plan req dir j of (script, label, cwd) \<Rightarrow>
      seq0 (say (Build (BuilderLabel label)))
        (build_then H cwd (Step (BuildImage (jb_image j) script)) (lit ''docker-build'')
           (replace_container H req j (jb_port j))))"

definition nixpacks_fallback :: "'s host \<Rightarrow> deploy_request \<Rightarrow> job \<Rightarrow> ('s, bool) act" where
  "nixpacks_fallback H req j =
     seq0 (say (Build (Fallback fallback_label)))
       (build_then H (jb_dir j)
          (Step (BuildImage (jb_image j) (fallback_image_build_cmd (jb_image j) (jb_port j))))
          (lit ''docker-build'') (replace_container H req j (jb_port j)))"

definition deploy_nixpacks :: "'s host \<Rightarrow> deploy_request \<Rightarrow> job \<Rightarrow> ('s, bool) act" where
  "deploy_nixpacks H req j =
     (let build_envs = collect_build_envs (rq_env_file req);
          script = nixpacks_docker_build (ho_nixpacks H) (ho_self H) (jb_image j) build_envs
      in seq0 (say (Build (NixUsing (nixpacks_image (ho_nixpacks H)) (map fst build_envs))))
         (seq0 (say (Build NixStarted))
         (seq (exec_with_heartbeat H (jb_dir j) (Step (BuildImage (jb_image j) script))
                 (max (docker_build_timeout_secs H) 1800) (lit ''nixpacks'')) (\<lambda>r.
          case r of
            Inr x \<Rightarrow>
              if er_ok x
              then seq0 (say (Build (NixDone (trim_out (er_out x))))) (replace_container H req j (jb_port j))
              else seq0 (say (Build (NixExit (er_code x) (trim_out (er_out x))))) (nixpacks_fallback H req j)
          | Inl e \<Rightarrow> seq0 (say (Build (NixError e))) (nixpacks_fallback H req j)))))"

definition deploy_pack :: "'s host \<Rightarrow> deploy_request \<Rightarrow> ustr \<Rightarrow> job \<Rightarrow> ('s, bool) act" where
  "deploy_pack H req dir j =
     seq (read_package_json H (jb_dir j)) (\<lambda>package_json.
     let nitro_server = (case package_json of Some t \<Rightarrow> package_json_is_nitro_server (ho_json H) t | None \<Rightarrow> False);
         pack = rq_pack req;
         explicit_pack = (pack = lit ''dockercompose'' \<or> pack = lit ''dockerfile'')
     in if nitro_server \<and> \<not> explicit_pack then deploy_nitro_node H req j
        else if pack = lit ''dockercompose'' then deploy_compose H req j
        else if pack = lit ''static'' then deploy_static H req j
        else if pack = lit ''dockerfile'' then deploy_dockerfile H req dir j
        else deploy_nixpacks H req j)"

section \<open>The whole deployment\<close>

definition tag_for_rollback :: "'s host \<Rightarrow> ustr \<Rightarrow> ('s, unit) act" where
  "tag_for_rollback H img =
     seq (look (ho_unix_now H)) (\<lambda>t.
     seq (run_cmd (at H []) (Step (TagImage img t)) 30) (\<lambda>r.
     case r of
       Inr x \<Rightarrow> if er_ok x \<and> trim (er_out x) \<noteq> [] then say (Ending (ImageTagged (trim (er_out x)))) else give ()
     | Inl e \<Rightarrow> give ()))"

definition deploy_without_docker :: "'s host \<Rightarrow> job \<Rightarrow> ('s, bool) act" where
  "deploy_without_docker H j =
     seq0 (say (Setup EngineAbsent))
     (seq (try_local_node_runtime H (jb_dir j) (jb_port j)) (\<lambda>up.
      if up then seq0 (say (Ending DeployedLocally)) (give True)
      else seq0 (say (Ending LocalFailed)) (seq0 (say (Ending DeployFailed)) (give False))))"

definition deploy_with_docker :: "'s host \<Rightarrow> deploy_request \<Rightarrow> ustr \<Rightarrow> job \<Rightarrow> ('s, bool) act" where
  "deploy_with_docker H req dir j =
     seq (deploy_pack H req dir j) (\<lambda>build_ok.
     if build_ok
     then seq0 (tag_for_rollback H (jb_image j)) (seq0 (say (Ending DeployedOk)) (give True))
     else seq0 (say (Ending ImageNotStarted)) (seq0 (say (Ending DeployFailed)) (give False)))"

text \<open>What follows the synchronisation.\<close>

definition deploy_source :: "'s host \<Rightarrow> deploy_request \<Rightarrow> ustr \<Rightarrow> ('s, bool \<times> ustr option) act" where
  "deploy_source H req dir =
     seq (read_head H dir) (\<lambda>sha.
     seq (look_for_conflicts H dir) (\<lambda>clear.
     if \<not> clear then give (False, sha)
     else seq0 (clone_env H req dir)
          (let j = request_job req dir
           in seq (probe_docker H) (\<lambda>docker_ok.
              seq (if docker_ok then deploy_with_docker H req dir j else deploy_without_docker H j) (\<lambda>up.
              give (up, sha))))))"

definition request_dir :: "'s host \<Rightarrow> deploy_request \<Rightarrow> ustr" where
  "request_dir H req = resolve_workdir (ho_data_dir H) (ho_cwd H) (rq_workdir req) (rq_uuid req)"

definition on_server :: "'s host \<Rightarrow> deploy_request \<Rightarrow> 's host" where
  "on_server H req =
     H\<lparr> ho_site := (ho_site H)\<lparr> si_server :=
         (if trim (rq_server req) = [] then lit ''default'' else trim (rq_server req)) \<rparr> \<rparr>"

text \<open>The result is whether the deployment succeeded and the commit it deployed; the log is in
  the events.\<close>

definition deploy_with_log_hook :: "'s host \<Rightarrow> deploy_request \<Rightarrow> ('s, bool \<times> ustr option) act" where
  "deploy_with_log_hook here req =
     (let dir = request_dir here req; H = on_server here req
      in seq0 (say (Setup (Deploying (rq_uuid req) (rq_pack req) dir)))
         (seq (make_workdir H dir) (\<lambda>made.
          if \<not> made then give (False, None)
          else seq (sync_git H req dir) (\<lambda>synced.
               if \<not> synced then give (False, None) else deploy_source H req dir))))"

end
