(* ===== verification/BlueGreenFacts.thy ===== *)
theory BlueGreenFacts
  imports BlueGreen
begin

text \<open>
  Facts on the parts of the blue/green replacement: the commands each part sends, what a
  go-ahead of the readiness loop is based on, what a refusal leaves behind, and how often
  and how long it probes.
\<close>

section \<open>Commands by what they do to a container\<close>

text \<open>The commands after which the container with this name may no longer run under it.\<close>

fun takes_down :: "ustr \<Rightarrow> cmd \<Rightarrow> bool" where
  "takes_down name (RemoveQuiet n) = (n = name)"
| "takes_down name (RemoveForce n) = (n = name)"
| "takes_down name (StopRemove n) = (n = name)"
| "takes_down name (SetLabels n l) = (n = name)"
| "takes_down name (StartSidecar net n side) = (n = name)"
| "takes_down name (Rename a b) = (a = name)"
| "takes_down name (FreePort except p) = (except \<noteq> name)"
| "takes_down name c = False"

text \<open>The commands that create a container with this name.\<close>

fun creates :: "ustr \<Rightarrow> cmd \<Rightarrow> bool" where
  "creates name (RunApp n img ports env net x p) = (n = name)"
| "creates name (SetLabels n l) = (n = name)"
| "creates name (StartSidecar net n side) = (n = name)"
| "creates name (Rename a b) = (b = name)"
| "creates name c = False"

fun cmds :: "(cmd \<Rightarrow> bool) \<Rightarrow> event \<Rightarrow> bool" where
  "cmds C (Exec c t r) = C c"
| "cmds C (Say m) = True"
| "cmds C (Slept d) = True"

abbreviation calm :: "ustr \<Rightarrow> event \<Rightarrow> bool" where
  "calm name \<equiv> cmds (\<lambda>c. \<not> takes_down name c)"

abbreviation inert :: "ustr \<Rightarrow> event \<Rightarrow> bool" where
  "inert name \<equiv> cmds (\<lambda>c. \<not> creates name c)"

text \<open>The events since the container was last created.\<close>

definition since_created :: "ustr \<Rightarrow> event list \<Rightarrow> event list" where
  "since_created name es = rev (takeWhile (inert name) (rev es))"

text \<open>The container answered: a probe of it was ready or a 404, or it was seen running.\<close>

fun answer :: "ustr \<Rightarrow> event \<Rightarrow> bool" where
  "answer ctr (Exec (Probe c t0) t r) =
     (c = ctr \<and> classify_ready_probe (probe_output r) \<in> {Ready, NotFound})"
| "answer ctr (Exec (InspectState c) t r) =
     (c = ctr \<and> (case r of Inl e \<Rightarrow> False | Inr x \<Rightarrow> er_ok x \<and> trim (er_out x) = lit ''running''))"
| "answer ctr e = False"

definition answered :: "ustr \<Rightarrow> event list \<Rightarrow> bool" where
  "answered ctr es \<longleftrightarrow> (\<exists>e \<in> set es. answer ctr e)"

lemma answered_app [simp]: "answered ctr (es @ fs) \<longleftrightarrow> answered ctr es \<or> answered ctr fs"
  by (auto simp: answered_def)

lemma since_created_inert: "list_all (inert name) fs \<Longrightarrow> since_created name (es @ fs) = since_created name es @ fs"
  unfolding since_created_def list_all_iff by (simp add: takeWhile_append)

lemma new_name_other [simp]: "new_name name \<noteq> name"
  by (simp add: new_name_def)

lemma sidecar_name_other [simp]: "sidecar_container name side \<noteq> name"
  by (simp add: sidecar_container_def)

text \<open>When all events but one are of a kind, a decomposition around one that is not is that one.\<close>

lemma only_event:
  assumes "xs @ e # ys = pre @ f # post" and "list_all P xs" and "list_all P ys" and "\<not> P f"
  shows "pre = xs"
proof -
  consider zs where "pre = xs @ zs" "zs @ f # post = e # ys" | zs where "xs = pre @ zs" "zs @ e # ys = f # post"
    using assms(1) by (auto simp: append_eq_append_conv2)
  then show ?thesis
  proof cases
    case 1
    then show ?thesis using assms(3,4) by (cases zs) auto
  next
    case 2
    then show ?thesis using assms(2,4) by (cases zs) auto
  qed
qed

section \<open>Loops\<close>

lemma iterate_induct [consumes 1, case_names stop go]:
  assumes it: "iterate round l s = Some (x, es, s')"
    and stop: "\<And>l s x es s'. round l s = Some (Inl x, es, s') \<Longrightarrow> Q l s x es s'"
    and go: "\<And>l s l1 es s1 x fs s'. round l s = Some (Inr l1, es, s1) \<Longrightarrow> Q l1 s1 x fs s' \<Longrightarrow> Q l s x (es @ fs) s'"
  shows "Q l s x es s'"
proof -
  let ?P = "\<lambda>rd l s y. rd = round \<longrightarrow> Q l s (fst y) (fst (snd y)) (snd (snd y))"
  have "?P round l s (x, es, s')"
  proof (rule iterate.raw_induct [where P = ?P, OF _ it])
    fix it rd l s y
    assume ih: "\<And>rd l s y. it rd l s = Some y \<Longrightarrow> ?P rd l s y"
      and y: "(case rd l s of None \<Rightarrow> None
               | Some (Inl x, es, s1) \<Rightarrow> Some (x, es, s1)
               | Some (Inr l1, es, s1) \<Rightarrow> Option.bind (it rd l1 s1) (\<lambda>(x, fs, s2). Some (x, es @ fs, s2))) = Some y"
    show "?P rd l s y"
    proof
      assume rd: "rd = round"
      from y consider x es s1 where "rd l s = Some (Inl x, es, s1)" "y = (x, es, s1)"
        | l1 es s1 x fs s2 where "rd l s = Some (Inr l1, es, s1)" "it rd l1 s1 = Some (x, fs, s2)" "y = (x, es @ fs, s2)"
        by (auto split: option.splits sum.splits bind_splits)
      then show "Q l s (fst y) (fst (snd y)) (snd (snd y))"
      proof cases
        case 1
        with stop rd show ?thesis by simp
      next
        case 2
        with go rd ih [OF 2(2)] show ?thesis by simp
      qed
    qed
  qed
  then show ?thesis by simp
qed

lemma iterate_ends:
  assumes "iterate round l s = Some (x, es, s')"
  obtains l1 s1 fs gs where "round l1 s1 = Some (Inl x, gs, s')" and "es = fs @ gs"
proof -
  from assms have "\<exists>l1 s1 fs gs. round l1 s1 = Some (Inl x, gs, s') \<and> es = fs @ gs"
  proof (induction rule: iterate_induct)
    case (stop l s x es s')
    then show ?case by fastforce
  next
    case (go l s l1 es s1 x fs s')
    then show ?case by (metis append_assoc)
  qed
  with that show thesis by blast
qed

lemma all_events_iterate [all_events_intros]:
  assumes "\<And>l. all_events P (round l)"
  shows "all_events P (iterate round l)"
  unfolding all_events_def
proof (intro allI impI)
  fix s x es s'
  assume "iterate round l s = Some (x, es, s')"
  then show "list_all P es"
  proof (induction rule: iterate_induct)
    case (stop l s x es s')
    with assms show ?case by (rule all_eventsD)
  next
    case (go l s l1 es s1 x fs s')
    with all_eventsD [OF assms go.hyps] show ?case by simp
  qed
qed

section \<open>The commands each part sends\<close>

lemma all_events_prod [all_events_intros]:
  "(\<And>a b. v = (a, b) \<Longrightarrow> all_events P (f a b)) \<Longrightarrow> all_events P (case v of (a, b) \<Rightarrow> f a b)"
  by (cases v) simp

lemma all_events_Let [all_events_intros]:
  "all_events P (f v) \<Longrightarrow> all_events P (let x = v in f x)"
  by simp

lemma all_events_probe [all_events_intros]:
  "all_events P a \<Longrightarrow> all_events P b \<Longrightarrow> all_events P c \<Longrightarrow> all_events P d \<Longrightarrow> all_events P e \<Longrightarrow>
   all_events P (case v of Ready \<Rightarrow> a | Wait \<Rightarrow> b | NotFound \<Rightarrow> c | Dead \<Rightarrow> d | NoProbe \<Rightarrow> e)"
  by (cases v) simp_all

lemma ev_exists [all_events_intros]:
  "C (ListContainer n) \<Longrightarrow> all_events (cmds C) (container_exists h n)"
  unfolding container_exists_def by (intro all_events_intros) simp

lemma ev_healthy [all_events_intros]:
  "C (InspectState n) \<Longrightarrow> all_events (cmds C) (container_is_healthy h n)"
  unfolding container_is_healthy_def by (intro all_events_intros) simp_all

lemma ev_tail [all_events_intros]:
  "C (TailLogs n ctr) \<Longrightarrow> all_events (cmds C) (show_tail h n ctr)"
  unfolding show_tail_def by (intro all_events_intros) simp_all

lemma ev_wait [all_events_intros]:
  assumes "\<And>t. C (Probe ctr t)" and "C (InspectState ctr)" and "\<And>n. C (TailLogs n ctr)"
  shows "all_events (cmds C) (wait_container_ready h ctr network p)"
  unfolding wait_container_ready_def ready_round_def on_verdict_def show_summary_def next_round_def
  by (intro all_events_intros) (simp_all add: assms)

lemma ev_old [all_events_intros]:
  "C (ListContainer n) \<Longrightarrow> C (InspectState n) \<Longrightarrow> all_events (cmds C) (look_at_old h n)"
  unfolding look_at_old_def by (intro all_events_intros) simp_all

lemma ev_free [all_events_intros]:
  "(\<not> is_proxy_reserved_host_port p \<Longrightarrow> C (FreePort n p)) \<Longrightarrow> all_events (cmds C) (free_host_port h n p)"
  unfolding free_host_port_def by (intro all_events_intros) simp_all

lemma ev_env [all_events_intros]: "C TestEnvFile \<Longrightarrow> all_events (cmds C) (find_env_file h)"
  unfolding find_env_file_def by (intro all_events_intros) simp_all

lemma ev_try [all_events_intros]:
  "(\<And>n. C (CheckNetwork n)) \<Longrightarrow> all_events (cmds C) (try_networks h ns)"
  by (induction ns) (simp_all, (intro all_events_intros; simp)+)

lemma ev_network [all_events_intros]:
  "C DetectNetwork \<Longrightarrow> (\<And>n. C (CheckNetwork n)) \<Longrightarrow> all_events (cmds C) (choose_network h b)"
  unfolding choose_network_def Let_def by (intro all_events_intros) simp_all

lemma ev_sidecars [all_events_intros]:
  assumes "\<And>side. C (StartSidecar net (sidecar_container app side) side)"
  shows "all_events (cmds C) (start_sidecars h app net sides)"
proof (induction sides)
  case (Cons side sides)
  then show ?case by (simp only: start_sidecars.simps) (intro all_events_intros; simp add: assms)
qed (simp, intro all_events_intros)

lemma ev_when [all_events_intros]: "all_events (cmds C) (say_when b m)"
  unfolding say_when_def by (intro all_events_intros) simp

lemma ev_announce [all_events_intros]: "all_events (cmds C) (announce_start new b network x)"
  unfolding announce_start_def by (intro all_events_intros) simp_all

lemma ev_attach [all_events_intros]:
  "C (Attach net ctr alias) \<Longrightarrow> all_events (cmds C) (attach_to h net ctr alias m w)"
  unfolding attach_to_def by (intro all_events_intros) simp_all

lemma ev_link [all_events_intros]:
  "(\<And>net. C (Attach net new None)) \<Longrightarrow> all_events (cmds C) (link_networks h side_net new x)"
  unfolding link_networks_def by (intro all_events_intros) simp_all

lemma ev_start [all_events_intros]:
  assumes "C (RemoveQuiet (new_name name))"
    and "\<And>side. C (StartSidecar (sidecar_network name) (sidecar_container name side) side)"
    and "C (RunApp (new_name name) img (swap_ports b network hp cp) env network x cp)"
    and "\<And>net. C (Attach net (new_name name) None)"
  shows "all_events (cmds C) (start_new h name img hp cp b x old env network)"
  unfolding start_new_def by (intro all_events_intros) (simp_all add: assms)

lemma ev_discard [all_events_intros]:
  "C (RemoveForce new) \<Longrightarrow> all_events (cmds C) (discard_new h new b m)"
  unfolding discard_new_def by (intro all_events_intros) simp_all

lemma ev_labels [all_events_intros]:
  "C (SetLabels new l) \<Longrightarrow> all_events (cmds C) (apply_labels h new l)"
  unfolding apply_labels_def by (intro all_events_intros) simp_all

lemma ev_await [all_events_intros]:
  assumes "\<And>t. C (Probe (new_name name) t)" and "C (InspectState (new_name name))"
    and "\<And>n. C (TailLogs n (new_name name))" and "C (RemoveForce (new_name name))"
    and "\<And>l. C (SetLabels (new_name name) l)" and "\<And>net. C (Attach net (new_name name) None)"
  shows "all_events (cmds C) (await_new h name cp labels x old_exists old_healthy network)"
  unfolding await_new_def relabel_def by (intro all_events_intros) (simp_all add: assms)

lemma ev_traefik [all_events_intros]: "C CheckTraefik \<Longrightarrow> all_events (cmds C) (check_traefik h)"
  unfolding check_traefik_def by (intro all_events_intros) simp_all

section \<open>An answer is behind every go-ahead\<close>

lemma answered_Cons [simp]: "answered ctr (e # es) \<longleftrightarrow> answer ctr e \<or> answered ctr es"
  by (simp add: answered_def)

lemma answered_Nil [simp]: "\<not> answered ctr []"
  by (simp add: answered_def)

lemma healthy_answered:
  assumes "container_is_healthy h ctr s = Some (True, es, s')"
  shows "answered ctr es"
proof -
  from assms obtain r es1 s1 fs where r: "run_cmd h (InspectState ctr) 10 s = Some (r, es1, s1)"
    and k: "(case r of Inl _ \<Rightarrow> give False
             | Inr x \<Rightarrow> if er_ok x
                 then seq0 (say (Health (HealthState ctr (trim (er_out x))))) (give (trim (er_out x) = lit ''running''))
                 else give False) s1 = Some (True, fs, s')" and es: "es = es1 @ fs"
    unfolding container_is_healthy_def by (rule seqE)
  from r have "es1 = [Exec (InspectState ctr) 10 r]" by (simp add: run_cmd_iff)
  with es k show ?thesis
    by (cases r) (auto simp: seq_iff simp del: lit_simps split: if_splits)
qed

lemma next_round_goes_on: "next_round h ctr t d l s \<noteq> Some (Inl True, es, s')"
  by (auto simp: next_round_def seq_iff split: if_splits)

lemma verdict_answered:
  "on_verdict h ctr timeout started deadline a b c v s = Some (Inl True, es, s') \<Longrightarrow>
   v \<in> {Ready, NotFound} \<or> answered ctr es"
  by (cases v) (auto simp: on_verdict_def seq_iff next_round_goes_on split: if_splits dest: healthy_answered)

lemma round_answered:
  assumes "ready_round h ctr probe timeout started deadline l s = Some (Inl True, es, s')"
  shows "answered ctr es"
proof -
  obtain a b c where l: "l = (a, b, c)" by (cases l)
  from assms obtain r es1 s1 fs s2 gs where 1: "run_cmd h (Probe ctr probe) 20 s = Some (r, es1, s1)"
    and 2: "on_verdict h ctr timeout started deadline a b (probe_summary (probe_output r))
              (classify_ready_probe (probe_output r)) s2 = Some (Inl True, gs, s')"
    and es: "es = es1 @ fs @ gs"
    unfolding ready_round_def l prod.case Let_def by (elim seqE) simp
  from 1 have "es1 = [Exec (Probe ctr probe) 20 r]" by (simp add: run_cmd_iff)
  with verdict_answered [OF 2] es show ?thesis by auto
qed

lemma wait_answered:
  assumes "wait_container_ready h ctr network p s = Some (True, es, s')"
  shows "answered ctr es"
proof (cases "Option.bind network (\<lambda>n. docker_http_probe ctr n p (lit ''/''))")
  case None
  with assms show ?thesis
    by (auto simp: wait_container_ready_def seq_iff simp del: lit_simps dest!: healthy_answered)
next
  case (Some probe)
  with assms obtain started timeout deadline fs s1 where
    "iterate (ready_round h ctr probe timeout started deadline) (None, 0, []) s1 = Some (True, fs, s')"
    and es: "es = fs"
    by (auto simp: wait_container_ready_def seq_iff Let_def)
  then obtain l1 s2 xs ys where
    "ready_round h ctr probe timeout started deadline l1 s2 = Some (Inl True, ys, s')" and "fs = xs @ ys"
    by (metis iterate_ends)
  with es round_answered show ?thesis by fastforce
qed

section \<open>The parts of a replacement\<close>

lemma cmds_mono: "list_all (cmds C) es \<Longrightarrow> (\<And>c. C c \<Longrightarrow> D c) \<Longrightarrow> list_all (cmds D) es"
proof -
  assume l: "list_all (cmds C) es" and m: "\<And>c. C c \<Longrightarrow> D c"
  have "cmds C e \<Longrightarrow> cmds D e" for e by (cases e) (auto simp: m)
  with l show "list_all (cmds D) es" by (auto simp: list_all_iff)
qed

text \<open>The commands of the preparation.\<close>

fun prep_cmd :: "ustr \<Rightarrow> port \<Rightarrow> cmd \<Rightarrow> bool" where
  "prep_cmd name hp (ListContainer n) = (n = name)"
| "prep_cmd name hp (InspectState n) = (n = name)"
| "prep_cmd name hp (FreePort n p) = (n = name \<and> p = hp \<and> \<not> is_proxy_reserved_host_port p)"
| "prep_cmd name hp TestEnvFile = True"
| "prep_cmd name hp DetectNetwork = True"
| "prep_cmd name hp (CheckNetwork n) = True"
| "prep_cmd name hp c = False"

lemma restart_cases:
  assumes "docker_restart_container h name img hp cp labels x s = Some (b, es, s')"
  obtains (not_started) A S oh env network s1 s2 where
      "list_all (cmds (prep_cmd name hp)) A"
      "start_new h name img hp cp (labels \<noteq> None) x oh env network s1 = Some (False, S, s2)"
      "es = A @ S" "\<not> b"
  | (not_ready) A S W oe oh env network s1 s2 s3 where
      "list_all (cmds (prep_cmd name hp)) A"
      "start_new h name img hp cp (labels \<noteq> None) x oh env network s1 = Some (True, S, s2)"
      "await_new h name cp labels x oe oh network s2 = Some (False, W, s3)"
      "es = A @ S @ W" "\<not> b"
  | (swapped) A S W K oe oh env network s1 s2 s3 where
      "list_all (cmds (prep_cmd name hp)) A"
      "start_new h name img hp cp (labels \<noteq> None) x oh env network s1 = Some (True, S, s2)"
      "await_new h name cp labels x oe oh network s2 = Some (True, W, s3)"
      "cutover h name (labels \<noteq> None) x oe s3 = Some (b, K, s')"
      "es = A @ S @ W @ K"
proof -
  let ?L = "labels \<noteq> None"
  from assms obtain oe oh env network e1 t1 e2 t2 e3 t3 e4 t4 started S t5 R where
      1: "look_at_old h name s = Some ((oe, oh), e1, t1)"
    and 2: "free_host_port h name hp t1 = Some ((), e2, t2)"
    and 3: "find_env_file h t2 = Some (env, e3, t3)"
    and 4: "choose_network h ?L t3 = Some (network, e4, t4)"
    and 5: "start_new h name img hp cp ?L x oh env network t4 = Some (started, S, t5)"
    and 6: "(if \<not> started then give False
             else seq (await_new h name cp labels x oe oh network) (\<lambda>ready.
               if \<not> ready then give False else cutover h name ?L x oe)) t5 = Some (b, R, s')"
    and es: "es = (e1 @ e2 @ e3 @ e4) @ S @ R"
    unfolding docker_restart_container_def Let_def by (elim seqE) (auto split: prod.splits elim!: seqE)
  have p: "list_all (cmds (prep_cmd name hp)) (e1 @ e2 @ e3 @ e4)"
    using all_eventsD [OF ev_old 1] all_eventsD [OF ev_free 2] all_eventsD [OF ev_env 3]
      all_eventsD [OF ev_network 4] by simp
  show thesis
  proof (cases started)
    case False
    then have eq: "started = False" by simp
    from 6 False have "\<not> b" and "es = (e1 @ e2 @ e3 @ e4) @ S" using es by auto
    with 5 [unfolded eq] show thesis by (intro not_started [OF p])
  next
    case True
    then have eq: "started = True" by simp
    from 6 True obtain ready W s3 K where a: "await_new h name cp labels x oe oh network t5 = Some (ready, W, s3)"
      and c: "(if \<not> ready then give False else cutover h name ?L x oe) s3 = Some (b, K, s')"
      and R: "R = W @ K"
      by (auto elim: seqE)
    show thesis
    proof (cases ready)
      case False
      then have eqr: "ready = False" by simp
      from c False have "\<not> b" and "es = (e1 @ e2 @ e3 @ e4) @ S @ W" using es R by auto
      with 5 [unfolded eq] a [unfolded eqr] show thesis by (intro not_ready [OF p])
    next
      case True
      then have eqr: "ready = True" by simp
      from c True have "cutover h name ?L x oe s3 = Some (b, K, s')" by simp
      moreover have "es = (e1 @ e2 @ e3 @ e4) @ S @ W @ K" using es R by simp
      ultimately show thesis using 5 [unfolded eq] a [unfolded eqr] by (intro swapped [OF p])
    qed
  qed
qed

text \<open>An action that says yes only after an answer of the container since it was last created.\<close>

definition asked :: "ustr \<Rightarrow> ('s, bool) act \<Rightarrow> bool" where
  "asked n m \<longleftrightarrow> (\<forall>s es s'. m s = Some (True, es, s') \<longrightarrow>
     (\<exists>P W. es = P @ W \<and> answered n W \<and> list_all (inert n) W))"

lemma askedE:
  assumes "asked n m" and "m s = Some (True, es, s')"
  obtains P W where "es = P @ W" and "answered n W" and "list_all (inert n) W"
  using assms unfolding asked_def by blast

lemma asked_no: "asked n (give False)"
  by (simp add: asked_def)

lemma asked_seq: "(\<And>x. asked n (f x)) \<Longrightarrow> asked n (seq m f)"
  unfolding asked_def seq_iff by (metis append_assoc)

lemma asked_wait:
  assumes "all_events (inert n) k"
  shows "asked n (seq (wait_container_ready h n network p) (\<lambda>b. if \<not> b then give False else k))"
  unfolding asked_def
proof (intro allI impI)
  fix s es s'
  assume "seq (wait_container_ready h n network p) (\<lambda>b. if \<not> b then give False else k) s = Some (True, es, s')"
  then obtain b W s1 K where w: "wait_container_ready h n network p s = Some (b, W, s1)"
    and k: "(if \<not> b then give False else k) s1 = Some (True, K, s')" and es: "es = W @ K"
    by (rule seqE)
  from k have b: "b = True" and k: "k s1 = Some (True, K, s')" by (cases b; simp)+
  have "list_all (inert n) W"
    by (rule all_eventsD [OF ev_wait w]; simp)
  moreover from assms k have "list_all (inert n) K" by (rule all_eventsD)
  moreover have "answered n W" using w unfolding b by (rule wait_answered)
  ultimately have "es = [] @ W @ K \<and> answered n (W @ K) \<and> list_all (inert n) (W @ K)"
    using es by simp
  then show "\<exists>P W. es = P @ W \<and> answered n W \<and> list_all (inert n) W" by blast
qed

text \<open>What follows a refusal does not matter, as long as it refuses.\<close>

lemma asked_wait_else:
  assumes "\<And>s es s'. r s \<noteq> Some (True, es, s')"
    and "asked n (seq (wait_container_ready h n network p) (\<lambda>b. if \<not> b then give False else k)) \<or> asked n k"
  shows "asked n (seq (wait_container_ready h n network p) (\<lambda>b. if \<not> b then r else k))"
  unfolding asked_def
proof (intro allI impI)
  fix s es s'
  let ?w = "wait_container_ready h n network p"
  assume "seq ?w (\<lambda>b. if \<not> b then r else k) s = Some (True, es, s')"
  then obtain b W s1 K where w: "?w s = Some (b, W, s1)"
    and k: "(if \<not> b then r else k) s1 = Some (True, K, s')" and es: "es = W @ K"
    by (rule seqE)
  with assms(1) have b: "b" by (cases b) auto
  then have "seq ?w (\<lambda>b. if \<not> b then give False else k) s = Some (True, es, s')"
    and k: "k s1 = Some (True, K, s')"
    using w k es by (auto simp: seq_iff)
  then show "\<exists>P W. es = P @ W \<and> answered n W \<and> list_all (inert n) W"
    using assms(2) es unfolding asked_def by (metis append_assoc)
qed

lemma discard_refuses:
  "seq0 a (discard_new h n b m) s \<noteq> Some (True, es, s')"
  by (auto simp: discard_new_def seq_iff)

lemma asked_relabel: "asked (new_name name) (relabel h name cp l x oe network)"
  unfolding relabel_def Let_def
  by (rule asked_seq, rule asked_seq, rule asked_wait_else, rule discard_refuses, rule disjI1, rule asked_wait)
    (intro all_events_intros; simp)

lemma asked_await: "asked (new_name name) (await_new h name cp labels x oe oh network)"
proof (cases labels)
  case None
  show ?thesis
    unfolding await_new_def Let_def None option.case
    by (rule asked_seq, rule asked_seq, rule asked_wait_else, rule discard_refuses, rule disjI1, rule asked_wait)
      (intro all_events_intros; simp)
next
  case (Some l)
  show ?thesis
    unfolding await_new_def Let_def Some option.case
    by (rule asked_seq, rule asked_seq, rule asked_wait_else, rule discard_refuses, rule disjI2, rule asked_seq,
        rule asked_relabel)
qed

lemma ev_take [all_events_intros]:
  assumes "C (Rename (new_name name) name)" and "C CheckTraefik"
    and "\<And>net c a. C (Attach net c a)"
  shows "all_events (cmds C) (take_name h name L x)"
  unfolding take_name_def Let_def by (intro all_events_intros) (simp_all add: assms)

lemma take_name_yes: "take_name h name L x s = Some (b, Y, s') \<Longrightarrow> b"
  unfolding take_name_def Let_def by (elim seqE) simp

lemma cutover_events:
  assumes "cutover h name L x oe s = Some (b, K, s')"
  obtains (replaced) r Y where "b" "oe" "K = [Say (Swap (StoppingOld name)), Exec (StopRemove name) 30 r] @ Y"
      "list_all (calm name) Y"
  | (renamed) "b" "\<not> oe" "list_all (calm name) K"
proof -
  from assms obtain e1 s1 Y where 1: "stop_old h name oe s = Some ((), e1, s1)"
    and 2: "take_name h name L x s1 = Some (b, Y, s')" and K: "K = e1 @ Y"
    unfolding cutover_def by (elim seqE) simp
  have b: "b" using 2 by (rule take_name_yes)
  have Y: "list_all (calm name) Y"
    by (rule all_eventsD [OF ev_take 2]; simp)
  show thesis
  proof (cases oe)
    case True
    with 1 obtain r where "e1 = [Say (Swap (StoppingOld name)), Exec (StopRemove name) 30 r]"
      by (auto simp: stop_old_def seq_iff run_cmd_iff simp del: lit_simps cmd_text.simps)
    with b True K Y show thesis by (intro replaced) simp_all
  next
    case False
    with 1 have "e1 = []" by (simp add: stop_old_def)
    with b False K Y show thesis by (intro renamed) simp_all
  qed
qed

section \<open>A refused replacement\<close>

text \<open>An action that says no only after it has removed the container, with nothing sent after that.\<close>

definition removes :: "ustr \<Rightarrow> ('s, bool) act \<Rightarrow> bool" where
  "removes n m \<longleftrightarrow> (\<forall>s es s'. m s = Some (False, es, s') \<longrightarrow>
     (\<exists>pre t r post. es = pre @ Exec (RemoveForce n) t r # post \<and> list_all (cmds (\<lambda>c. False)) post))"

lemma removesE:
  assumes "removes n m" and "m s = Some (False, es, s')"
  obtains pre t r post where "es = pre @ Exec (RemoveForce n) t r # post" and "list_all (cmds (\<lambda>c. False)) post"
  using assms unfolding removes_def by blast

lemma removes_seq: "(\<And>x. removes n (f x)) \<Longrightarrow> removes n (seq m f)"
  unfolding removes_def seq_iff by (metis append_assoc)

lemma removes_yes: "removes n (give True)"
  by (simp add: removes_def)

lemma removes_if: "removes n a \<Longrightarrow> removes n c \<Longrightarrow> removes n (if b then a else c)"
  by simp

lemma removes_option: "removes n a \<Longrightarrow> (\<And>x. removes n (f x)) \<Longrightarrow> removes n (case v of None \<Rightarrow> a | Some x \<Rightarrow> f x)"
  by (cases v) simp_all

lemma removes_discard: "removes n (discard_new h n told m)"
  unfolding removes_def
proof (intro allI impI)
  fix s es s'
  assume "discard_new h n told m s = Some (False, es, s')"
  then obtain r e1 s1 fs where "run_cmd h (RemoveForce n) 30 s = Some (r, e1, s1)"
    and k: "seq0 (say_when told m) (give False) s1 = Some (False, fs, s')" and es: "es = e1 @ fs"
    unfolding discard_new_def by (rule seqE)
  then have "es = [] @ Exec (RemoveForce n) 30 r # fs" by (simp add: run_cmd_iff)
  moreover have "list_all (cmds (\<lambda>c. False)) fs"
    using k by (auto simp: seq_iff say_when_def split: if_splits)
  ultimately show "\<exists>pre t r post. es = pre @ Exec (RemoveForce n) t r # post \<and> list_all (cmds (\<lambda>c. False)) post"
    by blast
qed

lemma removes_await: "removes (new_name name) (await_new h name cp labels x oe oh network)"
  unfolding await_new_def relabel_def Let_def
  by (intro removes_seq removes_if removes_option removes_discard removes_yes)

text \<open>The start of the new container succeeded.\<close>

fun started_ok :: "ustr \<Rightarrow> event \<Rightarrow> bool" where
  "started_ok n (Exec (RunApp m img ports env net x p) t (Inr y)) = (m = n \<and> er_ok y)"
| "started_ok n e = False"

abbreviation no_run :: "cmd \<Rightarrow> bool" where
  "no_run c \<equiv> \<not> (\<exists>m img ports env net x p. c = RunApp m img ports env net x p)"

lemma no_run_started: "list_all (cmds no_run) es \<Longrightarrow> e \<in> set es \<Longrightarrow> \<not> started_ok n e"
  by (cases "(n, e)" rule: started_ok.cases) (auto simp: list_all_iff)

lemma not_started_none:
  assumes "start_new h name img hp cp L x oh env network s = Some (False, S, s')" and "e \<in> set S"
  shows "\<not> started_ok n e"
proof -
  let ?new = "new_name name"
  let ?run = "run_cmd h (RunApp ?new img (swap_ports L network hp cp) env network x cp) 120"
  let ?res = "\<lambda>r. case r of
                      Inl e \<Rightarrow> seq0 (say (Start (StartError e))) (give False)
                    | Inr y \<Rightarrow> seq0 (say (Start (StartExit (er_code y) (trim_out (er_out y))))) (give (er_ok y))"
  let ?tail = "\<lambda>started. if \<not> started
                then seq0 (say (Start NewNotStarted)) (seq0 (say_when oh (Start (OldKept name))) (give False))
                else seq0 (link_networks h (sidecar_network name) ?new x) (give True)"
  from assms(1) obtain r0 e1 s1 e2 s2 sides e3 s3 e4 where
      1: "run_cmd h (RemoveQuiet ?new) 10 s = Some (r0, e1, s1)"
    and 2: "announce_start ?new L network x s1 = Some ((), e2, s2)"
    and 3: "start_sidecars h name (sidecar_network name) (rt_sidecars (ex_runtime x)) s2 = Some (sides, e3, s3)"
    and 4: "(if \<not> sides then seq0 (say (Start SidecarFailed)) (give False)
             else seq ?run (\<lambda>r. seq (?res r) ?tail)) s3 = Some (False, e4, s')"
    and S: "S = (e1 @ e2 @ e3) @ e4"
    unfolding start_new_def Let_def by (elim seqE) simp
  have q: "list_all (cmds no_run) (e1 @ e2 @ e3)"
    using 1 all_eventsD [OF ev_announce 2] all_eventsD [OF ev_sidecars 3] by (auto simp: run_cmd_iff)
  have "\<not> started_ok n e" if e: "e \<in> set e4"
  proof (cases sides)
    case False
    with 4 e show ?thesis by (auto simp: seq_iff)
  next
    case True
    with 4 have "seq ?run (\<lambda>r. seq (?res r) ?tail) s3 = Some (False, e4, s')" by simp
    then obtain r e5 s5 k5 where 5: "?run s3 = Some (r, e5, s5)"
      and "seq (?res r) ?tail s5 = Some (False, k5, s')" and e4: "e4 = e5 @ k5" by (rule seqE)
    from this(2) obtain st e6 s6 e7 where 6: "?res r s5 = Some (st, e6, s6)"
      and 7: "?tail st s6 = Some (False, e7, s')" and k5: "k5 = e6 @ e7" by (rule seqE)
    from 7 have st: "\<not> st" by (cases st) (auto simp: seq_iff)
    have "list_all (cmds no_run) e6"
      by (rule all_eventsD [where m = "?res r", OF _ 6]) (intro all_events_intros; simp)
    moreover have "list_all (cmds no_run) e7"
      using 7 st by (auto simp: seq_iff say_when_def split: if_splits)
    moreover have "\<not> started_ok n (Exec (RunApp ?new img (swap_ports L network hp cp) env network x cp) 120 r)"
      using 6 st by (cases r) (auto simp: seq_iff)
    moreover from 5 have "e5 = [Exec (RunApp ?new img (swap_ports L network hp cp) env network x cp) 120 r]"
      by (simp add: run_cmd_iff)
    ultimately show ?thesis
      using e e4 k5 no_run_started by (auto simp del: cmds.simps)
  qed
  with q S assms(2) show ?thesis using no_run_started [OF q] by auto
qed

section \<open>The replacement ends\<close>

text \<open>What is assumed of the site: neither a command nor a pause turns the (monotone) clock back,
  and a pause lasts at least as long as asked for.\<close>

definition clock_ok :: "'s site \<Rightarrow> bool" where
  "clock_ok h \<longleftrightarrow>
     (\<forall>srv wd c t s. si_now h s \<le> si_now h (fst (si_exec h srv wd c t s))) \<and>
     (\<forall>d s. si_now h s + d \<le> si_now h (si_sleep h d s))"

fun is_probe :: "event \<Rightarrow> bool" where
  "is_probe (Exec (Probe c text) t r) = True"
| "is_probe e = False"

definition probes :: "event list \<Rightarrow> nat" where
  "probes es = length (filter is_probe es)"

lemma probes_simps [simp]:
  "probes [] = 0" "probes (es @ fs) = probes es + probes fs"
  "probes (e # es) = (if is_probe e then Suc (probes es) else probes es)"
  by (simp_all add: probes_def)

text \<open>An action that returns, does not turn the clock back, and probes at most \<open>k\<close> times.\<close>

definition runs :: "'s site \<Rightarrow> nat \<Rightarrow> ('s, 'a) act \<Rightarrow> bool" where
  "runs h k m \<longleftrightarrow> (\<forall>s. \<exists>x es s'. m s = Some (x, es, s') \<and> si_now h s \<le> si_now h s' \<and> probes es \<le> k)"

named_theorems runs_intros \<open>introduction rules for actions without probes\<close>

lemma runs_seq:
  assumes "runs h j m" and "\<And>x. runs h k (f x)"
  shows "runs h (j + k) (seq m f)"
  unfolding runs_def
proof
  fix s
  from assms(1) obtain x es s1 where 1: "m s = Some (x, es, s1)" "si_now h s \<le> si_now h s1" "probes es \<le> j"
    unfolding runs_def by blast
  from assms(2) [of x] obtain y fs s2 where 2: "f x s1 = Some (y, fs, s2)" "si_now h s1 \<le> si_now h s2" "probes fs \<le> k"
    unfolding runs_def by blast
  from 1(2) 2(2) have "si_now h s \<le> si_now h s2" by (rule order_trans)
  with 1 2 show "\<exists>x es s'. seq m f s = Some (x, es, s') \<and> si_now h s \<le> si_now h s' \<and> probes es \<le> j + k"
    by (auto simp: seq_def)
qed

lemma runs_seq0 [runs_intros]: "runs h 0 m \<Longrightarrow> (\<And>x. runs h 0 (f x)) \<Longrightarrow> runs h 0 (seq m f)"
  using runs_seq [of h 0 m 0 f] by simp

lemma runs_more: "runs h j m \<Longrightarrow> j \<le> k \<Longrightarrow> runs h k m"
  unfolding runs_def by (meson order_trans)

lemma runs_basic [runs_intros]:
  "runs h k (give x)" "runs h k (say m)" "runs h k (clock g)" "runs h k (look f)"
  by (simp_all add: runs_def give_def say_def clock_def look_def)

lemma clock_okD:
  assumes "clock_ok h"
  shows "si_exec h srv wd c t s = (s', r) \<Longrightarrow> si_now h s \<le> si_now h s'"
    and "si_now h s + d \<le> si_now h (si_sleep h d s)"
proof -
  have "si_now h s \<le> si_now h (fst (si_exec h srv wd c t s))"
    using assms unfolding clock_ok_def by blast
  then show "si_exec h srv wd c t s = (s', r) \<Longrightarrow> si_now h s \<le> si_now h s'" by simp
  show "si_now h s + d \<le> si_now h (si_sleep h d s)"
    using assms unfolding clock_ok_def by blast
qed

lemma runs_pause [runs_intros]: "clock_ok h \<Longrightarrow> runs h k (pause h d)"
  unfolding runs_def pause_def using clock_okD(2) [of h _ d] by (auto intro: add_leD1)

lemma runs_cmd:
  assumes "clock_ok h" and "\<And>r. probes [Exec c t r] \<le> k"
  shows "runs h k (run_cmd h c t)"
  unfolding runs_def
proof
  fix s
  obtain s' r where e: "si_exec h (si_server h) (si_workdir h) (cmd_text (si_rotation h) c) t s = (s', r)"
    by (rule prod.exhaust)
  then have "run_cmd h c t s = Some (r, [Exec c t r], s')" by (simp add: run_cmd_iff)
  with clock_okD(1) [OF assms(1) e] assms(2)
  show "\<exists>x es s'. run_cmd h c t s = Some (x, es, s') \<and> si_now h s \<le> si_now h s' \<and> probes es \<le> k"
    by blast
qed

lemma runs_cmd0 [runs_intros]: "clock_ok h \<Longrightarrow> (\<And>r. \<not> is_probe (Exec c t r)) \<Longrightarrow> runs h 0 (run_cmd h c t)"
  by (rule runs_cmd) auto

lemma runs_if [runs_intros]: "(b \<Longrightarrow> runs h k m) \<Longrightarrow> (\<not> b \<Longrightarrow> runs h k n) \<Longrightarrow> runs h k (if b then m else n)"
  by simp

lemma runs_option [runs_intros]:
  "(v = None \<Longrightarrow> runs h k m) \<Longrightarrow> (\<And>x. v = Some x \<Longrightarrow> runs h k (f x)) \<Longrightarrow> runs h k (case v of None \<Rightarrow> m | Some x \<Rightarrow> f x)"
  by (cases v) simp_all

lemma runs_sum [runs_intros]:
  "(\<And>x. v = Inl x \<Longrightarrow> runs h k (f x)) \<Longrightarrow> (\<And>x. v = Inr x \<Longrightarrow> runs h k (g x)) \<Longrightarrow>
   runs h k (case v of Inl x \<Rightarrow> f x | Inr x \<Rightarrow> g x)"
  by (cases v) simp_all

text \<open>A loop whose rounds probe once and, when they go on, leave less than before to do.\<close>

lemma iterate_runs:
  assumes "\<And>l s. \<exists>r es s1. round l s = Some (r, es, s1) \<and> si_now h s \<le> si_now h s1 \<and> probes es \<le> 1 \<and>
             (\<forall>l1. r = Inr l1 \<longrightarrow> si_now h s < deadline \<and> si_now h s + d \<le> si_now h s1)"
    and "deadline \<le> si_now h s + k * d"
  shows "\<exists>x es s'. iterate round l s = Some (x, es, s') \<and> si_now h s \<le> si_now h s' \<and> probes es \<le> k + 1"
  using assms(2)
proof (induction k arbitrary: l s)
  case 0
  from assms(1) [of l s] 0 obtain x es s1 where "round l s = Some (Inl x, es, s1)" "si_now h s \<le> si_now h s1"
    "probes es \<le> 1"
    by (metis add.right_neutral linorder_not_le mult_0 sumE)
  then show ?case by (subst iterate.simps) simp
next
  case (Suc k)
  from assms(1) [of l s] obtain r es s1 where r: "round l s = Some (r, es, s1)" "si_now h s \<le> si_now h s1"
    "probes es \<le> 1" and go: "\<forall>l1. r = Inr l1 \<longrightarrow> si_now h s + d \<le> si_now h s1" by blast
  show ?case
  proof (cases r)
    case (Inl x)
    with r show ?thesis by (subst iterate.simps) simp
  next
    case (Inr l1)
    with go have "si_now h s + d \<le> si_now h s1" by simp
    with Suc.prems have "deadline \<le> si_now h s1 + k * d" by simp
    from Suc.IH [OF this, of l1] obtain x fs s' where
      "iterate round l1 s1 = Some (x, fs, s')" "si_now h s1 \<le> si_now h s'" "probes fs \<le> k + 1" by blast
    with r Inr show ?thesis by (subst iterate.simps) auto
  qed
qed

text \<open>A round: it goes on only before the deadline, and then a second has passed.\<close>

definition rounds :: "'s site \<Rightarrow> nat \<Rightarrow> nat \<Rightarrow> ('s, 'a + 'l) act \<Rightarrow> bool" where
  "rounds h k deadline m \<longleftrightarrow> (\<forall>s. \<exists>r es s1. m s = Some (r, es, s1) \<and> si_now h s \<le> si_now h s1 \<and> probes es \<le> k \<and>
     (\<forall>l1. r = Inr l1 \<longrightarrow> si_now h s < deadline \<and> si_now h s + secs 1 \<le> si_now h s1))"

lemma rounds_seq:
  assumes "runs h j m" and "\<And>x. rounds h k deadline (f x)"
  shows "rounds h (j + k) deadline (seq m f)"
  unfolding rounds_def
proof
  fix s
  from assms(1) obtain x es s1 where 1: "m s = Some (x, es, s1)" "si_now h s \<le> si_now h s1" "probes es \<le> j"
    unfolding runs_def by blast
  from assms(2) [of x] obtain r fs s2 where 2: "f x s1 = Some (r, fs, s2)" "si_now h s1 \<le> si_now h s2" "probes fs \<le> k"
    "\<forall>l1. r = Inr l1 \<longrightarrow> si_now h s1 < deadline \<and> si_now h s1 + secs 1 \<le> si_now h s2"
    unfolding rounds_def by blast
  from 1 2 have "seq m f s = Some (r, es @ fs, s2)" by (simp add: seq_def)
  moreover from 1(2) 2(2) have "si_now h s \<le> si_now h s2" by (rule order_trans)
  moreover from 1(2) 2(4) have "\<forall>l1. r = Inr l1 \<longrightarrow> si_now h s < deadline \<and> si_now h s + secs 1 \<le> si_now h s2"
    by force
  ultimately show "\<exists>r es s1. seq m f s = Some (r, es, s1) \<and> si_now h s \<le> si_now h s1 \<and> probes es \<le> j + k \<and>
     (\<forall>l1. r = Inr l1 \<longrightarrow> si_now h s < deadline \<and> si_now h s + secs 1 \<le> si_now h s1)"
    using 1(3) 2(3) by fastforce
qed

lemma rounds_seq0: "runs h 0 m \<Longrightarrow> (\<And>x. rounds h 0 deadline (f x)) \<Longrightarrow> rounds h 0 deadline (seq m f)"
  using rounds_seq [of h 0 m 0 deadline f] by simp

lemma rounds_give: "rounds h 0 deadline (give (Inl x))"
  by (simp add: rounds_def give_def)

lemma rounds_if: "(b \<Longrightarrow> rounds h k deadline m) \<Longrightarrow> (\<not> b \<Longrightarrow> rounds h k deadline n) \<Longrightarrow> rounds h k deadline (if b then m else n)"
  by simp

lemma rounds_probe:
  "rounds h k dl a \<Longrightarrow> rounds h k dl b \<Longrightarrow> rounds h k dl c \<Longrightarrow> rounds h k dl d \<Longrightarrow> rounds h k dl e \<Longrightarrow>
   rounds h k dl (case v of Ready \<Rightarrow> a | Wait \<Rightarrow> b | NotFound \<Rightarrow> c | Dead \<Rightarrow> d | NoProbe \<Rightarrow> e)"
  by (cases v) simp_all

lemma runs_tail [runs_intros]: "clock_ok h \<Longrightarrow> runs h 0 (show_tail h n ctr)"
  unfolding show_tail_def by (intro runs_intros) simp_all

lemma runs_healthy [runs_intros]: "clock_ok h \<Longrightarrow> runs h 0 (container_is_healthy h n)"
  unfolding container_is_healthy_def by (intro runs_intros) simp_all

lemma rounds_next:
  assumes c: "clock_ok h"
  shows "rounds h 0 deadline (next_round h ctr timeout deadline l)"
  unfolding rounds_def
proof
  fix s
  have stop: "runs h 0 (seq0 (say (Health (NotReady ctr timeout (snd (snd l)))))
            (seq0 (show_tail h 40 ctr) (give (Inl False :: bool + wait_state))))" (is "runs h 0 ?stop")
    using c by (intro runs_intros)
  have stop': "?stop s = Some (r, es, s1) \<Longrightarrow> r = Inl False" for r es s1
    by (elim seqE) simp
  show "\<exists>r es s1. next_round h ctr timeout deadline l s = Some (r, es, s1) \<and> si_now h s \<le> si_now h s1 \<and>
     probes es \<le> 0 \<and> (\<forall>l1. r = Inr l1 \<longrightarrow> si_now h s < deadline \<and> si_now h s + secs 1 \<le> si_now h s1)"
  proof (cases "si_now h s \<ge> deadline")
    case True
    then have eq: "next_round h ctr timeout deadline l s = ?stop s"
      by (simp add: next_round_def seq_def [of "clock h"] clock_def split: option.split)
    from stop obtain r es s1 where r: "?stop s = Some (r, es, s1)" and "si_now h s \<le> si_now h s1" "probes es \<le> 0"
      unfolding runs_def by blast
    moreover have "r = Inl False" using r by (rule stop')
    ultimately show ?thesis
      unfolding eq by (intro exI [of _ r] exI [of _ es] exI [of _ s1]) simp
  next
    case False
    then have "next_round h ctr timeout deadline l s = Some (Inr l, [Slept (secs 1)], si_sleep h (secs 1) s)"
      by (simp add: next_round_def seq_def clock_def pause_def give_def)
    with False clock_okD(2) [OF c, of s "secs 1"] show ?thesis by simp
  qed
qed

lemma rounds_verdict:
  "clock_ok h \<Longrightarrow> rounds h 0 deadline (on_verdict h ctr timeout started deadline a b c v)"
  unfolding on_verdict_def
  by (intro rounds_probe rounds_seq0 rounds_if rounds_give rounds_next runs_intros)

lemma rounds_round:
  assumes "clock_ok h"
  shows "rounds h 1 deadline (ready_round h ctr probe timeout started deadline l)"
proof -
  have "runs h 1 (run_cmd h (Probe ctr probe) 20)"
    using assms by (rule runs_cmd) simp
  moreover have "runs h 0 (show_summary h ctr started w v)" for w v
    unfolding show_summary_def by (intro runs_intros)
  moreover obtain a b v where l: "l = (a, b, v)" by (cases l)
  ultimately have "rounds h (1 + 0) deadline (ready_round h ctr probe timeout started deadline l)"
    unfolding ready_round_def l prod.case Let_def
    by (intro rounds_seq rounds_seq0 rounds_verdict assms)
  then show ?thesis by simp
qed

lemma runs_wait:
  assumes c: "clock_ok h"
  shows "runs h (ready_timeout (si_ready_timeout h) + 1) (wait_container_ready h ctr network p)"
proof (cases "Option.bind network (\<lambda>n. docker_http_probe ctr n p (lit ''/''))")
  case None
  then show ?thesis
    unfolding wait_container_ready_def
    using c runs_more [of h 0 "seq0 (say (Health NoSharedNetwork)) (container_is_healthy h ctr)"]
    by (auto intro: runs_intros simp del: lit_simps)
next
  case (Some probe)
  let ?t = "ready_timeout (si_ready_timeout h)"
  show ?thesis
    unfolding wait_container_ready_def Some option.case Let_def runs_def
  proof
    fix s
    let ?d = "si_now h s + secs ?t"
    have eq: "seq (clock h) (\<lambda>started. iterate (ready_round h ctr probe ?t started (started + secs ?t)) (None, 0, [])) s
        = iterate (ready_round h ctr probe ?t (si_now h s) ?d) (None, 0, []) s"
      by (simp add: seq_def clock_def split: option.split)
    have r: "\<exists>r es s1. ready_round h ctr probe ?t (si_now h s) ?d l u = Some (r, es, s1) \<and> si_now h u \<le> si_now h s1 \<and>
       probes es \<le> 1 \<and> (\<forall>l1. r = Inr l1 \<longrightarrow> si_now h u < ?d \<and> si_now h u + secs 1 \<le> si_now h s1)" for l u
      using rounds_round [OF c, of ?d ctr probe ?t "si_now h s" l] unfolding rounds_def by blast
    have "?d \<le> si_now h s + ?t * secs 1" by (simp add: secs_def)
    from iterate_runs [where l = "(None, 0, [])", OF r this] eq
    show "\<exists>x es s'. seq (clock h) (\<lambda>started. iterate (ready_round h ctr probe ?t started (started + secs ?t)) (None, 0, [])) s
        = Some (x, es, s') \<and> si_now h s \<le> si_now h s' \<and> probes es \<le> ?t + 1" by simp
  qed
qed

lemma ready_timeout_bounds: "5 \<le> ready_timeout env" "ready_timeout env \<le> 900"
  by (cases "opt_filter (\<lambda>v. 5 \<le> v \<and> v \<le> 900) (Option.bind env (parse_uint 64))";
      simp add: ready_timeout_def)+

lemma runs_try [runs_intros]: "clock_ok h \<Longrightarrow> runs h 0 (try_networks h ns)"
  by (induction ns) (simp_all, (intro runs_intros; simp)+)

lemma runs_sidecars [runs_intros]: "clock_ok h \<Longrightarrow> runs h 0 (start_sidecars h app net sides)"
proof (induction sides)
  case (Cons side sides)
  then show ?case
    unfolding start_sidecars.simps Let_def by (intro runs_intros) simp_all
qed (simp, intro runs_intros)

lemma runs_prod [runs_intros]: "(\<And>a b. v = (a, b) \<Longrightarrow> runs h k (f a b)) \<Longrightarrow> runs h k (case v of (a, b) \<Rightarrow> f a b)"
  by (cases v) simp

lemma runs_old: "clock_ok h \<Longrightarrow> runs h 0 (look_at_old h n)"
  unfolding look_at_old_def container_exists_def by (intro runs_intros) simp_all

lemma runs_free: "clock_ok h \<Longrightarrow> runs h 0 (free_host_port h n p)"
  unfolding free_host_port_def by (intro runs_intros) simp_all

lemma runs_env: "clock_ok h \<Longrightarrow> runs h 0 (find_env_file h)"
  unfolding find_env_file_def by (intro runs_intros) simp_all

lemma runs_network: "clock_ok h \<Longrightarrow> runs h 0 (choose_network h b)"
  unfolding choose_network_def Let_def by (intro runs_intros) simp_all

lemma runs_attach [runs_intros]: "clock_ok h \<Longrightarrow> runs h 0 (attach_to h net ctr alias m w)"
  unfolding attach_to_def by (intro runs_intros) simp_all

lemma runs_when [runs_intros]: "runs h 0 (say_when b m)"
  unfolding say_when_def by (intro runs_intros)

lemma runs_start: "clock_ok h \<Longrightarrow> runs h 0 (start_new h name img hp cp b x oh env network)"
  unfolding start_new_def announce_start_def link_networks_def Let_def by (intro runs_intros) simp_all

lemma runs_cutover: "clock_ok h \<Longrightarrow> runs h 0 (cutover h name b x oe)"
  unfolding cutover_def stop_old_def take_name_def check_traefik_def Let_def by (intro runs_intros) simp_all

lemma runs_discard: "clock_ok h \<Longrightarrow> runs h 0 (discard_new h new b m)"
  unfolding discard_new_def by (intro runs_intros) simp_all

lemma runs_labels: "clock_ok h \<Longrightarrow> runs h 0 (apply_labels h new l)"
  unfolding apply_labels_def by (intro runs_intros) simp_all

lemma runs_wait_then:
  assumes c: "clock_ok h" and "\<And>b. runs h k (f b)"
  shows "runs h (ready_timeout (si_ready_timeout h) + 1 + k) (seq (wait_container_ready h n network p) f)"
  by (rule runs_seq [OF runs_wait [OF c]]) (rule assms(2))

lemma runs_after: "runs h 0 m \<Longrightarrow> (\<And>x. runs h k (f x)) \<Longrightarrow> runs h k (seq m f)"
  using runs_seq [of h 0 m k f] by simp

lemma runs_relabel:
  assumes c: "clock_ok h"
  shows "runs h (ready_timeout (si_ready_timeout h) + 1) (relabel h name cp l x oe network)"
proof -
  have "runs h (ready_timeout (si_ready_timeout h) + 1 + 0) (relabel h name cp l x oe network)"
    unfolding relabel_def Let_def
    by (rule runs_after, rule runs_labels [OF c], rule runs_after, (intro runs_intros c; simp), rule runs_wait_then [OF c])
      (intro runs_intros runs_discard c)
  then show ?thesis by simp
qed

lemma runs_await:
  assumes c: "clock_ok h"
  shows "runs h (2 * (ready_timeout (si_ready_timeout h) + 1)) (await_new h name cp labels x oe oh network)"
proof -
  let ?k = "ready_timeout (si_ready_timeout h) + 1"
  have refuse: "runs h ?k (seq0 (say m) (discard_new h n b w))" for m n b w
    by (rule runs_more [of _ 0]) (intro runs_intros runs_discard c, simp)
  have accept: "runs h ?k (seq0 (say m) (case labels of None \<Rightarrow> give True
      | Some l \<Rightarrow> relabel h name cp l x oe network))" for m
    by (rule runs_after, rule runs_basic) (intro runs_option runs_basic runs_relabel c)
  have "runs h (?k + ?k) (await_new h name cp labels x oe oh network)"
    unfolding await_new_def Let_def
    by (rule runs_after, rule runs_basic, rule runs_after, rule runs_pause [OF c], rule runs_wait_then [OF c])
      (intro runs_if refuse accept)
  then show ?thesis by (simp add: mult_2)
qed

end
