(* ===== verification/DeployRunFacts.thy ===== *)
theory DeployRunFacts
  imports DeployRun BlueGreenFacts
begin

text \<open>
  Facts on the parts of a deployment: which of them leave the containers of the server alone, what
  a part that went well has done, and the three ways a deployment goes.
\<close>

section \<open>Commands by what they do\<close>

text \<open>The commands of a deployment that leave the containers of the server alone.\<close>

fun quiet :: "cmd \<Rightarrow> bool" where
  "quiet (Step c) = (case c of ComposeUp f \<Rightarrow> False | _ \<Rightarrow> True)"
| "quiet c = False"

text \<open>The commands before the build of an image.\<close>

fun early :: "cmd \<Rightarrow> bool" where
  "early (Step c) = (case c of ComposeUp f \<Rightarrow> False | BuildImage i script \<Rightarrow> False | _ \<Rightarrow> True)"
| "early c = False"

fun is_sync :: "cmd \<Rightarrow> bool" where
  "is_sync (Step (SyncGit script)) = True"
| "is_sync c = False"

fun builds :: "ustr \<Rightarrow> cmd \<Rightarrow> bool" where
  "builds img (Step (BuildImage i script)) = (i = img)"
| "builds img c = False"

fun is_compose :: "cmd \<Rightarrow> bool" where
  "is_compose (Step (ComposeUp file)) = True"
| "is_compose c = False"

definition succeeded :: "(cmd \<Rightarrow> bool) \<Rightarrow> event list \<Rightarrow> bool" where
  "succeeded C es \<longleftrightarrow> (\<exists>c t x. Exec c t (Inr x) \<in> set es \<and> C c \<and> er_ok x)"

text \<open>The search of conflict markers was made and did not find any.\<close>

fun no_markers :: "event \<Rightarrow> bool" where
  "no_markers (Exec (Step GrepConflicts) t r) =
     (case r of Inl e \<Rightarrow> True | Inr x \<Rightarrow> conflict_marker_message (er_code x) (er_out x) = None)"
| "no_markers e = False"

abbreviation only_says :: "event list \<Rightarrow> bool" where
  "only_says es \<equiv> list_all (cmds (\<lambda>c. False)) es"

abbreviation all_early :: "event list \<Rightarrow> bool" where
  "all_early es \<equiv> list_all (cmds early) es"

abbreviation all_quiet :: "event list \<Rightarrow> bool" where
  "all_quiet es \<equiv> list_all (cmds quiet) es"

lemma succeeded_app [simp]: "succeeded C (es @ fs) \<longleftrightarrow> succeeded C es \<or> succeeded C fs"
  by (auto simp: succeeded_def)

lemma succeeded_Nil [simp]: "\<not> succeeded C []"
  by (simp add: succeeded_def)

lemma succeeded_exec [simp]: "succeeded C (Exec c t r # es) \<longleftrightarrow>
    (C c \<and> (\<exists>x. r = Inr x \<and> er_ok x)) \<or> succeeded C es"
  by (auto simp: succeeded_def)

lemma succeeded_other [simp]: "succeeded C (Say m # es) = succeeded C es" "succeeded C (Slept d # es) = succeeded C es"
  by (auto simp: succeeded_def)

section \<open>Parts without commands on containers\<close>

lemma local_iff [simp]: "local f s = Some (x, es, s') \<longleftrightarrow> f s = (s', x) \<and> es = []"
  by (auto simp: local_def split: prod.split)

lemma all_events_local [all_events_intros]: "all_events P (local f)"
  by (simp add: all_events_def)

lemma ev_beats [all_events_intros]: "all_events (cmds C) (beats label ts)"
  by (induction ts) (simp_all, (intro all_events_intros; simp)+)

lemma ev_heartbeat [all_events_intros]:
  "C c \<Longrightarrow> all_events (cmds C) (exec_with_heartbeat H dir c t label)"
  unfolding exec_with_heartbeat_def by (intro all_events_intros) simp

lemma ev_workdir [all_events_intros]: "all_events (cmds early) (make_workdir H dir)"
  unfolding make_workdir_def by (intro all_events_intros) simp_all

lemma ev_pin [all_events_intros]: "all_events (cmds C) (pin_commit req dir p)"
  unfolding pin_commit_def by (intro all_events_intros) simp_all

lemma ev_sync [all_events_intros]: "all_events (cmds early) (sync_git H req dir)"
  unfolding sync_git_def by (intro all_events_intros) simp_all

lemma ev_head [all_events_intros]: "all_events (cmds early) (read_head H dir)"
  unfolding read_head_def by (intro all_events_intros) simp_all

lemma ev_conflicts [all_events_intros]: "all_events (cmds early) (look_for_conflicts H dir)"
  unfolding look_for_conflicts_def by (intro all_events_intros) simp_all

lemma ev_clone_env [all_events_intros]: "all_events (cmds early) (clone_env H req dir)"
  unfolding clone_env_def by (intro all_events_intros) simp_all

lemma ev_probe_docker [all_events_intros]: "all_events (cmds early) (probe_docker H)"
  unfolding probe_docker_def by (intro all_events_intros) simp_all

lemma ev_package [all_events_intros]: "all_events (cmds early) (read_package_json H dir)"
  unfolding read_package_json_def by (intro all_events_intros) simp_all

lemma ev_tag [all_events_intros]: "all_events (cmds early) (tag_for_rollback H img)"
  unfolding tag_for_rollback_def by (intro all_events_intros) simp_all

lemma ev_stop_local [all_events_intros]: "all_events (cmds C) (stop_local_runtime H dir p)"
  unfolding stop_local_runtime_def by (intro all_events_intros) simp_all

lemma ev_spawn [all_events_intros]: "all_events (cmds C) (spawn_local_runtime H dir p)"
  unfolding spawn_local_runtime_def by (intro all_events_intros)

lemma ev_probe_http [all_events_intros]: "all_events (cmds C) (probe_local_http H p)"
  unfolding probe_local_http_def by (intro all_events_intros)

lemma ev_probe_local [all_events_intros]: "all_events (cmds C) (probe_local H p n e)"
  by (induction n arbitrary: e) (simp_all only: probe_local.simps, (intro all_events_intros; simp)+)

lemma ev_npm [all_events_intros]: "C (Step c) \<Longrightarrow> all_events (cmds C) (npm_step H dir c label)"
  unfolding npm_step_def by (intro all_events_intros) simp_all

lemma ev_without_docker [all_events_intros]: "all_events (cmds early) (deploy_without_docker H j)"
  unfolding deploy_without_docker_def try_local_node_runtime_def start_local_def
  by (intro all_events_intros) simp_all


section \<open>What a step that went well has done\<close>

lemma heartbeat_cases:
  assumes "exec_with_heartbeat H dir c t label s = Some (r, es, s')"
  obtains A where "only_says A" and "es = A @ [Exec c t r]"
proof -
  from assms obtain x A s1 es1 where 1: "beats label x s = Some ((), A, s1)"
    and 2: "run_cmd (at H dir) c t s1 = Some (r, es1, s')" and es: "es = A @ es1"
    unfolding exec_with_heartbeat_def by (auto elim!: seqE)
  from 2 have "es1 = [Exec c t r]" by (simp add: run_cmd_iff)
  with es all_eventsD [OF ev_beats 1] show thesis by (intro that) simp_all
qed

lemma git_sync_cases:
  assumes "sync_git H req dir s = Some (b, es, s')"
  obtains P script A t r B where "only_says P" "only_says A" "b \<longleftrightarrow> (\<exists>x. r = Inr x \<and> er_ok x)"
    and "es = Say (Setup (GitAuth (git_auth_log_line (ho_base64 H) (request_token req) (rq_ephemeral req) (rq_auth_note req))))
           # P @ Say (Setup SyncStarted) # A @ Exec (Step (SyncGit script)) t r # [Say (Setup B)]"
    and "B = (case r of
       Inr x \<Rightarrow> GitExit (er_code x) (redact_git_output (ho_base64 H) (trim_out (er_out x)) (request_token req))
     | Inl e \<Rightarrow> GitError (redact_git_output (ho_base64 H) e (request_token req)))"
proof -
  let ?auth = "Say (Setup (GitAuth (git_auth_log_line (ho_base64 H) (request_token req) (rq_ephemeral req) (rq_auth_note req))))"
  from assms obtain script P s1 r A s2 B where pin: "pin_commit req dir (sync_command H req dir) s = Some (script, P, s1)"
    and h: "exec_with_heartbeat H [] (Step (SyncGit script)) 600 (lit ''git'') s1 = Some (r, A, s2)"
    and r: "(case r of Inr x \<Rightarrow> seq0 (say (Setup (GitExit (er_code x) (redact_git_output (ho_base64 H) (trim_out (er_out x)) (request_token req)))))
                 (give (er_ok x))
           | Inl e \<Rightarrow> seq0 (say (Setup (GitError (redact_git_output (ho_base64 H) e (request_token req))))) (give False)) s2
         = Some (b, B, s')"
    and es: "es = ?auth # P @ Say (Setup SyncStarted) # A @ B"
    unfolding sync_git_def Let_def by (elim seqE) (simp del: lit_simps)
  from h obtain A' where A': "only_says A'" "A = A' @ [Exec (Step (SyncGit script)) 600 r]" by (rule heartbeat_cases)
  from all_eventsD [OF ev_pin pin] have P: "only_says P" .
  show thesis
  proof (cases r)
    case (Inl e)
    with es A' r show thesis by (intro that [OF P A'(1), of r]) (auto simp: seq_iff)
  next
    case (Inr x)
    with es A' r show thesis by (intro that [OF P A'(1), of r]) (auto simp: seq_iff)
  qed
qed

lemma sync_yes: "sync_git H req dir s = Some (True, es, s') \<Longrightarrow> succeeded is_sync es"
  by (erule git_sync_cases) auto

lemma conflicts_no:
  assumes "look_for_conflicts H dir s = Some (True, es, s')"
  shows "list_ex no_markers es"
proof -
  from assms obtain r A s1 B where 1: "run_cmd (at H dir) (Step GrepConflicts) 60 s = Some (r, A, s1)"
    and 2: "(case r of
       Inr x \<Rightarrow>
         (case conflict_marker_message (er_code x) (er_out x) of
            Some msg \<Rightarrow> seq0 (say (Setup (Conflicts msg))) (give False)
          | None \<Rightarrow> give True)
     | Inl e \<Rightarrow> give True) s1 = Some (True, B, s')" and es: "es = A @ B"
    unfolding look_for_conflicts_def by (elim seqE)
  from 1 have "A = [Exec (Step GrepConflicts) 60 r]" by (simp add: run_cmd_iff)
  with 2 es show ?thesis by (auto simp: seq_iff split: sum.splits option.splits)
qed

lemma engine_yes:
  assumes "probe_docker H s = Some (True, es, s')"
  shows "succeeded (\<lambda>c. c = Step ProbeEngine) es"
proof -
  from assms obtain r A s1 B where 1: "run_cmd (at H []) (Step ProbeEngine) 30 s = Some (r, A, s1)"
    and 2: "(case r of
       Inr x \<Rightarrow>
         if er_ok x then seq0 (say (Setup (EngineOk (trim_out (trim (er_out x)))))) (give True)
         else seq0 (say (Setup (EngineExit (er_code x) (trim_out (er_out x))))) (give False)
     | Inl e \<Rightarrow> seq0 (say (Setup (EngineError e))) (give False)) s1 = Some (True, B, s')" and es: "es = A @ B"
    unfolding probe_docker_def by (elim seqE)
  from 1 have "A = [Exec (Step ProbeEngine) 30 r]" by (simp add: run_cmd_iff)
  with 2 es show ?thesis by (auto simp: seq_iff split: sum.splits if_splits)
qed

section \<open>The arms of the pack\<close>

lemma build_cases:
  assumes "build_then H dir c label start s = Some (b, es, s')"
  obtains (failed) A t r B where "\<not> b" "\<not> (\<exists>x. r = Inr x \<and> er_ok x)" "only_says A" "only_says B" "es = A @ [Exec c t r] @ B"
  | (built) A t x B S s1 where "only_says A" "only_says B" "er_ok x" "es = (A @ [Exec c t (Inr x)] @ B) @ S"
      "start s1 = Some (b, S, s')"
proof -
  from assms obtain r A s1 B where 1: "exec_with_heartbeat H dir c (docker_build_timeout_secs H) label s = Some (r, A, s1)"
    and 2: "(case r of
        Inr x \<Rightarrow>
          seq0 (say (Build (Built label (er_code x) (trim_out (er_out x)))))
            (if er_ok x then start else give False)
      | Inl e \<Rightarrow> seq0 (say (Build (BuildError label e))) (give False)) s1 = Some (b, B, s')"
    and es: "es = [Say (Build (Building label))] @ A @ B"
    unfolding build_then_def by (elim seqE) simp
  from 1 obtain A' where A': "only_says A'" and A: "A = A' @ [Exec c (docker_build_timeout_secs H) r]"
    by (rule heartbeat_cases)
  let ?A = "Say (Build (Building label)) # A'"
  have P: "only_says ?A" using A' by simp
  show thesis
  proof (cases "\<exists>x. r = Inr x \<and> er_ok x")
    case True
    then obtain x where r: "r = Inr x" and x: "er_ok x" by blast
    from 2 r x obtain S where "B = [Say (Build (Built label (er_code x) (trim_out (er_out x))))] @ S"
      and S: "start s1 = Some (b, S, s')" by (auto simp: seq_iff)
    with es A r show thesis by (intro built [OF P _ x _ S, of "[Say (Build (Built label (er_code x) (trim_out (er_out x))))]"]) simp_all
  next
    case False
    with 2 have "\<not> b" "only_says B" by (auto simp: seq_iff split: sum.splits)
    with es A False show thesis by (intro failed [OF _ _ P]) simp_all
  qed
qed


text \<open>What an arm may do: stop without an image, start the services of a compose file, or build the
  image and then replace the container.\<close>

inductive arm :: "'s host \<Rightarrow> deploy_request \<Rightarrow> job \<Rightarrow> bool \<Rightarrow> event list \<Rightarrow> 's \<Rightarrow> bool"
  for H :: "'s host" and req :: deploy_request and j :: job and b :: bool and es :: "event list" and s' :: 's where
  unbuilt: "\<not> b \<Longrightarrow> all_quiet es \<Longrightarrow> arm H req j b es s'"
| compose: "all_quiet A \<Longrightarrow> all_quiet B \<Longrightarrow> b \<longleftrightarrow> (\<exists>x. r = Inr x \<and> er_ok x) \<Longrightarrow>
    es = A @ Exec (Step (ComposeUp f)) t r # B \<Longrightarrow> arm H req j b es s'"
| replaced: "all_quiet A \<Longrightarrow> succeeded (builds (jb_image j)) A \<Longrightarrow>
    replace_container H req j cp s1 = Some (b, B, s') \<Longrightarrow> es = A @ B \<Longrightarrow> arm H req j b es s'"

lemma early_quiet: "early c \<Longrightarrow> quiet c"
  by (cases c) (auto split: step_cmd.splits)

lemma all_early_quiet: "all_early es \<Longrightarrow> all_quiet es"
  by (erule cmds_mono) (rule early_quiet)

lemma says_quiet: "only_says es \<Longrightarrow> all_quiet es"
  by (erule cmds_mono) simp

lemma arm_prefix:
  assumes "arm H req j b es s'" and P: "all_quiet P"
  shows "arm H req j b (P @ es) s'"
  using assms(1)
proof cases
  case unbuilt
  with P show ?thesis by (intro arm.unbuilt) simp_all
next
  case (compose A B r f t)
  then show ?thesis using P by (intro arm.compose [of "P @ A" B b r _ f t]) simp_all
next
  case (replaced A cp s1 B)
  then show ?thesis using P by (intro arm.replaced [of "P @ A" j H req cp s1 b B]) simp_all
qed

lemma arm_image:
  assumes "build_then H dir (Step (BuildImage (jb_image j) script)) label (replace_container H req j cp) s = Some (b, es, s')"
  shows "arm H req j b es s'"
  using assms
proof (cases rule: build_cases)
  case (failed A t r B)
  then show ?thesis using says_quiet [of A] says_quiet [of B] by (intro arm.unbuilt) simp_all
next
  case (built A t x B S s1)
  then show ?thesis using says_quiet [of A] says_quiet [of B]
    by (intro arm.replaced [OF _ _ built(5) built(4)]) simp_all
qed

lemma arm_nitro: "deploy_nitro_node H req j s = Some (b, es, s') \<Longrightarrow> arm H req j b es s'"
  unfolding deploy_nitro_node_def by (erule seqE) (auto intro!: arm_prefix [of _ _ _ _ _ _ "[Say m]" for m, simplified] dest: arm_image)

lemma arm_static: "deploy_static H req j s = Some (b, es, s') \<Longrightarrow> arm H req j b es s'"
  unfolding deploy_static_def Let_def by (rule arm_image)

lemma arm_dockerfile: "deploy_dockerfile H req dir j s = Some (b, es, s') \<Longrightarrow> arm H req j b es s'"
  unfolding deploy_dockerfile_def
  by (auto split: prod.splits elim!: seqE intro!: arm_prefix [of _ _ _ _ _ _ "[Say m]" for m, simplified] dest: arm_image)

lemma arm_fallback: "nixpacks_fallback H req j s = Some (b, es, s') \<Longrightarrow> arm H req j b es s'"
  unfolding nixpacks_fallback_def by (erule seqE) (auto intro!: arm_prefix [of _ _ _ _ _ _ "[Say m]" for m, simplified] dest: arm_image)

lemma arm_compose:
  assumes "deploy_compose H req j s = Some (b, es, s')"
  shows "arm H req j b es s'"
proof -
  let ?x = "rq_extras req"
  let ?file = "trim_start_char 47 (unwrap_or (rq_compose req) (lit ''/docker-compose.yaml''))"
  from assms obtain M1 s1 M2 s2 E where
    m1: "(if ex_nvidia ?x \<or> ex_dri ?x \<or> ex_group_network ?x \<noteq> None then say (Build ComposeNoNetwork) else give ()) s = Some ((), M1, s1)"
    and m2: "(if ex_volumes ?x \<noteq> [] \<or> rt_sidecars (ex_runtime ?x) \<noteq> [] then say (Build ComposeNoMounts) else give ()) s1 = Some ((), M2, s2)"
    and e: "build_then H (jb_dir j) (Step (ComposeUp ?file)) (lit ''compose'') (give True) s2 = Some (b, E, s')"
    and es: "es = (M1 @ M2) @ E"
    unfolding deploy_compose_def Let_def by (elim seqE) (simp del: lit_simps)
  have M: "all_quiet (M1 @ M2)" using m1 m2 by (auto split: if_splits)
  from e have "arm H req j b E s'"
  proof (cases rule: build_cases)
    case (failed A t r B)
    with failed says_quiet show ?thesis by (intro arm.compose [of A B b r E ?file t]) auto
  next
    case (built A t x B S s1)
    with says_quiet show ?thesis by (intro arm.compose [of A B b "Inr x" E ?file t]) auto
  qed
  with M es show ?thesis by (auto intro: arm_prefix)
qed

lemma arm_nixpacks:
  assumes "deploy_nixpacks H req j s = Some (b, es, s')"
  shows "arm H req j b es s'"
proof -
  let ?envs = "collect_build_envs (rq_env_file req)"
  let ?script = "nixpacks_docker_build (ho_nixpacks H) (ho_self H) (jb_image j) ?envs"
  let ?first = "[Say (Build (NixUsing (nixpacks_image (ho_nixpacks H)) (map fst ?envs))), Say (Build NixStarted)]"
  let ?c = "Step (BuildImage (jb_image j) ?script)"
  from assms obtain r A s1 B where
    1: "exec_with_heartbeat H (jb_dir j) ?c (max (docker_build_timeout_secs H) 1800) (lit ''nixpacks'') s = Some (r, A, s1)"
    and 2: "(case r of
            Inr x \<Rightarrow>
              if er_ok x
              then seq0 (say (Build (NixDone (trim_out (er_out x))))) (replace_container H req j (jb_port j))
              else seq0 (say (Build (NixExit (er_code x) (trim_out (er_out x))))) (nixpacks_fallback H req j)
          | Inl e \<Rightarrow> seq0 (say (Build (NixError e))) (nixpacks_fallback H req j)) s1 = Some (b, B, s')"
    and es: "es = ?first @ A @ B"
    unfolding deploy_nixpacks_def Let_def by (elim seqE) (simp del: lit_simps)
  from 1 obtain A' where A': "only_says A'" and A: "A = A' @ [Exec ?c (max (docker_build_timeout_secs H) 1800) r]"
    by (rule heartbeat_cases)
  have q: "all_quiet A" using says_quiet [OF A'] A by simp
  show ?thesis
  proof (cases "\<exists>x. r = Inr x \<and> er_ok x")
    case True
    then obtain x where r: "r = Inr x" and x: "er_ok x" by blast
    from 2 r x obtain S where B: "B = Say (Build (NixDone (trim_out (er_out x)))) # S"
      and S: "replace_container H req j (jb_port j) s1 = Some (b, S, s')" by (auto simp: seq_iff)
    show ?thesis
      by (rule arm.replaced [of "?first @ A @ [Say (Build (NixDone (trim_out (er_out x))))]", OF _ _ S])
        (use q A r x es B in simp_all)
  next
    case False
    with 2 obtain m S where B: "B = Say m # S" and S: "nixpacks_fallback H req j s1 = Some (b, S, s')"
      by (auto simp: seq_iff split: sum.splits)
    have "arm H req j b ((?first @ A @ [Say m]) @ S) s'"
      by (rule arm_prefix [OF arm_fallback [OF S]]) (use q in simp)
    with es B show ?thesis by simp
  qed
qed


section \<open>The three ways of a deployment\<close>

lemma arm_pack:
  assumes "deploy_pack H req dir j s = Some (b, es, s')"
  shows "arm H req j b es s'"
proof -
  from assms obtain pj A s1 B where 1: "read_package_json H (jb_dir j) s = Some (pj, A, s1)"
    and 2: "deploy_nitro_node H req j s1 = Some (b, B, s') \<or> deploy_compose H req j s1 = Some (b, B, s') \<or>
      deploy_static H req j s1 = Some (b, B, s') \<or> deploy_dockerfile H req dir j s1 = Some (b, B, s') \<or>
      deploy_nixpacks H req j s1 = Some (b, B, s')"
    and es: "es = A @ B"
    unfolding deploy_pack_def Let_def by (elim seqE) (simp only: split: if_splits; blast)
  from 2 have "arm H req j b B s'"
    using arm_nitro arm_compose arm_static arm_dockerfile arm_nixpacks by metis
  with all_early_quiet [OF all_eventsD [OF ev_package 1]] es show ?thesis by (auto intro: arm_prefix)
qed

text \<open>Up to its build a deployment has synchronised the source and found no conflict marker.\<close>

definition source_ready :: "event list \<Rightarrow> bool" where
  "source_ready es \<longleftrightarrow> succeeded is_sync es \<and> list_ex no_markers es"

definition engine_ready :: "event list \<Rightarrow> bool" where
  "engine_ready es \<longleftrightarrow> succeeded (\<lambda>c. c = Step ProbeEngine) es"

lemma ready_app: "source_ready es \<Longrightarrow> source_ready (es @ fs)" "engine_ready es \<Longrightarrow> engine_ready (es @ fs)"
  by (auto simp: source_ready_def engine_ready_def)

lemma source_cases:
  assumes "deploy_source H req dir s = Some ((ok, sha), es, s')"
  obtains (stopped) "\<not> ok" "all_early es"
  | (locally) A B s1 where "all_early A" "all_early B" "es = A @ B" "list_ex no_markers A"
      "deploy_without_docker H (request_job req dir) s1 = Some (ok, B, s')"
  | (docker) A B C s1 where "all_early A" "list_ex no_markers A" "engine_ready A"
      "arm H req (request_job req dir) ok B s1" "all_early C" "es = A @ B @ C"
proof -
  from assms obtain h clear E1 s1 E2 s2 E3 where 1: "read_head H dir s = Some (h, E1, s1)"
    and 2: "look_for_conflicts H dir s1 = Some (clear, E2, s2)"
    and 3: "(if \<not> clear then give (False, h)
     else seq0 (clone_env H req dir)
          (let j = request_job req dir
           in seq (probe_docker H) (\<lambda>docker_ok.
              seq (if docker_ok then deploy_with_docker H req dir j else deploy_without_docker H j) (\<lambda>up.
              give (up, h))))) s2 = Some ((ok, sha), E3, s')"
    and es: "es = E1 @ E2 @ E3"
    unfolding deploy_source_def by (elim seqE) simp
  have q: "all_early E1" "all_early E2"
    using all_eventsD [OF ev_head 1] all_eventsD [OF ev_conflicts 2] .
  show thesis
  proof (cases clear)
    case False
    with 3 q es show thesis by (intro stopped) simp_all
  next
    case True
    with 2 have clear: "list_ex no_markers E2" by (simp add: conflicts_no)
    from 3 True obtain F1 s3 docker_ok F2 s4 F3 where e: "clone_env H req dir s2 = Some ((), F1, s3)"
      and p: "probe_docker H s3 = Some (docker_ok, F2, s4)"
      and d: "(if docker_ok then deploy_with_docker H req dir (request_job req dir)
               else deploy_without_docker H (request_job req dir)) s4 = Some (ok, F3, s')"
      and E3: "E3 = F1 @ F2 @ F3"
      by (auto simp: Let_def elim!: seqE)
    have f: "all_early F1" "all_early F2"
      using all_eventsD [OF ev_clone_env e] all_eventsD [OF ev_probe_docker p] .
    let ?A = "E1 @ E2 @ F1 @ F2"
    show thesis
    proof (cases docker_ok)
      case False
      with d have w: "deploy_without_docker H (request_job req dir) s4 = Some (ok, F3, s')" by simp
      from all_eventsD [OF ev_without_docker w] show thesis
        by (rule locally [of ?A, OF _ _ _ _ w, rotated]) (use q f clear es E3 in simp_all)
    next
      case True
      with d obtain B s5 C where B: "deploy_pack H req dir (request_job req dir) s4 = Some (ok, B, s5)"
        and C: "(if ok then seq0 (tag_for_rollback H (jb_image (request_job req dir))) (seq0 (say (Ending DeployedOk)) (give True))
           else seq0 (say (Ending ImageNotStarted)) (seq0 (say (Ending DeployFailed)) (give False))) s5 = Some (ok, C, s')"
        and F3: "F3 = B @ C"
        unfolding deploy_with_docker_def by (auto elim!: seqE split: if_splits simp: seq_iff)
      have "all_early C" using C
        by (auto split: if_splits simp: seq_iff dest!: all_eventsD [OF ev_tag])
      then show thesis
        by (rule docker [of ?A, OF _ _ _ arm_pack [OF B], rotated 3])
          (use q f clear es E3 F3 engine_yes [of H s3 F2 s4] p True in \<open>simp_all add: engine_ready_def\<close>)
    qed
  qed
qed


lemma deploy_cases:
  assumes "deploy_with_log_hook h req s = Some ((ok, sha), es, s')"
  obtains (stopped) "\<not> ok" "all_early es"
  | (locally) A B s1 where "all_early A" "all_early B" "es = A @ B" "source_ready A"
      "deploy_without_docker (on_server h req) (request_job req (request_dir h req)) s1 = Some (ok, B, s')"
  | (docker) A B C s1 where "all_early A" "source_ready A" "engine_ready A"
      "arm (on_server h req) req (request_job req (request_dir h req)) ok B s1" "all_early C" "es = A @ B @ C"
proof -
  let ?H = "on_server h req" and ?dir = "request_dir h req"
  from assms obtain made E1 s1 E2 where 1: "make_workdir ?H ?dir s = Some (made, E1, s1)"
    and 2: "(if \<not> made then give (False, None)
          else seq (sync_git ?H req ?dir) (\<lambda>synced.
               if \<not> synced then give (False, None) else deploy_source ?H req ?dir)) s1 = Some ((ok, sha), E2, s')"
    and es: "es = Say (Setup (Deploying (rq_uuid req) (rq_pack req) ?dir)) # E1 @ E2"
    unfolding deploy_with_log_hook_def Let_def by (elim seqE) simp
  note q1 = all_eventsD [OF ev_workdir 1]
  show thesis
  proof (cases made)
    case False
    with 2 q1 es show thesis by (intro stopped) simp_all
  next
    case True
    with 2 obtain synced F1 s2 F2 where 3: "sync_git ?H req ?dir s1 = Some (synced, F1, s2)"
      and 4: "(if \<not> synced then give (False, None) else deploy_source ?H req ?dir) s2 = Some ((ok, sha), F2, s')"
      and E2: "E2 = F1 @ F2"
      by (auto elim!: seqE)
    note q2 = all_eventsD [OF ev_sync 3]
    show thesis
    proof (cases synced)
      case False
      with 4 q1 q2 es E2 show thesis by (intro stopped) simp_all
    next
      case True
      with 3 4 have sync: "succeeded is_sync F1" and src: "deploy_source ?H req ?dir s2 = Some ((ok, sha), F2, s')"
        by (simp_all add: sync_yes)
      let ?P = "Say (Setup (Deploying (rq_uuid req) (rq_pack req) ?dir)) # E1 @ F1"
      from src show thesis
      proof (cases rule: source_cases)
        case stopped
        with q1 q2 es E2 show thesis by (intro that(1)) simp_all
      next
        case (locally A B s3)
        with q1 q2 es E2 sync show thesis
          by (intro that(2) [of "?P @ A" B s3]) (simp_all add: source_ready_def)
      next
        case (docker A B C s3)
        with q1 q2 es E2 sync show thesis
          by (intro that(3) [of "?P @ A" B s3 C]) (simp_all add: source_ready_def engine_ready_def)
      qed
    qed
  qed
qed

lemma job_fields [simp]:
  "jb_image (request_job req dir) = image_name (rq_uuid req)"
  "jb_name (request_job req dir) = container_name (rq_uuid req)"
  "jb_dir (request_job req dir) = request_build_dir req dir"
  by (simp_all add: request_job_def)

text \<open>An event that is not quiet lies behind a quiet beginning.\<close>

lemma behind_quiet:
  assumes "A @ B = pre @ e # post" and "list_all P A" and "\<not> P e"
  obtains pre' where "pre = A @ pre'" and "B = pre' @ e # post"
proof -
  from assms(1) consider zs where "pre = A @ zs" "B = zs @ e # post" | zs where "A = pre @ zs" "zs @ B = e # post"
    by (auto simp: append_eq_append_conv2)
  then show thesis
  proof cases
    case 2
    with assms(2,3) show thesis by (cases zs) (auto intro: that)
  qed (use that in blast)
qed

lemma before_quiet:
  assumes "A @ C = pre @ e # post" and "list_all P C" and "\<not> P e"
  obtains post' where "A = pre @ e # post'"
proof -
  from assms(1) consider zs where "A = pre @ zs" "zs @ C = e # post" | zs where "pre = A @ zs" "C = zs @ e # post"
    by (auto simp: append_eq_append_conv2)
  then show thesis
  proof cases
    case 1
    with assms(2,3) show thesis by (cases zs) (auto intro: that)
  qed (use assms(2,3) in auto)
qed


end
