(* ===== verification/BlueGreenProps.thy ===== *)
theory BlueGreenProps
  imports BlueGreenFacts
begin

text \<open>
  What the blue/green replacement guarantees, on the sequence of events it causes: the old
  container is left alone until the new one has answered since it was last created; a
  refused replacement removes the new container; the port of the project is never one of
  the reverse proxy; the replacement returns after a bounded number of probes; and a refused
  renaming goes unnoticed. The witnesses run the model on a site that answers every command
  alike.
\<close>

section \<open>Sample sites\<close>

definition sample_result :: "bool \<Rightarrow> ustr \<Rightarrow> exec_result" where
  "sample_result okay out = \<lparr> er_ok = okay, er_code = 0, er_out = out \<rparr>"

text \<open>Every command gets the answer that belongs to its time limit; the state is the time.\<close>

definition sample_site :: "(nat \<Rightarrow> exec_result) \<Rightarrow> nat site" where
  "sample_site f = \<lparr> si_exec = (\<lambda>srv wd c t s. (s, Inr (f t))),
     si_sleep = (\<lambda>d s. s + d), si_now = (\<lambda>s. s), si_exists = (\<lambda>f s. True),
     si_network = Some (lit ''net''), si_ready_timeout = None, si_rotation = None,
     si_server = lit ''default'', si_workdir = lit ''/w'' \<rparr>"

definition sample_extras :: extras where
  "sample_extras = \<lparr> ex_nvidia = False, ex_dri = False, ex_group_network = None, ex_group_alias = None,
     ex_volumes = [], ex_runtime = default_runtime \<rparr>"

abbreviation app :: ustr where "app \<equiv> lit ''df-a''"

definition swap_app :: "nat site \<Rightarrow> (nat, bool) act" where
  "swap_app h = docker_restart_container h app (lit ''img'') 3000 3000 (Some (JObj [])) sample_extras"

definition sample_probe :: ustr where
  "sample_probe = the (docker_http_probe (new_name app) (lit ''net'') 3000 (lit ''/''))"

text \<open>A container that serves, one that has stopped, and a docker that refuses every command with a limit
  of ten seconds: it shows no old container and renames none.\<close>

definition up :: ustr where "up = lit ''state=running|healthy''"
definition gone :: ustr where "gone = lit ''state=exited|''"

definition serving :: "nat site" where "serving = sample_site (\<lambda>t. sample_result True up)"
definition stopped :: "nat site" where "stopped = sample_site (\<lambda>t. sample_result True gone)"
definition refusing :: "nat site" where
  "refusing = sample_site (\<lambda>t. sample_result (t \<noteq> 10) up)"

lemma sample_cmd [simp]: "run_cmd (sample_site f) c t s =
    Some (Inr (f t), [Exec c t (Inr (f t))], s)"
  by (simp add: run_cmd_def sample_site_def)

lemma sample_probe: "docker_http_probe (new_name app) (lit ''net'') 3000 (lit ''/'') = Some sample_probe"
proof -
  have "is_safe_docker_name (new_name app)" "is_safe_docker_name (lit ''net'')"
    by (simp_all add: is_safe_docker_name_def new_name_def docker_char_def char_defs utf8_width_def)
  then show ?thesis by (simp add: sample_probe_def docker_http_probe_def Let_def del: lit_simps)
qed

lemma sample_fields [simp]:
  "opt_filter (\<lambda>s. trim s \<noteq> []) (si_network (sample_site f)) = Some (lit ''net'')"
  "si_exists (sample_site f) = (\<lambda>f s. True)" "si_sleep (sample_site f) d s = s + d"
  "si_now (sample_site f) s = s" "er_ok (sample_result b out) = b" "er_out (sample_result b out) = out"
  "ex_group_network sample_extras = None" "ex_volumes sample_extras = []"
  "ex_runtime sample_extras = default_runtime" "rt_sidecars default_runtime = []"
  "rt_memory default_runtime = None" "rt_cpus default_runtime = None" "rt_ports default_runtime = []"
  by (simp_all add: sample_result_def sample_site_def sample_extras_def default_runtime_def trim_by_id is_ws_def)

lemma out_texts [simp]: "trim up = up" "trim gone = gone" "up \<noteq> []" "gone \<noteq> []" "up \<noteq> lit ''running''"
  "gone \<noteq> lit ''running''" "up \<noteq> lit ''missing''" "\<not> starts_with up (lit ''Up'')"
  by (simp_all add: up_def gone_def trim_by_id is_ws_def)

lemma out_probes [simp]: "probe_summary up = up" "probe_summary gone = gone"
  "classify_ready_probe up = Ready" "classify_ready_probe gone = Dead"
  by (simp_all add: up_def gone_def probe_summary_def classify_ready_probe_def probe_line_def probe_field_def
      str_lines_def strip_cr_def split_whitespace_def is_ws_def contains_def split_once_def Let_def)

lemmas run_defs = seq_def give_def say_def pause_def look_def clock_def say_when_def
  is_proxy_reserved_host_port_def nonempty_def Let_def check_traefik_def apply_labels_def
  docker_restart_container_def look_at_old_def container_exists_def container_is_healthy_def
  free_host_port_def find_env_file_def choose_network_def start_new_def announce_start_def
  link_networks_def await_new_def relabel_def cutover_def stop_old_def take_name_def discard_new_def
  wait_container_ready_def ready_round_def show_summary_def on_verdict_def show_tail_def
  iterate.simps [of "ready_round h c p t d e" for h c p t d e] probe_output_def sample_probe swap_app_def

lemma serving_run:
  "\<exists>es s' r. swap_app serving 0 = Some (True, es, s') \<and> Exec (StopRemove app) 30 r \<in> set es"
  by (simp add: serving_def run_defs del: lit_simps cmd_text.simps)

lemma stopped_run:
  "\<exists>es s'. swap_app stopped 0 = Some (False, es, s') \<and> (\<exists>e \<in> set es. started_ok (new_name app) e)"
  by (simp add: stopped_def run_defs del: lit_simps cmd_text.simps)

lemma refusing_run:
  "\<exists>es s'. swap_app refusing 0 = Some (True, es, s') \<and>
     Exec (Rename (new_name app) app) 10 (Inr (sample_result False up)) \<in> set es"
  by (simp add: refusing_def run_defs del: lit_simps cmd_text.simps)

lemma serving_clock: "clock_ok serving"
  by (simp add: clock_ok_def serving_def sample_site_def)

section \<open>Properties\<close>

text \<open>The production container is left alone until the new one has answered since it was last
  created (which posing labels does again), and for good when the deployment fails.\<close>

lemma production_kept_until_answer:
  assumes r: "docker_restart_container h name img hp cp labels x s = Some (b, es, s')"
    and split: "es = pre @ Exec c t reply # post" and down: "takes_down name c"
  shows "b \<and> c = StopRemove name \<and> answered (new_name name) (since_created (new_name name) pre)"
proof -
  let ?f = "Exec c t reply"
  have f: "\<not> calm name ?f" using down by simp
  have prep: "list_all (calm name) A" if "list_all (cmds (prep_cmd name hp)) A" for A
    by (rule cmds_mono [OF that]) (case_tac c; simp)
  have start: "list_all (calm name) S"
    if "start_new h name img hp cp (labels \<noteq> None) x oh env network s1 = Some (st, S, s2)" for oh env network s1 st S s2
    by (rule all_eventsD [OF ev_start that]; simp)
  have await: "list_all (calm name) W"
    if "await_new h name cp labels x oe oh network s2 = Some (rd, W, s3)" for oe oh network s2 rd W s3
    by (rule all_eventsD [OF ev_await that]; simp)
  from r show ?thesis
  proof (cases rule: restart_cases)
    case (not_started A S)
    with prep start have "list_all (calm name) es" by simp
    with f show ?thesis unfolding split by simp
  next
    case (not_ready A S W)
    with prep start await have "list_all (calm name) es" by simp
    with f show ?thesis unfolding split by simp
  next
    case (swapped A S W K)
    then have ASW: "list_all (calm name) (A @ S @ W)" using prep start await by simp
    from swapped(4) show ?thesis
    proof (cases rule: cutover_events)
      case (replaced q Y)
      let ?X = "(A @ S @ W) @ [Say (Swap (StoppingOld name))]"
      have es: "?X @ Exec (StopRemove name) 30 q # Y = pre @ ?f # post"
        using swapped(5) replaced(3) split by simp
      have pre: "pre = ?X"
        by (rule only_event [OF es _ replaced(4) f]) (use ASW in simp)
      with es have c: "c = StopRemove name" by simp
      from swapped(3) obtain P V where W: "W = P @ V" and V: "answered (new_name name) V"
        and i: "list_all (inert (new_name name)) V" by (rule askedE [OF asked_await])
      have "since_created (new_name name) pre =
          since_created (new_name name) (A @ S @ P) @ V @ [Say (Swap (StoppingOld name))]"
        unfolding pre W using since_created_inert [of "new_name name" "V @ [Say (Swap (StoppingOld name))]" "A @ S @ P"] i
        by simp
      with V c replaced(1) show ?thesis by simp
    next
      case renamed
      with ASW swapped(5) have "list_all (calm name) es" by simp
      with f show ?thesis unfolding split by simp
    qed
  qed
qed

theorem production_kept_until_answer_witness:
  "\<exists>es s' pre r post. swap_app serving 0 = Some (True, es, s') \<and>
     es = pre @ Exec (StopRemove app) 30 r # post \<and>
     answered (new_name app) (since_created (new_name app) pre)"
proof -
  obtain es s' r where run: "swap_app serving 0 = Some (True, es, s')" and "Exec (StopRemove app) 30 r \<in> set es"
    using serving_run by blast
  then obtain pre post where es: "es = pre @ Exec (StopRemove app) 30 r # post"
    by (meson split_list)
  from production_kept_until_answer [OF run [unfolded swap_app_def] es]
  have "answered (new_name app) (since_created (new_name app) pre)" by simp
  with run es show ?thesis by blast
qed

text \<open>When a deployment fails after its container was started, the last command it sends removes
  that container.\<close>

lemma failed_swap_removes_new:
  assumes r: "docker_restart_container h name img hp cp labels x s = Some (False, es, s')"
    and e: "e \<in> set es" and st: "started_ok (new_name name) e"
  shows "\<exists>pre t reply post. es = pre @ Exec (RemoveForce (new_name name)) t reply # post \<and>
     list_all (cmds (\<lambda>c. False)) post"
  using r
proof (cases rule: restart_cases)
  case (not_started A S oh env network s1 s2)
  have "list_all (cmds no_run) A"
    by (rule cmds_mono [OF not_started(1)]) auto
  then show ?thesis
    using no_run_started [of A e] not_started_none [OF not_started(2), of e] st e not_started(3) by auto
next
  case (not_ready A S W oe oh env network s1 s2 s3)
  obtain pre t q post where "W = pre @ Exec (RemoveForce (new_name name)) t q # post"
    and "list_all (cmds (\<lambda>c. False)) post"
    by (rule removesE [OF removes_await not_ready(3)])
  with not_ready(4) have "es = (A @ S @ pre) @ Exec (RemoveForce (new_name name)) t q # post \<and>
     list_all (cmds (\<lambda>c. False)) post" by simp
  then show ?thesis by blast
next
  case (swapped A S W K)
  then have False using cutover_events [OF swapped(4)] by auto
  then show ?thesis ..
qed

theorem failed_swap_removes_new_witness:
  "\<exists>es s' pre t reply post. swap_app stopped 0 = Some (False, es, s') \<and>
     es = pre @ Exec (RemoveForce (new_name app)) t reply # post \<and> list_all (cmds (\<lambda>c. False)) post"
proof -
  obtain es s' e where run: "swap_app stopped 0 = Some (False, es, s')" and e: "e \<in> set es" "started_ok (new_name app) e"
    using stopped_run by blast
  from failed_swap_removes_new [OF run [unfolded swap_app_def] e] run show ?thesis by blast
qed

text \<open>A replacement returns, after at most two probes per second of the readiness timeout, 1802 in
  all.\<close>

lemma swap_terminates:
  assumes c: "clock_ok h"
  shows "\<exists>b es s'. docker_restart_container h name img hp cp labels x s = Some (b, es, s') \<and>
     probes es \<le> 2 * (ready_timeout (si_ready_timeout h) + 1) \<and> probes es \<le> 1802"
proof -
  let ?k = "2 * (ready_timeout (si_ready_timeout h) + 1)"
  have later: "runs h ?k (give False)" "runs h ?k (cutover h name b x oe)" for b oe
    by (rule runs_more [of _ 0]; (intro runs_basic runs_cutover c)?; simp)+
  have "runs h (?k + 0) (seq (await_new h name cp labels x oe oh network)
      (\<lambda>ready. if \<not> ready then give False else cutover h name b x oe))" for oe oh network b
    by (rule runs_seq [OF runs_await [OF c]]) (intro runs_if runs_basic runs_cutover c)
  then have await: "runs h ?k (seq (await_new h name cp labels x oe oh network)
      (\<lambda>ready. if \<not> ready then give False else cutover h name b x oe))" for oe oh network b
    by simp
  have "runs h ?k (docker_restart_container h name img hp cp labels x)"
    unfolding docker_restart_container_def Let_def
    by (rule runs_after, rule runs_old [OF c], rule runs_prod, rule runs_after, rule runs_free [OF c],
        rule runs_after, rule runs_env [OF c], rule runs_after, rule runs_network [OF c],
        rule runs_after, rule runs_start [OF c]) (intro runs_if later await)
  moreover have "?k \<le> 1802" using ready_timeout_bounds(2) [of "si_ready_timeout h"] by simp
  ultimately show ?thesis
    unfolding runs_def by (meson order_trans)
qed

theorem swap_terminates_witness:
  "clock_ok serving \<and> (\<exists>b es s'. swap_app serving 0 = Some (b, es, s') \<and> probes es \<le> 1802)"
  using swap_terminates [OF serving_clock, of app "lit ''img''" 3000 3000 "Some (JObj [])" sample_extras 0] serving_clock
  unfolding swap_app_def by blast

fun is_rename :: "cmd \<Rightarrow> bool" where
  "is_rename (Rename a b) = True"
| "is_rename c = False"

lemma no_rename: "list_all (cmds (\<lambda>c. \<not> is_rename c)) es \<Longrightarrow> Exec (Rename a b) t r \<notin> set es"
  by (auto simp: list_all_iff)

lemma take_name_says:
  assumes "take_name h name L x s = Some (b, K, s')" and "Exec (Rename (new_name name) name) t (Inr y) \<in> set K"
  shows "Say (Swap SwapDone) \<in> set K"
proof -
  let ?new = "new_name name"
  let ?told = "\<lambda>r. case r of
                 Inr _ \<Rightarrow> seq0 (say (Swap SwapDone)) (give True)
               | Inl e \<Rightarrow> seq0 (say (Swap (RenameError e))) (seq0 (say (Swap (NewKeepsTempName ?new))) (give False))"
  let ?group = "\<lambda>renamed. seq0 (case nonempty (ex_group_network x) of
                   None \<Rightarrow> give ()
                 | Some net \<Rightarrow>
                     attach_to h net (if renamed then name else ?new) (ex_group_alias x)
                          (Net (GroupAlias (unwrap_or (ex_group_alias x) [8212]) (if renamed then name else ?new)))
                          (Net \<circ> GroupAliasWarn))
           (seq0 (if L then check_traefik h else give ()) (give True))"
  from assms(1) obtain u e1 s1 R1 where 1: "say (Swap (Renaming ?new name)) s = Some (u, e1, s1)"
    and R1: "seq (run_cmd h (Rename ?new name) 10) (\<lambda>r. seq (?told r) ?group) s1 = Some (b, R1, s')"
    and "K = e1 @ R1"
    unfolding take_name_def Let_def by (rule seqE)
  moreover from R1 obtain r e2 s2 R where 2: "run_cmd h (Rename ?new name) 10 s1 = Some (r, e2, s2)"
    and R: "seq (?told r) ?group s2 = Some (b, R, s')" and "R1 = e2 @ R"
    by (rule seqE)
  ultimately have K1: "K = e1 @ e2 @ R" by simp
  from R obtain rn e3 s3 e4 where 3: "?told r s2 = Some (rn, e3, s3)"
    and 4: "?group rn s3 = Some (b, e4, s')" and K: "K = e1 @ e2 @ e3 @ e4"
    unfolding K1 by (rule seqE) simp
  have "list_all (cmds (\<lambda>c. \<not> is_rename c)) e4"
    by (rule all_eventsD [where m = "?group rn", OF _ 4]) (intro all_events_intros; simp)
  moreover have "list_all (cmds (\<lambda>c. \<not> is_rename c)) e3"
    by (rule all_eventsD [where m = "?told r", OF _ 3]) (intro all_events_intros; simp)
  ultimately have "r = Inr y"
    using assms(2) 1 2 no_rename unfolding K by (fastforce simp: run_cmd_iff)
  with 3 have "Say (Swap SwapDone) \<in> set e3" by (auto simp: seq_iff)
  then show ?thesis unfolding K by simp
qed

lemma start_clears_new:
  assumes "start_new h name img hp cp L x oh env network s = Some (b, S, s')"
  obtains q T where "S = Exec (RemoveQuiet (new_name name)) 10 q # T"
proof -
  from assms obtain q e1 s1 T where "run_cmd h (RemoveQuiet (new_name name)) 10 s = Some (q, e1, s1)" and "S = e1 @ T"
    unfolding start_new_def Let_def by (rule seqE) simp
  with that show thesis by (simp add: run_cmd_iff)
qed

lemma swap_clears_new:
  assumes "docker_restart_container h name img hp cp labels x s = Some (b, es, s')"
  shows "\<exists>pre q post. es = pre @ Exec (RemoveQuiet (new_name name)) 10 q # post \<and>
    list_all (inert (new_name name)) pre"
proof -
  have clears: ?thesis
    if A: "list_all (cmds (prep_cmd name hp)) A" and es: "es = A @ S @ R"
      and S: "start_new h name img hp cp (labels \<noteq> None) x oh env network u = Some (st, S, v)"
    for A S R oh env network u st v
  proof -
    from S obtain q T where "S = Exec (RemoveQuiet (new_name name)) 10 q # T" by (rule start_clears_new)
    with es have "es = A @ Exec (RemoveQuiet (new_name name)) 10 q # (T @ R)" by simp
    moreover have "list_all (inert (new_name name)) A"
      by (rule cmds_mono [OF A]) (case_tac c; simp)
    ultimately show ?thesis by blast
  qed
  from assms show ?thesis
  proof (cases rule: restart_cases)
    case (not_started A S)
    with clears [of A S "[]"] show ?thesis by simp
  next
    case (not_ready A S W)
    from clears [OF not_ready(1,4,2)] show ?thesis .
  next
    case (swapped A S W K)
    from clears [OF swapped(1,5,2)] show ?thesis .
  qed
qed

text \<open>When docker refuses to rename the new container, the deployment is reported as done all the
  same, and the next one begins by removing the container that serves.\<close>

lemma refused_rename_unnoticed:
  assumes r: "docker_restart_container h name img hp cp labels x s = Some (b, es, s1)"
    and refused: "Exec (Rename (new_name name) name) t (Inr y) \<in> set es" and "\<not> er_ok y"
    and again: "docker_restart_container h2 name img2 hp2 cp2 labels2 x2 s2 = Some (b2, es2, s3)"
  shows "b \<and> Say (Swap SwapDone) \<in> set es \<and>
     (\<exists>pre q post. es2 = pre @ Exec (RemoveQuiet (new_name name)) 10 q # post \<and>
        list_all (inert (new_name name)) pre)"
proof -
  have prep: "Exec (Rename (new_name name) name) t (Inr y) \<notin> set A" if "list_all (cmds (prep_cmd name hp)) A" for A
    by (rule no_rename [OF cmds_mono [OF that]]) (case_tac c; simp)
  have start: "Exec (Rename (new_name name) name) t (Inr y) \<notin> set S"
    if "start_new h name img hp cp (labels \<noteq> None) x oh env network u = Some (st, S, v)" for oh env network u st S v
    by (rule no_rename, rule all_eventsD [OF ev_start that]; simp)
  have await: "Exec (Rename (new_name name) name) t (Inr y) \<notin> set W"
    if "await_new h name cp labels x oe oh network u = Some (rd, W, v)" for oe oh network u rd W v
    by (rule no_rename, rule all_eventsD [OF ev_await that]; simp)
  from r have "b \<and> Say (Swap SwapDone) \<in> set es"
  proof (cases rule: restart_cases)
    case (not_started A S)
    with prep start refused show ?thesis by auto
  next
    case (not_ready A S W)
    with prep start await refused show ?thesis by auto
  next
    case (swapped A S W K oe oh env network u1 u2 u3)
    then obtain e1 v1 Y where 1: "stop_old h name oe u3 = Some ((), e1, v1)"
      and 2: "take_name h name (labels \<noteq> None) x v1 = Some (b, Y, s1)" and K: "K = e1 @ Y"
      unfolding cutover_def by (elim seqE) simp
    from 1 have "Exec (Rename (new_name name) name) t (Inr y) \<notin> set e1"
      by (auto simp: stop_old_def seq_iff run_cmd_iff simp del: cmd_text.simps lit_simps split: if_splits)
    with swapped prep start await refused K have "Exec (Rename (new_name name) name) t (Inr y) \<in> set Y" by auto
    with take_name_says [OF 2] take_name_yes [OF 2] swapped(5) K show ?thesis by simp
  qed
  with swap_clears_new [OF again] show ?thesis by blast
qed

theorem refused_rename_unnoticed_witness:
  "\<exists>es s1 es2 s2 pre q post. swap_app refusing 0 = Some (True, es, s1) \<and> Say (Swap SwapDone) \<in> set es \<and>
     Exec (Rename (new_name app) app) 10 (Inr (sample_result False up)) \<in> set es \<and>
     swap_app serving 0 = Some (True, es2, s2) \<and>
     es2 = pre @ Exec (RemoveQuiet (new_name app)) 10 q # post \<and> list_all (inert (new_name app)) pre"
proof -
  obtain es s1 where run: "swap_app refusing 0 = Some (True, es, s1)"
    and ref: "Exec (Rename (new_name app) app) 10 (Inr (sample_result False up)) \<in> set es"
    using refusing_run by blast
  obtain es2 s2 r where again: "swap_app serving 0 = Some (True, es2, s2)"
    using serving_run by blast
  have no: "\<not> er_ok (sample_result False up)" by simp
  from refused_rename_unnoticed [OF run [unfolded swap_app_def] ref no again [unfolded swap_app_def]] run ref again
  show ?thesis by blast
qed

fun own_port_ok :: "cmd \<Rightarrow> bool" where
  "own_port_ok (FreePort n p) = (\<not> is_proxy_reserved_host_port p)"
| "own_port_ok (RunApp n img ports env net x cp) = (\<forall>e \<in> set ports. fst e \<noteq> 80 \<and> fst e \<noteq> 443)"
| "own_port_ok c = True"

text \<open>The port of the project is never one of the reverse proxy: it is neither freed nor published.\<close>

lemma project_port_never_reserved:
  assumes "docker_restart_container h name img hp cp labels x s = Some (b, es, s1)"
  shows "list_all (cmds own_port_ok) es"
proof -
  have prep: "list_all (cmds own_port_ok) A" if "list_all (cmds (prep_cmd name hp)) A" for A
    by (rule cmds_mono [OF that]) (case_tac c; simp)
  have start: "list_all (cmds own_port_ok) S"
    if "start_new h name img hp cp (labels \<noteq> None) x oh env network u = Some (st, S, v)" for oh env network u st S v
    by (rule all_eventsD [OF ev_start that]) (auto simp: swap_ports_def is_proxy_reserved_host_port_def)
  have await: "list_all (cmds own_port_ok) W"
    if "await_new h name cp labels x oe oh network u = Some (rd, W, v)" for oe oh network u rd W v
    by (rule all_eventsD [OF ev_await that]; simp)
  have cut: "list_all (cmds own_port_ok) K"
    if "cutover h name (labels \<noteq> None) x oe u = Some (c, K, v)" for oe u c K v
    by (rule all_eventsD [where m = "cutover h name (labels \<noteq> None) x oe", OF _ that])
      (unfold cutover_def stop_old_def, intro all_events_intros; simp)
  from assms show ?thesis
    by (cases rule: restart_cases) (use prep start await cut in auto)
qed

end
