(* ===== verification/DeployRunProps.thy ===== *)
theory DeployRunProps
  imports DeployRunFacts BlueGreenProps
begin

text \<open>
  What a deployment guarantees from its first command to its last: no command reaches a container
  before the image of the project is built, and no image is built before the source is ready; the
  container in production is left alone until its successor has answered; success means that a
  container answered; a deployment returns; and the variables of a project that is built in a
  subdirectory do not reach its container. The witnesses run whole deployments.
\<close>

section \<open>The containers of the server\<close>


lemma down_not_quiet: "takes_down name c \<Longrightarrow> \<not> quiet c"
  by (cases c) auto

lemma since_created_longer: "answered ctr (since_created name es) \<Longrightarrow> answered ctr (since_created name (A @ es))"
proof -
  have "set (takeWhile P xs) \<subseteq> set (takeWhile P (xs @ ys))" for P and xs ys :: "event list"
    by (induction xs) auto
  then show "answered ctr (since_created name es) \<Longrightarrow> answered ctr (since_created name (A @ es))"
    unfolding answered_def since_created_def by fastforce
qed

text \<open>C3. A whole deployment takes the container of its project down only to replace it by a new one that has
  answered since it was last created, and then succeeds.\<close>

theorem deployment_keeps_production:
  assumes run: "deploy_with_log_hook h req s = Some ((ok, sha), es, s')"
    and es: "es = pre @ Exec c t reply # post" and down: "takes_down (container_name (rq_uuid req)) c"
  shows "ok \<and> c = StopRemove (container_name (rq_uuid req)) \<and>
    answered (new_name (container_name (rq_uuid req))) (since_created (new_name (container_name (rq_uuid req))) pre)"
proof -
  let ?e = "Exec c t reply" and ?name = "container_name (rq_uuid req)"
  have nq: "\<not> cmds quiet ?e" and ne: "\<not> cmds early ?e"
    using down_not_quiet [OF down] early_quiet by auto
  from run show ?thesis
  proof (cases rule: deploy_cases)
    case stopped
    with ne show ?thesis unfolding es by simp
  next
    case (locally A B s1)
    then have "list_all (cmds early) (pre @ ?e # post)" using es by (metis list_all_append)
    with ne show ?thesis by simp
  next
    case (docker A B C s1)
    from docker(6) es have "A @ B @ C = pre @ ?e # post" by simp
    then obtain pre1 where pre: "pre = A @ pre1" and "B @ C = pre1 @ ?e # post"
      using behind_quiet docker(1) ne by metis
    then obtain post1 where B: "B = pre1 @ ?e # post1" using before_quiet docker(5) ne by metis
    from docker(4) show ?thesis
    proof cases
      case unbuilt
      with B nq show ?thesis by simp
    next
      case (compose A2 B2 r f t2)
      from compose(4) B have "A2 @ Exec (Step (ComposeUp f)) t2 r # B2 = pre1 @ ?e # post1" by simp
      with only_event [OF this compose(1,2) nq] down show ?thesis by auto
    next
      case (replaced A2 cp s2 B2)
      from replaced(4) B have "A2 @ B2 = pre1 @ ?e # post1" by simp
      then obtain pre2 where pre1: "pre1 = A2 @ pre2" and B2: "B2 = pre2 @ ?e # post1"
        using behind_quiet replaced(1) nq by metis
      from production_kept_until_answer [OF replaced(3) [unfolded replace_container_def job_fields] B2 down]
      show ?thesis using pre pre1 by (simp add: since_created_longer)
    qed
  qed
qed


section \<open>What success means\<close>

lemma probe_local_yes:
  "probe_local H p n e s = Some (True, es, s') \<Longrightarrow> Say (Ending (LocalProbe (lit ''200''))) \<in> set es"
proof (induction n arbitrary: e s es)
  case (Suc n)
  from Suc.prems obtain r A s1 B where 1: "probe_local_http H p s = Some (r, A, s1)"
    and 2: "(case r of
       Inr code \<Rightarrow>
         seq0 (say (Ending (LocalProbe code)))
           (give (code \<in> set [lit ''200'', lit ''301'', lit ''302'', lit ''307'', lit ''308'', lit ''alive'']))
     | Inl e \<Rightarrow> seq0 (if 0 < n then pause (ho_site H) (secs 1) else give ()) (probe_local H p n e)) s1
       = Some (True, B, s')" and es: "es = A @ B"
    unfolding probe_local.simps by (elim seqE)
  show ?case
  proof (cases r)
    case (Inl e1)
    with 2 es Suc.IH show ?thesis by (auto simp del: probe_local.simps elim!: seqE)
  next
    case (Inr code)
    from 1 obtain y where "ho_connect H p s = (s1, y)" and "r = (case y of Some (Inr _) \<Rightarrow> Inr (lit ''200'') | Some (Inl e) \<Rightarrow> Inl e
        | None \<Rightarrow> Inl (lit ''timeout''))"
      unfolding probe_local_http_def by (auto elim!: seqE simp del: lit_simps)
    with Inr have "code = lit ''200''"
      by (cases y) (auto simp del: lit_simps split: sum.splits)
    with 2 Inr es show ?thesis by (auto simp: seq_iff simp del: lit_simps)
  qed
qed (auto simp: seq_iff)

lemma local_yes:
  assumes "deploy_without_docker H j s = Some (True, es, s')"
  shows "Say (Ending (LocalProbe (lit ''200''))) \<in> set es"
proof -
  from assms obtain up A s1 B where 1: "try_local_node_runtime H (jb_dir j) (jb_port j) s = Some (up, A, s1)"
    and 2: "(if up then seq0 (say (Ending DeployedLocally)) (give True)
      else seq0 (say (Ending LocalFailed)) (seq0 (say (Ending DeployFailed)) (give False))) s1 = Some (True, B, s')"
    and es: "es = Say (Setup EngineAbsent) # A @ B"
    unfolding deploy_without_docker_def by (elim seqE) simp
  from 2 have "up" by (cases up) (auto simp: seq_iff)
  with 1 have "Say (Ending (LocalProbe (lit ''200''))) \<in> set A"
    unfolding try_local_node_runtime_def start_local_def
    by (auto elim!: seqE split: if_splits sum.splits simp del: lit_simps probe_local.simps dest!: probe_local_yes)
  with es show ?thesis by simp
qed

lemma cutover_renames:
  assumes "cutover h name L x oe s = Some (b, K, s')"
  shows "\<exists>t r. Exec (Rename (new_name name) name) t r \<in> set K"
  using assms unfolding cutover_def take_name_def Let_def
  by (elim seqE) (simp add: run_cmd_iff, blast)

lemma restart_yes:
  assumes "docker_restart_container h name img hp cp labels x s = Some (True, es, s')"
  shows "answered (new_name name) es \<and> (\<exists>t r. Exec (Rename (new_name name) name) t r \<in> set es)"
  using assms
proof (cases rule: restart_cases)
  case (swapped A S W K)
  from asked_await swapped(3) obtain P V where "W = P @ V" "answered (new_name name) V" by (rule askedE)
  with swapped(5) cutover_renames [OF swapped(4)] show ?thesis by auto
qed simp_all



section \<open>A deployment returns\<close>

definition returns :: "nat \<Rightarrow> ('s, 'a) act \<Rightarrow> bool" where
  "returns k m \<longleftrightarrow> (\<forall>s. \<exists>x es s'. m s = Some (x, es, s') \<and> probes es \<le> k)"

named_theorems returns_intros \<open>introduction rules for actions that return without a probe\<close>

lemma returns_basic [returns_intros]:
  "returns k (give x)" "returns k (say m)" "returns k (look l)" "returns k (pause g d)" "returns k (local f)"
  by (auto simp: returns_def give_def say_def look_def pause_def local_def split: prod.split)

lemma returns_cmd [returns_intros]:
  assumes "\<And>r. \<not> is_probe (Exec c t r)" shows "returns k (run_cmd g c t)"
  using assms by (simp add: returns_def run_cmd_def split: prod.split)

lemma returns_seq: "returns j m \<Longrightarrow> (\<And>x. returns k (f x)) \<Longrightarrow> returns (j + k) (seq m f)"
  unfolding returns_def seq_def by (simp split: option.split) (metis (no_types, lifting) add_mono option.inject option.simps(3) prod.inject probes_simps(2))

lemma returns_after [returns_intros]: "returns 0 m \<Longrightarrow> (\<And>x. returns k (f x)) \<Longrightarrow> returns k (seq m f)"
  using returns_seq [of 0 m k f] by simp

lemma returns_if [returns_intros]: "(b \<Longrightarrow> returns k m) \<Longrightarrow> (\<not> b \<Longrightarrow> returns k n) \<Longrightarrow> returns k (if b then m else n)"
  by simp

lemma returns_option [returns_intros]:
  "(v = None \<Longrightarrow> returns k m) \<Longrightarrow> (\<And>x. v = Some x \<Longrightarrow> returns k (f x)) \<Longrightarrow> returns k (case v of None \<Rightarrow> m | Some x \<Rightarrow> f x)"
  by (cases v) simp_all

lemma returns_sum [returns_intros]:
  "(\<And>x. v = Inl x \<Longrightarrow> returns k (f x)) \<Longrightarrow> (\<And>x. v = Inr x \<Longrightarrow> returns k (g x)) \<Longrightarrow>
   returns k (case v of Inl x \<Rightarrow> f x | Inr x \<Rightarrow> g x)"
  by (cases v) simp_all

lemma returns_prod [returns_intros]:
  "(\<And>a b. v = (a, b) \<Longrightarrow> returns k (f a b)) \<Longrightarrow> returns k (case v of (a, b) \<Rightarrow> f a b)"
  by (cases v) simp

lemma returns_beats [returns_intros]: "returns k (beats label ts)"
  by (induction ts) (simp_all add: returns_basic returns_after)

lemma returns_heartbeat [returns_intros]:
  "(\<And>r. \<not> is_probe (Exec c t r)) \<Longrightarrow> returns k (exec_with_heartbeat H dir c t label)"
  unfolding exec_with_heartbeat_def by (intro returns_intros)

lemma returns_local_probe [returns_intros]: "returns k (probe_local H p n e)"
  unfolding probe_local_http_def
proof (induction n arbitrary: e)
  case (Suc n)
  show ?case unfolding probe_local.simps probe_local_http_def by (intro returns_intros Suc.IH)
qed (simp add: returns_basic returns_after)

lemma returns_replace:
  assumes "clock_ok (ho_site H)" shows "returns 1802 (replace_container H req j cp)"
proof -
  have "clock_ok (at H (jb_dir j))" using assms by (simp add: clock_ok_def at_def)
  from swap_terminates [OF this] show ?thesis
    unfolding returns_def replace_container_def by blast
qed

lemma returns_build: "returns k start \<Longrightarrow> (\<And>t r. \<not> is_probe (Exec c t r)) \<Longrightarrow> returns k (build_then H dir c label start)"
  unfolding build_then_def by (intro returns_intros)

lemma returns_pack:
  assumes c: "clock_ok (ho_site H)" shows "returns 1802 (deploy_pack H req dir j)"
  unfolding deploy_pack_def read_package_json_def Let_def deploy_nitro_node_def deploy_compose_def deploy_static_def
    deploy_dockerfile_def deploy_nixpacks_def nixpacks_fallback_def
  by (intro returns_intros returns_build returns_replace [OF c]) simp_all

lemma returns_with_docker:
  assumes c: "clock_ok (ho_site H)" shows "returns 1802 (deploy_with_docker H req dir j)"
  unfolding deploy_with_docker_def tag_for_rollback_def
  by (rule returns_seq [where j = 1802 and k = 0, simplified], rule returns_pack [OF c]) (intro returns_intros; simp)

lemma returns_setup [returns_intros]:
  "returns k (make_workdir H dir)" "returns k (sync_git H req dir)" "returns k (read_head H dir)"
  "returns k (look_for_conflicts H dir)" "returns k (clone_env H req dir)" "returns k (probe_docker H)"
  unfolding make_workdir_def sync_git_def pin_commit_def Let_def read_head_def look_for_conflicts_def clone_env_def
    probe_docker_def
  by (intro returns_intros; simp)+

lemma returns_without_docker: "returns k (deploy_without_docker H j)"
  unfolding deploy_without_docker_def try_local_node_runtime_def npm_step_def start_local_def stop_local_runtime_def
    spawn_local_runtime_def
  by (intro returns_intros; simp)

text \<open>C7. A deployment returns, with at most 1802 probes of its container, when pauses move the clock.\<close>

theorem deployment_terminates:
  assumes c: "clock_ok (ho_site h)"
  shows "\<exists>ok sha es s'. deploy_with_log_hook h req s = Some ((ok, sha), es, s') \<and> probes es \<le> 1802"
proof -
  have "clock_ok (ho_site (on_server h req))" using c by (simp add: clock_ok_def on_server_def)
  note docker = returns_with_docker [OF this]
  have last: "returns 1802 (seq (if b then deploy_with_docker (on_server h req) req dir j
      else deploy_without_docker (on_server h req) j) (\<lambda>up. give (up, sha)))" for b dir j and sha :: "ustr option"
    by (rule returns_seq [where j = 1802 and k = 0, simplified]) (intro returns_intros docker returns_without_docker)+
  have "returns 1802 (deploy_with_log_hook h req)"
    unfolding deploy_with_log_hook_def deploy_source_def Let_def
    by (intro last returns_intros)
  then show ?thesis unfolding returns_def by fastforce
qed

section \<open>The variables of a project built in a subdirectory\<close>

lemma all_events_result:
  assumes "all_events P m" and "\<And>s x es s'. m s = Some (x, es, s') \<Longrightarrow> all_events P (f x)"
  shows "all_events P (seq m f)"
  unfolding all_events_def
proof (intro allI impI)
  fix s y gs s2
  assume "seq m f s = Some (y, gs, s2)"
  then obtain x es s1 fs where m: "m s = Some (x, es, s1)" and f: "f x s1 = Some (y, fs, s2)" and "gs = es @ fs"
    by (rule seqE)
  with all_eventsD [OF assms(1) m] all_eventsD [OF assms(2) [OF m] f] show "list_all P gs" by simp
qed

fun no_env :: "cmd \<Rightarrow> bool" where
  "no_env (RunApp n img ports env net x p) = (env = None)"
| "no_env c = True"

lemma no_env_file:
  assumes "\<And>s. \<not> si_exists g (si_workdir g @ lit ''/.env'') s"
    and "\<And>s x s'. si_exec g (si_server g) (si_workdir g) (lit ''test -f .env'') 10 s = (s', Inr x) \<Longrightarrow> \<not> er_ok x"
    and "find_env_file g s = Some (env, es, s')"
  shows "env = None"
proof -
  from assms(3) obtain r A s1 where 1: "run_cmd g TestEnvFile 10 s = Some (r, A, s1)"
    and env: "env = (case r of Inl _ \<Rightarrow> None | Inr x \<Rightarrow> if er_ok x then Some (lit ''.env'') else None)"
    unfolding find_env_file_def by (elim seqE) (auto simp: assms(1) seq_iff simp del: lit_simps)
  show ?thesis
  proof (cases r)
    case (Inr x)
    with 1 have "si_exec g (si_server g) (si_workdir g) (lit ''test -f .env'') 10 s = (s1, Inr x)"
      by (simp add: run_cmd_iff del: lit_simps)
    with assms(2) Inr env show ?thesis by simp
  qed (use env in simp)
qed

lemma no_env_restart:
  assumes "\<And>s. \<not> si_exists g (si_workdir g @ lit ''/.env'') s"
    and "\<And>s x s'. si_exec g (si_server g) (si_workdir g) (lit ''test -f .env'') 10 s = (s', Inr x) \<Longrightarrow> \<not> er_ok x"
  shows "all_events (cmds no_env) (docker_restart_container g name img hp cp labels x)"
proof -
  have cut: "all_events (cmds no_env) (cutover g name b x oe)" for b oe
    unfolding cutover_def stop_old_def take_name_def Let_def by (intro all_events_intros; simp)
  have find: "all_events (cmds no_env) (seq (find_env_file g) f)"
    if "all_events (cmds no_env) (f None)" for f :: "ustr option \<Rightarrow> ('a, 'b) act"
  proof (rule all_events_result)
    show "all_events (cmds no_env) (find_env_file g)" by (intro all_events_intros) simp
    show "all_events (cmds no_env) (f env)" if "find_env_file g s = Some (env, es, s')" for s env es s'
      using no_env_file [OF assms that] \<open>all_events (cmds no_env) (f None)\<close> by simp
  qed
  then show ?thesis
    unfolding docker_restart_container_def Let_def
    by (intro all_events_intros cut find; simp)
qed

text \<open>A deployment writes the variables of the project to the \<open>.env\<close> of the working directory, but the
  container is started with the one of the build directory: when there is none, it gets no variable.\<close>

lemma subdirectory_loses_env:
  assumes run: "deploy_with_log_hook h req s = Some ((ok, sha), es, s')"
    and dir: "dir = request_build_dir req (request_dir h req)"
    and absent: "\<And>s. \<not> si_exists (ho_site h) (dir @ lit ''/.env'') s"
    and refused: "\<And>server s x s'. si_exec (ho_site h) server dir (lit ''test -f .env'') 10 s = (s', Inr x) \<Longrightarrow> \<not> er_ok x"
    and e: "Exec (RunApp name img ports env network x p) t reply \<in> set es"
  shows "env = None"
  using run
proof (cases rule: deploy_cases)
  case stopped
  with e show ?thesis by (auto simp: list_all_iff)
next
  case (locally A B s1)
  with e show ?thesis by (auto simp: list_all_iff)
next
  case (docker A B C s1)
  with e have B: "Exec (RunApp name img ports env network x p) t reply \<in> set B" by (auto simp: list_all_iff)
  from docker(4) show ?thesis
  proof cases
    case unbuilt
    with B show ?thesis by (auto simp: list_all_iff)
  next
    case (compose A2 B2 r f t2)
    with B show ?thesis by (auto simp: list_all_iff)
  next
    case (replaced A2 cp s2 B2)
    with B have in_B2: "Exec (RunApp name img ports env network x p) t reply \<in> set B2" by (auto simp: list_all_iff)
    let ?g = "at (on_server h req) dir"
    have "all_events (cmds no_env) (docker_restart_container ?g (container_name (rq_uuid req)) (image_name (rq_uuid req))
      (jb_port (request_job req (request_dir h req))) cp (rq_labels req) (rq_extras req))"
      by (rule no_env_restart) (use absent refused in \<open>simp_all add: at_def on_server_def del: lit_simps\<close>)
    from all_eventsD [OF this replaced(3) [unfolded replace_container_def job_fields, folded dir]] in_B2
    show ?thesis by (auto simp: list_all_iff)
  qed
qed

section \<open>A deployment that runs\<close>

text \<open>The executor answers as in the samples of the replacement, but outside the directory given it
  refuses every command with a limit of ten seconds, the search of \<open>.env\<close> among them.\<close>

definition project_site :: "ustr \<Rightarrow> nat site" where
  "project_site env_dir = (sample_site (\<lambda>t. sample_result True up))\<lparr>
     si_exec := (\<lambda>server dir c t s.
       (s, Inr (sample_result (t \<noteq> 10 \<or> dir = env_dir) up))),
     si_exists := (\<lambda>f s. f = env_dir @ lit ''/.env'') \<rparr>"

definition sample_host :: "ustr \<Rightarrow> nat host" where
  "sample_host env_dir =
     \<lparr> ho_site = project_site env_dir, ho_make_dir = (\<lambda>d s. (s, None)), ho_read = (\<lambda>p s. None),
       ho_write = (\<lambda>p b s. (s, None)), ho_remove = (\<lambda>p s. (s, None)), ho_is_file = (\<lambda>p s. False),
       ho_process = (\<lambda>a s. (s, ())), ho_spawn = (\<lambda>a d e s. (s, Inr 1)), ho_connect = (\<lambda>p s. (s, Some (Inr ()))),
       ho_ticks = (\<lambda>c s. []), ho_unix_now = (\<lambda>s. s), ho_base64 = (\<lambda>s. s), ho_json = (\<lambda>t. None),
       ho_data_dir = None, ho_cwd = None, ho_build_timeout = None, ho_nixpacks = None, ho_self = None \<rparr>"

definition sample_request :: "ustr \<Rightarrow> deploy_request" where
  "sample_request base =
     \<lparr> rq_uuid = lit ''a'', rq_server = [], rq_workdir = lit ''/w'', rq_repository = lit ''o/r'', rq_branch = [],
       rq_pack = lit ''nixpacks'', rq_port = 0, rq_base = base, rq_compose = None, rq_dockerfile = None,
       rq_context = None, rq_publish = None, rq_static = False, rq_token = None, rq_ephemeral = False,
       rq_auth_note = None, rq_pin_sha = None, rq_env_file = Some (lit ''A=1''), rq_labels = Some (JObj []),
       rq_extras = sample_extras \<rparr>"

abbreviation sample_deploy :: "ustr \<Rightarrow> (nat, bool \<times> ustr option) act" where
  "sample_deploy base \<equiv> deploy_with_log_hook (sample_host (lit ''/w'')) (sample_request base)"

definition there :: "ustr \<Rightarrow> nat site" where
  "there dir = at (on_server (sample_host (lit ''/w'')) (sample_request [])) dir"

lemma there_fields [simp]:
  "si_network (there dir) = Some (lit ''net'')" "si_exists (there dir) f s = (f = lit ''/w/.env'')"
  "si_sleep (there dir) d s = s + d" "si_now (there dir) s = s" "si_workdir (there dir) = dir"
  "si_ready_timeout (there dir) = None"
  by (simp_all add: there_def at_def on_server_def sample_host_def project_site_def sample_site_def)

lemma there_cmd [simp]:
  "run_cmd (there dir) c t s =
     (let r = Inr (sample_result (t \<noteq> 10 \<or> dir = lit ''/w'') up) in Some (r, [Exec c t r], s))"
  by (simp add: run_cmd_def there_def at_def on_server_def sample_host_def project_site_def sample_site_def Let_def del: lit_simps)

lemma sample_there:
  "at (on_server (sample_host (lit ''/w'')) (sample_request base)) dir = there dir"
  by (simp add: there_def at_def on_server_def sample_request_def)

lemma sample_facts [simp]:
  "request_dir (sample_host (lit ''/w'')) (sample_request base) = lit ''/w''"
  "image_name (rq_uuid (sample_request base)) = lit ''df-a:latest''"
  "container_name (rq_uuid (sample_request base)) = app"
  by (simp_all add: request_dir_def sample_host_def sample_request_def resolve_workdir_def Let_def trim_by_id is_ws_def
     image_name_def container_name_def)

lemma no_markers_up [simp]: "conflict_marker_message c up = None"
  by (simp add: conflict_marker_message_def up_def str_lines_def strip_cr_def is_marker_line_def contains_def
      trim_by_id is_ws_def Let_def)


lemmas deploy_defs = local_def exec_with_heartbeat_def make_workdir_def sync_git_def pin_commit_def read_head_def
  look_for_conflicts_def clone_env_def probe_docker_def read_package_json_def build_then_def replace_container_def
  deploy_nixpacks_def deploy_pack_def tag_for_rollback_def deploy_with_docker_def deploy_source_def
  deploy_with_log_hook_def

lemma sample_fields_host [simp]:
  "ho_make_dir (on_server (sample_host w) req) = (\<lambda>d s. (s, None))" "ho_read (on_server (sample_host w) req) = (\<lambda>p s. None)"
  "ho_write (on_server (sample_host w) req) = (\<lambda>p b s. (s, None))" "ho_ticks (on_server (sample_host w) req) = (\<lambda>c s. [])"
  "ho_unix_now (on_server (sample_host w) req) = (\<lambda>s. s)" "ho_json (on_server (sample_host w) req) = (\<lambda>t. None)"
  "rq_pin_sha (sample_request base) = None" "rq_pack (sample_request base) = lit ''nixpacks''"
  "request_build_dir (sample_request []) d = d" "request_build_dir (sample_request (lit ''web'')) (lit ''/w'') = lit ''/w/web''"
  "docker_build_timeout_secs (on_server (sample_host w) req) = 3600"
  "trim (lit ''net'') = lit ''net''" "lit ''net'' \<noteq> []" "(lit ''/w'' @ lit ''/.env'' = lit ''/w/.env'') = True"
  "(lit ''/w/web'' @ lit ''/.env'' = lit ''/w/.env'') = False" "(lit ''/w/web'' = lit ''/w'') = False"
  "up \<noteq> lit ''host-network-detected''"
  "opt_filter (\<lambda>s. s \<noteq> []) (map_option trim (rq_env_file (sample_request base))) = Some (lit ''A=1'')"
  "rq_labels (sample_request base) = Some (JObj [])" "rq_extras (sample_request base) = sample_extras"
  "jb_port (request_job (sample_request base) d) = 3000"
  by (simp_all add: on_server_def sample_host_def sample_request_def request_job_def trim_by_id is_ws_def request_build_dir_def
    trim_start_by_def docker_build_timeout_secs_def parse_docker_build_timeout_def DEFAULT_DOCKER_BUILD_TIMEOUT_SECS_def up_def)

lemma deploy_sample_run:
  "\<exists>sha es s' r. sample_deploy [] 0 = Some ((True, sha), es, s') \<and> Exec (StopRemove app) 30 r \<in> set es"
  by (simp add: deploy_defs sample_there run_defs package_json_is_nitro_server_def case_prod_beta del: lit_simps cmd_text.simps)


lemma sample_web_run:
  "\<exists>sha es s' name img ports env network x p t r. sample_deploy (lit ''web'') 0 = Some ((True, sha), es, s') \<and>
     Exec (RunApp name img ports env network x p) t r \<in> set es \<and> Say (Setup EnvCloned) \<in> set es"
  by (simp add: deploy_defs sample_there run_defs package_json_is_nitro_server_def case_prod_beta del: lit_simps cmd_text.simps)



theorem deployment_keeps_production_witness:
  "\<exists>sha es s' pre r post. sample_deploy [] 0 = Some ((True, sha), es, s') \<and>
     es = pre @ Exec (StopRemove app) 30 r # post \<and> answered (new_name app) (since_created (new_name app) pre)"
proof -
  obtain sha es s' r where run: "sample_deploy [] 0 = Some ((True, sha), es, s')" and "Exec (StopRemove app) 30 r \<in> set es"
    using deploy_sample_run by blast
  then obtain pre post where es: "es = pre @ Exec (StopRemove app) 30 r # post"
    by (meson split_list)
  from deployment_keeps_production [OF run es, unfolded sample_facts]
  have "answered (new_name app) (since_created (new_name app) pre)" by simp
  with run es show ?thesis by blast
qed


theorem deployment_terminates_witness:
  "clock_ok (ho_site (sample_host [])) \<and>
     (\<exists>ok sha es s'. deploy_with_log_hook (sample_host []) (sample_request []) 0 = Some ((ok, sha), es, s') \<and> probes es \<le> 1802)"
proof -
  have c: "clock_ok (ho_site (sample_host []))"
    by (simp add: clock_ok_def sample_host_def project_site_def sample_site_def)
  with deployment_terminates [OF c] show ?thesis by blast
qed

theorem subdirectory_loses_env_witness:
  "\<exists>sha es s' name img ports network x p t r. sample_deploy (lit ''web'') 0 = Some ((True, sha), es, s') \<and>
     Exec (RunApp name img ports None network x p) t r \<in> set es \<and> Say (Setup EnvCloned) \<in> set es"
proof -
  obtain sha es s' name img ports env network x p t r where
    run: "sample_deploy (lit ''web'') 0 = Some ((True, sha), es, s')"
    and e: "Exec (RunApp name img ports env network x p) t r \<in> set es" and said: "Say (Setup EnvCloned) \<in> set es"
    using sample_web_run by blast
  have dir: "lit ''/w/web'' = request_build_dir (sample_request (lit ''web'')) (request_dir (sample_host (lit ''/w'')) (sample_request (lit ''web'')))"
    unfolding sample_facts sample_fields_host ..
  have "env = None"
    by (rule subdirectory_loses_env [OF run dir _ _ e])
      (simp_all add: sample_host_def project_site_def sample_site_def sample_result_def)
  with run e said show ?thesis by blast
qed

end
