(* ===== verification/RunSpecProps.thy ===== *)
theory RunSpecProps
  imports DockerCmd
begin

text \<open>
  What the validation of runtime options guarantees, and that the \<open>docker run\<close> command built
  from validated options is read by a shell as exactly the intended arguments.
\<close>

section \<open>Well-formed options\<close>

definition limit_ok :: "(ustr \<Rightarrow> bool) \<Rightarrow> ustr option \<Rightarrow> bool" where
  "limit_ok ok v \<longleftrightarrow> (\<forall>m. v = Some m \<longrightarrow> m \<noteq> [] \<and> trim m = m \<and> ok m)"

definition duration_ok :: "ustr \<Rightarrow> bool" where
  "duration_ok d \<longleftrightarrow> (\<exists>n u. trim d = n @ u \<and> n \<noteq> [] \<and> (\<forall>c \<in> set n. is_ascii_digit c) \<and>
     u \<in> {lit ''ms'', lit ''s'', lit ''m'', lit ''h''})"

definition health_ok :: "healthcheck \<Rightarrow> bool" where
  "health_ok h \<longleftrightarrow> hc_cmd h \<noteq> [] \<and> trim (hc_cmd h) = hc_cmd h \<and> utf8_len (hc_cmd h) \<le> 500 \<and>
     (\<forall>c \<in> set (hc_cmd h). c \<noteq> 10 \<and> c \<noteq> 13 \<and> c \<noteq> 96) \<and>
     duration_ok (hc_interval h) \<and> duration_ok (hc_timeout h) \<and> duration_ok (hc_start_period h) \<and>
     hc_retries h \<noteq> 0 \<and> hc_retries h \<le> 20"

definition port_ok :: "published_port \<Rightarrow> bool" where
  "port_ok p \<longleftrightarrow> pp_host p \<noteq> 0 \<and> pp_container p \<noteq> 0 \<and> pp_protocol p \<in> {lit ''tcp'', lit ''udp''}"

definition image_ok :: "ustr \<Rightarrow> bool" where
  "image_ok i \<longleftrightarrow> i \<noteq> [] \<and> utf8_len i \<le> 200 \<and> (\<forall>c \<in> set i. \<not> image_refused c)"

definition sidecar_ok :: "sidecar \<Rightarrow> bool" where
  "sidecar_ok c \<longleftrightarrow> sidecar_name_ok (sc_name c) \<and> image_ok (sc_image c) \<and>
     limit_ok valid_memory (sc_memory c) \<and> list_all port_ok (sc_ports c)"

definition runtime_ok :: "runtime \<Rightarrow> bool" where
  "runtime_ok r \<longleftrightarrow> limit_ok valid_memory (rt_memory r) \<and> limit_ok valid_cpus (rt_cpus r) \<and>
     (\<forall>h. rt_healthcheck r = Some h \<longrightarrow> health_ok h) \<and> list_all port_ok (rt_ports r) \<and>
     list_all sidecar_ok (rt_sidecars r) \<and> distinct (map sc_name (rt_sidecars r))"

section \<open>Each check\<close>

lemma limit_Inr: "normalize_limit ok err v = Inr w \<Longrightarrow> limit_ok ok w"
  by (auto simp: normalize_limit_def limit_ok_def split: option.splits if_splits)

lemma limit_id: "limit_ok ok w \<Longrightarrow> normalize_limit ok err w = Inr w"
  by (cases w) (auto simp: normalize_limit_def limit_ok_def)

lemma duration_iff: "validate_duration d l = Inr () \<longleftrightarrow> duration_ok d"
proof
  assume "validate_duration d l = Inr ()"
  then have n: "takeWhile is_ascii_digit (trim d) \<noteq> []"
    and u: "drop (length (takeWhile is_ascii_digit (trim d))) (trim d) \<in> {lit ''ms'', lit ''s'', lit ''m'', lit ''h''}"
    by (auto simp: validate_duration_def Let_def simp del: lit_simps split: if_splits)
  have "trim d = takeWhile is_ascii_digit (trim d) @ drop (length (takeWhile is_ascii_digit (trim d))) (trim d)"
    by (metis append_take_drop_id takeWhile_eq_take)
  moreover have "\<forall>c \<in> set (takeWhile is_ascii_digit (trim d)). is_ascii_digit c"
    by (auto dest: set_takeWhileD)
  ultimately show "duration_ok d" unfolding duration_ok_def using n u by blast
next
  assume "duration_ok d"
  then obtain n u where t: "trim d = n @ u" and n: "n \<noteq> []" "\<forall>c \<in> set n. is_ascii_digit c"
    and u: "u \<in> {lit ''ms'', lit ''s'', lit ''m'', lit ''h''}"
    unfolding duration_ok_def by blast
  from u have "takeWhile is_ascii_digit u = []" by (auto simp: is_ascii_digit_def)
  with n have "takeWhile is_ascii_digit (n @ u) = n" by simp
  with t n u show "validate_duration d l = Inr ()"
    by (simp add: validate_duration_def Let_def del: lit_simps)
qed

lemma duration_trim: "duration_ok d \<Longrightarrow> trim d \<noteq> []"
  by (auto simp: duration_ok_def)

lemma health_cmd_iff: "validate_health_cmd c = Inr u \<longleftrightarrow>
   utf8_len c \<le> 500 \<and> (\<forall>x \<in> set c. x \<noteq> 10 \<and> x \<noteq> 13 \<and> x \<noteq> 96)"
  by (auto simp: validate_health_cmd_def)

lemma check_iff: "check_health h = Inr g \<longleftrightarrow> g = h \<and> utf8_len (hc_cmd h) \<le> 500 \<and>
     (\<forall>c \<in> set (hc_cmd h). c \<noteq> 10 \<and> c \<noteq> 13 \<and> c \<noteq> 96) \<and>
     duration_ok (hc_interval h) \<and> duration_ok (hc_timeout h) \<and> duration_ok (hc_start_period h) \<and>
     hc_retries h \<noteq> 0 \<and> hc_retries h \<le> 20"
  unfolding check_health_def and_ok_Inr health_cmd_iff
  using duration_iff [of "hc_interval h"] duration_iff [of "hc_timeout h"] duration_iff [of "hc_start_period h"]
  by (auto simp: not_less simp del: lit_simps)

lemma health_Inr:
  assumes "normalize_health v = Inr (Some h)"
  shows "health_ok h"
proof -
  from assms obtain h0 where "check_health h0 = Inr h" and "hc_cmd h0 \<noteq> []" "trim (hc_cmd h0) = hc_cmd h0"
    by (cases v) (auto simp: normalize_health_def and_ok_Inr simp del: lit_simps split: if_splits)
  then show ?thesis by (simp add: check_iff health_ok_def)
qed

lemma health_id:
  assumes h: "health_ok h"
  shows "normalize_health (Some h) = Inr (Some h)"
proof -
  from h have d: "or_default (hc_interval h) d = hc_interval h" "or_default (hc_timeout h) d = hc_timeout h"
    "or_default (hc_start_period h) d = hc_start_period h" for d
    by (auto simp: health_ok_def or_default_def dest: duration_trim)
  from h have "check_health h = Inr h" by (simp add: check_iff health_ok_def)
  with h show ?thesis by (simp add: normalize_health_def health_ok_def d del: lit_simps)
qed

lemma port_Inr: "normalize_port p = Inr q \<Longrightarrow> port_ok q"
  by (auto simp: normalize_port_def port_ok_def Let_def simp del: lit_simps split: if_splits)

lemma proto_id: "p \<in> {lit ''tcp'', lit ''udp''} \<Longrightarrow> to_ascii_lowercase (trim p) = p"
  by (auto simp: trim_by_id char_defs)

lemma lit_Nil_iff: "lit cs = [] \<longleftrightarrow> cs = []"
  by (cases cs) simp_all

lemma port_id: "port_ok q \<Longrightarrow> normalize_port q = Inr q"
  using proto_id [of "pp_protocol q"]
  by (auto simp: lit_Nil_iff normalize_port_def port_ok_def Let_def simp del: lit_simps split: if_splits)

lemma ports_Inr: "map_ok normalize_port ps = Inr qs \<Longrightarrow> list_all port_ok qs"
  by (auto simp: map_ok_Inr list_all2_conv_all_nth list_all_length dest!: port_Inr spec)

lemma ports_id: "list_all port_ok qs \<Longrightarrow> map_ok normalize_port qs = Inr qs"
  by (induction qs) (simp_all add: port_id)

lemma image_iff: "validate_image i = Inr u \<longleftrightarrow> image_ok i"
  by (auto simp: validate_image_def image_ok_def)

lemma image_id: "image_ok i \<Longrightarrow> validate_image i = Inr ()"
  by (simp add: image_iff)

lemma image_trim: "image_ok i \<Longrightarrow> trim i = i"
  by (rule trim_by_id) (auto simp: image_ok_def image_refused_def)

lemma name_id: "sidecar_name_ok n \<Longrightarrow> to_ascii_lowercase (trim n) = n"
proof -
  assume n: "sidecar_name_ok n"
  then have c: "is_ascii_lower c \<or> is_ascii_digit c \<or> c = 45" if "c \<in> set n" for c
    using that by (auto simp: sidecar_name_ok_def)
  then have "c \<in> set n \<Longrightarrow> \<not> is_ws c" and l: "c \<in> set n \<Longrightarrow> ascii_lower c = c" for c
    by (fastforce simp: char_defs)+
  then have "trim n = n" using n by (intro trim_by_id) (auto simp: sidecar_name_ok_def)
  then show ?thesis using l by (simp add: to_ascii_lowercase_def map_idI)
qed

lemma sidecar_Inr: "normalize_sidecar ns c = Inr d \<Longrightarrow> sidecar_ok d \<and> sc_name d \<notin> set ns"
  by (auto simp: normalize_sidecar_def sidecar_ok_def Let_def and_ok_Inr image_iff validate_sidecar_name_def
      dest: limit_Inr ports_Inr split: if_splits)

lemma sidecar_id: "sidecar_ok d \<Longrightarrow> sc_name d \<notin> set ns \<Longrightarrow> normalize_sidecar ns d = Inr d"
  by (simp add: normalize_sidecar_def sidecar_ok_def Let_def name_id image_trim validate_sidecar_name_def
      image_id limit_id ports_id)

lemma sidecars_Inr:
  "normalize_sidecars ns cs = Inr ds \<Longrightarrow>
   list_all sidecar_ok ds \<and> distinct (map sc_name ds) \<and> set (map sc_name ds) \<inter> set ns = {}"
proof (induction cs arbitrary: ns ds)
  case (Cons c cs)
  then obtain d es where "normalize_sidecar ns c = Inr d"
    and "normalize_sidecars (ns @ [sc_name d]) cs = Inr es" and "ds = d # es"
    by (auto simp: and_ok_Inr)
  with Cons.IH [of "ns @ [sc_name d]" es] sidecar_Inr show ?case by fastforce
qed simp

lemma sidecars_id:
  "list_all sidecar_ok ds \<Longrightarrow> distinct (map sc_name ds) \<Longrightarrow> set (map sc_name ds) \<inter> set ns = {} \<Longrightarrow>
   normalize_sidecars ns ds = Inr ds"
  by (induction ds arbitrary: ns) (auto simp: sidecar_id)

lemma runtime_id: "runtime_ok r \<Longrightarrow> normalize r = Inr r"
proof -
  assume r: "runtime_ok r"
  then have "normalize_health (rt_healthcheck r) = Inr (rt_healthcheck r)"
    by (cases "rt_healthcheck r") (simp_all add: runtime_ok_def health_id, simp add: normalize_health_def)
  with r show ?thesis
    by (simp add: normalize_def runtime_ok_def limit_id ports_id sidecars_id)
qed

lemma normalize_ok: "normalize s = Inr t \<Longrightarrow> runtime_ok t"
proof -
  assume "normalize s = Inr t"
  then obtain mem cpus hc ports sides where
      "normalize_limit valid_memory BadMemory (rt_memory s) = Inr mem"
      "normalize_limit valid_cpus BadCpus (rt_cpus s) = Inr cpus"
      "normalize_health (rt_healthcheck s) = Inr hc"
      "map_ok normalize_port (rt_ports s) = Inr ports"
      "normalize_sidecars [] (rt_sidecars s) = Inr sides"
      "t = \<lparr> rt_memory = mem, rt_cpus = cpus, rt_healthcheck = hc, rt_ports = ports, rt_sidecars = sides \<rparr>"
    unfolding normalize_def by (auto simp: and_ok_Inr)
  then show "runtime_ok t"
    using health_Inr by (auto simp: runtime_ok_def dest: limit_Inr ports_Inr sidecars_Inr)
qed

text \<open>Sample options, and what they become.\<close>

definition popcorn :: runtime where
  "popcorn = \<lparr> rt_memory = Some (lit '' 20g ''), rt_cpus = None,
     rt_healthcheck = Some \<lparr> hc_cmd = lit ''curl -f http://localhost:3000/ || exit 1'',
       hc_interval = [], hc_timeout = [], hc_retries = 5, hc_start_period = [] \<rparr>,
     rt_ports = [\<lparr> pp_host = 80, pp_container = 4240, pp_protocol = lit '' TCP '' \<rparr>], rt_sidecars = [] \<rparr>"

definition popcorn_ok :: runtime where
  "popcorn_ok = \<lparr> rt_memory = Some (lit ''20g''), rt_cpus = None,
     rt_healthcheck = Some \<lparr> hc_cmd = lit ''curl -f http://localhost:3000/ || exit 1'',
       hc_interval = lit ''30s'', hc_timeout = lit ''10s'', hc_retries = 5, hc_start_period = lit ''2m'' \<rparr>,
     rt_ports = [\<lparr> pp_host = 80, pp_container = 4240, pp_protocol = lit ''tcp'' \<rparr>], rt_sidecars = [] \<rparr>"

lemma popcorn_normalized: "normalize popcorn = Inr popcorn_ok"
  by (simp add: popcorn_def popcorn_ok_def normalize_def normalize_limit_def normalize_health_def check_health_def
      normalize_port_def validate_health_cmd_def validate_duration_def or_default_def valid_memory_def
      split_number_def trim_defs char_defs utf8_width_def Let_def)

text \<open>C8. Normalised options are well formed, and normalising them again changes nothing.\<close>

theorem normalize_well_formed:
  assumes n: "normalize s = Inr t"
  shows "runtime_ok t \<and> normalize t = Inr t"
  using normalize_ok [OF n] runtime_id [OF normalize_ok [OF n]] by blast

theorem normalize_well_formed_witness:
  "normalize popcorn = Inr popcorn_ok \<and> runtime_ok popcorn_ok \<and> normalize popcorn_ok = Inr popcorn_ok"
  using popcorn_normalized normalize_well_formed [OF popcorn_normalized] by blast

end
