(* ===== verification/DockerCmdProps.thy ===== *)
theory DockerCmdProps
  imports RunSpecProps
begin

text \<open>
  The commands of \<open>docker.rs\<close> as a shell reads them: a \<open>docker run\<close> built from validated options
  is read as exactly the intended arguments, whatever the options contain, and so is the
  preview of a workshop. The script that recreates a container is read as one argument as
  long as no label has a single quote; after one, the rest of the label is outside quotes.
\<close>

section \<open>Plain words\<close>

lemma plain_app [simp]: "list_all sh_plain (a @ b) \<longleftrightarrow> list_all sh_plain a \<and> list_all sh_plain b"
  by simp

lemma dec_plain: "list_all sh_plain (dec n)"
  by (auto simp: list_all_iff sh_plain_def is_ascii_alnum_def dest: dec_digits)

lemma plain_word: "s \<noteq> [] \<Longrightarrow> list_all sh_plain s \<Longrightarrow> reads s s"
  by (rule reads_plain)

lemmas plain_defs = sh_plain_def is_ascii_alnum_def is_ascii_digit_def is_ascii_lower_def is_ascii_upper_def

lemma flag_words [simp]:
  "reads (lit ''docker'') (lit ''docker'')" "reads (lit ''run'') (lit ''run'')" "reads (lit ''-d'') (lit ''-d'')"
  "reads (lit ''--name'') (lit ''--name'')" "reads (lit ''--restart'') (lit ''--restart'')"
  "reads (lit ''unless-stopped'') (lit ''unless-stopped'')" "reads (lit ''--log-opt'') (lit ''--log-opt'')"
  "reads (lit ''--gpus'') (lit ''--gpus'')" "reads (lit ''all'') (lit ''all'')"
  "reads (lit ''--device'') (lit ''--device'')" "reads (lit ''/dev/dri'') (lit ''/dev/dri'')"
  "reads (lit ''--label'') (lit ''--label'')" "reads (lit ''='') (lit ''='')" "reads (lit ''-p'') (lit ''-p'')"
  "reads (lit ''--health-cmd'') (lit ''--health-cmd'')" "reads (lit ''--health-interval'') (lit ''--health-interval'')"
  "reads (lit ''--health-timeout'') (lit ''--health-timeout'')" "reads (lit ''--health-retries'') (lit ''--health-retries'')"
  "reads (lit ''--health-start-period'') (lit ''--health-start-period'')"
  "reads (lit ''--env-file'') (lit ''--env-file'')" "reads (lit ''-e'') (lit ''-e'')"
  "reads (lit ''HOST=0.0.0.0'') (lit ''HOST=0.0.0.0'')" "reads (lit ''-v'') (lit ''-v'')"
  "reads (lit ''--network'') (lit ''--network'')" "reads (lit ''--memory'') (lit ''--memory'')"
  "reads (lit ''--cpus'') (lit ''--cpus'')" "reads (lit ''--network-alias'') (lit ''--network-alias'')"
  by (rule plain_word; simp add: plain_defs)+

lemma reads_dec [simp]: "reads (dec n) (dec n)"
  by (rule plain_word) (simp_all add: dec_plain)

lemma reads_rotation [simp]:
  "reads (lit ''max-size='' @ dec a @ lit ''m'') (lit ''max-size='' @ dec a @ lit ''m'')"
  "reads (lit ''max-file='' @ dec b) (lit ''max-file='' @ dec b)"
  by (rule plain_word; simp add: dec_plain; simp add: plain_defs)+

lemma reads_ports [simp]: "reads (port_str a @ lit '':'' @ port_str b) (port_str a @ lit '':'' @ port_str b)"
  by (rule plain_word; simp add: dec_plain port_str_def; simp add: plain_defs)

lemma reads_publish [simp]: "reads (publish_flag p) (publish_flag p)"
  by (rule plain_word; simp add: dec_plain publish_flag_def; simp add: plain_defs)

lemma reads_listen [simp]: "reads (lit ''PORT='' @ port_str p) (lit ''PORT='' @ port_str p)"
  by (rule plain_word; simp add: dec_plain port_str_def; simp add: plain_defs)

section \<open>The intended arguments\<close>

definition flag_argv :: "string \<Rightarrow> ustr option \<Rightarrow> ustr list" where
  "flag_argv f v = (case nonempty v of None \<Rightarrow> [] | Some s \<Rightarrow> [lit f, s])"

definition label_argv :: "json option \<Rightarrow> ustr list" where
  "label_argv labels =
     (case labels of
        Some (JObj m) \<Rightarrow> concat (map (\<lambda>(k, v). [lit ''--label'', k @ lit ''='' @ unwrap_or (as_str v) []]) m)
      | _ \<Rightarrow> [])"

definition health_argv :: "healthcheck option \<Rightarrow> ustr list" where
  "health_argv h =
     (case h of None \<Rightarrow> []
      | Some hc \<Rightarrow>
          [lit ''--health-cmd'', hc_cmd hc, lit ''--health-interval'', hc_interval hc,
           lit ''--health-timeout'', hc_timeout hc, lit ''--health-retries'', dec (unat (hc_retries hc)),
           lit ''--health-start-period'', hc_start_period hc])"

definition run_argv ::
  "rotation \<Rightarrow> ustr \<Rightarrow> ustr \<Rightarrow> (port \<times> port) list \<Rightarrow> ustr option \<Rightarrow> ustr option \<Rightarrow> json option \<Rightarrow>
   bool \<Rightarrow> bool \<Rightarrow> ustr list \<Rightarrow> run_tune \<Rightarrow> port option \<Rightarrow> ustr list" where
  "run_argv rot name img ports env_file network labels nvidia dri volumes tune listen =
     [lit ''docker'', lit ''run'', lit ''-d'', lit ''--name'', name, lit ''--restart'', lit ''unless-stopped''] @
     log_rotation_args rot @
     (if nvidia then [lit ''--gpus'', lit ''all''] else []) @
     (if dri then [lit ''--device'', lit ''/dev/dri''] else []) @
     flag_argv ''--network'' network @
     label_argv labels @
     concat (map (\<lambda>(h, c). [lit ''-p'', port_str h @ lit '':'' @ port_str c]) ports) @
     concat (map (\<lambda>p. [lit ''-p'', publish_flag p]) (tu_ports tune)) @
     flag_argv ''--memory'' (tu_memory tune) @
     flag_argv ''--cpus'' (tu_cpus tune) @
     flag_argv ''--network-alias'' (tu_alias tune) @
     health_argv (tu_healthcheck tune) @
     (case env_file of None \<Rightarrow> [] | Some f \<Rightarrow> [lit ''--env-file'', f]) @
     [lit ''-e'', lit ''HOST=0.0.0.0''] @
     listen_args listen ports @
     concat (map (\<lambda>v. [lit ''-v'', v]) volumes) @
     [img]"

abbreviation words :: "ustr list \<Rightarrow> ustr list \<Rightarrow> bool" where
  "words \<equiv> list_all2 reads"

lemma words_concat: "(\<And>x. x \<in> set xs \<Longrightarrow> words (f x) (g x)) \<Longrightarrow> words (concat (map f xs)) (concat (map g xs))"
  by (induction xs) (auto intro: list_all2_appendI)

lemma words_flag: "reads (lit f) (lit f) \<Longrightarrow> words (flag f v) (flag_argv f v)"
  by (auto simp: flag_def flag_argv_def nonempty_def reads_escape split: option.splits)

lemma reads_value: "reads a (k @ lit ''='') \<Longrightarrow> reads (a @ shell_escape v) (k @ lit ''='' @ v)"
proof (cases "v = []")
  case False
  then show "reads a (k @ lit ''='') \<Longrightarrow> ?thesis"
    using reads_append [OF _ reads_escape [OF False], of a "k @ lit ''=''"] by simp
qed simp

lemma reads_key: "reads (shell_escape k @ lit ''='') (k @ lit ''='')"
proof (cases "k = []")
  case True
  then show ?thesis by (simp del: lit_simps)
next
  case False
  then show ?thesis using flag_words(13) by (intro reads_append reads_escape)
qed

lemma words_labels: "words (label_args labels) (label_argv labels)"
proof -
  have "reads (shell_escape k @ lit ''='' @ shell_escape v) (k @ lit ''='' @ v)" for k v
    using reads_value [OF reads_key, of k v] by simp
  then show ?thesis
    by (auto simp: label_args_def label_argv_def simp del: lit_simps split: option.splits json.splits intro!: words_concat)
qed

lemma duration_ne: "duration_ok d \<Longrightarrow> d \<noteq> []"
  by (auto dest: duration_trim)

lemma words_health: "(\<And>hc. h = Some hc \<Longrightarrow> health_ok hc) \<Longrightarrow> words (health_args h) (health_argv h)"
  by (cases h) (auto simp: health_args_def health_argv_def health_ok_def reads_escape duration_ne simp del: lit_simps)

lemma words_listen: "words (listen_args l ports) (listen_args l ports)"
  by (auto simp: listen_args_def simp del: lit_simps split: option.splits)

lemma words_rotation: "words (log_rotation_args rot) (log_rotation_args rot)"
  by (auto simp: log_rotation_args_def simp del: lit_simps split: option.splits)

lemma words_run:
  assumes "name \<noteq> []" and "img \<noteq> []" and "env_file \<noteq> Some []" and "[] \<notin> set volumes"
    and "\<And>hc. tu_healthcheck tune = Some hc \<Longrightarrow> health_ok hc"
  shows "words (run_args rot name img ports env_file network labels nvidia dri volumes tune listen)
     (run_argv rot name img ports env_file network labels nvidia dri volumes tune listen)"
proof -
  have v: "x \<in> set volumes \<Longrightarrow> reads (shell_escape x) x" for x
    using assms(4) by (metis reads_escape)
  have e: "words (case env_file of None \<Rightarrow> [] | Some f \<Rightarrow> [lit ''--env-file'', shell_escape f])
      (case env_file of None \<Rightarrow> [] | Some f \<Rightarrow> [lit ''--env-file'', f])"
    using assms(3) by (cases env_file) (auto simp: reads_escape simp del: lit_simps)
  show ?thesis
    unfolding run_args_def run_argv_def
    by (intro list_all2_appendI words_rotation words_flag words_labels words_health words_listen words_concat e assms(5))
      (use assms v in \<open>auto simp: reads_escape simp del: lit_simps split: prod.splits\<close>)
qed

lemma mount_ne: "normalize_volume_mount raw = Inr m \<Longrightarrow> m \<noteq> []"
  by (auto simp: normalize_volume_mount_def Let_def split: if_splits)

lemma mounts_ne: "add_mounts out raws = Inr ms \<Longrightarrow> [] \<notin> set out \<Longrightarrow> [] \<notin> set ms"
proof (induction raws arbitrary: out)
  case (Cons raw raws)
  then obtain m where m: "normalize_volume_mount raw = Inr m"
    and ms: "add_mounts (if m \<in> set out then out else out @ [m]) raws = Inr ms"
    by (auto simp: and_ok_Inr)
  have "[] \<notin> set (if m \<in> set out then out else out @ [m])"
    using Cons.prems(2) mount_ne [OF m] by auto
  with Cons.IH [OF ms] show ?case by blast
qed simp

text \<open>C6. The command that starts an application, built from validated options and mounts, is read by a
  shell as one simple command with exactly the intended arguments, whatever the texts in them.\<close>

theorem run_command_reads_back:
  assumes "normalize spec = Inr r" and "normalize_volume_mounts raws = Inr volumes"
    and "name \<noteq> []" and "img \<noteq> []" and "env_file \<noteq> Some []"
  shows "sh_words (docker_run_ex rot name img ports env_file network labels nvidia dri volumes (tune_of_runtime r) listen)
    = Some (run_argv rot name img ports env_file network labels nvidia dri volumes (tune_of_runtime r) listen)"
proof -
  have "runtime_ok r" using assms(1) by (rule normalize_ok)
  then have "tu_healthcheck (tune_of_runtime r) = Some hc \<Longrightarrow> health_ok hc" for hc
    by (simp add: tune_of_runtime_def runtime_ok_def)
  moreover have "[] \<notin> set volumes"
    using assms(2) mounts_ne unfolding normalize_volume_mounts_def by force
  ultimately show ?thesis
    unfolding docker_run_ex_def using assms(3-5) by (intro words_join words_run)
qed

lemma preview_reads_back:
  assumes "[] \<notin> set (docker_run_dev_preview_args name wd network labels p c img)"
  shows "sh_words (docker_run_dev_preview name wd network labels p c img) =
     Some (lit ''docker'' # docker_run_dev_preview_args name wd network labels p c img)"
  unfolding docker_run_dev_preview_def
proof (rule words_join)
  have "words (map shell_escape xs) xs" if "[] \<notin> set xs" for xs
    using that by (induction xs) (auto simp: reads_escape)
  with assms show "words (lit ''docker'' # map shell_escape (docker_run_dev_preview_args name wd network labels p c img))
     (lit ''docker'' # docker_run_dev_preview_args name wd network labels p c img)"
    by (simp del: lit_simps)
qed

section \<open>The script that recreates a container\<close>

lemma read_in_quotes: "39 \<notin> set s \<Longrightarrow> sh_lex Single (Some x) (s @ r) = sh_lex Single (Some (x @ s)) r"
  by (induction s arbitrary: x) auto

lemma script_quotes:
  "39 \<notin> set recreate_head" "39 \<notin> set recreate_read" "39 \<notin> set recreate_labels_eof" "39 \<notin> set recreate_run"
  by (simp_all add: recreate_head_def recreate_read_def recreate_labels_eof_def recreate_run_def)

lemma read_quoted_quote: "sh_lex Single (Some x) (quoted_quote @ r) = sh_lex Single (Some (x @ [39])) r"
  by (simp add: quoted_quote_def)

lemma safe_name_plain:
  assumes "is_safe_docker_name n"
  shows "shell_escape n = n" and "39 \<notin> set n"
  using assms by (auto simp: is_safe_docker_name_def list_all_iff docker_char_def shell_escape_def shell_safe_def
      is_ascii_alnum_def is_ascii_upper_def is_ascii_lower_def is_ascii_digit_def)

text \<open>What stands before the labels inside the quotes, and the whole script.\<close>

definition script_before :: "ustr \<Rightarrow> ustr" where
  "script_before name = recreate_head @ name @ recreate_read @ [39] @ recreate_labels_eof @ [39] @ [10]"

definition recreate_script :: "ustr \<Rightarrow> json \<Rightarrow> ustr" where
  "recreate_script name labels = script_before name @ label_lines labels @ recreate_run"

lemma read_before:
  assumes "is_safe_docker_name name"
  shows "sh_words (docker_recreate_with_labels name labels) =
    map_option (\<lambda>ws. lit ''sh'' # lit ''-c'' # ws)
      (sh_lex Single (Some (script_before name)) (label_lines labels @ recreate_run @ [39]))"
proof -
  have sh: "sh_lex Bare None (lit ''sh -c '' @ [39] @ r) =
      map_option (\<lambda>ws. lit ''sh'' # lit ''-c'' # ws) (sh_lex Single (Some []) r)" for r
    by (cases "sh_lex Single (Some []) r") (simp_all add: plain_defs)
  have nl: "sh_lex Single (Some x) (10 # r) = sh_lex Single (Some (x @ [10])) r" for x r
    by simp
  show ?thesis
    unfolding sh_words_def docker_recreate_with_labels_def sh script_before_def
    using script_quotes safe_name_plain [OF assms]
    by (simp add: read_in_quotes read_quoted_quote nl del: sh_lex.simps lit_simps)
qed

lemma recreate_reads:
  assumes "is_safe_docker_name name" and "39 \<notin> set (label_lines labels)"
  shows "sh_words (docker_recreate_with_labels name labels) =
    Some [lit ''sh'', lit ''-c'', recreate_script name labels]"
  using read_before [OF assms(1), of labels] assms(2) script_quotes(4)
  by (simp add: read_in_quotes recreate_script_def del: lit_simps)

text \<open>Labels without a single quote.\<close>

definition quote_free :: "(ustr \<times> json) list \<Rightarrow> bool" where
  "quote_free m \<longleftrightarrow> (\<forall>(k, v) \<in> set m. 39 \<notin> set k \<and> 39 \<notin> set (unwrap_or (as_str v) []))"

lemma quote_free_lines: "quote_free m \<Longrightarrow> 39 \<notin> set (label_lines (JObj m))"
  by (auto simp: quote_free_def label_lines_def)

lemma quote_free_insert:
  "quote_free m \<Longrightarrow> 39 \<notin> set k \<Longrightarrow> 39 \<notin> set (unwrap_or (as_str v) []) \<Longrightarrow> quote_free (jinsert k v m)"
  by (induction k v m rule: jinsert.induct) (auto simp: quote_free_def)

lemma quote_free_put:
  "quote_free m \<Longrightarrow> \<forall>e \<in> set kvs. 39 \<notin> set (fst e) \<and> 39 \<notin> set (snd e) \<Longrightarrow> quote_free (put_labels kvs m)"
  unfolding put_labels_def
proof (induction kvs arbitrary: m)
  case (Cons e kvs)
  obtain k v where e: "e = (k, v)" by (cases e)
  have "quote_free (jinsert k (JStr v) m)"
    using Cons.prems by (simp add: e quote_free_insert)
  with Cons.IH Cons.prems(2) show ?case by (simp add: e)
qed simp

lemma trim_by_sub: "x \<in> set (trim_by p s) \<Longrightarrow> x \<in> set s"
  unfolding trim_defs by (metis set_dropWhileD set_rev)

lemma router_quote_free: "39 \<notin> set (host_router_key host)"
proof -
  let ?step = "\<lambda>out c. if is_ascii_alnum c then out @ [ascii_lower c]
                              else if ends_with out [45] then out else out @ [45]"
  have "39 \<notin> set out \<Longrightarrow> 39 \<notin> set (foldl ?step out host)" for out
  proof (induction host arbitrary: out)
    case (Cons c host)
    have "is_ascii_alnum c \<Longrightarrow> ascii_lower c \<noteq> 39" by (auto simp: char_defs)
    with Cons show ?case by simp
  qed simp
  then have "39 \<notin> set (trim_by (\<lambda>c. c = 45) (foldl ?step [] host))"
    using trim_by_sub [of 39] by force
  then show ?thesis
    by (auto simp: host_router_key_def Let_def dest: in_set_takeD)
qed

lemma labels_quote_free:
  assumes "39 \<notin> set uuid" and "39 \<notin> set host" and "39 \<notin> set path" and "\<And>a. auth = Some a \<Longrightarrow> 39 \<notin> set a"
  shows "quote_free (entries (traefik_labels uuid host path p auth))"
proof -
  let ?service = "lit ''df-'' @ take 8 uuid"
  let ?router = "?service @ lit ''-'' @ host_router_key host"
  have u: "39 \<notin> set (take 8 uuid)" using assms(1) by (auto dest: in_set_takeD)
  have d: "39 \<notin> set (port_str p)" by (auto simp: port_str_def is_ascii_digit_def dest: dec_digits)
  have r: "39 \<notin> set (router_rule host path)" using assms(2,3) by (simp add: router_rule_def Let_def)
  have s: "\<forall>e \<in> set (service_labels ?service ?router (router_rule host path) p). 39 \<notin> set (fst e) \<and> 39 \<notin> set (snd e)"
    using u d r router_quote_free [of host] by (simp add: service_labels_def)
  have o: "\<forall>e \<in> set (sso_labels ?router a). 39 \<notin> set (fst e) \<and> 39 \<notin> set (snd e)"
    if n: "nonempty (map_option trim auth) = Some a" for a
  proof -
    from n obtain b where "auth = Some b" "a = trim b" by (auto simp: nonempty_def)
    with assms(4) trim_by_sub [of 39] have "39 \<notin> set a" by blast
    with u router_quote_free [of host] show ?thesis
      by (simp add: sso_labels_def Let_def sso_middleware_def)
  qed
  have "\<forall>e \<in> set (case nonempty (map_option trim auth) of None \<Rightarrow> [] | Some a \<Rightarrow> sso_labels ?router a).
      39 \<notin> set (fst e) \<and> 39 \<notin> set (snd e)"
    using o by (cases "nonempty (map_option trim auth)") simp_all
  with s show ?thesis
    unfolding traefik_labels_def traefik_labels_for_service_def Let_def entries.simps
    by (intro quote_free_put) (simp add: quote_free_def, unfold set_append ball_Un, blast)
qed

lemma routes_quote_free:
  assumes "39 \<notin> set uuid" and "\<And>a. auth = Some a \<Longrightarrow> 39 \<notin> set a"
    and "\<forall>r \<in> set routes. 39 \<notin> set (fst r) \<and> 39 \<notin> set (fst (snd r))"
  shows "quote_free (entries (traefik_labels_for_routes uuid routes auth))"
proof -
  let ?add = "\<lambda>m (k, v). if k = lit ''traefik.enable'' then m else jinsert k v m"
  have add: "quote_free m \<Longrightarrow> quote_free es \<Longrightarrow> quote_free (foldl ?add m es)" for m es
  proof (induction es arbitrary: m)
    case (Cons e es)
    obtain k v where e: "e = (k, v)" by (cases e)
    from Cons.prems(2) have "39 \<notin> set k" "39 \<notin> set (unwrap_or (as_str v) [])" "quote_free es"
      by (auto simp: quote_free_def e)
    with Cons show ?case by (simp add: e quote_free_insert del: lit_simps)
  qed simp
  let ?step = "\<lambda>m (host, path, p). foldl ?add m (entries (traefik_labels uuid host path p auth))"
  have "quote_free m \<Longrightarrow> \<forall>r \<in> set rs. 39 \<notin> set (fst r) \<and> 39 \<notin> set (fst (snd r)) \<Longrightarrow>
      quote_free (foldl ?step m rs)" for m rs
  proof (induction rs arbitrary: m)
    case (Cons r rs)
    obtain h q p where r: "r = (h, q, p)" by (cases r)
    from Cons.prems(2) have "quote_free (entries (traefik_labels uuid h q p auth))"
      using labels_quote_free [OF assms(1), of h q auth p] assms(2) r by simp
    note Cons.IH [OF add [OF Cons.prems(1) this]]
    moreover have "\<forall>r \<in> set rs. 39 \<notin> set (fst r) \<and> 39 \<notin> set (fst (snd r))" using Cons.prems(2) by simp
    ultimately show ?case unfolding r foldl.simps prod.case by blast
  qed simp
  from this [of "jinsert (lit ''traefik.enable'') (JStr (lit ''true'')) []" routes] assms(3)
  show ?thesis
    unfolding traefik_labels_for_routes_def entries.simps
    by (simp add: quote_free_def)
qed

text \<open>As long as no host and no path of a project has a single quote, the shell reads the script that
  recreates its container as the single argument of \<open>sh -c\<close>.\<close>

lemma recreate_is_one_argument:
  assumes "is_safe_docker_name name" and "39 \<notin> set uuid" and "\<And>a. auth = Some a \<Longrightarrow> 39 \<notin> set a"
    and "\<forall>r \<in> set routes. 39 \<notin> set (fst r) \<and> 39 \<notin> set (fst (snd r))"
  shows "sh_words (docker_update_labels name (traefik_labels_for_routes uuid routes auth)) =
    Some [lit ''sh'', lit ''-c'', recreate_script name (traefik_labels_for_routes uuid routes auth)]"
proof -
  from quote_free_lines [OF routes_quote_free [OF assms(2-4)]]
  have "39 \<notin> set (label_lines (traefik_labels_for_routes uuid routes auth))"
    by (simp add: traefik_labels_for_routes_def del: lit_simps)
  with recreate_reads [OF assms(1)] show ?thesis
    unfolding docker_update_labels_def by blast
qed

text \<open>What follows a single quote in a label value is read outside quotes, as commands. Nothing keeps a
  quote out of the host or the path of a route.\<close>

lemma label_quote_escapes:
  assumes "is_safe_docker_name name" and "quote_free m0" and "39 \<notin> set k" and "39 \<notin> set p"
    and "labels = JObj (m0 @ (k, JStr (p @ 39 # v)) # m)"
  shows "sh_words (docker_recreate_with_labels name labels) =
    map_option (\<lambda>ws. lit ''sh'' # lit ''-c'' # ws)
      (sh_lex Bare (Some (script_before name @ label_lines (JObj m0) @ k @ lit ''='' @ p))
        (v @ [10] @ label_lines (JObj m) @ recreate_run @ [39]))"
proof -
  let ?before = "label_lines (JObj m0) @ k @ lit ''='' @ p"
  have l: "label_lines labels = ?before @ 39 # v @ [10] @ label_lines (JObj m)"
    by (simp add: assms(5) label_lines_def)
  have "39 \<notin> set ?before" using assms(3,4) quote_free_lines [OF assms(2)] by simp
  then show ?thesis
    unfolding read_before [OF assms(1)] l by (simp add: read_in_quotes del: lit_simps)
qed

text \<open>The ports docker is asked for are not those of the container: the template prints the host port
  and a text in braces.\<close>

lemma contains_line: "l \<in> set ls \<Longrightarrow> contains l w \<Longrightarrow> contains (join [10] ls) w"
proof (induction ls)
  case (Cons x xs)
  show ?case
  proof (cases "l \<in> set xs")
    case True
    from Cons.IH [OF True Cons.prems(2)] obtain c d where "join [10] xs = c @ w @ d"
      unfolding contains_iff by blast
    moreover from True have "xs \<noteq> []" by auto
    ultimately have "join [10] (x # xs) = (x @ [10] @ c) @ w @ d" by (simp add: join_Cons)
    then show ?thesis unfolding contains_iff by blast
  next
    case False
    with Cons.prems have "contains x w" by simp
    then obtain a b where "x = a @ w @ b" unfolding contains_iff by blast
    then have "join [10] (x # xs) = a @ w @ b @ (if xs = [] then [] else [10] @ join [10] xs)"
      by (simp add: join_Cons)
    then show ?thesis unfolding contains_iff by blast
  qed
qed simp

lemma recreate_port_template:
  "contains recreate_run (lit '':{'' @ [92] @ lit ''${p}} {{end}}{{end}}'')"
  unfolding recreate_run_def
  by (rule contains_line [of "lit ''for spec in $(docker inspect -f '' @ [34] @ lit ''{{range '' @ [92] @ lit ''$p, ''
        @ [92] @ lit ''$conf := .HostConfig.PortBindings}}{{range '' @ [92]
        @ lit ''$conf}}{{.HostPort}}:{'' @ [92] @ lit ''${p}} {{end}}{{end}}'' @ [34]
        @ lit '' '' @ [34] @ lit ''$N'' @ [34] @ lit ''); do''"])
    (simp, simp add: contains_def)

section \<open>Witnesses and examples\<close>

theorem run_command_reads_back_witness:
  "sh_words (docker_run_ex None (lit ''df-a-new'') (lit ''img:1'') [(3000, 3000)] (Some (lit ''.env'')) None
     (Some (JObj [(lit ''rule'', JStr (lit ''Host(`a b`)''))])) False False [lit ''/srv:/data''] (tune_of_runtime popcorn_ok) None)
   = Some (run_argv None (lit ''df-a-new'') (lit ''img:1'') [(3000, 3000)] (Some (lit ''.env'')) None
     (Some (JObj [(lit ''rule'', JStr (lit ''Host(`a b`)''))])) False False [lit ''/srv:/data''] (tune_of_runtime popcorn_ok) None)"
proof -
  have mounts: "normalize_volume_mounts [lit ''/srv:/data''] = Inr [lit ''/srv:/data'']"
    by (simp add: normalize_volume_mounts_def normalize_volume_mount_def trim_by_id mount_refused_def is_ws_def
        contains_def is_docker_volume_name_def Let_def)
  show ?thesis
    by (rule run_command_reads_back [OF popcorn_normalized mounts]) simp_all
qed

theorem recreate_is_one_argument_witness:
  "sh_words (docker_update_labels (lit ''df-a'')
      (traefik_labels_for_routes (lit ''a'') [(lit ''x.org'', lit ''/'', 3000)] None)) =
    Some [lit ''sh'', lit ''-c'', recreate_script (lit ''df-a'')
      (traefik_labels_for_routes (lit ''a'') [(lit ''x.org'', lit ''/'', 3000)] None)]"
proof -
  have "is_safe_docker_name (lit ''df-a'')"
    by (simp add: is_safe_docker_name_def docker_char_def char_defs utf8_width_def)
  then show ?thesis
    by (rule recreate_is_one_argument) simp_all
qed

text \<open>Validated options may publish a port of the reverse proxy.\<close>

lemma options_may_publish_80:
  "normalize popcorn = Inr popcorn_ok \<and>
   lit ''80:4240'' \<in> set (run_argv rot name img ports env network labels nvidia dri vols (tune_of_runtime popcorn_ok) listen)"
proof -
  have "\<exists>p \<in> set (tu_ports (tune_of_runtime popcorn_ok)). lit ''80:4240'' \<in> set [lit ''-p'', publish_flag p]"
    by (simp add: popcorn_ok_def tune_of_runtime_def publish_flag_def dec.simps)
  then show ?thesis
    using popcorn_normalized unfolding run_argv_def by fastforce
qed

text \<open>A single dot counts as an amount of memory.\<close>

lemma dot_is_memory: "valid_memory (lit ''.'')"
  by (simp add: valid_memory_def split_number_def trim_by_id char_defs)

end
