(* ===== verification/EnvFile.thy ===== *)
theory EnvFile
  imports Redact
begin

text \<open>
  The environment of a project (\<open>crates/env/src/lib.rs\<close>): a variable and how it is shown, the
  \<open>.env\<close> texts read and written, what of it a preview receives, and which variables of an import
  are written. The file system is a record of operations.
\<close>

record env_var =
  ev_key :: ustr
  ev_value :: ustr
  ev_secret :: bool
  ev_preview :: bool

datatype env_error =
    BadLine nat
  | BadLineKey nat ustr
  | BadEnvKey
  | EnvSql
  | MaskReceived ustr
  | EnvRead ustr

section \<open>Showing\<close>

definition public_view :: "env_var \<Rightarrow> json" where
  "public_view v =
     JObj [(lit ''has_value'', JBool (ev_value v \<noteq> [])),
           (lit ''key'', JStr (ev_key v)),
           (lit ''secret'', JBool (ev_secret v)),
           (lit ''value'', JStr
             (if ev_secret v then if ev_value v = [] then [] else lit ''********''
              else if is_sensitive_key (ev_key v) then mask_secret (ev_value v)
              else redact_str (ev_value v)))]"

definition env_for_preview :: "env_var list \<Rightarrow> (ustr \<times> ustr) list" where
  "env_for_preview vars =
     map (\<lambda>v. (ev_key v, ev_value v)) (filter (\<lambda>v. \<not> ev_secret v \<or> ev_preview v) vars)"

text \<open>The hash map collected from the pairs holds the last one of every key.\<close>

definition preview_leaks_production_secret :: "(ustr \<times> ustr) list \<Rightarrow> env_var list \<Rightarrow> bool" where
  "preview_leaks_production_secret mounted vars =
     list_ex (\<lambda>v. ev_secret v \<and> \<not> ev_preview v \<and> map_of (rev mounted) (ev_key v) = Some (ev_value v)) vars"

section \<open>Reading\<close>

definition env_key_ok :: "ustr \<Rightarrow> bool" where
  "env_key_ok key \<longleftrightarrow> key \<noteq> [] \<and> list_all (\<lambda>c. is_ascii_alnum c \<or> c = 95) key"

definition quoted_by :: "uchar \<Rightarrow> ustr \<Rightarrow> bool" where
  "quoted_by q value \<longleftrightarrow> starts_with value [q] \<and> ends_with value [q] \<and> utf8_len value \<ge> 2"

definition unquote :: "ustr \<Rightarrow> ustr" where
  "unquote value = (if quoted_by 34 value \<or> quoted_by 39 value then butlast (tl value) else value)"

definition parsed_var :: "ustr \<Rightarrow> ustr \<Rightarrow> env_var" where
  "parsed_var key value = \<lparr>ev_key = key, ev_value = value, ev_secret = True, ev_preview = False\<rparr>"

definition parse_line :: "nat \<Rightarrow> ustr \<Rightarrow> env_error + env_var option" where
  "parse_line i raw =
     (let line = trim raw
      in if line = [] \<or> starts_with line [35] then Inr None
         else let line = trim (unwrap_or (strip_prefix line (lit ''export '')) line)
              in case split_once 61 line of
                   None \<Rightarrow> Inl (BadLine (i + 1))
                 | Some (key, value) \<Rightarrow>
                     let key = trim key
                     in if \<not> env_key_ok key then Inl (BadLineKey (i + 1) key)
                        else Inr (Some (parsed_var key (unquote (trim value)))))"

fun parse_lines :: "nat \<Rightarrow> ustr list \<Rightarrow> env_error + env_var list" where
  "parse_lines i [] = Inr []"
| "parse_lines i (raw # ls) =
     (case parse_line i raw of
        Inl e \<Rightarrow> Inl e
      | Inr None \<Rightarrow> parse_lines (i + 1) ls
      | Inr (Some v) \<Rightarrow> and_ok (parse_lines (i + 1) ls) (\<lambda>vs. Inr (v # vs)))"

definition parse_dotenv :: "ustr \<Rightarrow> env_error + env_var list" where
  "parse_dotenv content = parse_lines 0 (str_lines content)"

section \<open>Writing\<close>

definition escape_char :: "uchar \<Rightarrow> ustr" where
  "escape_char c =
     (if c = 92 then [92, 92] else if c = 10 then [92, 110] else if c = 13 then [92, 114]
      else if c = 9 then [92, 116] else [c])"

definition escape_value :: "ustr \<Rightarrow> ustr" where
  "escape_value v = concat (map escape_char v)"

definition format_docker_env_line :: "ustr \<Rightarrow> ustr \<Rightarrow> ustr" where
  "format_docker_env_line key value = key @ [61] @ escape_value value @ [10]"

definition serialize_docker_env_file :: "(ustr \<times> ustr) list \<Rightarrow> ustr" where
  "serialize_docker_env_file vars = concat (map (\<lambda>(k, v). format_docker_env_line k v) vars)"

section \<open>Merging\<close>

text \<open>The counters cannot wrap: they count the elements of a vector.\<close>

record env_stats =
  es_imported :: nat
  es_updated :: nat
  es_unchanged :: nat
  es_skipped :: nat

definition no_stats :: env_stats where
  "no_stats = \<lparr>es_imported = 0, es_updated = 0, es_unchanged = 0, es_skipped = 0\<rparr>"

definition to_json :: "env_stats \<Rightarrow> json" where
  "to_json s =
     JObj [(lit ''imported'', JNum (dec (es_imported s))), (lit ''ok'', JBool True),
           (lit ''skipped'', JNum (dec (es_skipped s))), (lit ''unchanged'', JNum (dec (es_unchanged s))),
           (lit ''updated'', JNum (dec (es_updated s)))]"

fun needing_write :: "(ustr \<rightharpoonup> ustr) \<Rightarrow> bool \<Rightarrow> env_var list \<Rightarrow> env_var list \<times> env_stats \<Rightarrow> env_var list \<times> env_stats" where
  "needing_write m overwrite [] acc = acc"
| "needing_write m overwrite (var # vars) (ws, s) =
     needing_write m overwrite vars
       (if is_masked_placeholder (ev_value var) then (ws, s\<lparr>es_unchanged := es_unchanged s + 1\<rparr>)
        else (case m (ev_key var) of
                None \<Rightarrow> (ws @ [var], s\<lparr>es_imported := es_imported s + 1\<rparr>)
              | Some prev \<Rightarrow>
                  if prev = ev_value var then (ws, s\<lparr>es_unchanged := es_unchanged s + 1\<rparr>)
                  else if overwrite then (ws @ [var], s\<lparr>es_updated := es_updated s + 1\<rparr>)
                  else (ws, s\<lparr>es_skipped := es_skipped s + 1\<rparr>)))"

definition env_vars_needing_write :: "env_var list \<Rightarrow> env_var list \<Rightarrow> bool \<Rightarrow> env_var list \<times> env_stats" where
  "env_vars_needing_write existing incoming overwrite =
     needing_write (map_of (rev (map (\<lambda>v. (ev_key v, ev_value v)) existing))) overwrite incoming ([], no_stats)"

section \<open>The file of a working directory\<close>

text \<open>What the code uses of \<open>std::fs\<close>; an error is the text it displays.\<close>

record 's env_fs =
  fs_exists :: "ustr \<Rightarrow> 's \<Rightarrow> bool"
  fs_remove :: "ustr \<Rightarrow> ('s, ustr, unit) rop"
  fs_mkdirs :: "ustr \<Rightarrow> ('s, ustr, unit) rop"
  fs_write :: "ustr \<Rightarrow> ustr \<Rightarrow> ('s, ustr, unit) rop"
  fs_read :: "ustr \<Rightarrow> ('s, ustr, ustr) rop"

datatype materialize_outcome = Written | Removed | Absent

definition env_path :: "ustr \<Rightarrow> ustr" where
  "env_path workdir = workdir @ (if workdir = [] \<or> ends_with workdir [47] then [] else [47]) @ lit ''.env''"

definition materialize_dotenv_file :: "'s env_fs \<Rightarrow> ustr \<Rightarrow> (ustr \<times> ustr) list \<Rightarrow> ('s, ustr, materialize_outcome) rop" where
  "materialize_dotenv_file F workdir vars s =
     (let p = env_path workdir
      in if vars = []
         then if fs_exists F p s then andthen (fs_remove F p) (\<lambda>_. ret Removed) s else (s, Inr Absent)
         else andthen (fs_mkdirs F workdir) (\<lambda>_.
              andthen (fs_write F p (serialize_docker_env_file vars)) (\<lambda>_. ret Written)) s)"

definition read_dotenv_file :: "'s env_fs \<Rightarrow> ustr \<Rightarrow> ('s, env_error, env_var list option) rop" where
  "read_dotenv_file F workdir s =
     (let p = env_path workdir
      in if \<not> fs_exists F p s then (s, Inr None)
         else (case fs_read F p s of
                 (s1, Inl e) \<Rightarrow> (s1, Inl (EnvRead e))
               | (s1, Inr content) \<Rightarrow> (s1, map_sum id Some (parse_dotenv content))))"

end
