(* ===== verification/EnvStore.thy ===== *)
theory EnvStore
  imports EnvFile Tables
begin

text \<open>
  Where the variables of the projects are kept: the interface \<open>EnvStore\<close> and \<open>MemoryEnvStore\<close>
  (\<open>crates/env/src/lib.rs\<close>), \<open>SqliteEnvStore\<close> (\<open>apps/server/src/state.rs\<close>, the table
  \<open>project_env_vars\<close>), the facade over any store, and the exchange with the \<open>.env\<close> file of the
  working directory (\<open>apps/server/src/routes.rs\<close>). The locale \<open>env_store\<close> is what both stores
  promise; the flag that lets a preview see a secret is not part of it.
\<close>

record 's env_ops =
  env_list :: "ustr \<Rightarrow> ('s, env_error, env_var list) rop"
  env_get :: "ustr \<Rightarrow> ustr \<Rightarrow> ('s, env_error, env_var option) rop"
  env_upsert :: "ustr \<Rightarrow> env_var \<Rightarrow> ('s, env_error, env_var) rop"
  env_delete :: "ustr \<Rightarrow> ustr \<Rightarrow> ('s, env_error, bool) rop"

section \<open>In memory\<close>

text \<open>The hash maps as the lists of their entries.\<close>

type_synonym env_mem = "(ustr \<times> (ustr \<times> env_var) list) list"

definition memory_env :: "env_mem env_ops" where
  "memory_env = \<lparr>
     env_list = (\<lambda>p s. (s, Inr (sort_key ev_key (map snd (unwrap_or (map_of s p) []))))),
     env_get = (\<lambda>p k s. (s, Inr (Option.bind (map_of s p) (\<lambda>m. map_of m k)))),
     env_upsert = (\<lambda>p var s.
       (let key = trim (ev_key var)
        in if \<not> env_key_ok key then (s, Inl BadEnvKey)
           else let clean = var\<lparr>ev_key := key\<rparr>
                in (AList.update p (AList.update key clean (unwrap_or (map_of s p) [])) s, Inr clean))),
     env_delete = (\<lambda>p k s.
       (case map_of s p of
          None \<Rightarrow> (s, Inr False)
        | Some m \<Rightarrow> (AList.update p (AList.delete k m) s, Inr (map_of m k \<noteq> None))))\<rparr>"

section \<open>In the database\<close>

record env_row =
  pe_project :: ustr
  pe_key :: ustr
  pe_value :: ustr
  pe_secret :: int
  pe_preview :: int
  pe_updated :: ustr

record env_db =
  ed_rows :: "env_row list"
  ed_now :: ustr
  ed_faults :: "bool list"

text \<open>A query fails when the schedule says so.\<close>

definition env_query :: "(env_row list \<Rightarrow> env_row list \<times> 'a) \<Rightarrow> (env_db, env_error, 'a) rop" where
  "env_query q s =
     (let t = s\<lparr>ed_faults := tl (ed_faults s)\<rparr>
      in if ed_faults s \<noteq> [] \<and> hd (ed_faults s) then (t, Inl EnvSql)
         else (t\<lparr>ed_rows := fst (q (ed_rows s))\<rparr>, Inr (snd (q (ed_rows s)))))"

definition pe_id :: "env_row \<Rightarrow> ustr \<times> ustr" where
  "pe_id r = (pe_project r, pe_key r)"

definition var_of_row :: "env_row \<Rightarrow> env_var" where
  "var_of_row r = \<lparr>ev_key = pe_key r, ev_value = pe_value r, ev_secret = (pe_secret r \<noteq> 0), ev_preview = False\<rparr>"

definition sql_env :: "env_db env_ops" where
  "sql_env = \<lparr>
     env_list = (\<lambda>p. env_query (\<lambda>rows.
       (rows, map var_of_row (sort_key pe_key (filter (\<lambda>r. pe_project r = p) rows))))),
     env_get = (\<lambda>p k. env_query (\<lambda>rows. (rows, map_option var_of_row (select_row pe_id (p, k) rows)))),
     env_upsert = (\<lambda>p var s.
       (let key = trim (ev_key var)
        in if \<not> env_key_ok key then (s, Inl BadEnvKey)
           else env_query (\<lambda>rows.
                  (upsert_row pe_id (\<lambda>old new. new)
                     \<lparr>pe_project = p, pe_key = key, pe_value = ev_value var,
                      pe_secret = (if ev_secret var then 1 else 0), pe_preview = (if ev_preview var then 1 else 0),
                      pe_updated = ed_now s\<rparr> rows,
                   var\<lparr>ev_key := key\<rparr>)) s)),
     env_delete = (\<lambda>p k. env_query (\<lambda>rows. (delete_row pe_id (p, k) rows, select_row pe_id (p, k) rows \<noteq> None)))\<rparr>"

section \<open>The facade\<close>

definition list_raw :: "'s env_ops \<Rightarrow> ustr \<Rightarrow> ('s, env_error, env_var list) rop" where
  "list_raw S p = env_list S p"

definition facade_get :: "'s env_ops \<Rightarrow> ustr \<Rightarrow> ustr \<Rightarrow> ('s, env_error, env_var option) rop" where
  "facade_get S p k = env_get S p k"

definition facade_delete :: "'s env_ops \<Rightarrow> ustr \<Rightarrow> ustr \<Rightarrow> ('s, env_error, bool) rop" where
  "facade_delete S p k = env_delete S p k"

definition list_public :: "'s env_ops \<Rightarrow> ustr \<Rightarrow> ('s, env_error, json list) rop" where
  "list_public S p = andthen (env_list S p) (\<lambda>vs. ret (map public_view vs))"

definition facade_upsert :: "'s env_ops \<Rightarrow> ustr \<Rightarrow> env_var \<Rightarrow> ('s, env_error, json) rop" where
  "facade_upsert S p var =
     andthen
       (if is_masked_placeholder (ev_value var)
        then andthen (env_get S p (ev_key var)) (\<lambda>prev.
             case prev of
               Some old \<Rightarrow> ret (var\<lparr>ev_value := ev_value old\<rparr>)
             | None \<Rightarrow> fail (MaskReceived (ev_key var)))
        else ret var)
       (\<lambda>var. andthen (env_upsert S p var) (\<lambda>v. ret (public_view v)))"

fun upsert_all :: "'s env_ops \<Rightarrow> ustr \<Rightarrow> env_var list \<Rightarrow> ('s, env_error, unit) rop" where
  "upsert_all S p [] = ret ()"
| "upsert_all S p (v # vs) = andthen (env_upsert S p v) (\<lambda>_. upsert_all S p vs)"

definition merge_vars :: "'s env_ops \<Rightarrow> ustr \<Rightarrow> env_var list \<Rightarrow> bool \<Rightarrow> ('s, env_error, env_stats) rop" where
  "merge_vars S p incoming overwrite =
     andthen (env_list S p) (\<lambda>existing.
     let (ws, stats) = env_vars_needing_write existing incoming overwrite
     in andthen (upsert_all S p ws) (\<lambda>_. ret stats))"

definition import_dotenv :: "'s env_ops \<Rightarrow> ustr \<Rightarrow> ustr \<Rightarrow> bool \<Rightarrow> ('s, env_error, json) rop" where
  "import_dotenv S p content overwrite =
     andthen (lift_res id (parse_dotenv content)) (\<lambda>parsed.
     andthen (merge_vars S p parsed overwrite) (\<lambda>stats. ret (to_json stats)))"

section \<open>Exchange with the working directory\<close>

definition load_env_file_content :: "ustr \<Rightarrow> env_db \<Rightarrow> env_db \<times> ustr option" where
  "load_env_file_content p db =
     (case env_query (\<lambda>rows.
            (rows, map (\<lambda>r. (pe_key r, pe_value r)) (sort_key pe_key (filter (\<lambda>r. pe_project r = p) rows)))) db of
        (db1, Inl _) \<Rightarrow> (db1, None)
      | (db1, Inr rows) \<Rightarrow> (db1, if rows = [] then None else Some (serialize_docker_env_file rows)))"

text \<open>\<open>materialize_project_env_to_workdir\<close>: what could not be done is a message.\<close>

datatype materialized = Outcome materialize_outcome | MkdirFailed ustr | EnvQueryFailed | FileFailed ustr

definition project_rows :: "ustr \<Rightarrow> (env_db, env_error, (ustr \<times> ustr) list) rop" where
  "project_rows p = env_query (\<lambda>rows.
     (rows, map (\<lambda>r. (pe_key r, pe_value r)) (sort_key pe_key (filter (\<lambda>r. pe_project r = p) rows))))"

definition materialize_project_env ::
  "'s env_fs \<Rightarrow> ustr \<Rightarrow> ustr \<Rightarrow> env_db \<times> 's \<Rightarrow> (env_db \<times> 's) \<times> materialized" where
  "materialize_project_env F workdir p = (\<lambda>(db, s).
     case (if fs_exists F workdir s then (s, Inr ()) else fs_mkdirs F workdir s) of
       (s1, Inl e) \<Rightarrow> ((db, s1), MkdirFailed e)
     | (s1, Inr _) \<Rightarrow>
         (case project_rows p db of
            (db1, Inl _) \<Rightarrow> ((db1, s1), EnvQueryFailed)
          | (db1, Inr rows) \<Rightarrow>
              (case materialize_dotenv_file F workdir rows s1 of
                 (s2, Inl e) \<Rightarrow> ((db1, s2), FileFailed e)
               | (s2, Inr o1) \<Rightarrow> ((db1, s2), Outcome o1))))"

text \<open>\<open>sync_env_from_workdir\<close> after the request is authorised; without a file nothing is done.\<close>

definition sync_env_from_workdir ::
  "'s env_fs \<Rightarrow> ustr \<Rightarrow> ustr \<Rightarrow> env_db \<times> 's \<Rightarrow> (env_db \<times> 's) \<times> (env_error + (env_stats \<times> materialized) option)" where
  "sync_env_from_workdir F workdir p = (\<lambda>(db, s).
     case read_dotenv_file F workdir s of
       (s1, Inl e) \<Rightarrow> ((db, s1), Inl e)
     | (s1, Inr None) \<Rightarrow> ((db, s1), Inr None)
     | (s1, Inr (Some incoming)) \<Rightarrow>
         (case merge_vars sql_env p incoming True db of
            (db1, Inl e) \<Rightarrow> ((db1, s1), Inl e)
          | (db1, Inr stats) \<Rightarrow>
              (case materialize_project_env F workdir p (db1, s1) of
                 (st, o1) \<Rightarrow> (st, Inr (Some (stats, o1))))))"

section \<open>What a store promises\<close>

type_synonym env_abs = "ustr \<Rightarrow> ustr \<rightharpoonup> ustr \<times> bool"

definition stored :: "env_var \<Rightarrow> ustr \<times> bool" where
  "stored v = (ev_value v, ev_secret v)"

definition listed_vars :: "env_var list \<Rightarrow> (ustr \<rightharpoonup> ustr \<times> bool) \<Rightarrow> bool" where
  "listed_vars vs m \<longleftrightarrow> distinct (map ev_key vs) \<and> sorted (map ev_key vs) \<and>
     m = map_of (map (\<lambda>v. (ev_key v, stored v)) vs)"

definition put_env :: "ustr \<Rightarrow> env_var \<Rightarrow> env_abs \<Rightarrow> env_abs" where
  "put_env p v a = a(p := (a p)(ev_key v \<mapsto> stored v))"

locale env_store =
  fixes S :: "'s env_ops" and sinv :: "'s \<Rightarrow> bool" and sabs :: "'s \<Rightarrow> env_abs"
  assumes list_ok: "op_ok sinv sabs (env_list S p) (\<lambda>a vs a'. a' = a \<and> listed_vars vs (a p))"
    and get_ok: "op_ok sinv sabs (env_get S p k)
          (\<lambda>a r a'. a' = a \<and> map_option stored r = a p k \<and> (\<forall>v. r = Some v \<longrightarrow> ev_key v = k))"
    and upsert_ok: "op_ok sinv sabs (env_upsert S p v)
          (\<lambda>a w a'. env_key_ok (ev_key w) \<and> w = v\<lparr>ev_key := trim (ev_key v)\<rparr> \<and> a' = put_env p w a)"
    and delete_ok: "op_ok sinv sabs (env_delete S p k)
          (\<lambda>a b a'. a' = a(p := (a p)(k := None)) \<and> b = (a p k \<noteq> None))"

end
