(* ===== verification/EnvProps.thy ===== *)
theory EnvProps
  imports EnvStore RedactProps
begin

text \<open>
  The properties of the environments of projects: both stores keep the contract \<open>env_store\<close>; what
  a merge and an update leave in a store; what is read back of a \<open>.env\<close> file the server wrote, and
  what a synchronisation makes of it; and what a preview receives.
\<close>

section \<open>The stores keep the contract\<close>

definition mem_env_inv :: "env_mem \<Rightarrow> bool" where
  "mem_env_inv s \<longleftrightarrow> (\<forall>p m. map_of s p = Some m \<longrightarrow> keyed ev_key m)"

definition mem_env_abs :: "env_mem \<Rightarrow> env_abs" where
  "mem_env_abs s p = map_option stored \<circ> map_of (unwrap_or (map_of s p) [])"

definition sql_env_inv :: "env_db \<Rightarrow> bool" where
  "sql_env_inv s \<longleftrightarrow> distinct (map pe_id (ed_rows s))"

definition sql_env_abs :: "env_db \<Rightarrow> env_abs" where
  "sql_env_abs s p k = map_option (stored \<circ> var_of_row) (select_row pe_id (p, k) (ed_rows s))"

lemma stored_key [simp]: "stored (v\<lparr>ev_key := k\<rparr>) = stored v"
  by (simp add: stored_def)

lemma map_of_stored:
  "map_of (map (\<lambda>v. (ev_key v, stored v)) vs) = map_option stored \<circ> map_of (map (\<lambda>v. (ev_key v, v)) vs)"
  by (induction vs) auto

lemma keyed_vars:
  assumes "keyed ev_key m"
  shows "listed_vars (sort_key ev_key (map snd m)) (map_option stored \<circ> map_of m)"
proof -
  have "distinct (map ev_key (map snd m))"
    using keyed_keys [OF assms] assms unfolding keyed_def by metis
  then have d: "distinct (map ev_key (sort_key ev_key (map snd m)))" by (rule distinct_sort_key)
  then show ?thesis
    unfolding listed_vars_def map_of_stored using keyed_listed [OF assms _ d] by simp
qed

lemma mem_project:
  assumes "mem_env_inv s"
  shows "keyed ev_key (unwrap_or (map_of s p) [])"
  using assms by (cases "map_of s p") (auto simp: mem_env_inv_def keyed_def)

interpretation mem_env: env_store memory_env mem_env_inv mem_env_abs
proof unfold_locales
  fix p k v
  show "op_ok mem_env_inv mem_env_abs (env_list memory_env p) (\<lambda>a vs a'. a' = a \<and> listed_vars vs (a p))"
    by (intro op_okI) (auto simp: memory_env_def mem_env_abs_def intro: keyed_vars mem_project)
  show "op_ok mem_env_inv mem_env_abs (env_get memory_env p k)
          (\<lambda>a r a'. a' = a \<and> map_option stored r = a p k \<and> (\<forall>v. r = Some v \<longrightarrow> ev_key v = k))"
  proof (intro op_okI)
    fix s s' x
    assume i: "mem_env_inv s" and "env_get memory_env p k s = (s', Inr x)"
    then have "s' = s" and x: "x = map_of (unwrap_or (map_of s p) []) k"
      by (cases "map_of s p"; auto simp: memory_env_def)+
    then show "mem_env_inv s' \<and> mem_env_abs s' = mem_env_abs s \<and> map_option stored x = mem_env_abs s p k \<and>
        (\<forall>v. x = Some v \<longrightarrow> ev_key v = k)"
      using i mem_project [OF i, of p] by (auto simp: mem_env_abs_def keyed_def dest: map_of_SomeD)
  qed (simp add: memory_env_def)
  show "op_ok mem_env_inv mem_env_abs (env_upsert memory_env p v)
          (\<lambda>a w a'. env_key_ok (ev_key w) \<and> w = v\<lparr>ev_key := trim (ev_key v)\<rparr> \<and> a' = put_env p w a)"
  proof (intro op_okI)
    fix s s' x
    assume i: "mem_env_inv s" and "env_upsert memory_env p v s = (s', Inr x)"
    then have x: "env_key_ok (trim (ev_key v))" "x = v\<lparr>ev_key := trim (ev_key v)\<rparr>"
      and s': "s' = AList.update p (AList.update (ev_key x) x (unwrap_or (map_of s p) [])) s"
      by (auto simp: memory_env_def Let_def split: if_splits)
    have "mem_env_inv s'"
      using i mem_project [OF i, of p] by (auto simp: s' mem_env_inv_def update_conv' keyed_update)
    moreover have "mem_env_abs s' = put_env p x (mem_env_abs s)"
      by (auto simp: s' mem_env_abs_def put_env_def update_conv' fun_eq_iff)
    ultimately show "mem_env_inv s' \<and> env_key_ok (ev_key x) \<and> x = v\<lparr>ev_key := trim (ev_key v)\<rparr> \<and>
        mem_env_abs s' = put_env p x (mem_env_abs s)" using x by simp
  qed (auto simp: memory_env_def Let_def split: if_splits)
  show "op_ok mem_env_inv mem_env_abs (env_delete memory_env p k)
          (\<lambda>a b a'. a' = a(p := (a p)(k := None)) \<and> b = (a p k \<noteq> None))"
  proof (intro op_okI)
    fix s s' x
    assume i: "mem_env_inv s" and d: "env_delete memory_env p k s = (s', Inr x)"
    show "mem_env_inv s' \<and> mem_env_abs s' = (mem_env_abs s)(p := (mem_env_abs s p)(k := None)) \<and>
        x = (mem_env_abs s p k \<noteq> None)"
    proof (cases "map_of s p")
      case None
      with d i show ?thesis by (auto simp: memory_env_def mem_env_abs_def fun_eq_iff)
    next
      case (Some m)
      with d have s': "s' = AList.update p (AList.delete k m) s" and x: "x = (map_of m k \<noteq> None)"
        by (auto simp: memory_env_def)
      have "keyed ev_key m" using i Some by (auto simp: mem_env_inv_def)
      then have "mem_env_inv s'"
        using i by (auto simp: s' mem_env_inv_def update_conv' keyed_delete)
      then show ?thesis
        by (auto simp: s' x Some mem_env_abs_def update_conv' delete_conv' fun_eq_iff)
    qed
  qed (auto simp: memory_env_def split: option.splits)
qed

lemma env_query_cases:
  assumes "env_query q s = (s', r)"
  obtains "r = Inl EnvSql" and "ed_rows s' = ed_rows s"
  | "r = Inr (snd (q (ed_rows s)))" and "ed_rows s' = fst (q (ed_rows s))"
  using assms by (auto simp: env_query_def Let_def split: if_splits)

lemma project_lookup:
  assumes "distinct (map pe_id rows)"
  shows "map_of (map (\<lambda>r. (pe_key r, r)) (sort_key pe_key (filter (\<lambda>r. pe_project r = p) rows))) k =
    select_row pe_id (p, k) rows"
    and "distinct (map pe_key (filter (\<lambda>r. pe_project r = p) rows))"
proof -
  show d: "distinct (map pe_key (filter (\<lambda>r. pe_project r = p) rows))"
    using assms by (induction rows) (auto simp: pe_id_def image_iff)
  have sorted: "map_of (map (\<lambda>r. (pe_key r, r)) (sort_key pe_key (filter (\<lambda>r. pe_project r = p) rows))) =
      map_of (map (\<lambda>r. (pe_key r, r)) (filter (\<lambda>r. pe_project r = p) rows))"
    by (rule map_of_perm) (use d in \<open>auto intro: distinct_sort_key\<close>)
  show "map_of (map (\<lambda>r. (pe_key r, r)) (sort_key pe_key (filter (\<lambda>r. pe_project r = p) rows))) k =
    select_row pe_id (p, k) rows"
    unfolding sorted by (induction rows) (auto simp: select_row_def pe_id_def)
qed

lemma var_key [simp]: "ev_key (var_of_row r) = pe_key r"
  by (simp add: var_of_row_def)

lemma sql_env_listed:
  assumes "sql_env_inv s"
  shows "listed_vars (map var_of_row (sort_key pe_key (filter (\<lambda>r. pe_project r = p) (ed_rows s)))) (sql_env_abs s p)"
proof -
  let ?rows = "sort_key pe_key (filter (\<lambda>r. pe_project r = p) (ed_rows s))"
  have d: "distinct (map pe_id (ed_rows s))" using assms by (simp add: sql_env_inv_def)
  have "map_of (map (\<lambda>r. (pe_key r, stored (var_of_row r))) xs) =
      map_option (stored \<circ> var_of_row) \<circ> map_of (map (\<lambda>r. (pe_key r, r)) xs)" for xs
    by (induction xs) auto
  then have "map_of (map (\<lambda>v. (ev_key v, stored v)) (map var_of_row ?rows)) = sql_env_abs s p"
    using project_lookup(1) [OF d] by (simp add: fun_eq_iff sql_env_abs_def o_def)
  then show ?thesis
    using distinct_sort_key [OF project_lookup(2) [OF d, of p], of pe_key]
    by (simp add: listed_vars_def o_def)
qed

interpretation db_env: env_store sql_env sql_env_inv sql_env_abs
proof unfold_locales
  fix p k v
  show "op_ok sql_env_inv sql_env_abs (env_list sql_env p) (\<lambda>a vs a'. a' = a \<and> listed_vars vs (a p))"
  proof (intro op_okI)
    fix s s' x
    assume i: "sql_env_inv s" and "env_list sql_env p s = (s', Inr x)"
    then have "ed_rows s' = ed_rows s" and "x = map var_of_row (sort_key pe_key (filter (\<lambda>r. pe_project r = p) (ed_rows s)))"
      by (auto simp: sql_env_def elim: env_query_cases)
    then show "sql_env_inv s' \<and> sql_env_abs s' = sql_env_abs s \<and> listed_vars x (sql_env_abs s p)"
      using i sql_env_listed [OF i] by (simp add: sql_env_inv_def sql_env_abs_def fun_eq_iff)
  qed (auto simp: sql_env_def sql_env_inv_def sql_env_abs_def fun_eq_iff elim: env_query_cases)
  show "op_ok sql_env_inv sql_env_abs (env_get sql_env p k)
          (\<lambda>a r a'. a' = a \<and> map_option stored r = a p k \<and> (\<forall>v. r = Some v \<longrightarrow> ev_key v = k))"
  proof (intro op_okI)
    fix s s' x
    assume i: "sql_env_inv s" and "env_get sql_env p k s = (s', Inr x)"
    then have "ed_rows s' = ed_rows s" and "x = map_option var_of_row (select_row pe_id (p, k) (ed_rows s))"
      by (auto simp: sql_env_def elim: env_query_cases)
    then show "sql_env_inv s' \<and> sql_env_abs s' = sql_env_abs s \<and> map_option stored x = sql_env_abs s p k \<and>
        (\<forall>v. x = Some v \<longrightarrow> ev_key v = k)"
      using i by (auto simp: sql_env_inv_def sql_env_abs_def fun_eq_iff option.map_comp o_def pe_id_def
          dest: select_row_key)
  qed (auto simp: sql_env_def sql_env_inv_def sql_env_abs_def fun_eq_iff elim: env_query_cases)
  show "op_ok sql_env_inv sql_env_abs (env_upsert sql_env p v)
          (\<lambda>a w a'. env_key_ok (ev_key w) \<and> w = v\<lparr>ev_key := trim (ev_key v)\<rparr> \<and> a' = put_env p w a)"
  proof (intro op_okI)
    fix s s' x
    assume i: "sql_env_inv s" and u: "env_upsert sql_env p v s = (s', Inr x)"
    let ?r = "\<lparr>pe_project = p, pe_key = trim (ev_key v), pe_value = ev_value v,
        pe_secret = (if ev_secret v then 1 else 0), pe_preview = (if ev_preview v then 1 else 0),
        pe_updated = ed_now s\<rparr>"
    from u have x: "env_key_ok (trim (ev_key v))" "x = v\<lparr>ev_key := trim (ev_key v)\<rparr>"
      and rows: "ed_rows s' = upsert_row pe_id (\<lambda>old new. new) ?r (ed_rows s)"
      by (auto simp: sql_env_def Let_def split: if_splits elim: env_query_cases)
    have "sql_env_inv s'"
      using i unfolding sql_env_inv_def rows by (intro distinct_upsert) simp_all
    moreover have "sql_env_abs s' = put_env p x (sql_env_abs s)"
      by (auto simp: fun_eq_iff sql_env_abs_def put_env_def rows select_put x pe_id_def stored_def var_of_row_def)
    ultimately show "sql_env_inv s' \<and> env_key_ok (ev_key x) \<and> x = v\<lparr>ev_key := trim (ev_key v)\<rparr> \<and>
        sql_env_abs s' = put_env p x (sql_env_abs s)" using x by simp
  qed (auto simp: sql_env_def sql_env_inv_def sql_env_abs_def fun_eq_iff Let_def split: if_splits elim: env_query_cases)
  show "op_ok sql_env_inv sql_env_abs (env_delete sql_env p k)
          (\<lambda>a b a'. a' = a(p := (a p)(k := None)) \<and> b = (a p k \<noteq> None))"
  proof (intro op_okI)
    fix s s' x
    assume i: "sql_env_inv s" and "env_delete sql_env p k s = (s', Inr x)"
    then have rows: "ed_rows s' = delete_row pe_id (p, k) (ed_rows s)"
      and x: "x = (select_row pe_id (p, k) (ed_rows s) \<noteq> None)"
      by (auto simp: sql_env_def elim: env_query_cases)
    show "sql_env_inv s' \<and> sql_env_abs s' = (sql_env_abs s)(p := (sql_env_abs s p)(k := None)) \<and>
        x = (sql_env_abs s p k \<noteq> None)"
      using i distinct_delete_row by (auto simp: sql_env_inv_def sql_env_abs_def rows x select_delete fun_eq_iff)
  qed (auto simp: sql_env_def sql_env_inv_def sql_env_abs_def fun_eq_iff elim: env_query_cases)
qed

section \<open>Merging\<close>

definition needs_write :: "(ustr \<rightharpoonup> ustr) \<Rightarrow> bool \<Rightarrow> env_var \<Rightarrow> bool" where
  "needs_write m overwrite v \<longleftrightarrow> \<not> is_masked_placeholder (ev_value v) \<and>
     (case m (ev_key v) of None \<Rightarrow> True | Some prev \<Rightarrow> prev \<noteq> ev_value v \<and> overwrite)"

definition counted :: "env_stats \<Rightarrow> nat" where
  "counted s = es_imported s + es_updated s + es_unchanged s + es_skipped s"

lemma needing_write_spec:
  "fst (needing_write m ov vs (ws, s)) = ws @ filter (needs_write m ov) vs"
  "counted (snd (needing_write m ov vs (ws, s))) = counted s + length vs"
  by (induction vs arbitrary: ws s) (auto simp: needs_write_def counted_def split: option.splits)

lemma map_of_rev: "distinct (map fst m) \<Longrightarrow> map_of (rev m) = map_of m"
  by (subst map_of_inject_set) (simp_all add: rev_map [symmetric])

lemma listed_values: "listed_vars vs m \<Longrightarrow> map_of (rev (map (\<lambda>v. (ev_key v, ev_value v)) vs)) = map_option fst \<circ> m"
proof -
  assume l: "listed_vars vs m"
  then have "map_of (rev (map (\<lambda>v. (ev_key v, ev_value v)) vs)) = map_of (map (\<lambda>v. (ev_key v, ev_value v)) vs)"
    by (intro map_of_rev) (simp add: listed_vars_def o_def)
  also have "\<dots> = map_option fst \<circ> map_of (map (\<lambda>v. (ev_key v, stored v)) vs)"
    by (induction vs) (auto simp: stored_def)
  finally show ?thesis using l by (simp add: listed_vars_def)
qed

definition trimmed_key :: "env_var \<Rightarrow> env_var" where
  "trimmed_key v = v\<lparr>ev_key := trim (ev_key v)\<rparr>"

definition put_all :: "ustr \<Rightarrow> env_var list \<Rightarrow> env_abs \<Rightarrow> env_abs" where
  "put_all p vs a = foldl (\<lambda>a v. put_env p (trimmed_key v) a) a vs"

lemma put_all_other:
  "q \<noteq> p \<or> k \<notin> (\<lambda>v. trim (ev_key v)) ` set vs \<Longrightarrow> put_all p vs a q k = a q k"
proof (induction vs arbitrary: a)
  case (Cons v vs)
  then have "put_all p vs (put_env p (trimmed_key v) a) q k = put_env p (trimmed_key v) a q k" by auto
  with Cons.prems show ?case by (auto simp: put_all_def put_env_def trimmed_key_def)
qed (simp add: put_all_def)

lemma put_all_in:
  assumes "distinct (map (\<lambda>v. trim (ev_key v)) vs)" and "v \<in> set vs"
  shows "put_all p vs a p (trim (ev_key v)) = Some (stored v)"
  using assms
proof (induction vs arbitrary: a)
  case (Cons w vs)
  show ?case
  proof (cases "v = w")
    case True
    then have "trim (ev_key v) \<notin> (\<lambda>v. trim (ev_key v)) ` set vs" using Cons.prems(1) by simp
    then have "put_all p vs (put_env p (trimmed_key w) a) p (trim (ev_key v)) =
        put_env p (trimmed_key w) a p (trim (ev_key v))" by (intro put_all_other) simp
    then show ?thesis using True by (simp add: put_all_def put_env_def trimmed_key_def)
  next
    case False
    then have "put_all p vs (put_env p (trimmed_key w) a) p (trim (ev_key v)) = Some (stored v)"
      using Cons by simp
    then show ?thesis by (simp add: put_all_def)
  qed
qed simp

context env_store
begin

lemma upsert_all_ok:
  "op_sat sinv sabs (upsert_all S p vs) (\<lambda>a _ a'. a' = put_all p vs a) (\<lambda>a e a'. True)"
proof (induction vs)
  case Nil
  show ?case by (rule op_satI) (auto simp: put_all_def)
next
  case (Cons v vs)
  have 1: "op_sat sinv sabs (env_upsert S p v) (\<lambda>a w a'. a' = put_env p (trimmed_key v) a) (\<lambda>a e a'. True)"
    by (rule sat_weaken [OF upsert_ok [unfolded op_ok_sat]]) (simp_all add: trimmed_key_def)
  have all: "put_all p vs (put_env p (trimmed_key v) a) = put_all p (v # vs) a" for a
    by (simp add: put_all_def)
  show ?case
    unfolding upsert_all.simps by (rule sat_weaken [OF sat_andthen [OF 1 Cons]]) (use all in blast)+
qed

text \<open>A merge writes the variables that need it, and counts every one of the import.\<close>

lemma merge_ok:
  assumes "merge_vars S p incoming ov s = (s', Inr stats)" and i: "sinv s"
  shows "sinv s' \<and> sabs s' = put_all p (filter (needs_write (map_option fst \<circ> sabs s p) ov) incoming) (sabs s)
    \<and> counted stats = length incoming"
proof -
  from assms(1) obtain s1 vs where 1: "env_list S p s = (s1, Inr vs)"
    and 2: "(let (ws, st) = env_vars_needing_write vs incoming ov
       in andthen (upsert_all S p ws) (\<lambda>_. ret st)) s1 = (s', Inr stats)"
    unfolding merge_vars_def by auto
  from op_okD(1) [OF list_ok i 1] have i1: "sinv s1" and a: "sabs s1 = sabs s" and l: "listed_vars vs (sabs s p)"
    by auto
  let ?m = "map_option fst \<circ> sabs s p"
  have need: "env_vars_needing_write vs incoming ov =
      (filter (needs_write ?m ov) incoming, snd (needing_write ?m ov incoming ([], no_stats)))"
    unfolding env_vars_needing_write_def listed_values [OF l]
    using needing_write_spec(1) [of ?m ov incoming "[]" no_stats] by (simp add: prod_eq_iff)
  from 2 obtain u where u: "upsert_all S p (filter (needs_write ?m ov) incoming) s1 = (s', Inr u)"
    and st: "stats = snd (needing_write ?m ov incoming ([], no_stats))"
    unfolding need by auto
  have "counted stats = length incoming"
    unfolding st needing_write_spec(2) by (simp add: counted_def no_stats_def)
  with op_sat_Inr [OF upsert_all_ok u i1] show ?thesis unfolding a by blast
qed

text \<open>An update that carries a mask keeps the value.\<close>

lemma facade_upsert_ok:
  assumes "facade_upsert S p var s = (s', Inr shown)" and i: "sinv s"
  shows "\<exists>value. sinv s' \<and> sabs s' = put_env p (trimmed_key (var\<lparr>ev_value := value\<rparr>)) (sabs s) \<and>
    env_key_ok (trim (ev_key var)) \<and>
    shown = public_view (trimmed_key (var\<lparr>ev_value := value\<rparr>)) \<and>
    (if is_masked_placeholder (ev_value var) then \<exists>b. sabs s p (ev_key var) = Some (value, b) else value = ev_value var)"
proof (cases "is_masked_placeholder (ev_value var)")
  case False
  with assms(1) obtain w where "env_upsert S p var s = (s', Inr w)" and "shown = public_view w"
    unfolding facade_upsert_def by auto
  note g = op_okD(1) [OF upsert_ok i this(1)]
  then have "w = trimmed_key var" by (simp add: trimmed_key_def)
  with g False \<open>shown = public_view w\<close> show ?thesis
    by (intro exI [of _ "ev_value var"]) (simp add: trimmed_key_def)
next
  case True
  with assms(1) obtain s1 old w where 1: "env_get S p (ev_key var) s = (s1, Inr (Some old))"
    and 2: "env_upsert S p (var\<lparr>ev_value := ev_value old\<rparr>) s1 = (s', Inr w)" and "shown = public_view w"
    unfolding facade_upsert_def by (auto split: option.splits)
  note g = op_okD(1) [OF get_ok i 1]
  then have i1: "sinv s1" and a: "sabs s1 = sabs s" and v: "sabs s p (ev_key var) = Some (stored old)" by auto
  note u = op_okD(1) [OF upsert_ok i1 2]
  then have "w = trimmed_key (var\<lparr>ev_value := ev_value old\<rparr>)" by (simp add: trimmed_key_def)
  with u v a True \<open>shown = public_view w\<close> show ?thesis
    by (intro exI [of _ "ev_value old"]) (simp add: trimmed_key_def stored_def)
qed

end

section \<open>What is read back of a file\<close>

lemma trim_end_app: "\<not> p c \<Longrightarrow> trim_end_by p (a @ c # b) = a @ c # trim_end_by p b"
  by (simp add: trim_end_by_def dropWhile_append)

lemma trim_end_all: "(\<forall>c \<in> set t. p c) \<Longrightarrow> trim_end_by p (s @ t) = trim_end_by p s"
  by (simp add: trim_end_by_def dropWhile_append)

lemma trim_trim_end [simp]: "trim_by p (trim_end_by p s) = trim_by p s"
proof -
  obtain t where t: "s = trim_end_by p s @ t" "\<forall>c \<in> set t. p c"
    using trim_end_by_suffix by blast
  show ?thesis
  proof (cases "trim_end_by p s = []")
    case True
    with t have "\<forall>c \<in> set s. p c" by simp
    then have "trim_start_by p s = []" by (simp add: trim_start_by_def)
    then show ?thesis unfolding True by (simp add: trim_by_def)
  next
    case False
    then have "\<not> p (last (trim_end_by p s))" using trim_end_by_last by blast
    with False have "\<not> (\<forall>c \<in> set (trim_end_by p s). p c)" by (metis last_in_set)
    then have "trim_start_by p (trim_end_by p s @ t) = trim_start_by p (trim_end_by p s) @ t"
      unfolding trim_start_by_def by (auto simp: dropWhile_append)
    with t show ?thesis unfolding trim_by_def by (metis trim_end_all)
  qed
qed

lemma key_chars:
  assumes "env_key_ok k"
  shows "k \<noteq> []" and "c \<in> set k \<Longrightarrow> \<not> is_ws c \<and> c \<noteq> 61 \<and> c \<noteq> 10 \<and> c \<noteq> 13 \<and> c \<noteq> 35 \<and> c \<noteq> 32" and "trim k = k"
proof -
  show k: "k \<noteq> []" using assms by (simp add: env_key_ok_def)
  show c: "c \<in> set k \<Longrightarrow> \<not> is_ws c \<and> c \<noteq> 61 \<and> c \<noteq> 10 \<and> c \<noteq> 13 \<and> c \<noteq> 35 \<and> c \<noteq> 32" for c
    using assms by (auto simp: env_key_ok_def list_all_iff char_defs)
  show "trim k = k" by (rule trim_by_id) (use k c in auto)
qed

lemma escape_chars: "c \<in> set (escape_value v) \<Longrightarrow> c \<noteq> 10 \<and> c \<noteq> 13"
  by (auto simp: escape_value_def escape_char_def split: if_splits)

lemma no_export:
  assumes "env_key_ok k"
  shows "strip_prefix (k @ 61 # x) (lit ''export '') = None"
proof -
  have False if "starts_with (k @ 61 # x) (lit ''export '')"
  proof -
    from that obtain t where "k @ 61 # x = lit ''export '' @ t" by (auto simp: starts_with_iff)
    moreover have "takeWhile (\<lambda>c. c \<noteq> 61) (k @ 61 # x) = k"
      using key_chars(2) [OF assms] by (auto simp: takeWhile_append)
    ultimately have "k = lit ''export '' @ takeWhile (\<lambda>c. c \<noteq> 61) t" by simp
    then have "32 \<in> set k" by simp
    then show False using key_chars(2) [OF assms] by blast
  qed
  then show ?thesis by (auto simp: strip_prefix_def)
qed

lemma parse_written_line:
  assumes k: "env_key_ok k"
  shows "parse_line i (k @ 61 # escape_value v) = Inr (Some (parsed_var k (unquote (trim (escape_value v)))))"
proof -
  let ?e = "trim_end (escape_value v)"
  have h: "hd (k @ 61 # x) = hd k" "\<not> is_ws (hd k)" "hd k \<noteq> 35" for x
    using key_chars(1,2) [OF k] by (auto simp: hd_append)
  have ws: "\<not> is_ws 61" by (simp add: is_ws_def)
  have "trim_start (k @ 61 # x) = k @ 61 # x" for x
    by (rule trim_start_by_id) (use h(1) [of x] h(2) in auto)
  then have line: "trim (k @ 61 # x) = k @ 61 # trim_end x" for x
    using ws by (simp add: trim_by_def trim_end_app)
  have hash: "\<not> starts_with (k @ 61 # x) [35]" for x
    using h(1) [of x] h(3) by (cases k) auto
  have "split_once 61 (k @ 61 # ?e) = Some (k, ?e)"
    using key_chars(2) [OF k] by (auto simp: split_once_Some)
  then show ?thesis
    unfolding parse_line_def line Let_def
    by (simp add: hash no_export [OF k] line key_chars(3) [OF k] k del: lit_simps)
qed

lemma parse_written_lines:
  "\<forall>(k, v) \<in> set vars. env_key_ok k \<Longrightarrow>
   parse_lines i (map (\<lambda>(k, v). k @ 61 # escape_value v) vars) =
     Inr (map (\<lambda>(k, v). parsed_var k (unquote (trim (escape_value v)))) vars)"
  by (induction vars arbitrary: i) (auto simp: parse_written_line)

lemma lines_of:
  assumes "\<forall>l \<in> set ls. 10 \<notin> set l \<and> l \<noteq> [] \<and> 13 \<notin> set l"
  shows "str_lines (concat (map (\<lambda>l. l @ [10]) ls)) = ls"
proof -
  have "split_on (\<lambda>c. c = 10) (concat (map (\<lambda>l. l @ [10]) ls)) = ls @ [[]]"
    using assms
  proof (induction ls)
    case (Cons l ls)
    then have "split_on (\<lambda>c. c = 10) (l @ 10 # concat (map (\<lambda>l. l @ [10]) ls)) =
        l # split_on (\<lambda>c. c = 10) (concat (map (\<lambda>l. l @ [10]) ls))"
      by (intro split_on_app_sep) auto
    with Cons show ?case by simp
  qed simp
  moreover have "map strip_cr ls = ls"
  proof (rule map_idI)
    fix l assume "l \<in> set ls"
    with assms have "l \<noteq> []" "13 \<notin> set l" by auto
    then show "strip_cr l = l" by (metis last_in_set strip_cr_def)
  qed
  ultimately show ?thesis by (simp add: str_lines_def)
qed

text \<open>What is read back of a file the server wrote: every variable, with its value escaped,
  trimmed and without one pair of quotes.\<close>

lemma dotenv_reads_escaped:
  assumes "\<forall>(k, v) \<in> set vars. env_key_ok k"
  shows "parse_dotenv (serialize_docker_env_file vars) =
    Inr (map (\<lambda>(k, v). parsed_var k (unquote (trim (escape_value v)))) vars)"
proof -
  let ?ls = "map (\<lambda>(k, v). k @ 61 # escape_value v) vars"
  have "serialize_docker_env_file vars = concat (map (\<lambda>l. l @ [10]) ?ls)"
    by (induction vars) (auto simp: serialize_docker_env_file_def format_docker_env_line_def)
  moreover have "\<forall>l \<in> set ?ls. 10 \<notin> set l \<and> l \<noteq> [] \<and> 13 \<notin> set l"
    using assms key_chars(2) escape_chars by fastforce
  ultimately have "str_lines (serialize_docker_env_file vars) = ?ls" by (simp only: lines_of)
  then show ?thesis using parse_written_lines [OF assms] by (simp add: parse_dotenv_def)
qed

text \<open>Values that are read back as they are.\<close>

definition plain_value :: "ustr \<Rightarrow> bool" where
  "plain_value v \<longleftrightarrow> (\<forall>c \<in> set v. escape_char c = [c]) \<and> trim v = v \<and> unquote v = v"

lemma plain_reads: "plain_value v \<Longrightarrow> unquote (trim (escape_value v)) = v"
proof -
  assume v: "plain_value v"
  then have "map escape_char v = map (\<lambda>c. [c]) v" by (simp add: plain_value_def)
  then have "escape_value v = v" unfolding escape_value_def by (induction v) auto
  with v show ?thesis by (simp add: plain_value_def)
qed

section \<open>Synchronisation\<close>

definition project_vars :: "ustr \<Rightarrow> env_db \<Rightarrow> (ustr \<times> ustr) list" where
  "project_vars p db =
     map (\<lambda>r. (pe_key r, pe_value r)) (sort_key pe_key (filter (\<lambda>r. pe_project r = p) (ed_rows db)))"

text \<open>The file holds what the server wrote of the project.\<close>

definition in_step :: "'s env_fs \<Rightarrow> ustr \<Rightarrow> ustr \<Rightarrow> env_db \<Rightarrow> 's \<Rightarrow> bool" where
  "in_step F workdir p db s \<longleftrightarrow> fs_exists F (env_path workdir) s \<and>
     snd (fs_read F (env_path workdir) s) = Inr (serialize_docker_env_file (project_vars p db)) \<and>
     (\<forall>(k, v) \<in> set (project_vars p db). env_key_ok k)"

lemma vars_lookup:
  assumes "sql_env_inv db"
  shows "map_of (project_vars p db) = map_option fst \<circ> sql_env_abs db p"
    and "distinct (map fst (project_vars p db))"
proof -
  have d: "distinct (map pe_id (ed_rows db))" using assms by (simp add: sql_env_inv_def)
  have "map_of (map (\<lambda>r. (pe_key r, pe_value r)) xs) k = map_option pe_value (map_of (map (\<lambda>r. (pe_key r, r)) xs) k)"
    for xs :: "env_row list" and k by (induction xs) auto
  then show "map_of (project_vars p db) = map_option fst \<circ> sql_env_abs db p"
    unfolding project_vars_def
    by (intro ext) (simp add: project_lookup(1) [OF d] sql_env_abs_def option.map_comp o_def stored_def var_of_row_def)
  show "distinct (map fst (project_vars p db))"
    using distinct_sort_key [OF project_lookup(2) [OF d, of p], of pe_key] by (simp add: project_vars_def o_def)
qed

lemma materialize_rows:
  assumes "materialize_project_env F wd p (db, s) = ((db', s'), o1)"
  shows "ed_rows db' = ed_rows db"
  using assms unfolding materialize_project_env_def project_rows_def
  by (auto split: prod.splits sum.splits if_splits elim!: env_query_cases)

lemma sync_cases:
  assumes "in_step F wd p db s" and "sync_env_from_workdir F wd p (db, s) = ((db', s'), r)"
  obtains (refused) e where "r = Inl e" and "merge_vars sql_env p (map (\<lambda>(k, v). parsed_var k
      (unquote (trim (escape_value v)))) (project_vars p db)) True db = (db', Inl e)"
  | (merged) stats o1 db1 where "r = Inr (Some (stats, o1))" and "merge_vars sql_env p (map (\<lambda>(k, v). parsed_var k
      (unquote (trim (escape_value v)))) (project_vars p db)) True db = (db1, Inr stats)"
      and "ed_rows db' = ed_rows db1"
proof -
  let ?vars = "map (\<lambda>(k, v). parsed_var k (unquote (trim (escape_value v)))) (project_vars p db)"
  obtain s1 where "read_dotenv_file F wd s = (s1, Inr (Some ?vars))"
    using assms(1) dotenv_reads_escaped [of "project_vars p db"]
    by (cases "fs_read F (env_path wd) s") (auto simp: in_step_def read_dotenv_file_def)
  with assms(2) show thesis
    by (cases "merge_vars sql_env p ?vars True db")
      (auto simp: sync_env_from_workdir_def split: sum.splits prod.splits
        intro: refused merged dest: materialize_rows)
qed

text \<open>A synchronisation with a file that is in step changes no row when every value is plain.\<close>

lemma sync_idle:
  assumes i: "sql_env_inv db" and f: "in_step F wd p db s"
    and plain: "\<forall>(k, v) \<in> set (project_vars p db). plain_value v"
    and r: "sync_env_from_workdir F wd p (db, s) = ((db', s'), r)"
  shows "ed_rows db' = ed_rows db"
proof -
  let ?vars = "map (\<lambda>(k, v). parsed_var k (unquote (trim (escape_value v)))) (project_vars p db)"
  let ?m = "map_option fst \<circ> sql_env_abs db p"
  have "\<not> needs_write ?m True v" if v: "v \<in> set ?vars" for v
  proof -
    from v obtain k x where x: "(k, x) \<in> set (project_vars p db)" and "v = parsed_var k (unquote (trim (escape_value x)))"
      by auto
    with plain plain_reads have "v = parsed_var k x" by fastforce
    moreover have "?m k = Some x"
      using map_of_is_SomeI [OF vars_lookup(2) [OF i] x] by (simp only: vars_lookup(1) [OF i])
    ultimately show ?thesis by (auto simp: needs_write_def parsed_var_def)
  qed
  then have none: "filter (needs_write ?m True) ?vars = []" by (simp add: filter_empty_conv del: set_map)
  have "ed_rows db1 = ed_rows db" if m: "merge_vars sql_env p ?vars True db = (db1, res)" for db1 res
  proof -
    obtain db0 q where l: "env_list sql_env p db = (db0, q)" by fastforce
    then have rows: "ed_rows db0 = ed_rows db" by (auto simp: sql_env_def elim: env_query_cases)
    show ?thesis
    proof (cases q)
      case (Inl e)
      with m l rows show ?thesis by (simp add: merge_vars_def andthen_def)
    next
      case (Inr existing)
      with op_okD(1) [OF db_env.list_ok i] l have ex: "listed_vars existing (sql_env_abs db p)" by blast
      have "fst (env_vars_needing_write existing ?vars True) = []"
        unfolding env_vars_needing_write_def listed_values [OF ex] needing_write_spec by (simp only: none append_Nil)
      with m l Inr rows show ?thesis by (simp add: merge_vars_def andthen_def case_prod_beta ret_def)
    qed
  qed
  with sync_cases [OF f r] show ?thesis by metis
qed

text \<open>A synchronisation with a file that is in step gives every variable the value that is read
  back of it: a backslash, for one, is doubled every time.\<close>

lemma sync_rewrites_values:
  assumes i: "sql_env_inv db" and f: "in_step F wd p db s" and kv: "(k, v) \<in> set (project_vars p db)"
    and r: "sync_env_from_workdir F wd p (db, s) = ((db', s'), Inr (Some res))"
    and unmasked: "\<not> is_masked_placeholder (unquote (trim (escape_value v)))"
  shows "\<exists>b. sql_env_abs db' p k = Some (unquote (trim (escape_value v)), b)"
proof -
  let ?vars = "map (\<lambda>(k, v). parsed_var k (unquote (trim (escape_value v)))) (project_vars p db)"
  let ?m = "map_option fst \<circ> sql_env_abs db p"
  let ?u = "unquote (trim (escape_value v))"
  let ?ws = "filter (needs_write ?m True) ?vars"
  from sync_cases [OF f r] obtain stats db1 where
      m: "merge_vars sql_env p ?vars True db = (db1, Inr stats)" and rows: "ed_rows db' = ed_rows db1"
    by (metis Inl_Inr_False)
  from db_env.merge_ok [OF m i] have abs: "sql_env_abs db' = put_all p ?ws (sql_env_abs db)"
    using rows by (simp add: sql_env_abs_def fun_eq_iff)
  have keys: "map (\<lambda>v. trim (ev_key v)) ?vars = map fst (project_vars p db)"
    using f key_chars(3) by (auto simp: in_step_def parsed_var_def)
  have distinct: "distinct (map (\<lambda>v. trim (ev_key v)) ?vars)"
    unfolding keys by (rule vars_lookup(2) [OF i])
  have in_vars: "parsed_var k ?u \<in> set ?vars" using kv by force
  have k: "trim (ev_key (parsed_var k ?u)) = k"
    using f kv key_chars(3) by (auto simp: in_step_def parsed_var_def)
  show ?thesis
  proof (cases "needs_write ?m True (parsed_var k ?u)")
    case True
    have "distinct (map (\<lambda>v. trim (ev_key v)) ?ws)" by (rule distinct_map_filter [OF distinct])
    with True in_vars have "sql_env_abs db' p (trim (ev_key (parsed_var k ?u))) = Some (stored (parsed_var k ?u))"
      unfolding abs by (intro put_all_in) auto
    then show ?thesis unfolding k by (auto simp: stored_def parsed_var_def)
  next
    case False
    have "k \<notin> (\<lambda>v. trim (ev_key v)) ` set ?ws"
    proof
      assume "k \<in> (\<lambda>v. trim (ev_key v)) ` set ?ws"
      then obtain w where "w \<in> set ?vars" "needs_write ?m True w" "trim (ev_key w) = trim (ev_key (parsed_var k ?u))"
        unfolding k by auto
      with in_vars distinct have "w = parsed_var k ?u" by (meson distinct_map inj_onD)
      with False \<open>needs_write ?m True w\<close> show False by simp
    qed
    then have "sql_env_abs db' p k = sql_env_abs db p k" unfolding abs by (intro put_all_other) simp
    moreover from False unmasked have "?m k = Some ?u"
      by (auto simp: needs_write_def parsed_var_def split: option.splits)
    ultimately show ?thesis by auto
  qed
qed

section \<open>What an update and a merge leave\<close>

text \<open>An update that carries a mask keeps the stored value, any other stores its own, and what is
  shown is the variable that was stored.\<close>

lemma env_mask_keeps_value:
  assumes "facade_upsert sql_env p var db = (db', Inr shown)" and "sql_env_inv db"
  shows "\<exists>value. sql_env_abs db' = put_env p (var\<lparr>ev_key := trim (ev_key var), ev_value := value\<rparr>) (sql_env_abs db) \<and>
    shown = public_view (var\<lparr>ev_key := trim (ev_key var), ev_value := value\<rparr>) \<and>
    (if is_masked_placeholder (ev_value var)
     then \<exists>b. sql_env_abs db p (ev_key var) = Some (value, b) else value = ev_value var)"
proof -
  have eq: "trimmed_key (var\<lparr>ev_value := x\<rparr>) = var\<lparr>ev_key := trim (ev_key var), ev_value := x\<rparr>" for x
    by (simp add: trimmed_key_def)
  from db_env.facade_upsert_ok [OF assms] show ?thesis unfolding eq by blast
qed


text \<open>A variable read from the database never lets a preview see its secret, whatever was stored.\<close>

lemma preview_flag_lost:
  "env_get sql_env p k db = (db', Inr (Some v)) \<Longrightarrow> \<not> ev_preview v"
  "env_list sql_env p db = (db', Inr vs) \<Longrightarrow> \<not> (\<exists>v \<in> set vs. ev_preview v)"
  by (auto simp: sql_env_def var_of_row_def map_option_case split: option.splits elim!: env_query_cases)

section \<open>Previews\<close>

text \<open>A preview receives no secret it may not see, and every other variable.\<close>

lemma preview_keeps_secrets:
  assumes "distinct (map ev_key vars)"
  shows "\<not> preview_leaks_production_secret (env_for_preview vars) vars \<and>
    (\<forall>v \<in> set vars. map_of (env_for_preview vars) (ev_key v) =
       (if ev_secret v \<and> \<not> ev_preview v then None else Some (ev_value v)))"
proof -
  have keys: "map fst (env_for_preview vars) = map ev_key (filter (\<lambda>v. \<not> ev_secret v \<or> ev_preview v) vars)"
    by (simp add: env_for_preview_def o_def)
  have d: "distinct (map fst (env_for_preview vars))"
    unfolding keys by (rule distinct_map_filter [OF assms])
  have look: "map_of (env_for_preview vars) (ev_key v) =
       (if ev_secret v \<and> \<not> ev_preview v then None else Some (ev_value v))" if v: "v \<in> set vars" for v
  proof (cases "ev_secret v \<and> \<not> ev_preview v")
    case True
    have "ev_key v \<notin> fst ` set (env_for_preview vars)"
    proof
      assume "ev_key v \<in> fst ` set (env_for_preview vars)"
      then obtain w where "w \<in> set vars" "\<not> ev_secret w \<or> ev_preview w" "ev_key w = ev_key v"
        by (auto simp: env_for_preview_def)
      with v True assms show False by (metis distinct_map inj_onD)
    qed
    then show ?thesis using True by (simp add: map_of_eq_None_iff)
  next
    case False
    with v have "(ev_key v, ev_value v) \<in> set (env_for_preview vars)" by (force simp: env_for_preview_def)
    then show ?thesis using False d by simp
  qed
  moreover have "\<not> preview_leaks_production_secret (env_for_preview vars) vars"
    using look by (auto simp: preview_leaks_production_secret_def list_ex_iff map_of_rev [OF d])
  ultimately show ?thesis by blast
qed

section \<open>Witnesses\<close>

text \<open>A file system with one file.\<close>

definition one_file :: "ustr option env_fs" where
  "one_file = \<lparr>fs_exists = (\<lambda>p s. s \<noteq> None), fs_remove = (\<lambda>p s. (None, Inr ())), fs_mkdirs = (\<lambda>p s. (s, Inr ())),
     fs_write = (\<lambda>p c s. (Some c, Inr ())), fs_read = (\<lambda>p s. (s, case s of None \<Rightarrow> Inl [] | Some c \<Rightarrow> Inr c))\<rparr>"

definition sample_row :: "ustr \<Rightarrow> env_row" where
  "sample_row v = \<lparr>pe_project = lit ''p'', pe_key = lit ''K'', pe_value = v, pe_secret = 1, pe_preview = 1, pe_updated = []\<rparr>"

definition sample_env :: "ustr \<Rightarrow> env_db" where
  "sample_env v = \<lparr>ed_rows = [sample_row v], ed_now = [], ed_faults = []\<rparr>"

lemma sample_env_inv: "sql_env_inv (sample_env v)"
  by (simp add: sql_env_inv_def sample_env_def)

lemma sample_vars: "project_vars (lit ''p'') (sample_env v) = [(lit ''K'', v)]"
  by (simp add: project_vars_def sample_env_def sample_row_def)

lemma sample_key: "env_key_ok (lit ''K'')"
  by (simp add: env_key_ok_def char_defs)

lemma sample_in_step:
  "in_step one_file (lit ''/w'') (lit ''p'') (sample_env v) (Some (serialize_docker_env_file [(lit ''K'', v)]))"
  unfolding in_step_def sample_vars by (simp add: one_file_def sample_key del: lit_simps)

lemma sample_plain: "plain_value (lit ''ab'')"
  by (simp add: plain_value_def escape_char_def trim_by_id is_ws_def unquote_def quoted_by_def ends_with_def)

theorem sync_idle_witness:
  "\<exists>db' s' r. sync_env_from_workdir one_file (lit ''/w'') (lit ''p'')
      (sample_env (lit ''ab''), Some (serialize_docker_env_file [(lit ''K'', lit ''ab'')])) = ((db', s'), r) \<and>
    ed_rows db' = [sample_row (lit ''ab'')]"
proof -
  obtain db' s' r where sync: "sync_env_from_workdir one_file (lit ''/w'') (lit ''p'')
      (sample_env (lit ''ab''), Some (serialize_docker_env_file [(lit ''K'', lit ''ab'')])) = ((db', s'), r)"
    by (metis prod.collapse)
  have "\<forall>(k, v) \<in> set (project_vars (lit ''p'') (sample_env (lit ''ab''))). plain_value v"
    unfolding sample_vars using sample_plain by simp
  from sync_idle [OF sample_env_inv sample_in_step this sync] have "ed_rows db' = ed_rows (sample_env (lit ''ab''))" .
  with sync show ?thesis by (auto simp: sample_env_def simp del: lit_simps)
qed

text \<open>\<open>a\b\<close> becomes \<open>a\\b\<close>.\<close>

lemma sample_escape: "unquote (trim (escape_value [97, 92, 98])) = [97, 92, 92, 98]"
  by (simp add: escape_value_def escape_char_def trim_by_id is_ws_def unquote_def quoted_by_def ends_with_def)

lemma sample_unmasked: "\<not> is_masked_placeholder [97, 92, 92, 98]"
  by (simp add: is_masked_placeholder_def trim_by_id is_ws_def contains_def)

theorem sync_rewrites_values_witness:
  "\<exists>db' s' res b. sync_env_from_workdir one_file (lit ''/w'') (lit ''p'')
      (sample_env [97, 92, 98], Some (serialize_docker_env_file [(lit ''K'', [97, 92, 98])])) = ((db', s'), Inr (Some res)) \<and>
    sql_env_abs db' (lit ''p'') (lit ''K'') = Some ([97, 92, 92, 98], b)"
proof -
  obtain db' s' r where sync: "sync_env_from_workdir one_file (lit ''/w'') (lit ''p'')
      (sample_env [97, 92, 98], Some (serialize_docker_env_file [(lit ''K'', [97, 92, 98])])) = ((db', s'), r)"
    by (metis prod.collapse)
  have "\<exists>res. r = Inr (Some res)"
  proof (rule sync_cases [OF sample_in_step sync])
    fix e
    assume "merge_vars sql_env (lit ''p'') (map (\<lambda>(k, v). parsed_var k (unquote (trim (escape_value v))))
        (project_vars (lit ''p'') (sample_env [97, 92, 98]))) True (sample_env [97, 92, 98]) = (db', Inl e)"
    then have False
      unfolding sample_vars
      by (simp add: merge_vars_def sql_env_def env_query_def sample_env_def sample_row_def var_of_row_def parsed_var_def
          env_vars_needing_write_def sample_escape sample_unmasked Let_def trim_by_id is_ws_def env_key_ok_def char_defs)
    then show ?thesis ..
  qed blast
  then obtain res where "r = Inr (Some res)" ..
  with sync have sync: "sync_env_from_workdir one_file (lit ''/w'') (lit ''p'')
      (sample_env [97, 92, 98], Some (serialize_docker_env_file [(lit ''K'', [97, 92, 98])])) = ((db', s'), Inr (Some res))"
    by simp
  have "(lit ''K'', [97, 92, 98]) \<in> set (project_vars (lit ''p'') (sample_env [97, 92, 98]))"
    unfolding sample_vars by simp
  from sync_rewrites_values [OF sample_env_inv sample_in_step this sync] sample_escape sample_unmasked sync
  show ?thesis by auto
qed

definition sample_var :: "ustr \<Rightarrow> env_var" where
  "sample_var v = \<lparr>ev_key = lit ''K'', ev_value = v, ev_secret = False, ev_preview = False\<rparr>"

lemma trim_K: "trim (lit ''K'') = lit ''K''"
  by (simp add: trim_by_id is_ws_def)

theorem env_mask_keeps_value_witness:
  "\<exists>db' shown. facade_upsert sql_env (lit ''p'') (sample_var (lit ''********'')) (sample_env (lit ''ab'')) = (db', Inr shown) \<and>
    sql_env_abs db' (lit ''p'') (lit ''K'') = Some (lit ''ab'', False)"
proof -
  have m: "is_masked_placeholder (lit ''********'')"
    by (simp add: is_masked_placeholder_def trim_by_id is_ws_def)
  obtain db' shown where u: "facade_upsert sql_env (lit ''p'') (sample_var (lit ''********'')) (sample_env (lit ''ab'')) = (db', Inr shown)"
    using m sample_key by (simp add: facade_upsert_def sample_var_def andthen_def ret_def sql_env_def env_query_def sample_env_def
        select_row_def pe_id_def sample_row_def trim_K Let_def del: lit_simps)
  have old: "sql_env_abs (sample_env (lit ''ab'')) (lit ''p'') (lit ''K'') = Some (lit ''ab'', True)"
    by (simp add: sql_env_abs_def sample_env_def select_row_def pe_id_def sample_row_def stored_def var_of_row_def del: lit_simps)
  from env_mask_keeps_value [OF u sample_env_inv] old u m show ?thesis
    by (auto simp: sample_var_def put_env_def stored_def trim_K simp del: lit_simps)
qed


theorem preview_keeps_secrets_witness:
  "\<not> preview_leaks_production_secret (env_for_preview [sample_var (lit ''ab''), (sample_var (lit ''s''))\<lparr>ev_key := lit ''L'', ev_secret := True\<rparr>])
     [sample_var (lit ''ab''), (sample_var (lit ''s''))\<lparr>ev_key := lit ''L'', ev_secret := True\<rparr>]"
  using preview_keeps_secrets [of "[sample_var (lit ''ab''), (sample_var (lit ''s''))\<lparr>ev_key := lit ''L'', ev_secret := True\<rparr>]"]
  by (simp add: sample_var_def)

end
