(* ===== verification/Script.thy ===== *)
theory Script
  imports RustStr
begin

text \<open>
  Shell scripts as the shell runs them: the abstract syntax of the constructs the texts of the
  program use, two printers (on one line, and as a block of lines), and the meaning over what
  each simple command does to a state and the status it ends with. The theories that build a
  script as text state that the text is the print of such a script.
\<close>

datatype script =
    Simple ustr
  | AndIf script script
  | OrIf script script
  | Semi script script
  | IfElse script script script
  | When script script
  | Leave nat

text \<open>On one line.\<close>

fun sh_text :: "script \<Rightarrow> ustr" where
  "sh_text (Simple c) = c"
| "sh_text (AndIf a b) = sh_text a @ lit '' && '' @ sh_text b"
| "sh_text (OrIf a b) = sh_text a @ lit '' || '' @ sh_text b"
| "sh_text (Semi a b) = sh_text a @ lit ''; '' @ sh_text b"
| "sh_text (IfElse c a b) =
     lit ''if '' @ sh_text c @ lit ''; then '' @ sh_text a @ lit ''; else '' @ sh_text b @ lit ''; fi''"
| "sh_text (When c a) = lit ''if '' @ sh_text c @ lit ''; then '' @ sh_text a @ lit ''; fi''"
| "sh_text (Leave n) = lit ''exit '' @ dec n"

text \<open>As a block, indented by two blanks under a condition.\<close>

fun sh_lines :: "ustr \<Rightarrow> script \<Rightarrow> ustr list" where
  "sh_lines ind (Semi a b) = sh_lines ind a @ sh_lines ind b"
| "sh_lines ind (IfElse c a b) =
     [ind @ lit ''if '' @ sh_text c @ lit ''; then''] @ sh_lines (ind @ lit ''  '') a @ [ind @ lit ''else''] @
     sh_lines (ind @ lit ''  '') b @ [ind @ lit ''fi'']"
| "sh_lines ind (When c a) =
     [ind @ lit ''if '' @ sh_text c @ lit ''; then''] @ sh_lines (ind @ lit ''  '') a @ [ind @ lit ''fi'']"
| "sh_lines ind s = [ind @ sh_text s]"

text \<open>What a simple command does; the status of a script, and whether it left the shell.\<close>

type_synonym 's commands = "ustr \<Rightarrow> 's \<Rightarrow> 's \<times> nat"

datatype status = Ends nat | Left nat

fun sh_run :: "'s commands \<Rightarrow> script \<Rightarrow> 's \<Rightarrow> 's \<times> status" where
  "sh_run ex (Simple c) s = (case ex c s of (t, rc) \<Rightarrow> (t, Ends rc))"
| "sh_run ex (AndIf a b) s =
     (case sh_run ex a s of (t, Ends 0) \<Rightarrow> sh_run ex b t | r \<Rightarrow> r)"
| "sh_run ex (OrIf a b) s =
     (case sh_run ex a s of (t, Ends (Suc n)) \<Rightarrow> sh_run ex b t | r \<Rightarrow> r)"
| "sh_run ex (Semi a b) s =
     (case sh_run ex a s of (t, Ends _) \<Rightarrow> sh_run ex b t | r \<Rightarrow> r)"
| "sh_run ex (IfElse c a b) s =
     (case sh_run ex c s of (t, Ends 0) \<Rightarrow> sh_run ex a t | (t, Ends (Suc n)) \<Rightarrow> sh_run ex b t | r \<Rightarrow> r)"
| "sh_run ex (When c a) s =
     (case sh_run ex c s of (t, Ends 0) \<Rightarrow> sh_run ex a t | (t, Ends (Suc n)) \<Rightarrow> (t, Ends 0) | r \<Rightarrow> r)"
| "sh_run ex (Leave n) s = (s, Left n)"

definition sh_status :: "status \<Rightarrow> nat" where
  "sh_status r = (case r of Ends n \<Rightarrow> n | Left n \<Rightarrow> n)"

lemma simple_iff: "sh_run ex (Simple c) s = (t, Ends n) \<longleftrightarrow> ex c s = (t, n)"
  by (auto split: prod.split)

lemma and_zero:
  "sh_run ex (AndIf a b) s = (t, Ends 0) \<longleftrightarrow> (\<exists>u. sh_run ex a s = (u, Ends 0) \<and> sh_run ex b u = (t, Ends 0))"
  by (auto split: prod.splits status.splits nat.splits)

end
