(* ===== verification/BuildersProps.thy ===== *)
theory BuildersProps
  imports Builders
begin

text \<open>
  The properties of the builds: what a shell gives to docker as the Dockerfile, and which
  variables of a project reach a build.
\<close>

section \<open>Here-documents\<close>

text \<open>The lines up to the delimiter, and what follows it.\<close>

definition here_doc :: "ustr \<Rightarrow> ustr \<Rightarrow> ustr \<times> ustr" where
  "here_doc delim s =
     (let ls = split_on (\<lambda>c. c = 10) s; body = takeWhile (\<lambda>l. l \<noteq> delim) ls
      in (concat (map (\<lambda>l. l @ [10]) body), join [10] (drop (Suc (length body)) ls)))"

definition build_head :: "ustr \<Rightarrow> ustr" where
  "build_head img = lit ''docker build -t '' @ shell_escape img @ lit '' -f - . <<'' @ [39] @ lit ''DFEOF'' @ [39]"

lemma split_on_app: "p c \<Longrightarrow> split_on p (a @ c # b) = split_on p a @ split_on p b"
proof (induction a)
  case (Cons x a)
  obtain w ws where "split_on p a = w # ws" by (meson list.exhaust split_on_ne)
  with Cons show ?case by auto
qed simp

lemma split_on_join:
  "ls \<noteq> [] \<Longrightarrow> list_all (\<lambda>l. c \<notin> set l) ls \<Longrightarrow> split_on (\<lambda>x. x = c) (join [c] ls) = ls"
proof (induction ls)
  case (Cons l ls)
  then have "split_on (\<lambda>x. x = c) l = [l]" by (intro split_on_no_sep) auto
  with Cons show ?case by (cases ls) (simp_all add: split_on_app)
qed simp

lemma join_append: "ls \<noteq> [] \<Longrightarrow> ms \<noteq> [] \<Longrightarrow> join sep (ls @ ms) = join sep ls @ sep @ join sep ms"
proof (induction ls)
  case (Cons l ls)
  then show ?case by (cases "ls = []") (simp_all add: join_Cons)
qed simp

lemma lines_text: "concat (map (\<lambda>l. l @ [c]) (split_on (\<lambda>x. x = c) s)) = s @ [c]"
proof -
  have "ls \<noteq> [] \<Longrightarrow> concat (map (\<lambda>l. l @ [c]) ls) = join [c] ls @ [c]" for ls :: "ustr list"
  proof (induction ls)
    case (Cons l ls)
    then show ?case by (cases ls) auto
  qed simp
  then show ?thesis using join_split_on [of c s] split_on_ne [of "\<lambda>x. x = c" s] by metis
qed

lemma here_doc_whole:
  assumes "delim \<notin> set (split_on (\<lambda>c. c = 10) s)" and "10 \<notin> set delim"
  shows "here_doc delim (s @ [10] @ delim) = (s @ [10], [])"
proof -
  have "split_on (\<lambda>c. c = 10) (s @ 10 # delim) = split_on (\<lambda>c. c = 10) s @ [delim]"
    using assms(2) split_on_no_sep [of delim "\<lambda>c. c = 10"] by (auto simp: split_on_app)
  moreover have "takeWhile (\<lambda>l. l \<noteq> delim) (split_on (\<lambda>c. c = 10) s @ [delim]) = split_on (\<lambda>c. c = 10) s"
    using assms(1) by (subst takeWhile_append2) auto
  ultimately show ?thesis by (simp add: here_doc_def lines_text)
qed

lemma here_doc_ends:
  assumes "list_all (\<lambda>l. 10 \<notin> set l \<and> l \<noteq> delim) ls" and "10 \<notin> set delim"
  shows "here_doc delim (join [10] (ls @ [delim]) @ [10] @ r) = (concat (map (\<lambda>l. l @ [10]) ls), r)"
proof -
  have "split_on (\<lambda>c. c = 10) (join [10] (ls @ [delim])) = ls @ [delim]"
    using assms by (intro split_on_join) (auto simp: list_all_iff)
  then have "split_on (\<lambda>c. c = 10) (join [10] (ls @ [delim]) @ 10 # r) = ls @ [delim] @ split_on (\<lambda>c. c = 10) r"
    by (simp add: split_on_app)
  moreover have "takeWhile (\<lambda>l. l \<noteq> delim) (ls @ [delim] @ x) = ls" for x
    using assms(1) by (subst takeWhile_append2) (auto simp: list_all_iff)
  ultimately show ?thesis by (simp add: here_doc_def join_split_on)
qed

text \<open>No line of a Dockerfile ends the here-document.\<close>

definition doc_lines :: "ustr list \<Rightarrow> bool" where
  "doc_lines ls \<longleftrightarrow> ls \<noteq> [] \<and> list_all (\<lambda>l. 10 \<notin> set l \<and> (l = [] \<or> hd l \<noteq> 68)) ls"

lemma doc_lines_read:
  assumes "doc_lines ls"
  shows "here_doc (lit ''DFEOF'') (join [10] ls @ [10] @ lit ''DFEOF'') = (join [10] ls @ [10], [])"
proof (rule here_doc_whole)
  have "split_on (\<lambda>c. c = 10) (join [10] ls) = ls"
    using assms by (intro split_on_join) (auto simp: doc_lines_def list_all_iff)
  then show "lit ''DFEOF'' \<notin> set (split_on (\<lambda>c. c = 10) (join [10] ls))"
    using assms by (auto simp: doc_lines_def list_all_iff)
qed simp

lemma port_str_line [simp]: "10 \<notin> set (port_str p)"
  using dec_digits [of 10 "unat p"] by (auto simp: port_str_def char_defs)

lemma node_lines: "\<exists>ls. node_inline_dockerfile port = join [10] ls \<and> doc_lines ls"
  unfolding node_inline_dockerfile_def by (rule exI, rule conjI, rule refl, unfold doc_lines_def) simp

lemma nitro_lines: "\<exists>ls. nitro_node_dockerfile port = join [10] ls \<and> doc_lines ls"
  unfolding nitro_node_dockerfile_def by (rule exI, rule conjI, rule refl, unfold doc_lines_def) simp

lemma static_lines: "10 \<notin> set (publish_dir d) \<Longrightarrow> \<exists>ls. static_inline_dockerfile d = join [10] ls \<and> doc_lines ls"
  unfolding static_inline_dockerfile_def
  by (rule exI, rule conjI, rule refl, unfold doc_lines_def static_before_def static_after_def) simp

text \<open>The shell gives docker exactly the Dockerfile that was generated, for any port, and for any
  published directory that holds no line end.\<close>

lemma dockerfile_reads_back:
  assumes "df \<in> {node_inline_dockerfile port, nitro_node_dockerfile port} \<or>
    (\<exists>d. 10 \<notin> set d \<and> df = static_inline_dockerfile d)"
  shows "\<exists>doc. docker_build_from_content img df = build_head img @ [10] @ doc \<and>
    here_doc (lit ''DFEOF'') doc = (df @ [10], [])"
proof -
  have "\<exists>ls. df = join [10] ls \<and> doc_lines ls"
  proof -
    have "10 \<notin> set (publish_dir d)" if "10 \<notin> set d" for d
    proof -
      have "set (trim_start_char 47 (trim d)) \<subseteq> set d"
        by (auto simp: trim_defs dest!: set_dropWhileD)
      with that show ?thesis by (auto simp: publish_dir_def Let_def)
    qed
    with assms node_lines nitro_lines static_lines show ?thesis by blast
  qed
  then obtain ls where "df = join [10] ls" "doc_lines ls" by blast
  with doc_lines_read show ?thesis
    by (intro exI [of _ "df @ [10] @ lit ''DFEOF''"]) (simp add: docker_build_from_content_def build_head_def)
qed

text \<open>A published directory with a line end can end the here-document, and what follows goes to the
  shell of the server as commands.\<close>

lemma publish_directory_runs_commands:
  assumes "d = dir @ [10] @ lit ''DFEOF'' @ [10] @ command" and "dir \<noteq> []" and "10 \<notin> set dir" and "34 \<notin> set dir"
    and "34 \<notin> set command" and "\<not> is_ws (hd dir)" and "hd dir \<noteq> 47" and "command \<noteq> []" and "\<not> is_ws (last command)"
  shows "\<exists>doc more. docker_build_from_content img (static_inline_dockerfile d) = build_head img @ [10] @ doc \<and>
    snd (here_doc (lit ''DFEOF'') doc) = command @ more"
proof -
  have d: "trim d = d"
    using assms by (intro trim_by_id) auto
  have "trim_start_char 47 d = d"
    using assms by (intro trim_start_by_id) auto
  moreover have "d \<noteq> []" using assms(1) by simp
  moreover have "filter (\<lambda>c. c \<noteq> 34) d = d"
    using assms by (subst filter_id_conv) auto
  ultimately have p: "publish_dir d = dir @ [10] @ lit ''DFEOF'' @ [10] @ command"
    using assms(1) d by (simp add: publish_dir_def Let_def)
  let ?line = "lit ''    DEVFORGE_PUBLISH_DIR='' @ [34] @ dir"
  let ?more = "[34, 10] @ join [10] static_after @ [10] @ lit ''DFEOF''"
  have "static_inline_dockerfile d =
      join [10] ((static_before @ [?line]) @ [lit ''DFEOF'']) @ [10] @ command @ [34, 10] @ join [10] static_after"
  proof -
    have "static_before \<noteq> []" "static_after \<noteq> []" by (simp_all add: static_before_def static_after_def)
    then show ?thesis by (simp add: static_inline_dockerfile_def p join_append join_Cons del: lit_simps)
  qed
  then have "docker_build_from_content img (static_inline_dockerfile d) = build_head img @ [10] @
      join [10] ((static_before @ [?line]) @ [lit ''DFEOF'']) @ [10] @ command @ ?more"
    by (simp add: docker_build_from_content_def build_head_def)
  moreover have "snd (here_doc (lit ''DFEOF'') (join [10] ((static_before @ [?line]) @ [lit ''DFEOF'']) @ [10] @ command @ ?more)) =
      command @ ?more"
  proof -
    have "list_all (\<lambda>l. 10 \<notin> set l \<and> l \<noteq> lit ''DFEOF'') (static_before @ [?line])"
      using assms(3) by (simp add: static_before_def)
    then show ?thesis using here_doc_ends [of "lit ''DFEOF''" "static_before @ [?line]" "command @ ?more"] by simp
  qed
  ultimately show ?thesis by blast
qed

section \<open>Variables\<close>

lemma reads_token: "s \<noteq> [] \<Longrightarrow> reads (shell_escape_token s) s"
proof (cases "list_all token_safe s")
  case True
  then have "list_all sh_plain s" by (auto simp: list_all_iff token_safe_def sh_plain_def)
  with True show "s \<noteq> [] \<Longrightarrow> reads (shell_escape_token s) s" by (simp add: shell_escape_token_def reads_plain)
qed (simp add: shell_escape_token_def reads_quoted)

lemma reads_assignment: "k \<noteq> [] \<Longrightarrow> reads (shell_escape_token k @ [61] @ shell_escape_token v) (k @ [61] @ v)"
proof -
  assume k: "k \<noteq> []"
  have eq: "reads [61] [61]" by (rule reads_plain) (simp_all add: sh_plain_def)
  show ?thesis
  proof (cases "v = []")
    case True
    then show ?thesis using reads_append [OF reads_token [OF k] eq] by (simp add: shell_escape_token_def)
  next
    case False
    then show ?thesis using reads_append [OF reads_token [OF k] reads_append [OF eq reads_token]] by simp
  qed
qed

lemma flags_join:
  "concat (map (\<lambda>(k, v). lit '' --env '' @ shell_escape_token k @ [61] @ shell_escape_token v) envs) =
   concat (map (\<lambda>w. [32] @ w) (concat (map (\<lambda>(k, v). [lit ''--env'', shell_escape_token k @ [61] @ shell_escape_token v]) envs)))"
  by (induction envs) auto

lemma join_blank: "join [32] (ws @ vs) = join [32] ws @ concat (map (\<lambda>w. [32] @ w) vs)" if "ws \<noteq> []"
  using that
proof (induction vs arbitrary: ws)
  case (Cons v vs)
  then show ?case using join_append [of ws "[v]" "[32]"] Cons.IH [of "ws @ [v]"] by simp
qed simp

text \<open>Only build variables reach the builder, each with a name, and the shell reads the arguments
  of nixpacks as exactly the image and these variables.\<close>

lemma builder_gets_build_variables:
  assumes "envs = collect_build_envs env_file" and "img \<noteq> []"
  shows "(\<forall>(k, v) \<in> set envs. is_build_env_key k \<and> k \<noteq> []) \<and>
    sh_words (nix_args img envs) =
      Some ([lit ''build'', lit ''.'', lit ''--name'', img] @ concat (map (\<lambda>(k, v). [lit ''--env'', k @ [61] @ v]) envs))"
proof -
  have lines: "is_build_env_key k \<and> k \<noteq> []" if "build_env_of_line l = Some (k, v)" for l k v
    using that by (auto simp: build_env_of_line_def Let_def split: if_splits option.splits prod.splits)
  have skip: "is_build_env_key k \<and> k \<noteq> []" if "k \<in> set skip_keys" for k
    using that by (auto simp: skip_keys_def is_build_env_key_def trim_by_id is_ws_def)
  have keys: "\<forall>(k, v) \<in> set envs. is_build_env_key k \<and> k \<noteq> []"
    unfolding assms(1) collect_build_envs_def Let_def
    by (auto simp: List.map_filter_def dest: lines skip split: if_splits option.splits)
  have plain: "reads (lit ''build'') (lit ''build'')" "reads (lit ''.'') (lit ''.'')" "reads (lit ''--name'') (lit ''--name'')"
    "reads (lit ''--env'') (lit ''--env'')"
    by (rule reads_plain; simp add: sh_plain_def char_defs)+
  let ?flags = "concat (map (\<lambda>(k, v). [lit ''--env'', shell_escape_token k @ [61] @ shell_escape_token v]) envs)"
  have "list_all2 reads ?flags (concat (map (\<lambda>(k, v). [lit ''--env'', k @ [61] @ v]) envs))"
    using keys
  proof (induction envs)
    case (Cons kv envs)
    then show ?case using reads_assignment plain by (cases kv) (auto simp del: lit_simps)
  qed simp
  then have "list_all2 reads ([lit ''build'', lit ''.'', lit ''--name'', shell_escape_token img] @ ?flags)
      ([lit ''build'', lit ''.'', lit ''--name'', img] @ concat (map (\<lambda>(k, v). [lit ''--env'', k @ [61] @ v]) envs))"
    using plain reads_token [OF assms(2)] by (simp del: lit_simps)
  from words_join [OF this] have "sh_words (nix_args img envs) =
      Some ([lit ''build'', lit ''.'', lit ''--name'', img] @ concat (map (\<lambda>(k, v). [lit ''--env'', k @ [61] @ v]) envs))"
  proof (rule subst [rotated, where P = "\<lambda>x. x = _"])
    show "sh_words (join [32] ([lit ''build'', lit ''.'', lit ''--name'', shell_escape_token img] @ ?flags)) =
        sh_words (nix_args img envs)"
      unfolding nix_args_def format_nixpacks_env_flags_def flags_join by (subst join_blank) simp_all
  qed
  then show ?thesis using keys by blast
qed

text \<open>The builder is never an image that lacks the program.\<close>

lemma builder_not_base: "\<not> is_provider_base_image (nixpacks_image env)"
proof -
  have "\<not> is_provider_base_image DEFAULT_NIXPACKS_IMAGE"
    by (simp add: is_provider_base_image_def DEFAULT_NIXPACKS_IMAGE_def Let_def)
  then show ?thesis by (simp add: nixpacks_image_def resolve_nixpacks_image_def split: option.split)
qed

section \<open>Witnesses\<close>

theorem dockerfile_reads_back_witness:
  "\<exists>doc. docker_build_from_content (lit ''df-a:latest'') (static_inline_dockerfile (lit ''dist'')) = build_head (lit ''df-a:latest'') @ [10] @ doc \<and>
    here_doc (lit ''DFEOF'') doc = (static_inline_dockerfile (lit ''dist'') @ [10], [])"
proof -
  have "10 \<notin> set (lit ''dist'')" by simp
  then show ?thesis using dockerfile_reads_back [of "static_inline_dockerfile (lit ''dist'')" 0] by blast
qed

theorem publish_directory_runs_commands_witness:
  "\<exists>doc more. docker_build_from_content (lit ''df-a:latest'')
      (static_inline_dockerfile (lit ''a'' @ [10] @ lit ''DFEOF'' @ [10] @ lit ''reboot'')) = build_head (lit ''df-a:latest'') @ [10] @ doc \<and>
    snd (here_doc (lit ''DFEOF'') doc) = lit ''reboot'' @ more"
  by (rule publish_directory_runs_commands [where dir = "lit ''a''"]) (simp_all add: is_ws_def)

theorem builder_gets_build_variables_witness:
  "sh_words (nix_args (lit ''df-a:latest'') (collect_build_envs None)) =
    Some [lit ''build'', lit ''.'', lit ''--name'', lit ''df-a:latest'', lit ''--env'', lit ''PUPPETEER_SKIP_DOWNLOAD=1'',
      lit ''--env'', lit ''PUPPETEER_SKIP_CHROMIUM_DOWNLOAD=1'']"
  using builder_gets_build_variables [OF refl, of "lit ''df-a:latest''" None]
  by (simp add: collect_build_envs_def skip_keys_def)

end
