(* ===== verification/Fnv.thy ===== *)
theory Fnv
  imports RustStr "HOL-Library.Word"
begin

text \<open>
  The FNV-1a hash of 64 bits, written out twice in the source (\<open>crates/deploy/src/docker.rs\<close>,
  \<open>crates/cron/src/models.rs\<close>), over the UTF-8 bytes of a text.
\<close>

text \<open>The bytes of a text in UTF-8.\<close>

definition utf8_bytes :: "uchar \<Rightarrow> nat list" where
  "utf8_bytes c =
     (if c < 128 then [c]
      else if c < 2048 then [192 + c div 64, 128 + c mod 64]
      else if c < 65536 then [224 + c div 4096, 128 + c div 64 mod 64, 128 + c mod 64]
      else [240 + c div 262144, 128 + c div 4096 mod 64, 128 + c div 64 mod 64, 128 + c mod 64])"

definition str_bytes :: "ustr \<Rightarrow> nat list" where
  "str_bytes s = concat (map utf8_bytes s)"

definition fnv_step :: "64 word \<Rightarrow> nat \<Rightarrow> 64 word" where
  "fnv_step h b = (xor h (of_nat b)) * 0x100000001b3"

definition fnv1a64 :: "ustr \<Rightarrow> 64 word" where
  "fnv1a64 s = foldl fnv_step 0xcbf29ce484222325 (str_bytes s)"

text \<open>\<open>{:016x}\<close>\<close>

fun hex_digits :: "nat \<Rightarrow> nat \<Rightarrow> ustr" where
  "hex_digits 0 n = []"
| "hex_digits (Suc w) n = hex_digits w (n div 16) @ [hex_digit (n mod 16)]"

end
