(* ===== verification/TraefikProxy.thy ===== *)
theory TraefikProxy
  imports DockerCmd Fnv
begin

text \<open>
  The reverse proxy of a node, \<open>crates/deploy/src/docker.rs\<close>: the contact address of the
  certificates, the arguments and labels of the container, the fingerprint of its configuration,
  the command that creates it and the script that replaces it. The variable
  \<open>DEVFORGE_ACME_EMAIL\<close> is an argument.
\<close>

section \<open>Contact address\<close>

definition refused_tlds :: "ustr list" where
  "refused_tlds =
     [lit ''local'', lit ''localhost'', lit ''internal'', lit ''lan'', lit ''home'', lit ''test'', lit ''example'',
      lit ''invalid'', lit ''localdomain'']"

definition email_char :: "uchar \<Rightarrow> bool" where
  "email_char c \<longleftrightarrow> is_ascii_alnum c \<or> c \<in> set (lit ''@.+-_'')"

definition is_valid_acme_email :: "ustr \<Rightarrow> bool" where
  "is_valid_acme_email email =
     (let e = trim email
      in case split_once 64 e of
           None \<Rightarrow> False
         | Some (user, domain) \<Rightarrow>
             if user = [] \<or> 64 \<in> set domain \<or> 46 \<notin> set domain then False
             else if \<not> list_all email_char e then False
             else let d = to_ascii_lowercase domain; tld = last (split_on (\<lambda>c. c = 46) d)
                  in \<not> (utf8_len tld < 2 \<or> tld \<in> set refused_tlds \<or> d = lit ''example.com'' \<or>
                        ends_with d (lit ''.example.com'')))"

text \<open>The setting of the instance, and the address in use: the variable comes first.\<close>

definition set_acme_email :: "ustr option \<Rightarrow> ustr option" where
  "set_acme_email email = opt_filter is_valid_acme_email (map_option trim email)"

definition acme_email :: "ustr option \<Rightarrow> ustr option \<Rightarrow> ustr option" where
  "acme_email env setting =
     (case env of
        Some v \<Rightarrow> if is_valid_acme_email v then Some (trim v) else setting
      | None \<Rightarrow> setting)"

section \<open>Configuration\<close>

definition PROXY_RETRY_MIDDLEWARE :: ustr where "PROXY_RETRY_MIDDLEWARE = lit ''devforge-retry''"

definition traefik_args :: "ustr \<Rightarrow> ustr option \<Rightarrow> ustr list" where
  "traefik_args network email =
     (let mw = PROXY_RETRY_MIDDLEWARE @ lit ''@docker''
      in [lit ''--api.dashboard=true'', lit ''--log.level=INFO'', lit ''--accesslog=false'',
          lit ''--entrypoints.http.address=:80'', lit ''--entrypoints.https.address=:443'',
          lit ''--entrypoints.http.http.middlewares='' @ mw, lit ''--entrypoints.https.http.middlewares='' @ mw,
          lit ''--serverstransport.forwardingtimeouts.dialtimeout=2s'', lit ''--providers.providersthrottleduration=500ms'',
          lit ''--providers.docker=true'', lit ''--providers.docker.exposedbydefault=false'',
          lit ''--providers.docker.network='' @ network, lit ''--providers.file.directory=/traefik/dynamic'',
          lit ''--providers.file.watch=true'', lit ''--certificatesresolvers.letsencrypt.acme.httpchallenge=true'',
          lit ''--certificatesresolvers.letsencrypt.acme.httpchallenge.entrypoint=http''] @
         (case opt_filter is_valid_acme_email email of
            Some e \<Rightarrow> [lit ''--certificatesresolvers.letsencrypt.acme.email='' @ trim e]
          | None \<Rightarrow> []) @
         [lit ''--certificatesresolvers.letsencrypt.acme.storage=/traefik/acme.json'', lit ''--ping=true'',
          lit ''--ping.entrypoint=http''])"

definition traefik_proxy_container_labels :: "ustr list" where
  "traefik_proxy_container_labels =
     (let m = PROXY_RETRY_MIDDLEWARE
      in [lit ''devforge.managed=true'', lit ''devforge.proxy=true'', lit ''traefik.enable=true'',
          lit ''traefik.http.routers.api.rule=Host(`traefik.local`)'', lit ''traefik.http.routers.api.service=api@internal'',
          lit ''traefik.http.services.dummy.loadbalancer.server.port=9999'',
          lit ''traefik.http.middlewares.'' @ m @ lit ''.retry.attempts=3'',
          lit ''traefik.http.middlewares.'' @ m @ lit ''.retry.initialinterval=200ms''])"

section \<open>Fingerprint\<close>

definition traefik_config_hash :: "ustr \<Rightarrow> ustr \<Rightarrow> ustr option \<Rightarrow> ustr" where
  "traefik_config_hash img network email =
     hex_digits 16 (unat (fnv1a64 (join [10] ([img] @ traefik_args network email @ traefik_proxy_container_labels))))"

definition TRAEFIK_CONFIG_LABEL :: ustr where "TRAEFIK_CONFIG_LABEL = lit ''devforge.proxy.config''"

definition CLOUDFLARE_TUNNEL_ORIGIN :: ustr where "CLOUDFLARE_TUNNEL_ORIGIN = lit ''http://devforge-traefik:80''"

section \<open>Commands\<close>

definition traefik_run_command :: "ustr \<Rightarrow> ustr \<Rightarrow> ustr \<Rightarrow> ustr \<Rightarrow> ustr option \<Rightarrow> bool \<Rightarrow> ustr" where
  "traefik_run_command name network host_data_path img email publish_host_ports =
     join ([32, 92, 10] @ lit ''  '')
       ([lit ''docker run -d'', lit ''--name '' @ shell_escape name, lit ''--restart unless-stopped'',
         lit ''--network '' @ shell_escape network] @
        (if publish_host_ports then [lit ''-p 80:80'', lit ''-p 443:443'', lit ''-p 443:443/udp''] else []) @
        [lit ''--add-host host.docker.internal:host-gateway'', lit ''-v /var/run/docker.sock:/var/run/docker.sock:ro'',
         lit ''-v '' @ shell_escape host_data_path @ lit '':/traefik''] @
        map (\<lambda>l. lit ''--label '' @ shell_escape l) traefik_proxy_container_labels @
        [lit ''--label '' @ TRAEFIK_CONFIG_LABEL @ [61] @ traefik_config_hash img network email,
         lit ''--label devforge.proxy.host_ports='' @ (if publish_host_ports then lit ''true'' else lit ''false''),
         shell_escape img] @
        map shell_escape (traefik_args network email))"

definition traefik_safe_replace_command :: "ustr \<Rightarrow> ustr \<Rightarrow> ustr" where
  "traefik_safe_replace_command run_cmd name =
     (let n = shell_escape name; prev = shell_escape (name @ lit ''-prev'')
      in join [10]
          [lit ''docker rm -f '' @ prev @ lit '' >/dev/null 2>&1 || true'',
           lit ''docker rename '' @ n @ lit '' '' @ prev @ lit '' || exit 1'',
           lit ''docker stop -t 5 '' @ prev @ lit '' >/dev/null'',
           lit ''if '' @ run_cmd @ lit '' >/dev/null; then'',
           lit ''  sleep 4'',
           lit ''  if [ '' @ [34] @ lit ''$(docker inspect -f '' @ [39] @ lit ''{{.State.Running}}'' @ [39, 32] @ n @
             lit '' 2>/dev/null)'' @ [34] @ lit '' = '' @ [34] @ lit ''true'' @ [34] @ lit '' ]; then'',
           lit ''    docker rm -f '' @ prev @ lit '' >/dev/null 2>&1 || true'',
           lit ''    echo '' @ [34] @ lit ''proxy remplac'' @ [233, 34],
           lit ''    exit 0'',
           lit ''  fi'',
           lit ''fi'',
           lit ''echo '' @ [34, 233] @ lit ''chec du nouveau proxy '' @ [8212] @ lit '' restauration de l'' @ [8217] @ lit ''ancien'' @ [34],
           lit ''docker logs --tail 20 '' @ n @ lit '' 2>&1 || true'',
           lit ''docker rm -f '' @ n @ lit '' >/dev/null 2>&1 || true'',
           lit ''docker rename '' @ prev @ lit '' '' @ n @ lit '' && docker start '' @ n @ lit '' >/dev/null'',
           lit ''exit 1''])"

end
