(* ===== verification/TraefikProxyProps.thy ===== *)
theory TraefikProxyProps
  imports TraefikProxy Script
begin

text \<open>
  The script that replaces the reverse proxy never leaves the node without one: it ends with the
  new container running, or with the old one under its name again.
\<close>

section \<open>The script\<close>

definition remove_text :: "ustr \<Rightarrow> ustr" where
  "remove_text c = lit ''docker rm -f '' @ shell_escape c @ lit '' >/dev/null 2>&1''"

definition rename_text :: "ustr \<Rightarrow> ustr \<Rightarrow> ustr" where
  "rename_text a b = lit ''docker rename '' @ shell_escape a @ lit '' '' @ shell_escape b"

definition stop_text :: "ustr \<Rightarrow> ustr" where
  "stop_text c = lit ''docker stop -t 5 '' @ shell_escape c @ lit '' >/dev/null''"

definition start_text :: "ustr \<Rightarrow> ustr" where
  "start_text c = lit ''docker start '' @ shell_escape c @ lit '' >/dev/null''"

definition check_text :: "ustr \<Rightarrow> ustr" where
  "check_text c =
     lit ''[ '' @ [34] @ lit ''$(docker inspect -f '' @ [39] @ lit ''{{.State.Running}}'' @ [39, 32] @ shell_escape c @
     lit '' 2>/dev/null)'' @ [34] @ lit '' = '' @ [34] @ lit ''true'' @ [34] @ lit '' ]''"

definition logs_text :: "ustr \<Rightarrow> ustr" where
  "logs_text c = lit ''docker logs --tail 20 '' @ shell_escape c @ lit '' 2>&1''"

definition true_text :: ustr where "true_text = lit ''true''"

definition sleep_text :: ustr where "sleep_text = lit ''sleep 4''"

definition replaced_text :: ustr where
  "replaced_text = lit ''echo '' @ [34] @ lit ''proxy remplac'' @ [233, 34]"

definition restored_text :: ustr where
  "restored_text =
     lit ''echo '' @ [34, 233] @ lit ''chec du nouveau proxy '' @ [8212] @ lit '' restauration de l'' @ [8217] @ lit ''ancien'' @ [34]"

definition ignoring :: "ustr \<Rightarrow> script" where
  "ignoring c = OrIf (Simple c) (Simple true_text)"

definition prev_name :: "ustr \<Rightarrow> ustr" where
  "prev_name n = n @ lit ''-prev''"

definition restore_script :: "ustr \<Rightarrow> script" where
  "restore_script n =
     Semi (Simple restored_text)
    (Semi (ignoring (logs_text n))
    (Semi (ignoring (remove_text n))
    (Semi (AndIf (Simple (rename_text (prev_name n) n)) (Simple (start_text n)))
          (Leave 1))))"

definition accept_script :: "ustr \<Rightarrow> script" where
  "accept_script n =
     Semi (Simple sleep_text)
       (When (Simple (check_text n))
         (Semi (ignoring (remove_text (prev_name n))) (Semi (Simple replaced_text) (Leave 0))))"

definition replace_script :: "ustr \<Rightarrow> ustr \<Rightarrow> script" where
  "replace_script run n =
     Semi (ignoring (remove_text (prev_name n)))
    (Semi (OrIf (Simple (rename_text n (prev_name n))) (Leave 1))
    (Semi (Simple (stop_text (prev_name n)))
    (Semi (When (Simple (run @ lit '' >/dev/null'')) (accept_script n))
          (restore_script n))))"

lemma replace_text: "traefik_safe_replace_command run n = join [10] (sh_lines [] (replace_script run n))"
  by (simp add: traefik_safe_replace_command_def replace_script_def accept_script_def restore_script_def ignoring_def
      remove_text_def rename_text_def stop_text_def start_text_def check_text_def logs_text_def true_text_def sleep_text_def
      replaced_text_def restored_text_def prev_name_def Let_def dec.simps [of "Suc 0"] dec.simps [of 0])

section \<open>What docker does\<close>

record container =
  ct_id :: nat
  ct_running :: bool

text \<open>Containers may stop on their own at any time, so of what docker documents only this is used:
  which containers exist under which names, and that a container that is reported to run does.\<close>

definition ids :: "('s \<Rightarrow> ustr \<rightharpoonup> container) \<Rightarrow> 's \<Rightarrow> ustr \<rightharpoonup> nat" where
  "ids view s = (\<lambda>n. map_option ct_id (view s n))"

definition quiet_texts :: "ustr \<Rightarrow> ustr set" where
  "quiet_texts n = {true_text, sleep_text, replaced_text, restored_text, logs_text n, stop_text (prev_name n), start_text n}"

definition docker_ok :: "('s \<Rightarrow> ustr \<rightharpoonup> container) \<Rightarrow> 's commands \<Rightarrow> ustr \<Rightarrow> ustr \<Rightarrow> bool" where
  "docker_ok view ex run n \<longleftrightarrow>
     (\<forall>c s t rc. c \<in> quiet_texts n \<and> ex c s = (t, rc) \<longrightarrow> ids view t = ids view s \<and> (c = true_text \<longrightarrow> rc = 0)) \<and>
     (\<forall>c \<in> {n, prev_name n}. \<forall>s t rc. ex (remove_text c) s = (t, rc) \<longrightarrow> ids view t = (ids view s)(c := None)) \<and>
     (\<forall>(a, b) \<in> {(n, prev_name n), (prev_name n, n)}. \<forall>s t rc. ex (rename_text a b) s = (t, rc) \<longrightarrow>
        (if ids view s a \<noteq> None \<and> ids view s b = None
         then rc = 0 \<and> ids view t = (ids view s)(a := None, b := ids view s a)
         else rc \<noteq> 0 \<and> ids view t = ids view s)) \<and>
     (\<forall>s t rc. ex (run @ lit '' >/dev/null'') s = (t, rc) \<longrightarrow> (\<forall>c. c \<noteq> n \<longrightarrow> ids view t c = ids view s c)) \<and>
     (\<forall>s t rc. ex (check_text n) s = (t, rc) \<longrightarrow> ids view t = ids view s \<and>
        (rc = 0 \<longrightarrow> (\<exists>c. view s n = Some c \<and> ct_running c)))"

lemma docker_okD:
  assumes "docker_ok view ex run n"
  shows "c \<in> quiet_texts n \<Longrightarrow> ex c s = (t, rc) \<Longrightarrow> ids view t = ids view s"
    and "ex true_text s = (t, rc) \<Longrightarrow> rc = 0"
    and "d \<in> {n, prev_name n} \<Longrightarrow> ex (remove_text d) s = (t, rc) \<Longrightarrow> ids view t = (ids view s)(d := None)"
    and "(a, b) \<in> {(n, prev_name n), (prev_name n, n)} \<Longrightarrow> ex (rename_text a b) s = (t, rc) \<Longrightarrow>
      ids view s a \<noteq> None \<Longrightarrow> ids view s b = None \<Longrightarrow> rc = 0 \<and> ids view t = (ids view s)(a := None, b := ids view s a)"
    and "ex (run @ lit '' >/dev/null'') s = (t, rc) \<Longrightarrow> d \<noteq> n \<Longrightarrow> ids view t d = ids view s d"
    and "ex (check_text n) s = (t, rc) \<Longrightarrow> ids view t = ids view s"
    and "ex (check_text n) s = (t, 0) \<Longrightarrow> \<exists>c. view s n = Some c \<and> ct_running c"
proof -
  note ok = assms [unfolded docker_ok_def]
  note quiet = conjunct1 [OF ok] and ok = conjunct2 [OF ok]
  note remove = conjunct1 [OF ok] and ok = conjunct2 [OF ok]
  note rename = conjunct1 [OF ok] and ok = conjunct2 [OF ok]
  note created = conjunct1 [OF ok] and check = conjunct2 [OF ok]
  show "c \<in> quiet_texts n \<Longrightarrow> ex c s = (t, rc) \<Longrightarrow> ids view t = ids view s" using quiet by blast
  have "true_text \<in> quiet_texts n" by (simp add: quiet_texts_def)
  then show "ex true_text s = (t, rc) \<Longrightarrow> rc = 0" using quiet by blast
  show "d \<in> {n, prev_name n} \<Longrightarrow> ex (remove_text d) s = (t, rc) \<Longrightarrow> ids view t = (ids view s)(d := None)"
    using remove by blast
  show "(a, b) \<in> {(n, prev_name n), (prev_name n, n)} \<Longrightarrow> ex (rename_text a b) s = (t, rc) \<Longrightarrow>
      ids view s a \<noteq> None \<Longrightarrow> ids view s b = None \<Longrightarrow> rc = 0 \<and> ids view t = (ids view s)(a := None, b := ids view s a)"
    by (drule bspec [OF rename]) (simp only: prod.case if_True simp_thms)
  show "ex (run @ lit '' >/dev/null'') s = (t, rc) \<Longrightarrow> d \<noteq> n \<Longrightarrow> ids view t d = ids view s d"
    using created by blast
  show "ex (check_text n) s = (t, rc) \<Longrightarrow> ids view t = ids view s" using check by blast
  show "ex (check_text n) s = (t, 0) \<Longrightarrow> \<exists>c. view s n = Some c \<and> ct_running c" using check by blast
qed

lemma ignoring_runs:
  assumes "docker_ok view ex run n" and "sh_run ex (ignoring c) s = (t, r)"
  shows "r = Ends 0 \<and> (\<exists>u rc. ex c s = (u, rc) \<and> ids view t = ids view u)"
proof -
  obtain u rc where c: "ex c s = (u, rc)" by fastforce
  show ?thesis
  proof (cases rc)
    case 0
    then show ?thesis using assms(2) c by (auto simp: ignoring_def)
  next
    case (Suc k)
    then have "sh_run ex (Simple true_text) u = (t, r)" using assms(2) c by (simp add: ignoring_def del: sh_run.simps(1)) (simp add: c)
    then obtain k where "ex true_text u = (t, k)" "r = Ends k" by (auto split: prod.splits)
    moreover have "true_text \<in> quiet_texts n" by (simp add: quiet_texts_def)
    ultimately show ?thesis using c docker_okD(1,2) [OF assms(1)] by metis
  qed
qed

lemma quiet_runs:
  assumes "docker_ok view ex run n" and "c \<in> quiet_texts n" and "sh_run ex (Simple c) s = (t, r)"
  shows "(\<exists>rc. r = Ends rc) \<and> ids view t = ids view s"
  using assms(3) docker_okD(1) [OF assms(1,2)] by (auto split: prod.splits)

lemma semi_split:
  assumes "sh_run ex (Semi a b) s = (t, r)" and "\<And>u q. sh_run ex a s = (u, q) \<Longrightarrow> \<exists>rc. q = Ends rc"
  obtains u rc where "sh_run ex a s = (u, Ends rc)" and "sh_run ex b u = (t, r)"
proof -
  obtain u q where a: "sh_run ex a s = (u, q)" by fastforce
  with assms(2) obtain rc where "q = Ends rc" by blast
  with a assms(1) that show ?thesis by simp
qed

lemma semi_quiet:
  assumes "docker_ok view ex run n" and "c \<in> quiet_texts n" and "sh_run ex (Semi (Simple c) b) s = (t, r)"
  obtains u where "ids view u = ids view s" and "sh_run ex b u = (t, r)"
proof (rule semi_split [OF assms(3)])
  show "sh_run ex (Simple c) s = (u, q) \<Longrightarrow> \<exists>rc. q = Ends rc" for u q
    using quiet_runs [OF assms(1,2)] by blast
  show "sh_run ex (Simple c) s = (u, Ends rc) \<Longrightarrow> sh_run ex b u = (t, r) \<Longrightarrow> thesis" for u rc
    using quiet_runs [OF assms(1,2)] that by blast
qed

lemma semi_ignoring:
  assumes "docker_ok view ex run n" and "sh_run ex (Semi (ignoring c) b) s = (t, r)"
  obtains u v rc where "ex c s = (v, rc)" and "ids view u = ids view v" and "sh_run ex b u = (t, r)"
proof (rule semi_split [OF assms(2)])
  show "sh_run ex (ignoring c) s = (u, q) \<Longrightarrow> \<exists>rc. q = Ends rc" for u q
    using ignoring_runs [OF assms(1)] by blast
  show "sh_run ex (ignoring c) s = (u, Ends rc) \<Longrightarrow> sh_run ex b u = (t, r) \<Longrightarrow> thesis" for u rc
    using ignoring_runs [OF assms(1)] that by blast
qed

lemma semi_remove:
  assumes "docker_ok view ex run n" and "d \<in> {n, prev_name n}" and "sh_run ex (Semi (ignoring (remove_text d)) b) s = (t, r)"
  obtains u where "ids view u = (ids view s)(d := None)" and "sh_run ex b u = (t, r)"
  using semi_ignoring [OF assms(1,3)] docker_okD(3) [OF assms(1,2)] by metis

lemma quiet_members [simp]:
  "true_text \<in> quiet_texts n" "sleep_text \<in> quiet_texts n" "replaced_text \<in> quiet_texts n" "restored_text \<in> quiet_texts n"
  "logs_text n \<in> quiet_texts n" "stop_text (prev_name n) \<in> quiet_texts n" "start_text n \<in> quiet_texts n"
  by (simp_all add: quiet_texts_def)

lemma prev_other: "prev_name n \<noteq> n"
  by (simp add: prev_name_def)

lemma restore_runs:
  assumes ok: "docker_ok view ex run n" and old: "ids view s (prev_name n) = Some k"
    and run: "sh_run ex (restore_script n) s = (t, r)"
  shows "r = Left 1 \<and> ids view t n = Some k"
proof -
  note quiet = quiet_runs [OF ok] and ignore = ignoring_runs [OF ok]
  from run obtain s1 where 1: "ids view s1 = ids view s" and run: "sh_run ex (Semi (ignoring (logs_text n))
      (Semi (ignoring (remove_text n)) (Semi (AndIf (Simple (rename_text (prev_name n) n)) (Simple (start_text n))) (Leave 1)))) s1 = (t, r)"
    unfolding restore_script_def by (rule semi_quiet [OF ok quiet_members(4)])
  from run obtain s2 where 2: "ids view s2 = ids view s1" and run: "sh_run ex (Semi (ignoring (remove_text n))
      (Semi (AndIf (Simple (rename_text (prev_name n) n)) (Simple (start_text n))) (Leave 1))) s2 = (t, r)"
    by (rule semi_ignoring [OF ok]) (metis docker_okD(1) [OF ok] quiet_members(5))
  from run obtain s3 where 3: "ids view s3 = (ids view s2)(n := None)" and run: "sh_run ex
      (Semi (AndIf (Simple (rename_text (prev_name n) n)) (Simple (start_text n))) (Leave 1)) s3 = (t, r)"
    by (rule semi_remove [OF ok insertI1])
  obtain s4 rc where rename: "ex (rename_text (prev_name n) n) s3 = (s4, rc)" by fastforce
  have "ids view s3 (prev_name n) \<noteq> None" "ids view s3 n = None" using 1 2 3 old prev_other [of n] by auto
  with docker_okD(4) [OF ok _ rename] have 4: "rc = 0" "ids view s4 n = Some k" using 1 2 3 old prev_other [of n] by auto
  obtain s5 m where start: "ex (start_text n) s4 = (s5, m)" by fastforce
  then have "ids view s5 = ids view s4" using docker_okD(1) [OF ok, of "start_text n"] by (simp add: quiet_texts_def)
  with run rename start 4 show ?thesis by (cases m) auto
qed

lemma accept_runs:
  assumes ok: "docker_ok view ex run n" and run: "sh_run ex (accept_script n) s = (t, r)"
  shows "(r = Left 0 \<and> (\<exists>u c. view u n = Some c \<and> ct_running c \<and> ids view t n = ids view u n)) \<or>
    ((\<exists>m. r = Ends m) \<and> ids view t = ids view s)"
proof -
  note quiet = quiet_runs [OF ok] and ignore = ignoring_runs [OF ok]
  from run obtain s1 where 1: "ids view s1 = ids view s" and run: "sh_run ex (When (Simple (check_text n))
         (Semi (ignoring (remove_text (prev_name n))) (Semi (Simple replaced_text) (Leave 0)))) s1 = (t, r)"
    unfolding accept_script_def by (rule semi_quiet [OF ok quiet_members(2)])
  obtain s2 rc where check: "ex (check_text n) s1 = (s2, rc)" by fastforce
  then have 2: "ids view s2 = ids view s1" by (rule docker_okD(6) [OF ok])
  show ?thesis
  proof (cases rc)
    case (Suc k)
    with run check 1 2 show ?thesis by auto
  next
    case 0
    obtain c where up: "view s1 n = Some c" "ct_running c" using docker_okD(7) [OF ok] check 0 by blast
    from run check 0 have "sh_run ex (Semi (ignoring (remove_text (prev_name n))) (Semi (Simple replaced_text) (Leave 0))) s2 = (t, r)"
      by simp
    then obtain s3 where 3: "ids view s3 = (ids view s2)(prev_name n := None)"
      and run: "sh_run ex (Semi (Simple replaced_text) (Leave 0)) s3 = (t, r)"
      by (rule semi_remove [OF ok insertI2 [OF insertI1]])
    from run obtain s4 where "ids view s4 = ids view s3" "sh_run ex (Leave 0) s4 = (t, r)"
      by (rule semi_quiet [OF ok quiet_members(3)])
    then have "r = Left 0" "ids view t = ids view s3" by simp_all
    moreover from this have "ids view t n = ids view s1 n" using 2 3 prev_other [of n] by auto
    ultimately show ?thesis using up by blast
  qed
qed


section \<open>A docker for the witness\<close>

text \<open>The proxy is called \<open>t\<close>; the new one is created and stops at once.\<close>

definition failing_docker :: "(ustr \<rightharpoonup> container) commands" where
  "failing_docker c m =
     (if c = remove_text [116] then (m([116] := None), 0)
      else if c = remove_text (prev_name [116]) then (m(prev_name [116] := None), 0)
      else if c = rename_text [116] (prev_name [116])
      then (if m [116] \<noteq> None \<and> m (prev_name [116]) = None then (m([116] := None, prev_name [116] := m [116]), 0) else (m, 1))
      else if c = rename_text (prev_name [116]) [116]
      then (if m (prev_name [116]) \<noteq> None \<and> m [116] = None then (m(prev_name [116] := None, [116] := m (prev_name [116])), 0) else (m, 1))
      else if c = lit ''run >/dev/null'' then (m([116] \<mapsto> \<lparr>ct_id = 2, ct_running = False\<rparr>), 0)
      else if c = check_text [116] then (m, case m [116] of Some ct \<Rightarrow> if ct_running ct then 0 else 1 | None \<Rightarrow> 1)
      else (m, 0))"

lemma sample_texts:
  "shell_escape [116] = [116]" "shell_escape (prev_name [116]) = lit ''t-prev''"
  by (simp_all add: shell_escape_def shell_safe_def char_defs prev_name_def)

lemmas sample_defs = failing_docker_def remove_text_def rename_text_def check_text_def stop_text_def start_text_def
  logs_text_def true_text_def sleep_text_def replaced_text_def restored_text_def sample_texts

lemma failing_docker_runs:
  "failing_docker (remove_text [116]) m = (m([116] := None), 0)"
  "failing_docker (remove_text (prev_name [116])) m = (m(prev_name [116] := None), 0)"
  "failing_docker (rename_text [116] (prev_name [116])) m =
     (if m [116] \<noteq> None \<and> m (prev_name [116]) = None then (m([116] := None, prev_name [116] := m [116]), 0) else (m, 1))"
  "failing_docker (rename_text (prev_name [116]) [116]) m =
     (if m (prev_name [116]) \<noteq> None \<and> m [116] = None then (m(prev_name [116] := None, [116] := m (prev_name [116])), 0) else (m, 1))"
  "failing_docker (lit ''run'' @ lit '' >/dev/null'') m = (m([116] \<mapsto> \<lparr>ct_id = 2, ct_running = False\<rparr>), 0)"
  "failing_docker (check_text [116]) m = (m, case m [116] of Some ct \<Rightarrow> if ct_running ct then 0 else 1 | None \<Rightarrow> 1)"
  by (simp_all add: sample_defs)

lemma failing_docker_quiet: "c \<in> quiet_texts [116] \<Longrightarrow> failing_docker c m = (m, 0)"
  unfolding quiet_texts_def by (elim insertE emptyE) (simp_all add: sample_defs)

lemma ids_upd: "ids (\<lambda>m. m) (m(c := v)) = (ids (\<lambda>m. m) m)(c := map_option ct_id v)"
  by (auto simp: ids_def)

lemma ids_None: "ids (\<lambda>m. m) m c = None \<longleftrightarrow> m c = None"
  by (simp add: ids_def)

lemma ids_Some: "m c = Some y \<Longrightarrow> ids (\<lambda>m. m) m c = Some (ct_id y)"
  by (simp add: ids_def)

lemma failing_docker_ok: "docker_ok (\<lambda>m. m) failing_docker (lit ''run'') [116]"
  unfolding docker_ok_def
proof (intro conjI ballI allI impI)
  note [simp] = failing_docker_runs failing_docker_quiet ids_upd
  show "ids (\<lambda>m. m) t = ids (\<lambda>m. m) s" if "c \<in> quiet_texts [116] \<and> failing_docker c s = (t, rc)" for c s t rc
    using that by auto
  show "rc = 0" if "c \<in> quiet_texts [116] \<and> failing_docker c s = (t, rc)" for c s t rc
    using that by auto
  show "ids (\<lambda>m. m) t = (ids (\<lambda>m. m) s)(c := None)"
    if "c \<in> {[116], prev_name [116]}" "failing_docker (remove_text c) s = (t, rc)" for c s t rc
    using that by auto
  show "case x of (a, b) \<Rightarrow> \<forall>s t rc. failing_docker (rename_text a b) s = (t, rc) \<longrightarrow>
      (if ids (\<lambda>m. m) s a \<noteq> None \<and> ids (\<lambda>m. m) s b = None
       then rc = 0 \<and> ids (\<lambda>m. m) t = (ids (\<lambda>m. m) s)(a := None, b := ids (\<lambda>m. m) s a)
       else rc \<noteq> 0 \<and> ids (\<lambda>m. m) t = ids (\<lambda>m. m) s)"
    if "x \<in> {([116], prev_name [116]), (prev_name [116], [116])}" for x
    using that by (auto simp: ids_None ids_Some split: if_splits)
  show "ids (\<lambda>m. m) t c = ids (\<lambda>m. m) s c" if "failing_docker (lit ''run'' @ lit '' >/dev/null'') s = (t, rc)" "c \<noteq> [116]" for s t rc c
    using that(1)[unfolded failing_docker_runs] that(2) by (auto simp: ids_def)
  show "ids (\<lambda>m. m) t = ids (\<lambda>m. m) s" if "failing_docker (check_text [116]) s = (t, rc)" for s t rc
    using that by auto
  show "\<exists>c. s [116] = Some c \<and> ct_running c" if "failing_docker (check_text [116]) s = (t, rc)" "rc = 0" for s t rc
    using that by (auto split: option.splits if_splits)
qed


end
