(* ===== verification/Cron.thy ===== *)
theory Cron
  imports BlueGreen Tables Fnv
begin

text \<open>
  Scheduled commands of the projects, \<open>crates/cron/src\<close>: cron expressions and the choice of
  notifications (\<open>models.rs\<close>), the tables \<open>project_crons\<close> and \<open>project_cron_runs\<close> (\<open>service.rs\<close>), and
  the scheduler (\<open>scheduler.rs\<close>). The crates \<open>cron\<close> and \<open>chrono-tz\<close>, the ids, the executor and
  the agents are fields of an environment. The handlers of \<open>apps/server/src/cron_routes.rs\<close> follow the
  authentication of the project. Instants are integers; the texts in the tables are in
  one format and one offset, and compare as their instants do.
\<close>

section \<open>Expressions\<close>

type_synonym instant = int

record ('sch, 'tz) cron_env =
  ce_parse :: "ustr \<Rightarrow> ustr + 'sch"
  ce_after :: "'sch \<Rightarrow> 'tz \<Rightarrow> instant \<Rightarrow> instant option"
  ce_zone :: "ustr \<Rightarrow> 'tz option"
  ce_utc :: 'tz
  ce_id :: "nat \<Rightarrow> ustr"
  ce_exec :: "ustr \<Rightarrow> ustr \<Rightarrow> nat \<Rightarrow> nat \<times> reply"

definition normalize_cron_expression :: "ustr \<Rightarrow> ustr" where
  "normalize_cron_expression expr =
     (if length (split_whitespace (trim expr)) = 5 then lit ''0 '' @ expr else expr)"

definition validate_cron_expression :: "('sch, 'tz) cron_env \<Rightarrow> ustr \<Rightarrow> ustr + unit" where
  "validate_cron_expression E expr =
     (case ce_parse E (normalize_cron_expression expr) of
        Inl e \<Rightarrow> Inl (lit ''Expression cron invalide : '' @ e)
      | Inr _ \<Rightarrow> Inr ())"

definition next_run_time :: "('sch, 'tz) cron_env \<Rightarrow> ustr \<Rightarrow> ustr option \<Rightarrow> instant \<Rightarrow> instant option" where
  "next_run_time E expr timezone now =
     (case ce_parse E (normalize_cron_expression expr) of
        Inl _ \<Rightarrow> None
      | Inr schedule \<Rightarrow> ce_after E schedule (unwrap_or (Option.bind timezone (ce_zone E)) (ce_utc E)) now)"

definition timezone_is_known :: "('sch, 'tz) cron_env \<Rightarrow> ustr \<Rightarrow> bool" where
  "timezone_is_known E tz \<longleftrightarrow> ce_zone E tz \<noteq> None"

text \<open>\<open>upcoming(Utc).take(n)\<close>\<close>

fun upcoming :: "('sch, 'tz) cron_env \<Rightarrow> 'sch \<Rightarrow> nat \<Rightarrow> instant \<Rightarrow> instant list" where
  "upcoming E schedule 0 now = []"
| "upcoming E schedule (Suc n) now =
     (case ce_after E schedule (ce_utc E) now of None \<Rightarrow> [] | Some t \<Rightarrow> t # upcoming E schedule n t)"

text \<open>\<open>num_minutes\<close> of a difference in nanoseconds drops the rest.\<close>

fun gaps :: "instant list \<Rightarrow> int list" where
  "gaps (a # b # ts) = (b - a) div 60000000000 # gaps (b # ts)"
| "gaps ts = []"

definition min_interval_minutes :: "('sch, 'tz) cron_env \<Rightarrow> ustr \<Rightarrow> instant \<Rightarrow> int option" where
  "min_interval_minutes E expr now =
     (case ce_parse E (normalize_cron_expression expr) of
        Inl _ \<Rightarrow> None
      | Inr schedule \<Rightarrow> min_by (\<lambda>x. x) (gaps (upcoming E schedule 200 now)))"

definition is_five_fields :: "ustr \<Rightarrow> bool" where
  "is_five_fields expr \<longleftrightarrow> length (split_whitespace expr) = 5"

section \<open>Notifications\<close>

definition should_notify :: "ustr \<Rightarrow> ustr option \<Rightarrow> ustr \<Rightarrow> bool \<Rightarrow> bool" where
  "should_notify mode previous_hash new_hash failed =
     (if mode = lit ''always'' then True
      else if mode = lit ''on_failure'' then failed
      else previous_hash \<noteq> Some new_hash)"

text \<open>A run of digits becomes one mark.\<close>

fun fold_digits :: "bool \<Rightarrow> ustr \<Rightarrow> ustr" where
  "fold_digits marked [] = []"
| "fold_digits marked (c # s) =
     (if is_ascii_digit c then (if marked then fold_digits True s else 35 # fold_digits True s)
      else c # fold_digits (c = 35) s)"

definition summary_hash :: "ustr \<Rightarrow> ustr" where
  "summary_hash summary =
     hex_digits 16 (unat (fnv1a64 (join [32] (split_whitespace (fold_digits False (to_lowercase summary))))))"

section \<open>Tables\<close>

record cron_row =
  cr_id :: ustr
  cr_project :: ustr
  cr_name :: ustr
  cr_expr :: ustr
  cr_command :: ustr
  cr_enabled :: int
  cr_timezone :: "ustr option"
  cr_status :: "ustr option"
  cr_last_run :: "instant option"
  cr_next_run :: "instant option"
  cr_created :: instant
  cr_updated :: instant
  cr_kind :: "ustr option"
  cr_agent :: "ustr option"
  cr_prompt :: "ustr option"
  cr_by :: "ustr option"
  cr_notify :: "ustr option"
  cr_hash :: "ustr option"

definition is_agent_routine :: "cron_row \<Rightarrow> bool" where
  "is_agent_routine c \<longleftrightarrow> cr_kind c = Some (lit ''agent'')"

record cron_run =
  ru_id :: ustr
  ru_cron :: ustr
  ru_project :: ustr
  ru_status :: ustr
  ru_output :: "ustr option"
  ru_code :: "int option"
  ru_started :: instant
  ru_finished :: "instant option"

record create_request =
  cq_name :: ustr
  cq_expr :: ustr
  cq_command :: ustr
  cq_enabled :: "bool option"
  cq_timezone :: "ustr option"

record update_request =
  uq_name :: "ustr option"
  uq_expr :: "ustr option"
  uq_command :: "ustr option"
  uq_enabled :: "bool option"
  uq_timezone :: "ustr option"

record project_ref =
  pr_uuid :: ustr
  pr_slug :: ustr
  pr_server :: "ustr option"

text \<open>A routine that runs in the background: the cron it was started for, its run, and the next
  instant computed when it started.\<close>

record routine =
  rt_cron :: ustr
  rt_run :: ustr
  rt_next :: "instant option"

text \<open>The database with the schedule of its failing queries, the clock, the routines under way,
  and the commands sent, with their server.\<close>

record cron_world =
  cw_crons :: "cron_row list"
  cw_runs :: "cron_run list"
  cw_projects :: "project_ref list"
  cw_faults :: "bool list"
  cw_now :: instant
  cw_ids :: nat
  cw_routines :: "routine list"
  cw_sent :: "(ustr \<times> ustr) list"

datatype cron_error = DbError | Invalid ustr | Missing ustr

type_synonym 'a cron_op = "(cron_world, cron_error, 'a) rop"

definition query :: "(cron_world \<Rightarrow> cron_world \<times> 'a) \<Rightarrow> 'a cron_op" where
  "query q w =
     (case cw_faults w of
        [] \<Rightarrow> (case q w of (w', x) \<Rightarrow> (w', Inr x))
      | f # fs \<Rightarrow>
          if f then (w\<lparr> cw_faults := fs \<rparr>, Inl DbError)
          else (case q (w\<lparr> cw_faults := fs \<rparr>) of (w', x) \<Rightarrow> (w', Inr x)))"

definition the_clock :: "instant cron_op" where
  "the_clock w = (w, Inr (cw_now w))"

definition fresh_id :: "('sch, 'tz) cron_env \<Rightarrow> ustr cron_op" where
  "fresh_id E w = (w\<lparr> cw_ids := Suc (cw_ids w) \<rparr>, Inr (ce_id E (cw_ids w)))"

definition update_crons :: "ustr \<Rightarrow> (cron_row \<Rightarrow> cron_row) \<Rightarrow> cron_world \<Rightarrow> cron_world \<times> unit" where
  "update_crons i f w = (w\<lparr> cw_crons := map (\<lambda>c. if cr_id c = i then f c else c) (cw_crons w) \<rparr>, ())"

definition update_runs :: "ustr \<Rightarrow> (cron_run \<Rightarrow> cron_run) \<Rightarrow> cron_world \<Rightarrow> cron_world \<times> unit" where
  "update_runs i f w = (w\<lparr> cw_runs := map (\<lambda>r. if ru_id r = i then f r else r) (cw_runs w) \<rparr>, ())"

section \<open>The service\<close>

definition list_crons :: "ustr \<Rightarrow> cron_row list cron_op" where
  "list_crons project = query (\<lambda>w. (w, sort_key cr_name (filter (\<lambda>c. cr_project c = project) (cw_crons w))))"

definition get_cron :: "ustr \<Rightarrow> cron_row option cron_op" where
  "get_cron i = query (\<lambda>w. (w, select_row cr_id i (cw_crons w)))"

definition need_cron :: "ustr \<Rightarrow> ustr \<Rightarrow> cron_row cron_op" where
  "need_cron i msg = andthen (get_cron i) (\<lambda>c. case c of Some c \<Rightarrow> ret c | None \<Rightarrow> fail (Missing msg))"

text \<open>An \<open>INSERT\<close> whose key is taken is an error of the database.\<close>

definition insert_cron :: "cron_row \<Rightarrow> unit cron_op" where
  "insert_cron c =
     andthen (query (\<lambda>w.
       if select_row cr_id (cr_id c) (cw_crons w) = None
       then (w\<lparr> cw_crons := cw_crons w @ [c] \<rparr>, True) else (w, False)))
     (\<lambda>fresh. if fresh then ret () else fail DbError)"

definition create_cron :: "('sch, 'tz) cron_env \<Rightarrow> ustr \<Rightarrow> create_request \<Rightarrow> cron_row cron_op" where
  "create_cron E project req =
     andthen (lift_res Invalid (validate_cron_expression E (cq_expr req))) (\<lambda>_.
     andthen (fresh_id E) (\<lambda>i.
     andthen the_clock (\<lambda>now.
     andthen (insert_cron
       \<lparr> cr_id = i, cr_project = project, cr_name = cq_name req, cr_expr = cq_expr req, cr_command = cq_command req,
         cr_enabled = (if unwrap_or (cq_enabled req) True then 1 else 0), cr_timezone = cq_timezone req,
         cr_status = None, cr_last_run = None, cr_next_run = next_run_time E (cq_expr req) (cq_timezone req) now,
         cr_created = now, cr_updated = now, cr_kind = None, cr_agent = None, cr_prompt = None, cr_by = None,
         cr_notify = None, cr_hash = None \<rparr>) (\<lambda>_.
     need_cron i (lit ''cron non trouv'' @ [233] @ lit '' apr'' @ [232] @ lit ''s cr'' @ [233] @ lit ''ation'')))))"

definition update_cron :: "('sch, 'tz) cron_env \<Rightarrow> ustr \<Rightarrow> update_request \<Rightarrow> cron_row cron_op" where
  "update_cron E i req =
     andthen (need_cron i (lit ''cron introuvable'')) (\<lambda>existing.
     let expr = unwrap_or (uq_expr req) (cr_expr existing);
         timezone = opt_or (uq_timezone req) (cr_timezone existing);
         enabled = (case uq_enabled req of Some True \<Rightarrow> 1 | Some False \<Rightarrow> 0 | None \<Rightarrow> cr_enabled existing)
     in andthen (lift_res Invalid (validate_cron_expression E expr)) (\<lambda>_.
        andthen the_clock (\<lambda>now.
        andthen (query (update_crons i (\<lambda>c. c\<lparr> cr_name := unwrap_or (uq_name req) (cr_name existing),
            cr_expr := expr, cr_command := unwrap_or (uq_command req) (cr_command existing), cr_enabled := enabled,
            cr_timezone := timezone, cr_next_run := next_run_time E expr timezone now, cr_updated := now \<rparr>))) (\<lambda>_.
        need_cron i (lit ''cron introuvable apr'' @ [232] @ lit ''s mise '' @ [224] @ lit '' jour'')))))"

definition delete_cron :: "ustr \<Rightarrow> bool cron_op" where
  "delete_cron i =
     andthen (query (\<lambda>w. (w\<lparr> cw_runs := filter (\<lambda>r. ru_cron r \<noteq> i) (cw_runs w) \<rparr>, ()))) (\<lambda>_.
     query (\<lambda>w. (w\<lparr> cw_crons := delete_row cr_id i (cw_crons w) \<rparr>, select_row cr_id i (cw_crons w) \<noteq> None)))"

definition set_enabled :: "ustr \<Rightarrow> bool \<Rightarrow> cron_row cron_op" where
  "set_enabled i enabled =
     andthen the_clock (\<lambda>now.
     andthen (query (update_crons i (\<lambda>c. c\<lparr> cr_enabled := (if enabled then 1 else 0), cr_updated := now \<rparr>))) (\<lambda>_.
     need_cron i (lit ''cron introuvable'')))"

definition list_runs :: "ustr \<Rightarrow> nat \<Rightarrow> cron_run list cron_op" where
  "list_runs i limit =
     query (\<lambda>w. (w, take limit (sort_key (\<lambda>r. - ru_started r) (filter (\<lambda>r. ru_cron r = i) (cw_runs w)))))"

definition record_run_start :: "('sch, 'tz) cron_env \<Rightarrow> cron_row \<Rightarrow> ustr cron_op" where
  "record_run_start E c =
     andthen (fresh_id E) (\<lambda>run_id.
     andthen the_clock (\<lambda>now.
     andthen (query (\<lambda>w. (w\<lparr> cw_runs := cw_runs w @
       [\<lparr> ru_id = run_id, ru_cron = cr_id c, ru_project = cr_project c, ru_status = lit ''running'',
          ru_output = None, ru_code = None, ru_started = now, ru_finished = None \<rparr>] \<rparr>, ()))) (\<lambda>_.
     ret run_id)))"

definition record_run_finish :: "ustr \<Rightarrow> ustr \<Rightarrow> ustr option \<Rightarrow> int option \<Rightarrow> unit cron_op" where
  "record_run_finish run_id status output code =
     andthen the_clock (\<lambda>now.
     query (update_runs run_id (\<lambda>r. r\<lparr> ru_status := status, ru_output := output, ru_code := code,
       ru_finished := Some now \<rparr>)))"

definition update_cron_status :: "ustr \<Rightarrow> ustr \<Rightarrow> instant option \<Rightarrow> unit cron_op" where
  "update_cron_status i status next_run =
     andthen the_clock (\<lambda>now.
     query (update_crons i (\<lambda>c. c\<lparr> cr_status := Some status, cr_last_run := Some now, cr_next_run := next_run,
       cr_updated := now \<rparr>)))"

text \<open>\<open>ORDER BY next_run_at\<close> puts the rows without one last.\<close>

definition is_due :: "instant \<Rightarrow> cron_row \<Rightarrow> bool" where
  "is_due now c \<longleftrightarrow> cr_enabled c = 1 \<and> (case cr_next_run c of None \<Rightarrow> True | Some t \<Rightarrow> t \<le> now)"

definition get_due_crons :: "cron_row list cron_op" where
  "get_due_crons =
     andthen the_clock (\<lambda>now.
     query (\<lambda>w. let due = filter (is_due now) (cw_crons w)
       in (w, sort_key (\<lambda>c. the (cr_next_run c)) (filter (\<lambda>c. cr_next_run c \<noteq> None) due) @
              filter (\<lambda>c. cr_next_run c = None) due)))"

section \<open>The scheduler\<close>

definition cron_shell_escape :: "ustr \<Rightarrow> ustr" where
  "cron_shell_escape s =
     (if list_all (\<lambda>c. is_ascii_alnum c \<or> c \<in> set (lit ''-_./:='')) s then s else [39] @ requote s @ [39])"

definition cron_container_name :: "ustr \<Rightarrow> ustr cron_op" where
  "cron_container_name project =
     andthen (query (\<lambda>w. (w, select_row pr_uuid project (cw_projects w)))) (\<lambda>row.
     ret (case row of Some p \<Rightarrow> lit ''df-'' @ pr_slug p | None \<Rightarrow> []))"

definition cron_server_id :: "ustr \<Rightarrow> ustr cron_op" where
  "cron_server_id project =
     andthen (query (\<lambda>w. (w, select_row pr_uuid project (cw_projects w)))) (\<lambda>row.
     ret (unwrap_or (Option.bind row pr_server) (lit ''default'')))"

definition compute_next_run :: "('sch, 'tz) cron_env \<Rightarrow> cron_row \<Rightarrow> instant option cron_op" where
  "compute_next_run E c = andthen the_clock (\<lambda>now. ret (next_run_time E (cr_expr c) (cr_timezone c) now))"

text \<open>The executor answers after some time; its answer is a function of the server, the command and
  the number of commands sent before.\<close>

definition cron_exec :: "('sch, 'tz) cron_env \<Rightarrow> ustr \<Rightarrow> ustr \<Rightarrow> reply cron_op" where
  "cron_exec E server c w =
     (case ce_exec E server c (length (cw_sent w)) of
        (d, r) \<Rightarrow> (w\<lparr> cw_sent := cw_sent w @ [(server, c)], cw_now := cw_now w + int d \<rparr>, Inr r))"

definition exec_command :: "ustr \<Rightarrow> ustr \<Rightarrow> ustr" where
  "exec_command container c =
     lit ''docker exec '' @ cron_shell_escape container @ lit '' sh -c '' @ cron_shell_escape c"

definition run_outcome :: "reply \<Rightarrow> ustr \<times> ustr \<times> int option" where
  "run_outcome r =
     (case r of
        Inr x \<Rightarrow> (if er_ok x then lit ''success'' else lit ''failed'', er_out x, Some (er_code x))
      | Inl e \<Rightarrow> (lit ''failed'', e, None))"

definition no_container :: ustr where
  "no_container = lit ''Conteneur introuvable ou projet non d'' @ [233] @ lit ''ploy'' @ [233]"

definition finish_run :: "('sch, 'tz) cron_env \<Rightarrow> cron_row \<Rightarrow> ustr \<Rightarrow> ustr \<Rightarrow> ustr \<Rightarrow> int option \<Rightarrow> unit cron_op" where
  "finish_run E c run_id status output code =
     andthen (record_run_finish run_id status (Some output) code) (\<lambda>_.
     andthen (compute_next_run E c) (\<lambda>next_run. update_cron_status (cr_id c) status next_run))"

definition run_command :: "('sch, 'tz) cron_env \<Rightarrow> cron_row \<Rightarrow> ustr \<Rightarrow> unit cron_op" where
  "run_command E c run_id =
     andthen (cron_container_name (cr_project c)) (\<lambda>container.
     if container = [] then finish_run E c run_id (lit ''failed'') no_container None
     else andthen (cron_server_id (cr_project c)) (\<lambda>server.
          andthen (cron_exec E server (exec_command container (cr_command c))) (\<lambda>r.
          case run_outcome r of (status, output, code) \<Rightarrow> finish_run E c run_id status output code)))"

text \<open>A routine goes on in the background; the cron is marked as running and its next instant is
  set at once.\<close>

definition start_routine :: "('sch, 'tz) cron_env \<Rightarrow> cron_row \<Rightarrow> ustr \<Rightarrow> unit cron_op" where
  "start_routine E c run_id =
     andthen (compute_next_run E c) (\<lambda>next_run.
     andthen (update_cron_status (cr_id c) (lit ''running'') next_run) (\<lambda>_.
     (\<lambda>w. (w\<lparr> cw_routines := cw_routines w @
        [\<lparr> rt_cron = cr_id c, rt_run = run_id, rt_next = next_run \<rparr>] \<rparr>, Inr ()))))"

definition run_cron :: "('sch, 'tz) cron_env \<Rightarrow> cron_row \<Rightarrow> unit cron_op" where
  "run_cron E c =
     andthen (record_run_start E c) (\<lambda>run_id.
     if is_agent_routine c then start_routine E c run_id else run_command E c run_id)"

definition run_cron_by_id :: "('sch, 'tz) cron_env \<Rightarrow> ustr \<Rightarrow> unit cron_op" where
  "run_cron_by_id E i = andthen (need_cron i (lit ''cron introuvable'')) (run_cron E)"

text \<open>The end of a routine: what its agent answered is recorded, then the status and the next
  instant computed at its start. Errors go to the log of the server.\<close>

definition end_routine :: "routine \<Rightarrow> ustr \<Rightarrow> ustr \<Rightarrow> cron_world \<Rightarrow> cron_world" where
  "end_routine r status output w =
     fst (update_cron_status (rt_cron r) status (rt_next r)
       (fst (record_run_finish (rt_run r) status (Some output) None w)))"

text \<open>A tick runs the due crons one after the other; the error of one does not stop the others.\<close>

fun run_due :: "('sch, 'tz) cron_env \<Rightarrow> cron_row list \<Rightarrow> cron_world \<Rightarrow> cron_world" where
  "run_due E [] w = w"
| "run_due E (c # cs) w = run_due E cs (fst (run_cron E c w))"

definition tick :: "('sch, 'tz) cron_env \<Rightarrow> cron_world \<Rightarrow> cron_world" where
  "tick E w = (case get_due_crons w of (w', Inl e) \<Rightarrow> w' | (w', Inr due) \<Rightarrow> run_due E due w')"

section \<open>Handlers\<close>

datatype api_error = ApiMissing | ApiForbidden | ApiMessage cron_error

type_synonym 'a cron_api = "(cron_world, api_error, 'a) rop"

definition api :: "'a cron_op \<Rightarrow> 'a cron_api" where
  "api m w = (case m w of (w', Inl e) \<Rightarrow> (w', Inl (ApiMessage e)) | (w', Inr x) \<Rightarrow> (w', Inr x))"

text \<open>The beginning of the handlers of one cron.\<close>

definition owned_cron :: "ustr \<Rightarrow> ustr \<Rightarrow> cron_row cron_api" where
  "owned_cron project i =
     andthen (api (get_cron i)) (\<lambda>row.
     case row of
       None \<Rightarrow> fail ApiMissing
     | Some c \<Rightarrow> if cr_project c \<noteq> project then fail ApiForbidden else ret c)"

definition update_cron_route :: "('sch, 'tz) cron_env \<Rightarrow> ustr \<Rightarrow> ustr \<Rightarrow> update_request \<Rightarrow> cron_row cron_api" where
  "update_cron_route E project i req = andthen (owned_cron project i) (\<lambda>_. api (update_cron E i req))"

definition delete_cron_route :: "ustr \<Rightarrow> ustr \<Rightarrow> bool cron_api" where
  "delete_cron_route project i = andthen (owned_cron project i) (\<lambda>_. api (delete_cron i))"

definition enable_cron_route :: "ustr \<Rightarrow> ustr \<Rightarrow> cron_row cron_api" where
  "enable_cron_route project i = andthen (owned_cron project i) (\<lambda>_. api (set_enabled i True))"

definition disable_cron_route :: "ustr \<Rightarrow> ustr \<Rightarrow> cron_row cron_api" where
  "disable_cron_route project i = andthen (owned_cron project i) (\<lambda>_. api (set_enabled i False))"

text \<open>The run itself goes on in the background, its error to the log of the server.\<close>

definition run_now :: "('sch, 'tz) cron_env \<Rightarrow> ustr \<Rightarrow> ustr \<Rightarrow> unit cron_api" where
  "run_now E project i =
     andthen (owned_cron project i) (\<lambda>_. (\<lambda>w. (fst (run_cron_by_id E i w), Inr ())))"

section \<open>Steps\<close>

text \<open>Time passes, the scheduler ticks, a routine ends (by its place among those under way), a
  handler is called, and the connection may fail from now on. A tick and a run are one step.\<close>

datatype cron_event =
    Pass nat
  | Tick
  | RoutineEnds nat ustr ustr
  | Create ustr create_request
  | Update ustr ustr update_request
  | Delete ustr ustr
  | Enable ustr ustr
  | Disable ustr ustr
  | RunNow ustr ustr
  | Faults "bool list"

fun cron_step :: "('sch, 'tz) cron_env \<Rightarrow> cron_event \<Rightarrow> cron_world \<Rightarrow> cron_world" where
  "cron_step E (Pass d) w = w\<lparr> cw_now := cw_now w + int d \<rparr>"
| "cron_step E Tick w = tick E w"
| "cron_step E (RoutineEnds k status output) w =
     (if k < length (cw_routines w)
      then end_routine (cw_routines w ! k) status output
             (w\<lparr> cw_routines := take k (cw_routines w) @ drop (Suc k) (cw_routines w) \<rparr>)
      else w)"
| "cron_step E (Create project req) w = fst (create_cron E project req w)"
| "cron_step E (Update project i req) w = fst (update_cron_route E project i req w)"
| "cron_step E (Delete project i) w = fst (delete_cron_route project i w)"
| "cron_step E (Enable project i) w = fst (enable_cron_route project i w)"
| "cron_step E (Disable project i) w = fst (disable_cron_route project i w)"
| "cron_step E (RunNow project i) w = fst (run_now E project i w)"
| "cron_step E (Faults fs) w = w\<lparr> cw_faults := fs \<rparr>"

abbreviation cron_steps :: "('sch, 'tz) cron_env \<Rightarrow> cron_event list \<Rightarrow> cron_world \<Rightarrow> cron_world" where
  "cron_steps E evs w \<equiv> fold (cron_step E) evs w"

end
