(* ===== verification/CronProps.thy ===== *)
theory CronProps
  imports Cron BlueGreenProps
begin

text \<open>The scheduled commands: what the operations keep of the tables (\<open>keeps\<close>, \<open>on_tables\<close>), the clock
  that never goes back, the runs that are started and when, the command a run sends, and the crons
  that come due again.\<close>

section \<open>What an operation keeps\<close>

definition keeps :: "(cron_world \<Rightarrow> bool) \<Rightarrow> (cron_world, 'e, 'a) rop \<Rightarrow> bool" where
  "keeps P m \<longleftrightarrow> (\<forall>w. P w \<longrightarrow> P (fst (m w)))"

named_theorems keeps_intros \<open>operations that keep a property of the tables\<close>

lemma keepsD: "keeps P m \<Longrightarrow> P w \<Longrightarrow> P (fst (m w))"
  by (simp add: keeps_def)

lemma keeps_basic [keeps_intros]:
  "keeps P (ret x)" "keeps P (fail e)" "keeps P (lift_res h r)" "keeps P the_clock"
  by (auto simp: keeps_def ret_def fail_def lift_res_def the_clock_def split: sum.split)

lemma keeps_andthen [keeps_intros]:
  "keeps P m \<Longrightarrow> (\<And>x. keeps P (f x)) \<Longrightarrow> keeps P (andthen m f)"
  unfolding keeps_def andthen_def by (force split: prod.splits sum.splits)

lemma keeps_checked:
  "(\<And>x. r = Inr x \<Longrightarrow> keeps P (f x)) \<Longrightarrow> keeps P (andthen (lift_res h r) f)"
  by (cases r) (auto simp: keeps_def andthen_def lift_res_def ret_def fail_def)

lemma keeps_api [keeps_intros]: "keeps P m \<Longrightarrow> keeps P (api m)"
  unfolding keeps_def api_def by (force split: prod.splits sum.splits)

lemma keeps_if [keeps_intros]: "(b \<Longrightarrow> keeps P m) \<Longrightarrow> (\<not> b \<Longrightarrow> keeps P n) \<Longrightarrow> keeps P (if b then m else n)"
  by simp

lemma keeps_option [keeps_intros]:
  "(v = None \<Longrightarrow> keeps P m) \<Longrightarrow> (\<And>x. v = Some x \<Longrightarrow> keeps P (f x)) \<Longrightarrow> keeps P (case v of None \<Rightarrow> m | Some x \<Rightarrow> f x)"
  by (cases v) simp_all

lemma keeps_prod [keeps_intros]:
  "(\<And>a b. v = (a, b) \<Longrightarrow> keeps P (f a b)) \<Longrightarrow> keeps P (case v of (a, b) \<Rightarrow> f a b)"
  by (cases v) simp

text \<open>A property of the crons, the runs and the routines under way.\<close>

definition on_tables :: "(cron_row list \<Rightarrow> cron_run list \<Rightarrow> routine list \<Rightarrow> bool) \<Rightarrow> cron_world \<Rightarrow> bool" where
  "on_tables Q w \<longleftrightarrow> Q (cw_crons w) (cw_runs w) (cw_routines w)"

lemma on_tables_upd [simp]:
  "on_tables Q (w\<lparr>cw_faults := a\<rparr>) = on_tables Q w" "on_tables Q (w\<lparr>cw_now := t\<rparr>) = on_tables Q w"
  "on_tables Q (w\<lparr>cw_ids := n\<rparr>) = on_tables Q w"
  "on_tables Q (w\<lparr>cw_sent := s\<rparr>) = on_tables Q w"
  by (simp_all add: on_tables_def)

lemma query_fst:
  "fst (query q w) = (case cw_faults w of [] \<Rightarrow> fst (q w)
     | f # fs \<Rightarrow> if f then w\<lparr>cw_faults := fs\<rparr> else fst (q (w\<lparr>cw_faults := fs\<rparr>)))"
  by (simp add: query_def split: list.split prod.split)

lemma keeps_query:
  assumes "\<And>w. Q (cw_crons w) (cw_runs w) (cw_routines w) \<Longrightarrow>
    Q (cw_crons (fst (q w))) (cw_runs (fst (q w))) (cw_routines (fst (q w)))"
  shows "keeps (on_tables Q) (query q)"
  using assms [of w for w] assms [of "w\<lparr>cw_faults := fs\<rparr>" for w fs]
  by (simp add: keeps_def query_fst on_tables_def split: list.split)

lemma keeps_read [keeps_intros]: "keeps (on_tables Q) (query (\<lambda>w. (w, f w)))"
  by (rule keeps_query) simp

lemma keeps_fresh [keeps_intros]: "keeps (on_tables Q) (fresh_id E)"
  by (simp add: keeps_def fresh_id_def)

lemma keeps_exec [keeps_intros]: "keeps (on_tables Q) (cron_exec E server c)"
  by (simp add: keeps_def cron_exec_def split: prod.split)

lemma keeps_get [keeps_intros]:
  "keeps (on_tables Q) (get_cron i)" "keeps (on_tables Q) (need_cron i m)" "keeps (on_tables Q) (owned_cron p i)"
  "keeps (on_tables Q) (cron_container_name p)" "keeps (on_tables Q) (cron_server_id p)" "keeps (on_tables Q) get_due_crons"
  "keeps (on_tables Q) (compute_next_run E c)"
  unfolding get_cron_def need_cron_def owned_cron_def cron_container_name_def cron_server_id_def get_due_crons_def Let_def
    compute_next_run_def
  by (intro keeps_intros)+

text \<open>What a run may do to the tables.\<close>

lemma keeps_run:
  assumes start: "\<And>cs rs us r. Q cs rs us \<Longrightarrow> ru_cron r = cr_id c \<Longrightarrow> Q cs (rs @ [r]) us"
    and finish: "\<And>cs rs us i f. Q cs rs us \<Longrightarrow> (\<And>r. ru_cron (f r) = ru_cron r \<and> ru_started (f r) = ru_started r) \<Longrightarrow>
           Q cs (map (\<lambda>r. if ru_id r = i then f r else r) rs) us"
    and status: "\<And>cs rs us s t n u. Q cs rs us \<Longrightarrow> Q (map (\<lambda>d. if cr_id d = cr_id c
           then d\<lparr>cr_status := s, cr_last_run := t, cr_next_run := n, cr_updated := u\<rparr> else d) cs) rs us"
    and routine: "\<And>cs rs us r. Q cs rs us \<Longrightarrow> rt_cron r = cr_id c \<Longrightarrow> Q cs rs (us @ [r])"
  shows "keeps (on_tables Q) (run_cron E c)"
proof -
  have fin: "keeps (on_tables Q) (record_run_finish i st out code)" for i st out code
    unfolding record_run_finish_def
    by (intro keeps_intros keeps_query) (simp add: update_runs_def finish)
  have upd: "keeps (on_tables Q) (update_cron_status (cr_id c) st n)" for st n
    unfolding update_cron_status_def
    by (intro keeps_intros keeps_query) (simp add: update_crons_def status)
  have begin_run: "keeps (on_tables Q) (record_run_start E c)"
    unfolding record_run_start_def by (intro keeps_intros keeps_query) (simp add: start)
  have routine_run: "keeps (on_tables Q) (start_routine E c i)" for i
    unfolding start_routine_def by (intro keeps_intros upd) (simp add: keeps_def on_tables_def routine)
  show ?thesis
    unfolding run_cron_def run_command_def finish_run_def run_outcome_def
    by (intro keeps_intros fin upd begin_run routine_run)
qed

lemma keeps_due:
  assumes "\<And>c. c \<in> set cs \<Longrightarrow> keeps P (run_cron E c)" and "P w"
  shows "P (run_due E cs w)"
  using assms
proof (induction cs arbitrary: w)
  case (Cons c cs)
  from Cons.prems(1) [of c] Cons.prems(2) have "P (fst (run_cron E c w))" by (simp add: keepsD)
  with Cons show ?case by simp
qed simp


lemma keeps_tick:
  assumes "\<And>c. keeps (on_tables Q) (run_cron E c)" and "on_tables Q w"
  shows "on_tables Q (tick E w)"
proof -
  obtain w1 r where g: "get_due_crons w = (w1, r)" by (rule prod.exhaust)
  have "keeps (on_tables Q) get_due_crons" by (intro keeps_intros)
  from keepsD [OF this assms(2)] g have "on_tables Q w1" by simp
  then show ?thesis using g keeps_due [OF assms(1)] by (simp add: tick_def split: sum.split)
qed

section \<open>Every stored expression is valid\<close>

definition valid_crons :: "('sch, 'tz) cron_env \<Rightarrow> cron_world \<Rightarrow> bool" where
  "valid_crons E w \<longleftrightarrow> (\<forall>c \<in> set (cw_crons w). validate_cron_expression E (cr_expr c) = Inr ())"

abbreviation valid_tables :: "('sch, 'tz) cron_env \<Rightarrow> cron_world \<Rightarrow> bool" where
  "valid_tables E \<equiv> on_tables (\<lambda>cs rs us. \<forall>c \<in> set cs. validate_cron_expression E (cr_expr c) = Inr ())"

lemma valid_insert: "validate_cron_expression E (cr_expr c) = Inr () \<Longrightarrow> keeps (valid_tables E) (insert_cron c)"
  unfolding insert_cron_def by (intro keeps_intros keeps_query) auto


lemma valid_update:
  assumes "\<And>c. cr_expr (f c) = cr_expr c \<or> validate_cron_expression E (cr_expr (f c)) = Inr ()"
  shows "keeps (valid_tables E) (query (update_crons i f))"
proof (intro keeps_query)
  fix w :: cron_world
  assume v: "\<forall>c \<in> set (cw_crons w). validate_cron_expression E (cr_expr c) = Inr ()"
  show "\<forall>c \<in> set (cw_crons (fst (update_crons i f w))). validate_cron_expression E (cr_expr c) = Inr ()"
  proof
    fix d
    assume "d \<in> set (cw_crons (fst (update_crons i f w)))"
    then obtain c where "c \<in> set (cw_crons w)" and "d = (if cr_id c = i then f c else c)"
      by (auto simp: update_crons_def)
    with v assms [of c] show "validate_cron_expression E (cr_expr d) = Inr ()" by (auto split: if_splits)
  qed
qed

lemma valid_run: "keeps (valid_tables E) (run_cron E c)"
  by (rule keeps_run) auto

lemma valid_finish [keeps_intros]:
  "keeps (valid_tables E) (record_run_finish i s out code)" "keeps (valid_tables E) (update_cron_status i s n)"
  unfolding record_run_finish_def update_cron_status_def
  by (intro keeps_intros valid_update keeps_query; simp add: update_runs_def)+

lemma valid_ops [keeps_intros]:
  "keeps (valid_tables E) (update_cron E i u)" "keeps (valid_tables E) (delete_cron i)" "keeps (valid_tables E) (set_enabled i b)"
  unfolding update_cron_def delete_cron_def set_enabled_def Let_def
  by (intro keeps_intros keeps_checked valid_update keeps_query; simp add: delete_row_def)+

lemma valid_create: "keeps (valid_tables E) (create_cron E p req)"
  unfolding create_cron_def by (intro keeps_intros keeps_checked valid_insert) simp

lemma valid_routes:
  "keeps (valid_tables E) (update_cron_route E p i u)" "keeps (valid_tables E) (delete_cron_route p i)"
  "keeps (valid_tables E) (enable_cron_route p i)" "keeps (valid_tables E) (disable_cron_route p i)"
  "keeps (valid_tables E) (run_now E p i)"
proof -
  have "keeps (valid_tables E) (run_cron_by_id E i)"
    unfolding run_cron_by_id_def by (intro keeps_intros valid_run)
  then have "keeps (valid_tables E) (\<lambda>w. (fst (run_cron_by_id E i w), Inr ()))" by (simp add: keeps_def)
  then show "keeps (valid_tables E) (run_now E p i)" unfolding run_now_def by (intro keeps_intros)
qed (unfold update_cron_route_def delete_cron_route_def enable_cron_route_def disable_cron_route_def, (intro keeps_intros)+)

lemma valid_end: "valid_tables E w \<Longrightarrow> valid_tables E (end_routine r st out w)"
  unfolding end_routine_def by (intro keepsD [OF valid_finish(1)] keepsD [OF valid_finish(2)])

text \<open>C23. Whatever is asked of the service and whatever the scheduler does, every stored cron has an
  expression that was validated.\<close>

theorem cron_expressions_valid:
  assumes "valid_crons E w"
  shows "valid_crons E (cron_step E ev w)"
proof -
  have v: "valid_crons E = valid_tables E" by (simp add: valid_crons_def on_tables_def fun_eq_iff)
  have w: "valid_tables E w" using assms unfolding v .
  have "valid_tables E (cron_step E ev w)"
  proof (cases ev)
    case Tick
    then show ?thesis using keeps_tick [OF valid_run w] by simp
  next
    case (RoutineEnds k st out)
    have "valid_tables E (w\<lparr>cw_routines := rs\<rparr>)" for rs using w by (simp add: on_tables_def)
    from valid_end [OF this] w RoutineEnds show ?thesis by simp
  next
    case (Create p req)
    then show ?thesis using keepsD [OF valid_create w] by simp
  next
    case (Update p i u)
    then show ?thesis using keepsD [OF valid_routes(1) w] by simp
  next
    case (Delete p i)
    then show ?thesis using keepsD [OF valid_routes(2) w] by simp
  next
    case (Enable p i)
    then show ?thesis using keepsD [OF valid_routes(3) w] by simp
  next
    case (Disable p i)
    then show ?thesis using keepsD [OF valid_routes(4) w] by simp
  next
    case (RunNow p i)
    then show ?thesis using keepsD [OF valid_routes(5) w] by simp
  qed (use w in simp_all)
  then show ?thesis unfolding v .
qed

section \<open>The clock does not go back\<close>

lemma later_query [keeps_intros]:
  "(\<And>w. cw_now (fst (q w)) = cw_now w) \<Longrightarrow> keeps (\<lambda>w. a \<le> cw_now w) (query q)"
  by (simp add: keeps_def query_fst split: list.split)

lemma later_basic [keeps_intros]:
  "keeps (\<lambda>w. a \<le> cw_now w) (fresh_id E)" "keeps (\<lambda>w. a \<le> cw_now w) (cron_exec E server c)"
  by (simp_all add: keeps_def fresh_id_def cron_exec_def split: prod.split)

lemma later_parts [keeps_intros]:
  "keeps (\<lambda>w. a \<le> cw_now w) (need_cron i m)" "keeps (\<lambda>w. a \<le> cw_now w) (owned_cron p i)"
  "keeps (\<lambda>w. a \<le> cw_now w) (record_run_finish r s out code)" "keeps (\<lambda>w. a \<le> cw_now w) (update_cron_status i s n)"
  "keeps (\<lambda>w. a \<le> cw_now w) get_due_crons"
  unfolding need_cron_def get_cron_def owned_cron_def record_run_finish_def update_cron_status_def get_due_crons_def Let_def
  by (intro keeps_intros; simp add: update_crons_def update_runs_def)+

lemma later_run [keeps_intros]: "keeps (\<lambda>w. a \<le> cw_now w) (run_cron E c)"
  unfolding run_cron_def record_run_start_def start_routine_def compute_next_run_def run_command_def finish_run_def
    run_outcome_def cron_container_name_def cron_server_id_def
  by (intro keeps_intros) (simp_all add: keeps_def)

lemma later_routes:
  "keeps (\<lambda>w. a \<le> cw_now w) (create_cron E p req)" "keeps (\<lambda>w. a \<le> cw_now w) (update_cron_route E p i u)"
  "keeps (\<lambda>w. a \<le> cw_now w) (delete_cron_route p i)" "keeps (\<lambda>w. a \<le> cw_now w) (enable_cron_route p i)"
  "keeps (\<lambda>w. a \<le> cw_now w) (disable_cron_route p i)" "keeps (\<lambda>w. a \<le> cw_now w) (run_cron_by_id E i)"
  unfolding create_cron_def update_cron_route_def delete_cron_route_def enable_cron_route_def disable_cron_route_def
    update_cron_def delete_cron_def set_enabled_def insert_cron_def run_cron_by_id_def Let_def
  by (intro keeps_intros; simp add: update_crons_def)+

lemma later_due: "a \<le> cw_now w \<Longrightarrow> a \<le> cw_now (run_due E cs w)"
  using keeps_due [of cs "\<lambda>w. a \<le> cw_now w" E w] later_run by blast

lemma later_tick: "cw_now w \<le> cw_now (tick E w)"
proof -
  obtain w1 r where g: "get_due_crons w = (w1, r)" by (rule prod.exhaust)
  have "cw_now w \<le> cw_now w1"
    using keepsD [OF later_parts(5) [of "cw_now w"], of w] g by simp
  then show ?thesis using later_due [of "cw_now w" w1 E] g by (simp add: tick_def split: sum.split)
qed

lemma later_step: "cw_now w \<le> cw_now (cron_step E ev w)"
proof (cases ev)
  case Tick
  then show ?thesis using later_tick by simp
next
  case (RoutineEnds k st out)
  have "cw_now w \<le> cw_now (end_routine r st out (w\<lparr>cw_routines := rs\<rparr>))" for r rs
    unfolding end_routine_def
    by (intro keepsD [OF later_parts(3)] keepsD [OF later_parts(4)]) simp
  with RoutineEnds show ?thesis by simp
next
  case (Create p req)
  then show ?thesis using keepsD [OF later_routes(1) [of "cw_now w"], of w] by simp
next
  case (Update p i u)
  then show ?thesis using keepsD [OF later_routes(2) [of "cw_now w"], of w] by simp
next
  case (Delete p i)
  then show ?thesis using keepsD [OF later_routes(3) [of "cw_now w"], of w] by simp
next
  case (Enable p i)
  then show ?thesis using keepsD [OF later_routes(4) [of "cw_now w"], of w] by simp
next
  case (Disable p i)
  then show ?thesis using keepsD [OF later_routes(5) [of "cw_now w"], of w] by simp
next
  case (RunNow p i)
  have "keeps (\<lambda>v. cw_now w \<le> cw_now v) (\<lambda>v. (fst (run_cron_by_id E i v), Inr () :: api_error + unit))"
    using later_routes(6) [of "cw_now w" E i] by (simp add: keeps_def)
  then have k: "keeps (\<lambda>v. cw_now w \<le> cw_now v) (run_now E p i)"
    unfolding run_now_def by (intro keeps_intros)
  show ?thesis using RunNow keepsD [OF k, of w] by simp
qed simp_all

lemma later_steps: "cw_now w \<le> cw_now (cron_steps E evs w)"
proof (induction evs arbitrary: w)
  case (Cons ev evs)
  from later_step [of w E ev] Cons [of "cron_step E ev w"] show ?case by simp
qed simp

section \<open>A cron waits for its next instant\<close>

definition started :: "ustr \<Rightarrow> cron_run list \<Rightarrow> instant list" where
  "started i rs = map ru_started (filter (\<lambda>r. ru_cron r = i) rs)"

fun spares :: "ustr \<Rightarrow> cron_event \<Rightarrow> bool" where
  "spares i (Update p j u) = (j \<noteq> i)"
| "spares i (Delete p j) = (j \<noteq> i)"
| "spares i (Enable p j) = (j \<noteq> i)"
| "spares i (Disable p j) = (j \<noteq> i)"
| "spares i (RunNow p j) = (j \<noteq> i)"
| "spares i ev = True"

text \<open>The row of the cron, the starts of its runs, and no routine of it under way.\<close>

definition settled :: "cron_row \<Rightarrow> instant list \<Rightarrow> cron_row list \<Rightarrow> cron_run list \<Rightarrow> routine list \<Rightarrow> bool" where
  "settled c ss cs rs us \<longleftrightarrow> distinct (map cr_id cs) \<and> select_row cr_id (cr_id c) cs = Some c \<and>
     started (cr_id c) rs = ss \<and> (\<forall>r \<in> set us. rt_cron r \<noteq> cr_id c)"

lemma settled_update:
  assumes "settled c ss cs rs us" and "j \<noteq> cr_id c" and "\<And>d. cr_id (f d) = cr_id d"
  shows "settled c ss (map (\<lambda>d. if cr_id d = j then f d else d) cs) rs us"
proof -
  let ?g = "\<lambda>d. if cr_id d = j then f d else d"
  have k: "cr_id (?g d) = cr_id d" for d by (simp add: assms(3))
  have "select_row cr_id (cr_id c) (map ?g cs) = map_option ?g (select_row cr_id (cr_id c) cs)"
    by (rule select_row_map) (rule k)
  moreover have "map cr_id (map ?g cs) = map cr_id cs" by (simp add: k)
  ultimately show ?thesis using assms(1,2) by (simp only: settled_def) simp
qed

lemma started_map:
  "(\<And>r. ru_cron (f r) = ru_cron r \<and> ru_started (f r) = ru_started r) \<Longrightarrow>
   started i (map (\<lambda>r. if ru_id r = k then f r else r) rs) = started i rs"
  by (induction rs) (auto simp: started_def)

lemma settled_query:
  assumes "j \<noteq> cr_id c" and "\<And>d. cr_id (f d) = cr_id d"
  shows "keeps (on_tables (settled c ss)) (query (update_crons j f))"
  by (rule keeps_query) (simp add: update_crons_def settled_update assms)

lemma settled_finish:
  "keeps (on_tables (settled c ss)) (record_run_finish i s out code)"
  "j \<noteq> cr_id c \<Longrightarrow> keeps (on_tables (settled c ss)) (update_cron_status j s n)"
  unfolding record_run_finish_def update_cron_status_def
  by (intro keeps_intros keeps_query settled_query; simp add: update_runs_def settled_def started_map)+

lemma settled_run: "cr_id d \<noteq> cr_id c \<Longrightarrow> keeps (on_tables (settled c ss)) (run_cron E d)"
  by (rule keeps_run) (auto simp: settled_update, auto simp: settled_def started_def started_map [unfolded started_def])

lemma settled_insert: "keeps (on_tables (settled c ss)) (insert_cron d)"
proof -
  have "find (\<lambda>r. cr_id r = i) (cs @ [d]) = Some c" if "find (\<lambda>r. cr_id r = i) cs = Some c" for cs i
    using that by (induction cs) auto
  then have "settled c ss (cs @ [d]) rs us" if "settled c ss cs rs us" and "select_row cr_id (cr_id d) cs = None" for cs rs us
    using that by (auto simp: settled_def select_row_def find_None_iff)
  then show ?thesis
    unfolding insert_cron_def by (intro keeps_intros keeps_query) auto
qed

lemma settled_delete:
  assumes "i \<noteq> cr_id c"
  shows "keeps (on_tables (settled c ss)) (delete_cron i)"
proof -
  have "started (cr_id c) (filter (\<lambda>r. ru_cron r \<noteq> i) rs) = started (cr_id c) rs" for rs
    using assms by (auto simp: started_def intro!: arg_cong [where f = "map ru_started"] filter_cong)
  then show ?thesis
    unfolding delete_cron_def using assms
    by (intro keeps_intros keeps_query) (auto simp: settled_def select_delete distinct_delete_row)
qed

lemma settled_routes:
  assumes "i \<noteq> cr_id c"
  shows "keeps (on_tables (settled c ss)) (update_cron_route E p i u)" "keeps (on_tables (settled c ss)) (delete_cron_route p i)"
    "keeps (on_tables (settled c ss)) (enable_cron_route p i)" "keeps (on_tables (settled c ss)) (disable_cron_route p i)"
  unfolding update_cron_route_def delete_cron_route_def enable_cron_route_def disable_cron_route_def update_cron_def
    set_enabled_def Let_def
  by (intro keeps_intros settled_query settled_delete; simp add: assms)+

lemma settled_create: "keeps (on_tables (settled c ss)) (create_cron E p req)"
  unfolding create_cron_def by (intro keeps_intros settled_insert)


lemma keeps_andthen_result:
  assumes "keeps P m" and "\<And>w w' x. m w = (w', Inr x) \<Longrightarrow> keeps P (f x)"
  shows "keeps P (andthen m f)"
  unfolding keeps_def
proof (intro allI impI)
  fix w
  assume "P w"
  obtain w' r where m: "m w = (w', r)" by (rule prod.exhaust)
  with assms(1) \<open>P w\<close> have "P w'" using keepsD by fastforce
  with m assms(2) show "P (fst (andthen m f w))"
    by (cases r) (auto simp: andthen_def dest: keepsD)
qed

lemma need_cron_key:
  assumes "need_cron i m w = (w', Inr d)"
  shows "cr_id d = i"
proof -
  from assms have "select_row cr_id i (cw_crons w) = Some d"
    by (cases "cw_faults w") (auto simp: need_cron_def get_cron_def query_def split: if_splits option.splits)
  then show ?thesis using select_row_key by metis
qed

lemma due_members:
  assumes "get_due_crons w = (w1, Inr due)" and "d \<in> set due"
  shows "d \<in> set (cw_crons w) \<and> is_due (cw_now w) d"
proof -
  from assms(1) have "due = sort_key (\<lambda>c. the (cr_next_run c)) (filter (\<lambda>c. cr_next_run c \<noteq> None) (filter (is_due (cw_now w)) (cw_crons w))) @
      filter (\<lambda>c. cr_next_run c = None) (filter (is_due (cw_now w)) (cw_crons w))"
    by (cases "cw_faults w") (auto simp: get_due_crons_def andthen_def the_clock_def query_def Let_def split: if_splits)
  with assms(2) show ?thesis by auto
qed

lemma settled_tick:
  assumes s: "on_tables (settled c ss) w" and t: "cr_next_run c = Some t" and late: "cw_now (tick E w) < t"
  shows "on_tables (settled c ss) (tick E w)"
proof -
  obtain w1 r where g: "get_due_crons w = (w1, r)" by (rule prod.exhaust)
  have "keeps (on_tables (settled c ss)) get_due_crons" by (intro keeps_intros)
  from keepsD [OF this s] g have w1: "on_tables (settled c ss) w1" by simp
  show ?thesis
  proof (cases r)
    case (Inr due)
    have "cr_id d \<noteq> cr_id c" if d: "d \<in> set due" for d
    proof
      assume same: "cr_id d = cr_id c"
      from due_members [OF g [unfolded Inr] d] have "d \<in> set (cw_crons w)" and "is_due (cw_now w) d" by simp_all
      have "distinct (map cr_id (cw_crons w))" and "select_row cr_id (cr_id c) (cw_crons w) = Some c"
        using s unfolding on_tables_def settled_def by simp_all
      with \<open>d \<in> set (cw_crons w)\<close> same have "d = c" using select_row_mem [of cr_id "cw_crons w" d] by simp
      with t \<open>is_due (cw_now w) d\<close> have "t \<le> cw_now w" by (simp add: is_due_def)
      with late later_tick [of w E] show False by simp
    qed
    then have "on_tables (settled c ss) (run_due E due w1)"
      using keeps_due [of due "on_tables (settled c ss)" E w1] settled_run w1 by blast
    then show ?thesis using g Inr by (simp add: tick_def)
  qed (use g w1 in \<open>simp add: tick_def\<close>)
qed

lemma settled_step:
  assumes s: "on_tables (settled c ss) w" and t: "cr_next_run c = Some t" and ev: "spares (cr_id c) ev"
    and late: "cw_now (cron_step E ev w) < t"
  shows "on_tables (settled c ss) (cron_step E ev w)"
proof (cases ev)
  case Tick
  then show ?thesis using settled_tick [OF s t] late by simp
next
  case (RoutineEnds k st out)
  show ?thesis
  proof (cases "k < length (cw_routines w)")
    case True
    let ?r = "cw_routines w ! k" and ?rs = "take k (cw_routines w) @ drop (Suc k) (cw_routines w)"
    have "rt_cron ?r \<noteq> cr_id c" using s True by (auto simp: on_tables_def settled_def)
    moreover have "set ?rs \<subseteq> set (cw_routines w)" by (auto dest: in_set_takeD in_set_dropD)
    with s have "on_tables (settled c ss) (w\<lparr>cw_routines := ?rs\<rparr>)" by (auto simp: on_tables_def settled_def)
    ultimately have "on_tables (settled c ss) (end_routine ?r st out (w\<lparr>cw_routines := ?rs\<rparr>))"
      unfolding end_routine_def by (intro keepsD [OF settled_finish(2)] keepsD [OF settled_finish(1)])
    with True RoutineEnds show ?thesis by simp
  qed (use s RoutineEnds in simp)
next
  case (Create p req)
  then show ?thesis using keepsD [OF settled_create s] by simp
next
  case (Update p i u)
  then show ?thesis using keepsD [OF settled_routes(1) s] ev by simp
next
  case (Delete p i)
  then show ?thesis using keepsD [OF settled_routes(2) s] ev by simp
next
  case (Enable p i)
  then show ?thesis using keepsD [OF settled_routes(3) s] ev by simp
next
  case (Disable p i)
  then show ?thesis using keepsD [OF settled_routes(4) s] ev by simp
next
  case (RunNow p i)
  have run: "keeps (on_tables (settled c ss)) (run_cron_by_id E i)"
  proof -
    have "keeps (on_tables (settled c ss)) (run_cron E d)" if "need_cron i m v = (v', Inr d)" for m v v' d
      using settled_run [of d c] need_cron_key [OF that] ev RunNow by simp
    then show ?thesis
      unfolding run_cron_by_id_def by (intro keeps_andthen_result keeps_intros)
  qed
  then have "keeps (on_tables (settled c ss)) (\<lambda>w. (fst (run_cron_by_id E i w), Inr () :: api_error + unit))"
    by (simp add: keeps_def)
  then have k: "keeps (on_tables (settled c ss)) (run_now E p i)" unfolding run_now_def by (intro keeps_intros)
  then show ?thesis using RunNow keepsD [OF k s] by simp
qed (use s in \<open>simp_all add: on_tables_def\<close>)

lemma settled_steps:
  assumes "on_tables (settled c ss) w" and "cr_next_run c = Some t" and "list_all (spares (cr_id c)) evs"
    and "cw_now (cron_steps E evs w) < t"
  shows "on_tables (settled c ss) (cron_steps E evs w)"
  using assms
proof (induction evs arbitrary: w)
  case (Cons ev evs)
  have "cw_now (cron_step E ev w) < t"
    using later_steps [of "cron_step E ev w" E evs] Cons.prems(4) by simp
  with Cons.prems have "on_tables (settled c ss) (cron_step E ev w)" by (intro settled_step) simp_all
  with Cons show ?case by simp
qed simp

text \<open>C24. Whatever else happens, no run of a cron is started before its next instant, unless somebody
  asks for one or changes the cron, or a routine of it is still under way.\<close>

theorem cron_waits_for_next:
  assumes "distinct (map cr_id (cw_crons w))" and "select_row cr_id i (cw_crons w) = Some c"
    and "cr_next_run c = Some t" and "\<forall>r \<in> set (cw_routines w). rt_cron r \<noteq> i"
    and "list_all (spares i) evs" and "cw_now (cron_steps E evs w) < t"
  shows "started i (cw_runs (cron_steps E evs w)) = started i (cw_runs w)"
proof -
  have i: "cr_id c = i" using select_row_key [OF assms(2)] by simp
  have "on_tables (settled c (started i (cw_runs w))) w"
    using assms(1,2,4) i by (simp add: on_tables_def settled_def)
  from settled_steps [OF this assms(3) _ assms(6)] assms(5) i
  show ?thesis by (simp add: on_tables_def settled_def)
qed

section \<open>An example\<close>

definition sample_cron_env :: "(nat, unit) cron_env" where
  "sample_cron_env = \<lparr> ce_parse = (\<lambda>e. if e = [] then Inl (lit ''empty'') else Inr 60), ce_after = (\<lambda>n _ now. Some (now + int n)),
     ce_zone = (\<lambda>_. None), ce_utc = (), ce_id = (\<lambda>n. [n]), ce_exec = (\<lambda>_ _ _. (5, Inr \<lparr> er_ok = True, er_code = 0, er_out = lit ''out'' \<rparr>)) \<rparr>"

definition sample_cron :: cron_row where
  "sample_cron = \<lparr> cr_id = lit ''c1'', cr_project = lit ''p1'', cr_name = lit ''n'', cr_expr = lit ''e'', cr_command = lit ''ls'',
     cr_enabled = 1, cr_timezone = None, cr_status = None, cr_last_run = None, cr_next_run = Some 10, cr_created = 0, cr_updated = 0,
     cr_kind = None, cr_agent = None, cr_prompt = None, cr_by = None, cr_notify = None, cr_hash = None \<rparr>"

definition sample_cron_world :: cron_world where
  "sample_cron_world = \<lparr> cw_crons = [sample_cron], cw_runs = [],
     cw_projects = [\<lparr> pr_uuid = lit ''p1'', pr_slug = lit ''app-1a2b'', pr_server = None \<rparr>],
     cw_faults = [], cw_now = 0, cw_ids = 0, cw_routines = [], cw_sent = [] \<rparr>"

lemmas sample_cron_defs = sample_cron_env_def sample_cron_def sample_cron_world_def

section \<open>What a run does\<close>

lemma query_ok: "cw_faults w = [] \<Longrightarrow> query q w = (fst (q w), Inr (snd (q w)))"
  by (simp add: query_def split: prod.split)

lemmas cron_defs = andthen_def ret_def the_clock_def fresh_id_def record_run_start_def record_run_finish_def
  update_cron_status_def compute_next_run_def finish_run_def update_crons_def update_runs_def query_ok

text \<open>The rows after a run without faults.\<close>

definition after_run :: "('sch, 'tz) cron_env \<Rightarrow> cron_row \<Rightarrow> ustr \<Rightarrow> instant \<Rightarrow> cron_row \<Rightarrow> cron_row" where
  "after_run E c st now d =
     (if cr_id d = cr_id c
      then d\<lparr>cr_status := Some st, cr_last_run := Some now,
             cr_next_run := next_run_time E (cr_expr c) (cr_timezone c) now, cr_updated := now\<rparr> else d)"

lemma command_run:
  assumes "cw_faults w = []" and "\<not> is_agent_routine c"
  obtains st where "snd (run_cron E c w) = Inr ()" and "cw_faults (fst (run_cron E c w)) = []"
    and "cw_crons (fst (run_cron E c w)) = map (after_run E c st (cw_now (fst (run_cron E c w)))) (cw_crons w)"
    and "cw_sent (fst (run_cron E c w)) = cw_sent w @ (case select_row pr_uuid (cr_project c) (cw_projects w) of
       None \<Rightarrow> [] | Some p \<Rightarrow> [(unwrap_or (pr_server p) (lit ''default''), exec_command (lit ''df-'' @ pr_slug p) (cr_command c))])"
proof (cases "select_row pr_uuid (cr_project c) (cw_projects w)")
  case None
  with assms show thesis
    by (intro that [of "lit ''failed''"])
      (simp_all add: run_cron_def run_command_def cron_container_name_def cron_defs after_run_def cong: map_cong del: lit_simps)
next
  case (Some p)
  obtain d r where e: "ce_exec E (unwrap_or (pr_server p) (lit ''default'')) (exec_command (lit ''df-'' @ pr_slug p) (cr_command c)) (length (cw_sent w)) = (d, r)"
    by (rule prod.exhaust)
  obtain st out code where o: "run_outcome r = (st, out, code)" by (rule prod_cases3)
  have ne: "lit ''df-'' \<noteq> []" by simp
  from Some assms e o ne show thesis
    by (intro that [of st])
      (simp_all add: run_cron_def run_command_def cron_container_name_def cron_server_id_def cron_exec_def cron_defs after_run_def del: lit_simps)
qed

lemma routine_run:
  assumes "cw_faults w = []" and "is_agent_routine c"
  shows "cw_crons (fst (run_cron E c w)) = map (after_run E c (lit ''running'') (cw_now w)) (cw_crons w)"
  using assms
  by (simp add: run_cron_def start_routine_def cron_defs after_run_def del: lit_simps)


lemma after_run_id [simp]: "cr_id (after_run E c st now d) = cr_id d"
  by (simp add: after_run_def)

lemma after_run_row:
  assumes "select_row cr_id (cr_id c) cs = Some c"
  shows "select_row cr_id (cr_id c) (map (after_run E c st now) cs) = Some (after_run E c st now c)"
  using assms by (subst select_row_map) simp_all

lemma cron_words: "reads (lit ''docker'') (lit ''docker'')" "reads (lit ''exec'') (lit ''exec'')" "reads (lit ''sh'') (lit ''sh'')"
  "reads (lit ''-c'') (lit ''-c'')"
  by (rule reads_plain; simp add: sh_plain_def is_ascii_alnum_def is_ascii_digit_def is_ascii_lower_def is_ascii_upper_def)+

text \<open>Without faults the run of a command sends exactly one command, whatever happened before: the
  shell reads it as \<open>docker exec\<close> in the container \<open>df-\<close> with the slug of the project, with the
  command as one argument. That container is the one deployments create only when the slug is
  made of the first characters of the uuid of the project.\<close>

lemma cron_command_sent:
  assumes "cw_faults w = []" and "\<not> is_agent_routine c"
    and "select_row pr_uuid (cr_project c) (cw_projects w) = Some p" and "cr_command c \<noteq> []"
  shows "(\<exists>script. cw_sent (fst (run_cron E c w)) = cw_sent w @ [(unwrap_or (pr_server p) (lit ''default''), script)] \<and>
      sh_words script = Some [lit ''docker'', lit ''exec'', lit ''df-'' @ pr_slug p, lit ''sh'', lit ''-c'', cr_command c]) \<and>
    (lit ''df-'' @ pr_slug p = container_name (cr_project c) \<longleftrightarrow> pr_slug p = take 12 (cr_project c))"
proof -
  let ?name = "lit ''df-'' @ pr_slug p"
  have safe: "shell_safe = (\<lambda>c. is_ascii_alnum c \<or> c \<in> set (lit ''-_./:=''))"
    by (rule ext) (simp add: shell_safe_def)
  have esc: "cron_shell_escape s = shell_escape s" for s
    unfolding cron_shell_escape_def shell_escape_def safe ..
  have "exec_command ?name (cr_command c) =
      join [32] [lit ''docker'', lit ''exec'', shell_escape ?name, lit ''sh'', lit ''-c'', shell_escape (cr_command c)]"
    unfolding exec_command_def esc by simp
  moreover have "reads (shell_escape ?name) ?name" by (rule reads_escape) simp
  then have "sh_words (join [32] [lit ''docker'', lit ''exec'', shell_escape ?name, lit ''sh'', lit ''-c'', shell_escape (cr_command c)]) = Some [lit ''docker'', lit ''exec'', ?name, lit ''sh'', lit ''-c'', cr_command c]"
    using assms(4) by (intro words_join) (simp_all add: reads_escape cron_words del: lit_simps)
  moreover have "cw_sent (fst (run_cron E c w)) = cw_sent w @ [(unwrap_or (pr_server p) (lit ''default''), exec_command ?name (cr_command c))]"
    by (rule command_run [OF assms(1,2), of E]) (simp add: assms(3))
  ultimately show ?thesis by (simp add: container_name_def)
qed

text \<open>A cron whose expression matches no instant to come is due again after every run, so at every
  tick.\<close>

lemma never_firing_always_due:
  assumes "\<And>now. next_run_time E (cr_expr c) (cr_timezone c) now = None" and "cw_faults w = []"
    and "select_row cr_id (cr_id c) (cw_crons w) = Some c" and "cr_enabled c = 1"
  shows "\<exists>c'. select_row cr_id (cr_id c) (cw_crons (fst (run_cron E c w))) = Some c' \<and> is_due later c'"
proof -
  obtain st now where "cw_crons (fst (run_cron E c w)) = map (after_run E c st now) (cw_crons w)"
  proof (cases "is_agent_routine c")
    case True
    from that [OF routine_run [OF assms(2) True]] show ?thesis .
  next
    case False
    obtain st where "cw_crons (fst (run_cron E c w)) = map (after_run E c st (cw_now (fst (run_cron E c w)))) (cw_crons w)"
      using command_run [OF assms(2) False, of E] by blast
    with that show ?thesis by blast
  qed
  with after_run_row [OF assms(3), of E st now] assms(1,4) show ?thesis
    by (simp add: is_due_def after_run_def)
qed

text \<open>The end of a routine puts back the next instant computed when it started: when that instant has
  passed, the cron is due again, also when a run made in between had set a later one.\<close>

lemma late_routine_due_again:
  assumes "k < length (cw_routines w)" and "rt_next (cw_routines w ! k) = Some t" and "t \<le> cw_now w"
    and "cw_faults w = []" and "select_row cr_id (rt_cron (cw_routines w ! k)) (cw_crons w) = Some c" and "cr_enabled c = 1"
  shows "\<exists>c'. select_row cr_id (cr_id c) (cw_crons (cron_step E (RoutineEnds k st out) w)) = Some c' \<and> is_due (cw_now w) c'"
proof -
  let ?i = "rt_cron (cw_routines w ! k)"
  let ?g = "\<lambda>d. if cr_id d = ?i then d\<lparr>cr_status := Some st, cr_last_run := Some (cw_now w), cr_next_run := Some t,
     cr_updated := cw_now w\<rparr> else d"
  have i: "cr_id c = ?i" using select_row_key [OF assms(5)] by simp
  have "cw_crons (cron_step E (RoutineEnds k st out) w) = map ?g (cw_crons w)"
    using assms(1,2,4) by (simp add: end_routine_def cron_defs)
  moreover have "select_row cr_id ?i (map ?g (cw_crons w)) = map_option ?g (select_row cr_id ?i (cw_crons w))"
    by (rule select_row_map) simp
  ultimately show ?thesis using assms(3,5,6) i by (simp add: is_due_def)
qed


section \<open>Witnesses\<close>

lemma cron_expressions_valid_witness: "valid_crons sample_cron_env (cron_step sample_cron_env Tick sample_cron_world)"
  by (rule cron_expressions_valid) (simp add: valid_crons_def validate_cron_expression_def normalize_cron_expression_def sample_cron_defs)

lemma cron_waits_for_next_witness:
  "started (lit ''c1'') (cw_runs (cron_steps sample_cron_env [Pass 4, Tick, Pass 3] sample_cron_world)) =
   started (lit ''c1'') (cw_runs sample_cron_world)"
  by (rule cron_waits_for_next [where c = sample_cron and t = 10])
    (simp_all add: sample_cron_defs tick_def get_due_crons_def andthen_def the_clock_def query_def is_due_def select_row_def)

lemma cron_command_sent_witness:
  "(\<exists>script. cw_sent (fst (run_cron sample_cron_env sample_cron sample_cron_world)) =
       cw_sent sample_cron_world @ [(unwrap_or None (lit ''default''), script)] \<and>
      sh_words script = Some [lit ''docker'', lit ''exec'', lit ''df-'' @ lit ''app-1a2b'', lit ''sh'', lit ''-c'', lit ''ls'']) \<and>
    lit ''df-'' @ lit ''app-1a2b'' \<noteq> container_name (lit ''p1'')"
  using cron_command_sent [of sample_cron_world sample_cron "\<lparr> pr_uuid = lit ''p1'', pr_slug = lit ''app-1a2b'', pr_server = None \<rparr>" sample_cron_env]
  by (simp add: sample_cron_defs is_agent_routine_def select_row_def container_name_def)

lemma late_routine_due_again_witness:
  "\<exists>c'. select_row cr_id (lit ''c1'') (cw_crons (cron_step sample_cron_env (RoutineEnds 0 (lit ''success'') [])
      (sample_cron_world\<lparr> cw_now := 30, cw_routines := [\<lparr> rt_cron = lit ''c1'', rt_run = lit ''r'', rt_next = Some 20 \<rparr>] \<rparr>))) = Some c' \<and> is_due 30 c'"
  using late_routine_due_again [of 0 "sample_cron_world\<lparr> cw_now := 30, cw_routines := [\<lparr> rt_cron = lit ''c1'', rt_run = lit ''r'', rt_next = Some 20 \<rparr>] \<rparr>" 20 sample_cron]
  by (simp add: sample_cron_defs select_row_def)

end
