(* ===== verification/DockerGc.thy ===== *)
theory DockerGc
  imports Cron
begin

text \<open>
  The cleaning of a node, \<open>apps/server/src/docker_gc.rs\<close>: the settings and their cron expression,
  the commands that read the state of docker, the readers of their output, the choice of the
  images to remove, the script that removes them and the reading of its output. Sizes are
  \<open>u64\<close> as naturals, a percentage is its count of tenths. What the program computes with \<open>f64\<close>,
  and the reader of dates of chrono, are fields of \<open>gc_env\<close>.
\<close>

text \<open>\<open>ge_tenths used all\<close> is \<open>(used * 1000 / all).round()\<close>, \<open>ge_scaled n m\<close> is
  \<open>(n.parse::<f64>() * m).round()\<close>, \<open>ge_date\<close> is \<open>parse_from_rfc3339\<close>. \<open>ge_exec\<close> gives the duration of
  a command and its answer, from the server, the command and the number of commands before.\<close>

record ('sch, 'tz) gc_env =
  ge_cron :: "('sch, 'tz) cron_env"
  ge_tenths :: "nat \<Rightarrow> nat \<Rightarrow> nat"
  ge_scaled :: "ustr \<Rightarrow> nat \<Rightarrow> nat option"
  ge_date :: "ustr \<Rightarrow> instant option"
  ge_exec :: "ustr \<Rightarrow> ustr \<Rightarrow> nat \<Rightarrow> nat \<times> reply"

section \<open>Settings\<close>

record gc_settings =
  gs_enabled :: bool
  gs_frequency :: nat
  gs_hour :: nat
  gs_cron :: "ustr option"
  gs_timezone :: ustr
  gs_retention :: nat
  gs_keep :: nat
  gs_alert :: nat
  gs_rotation :: bool
  gs_log_mb :: nat
  gs_log_files :: nat

definition default_gc_settings :: gc_settings where
  "default_gc_settings = \<lparr> gs_enabled = True, gs_frequency = 24, gs_hour = 3, gs_cron = None,
     gs_timezone = lit ''Europe/Paris'', gs_retention = 24, gs_keep = 3, gs_alert = 85,
     gs_rotation = False, gs_log_mb = 10, gs_log_files = 3 \<rparr>"

definition custom_cron :: "gc_settings \<Rightarrow> ustr option" where
  "custom_cron s = opt_filter (\<lambda>c. c \<noteq> []) (map_option trim (gs_cron s))"

text \<open>The messages of a refused setting.\<close>

datatype gc_invalid =
    BadFrequency | BadHour | BadTimezone ustr | NotFiveFields | BadCron ustr | TooOften
  | BadRetention | BadKeep | BadAlert | BadLogs

definition within :: "nat \<Rightarrow> nat \<Rightarrow> nat \<Rightarrow> bool" where
  "within a b n \<longleftrightarrow> a \<le> n \<and> n \<le> b"

definition validate_custom :: "('sch, 'tz) gc_env \<Rightarrow> instant \<Rightarrow> ustr \<Rightarrow> gc_invalid option" where
  "validate_custom E now c =
     (if \<not> is_five_fields c then Some NotFiveFields
      else case validate_cron_expression (ge_cron E) c of
             Inl e \<Rightarrow> Some (BadCron e)
           | Inr _ \<Rightarrow> if is_some_and (min_interval_minutes (ge_cron E) c now) (\<lambda>m. m < 60) then Some TooOften else None)"

definition validate_gc :: "('sch, 'tz) gc_env \<Rightarrow> instant \<Rightarrow> gc_settings \<Rightarrow> gc_invalid option" where
  "validate_gc E now s =
     (let f = gs_frequency s
      in if f = 0 \<or> f > 168 \<or> (24 mod f \<noteq> 0 \<and> f mod 24 \<noteq> 0) then Some BadFrequency
         else if gs_hour s > 23 then Some BadHour
         else if \<not> timezone_is_known (ge_cron E) (gs_timezone s) then Some (BadTimezone (gs_timezone s))
         else case Option.bind (custom_cron s) (validate_custom E now) of
                Some e \<Rightarrow> Some e
              | None \<Rightarrow>
                  if \<not> within 1 720 (gs_retention s) then Some BadRetention
                  else if \<not> within 1 20 (gs_keep s) then Some BadKeep
                  else if \<not> within 50 99 (gs_alert s) then Some BadAlert
                  else if \<not> within 1 1024 (gs_log_mb s) \<or> \<not> within 1 20 (gs_log_files s) then Some BadLogs
                  else None)"

definition gc_hours :: "nat \<Rightarrow> nat \<Rightarrow> nat list" where
  "gc_hours h f = sort (map (\<lambda>k. (h + k * f) mod 24) [0..<24 div f])"

definition gc_cron_expression :: "gc_settings \<Rightarrow> ustr" where
  "gc_cron_expression s =
     (case custom_cron s of
        Some c \<Rightarrow> c
      | None \<Rightarrow>
          (let h = min (gs_hour s) 23; f = min (max (gs_frequency s) 1) 168
           in if f < 24 \<and> 24 mod f = 0
              then lit ''0 '' @ join [44] (map dec (gc_hours h f)) @ lit '' * * *''
              else let d = f div 24
                   in if d \<le> 1 then lit ''0 '' @ dec h @ lit '' * * *''
                      else if d = 7 then lit ''0 '' @ dec h @ lit '' * * 1''
                      else lit ''0 '' @ dec h @ lit '' */'' @ dec d @ lit '' * *''))"

definition gc_next_run :: "('sch, 'tz) gc_env \<Rightarrow> gc_settings \<Rightarrow> instant \<Rightarrow> instant option" where
  "gc_next_run E s now = next_run_time (ge_cron E) (gc_cron_expression s) (Some (gs_timezone s)) now"

section \<open>Commands that read\<close>

definition root_detect :: ustr where
  "root_detect =
     lit ''DC='' @ [34] @ lit ''${DOCKER_CONFIG:-$HOME/.docker}'' @ [34]
     @ lit ''; if ! mkdir -p '' @ [34] @ lit ''$DC'' @ [34] @ lit '' 2>/dev/null || [ ! -w ''
     @ [34] @ lit ''$DC'' @ [34]
     @ lit '' ]; then export DOCKER_CONFIG=/tmp/devforge-docker-gc; mkdir -p '' @ [34]
     @ lit ''$DOCKER_CONFIG'' @ [34] @ lit ''; fi; R=$(docker info -f '' @ [39]
     @ lit ''{{.DockerRootDir}}'' @ [39] @ lit '' 2>/dev/null); [ -n '' @ [34] @ lit ''$R''
     @ [34] @ lit '' ] || R=/var/lib/docker''"

definition legacy_guard_cron :: ustr where
  "legacy_guard_cron = lit ''/etc/cron.d/devforge-disk-guard''"

definition legacy_detect :: ustr where
  "legacy_detect =
     lit ''if [ -f /.dockerenv ]; then echo container; elif [ -f /etc/cron.d/devforge-disk-guard ]; then echo present; else echo absent; fi''"

definition retire_legacy_guard_command :: ustr where
  "retire_legacy_guard_command =
     lit ''f='' @ legacy_guard_cron @
     lit ''; if [ ! -f /.dockerenv ] && [ -f '' @ [34] @ lit ''$f'' @ [34]
     @ lit '' ] && grep -q '' @ [39] @ lit ''disk-guard.sh'' @ [39] @ lit '' '' @ [34]
     @ lit ''$f'' @ [34] @ lit ''; then d=/DATA/.devforge/state; mkdir -p '' @ [34]
     @ lit ''$d'' @ [34] @ lit '' 2>/dev/null || d=/var/tmp; mv '' @ [34] @ lit ''$f'' @ [34]
     @ lit '' '' @ [34] @ lit ''$d/devforge-disk-guard.cron.disabled'' @ [34]
     @ lit '' && echo retired || echo failed; else echo noop; fi''"

definition end_mark :: ustr where
  "end_mark = lit ''; echo '' @ [39] @ lit ''@@end'' @ [39]"

definition disk_command :: ustr where
  "disk_command =
     root_detect @
     lit ''; echo '' @ [39] @ lit ''@@info'' @ [39] @ lit ''; docker info -f '' @ [39]
     @ lit ''{{.DockerRootDir}}|{{.LoggingDriver}}|{{.ServerVersion}}'' @ [39]
     @ lit '' 2>/dev/null; echo '' @ [39] @ lit ''@@df'' @ [39] @ lit ''; df -Pk '' @ [34]
     @ lit ''$R'' @ [34] @ lit '' 2>/dev/null | tail -n 1; echo '' @ [39] @ lit ''@@legacy''
     @ [39] @ lit ''; '' @
     legacy_detect @ end_mark"

definition inventory_command :: ustr where
  "inventory_command =
     trim_end_str end_mark disk_command @
     lit ''; echo '' @ [39] @ lit ''@@images'' @ [39]
     @ lit ''; I=$(docker image ls -q --no-trunc 2>/dev/null | sort -u); [ -z '' @ [34]
     @ lit ''$I'' @ [34] @ lit '' ] || docker image inspect --format '' @ [39]
     @ lit ''{{.Id}}|{{.Created}}|{{.Size}}|{{join .RepoTags '' @ [34] @ lit '','' @ [34]
     @ lit ''}}'' @ [39] @ lit '' $I 2>/dev/null; echo '' @ [39] @ lit ''@@containers''
     @ [39] @ lit ''; C=$(docker ps -aq --no-trunc 2>/dev/null); [ -z '' @ [34] @ lit ''$C''
     @ [34] @ lit '' ] || docker inspect --type container --format '' @ [39]
     @ lit ''{{.Id}}|{{.Image}}|{{.State.Status}}|{{.Name}}'' @ [39]
     @ lit '' $C 2>/dev/null; echo '' @ [39] @ lit ''@@builders'' @ [39]
     @ lit ''; docker buildx ls 2>/dev/null; echo '' @ [39] @ lit ''@@buildkit'' @ [39]
     @ lit ''; docker ps --filter name=buildx_buildkit_ --format '' @ [39]
     @ lit ''{{.Names}}'' @ [39] @ lit '' 2>/dev/null; echo '' @ [39] @ lit ''@@sysdf''
     @ [39] @ lit ''; docker system df --format '' @ [39]
     @ lit ''{{.Type}}|{{.Size}}|{{.Reclaimable}}'' @ [39] @ lit '' 2>/dev/null; echo ''
     @ [39] @ lit ''@@end'' @ [39]"

definition is_safe_name :: "ustr \<Rightarrow> bool" where
  "is_safe_name s \<longleftrightarrow> s \<noteq> [] \<and> utf8_len s \<le> 128 \<and> list_all (\<lambda>c. is_ascii_alnum c \<or> c \<in> set (lit ''-_.'')) s"

definition is_safe_ref :: "ustr \<Rightarrow> bool" where
  "is_safe_ref s \<longleftrightarrow> s \<noteq> [] \<and> utf8_len s \<le> 256 \<and> list_all (\<lambda>c. is_ascii_alnum c \<or> c \<in> set (lit ''-_.:/@'')) s"

definition until_filter :: "nat option \<Rightarrow> ustr" where
  "until_filter hours = (case hours of Some h \<Rightarrow> lit '' --filter until='' @ dec h @ lit ''h'' | None \<Rightarrow> [])"

definition cache_du_command :: "ustr list \<Rightarrow> ustr list \<Rightarrow> nat option \<Rightarrow> ustr" where
  "cache_du_command builders buildkit hours =
     root_detect @ lit ''; echo '' @ [39] @ lit ''@@cache'' @ [39] @
     concat (map (\<lambda>c.
       lit ''; printf '' @ [39] @ lit ''%s|%s'' @ [92] @ lit ''n'' @ [39] @ lit '' '' @ [39]
       @ lit ''buildkit:'' @ c @
       [39] @ lit '' '' @ [34] @ lit ''$(docker exec '' @ [39] @ c @
       [39] @ lit '' buildctl du 2>/dev/null | awk '' @ [39]
       @ lit ''/^Reclaimable:/{print $2}'' @ [39] @ lit '' | tail -n 1)'' @ [34])
       (filter is_safe_name buildkit)) @
     concat (map (\<lambda>b.
       lit ''; printf '' @ [39] @ lit ''%s|%s'' @ [92] @ lit ''n'' @ [39] @ lit '' '' @ [39] @ b @
       [39] @ lit '' '' @ [34] @ lit ''$(docker buildx du --builder '' @ [39] @ b @ [39] @ until_filter hours @
       lit '' 2>/dev/null | awk '' @ [39] @ lit ''/^Reclaimable:/{print $2}'' @ [39]
       @ lit '' | tail -n 1)'' @ [34])
       (filter is_safe_name builders)) @
     end_mark"

section \<open>What they print\<close>

fun section_lines :: "ustr list \<Rightarrow> ustr option \<Rightarrow> (ustr \<rightharpoonup> ustr list) \<Rightarrow> (ustr \<rightharpoonup> ustr list)" where
  "section_lines [] current out = out"
| "section_lines (l # ls) current out =
     (let t = trim_end l
      in case strip_prefix (trim t) (lit ''@@'') of
           Some rest \<Rightarrow>
             (let name = trim rest
              in if name = lit ''end'' then section_lines ls None out
                 else section_lines ls (Some name) (out(name \<mapsto> unwrap_or (out name) [])))
         | None \<Rightarrow>
             (case current of
                None \<Rightarrow> section_lines ls current out
              | Some n \<Rightarrow>
                  if trim t = [] then section_lines ls current out
                  else section_lines ls current (out(n \<mapsto> unwrap_or (out n) [] @ [t]))))"

definition sections :: "ustr \<Rightarrow> (ustr \<rightharpoonup> ustr list)" where
  "sections output = section_lines (str_lines output) None (\<lambda>_. None)"

definition section_of :: "ustr \<Rightarrow> ustr \<Rightarrow> ustr list" where
  "section_of output n = unwrap_or (sections output n) []"

record disk_info =
  di_root :: ustr
  di_driver :: ustr
  di_version :: ustr
  di_total :: nat
  di_used :: nat
  di_avail :: nat
  di_tenths :: nat
  di_legacy :: ustr

definition item :: "nat \<Rightarrow> ustr list \<Rightarrow> ustr" where
  "item k xs = (if k < length xs then xs ! k else [])"

text \<open>Products of \<open>u64\<close> wrap in a release build.\<close>

definition kib :: "ustr \<Rightarrow> nat" where
  "kib s = unwrap_or (parse_uint 64 s) 0 * 1024 mod 2 ^ 64"

definition parse_disk :: "('sch, 'tz) gc_env \<Rightarrow> ustr \<Rightarrow> disk_info" where
  "parse_disk E output =
     (let info = (case section_of output (lit ''info'') of [] \<Rightarrow> [] | l # _ \<Rightarrow> split_on (\<lambda>c. c = 124) l);
          legacy = (case section_of output (lit ''legacy'') of [] \<Rightarrow> [] | l # _ \<Rightarrow> trim l);
          df = section_of output (lit ''df'');
          cols = (if df = [] then [] else split_whitespace (last df));
          known = 4 \<le> length cols;
          total = (if known then kib (cols ! 1) else 0);
          used = (if known then kib (cols ! 2) else 0);
          avail = (if known then kib (cols ! 3) else 0);
          both = (used + avail) mod 2 ^ 64
      in \<lparr> di_root = trim (item 0 info), di_driver = trim (item 1 info), di_version = trim (item 2 info),
           di_total = total, di_used = used, di_avail = avail,
           di_tenths = (if both > 0 then ge_tenths E used both else 0), di_legacy = legacy \<rparr>)"

definition builder_line :: "ustr list \<Rightarrow> ustr \<Rightarrow> ustr list" where
  "builder_line out line =
     (if line \<noteq> [] \<and> (is_ws (hd line) \<or> hd line = 92) then out
      else case split_whitespace line of
             [] \<Rightarrow> out
           | first # _ \<Rightarrow>
               if first = lit ''NAME/NODE'' \<or> first = lit ''NAME'' then out
               else let name = trim (trim_end_char 42 first)
                    in if is_safe_name name \<and> name \<notin> set out then out @ [name] else out)"

definition parse_builders :: "ustr list \<Rightarrow> ustr list" where
  "parse_builders lines = foldl builder_line [] lines"

record image_info =
  im_id :: ustr
  im_created :: instant
  im_size :: nat
  im_tags :: "ustr list"

record container_info =
  ci_id :: ustr
  ci_image :: ustr
  ci_state :: ustr
  ci_name :: ustr

record inventory =
  iv_disk :: disk_info
  iv_images :: "image_info list"
  iv_containers :: "container_info list"
  iv_builders :: "ustr list"
  iv_buildkit :: "ustr list"
  iv_df :: "(ustr \<times> ustr \<times> ustr) list"

definition parse_tags :: "ustr \<Rightarrow> ustr list" where
  "parse_tags t = filter (\<lambda>x. x \<noteq> [] \<and> x \<noteq> lit ''<none>:<none>'') (map trim (split_on (\<lambda>c. c = 44) t))"

text \<open>An identifier that was seen before is dropped, one whose date is not read is not seen.\<close>

definition image_line :: "('sch, 'tz) gc_env \<Rightarrow> image_info list \<Rightarrow> ustr \<Rightarrow> image_info list" where
  "image_line E out line =
     (let p = splitn 4 124 line
      in if length p < 3 then out
         else case ge_date E (trim (p ! 1)) of
                None \<Rightarrow> out
              | Some created \<Rightarrow>
                  if trim (p ! 0) \<in> im_id ` set out then out
                  else out @ [\<lparr> im_id = trim (p ! 0), im_created = created,
                                im_size = unwrap_or (parse_uint 64 (trim (p ! 2))) 0,
                                im_tags = (if length p = 4 then parse_tags (p ! 3) else []) \<rparr>])"

definition container_line :: "ustr \<Rightarrow> container_info option" where
  "container_line line =
     (let p = splitn 4 124 line
      in if length p < 3 then None
         else Some \<lparr> ci_id = trim (p ! 0), ci_image = trim (p ! 1), ci_state = trim (p ! 2),
                     ci_name = trim_start_char 47 (trim (item 3 p)) \<rparr>)"

definition buildkit_line :: "ustr list \<Rightarrow> ustr \<Rightarrow> ustr list" where
  "buildkit_line out line =
     (let n = trim line
      in if starts_with n (lit ''buildx_buildkit_'') \<and> is_safe_name n \<and> n \<notin> set out then out @ [n] else out)"

definition df_line :: "ustr \<Rightarrow> (ustr \<times> ustr \<times> ustr) option" where
  "df_line line =
     (let p = splitn 3 124 line in if length p = 3 then Some (trim (p ! 0), trim (p ! 1), trim (p ! 2)) else None)"

definition parse_inventory :: "('sch, 'tz) gc_env \<Rightarrow> ustr \<Rightarrow> inventory" where
  "parse_inventory E output =
     \<lparr> iv_disk = parse_disk E output,
       iv_images = foldl (image_line E) [] (section_of output (lit ''images'')),
       iv_containers = List.map_filter container_line (section_of output (lit ''containers'')),
       iv_builders = parse_builders (section_of output (lit ''builders'')),
       iv_buildkit = foldl buildkit_line [] (section_of output (lit ''buildkit'')),
       iv_df = List.map_filter df_line (section_of output (lit ''sysdf'')) \<rparr>"

definition unit_size :: "ustr \<Rightarrow> nat option" where
  "unit_size u =
     (if u = [] \<or> u = lit ''b'' then Some 1
      else if u = lit ''kb'' then Some (10 ^ 3) else if u = lit ''mb'' then Some (10 ^ 6)
      else if u = lit ''gb'' then Some (10 ^ 9) else if u = lit ''tb'' then Some (10 ^ 12)
      else if u = lit ''kib'' then Some 1024 else if u = lit ''mib'' then Some (1024 ^ 2)
      else if u = lit ''gib'' then Some (1024 ^ 3) else if u = lit ''tib'' then Some (1024 ^ 4)
      else None)"

definition parse_size :: "('sch, 'tz) gc_env \<Rightarrow> ustr \<Rightarrow> nat option" where
  "parse_size E s =
     (case split_whitespace s of
        [] \<Rightarrow> None
      | w # _ \<Rightarrow>
          (let t = trim (hd (split_on (\<lambda>c. c = 40) w));
               numeric = (\<lambda>c. is_ascii_digit c \<or> c = 46)
           in if t = [] then None
              else Option.bind (unit_size (to_ascii_lowercase (trim (dropWhile numeric t))))
                     (ge_scaled E (takeWhile numeric t))))"

definition parse_cache_du :: "('sch, 'tz) gc_env \<Rightarrow> ustr \<Rightarrow> (ustr \<times> nat) list" where
  "parse_cache_du E output =
     List.map_filter (\<lambda>l. map_option (\<lambda>(b, size). (trim b, unwrap_or (parse_size E size) 0)) (split_once 124 l))
       (section_of output (lit ''cache''))"

section \<open>The images to remove\<close>

record gc_candidate =
  ca_id :: ustr
  ca_refs :: "ustr list"
  ca_size :: nat
  ca_created :: instant
  ca_project :: "ustr option"
  ca_reason :: ustr

record gc_kept =
  ke_id :: ustr
  ke_tags :: "ustr list"
  ke_reason :: ustr

record image_plan =
  pl_remove :: "gc_candidate list"
  pl_kept :: "gc_kept list"

definition plan_bytes :: "image_plan \<Rightarrow> nat" where
  "plan_bytes p = sum_list (map ca_size (pl_remove p)) mod 2 ^ 64"

definition split_tag :: "ustr \<Rightarrow> ustr \<times> ustr" where
  "split_tag tag =
     (let t = trim_start_str (lit ''library/'') (trim_start_str (lit ''docker.io/'') tag)
      in case rsplit_once 58 t of
           Some (repo, v) \<Rightarrow> if 47 \<in> set v then (t, lit ''latest'') else (repo, v)
         | None \<Rightarrow> (t, lit ''latest''))"

definition project_of_tag :: "ustr \<Rightarrow> ustr option" where
  "project_of_tag tag =
     (let repo = fst (split_tag tag)
      in case strip_prefix repo (lit ''df-'') of
           None \<Rightarrow> None
         | Some rest \<Rightarrow> if rest \<noteq> [] \<and> list_all (\<lambda>c. is_ascii_alnum c \<or> c = 45) rest then Some repo else None)"

text \<open>\<open>find_map\<close>\<close>

fun project_of_tags :: "ustr list \<Rightarrow> ustr option" where
  "project_of_tags [] = None"
| "project_of_tags (t # ts) = (case project_of_tag t of Some p \<Rightarrow> Some p | None \<Rightarrow> project_of_tags ts)"

definition project_of :: "image_info \<Rightarrow> ustr option" where
  "project_of img = project_of_tags (im_tags img)"

definition is_current_deploy :: "image_info \<Rightarrow> bool" where
  "is_current_deploy img \<longleftrightarrow>
     list_ex (\<lambda>t. case split_tag t of (repo, tag) \<Rightarrow> starts_with repo (lit ''df-'') \<and> tag = lit ''latest'') (im_tags img)"

definition hours_ns :: "nat \<Rightarrow> int" where
  "hours_ns h = int h * 3600000000000"

text \<open>The identifiers kept for a project; the projects are those of its images.\<close>

definition newest_of :: "image_info list \<Rightarrow> nat \<Rightarrow> ustr \<Rightarrow> ustr list" where
  "newest_of images n p =
     map im_id (take n (sort_key (\<lambda>i. - im_created i) (filter (\<lambda>i. project_of i = Some p) images)))"

definition rollback_kept :: "image_info list \<Rightarrow> nat \<Rightarrow> ustr list" where
  "rollback_kept images n = concat (map (newest_of images n) (remdups (List.map_filter project_of images)))"

definition running_images :: "container_info list \<Rightarrow> ustr list" where
  "running_images cs =
     map ci_image (filter (\<lambda>c. ci_state c \<in> {lit ''running'', lit ''restarting'', lit ''paused''}) cs)"

definition image_refs :: "image_info \<Rightarrow> ustr list" where
  "image_refs img = (if im_tags img = [] then [im_id img] else im_tags img)"

text \<open>What becomes of one image: the reason it is kept, or the reason it goes.\<close>

definition judge_image ::
    "image_info list \<Rightarrow> container_info list \<Rightarrow> instant \<Rightarrow> nat \<Rightarrow> nat \<Rightarrow> image_info \<Rightarrow> ustr + ustr" where
  "judge_image images cs now hours keep img =
     (let keep_n = max keep 1
      in if im_id img \<in> set (running_images cs) then Inl (lit ''utilis'' @ [233] @ lit ''e par un conteneur en cours'')
         else if im_id img \<in> ci_image ` set cs then Inl (lit ''utilis'' @ [233] @ lit ''e par un conteneur arr'' @ [234] @ lit ''t'' @ [233]
     @ lit '' (jamais touch'' @ [233] @ lit '')'')
         else if is_current_deploy img then Inl (lit ''image du d'' @ [233] @ lit ''ploiement courant'')
         else let verdict =
                (case project_of img of
                   Some _ \<Rightarrow>
                     if im_id img \<in> set (rollback_kept images keep_n)
                     then Inl (lit ''gard'' @ [233] @ lit ''e pour rollback ('' @ dec keep_n @ lit '' par projet)'')
                     else Inr (lit ''ancien d'' @ [233] @ lit ''ploiement (au-del'' @ [224] @ lit '' des '' @ dec keep_n @ lit '' gard'' @ [233] @ lit ''es)'')
                 | None \<Rightarrow>
                     if im_created img \<le> now - hours_ns hours
                     then Inr (if im_tags img = [] then lit ''image orpheline de plus de '' @ dec hours @ lit '' h''
                               else lit ''inutilis'' @ [233] @ lit ''e, cr'' @ [233, 233] @ lit ''e il y a plus de '' @ dec hours @ lit '' h'')
                     else Inl (lit ''plus r'' @ [233] @ lit ''cente que '' @ dec hours @ lit '' h''))
              in case verdict of
                   Inl why \<Rightarrow> Inl why
                 | Inr why \<Rightarrow>
                     if list_all is_safe_ref (image_refs img) then Inr why
                     else Inl (lit ''r'' @ [233] @ lit ''f'' @ [233] @ lit ''rence non reconnue (ignor'' @ [233]
     @ lit ''e)''))"

definition select_images :: "image_info list \<Rightarrow> container_info list \<Rightarrow> instant \<Rightarrow> nat \<Rightarrow> nat \<Rightarrow> image_plan" where
  "select_images images cs now hours keep =
     (let judge = judge_image images cs now hours keep
      in \<lparr> pl_remove = sort_key (\<lambda>c. - int (ca_size c))
             (List.map_filter (\<lambda>i. case judge i of
                Inl _ \<Rightarrow> None
              | Inr why \<Rightarrow> Some \<lparr> ca_id = im_id i, ca_refs = image_refs i, ca_size = im_size i,
                                  ca_created = im_created i, ca_project = project_of i, ca_reason = why \<rparr>) images),
           pl_kept = List.map_filter (\<lambda>i. case judge i of
                Inl why \<Rightarrow> Some \<lparr> ke_id = im_id i, ke_tags = im_tags i, ke_reason = why \<rparr>
              | Inr _ \<Rightarrow> None) images \<rparr>)"

section \<open>The script that removes\<close>

definition avail_text :: ustr where
  "avail_text = lit ''$(df -Pk '' @ [34] @ lit ''$R'' @ [34] @ lit '' 2>/dev/null | tail -n 1 | awk ''
     @ [39] @ lit ''{print $4}'' @ [39] @ lit '')''"

definition quoted :: "ustr \<Rightarrow> ustr" where
  "quoted s = [39] @ s @ [39]"

definition tail_two :: ustr where
  "tail_two = lit '' 2>&1 | tail -n 2''"

definition prune_step :: "nat option \<Rightarrow> ustr \<Rightarrow> ustr" where
  "prune_step hours b =
     lit ''; echo '' @ quoted (lit ''@@cache '' @ b) @ lit ''; docker buildx prune --builder '' @ quoted b @
     lit '' -f'' @ until_filter hours @ tail_two"

definition buildctl_step :: "nat option \<Rightarrow> ustr \<Rightarrow> ustr" where
  "buildctl_step hours c =
     lit ''; echo '' @ quoted (lit ''@@cache '' @ c) @ lit ''; docker exec '' @ quoted c @ lit '' buildctl prune'' @
     (case hours of Some h \<Rightarrow> lit '' --keep-duration '' @ dec h @ lit ''h'' | None \<Rightarrow> []) @ tail_two"

definition rmi_step :: "ustr \<Rightarrow> ustr" where
  "rmi_step r =
     lit ''; echo '' @ quoted (lit ''@@rmi '' @ r) @ lit ''; docker image rm '' @ quoted r @ tail_two"

definition cleanup_command :: "ustr list \<Rightarrow> ustr list \<Rightarrow> nat option \<Rightarrow> image_plan \<Rightarrow> ustr" where
  "cleanup_command builders buildkit hours plan =
     root_detect @ lit ''; A0='' @ avail_text @
     (let safe = filter is_safe_name builders
      in if safe = []
         then lit ''; echo '' @ quoted (lit ''@@cache default'') @ lit ''; docker builder prune -f'' @ until_filter hours @ tail_two
         else concat (map (prune_step hours) safe)) @
     concat (map (buildctl_step hours) (filter is_safe_name buildkit)) @
     concat (map (\<lambda>c. concat (map rmi_step (filter is_safe_ref (ca_refs c)))) (pl_remove plan)) @
     lit ''; echo '' @ [34] @ lit ''@@avail $A0 '' @ avail_text @ [34] @ end_mark"

section \<open>Its output\<close>

record cleanup_outcome =
  co_freed :: nat
  co_removed :: nat
  co_errors :: "ustr list"

record cleanup_reader =
  cl_current :: "ustr option"
  cl_ok :: bool
  cl_out :: cleanup_outcome

definition count_removed :: "cleanup_reader \<Rightarrow> cleanup_outcome" where
  "count_removed r =
     (if cl_ok r \<and> is_some_and (cl_current r) (\<lambda>c. starts_with c (lit ''rmi ''))
      then (cl_out r)\<lparr> co_removed := co_removed (cl_out r) + 1 \<rparr> else cl_out r)"

definition freed_of :: "ustr \<Rightarrow> cleanup_outcome \<Rightarrow> cleanup_outcome" where
  "freed_of nums out =
     (case List.map_filter (parse_uint 64) (split_whitespace nums) of
        [a, b] \<Rightarrow> out\<lparr> co_freed := (b - a) * 1024 mod 2 ^ 64 \<rparr>
      | _ \<Rightarrow> out)"

definition note_error :: "ustr \<Rightarrow> ustr \<Rightarrow> cleanup_outcome \<Rightarrow> cleanup_outcome" where
  "note_error section t out =
     (if contains (to_ascii_lowercase t) (lit ''error'')
      then out\<lparr> co_errors := co_errors out @ [section @ lit '': '' @ t] \<rparr> else out)"

definition cleanup_line :: "cleanup_reader \<Rightarrow> ustr \<Rightarrow> cleanup_reader" where
  "cleanup_line r line =
     (let t = trim line
      in case strip_prefix t (lit ''@@'') of
           Some rest \<Rightarrow>
             (case strip_prefix rest (lit ''avail '') of
                Some nums \<Rightarrow> \<lparr> cl_current = None, cl_ok = False, cl_out = freed_of nums (count_removed r) \<rparr>
              | None \<Rightarrow> \<lparr> cl_current = (if rest = lit ''end'' then None else Some rest), cl_ok = False,
                          cl_out = count_removed r \<rparr>)
         | None \<Rightarrow>
             (case cl_current r of
                None \<Rightarrow> r
              | Some sec \<Rightarrow>
                  if starts_with sec (lit ''rmi '')
                  then (if starts_with t (lit ''Deleted:'') then r\<lparr> cl_ok := True \<rparr>
                        else r\<lparr> cl_out := note_error sec t (cl_out r) \<rparr>)
                  else if starts_with sec (lit ''cache '') then r\<lparr> cl_out := note_error sec t (cl_out r) \<rparr>
                  else r))"

definition parse_cleanup :: "ustr \<Rightarrow> cleanup_outcome" where
  "parse_cleanup output =
     count_removed (foldl cleanup_line
       \<lparr> cl_current = None, cl_ok = False, cl_out = \<lparr> co_freed = 0, co_removed = 0, co_errors = [] \<rparr> \<rparr> (str_lines output))"

end
