(* ===== verification/DockerGcProps.thy ===== *)
theory DockerGcProps
  imports DockerGc DockerCmdProps
begin

text \<open>
  The cleaning of a node: which images are removed and which are never, what the shell reads of the
  script that removes them, and what is counted in its output.
\<close>

section \<open>Lists\<close>

lemma in_map_filter: "y \<in> set (List.map_filter f xs) \<longleftrightarrow> (\<exists>x \<in> set xs. f x = Some y)"
  by (induction xs) (auto simp: List.map_filter_def)

lemma right_Some: "(case s of Inl a \<Rightarrow> None | Inr b \<Rightarrow> Some (g b)) = Some c \<longleftrightarrow> (\<exists>b. s = Inr b \<and> c = g b)"
  by (cases s) auto

section \<open>The images to remove\<close>

lemma in_plan_iff:
  "c \<in> set (pl_remove (select_images images cs now hours keep)) \<longleftrightarrow>
   (\<exists>i \<in> set images. \<exists>why. judge_image images cs now hours keep i = Inr why \<and>
      c = \<lparr> ca_id = im_id i, ca_refs = image_refs i, ca_size = im_size i, ca_created = im_created i,
            ca_project = project_of i, ca_reason = why \<rparr>)"
  by (simp add: select_images_def Let_def in_map_filter right_Some)

lemma rollback_member:
  assumes "i \<in> set images" and "project_of i = Some p" and "im_id i \<notin> set (rollback_kept images n)"
  shows "im_id i \<notin> set (newest_of images n p)"
proof -
  have "p \<in> set (List.map_filter project_of images)" using assms(1,2) by (force simp: in_map_filter)
  then show ?thesis using assms(3) by (auto simp: rollback_kept_def)
qed

lemma filter_take_le: "length (filter P (take n s)) \<le> length (filter P s)"
proof -
  have "filter P s = filter P (take n s) @ filter P (drop n s)" by (simp flip: filter_append)
  then show ?thesis by simp
qed

text \<open>Who is not among the newest has that many newer ones.\<close>

lemma not_among_newest:
  assumes "x \<in> set xs" and "f x \<notin> f ` set (take n (sort_key (\<lambda>i. - g i) xs))"
  shows "n \<le> length (filter (\<lambda>y. (g x :: int) \<le> g y \<and> f y \<noteq> f x) xs)"
proof -
  let ?s = "sort_key (\<lambda>i. - g i) xs"
  let ?P = "\<lambda>y. g x \<le> g y \<and> f y \<noteq> f x"
  have "x \<notin> set (take n ?s)" using assms(2) by blast
  moreover have "x \<in> set ?s" using assms(1) by simp
  ultimately have later: "x \<in> set (drop n ?s)" by (metis Un_iff append_take_drop_id set_append)
  then have "n < length ?s" by (cases "n < length ?s") simp_all
  have "sorted (map (\<lambda>i. - g i) (take n ?s) @ map (\<lambda>i. - g i) (drop n ?s))"
    by (metis append_take_drop_id map_append sorted_sort_key)
  then have "\<forall>y \<in> set (take n ?s). g x \<le> g y" using later by (auto simp: sorted_append)
  moreover have "\<forall>y \<in> set (take n ?s). f y \<noteq> f x" using assms(2) by (metis imageI)
  ultimately have "filter ?P (take n ?s) = take n ?s" by (intro filter_True) simp
  then have "n = length (filter ?P (take n ?s))" using \<open>n < length ?s\<close> by simp
  also have "\<dots> \<le> length (filter ?P ?s)"
    by (rule filter_take_le)
  also have "\<dots> = length (filter ?P xs)" by (simp add: filter_sort)
  finally show ?thesis .
qed

lemma judged_out:
  assumes "judge_image images cs now hours keep i = Inr why" and "i \<in> set images"
  shows "im_id i \<notin> ci_image ` set cs" and "\<not> is_current_deploy i" and "list_all is_safe_ref (image_refs i)"
    and "case project_of i of None \<Rightarrow> im_created i \<le> now - hours_ns hours
       | Some p \<Rightarrow> max keep 1 \<le> length (filter (\<lambda>j. project_of j = Some p \<and> im_created i \<le> im_created j \<and> im_id j \<noteq> im_id i) images)"
proof -
  show "im_id i \<notin> ci_image ` set cs" "\<not> is_current_deploy i" "list_all is_safe_ref (image_refs i)"
    using assms(1) by (auto simp: judge_image_def Let_def split: if_splits option.splits sum.splits)
  show "case project_of i of None \<Rightarrow> im_created i \<le> now - hours_ns hours
       | Some p \<Rightarrow> max keep 1 \<le> length (filter (\<lambda>j. project_of j = Some p \<and> im_created i \<le> im_created j \<and> im_id j \<noteq> im_id i) images)"
  proof (cases "project_of i")
    case None
    with assms(1) show ?thesis by (auto simp: judge_image_def Let_def split: if_splits)
  next
    case (Some p)
    with assms(1) have "im_id i \<notin> set (rollback_kept images (max keep 1))"
      by (auto simp: judge_image_def Let_def split: if_splits)
    from rollback_member [OF assms(2) Some this]
    have "im_id i \<notin> im_id ` set (take (max keep 1) (sort_key (\<lambda>j. - im_created j) (filter (\<lambda>j. project_of j = Some p) images)))"
      by (simp add: newest_of_def)
    from not_among_newest [OF _ this] assms(2) Some show ?thesis by (simp add: conj_commute conj_left_commute)
  qed
qed

lemma planned:
  assumes "c \<in> set (pl_remove (select_images images cs now hours keep))"
  obtains i why where "i \<in> set images" and "judge_image images cs now hours keep i = Inr why" and "ca_id c = im_id i" and "ca_refs c = image_refs i"
  using assms unfolding in_plan_iff by (elim bexE exE conjE) simp


text \<open>Every image is either removed or kept.\<close>

lemma map_filter_sides:
  "length (List.map_filter (\<lambda>x. case f x of Inl a \<Rightarrow> None | Inr b \<Rightarrow> Some (g x b)) xs) +
   length (List.map_filter (\<lambda>x. case f x of Inl a \<Rightarrow> Some (h x a) | Inr b \<Rightarrow> None) xs) = length xs"
  by (induction xs) (auto simp: List.map_filter_def split: sum.split)

lemma plan_covers:
  "length (pl_remove (select_images images cs now hours keep)) +
   length (pl_kept (select_images images cs now hours keep)) = length images"
  using map_filter_sides [where f = "judge_image images cs now hours keep" and xs = images]
  by (simp add: select_images_def Let_def)

text \<open>An image built the same for two projects has the tags of both and counts for the first one
  only: it goes although the second project has no other to go back to.\<close>

lemma shared_image_lost:
  assumes "a = \<lparr> im_id = lit ''sha256:1'', im_created = 0, im_size = 5, im_tags = [lit ''df-one:r1'', lit ''df-two:r1''] \<rparr>"
    and "b = \<lparr> im_id = lit ''sha256:2'', im_created = 1, im_size = 5, im_tags = [lit ''df-one:r2''] \<rparr>"
  shows "map ca_refs (pl_remove (select_images [a, b] [] 10 1 1)) = [[lit ''df-one:r1'', lit ''df-two:r1'']]"
  using assms
  by (simp, code_simp)

section \<open>What the script does\<close>

text \<open>The actions of the script, the words the shell is to read for each, and the section its output
  goes to.\<close>

datatype gc_action = PruneAll | Prune ustr | PruneKit ustr | RemoveImage ustr

fun action_words :: "nat option \<Rightarrow> gc_action \<Rightarrow> ustr list" where
  "action_words hours PruneAll = [lit ''docker'', lit ''builder'', lit ''prune'', lit ''-f''] @
     (case hours of None \<Rightarrow> [] | Some h \<Rightarrow> [lit ''--filter'', lit ''until='' @ dec h @ lit ''h''])"
| "action_words hours (Prune b) = [lit ''docker'', lit ''buildx'', lit ''prune'', lit ''--builder'', b, lit ''-f''] @
     (case hours of None \<Rightarrow> [] | Some h \<Rightarrow> [lit ''--filter'', lit ''until='' @ dec h @ lit ''h''])"
| "action_words hours (PruneKit c) = [lit ''docker'', lit ''exec'', c, lit ''buildctl'', lit ''prune''] @
     (case hours of None \<Rightarrow> [] | Some h \<Rightarrow> [lit ''--keep-duration'', dec h @ lit ''h''])"
| "action_words hours (RemoveImage r) = [lit ''docker'', lit ''image'', lit ''rm'', r]"

fun action_section :: "gc_action \<Rightarrow> ustr" where
  "action_section PruneAll = lit ''@@cache default''"
| "action_section (Prune b) = lit ''@@cache '' @ b"
| "action_section (PruneKit c) = lit ''@@cache '' @ c"
| "action_section (RemoveImage r) = lit ''@@rmi '' @ r"

text \<open>The script with given actions: each is announced and its output cut to two lines.\<close>

definition announced :: "ustr \<times> ustr \<Rightarrow> ustr" where
  "announced p = lit ''; '' @ fst p @ lit ''; '' @ snd p @ tail_two"

definition runs_as :: "nat option \<Rightarrow> gc_action \<Rightarrow> ustr \<times> ustr \<Rightarrow> bool" where
  "runs_as hours a p \<longleftrightarrow> sh_words (fst p) = Some [lit ''echo'', action_section a] \<and> sh_words (snd p) = Some (action_words hours a)"

lemma gc_words [simp]:
  "reads (lit ''builder'') (lit ''builder'')" "reads (lit ''buildx'') (lit ''buildx'')" "reads (lit ''prune'') (lit ''prune'')"
  "reads (lit ''--builder'') (lit ''--builder'')" "reads (lit ''-f'') (lit ''-f'')" "reads (lit ''--filter'') (lit ''--filter'')"
  "reads (lit ''exec'') (lit ''exec'')" "reads (lit ''buildctl'') (lit ''buildctl'')" "reads (lit ''echo'') (lit ''echo'')"
  "reads (lit ''--keep-duration'') (lit ''--keep-duration'')" "reads (lit ''image'') (lit ''image'')" "reads (lit ''rm'') (lit ''rm'')"
  by (rule plain_word; simp add: plain_defs)+

lemma gc_durations [simp]:
  "reads (lit ''until='' @ dec h @ lit ''h'') (lit ''until='' @ dec h @ lit ''h'')" "reads (dec h @ lit ''h'') (dec h @ lit ''h'')"
  by (rule plain_word; simp add: dec_plain; simp add: plain_defs)+

lemma quoted_clean: "39 \<notin> set s \<Longrightarrow> quoted s = shell_single_quote s"
proof -
  have "39 \<notin> set s \<Longrightarrow> requote s = s" by (induction s) (auto simp: requote_def)
  then show "39 \<notin> set s \<Longrightarrow> quoted s = shell_single_quote s" by (simp add: quoted_def shell_single_quote_def)
qed

lemma reads_clean: "39 \<notin> set s \<Longrightarrow> reads (quoted s) s"
  using reads_quoted by (simp add: quoted_clean)

lemma no_quote: "is_safe_name s \<Longrightarrow> 39 \<notin> set s" "is_safe_ref s \<Longrightarrow> 39 \<notin> set s"
  by (auto simp: is_safe_name_def is_safe_ref_def list_all_iff char_defs)

lemma echo_words:
  assumes "39 \<notin> set s"
  shows "sh_words (lit ''echo '' @ quoted s) = Some [lit ''echo'', s]"
proof -
  have "lit ''echo '' @ quoted s = join [32] [lit ''echo'', quoted s]" by simp
  moreover have "sh_words \<dots> = Some [lit ''echo'', s]"
    by (rule words_join) (simp add: reads_clean [OF assms] del: lit_simps)
  ultimately show ?thesis by metis
qed

lemma prune_all_runs:
  "\<exists>p. runs_as hours PruneAll p \<and> announced p =
     lit ''; echo '' @ quoted (lit ''@@cache default'') @ lit ''; docker builder prune -f'' @ until_filter hours @ tail_two"
proof -
  let ?c = "lit ''docker builder prune -f'' @ until_filter hours"
  have "?c = join [32] (action_words hours PruneAll)"
    by (simp add: until_filter_def split: option.split)
  moreover have "list_all2 reads (action_words hours PruneAll) (action_words hours PruneAll)"
    by (simp split: option.split del: lit_simps)
  ultimately have "sh_words ?c = Some (action_words hours PruneAll)" using words_join by metis
  then have "runs_as hours PruneAll (lit ''echo '' @ quoted (lit ''@@cache default''), ?c)"
    using echo_words [of "lit ''@@cache default''"] by (simp add: runs_as_def)
  moreover have "announced (lit ''echo '' @ quoted (lit ''@@cache default''), ?c) =
     lit ''; echo '' @ quoted (lit ''@@cache default'') @ lit ''; docker builder prune -f'' @ until_filter hours @ tail_two"
    by (simp add: announced_def)
  ultimately show ?thesis by blast
qed

lemma prune_runs:
  assumes "is_safe_name b"
  shows "\<exists>p. runs_as hours (Prune b) p \<and> announced p = prune_step hours b"
proof -
  let ?c = "lit ''docker buildx prune --builder '' @ quoted b @ lit '' -f'' @ until_filter hours"
  let ?ws = "[lit ''docker'', lit ''buildx'', lit ''prune'', lit ''--builder'', quoted b, lit ''-f''] @
     (case hours of None \<Rightarrow> [] | Some h \<Rightarrow> [lit ''--filter'', lit ''until='' @ dec h @ lit ''h''])"
  have c: "?c = join [32] ?ws" by (simp add: until_filter_def split: option.split)
  have "list_all2 reads ?ws (action_words hours (Prune b))"
    using reads_clean [OF no_quote(1) [OF assms]] by (simp split: option.split del: lit_simps)
  then have "sh_words ?c = Some (action_words hours (Prune b))" unfolding c by (rule words_join)
  moreover have "sh_words (lit ''echo '' @ quoted (lit ''@@cache '' @ b)) = Some [lit ''echo'', lit ''@@cache '' @ b]"
    using no_quote(1) [OF assms] by (intro echo_words) simp
  ultimately have "runs_as hours (Prune b) (lit ''echo '' @ quoted (lit ''@@cache '' @ b), ?c)" by (simp add: runs_as_def del: lit_simps)
  moreover have "announced (lit ''echo '' @ quoted (lit ''@@cache '' @ b), ?c) = prune_step hours b"
    by (simp add: announced_def prune_step_def)
  ultimately show ?thesis by blast
qed

lemma prune_kit_runs:
  assumes "is_safe_name c"
  shows "\<exists>p. runs_as hours (PruneKit c) p \<and> announced p = buildctl_step hours c"
proof -
  let ?d = "case hours of None \<Rightarrow> [] | Some h \<Rightarrow> lit '' --keep-duration '' @ dec h @ lit ''h''"
  let ?c = "lit ''docker exec '' @ quoted c @ lit '' buildctl prune'' @ ?d"
  let ?ws = "[lit ''docker'', lit ''exec'', quoted c, lit ''buildctl'', lit ''prune''] @
     (case hours of None \<Rightarrow> [] | Some h \<Rightarrow> [lit ''--keep-duration'', dec h @ lit ''h''])"
  have c: "?c = join [32] ?ws" by (simp split: option.split)
  have "list_all2 reads ?ws (action_words hours (PruneKit c))"
    using reads_clean [OF no_quote(1) [OF assms]] by (simp split: option.split del: lit_simps)
  then have "sh_words ?c = Some (action_words hours (PruneKit c))" unfolding c by (rule words_join)
  moreover have "sh_words (lit ''echo '' @ quoted (lit ''@@cache '' @ c)) = Some [lit ''echo'', lit ''@@cache '' @ c]"
    using no_quote(1) [OF assms] by (intro echo_words) simp
  ultimately have "runs_as hours (PruneKit c) (lit ''echo '' @ quoted (lit ''@@cache '' @ c), ?c)" by (simp add: runs_as_def del: lit_simps)
  moreover have "announced (lit ''echo '' @ quoted (lit ''@@cache '' @ c), ?c) = buildctl_step hours c"
    by (simp add: announced_def buildctl_step_def)
  ultimately show ?thesis by blast
qed

lemma rmi_runs:
  assumes "is_safe_ref r"
  shows "\<exists>p. runs_as hours (RemoveImage r) p \<and> announced p = rmi_step r"
proof -
  let ?c = "lit ''docker image rm '' @ quoted r"
  have "?c = join [32] [lit ''docker'', lit ''image'', lit ''rm'', quoted r]" by simp
  moreover have "sh_words \<dots> = Some [lit ''docker'', lit ''image'', lit ''rm'', r]"
    by (rule words_join) (simp add: reads_clean [OF no_quote(2) [OF assms]] del: lit_simps)
  ultimately have "sh_words ?c = Some (action_words hours (RemoveImage r))" by simp
  moreover have "sh_words (lit ''echo '' @ quoted (lit ''@@rmi '' @ r)) = Some [lit ''echo'', lit ''@@rmi '' @ r]"
    using no_quote(2) [OF assms] by (intro echo_words) simp
  ultimately have "runs_as hours (RemoveImage r) (lit ''echo '' @ quoted (lit ''@@rmi '' @ r), ?c)" by (simp add: runs_as_def del: lit_simps)
  moreover have "announced (lit ''echo '' @ quoted (lit ''@@rmi '' @ r), ?c) = rmi_step r"
    by (simp add: announced_def rmi_step_def)
  ultimately show ?thesis by blast
qed

lemma collect_runs:
  assumes "\<And>x. x \<in> set xs \<Longrightarrow> \<exists>p. runs_as hours (A x) p \<and> announced p = step x"
  shows "\<exists>ps. list_all2 (runs_as hours) (map A xs) ps \<and> concat (map announced ps) = concat (map step xs)"
  using assms
proof (induction xs)
  case (Cons x xs)
  from Cons.prems [of x] obtain p where p: "runs_as hours (A x) p" "announced p = step x" by auto
  from Cons obtain ps where ps: "list_all2 (runs_as hours) (map A xs) ps" "concat (map announced ps) = concat (map step xs)"
    by auto
  from p ps show ?case by (intro exI [of _ "p # ps"]) simp
qed simp

definition prune_actions :: "ustr list \<Rightarrow> ustr list \<Rightarrow> gc_action list" where
  "prune_actions builders buildkit =
     (let safe = filter is_safe_name builders in if safe = [] then [PruneAll] else map Prune safe) @
     map PruneKit (filter is_safe_name buildkit)"

lemma cleanup_shape:
  assumes "\<And>c. c \<in> set (pl_remove plan) \<Longrightarrow> list_all is_safe_ref (ca_refs c)"
  shows "\<exists>ps. list_all2 (runs_as hours) (prune_actions builders buildkit @ map RemoveImage (concat (map ca_refs (pl_remove plan)))) ps \<and>
    cleanup_command builders buildkit hours plan =
      root_detect @ lit ''; A0='' @ avail_text @ concat (map announced ps) @
      lit ''; echo '' @ [34] @ lit ''@@avail $A0 '' @ avail_text @ [34] @ end_mark"
proof -
  let ?safe = "filter is_safe_name builders"
  let ?first = "if ?safe = []
         then lit ''; echo '' @ quoted (lit ''@@cache default'') @ lit ''; docker builder prune -f'' @ until_filter hours @ tail_two
         else concat (map (prune_step hours) ?safe)"
  obtain ps1 where p1: "list_all2 (runs_as hours) (if ?safe = [] then [PruneAll] else map Prune ?safe) ps1" "concat (map announced ps1) = ?first"
  proof (cases "?safe = []")
    case True
    obtain p where p: "runs_as hours PruneAll p" "announced p =
        lit ''; echo '' @ quoted (lit ''@@cache default'') @ lit ''; docker builder prune -f'' @ until_filter hours @ tail_two"
      using prune_all_runs by blast
    show ?thesis by (rule that [of "[p]"]) (simp_all add: True p del: lit_simps)
  next
    case False
    with collect_runs [of ?safe hours Prune "prune_step hours"] prune_runs that show ?thesis by auto
  qed
  obtain ps2 where p2: "list_all2 (runs_as hours) (map PruneKit (filter is_safe_name buildkit)) ps2"
      "concat (map announced ps2) = concat (map (buildctl_step hours) (filter is_safe_name buildkit))"
    using collect_runs [of "filter is_safe_name buildkit" hours PruneKit "buildctl_step hours"] prune_kit_runs by auto
  let ?refs = "concat (map ca_refs (pl_remove plan))"
  have "\<And>r. r \<in> set ?refs \<Longrightarrow> is_safe_ref r" using assms by (auto simp: list_all_iff)
  then obtain ps3 where p3: "list_all2 (runs_as hours) (map RemoveImage ?refs) ps3" "concat (map announced ps3) = concat (map rmi_step ?refs)"
    using collect_runs [of ?refs hours RemoveImage rmi_step] rmi_runs by blast
  have "concat (map (\<lambda>c. concat (map rmi_step (filter is_safe_ref (ca_refs c)))) cs) = concat (map rmi_step (concat (map ca_refs cs)))"
    if "\<And>c. c \<in> set cs \<Longrightarrow> list_all is_safe_ref (ca_refs c)" for cs
    using that
  proof (induction cs)
    case (Cons c cs)
    from Cons.prems [of c] have "filter is_safe_ref (ca_refs c) = ca_refs c" by (simp add: list_all_iff)
    with Cons show ?case by simp
  qed simp
  from this [OF assms] have "concat (map (\<lambda>c. concat (map rmi_step (filter is_safe_ref (ca_refs c)))) (pl_remove plan)) = concat (map rmi_step ?refs)" .
  with p1 p2 p3 show ?thesis
    by (intro exI [of _ "ps1 @ ps2 @ ps3"])
      (simp add: cleanup_command_def prune_actions_def Let_def list_all2_appendI del: lit_simps)
qed

text \<open>C2. The script of a cleaning is its prologue, one announced command per action and the final
  measure. Its commands are, as the shell reads them, prunes of build caches and \<open>docker image rm\<close>
  of one reference each, without a flag; the references are those of images that no container uses.\<close>

theorem gc_script_contract:
  "\<exists>actions ps. list_all2 (runs_as hours) actions ps \<and>
    cleanup_command builders buildkit hours (select_images images cs now retention keep) =
      root_detect @ lit ''; A0='' @ avail_text @ concat (map announced ps) @
      lit ''; echo '' @ [34] @ lit ''@@avail $A0 '' @ avail_text @ [34] @ end_mark \<and>
    (\<forall>r. RemoveImage r \<in> set actions \<longrightarrow>
       (\<exists>i \<in> set images. r \<in> set (image_refs i) \<and> (\<forall>k \<in> set cs. ci_image k \<noteq> im_id i) \<and> \<not> is_current_deploy i))"
proof -
  let ?plan = "select_images images cs now retention keep"
  let ?refs = "concat (map ca_refs (pl_remove ?plan))"
  let ?actions = "prune_actions builders buildkit @ map RemoveImage ?refs"
  have chosen: "\<exists>i \<in> set images. ca_refs c = image_refs i \<and> (\<forall>k \<in> set cs. ci_image k \<noteq> im_id i) \<and> \<not> is_current_deploy i \<and>
      list_all is_safe_ref (ca_refs c)" if "c \<in> set (pl_remove ?plan)" for c
  proof -
    from that obtain i why where i: "i \<in> set images" and j: "judge_image images cs now retention keep i = Inr why"
      and c: "ca_refs c = image_refs i" by (rule planned)
    from judged_out(1) [OF j i] have "\<forall>k \<in> set cs. ci_image k \<noteq> im_id i" by force
    with i c judged_out(2,3) [OF j i] show ?thesis by (intro bexI [OF _ i]) simp
  qed
  have "list_all is_safe_ref (ca_refs c)" if "c \<in> set (pl_remove ?plan)" for c using chosen [OF that] by blast
  from cleanup_shape [OF this] obtain ps where "list_all2 (runs_as hours) ?actions ps"
    and "cleanup_command builders buildkit hours ?plan = root_detect @ lit ''; A0='' @ avail_text @ concat (map announced ps) @
      lit ''; echo '' @ [34] @ lit ''@@avail $A0 '' @ avail_text @ [34] @ end_mark" by blast
  moreover have "\<exists>i \<in> set images. r \<in> set (image_refs i) \<and> (\<forall>k \<in> set cs. ci_image k \<noteq> im_id i) \<and> \<not> is_current_deploy i"
    if "RemoveImage r \<in> set ?actions" for r
  proof -
    have "r \<in> set ?refs" using that by (auto simp: prune_actions_def Let_def split: if_splits)
    then obtain c where "c \<in> set (pl_remove ?plan)" "r \<in> set (ca_refs c)" by auto
    with chosen show ?thesis by metis
  qed
  ultimately show ?thesis by blast
qed

section \<open>What is counted\<close>

definition deletes :: "ustr list \<Rightarrow> bool" where
  "deletes body \<longleftrightarrow> list_ex (\<lambda>l. starts_with (trim l) (lit ''Deleted:'')) body"

definition is_error :: "ustr \<Rightarrow> ustr \<Rightarrow> bool" where
  "is_error h l \<longleftrightarrow> contains (to_ascii_lowercase (trim l)) (lit ''error'') \<and>
     (if starts_with h (lit ''rmi '') then \<not> starts_with (trim l) (lit ''Deleted:'') else starts_with h (lit ''cache ''))"

text \<open>Output in sections: a head after two at signs, and lines that are no heads.\<close>

definition well_sectioned :: "(ustr \<times> ustr list) list \<Rightarrow> bool" where
  "well_sectioned segs \<longleftrightarrow>
     (\<forall>(h, body) \<in> set segs. trim (lit ''@@'' @ h) = lit ''@@'' @ h \<and> (\<forall>l \<in> set body. \<not> starts_with (trim l) (lit ''@@'')))"

definition section_errors :: "ustr \<times> ustr list \<Rightarrow> ustr list" where
  "section_errors p = map (\<lambda>l. fst p @ lit '': '' @ trim l) (filter (is_error (fst p)) (snd p))"

definition removed_in :: "ustr \<times> ustr list \<Rightarrow> nat" where
  "removed_in p = (if starts_with (fst p) (lit ''rmi '') \<and> deletes (snd p) then 1 else 0)"

lemma body_line:
  assumes "\<not> starts_with (trim l) (lit ''@@'')"
  shows "cleanup_line r l = (case cl_current r of
     None \<Rightarrow> r
   | Some h \<Rightarrow> r\<lparr> cl_ok := cl_ok r \<or> (starts_with h (lit ''rmi '') \<and> starts_with (trim l) (lit ''Deleted:'')),
       cl_out := (cl_out r)\<lparr> co_errors := co_errors (cl_out r) @ (if is_error h l then [h @ lit '': '' @ trim l] else []) \<rparr> \<rparr>)"
  using assms
  by (simp add: cleanup_line_def strip_prefix_def note_error_def is_error_def Let_def split: option.split del: lit_simps)

lemma body_lines:
  assumes "\<forall>l \<in> set body. \<not> starts_with (trim l) (lit ''@@'')"
  shows "foldl cleanup_line r body = (case cl_current r of
     None \<Rightarrow> r
   | Some h \<Rightarrow> r\<lparr> cl_ok := cl_ok r \<or> (starts_with h (lit ''rmi '') \<and> deletes body),
       cl_out := (cl_out r)\<lparr> co_errors := co_errors (cl_out r) @ section_errors (h, body) \<rparr> \<rparr>)"
  using assms
proof (induction body arbitrary: r)
  case Nil
  then show ?case by (simp add: deletes_def section_errors_def split: option.split)
next
  case (Cons l body)
  from Cons.prems have l: "\<not> starts_with (trim l) (lit ''@@'')" and b: "\<forall>l \<in> set body. \<not> starts_with (trim l) (lit ''@@'')" by simp_all
  show ?case
    unfolding foldl_Cons body_line [OF l] Cons.IH [OF b]
    by (simp add: deletes_def section_errors_def conj_disj_distribL disj_assoc split: option.split del: lit_simps)
qed

definition fresh_head :: "ustr \<Rightarrow> ustr option" where
  "fresh_head h = (if starts_with h (lit ''avail '') \<or> h = lit ''end'' then None else Some h)"

lemma head_line:
  assumes "trim (lit ''@@'' @ h) = lit ''@@'' @ h"
  shows "cl_current (cleanup_line r (lit ''@@'' @ h)) = fresh_head h" and "\<not> cl_ok (cleanup_line r (lit ''@@'' @ h))"
    and "co_removed (cl_out (cleanup_line r (lit ''@@'' @ h))) = co_removed (count_removed r)"
    and "co_errors (cl_out (cleanup_line r (lit ''@@'' @ h))) = co_errors (cl_out r)"
proof -
  have p: "strip_prefix (lit ''@@'' @ h) (lit ''@@'') = Some h" by (simp add: strip_prefix_Some del: lit_simps)
  note defs = cleanup_line_def fresh_head_def strip_prefix_def [of h] freed_of_def count_removed_def
  show "cl_current (cleanup_line r (lit ''@@'' @ h)) = fresh_head h" "\<not> cl_ok (cleanup_line r (lit ''@@'' @ h))"
    by (simp_all add: defs assms p del: lit_simps)
  show "co_removed (cl_out (cleanup_line r (lit ''@@'' @ h))) = co_removed (count_removed r)"
    "co_errors (cl_out (cleanup_line r (lit ''@@'' @ h))) = co_errors (cl_out r)"
    by (simp_all add: defs assms p split: list.split del: lit_simps)
qed

lemma silent_head: "fresh_head h = None \<Longrightarrow> \<not> starts_with h (lit ''rmi '') \<and> \<not> starts_with h (lit ''cache '')"
  by (auto simp: fresh_head_def starts_with_iff split: if_splits)

lemma one_section:
  assumes "trim (lit ''@@'' @ h) = lit ''@@'' @ h" and "\<forall>l \<in> set body. \<not> starts_with (trim l) (lit ''@@'')"
  shows "co_removed (count_removed (foldl cleanup_line r ((lit ''@@'' @ h) # body))) = co_removed (count_removed r) + removed_in (h, body)"
    and "co_errors (cl_out (foldl cleanup_line r ((lit ''@@'' @ h) # body))) = co_errors (cl_out r) @ section_errors (h, body)"
proof -
  let ?r = "cleanup_line r (lit ''@@'' @ h)"
  note hd = head_line [OF assms(1), of r]
  have f: "foldl cleanup_line r ((lit ''@@'' @ h) # body) = foldl cleanup_line ?r body" by simp
  show "co_removed (count_removed (foldl cleanup_line r ((lit ''@@'' @ h) # body))) = co_removed (count_removed r) + removed_in (h, body)"
  proof (cases "fresh_head h")
    case None
    with silent_head [OF None] hd show ?thesis
      unfolding f body_lines [OF assms(2)] by (simp add: removed_in_def count_removed_def [of ?r] del: lit_simps)
  next
    case (Some g)
    then have "g = h" by (simp add: fresh_head_def split: if_splits)
    with Some hd show ?thesis
      unfolding f body_lines [OF assms(2)] by (simp add: removed_in_def count_removed_def del: lit_simps)
  qed
  show "co_errors (cl_out (foldl cleanup_line r ((lit ''@@'' @ h) # body))) = co_errors (cl_out r) @ section_errors (h, body)"
  proof (cases "fresh_head h")
    case None
    with silent_head [OF None] hd show ?thesis
      unfolding f body_lines [OF assms(2)] by (simp add: section_errors_def is_error_def del: lit_simps)
  next
    case (Some g)
    then have "g = h" by (simp add: fresh_head_def split: if_splits)
    with Some hd show ?thesis unfolding f body_lines [OF assms(2)] by simp
  qed
qed

lemma all_sections:
  assumes "well_sectioned segs"
  shows "co_removed (count_removed (foldl cleanup_line r (concat (map (\<lambda>(h, body). (lit ''@@'' @ h) # body) segs)))) =
      co_removed (count_removed r) + sum_list (map removed_in segs) \<and>
    co_errors (cl_out (foldl cleanup_line r (concat (map (\<lambda>(h, body). (lit ''@@'' @ h) # body) segs)))) =
      co_errors (cl_out r) @ concat (map section_errors segs)"
  using assms
proof (induction segs arbitrary: r)
  case (Cons seg segs)
  obtain h body where seg: "seg = (h, body)" by (cases seg)
  have ws: "well_sectioned segs" and h: "trim (lit ''@@'' @ h) = lit ''@@'' @ h"
    and b: "\<forall>l \<in> set body. \<not> starts_with (trim l) (lit ''@@'')"
    using Cons.prems seg by (auto simp: well_sectioned_def simp del: lit_simps)
  let ?r = "foldl cleanup_line r ((lit ''@@'' @ h) # body)"
  have f: "foldl cleanup_line r (concat (map (\<lambda>(h, body). (lit ''@@'' @ h) # body) (seg # segs))) =
      foldl cleanup_line ?r (concat (map (\<lambda>(h, body). (lit ''@@'' @ h) # body) segs))"
    by (simp add: seg del: lit_simps)
  from Cons.IH [OF ws, of ?r] show ?case
    unfolding f one_section [OF h b] by (simp only: seg list.map sum_list.Cons concat.simps append_assoc add.assoc)
qed simp

text \<open>Reading the output of the script counts exactly the sections of a removal in which docker says that an
  image was deleted, and reports exactly the lines with an error in the sections of removals and
  prunes.\<close>

lemma cleanup_counts:
  assumes "str_lines output = concat (map (\<lambda>(h, body). (lit ''@@'' @ h) # body) segs)" and "well_sectioned segs"
  shows "co_removed (parse_cleanup output) = length (filter (\<lambda>(h, body). starts_with h (lit ''rmi '') \<and> deletes body) segs) \<and>
    co_errors (parse_cleanup output) = concat (map section_errors segs)"
proof -
  have "sum_list (map removed_in segs) = length (filter (\<lambda>(h, body). starts_with h (lit ''rmi '') \<and> deletes body) segs)"
    by (induction segs) (auto simp: removed_in_def simp del: lit_simps)
  moreover have "co_errors (count_removed r) = co_errors (cl_out r)" for r by (simp add: count_removed_def)
  ultimately show ?thesis
    using all_sections [OF assms(2), of "\<lparr> cl_current = None, cl_ok = False, cl_out = \<lparr> co_freed = 0, co_removed = 0, co_errors = [] \<rparr> \<rparr>"]
    unfolding parse_cleanup_def assms(1) by (simp add: count_removed_def [of "\<lparr>cl_current = None, cl_ok = False, cl_out = b\<rparr>" for b] del: lit_simps)
qed

end
