(* ===== verification/DockerGcRun.thy ===== *)
theory DockerGcRun
  imports DockerGc ClusterModel
begin

text \<open>
  The runs of the cleaning, \<open>apps/server/src/docker_gc_routes.rs\<close>: the stored settings and history,
  the nodes, what a run does on a node, the handlers behind the check of the administrator, and the
  loop of the scheduler, one round at a time. A query and the list of the nodes may fail as the
  schedule of the world says. The lock makes runs follow each other, so a run is one step.
\<close>

section \<open>State\<close>

record gc_run =
  gr_started :: instant
  gr_finished :: instant
  gr_trigger :: ustr
  gr_node :: ustr
  gr_name :: ustr
  gr_ok :: bool
  gr_freed :: nat
  gr_removed :: nat
  gr_ms :: nat
  gr_before :: "nat option"
  gr_after :: "nat option"
  gr_errors :: ustr

text \<open>\<open>gw_settings\<close> is the stored text as it is read, \<open>None\<close> without one or when it is not readable;
  \<open>gw_nodes\<close> is what \<open>list_nodes\<close> answers; \<open>gw_alerts\<close> the warnings logged before an emergency.\<close>

record gc_world =
  gw_settings :: "gc_settings option"
  gw_runs :: "gc_run list"
  gw_nodes :: "node list"
  gw_faults :: "bool list"
  gw_now :: instant
  gw_sent :: "(ustr \<times> ustr) list"
  gw_rotation :: "(nat \<times> nat) option"
  gw_marks :: "ustr \<rightharpoonup> instant"
  gw_alerts :: "(instant \<times> ustr) list"

definition gc_query :: "(gc_world \<Rightarrow> gc_world \<times> 'a) \<Rightarrow> gc_world \<Rightarrow> gc_world \<times> 'a option" where
  "gc_query q w =
     (case gw_faults w of
        True # fs \<Rightarrow> (w\<lparr> gw_faults := fs \<rparr>, None)
      | False # fs \<Rightarrow> (case q (w\<lparr> gw_faults := fs \<rparr>) of (w', x) \<Rightarrow> (w', Some x))
      | [] \<Rightarrow> (case q w of (w', x) \<Rightarrow> (w', Some x)))"

definition load_settings :: "gc_world \<Rightarrow> gc_world \<times> gc_settings" where
  "load_settings w =
     (case gc_query (\<lambda>w. (w, gw_settings w)) w of
        (w', row) \<Rightarrow> (w', unwrap_or (Option.bind row (\<lambda>r. r)) default_gc_settings))"

definition save_settings :: "gc_settings \<Rightarrow> gc_world \<Rightarrow> gc_world \<times> unit option" where
  "save_settings s = gc_query (\<lambda>w. (w\<lparr> gw_settings := Some s \<rparr>, ()))"

definition apply_log_rotation :: "gc_settings \<Rightarrow> gc_world \<Rightarrow> gc_world" where
  "apply_log_rotation s w =
     w\<lparr> gw_rotation := (if gs_rotation s then Some (gs_log_mb s, gs_log_files s) else None) \<rparr>"

section \<open>Nodes\<close>

record gc_node =
  gn_exec :: ustr
  gn_id :: ustr
  gn_name :: ustr
  gn_online :: bool

definition gc_node_of :: "node \<Rightarrow> gc_node" where
  "gc_node_of n =
     (let leader = (n_role n = Leader)
      in \<lparr> gn_exec = (if leader then lit ''default'' else n_id n), gn_id = n_id n, gn_name = n_name n,
           gn_online = (leader \<or> status_str (n_status n) = lit ''online'') \<rparr>)"

definition gc_nodes :: "gc_world \<Rightarrow> gc_world \<times> gc_node list" where
  "gc_nodes w =
     (case gc_query (\<lambda>w. (w, gw_nodes w)) w of
        (w', ns) \<Rightarrow>
          (w', if unwrap_or ns [] = []
               then [\<lparr> gn_exec = lit ''default'', gn_id = lit ''default'', gn_name = lit ''Ce serveur'', gn_online = True \<rparr>]
               else map gc_node_of (unwrap_or ns [])))"

definition gc_exec :: "('sch, 'tz) gc_env \<Rightarrow> gc_node \<Rightarrow> ustr \<Rightarrow> gc_world \<Rightarrow> gc_world \<times> (ustr + ustr)" where
  "gc_exec E node c w =
     (if \<not> gn_online node then (w, Inl (lit ''n'' @ [339] @ lit ''ud hors ligne''))
      else case ge_exec E (gn_exec node) c (length (gw_sent w)) of
             (d, r) \<Rightarrow> (w\<lparr> gw_sent := gw_sent w @ [(gn_exec node, c)], gw_now := gw_now w + int d \<rparr>,
                        case r of Inl e \<Rightarrow> Inl e | Inr x \<Rightarrow> Inr (er_out x)))"

definition log_driver_supports_rotation :: "ustr \<Rightarrow> bool" where
  "log_driver_supports_rotation driver \<longleftrightarrow> trim driver \<in> {lit ''json-file'', lit ''local'', []}"

section \<open>Runs\<close>

record node_plan =
  np_inventory :: inventory
  np_plan :: image_plan
  np_cache :: "(ustr \<times> nat) list"

definition measure_cache ::
    "('sch, 'tz) gc_env \<Rightarrow> gc_node \<Rightarrow> inventory \<Rightarrow> nat option \<Rightarrow> bool \<Rightarrow> gc_world \<Rightarrow> gc_world \<times> (ustr \<times> nat) list" where
  "measure_cache E node iv hours wanted w =
     (if wanted \<and> (iv_builders iv \<noteq> [] \<or> iv_buildkit iv \<noteq> [])
      then case gc_exec E node (cache_du_command (iv_builders iv) (iv_buildkit iv) hours) w of
             (w', Inl _) \<Rightarrow> (w', [])
           | (w', Inr out) \<Rightarrow> (w', parse_cache_du E out)
      else (w, []))"

definition plan_node ::
    "('sch, 'tz) gc_env \<Rightarrow> gc_node \<Rightarrow> gc_settings \<Rightarrow> nat option \<Rightarrow> bool \<Rightarrow> gc_world \<Rightarrow> gc_world \<times> (ustr + node_plan)" where
  "plan_node E node s hours wanted w =
     (case gc_exec E node inventory_command w of
        (w1, Inl e) \<Rightarrow> (w1, Inl e)
      | (w1, Inr out) \<Rightarrow>
          (let iv = parse_inventory E out
           in if di_total (iv_disk iv) = 0 \<and> iv_images iv = []
              then (w1, Inl (lit ''Docker injoignable sur ce n'' @ [339] @ lit ''ud''))
              else let plan = select_images (iv_images iv) (iv_containers iv) (gw_now w1) (gs_retention s) (gs_keep s)
                   in case measure_cache E node iv hours wanted w1 of
                        (w2, cache) \<Rightarrow> (w2, Inr \<lparr> np_inventory = iv, np_plan = plan, np_cache = cache \<rparr>)))"

text \<open>What a run found: its result, the disk before and after, the outcome of the script.\<close>

record gc_result =
  gx_ok :: bool
  gx_freed :: nat
  gx_removed :: nat
  gx_errors :: "ustr list"
  gx_before :: "nat option"
  gx_after :: "nat option"

definition run_script :: "('sch, 'tz) gc_env \<Rightarrow> gc_node \<Rightarrow> nat option \<Rightarrow> node_plan \<Rightarrow> gc_world \<Rightarrow> gc_world \<times> gc_result" where
  "run_script E node hours p w =
     (let iv = np_inventory p;
          before = Some (di_tenths (iv_disk iv))
      in case gc_exec E node (cleanup_command (iv_builders iv) (iv_buildkit iv) hours (np_plan p)) w of
           (w1, answer) \<Rightarrow>
             (let r = (case answer of
                  Inl e \<Rightarrow> \<lparr> gx_ok = False, gx_freed = 0, gx_removed = 0, gx_errors = [e], gx_before = before, gx_after = None \<rparr>
                | Inr out \<Rightarrow>
                    (let o' = parse_cleanup out
                     in \<lparr> gx_ok = (co_errors o' = []), gx_freed = co_freed o', gx_removed = co_removed o',
                          gx_errors = co_errors o', gx_before = before, gx_after = None \<rparr>))
              in case gc_exec E node disk_command w1 of
                   (w2, Inl _) \<Rightarrow> (w2, r)
                 | (w2, Inr out) \<Rightarrow> (w2, r\<lparr> gx_after := Some (di_tenths (parse_disk E out)) \<rparr>)))"

definition clean_node :: "('sch, 'tz) gc_env \<Rightarrow> gc_node \<Rightarrow> gc_settings \<Rightarrow> ustr \<Rightarrow> gc_world \<Rightarrow> gc_world \<times> gc_result" where
  "clean_node E node s trigger w =
     (let hours = (if trigger \<noteq> lit ''emergency'' then Some (gs_retention s) else None)
      in case plan_node E node s hours False w of
           (w1, Inl e) \<Rightarrow>
             (w1, \<lparr> gx_ok = False, gx_freed = 0, gx_removed = 0, gx_errors = [e], gx_before = None, gx_after = None \<rparr>)
         | (w1, Inr p) \<Rightarrow> run_script E node hours p w1)"

definition run_limit :: nat where
  "run_limit = 500"

text \<open>\<open>DELETE ... WHERE id NOT IN\<close> the newest ones; rows are in the order of their ids.\<close>

definition record_run :: "gc_run \<Rightarrow> gc_world \<Rightarrow> gc_world" where
  "record_run row w =
     fst (gc_query (\<lambda>w. (w\<lparr> gw_runs := drop (length (gw_runs w) - run_limit) (gw_runs w) \<rparr>, ()))
       (fst (gc_query (\<lambda>w. (w\<lparr> gw_runs := gw_runs w @ [row] \<rparr>, ())) w)))"

definition run_node :: "('sch, 'tz) gc_env \<Rightarrow> gc_node \<Rightarrow> gc_settings \<Rightarrow> ustr \<Rightarrow> gc_world \<Rightarrow> gc_world" where
  "run_node E node s trigger w =
     (case clean_node E node s trigger w of
        (w1, r) \<Rightarrow>
          record_run
            \<lparr> gr_started = gw_now w, gr_finished = gw_now w1, gr_trigger = trigger, gr_node = gn_id node,
              gr_name = gn_name node, gr_ok = gx_ok r, gr_freed = min (gx_freed r) (2 ^ 63 - 1),
              gr_removed = gx_removed r, gr_ms = nat ((gw_now w1 - gw_now w) div 1000000),
              gr_before = gx_before r, gr_after = gx_after r, gr_errors = join [10] (take 30 (gx_errors r)) \<rparr> w1)"

fun run_nodes :: "('sch, 'tz) gc_env \<Rightarrow> gc_settings \<Rightarrow> ustr \<Rightarrow> ustr option \<Rightarrow> gc_node list \<Rightarrow> gc_world \<Rightarrow> gc_world" where
  "run_nodes E s trigger only [] w = w"
| "run_nodes E s trigger only (n # ns) w =
     (if is_some_and only (\<lambda>i. i \<noteq> gn_id n) then run_nodes E s trigger only ns w
      else run_nodes E s trigger only ns (run_node E n s trigger w))"

definition run_all :: "('sch, 'tz) gc_env \<Rightarrow> ustr \<Rightarrow> ustr option \<Rightarrow> gc_world \<Rightarrow> gc_world" where
  "run_all E trigger only w =
     (case load_settings w of (w1, s) \<Rightarrow> case gc_nodes w1 of (w2, ns) \<Rightarrow> run_nodes E s trigger only ns w2)"

section \<open>Handlers\<close>

datatype gc_refusal = Refused gc_invalid | NoRotation ustr ustr | NotSaved | Unconfirmed

text \<open>The first online node whose log driver cannot rotate.\<close>

fun find_no_rotation :: "('sch, 'tz) gc_env \<Rightarrow> gc_node list \<Rightarrow> gc_world \<Rightarrow> gc_world \<times> gc_refusal option" where
  "find_no_rotation E [] w = (w, None)"
| "find_no_rotation E (n # ns) w =
     (if \<not> gn_online n then find_no_rotation E ns w
      else case gc_exec E n disk_command w of
             (w1, Inl _) \<Rightarrow> find_no_rotation E ns w1
           | (w1, Inr out) \<Rightarrow>
               (let driver = di_driver (parse_disk E out)
                in if log_driver_supports_rotation driver then find_no_rotation E ns w1
                   else (w1, Some (NoRotation (gn_name n) driver))))"

definition put_settings :: "('sch, 'tz) gc_env \<Rightarrow> gc_settings \<Rightarrow> gc_world \<Rightarrow> gc_world \<times> (gc_refusal + gc_settings)" where
  "put_settings E body w =
     (let s = body\<lparr> gs_cron := custom_cron body \<rparr>
      in case validate_gc E (gw_now w) s of
           Some e \<Rightarrow> (w, Inl (Refused e))
         | None \<Rightarrow>
             (case (if gs_rotation s then (case gc_nodes w of (w1, ns) \<Rightarrow> find_no_rotation E ns w1) else (w, None)) of
                (w1, Some e) \<Rightarrow> (w1, Inl e)
              | (w1, None) \<Rightarrow>
                  (case save_settings s w1 of
                     (w2, None) \<Rightarrow> (w2, Inl NotSaved)
                   | (w2, Some _) \<Rightarrow> (apply_log_rotation s w2, Inr s))))"

text \<open>The disk of every node, and whether it reaches the threshold: \<open>percent >= threshold\<close> on tenths.\<close>

definition node_disk :: "('sch, 'tz) gc_env \<Rightarrow> gc_node \<Rightarrow> gc_world \<Rightarrow> gc_world \<times> (ustr + disk_info)" where
  "node_disk E node w =
     (case gc_exec E node disk_command w of
        (w1, Inl e) \<Rightarrow> (w1, Inl e)
      | (w1, Inr out) \<Rightarrow> (w1, Inr (parse_disk E out)))"

fun disks_of :: "('sch, 'tz) gc_env \<Rightarrow> gc_settings \<Rightarrow> gc_node list \<Rightarrow> gc_world \<Rightarrow> gc_world \<times> (gc_node \<times> (ustr + disk_info) \<times> bool) list" where
  "disks_of E s [] w = (w, [])"
| "disks_of E s (n # ns) w =
     (case node_disk E n w of
        (w1, r) \<Rightarrow>
          (case disks_of E s ns w1 of
             (w2, rs) \<Rightarrow> (w2, (n, r, case r of Inl _ \<Rightarrow> False | Inr d \<Rightarrow> 10 * gs_alert s \<le> di_tenths d) # rs)))"

definition nodes_disk :: "('sch, 'tz) gc_env \<Rightarrow> gc_world \<Rightarrow> gc_world \<times> (gc_node \<times> (ustr + disk_info) \<times> bool) list" where
  "nodes_disk E w =
     (case load_settings w of (w1, s) \<Rightarrow> case gc_nodes w1 of (w2, ns) \<Rightarrow> disks_of E s ns w2)"

fun preview_nodes :: "('sch, 'tz) gc_env \<Rightarrow> gc_settings \<Rightarrow> gc_node list \<Rightarrow> gc_world \<Rightarrow> gc_world \<times> (gc_node \<times> (ustr + node_plan)) list" where
  "preview_nodes E s [] w = (w, [])"
| "preview_nodes E s (n # ns) w =
     (case plan_node E n s (Some (gs_retention s)) True w of
        (w1, r) \<Rightarrow> (case preview_nodes E s ns w1 of (w2, rs) \<Rightarrow> (w2, (n, r) # rs)))"

definition preview :: "('sch, 'tz) gc_env \<Rightarrow> gc_world \<Rightarrow> gc_world \<times> (gc_node \<times> (ustr + node_plan)) list" where
  "preview E w =
     (case load_settings w of (w1, s) \<Rightarrow> case gc_nodes w1 of (w2, ns) \<Rightarrow> preview_nodes E s ns w2)"

text \<open>The run goes on in the background; the conflict with a run under way is left out, as a run is
  one step.\<close>

definition run_gc_now :: "('sch, 'tz) gc_env \<Rightarrow> bool \<Rightarrow> gc_world \<Rightarrow> gc_world \<times> (gc_refusal + unit)" where
  "run_gc_now E confirm w =
     (if \<not> confirm then (w, Inl Unconfirmed) else (run_all E (lit ''manual'') None w, Inr ()))"

definition list_gc_runs :: "int option \<Rightarrow> gc_world \<Rightarrow> gc_world \<times> gc_run list option" where
  "list_gc_runs limit =
     gc_query (\<lambda>w. (w, take (nat (max 1 (min 200 (unwrap_or limit 50)))) (rev (gw_runs w))))"

section \<open>The scheduler\<close>

definition hour_ns :: int where
  "hour_ns = 3600000000000"

definition emergency_due :: "nat \<Rightarrow> nat \<Rightarrow> instant option \<Rightarrow> instant \<Rightarrow> bool" where
  "emergency_due tenths threshold last_run now \<longleftrightarrow>
     10 * threshold \<le> tenths \<and> (case last_run of None \<Rightarrow> True | Some t \<Rightarrow> hour_ns \<le> now - t)"

fun retire_guards :: "('sch, 'tz) gc_env \<Rightarrow> gc_node list \<Rightarrow> gc_world \<Rightarrow> gc_world" where
  "retire_guards E [] w = w"
| "retire_guards E (n # ns) w =
     retire_guards E ns (if gn_online n then fst (gc_exec E n retire_legacy_guard_command w) else w)"

definition retire_legacy_guards :: "('sch, 'tz) gc_env \<Rightarrow> gc_world \<Rightarrow> gc_world" where
  "retire_legacy_guards E w = (case gc_nodes w of (w1, ns) \<Rightarrow> retire_guards E ns w1)"

record gc_loop =
  gl_settings :: gc_settings
  gl_next :: "instant option"
  gl_checked :: instant

definition start_loop :: "('sch, 'tz) gc_env \<Rightarrow> gc_world \<Rightarrow> gc_loop \<times> gc_world" where
  "start_loop E w =
     (case load_settings (retire_legacy_guards E w) of
        (w1, s) \<Rightarrow>
          (\<lparr> gl_settings = s, gl_next = gc_next_run E s (gw_now w1), gl_checked = gw_now w1 - hour_ns \<rparr>,
           apply_log_rotation s w1))"

definition emergency :: "('sch, 'tz) gc_env \<Rightarrow> gc_node \<Rightarrow> gc_world \<Rightarrow> gc_world" where
  "emergency E n w =
     run_all E (lit ''emergency'') (Some (gn_id n))
       (w\<lparr> gw_marks := (gw_marks w)(gn_id n \<mapsto> gw_now w), gw_alerts := gw_alerts w @ [(gw_now w, gn_id n)] \<rparr>)"

fun check_disks :: "('sch, 'tz) gc_env \<Rightarrow> gc_settings \<Rightarrow> gc_node list \<Rightarrow> gc_world \<Rightarrow> gc_world" where
  "check_disks E s [] w = w"
| "check_disks E s (n # ns) w =
     check_disks E s ns
       (if \<not> gn_online n then w
        else case gc_exec E n disk_command w of
               (w1, Inl _) \<Rightarrow> w1
             | (w1, Inr out) \<Rightarrow>
                 if emergency_due (di_tenths (parse_disk E out)) (gs_alert s) (gw_marks w1 (gn_id n)) (gw_now w1)
                 then emergency E n w1 else w1)"

text \<open>One round, every minute.\<close>

definition refresh :: "('sch, 'tz) gc_env \<Rightarrow> gc_loop \<times> gc_world \<Rightarrow> gc_loop \<times> gc_world" where
  "refresh E lw =
     (case lw of (l, w) \<Rightarrow>
        case load_settings w of
          (w1, s) \<Rightarrow>
            if s \<noteq> gl_settings l
            then (l\<lparr> gl_settings := s, gl_next := gc_next_run E s (gw_now w1) \<rparr>, apply_log_rotation s w1)
            else (l, w1))"

definition gc_round :: "('sch, 'tz) gc_env \<Rightarrow> gc_loop \<times> gc_world \<Rightarrow> gc_loop \<times> gc_world" where
  "gc_round E lw =
     (case refresh E lw of (l, w) \<Rightarrow>
        if \<not> gs_enabled (gl_settings l) then (l, w)
        else if is_some_and (gl_next l) (\<lambda>t. t \<le> gw_now w)
        then (let w1 = run_all E (lit ''schedule'') None w
              in (l\<lparr> gl_next := gc_next_run E (gl_settings l) (gw_now w1) \<rparr>, w1))
        else if 300000000000 \<le> gw_now w - gl_checked l
        then (case gc_nodes w of (w1, ns) \<Rightarrow> (l\<lparr> gl_checked := gw_now w \<rparr>, check_disks E (gl_settings l) ns w1))
        else (l, w))"

section \<open>Steps\<close>

datatype gc_event = GcPass nat | GcRound | PutSettings gc_settings | RunGc bool | Preview | NodesAre "node list" | GcFaults "bool list"

fun gc_step :: "('sch, 'tz) gc_env \<Rightarrow> gc_event \<Rightarrow> gc_loop \<times> gc_world \<Rightarrow> gc_loop \<times> gc_world" where
  "gc_step E (GcPass d) (l, w) = (l, w\<lparr> gw_now := gw_now w + int d \<rparr>)"
| "gc_step E GcRound lw = gc_round E lw"
| "gc_step E (PutSettings s) (l, w) = (l, fst (put_settings E s w))"
| "gc_step E (RunGc confirm) (l, w) = (l, fst (run_gc_now E confirm w))"
| "gc_step E Preview (l, w) = (l, fst (preview E w))"
| "gc_step E (NodesAre ns) (l, w) = (l, w\<lparr> gw_nodes := ns \<rparr>)"
| "gc_step E (GcFaults fs) (l, w) = (l, w\<lparr> gw_faults := fs \<rparr>)"

abbreviation gc_steps :: "('sch, 'tz) gc_env \<Rightarrow> gc_event list \<Rightarrow> gc_loop \<times> gc_world \<Rightarrow> gc_loop \<times> gc_world" where
  "gc_steps E evs lw \<equiv> fold (gc_step E) evs lw"

end
