(* ===== verification/DockerGcRunProps.thy ===== *)
theory DockerGcRunProps
  imports DockerGcProps DockerGcRun CronProps
begin

text \<open>
  The loop of the cleaning: emergencies of one node are an hour apart, the schedule that accepted
  settings give, and what a failing reading of the settings leads to.
\<close>

section \<open>Emergencies\<close>

text \<open>Only an emergency changes the warnings and the marks.\<close>

definition marked :: "gc_world \<Rightarrow> (instant \<times> ustr) list \<times> (ustr \<rightharpoonup> instant)" where
  "marked w = (gw_alerts w, gw_marks w)"

lemma marked_query: "(\<And>w. marked (fst (q w)) = marked w) \<Longrightarrow> marked (fst (gc_query q w)) = marked w"
proof -
  assume q: "\<And>w. marked (fst (q w)) = marked w"
  have upd: "marked (w\<lparr> gw_faults := fs \<rparr>) = marked w" for fs by (simp add: marked_def)
  have snd_q: "fst (case q x of (w', y) \<Rightarrow> (w', Some y)) = fst (q x)" for x by (simp split: prod.split)
  show ?thesis by (simp add: gc_query_def snd_q q upd split: list.split bool.split)
qed

lemma marked_load [simp]: "marked (fst (load_settings w)) = marked w"
  using marked_query [of "\<lambda>w. (w, gw_settings w)" w] by (simp add: load_settings_def split_beta marked_def)

lemma marked_save [simp]: "marked (fst (save_settings s w)) = marked w"
  unfolding save_settings_def by (rule marked_query) (simp add: marked_def)

lemma marked_nodes [simp]: "marked (fst (gc_nodes w)) = marked w"
  using marked_query [of "\<lambda>w. (w, gw_nodes w)" w] by (simp add: gc_nodes_def split_beta marked_def)

lemma marked_exec [simp]: "marked (fst (gc_exec E n c w)) = marked w"
  by (simp add: gc_exec_def marked_def split: prod.split)

lemma marked_rotation [simp]: "marked (apply_log_rotation s w) = marked w"
  by (simp add: apply_log_rotation_def marked_def)

lemma marked_record [simp]: "marked (record_run r w) = marked w"
proof -
  let ?ins = "\<lambda>w. (w\<lparr> gw_runs := gw_runs w @ [r] \<rparr>, ())"
  let ?del = "\<lambda>w. (w\<lparr> gw_runs := drop (length (gw_runs w) - run_limit) (gw_runs w) \<rparr>, ())"
  have "marked (fst (gc_query ?del (fst (gc_query ?ins w)))) = marked (fst (gc_query ?ins w))"
    by (rule marked_query) (simp add: marked_def)
  also have "\<dots> = marked w" by (rule marked_query) (simp add: marked_def)
  finally show ?thesis by (simp add: record_run_def)
qed

lemma marked_case:
  "(\<And>w' x. r = (w', x) \<Longrightarrow> marked w' = m) \<Longrightarrow> marked (fst r) = m"
  by (cases r) simp

lemma marked_cache [simp]: "marked (fst (measure_cache E n iv h b w)) = marked w"
  using marked_exec [of E n "cache_du_command (iv_builders iv) (iv_buildkit iv) h" w]
  by (cases "gc_exec E n (cache_du_command (iv_builders iv) (iv_buildkit iv) h) w")
    (simp add: measure_cache_def split: sum.split)

lemma marked_plan [simp]: "marked (fst (plan_node E n s h b w)) = marked w"
proof -
  obtain w1 r where e: "gc_exec E n inventory_command w = (w1, r)" by (rule prod.exhaust)
  then have m: "marked w1 = marked w" using marked_exec [of E n inventory_command w] by simp
  show ?thesis
  proof (cases r)
    case (Inr out)
    obtain w2 c where c: "measure_cache E n (parse_inventory E out) h b w1 = (w2, c)" by (rule prod.exhaust)
    then have "marked w2 = marked w1" using marked_cache [of E n "parse_inventory E out" h b w1] by simp
    with m show ?thesis by (simp add: plan_node_def e Inr c Let_def)
  qed (simp add: plan_node_def e m)
qed

lemma marked_script [simp]: "marked (fst (run_script E n h p w)) = marked w"
proof -
  let ?c = "cleanup_command (iv_builders (np_inventory p)) (iv_buildkit (np_inventory p)) h (np_plan p)"
  obtain w1 r where e: "gc_exec E n ?c w = (w1, r)" by (rule prod.exhaust)
  obtain w2 d where d: "gc_exec E n disk_command w1 = (w2, d)" by (rule prod.exhaust)
  have "marked w2 = marked w1" "marked w1 = marked w"
    using marked_exec [of E n ?c w] marked_exec [of E n disk_command w1] e d by simp_all
  then show ?thesis by (cases d) (simp_all add: run_script_def e d Let_def)
qed

lemma marked_clean [simp]: "marked (fst (clean_node E n s t w)) = marked w"
proof -
  let ?h = "if t \<noteq> lit ''emergency'' then Some (gs_retention s) else None"
  obtain w1 r where e: "plan_node E n s ?h False w = (w1, r)" by (rule prod.exhaust)
  then have "marked w1 = marked w" using marked_plan [of E n s ?h False w] by simp
  then show ?thesis by (cases r) (simp_all add: clean_node_def e Let_def del: lit_simps)
qed

lemma marked_run_node [simp]: "marked (run_node E n s t w) = marked w"
  using marked_clean [of E n s t w] by (cases "clean_node E n s t w") (simp add: run_node_def)

lemma marked_run_nodes [simp]: "marked (run_nodes E s t only ns w) = marked w"
  by (induction ns arbitrary: w) simp_all

lemma marked_run_all [simp]: "marked (run_all E t only w) = marked w"
  by (simp add: run_all_def split_beta)

lemma marked_rotation_check [simp]: "marked (fst (find_no_rotation E ns w)) = marked w"
proof (induction ns arbitrary: w)
  case (Cons n ns)
  obtain w1 r where e: "gc_exec E n disk_command w = (w1, r)" by (rule prod.exhaust)
  then have "marked w1 = marked w" using marked_exec [of E n disk_command w] by simp
  with Cons show ?case by (cases r) (simp_all add: e Let_def)
qed simp

lemma marked_put [simp]: "marked (fst (put_settings E s w)) = marked w"
proof -
  let ?s = "s\<lparr> gs_cron := custom_cron s \<rparr>"
  obtain w1 r where e: "(if gs_rotation ?s then (case gc_nodes w of (w1, ns) \<Rightarrow> find_no_rotation E ns w1) else (w, None)) = (w1, r)"
    by (rule prod.exhaust)
  have m: "marked w1 = marked w"
  proof (cases "gs_rotation ?s")
    case True
    obtain w2 ns where n: "gc_nodes w = (w2, ns)" by (rule prod.exhaust)
    then have "find_no_rotation E ns w2 = (w1, r)" using e True by simp
    with n marked_nodes [of w] marked_rotation_check [of E ns w2] show ?thesis by simp
  qed (use e in simp)
  obtain w3 x where s: "save_settings ?s w1 = (w3, x)" by (rule prod.exhaust)
  then have "marked w3 = marked w1" using marked_save [of ?s w1] by simp
  with m show ?thesis
    by (cases "validate_gc E (gw_now w) ?s"; cases r; cases x) (simp_all add: put_settings_def Let_def e [simplified] s)
qed

lemma marked_preview_nodes [simp]: "marked (fst (preview_nodes E s ns w)) = marked w"
proof (induction ns arbitrary: w)
  case (Cons n ns)
  obtain w1 r where e: "plan_node E n s (Some (gs_retention s)) True w = (w1, r)" by (rule prod.exhaust)
  then have "marked w1 = marked w" using marked_plan [of E n s "Some (gs_retention s)" True w] by simp
  with Cons [of w1] show ?case by (cases "preview_nodes E s ns w1") (simp add: e)
qed simp

lemma marked_preview [simp]: "marked (fst (preview E w)) = marked w"
  by (simp add: preview_def split_beta)

text \<open>Two warnings about one node are at least one hour apart.\<close>

definition spaced :: "(instant \<times> ustr) list \<Rightarrow> bool" where
  "spaced as = sorted_wrt (\<lambda>x y. snd x = snd y \<longrightarrow> hour_ns \<le> fst y - fst x) as"

definition hourly :: "(instant \<times> ustr) list \<times> (ustr \<rightharpoonup> instant) \<Rightarrow> bool" where
  "hourly am \<longleftrightarrow> spaced (fst am) \<and> (\<forall>(t, n) \<in> set (fst am). \<exists>m. snd am n = Some m \<and> t \<le> m)"

lemma hourly_emergency:
  assumes "hourly (marked w)" and "emergency_due x a (gw_marks w (gn_id n)) (gw_now w)"
  shows "hourly (marked (emergency E n w))"
proof -
  let ?w = "w\<lparr> gw_marks := (gw_marks w)(gn_id n \<mapsto> gw_now w), gw_alerts := gw_alerts w @ [(gw_now w, gn_id n)] \<rparr>"
  have old: "hour_ns \<le> gw_now w - t" if "(t, gn_id n) \<in> set (gw_alerts w)" for t
  proof -
    from that assms(1) obtain m where "gw_marks w (gn_id n) = Some m" "t \<le> m" by (auto simp: hourly_def marked_def)
    with assms(2) show ?thesis by (simp add: emergency_due_def)
  qed
  moreover have "0 \<le> hour_ns" by (simp add: hour_ns_def)
  ultimately have "t \<le> gw_now w" if "(t, gn_id n) \<in> set (gw_alerts w)" for t using that by (metis diff_ge_0_iff_ge order_trans)
  with old assms(1) have "hourly (marked ?w)" by (auto simp: hourly_def marked_def spaced_def sorted_wrt_append)
  then show ?thesis by (simp add: emergency_def)
qed

lemma hourly_check: "hourly (marked w) \<Longrightarrow> hourly (marked (check_disks E s ns w))"
proof (induction ns arbitrary: w)
  case (Cons n ns)
  show ?case
  proof (cases "gn_online n")
    case True
    obtain w1 r where e: "gc_exec E n disk_command w = (w1, r)" by (rule prod.exhaust)
    then have "marked w1 = marked w" using marked_exec [of E n disk_command w] by simp
    with Cons.prems have h: "hourly (marked w1)" by simp
    show ?thesis
    proof (cases r)
      case (Inr out)
      let ?due = "emergency_due (di_tenths (parse_disk E out)) (gs_alert s) (gw_marks w1 (gn_id n)) (gw_now w1)"
      have "hourly (marked (if ?due then emergency E n w1 else w1))"
        by (cases ?due) (simp_all add: h hourly_emergency [OF h])
      from Cons.IH [OF this] True Inr show ?thesis by (simp add: e)
    qed (use Cons.IH h True in \<open>simp add: e\<close>)
  qed (use Cons in simp)
qed simp

lemma hourly_round:
  assumes "hourly (marked (snd lw))"
  shows "hourly (marked (snd (gc_round E lw)))"
proof -
  obtain l w where lw: "lw = (l, w)" by (rule prod.exhaust)
  obtain w1 s where s: "load_settings w = (w1, s)" by (rule prod.exhaust)
  then have "marked w1 = marked w" using marked_load [of w] by simp
  moreover obtain l' w' where r: "refresh E lw = (l', w')" by (rule prod.exhaust)
  ultimately have m: "marked w' = marked w" using s lw by (auto simp: refresh_def split: if_splits)
  obtain w2 ns where n: "gc_nodes w' = (w2, ns)" by (rule prod.exhaust)
  then have "marked w2 = marked w'" using marked_nodes [of w'] by simp
  with m assms lw have "hourly (marked (check_disks E (gl_settings l') ns w2))" by (intro hourly_check) simp
  with m assms lw show ?thesis unfolding gc_round_def r by (simp add: n Let_def del: lit_simps)
qed

lemma hourly_step: "hourly (marked (snd lw)) \<Longrightarrow> hourly (marked (snd (gc_step E ev lw)))"
proof (cases lw; cases ev)
  fix l w c assume "hourly (marked (snd lw))" "lw = (l, w)" "ev = RunGc c"
  then show ?thesis by (cases c) (simp_all add: run_gc_now_def del: lit_simps)
qed (simp_all add: hourly_round, simp_all add: marked_def)


section \<open>Settings\<close>

text \<open>The accepted frequencies.\<close>

lemma frequency_ok:
  "validate_gc E now s = None \<Longrightarrow> gs_frequency s \<in> {1, 2, 3, 4, 6, 8, 12, 24, 48, 72, 96, 120, 144, 168} \<and> gs_hour s < 24"
proof -
  assume "validate_gc E now s = None"
  then have f: "0 < gs_frequency s" "gs_frequency s \<le> 168" "24 mod gs_frequency s = 0 \<or> gs_frequency s mod 24 = 0" and h: "gs_hour s < 24"
    by (auto simp: validate_gc_def Let_def split: if_splits)
  have "list_all (\<lambda>n. (24 mod n = 0 \<or> n mod 24 = 0) \<longrightarrow> n \<in> {1, 2, 3, 4, 6, 8, 12, 24, 48, 72, 96, 120, 144, 168}) [1..<169::nat]"
    by code_simp
  then have "\<forall>n \<in> set [1..<169]. (24 mod n = 0 \<or> n mod 24 = 0) \<longrightarrow> n \<in> {1, 2, 3, 4, 6, 8, 12, 24, 48, 72, 96, 120, 144, 168}"
    by (simp only: list_all_iff)
  moreover have "gs_frequency s \<in> set [1..<169]" using f(1,2) by simp
  ultimately have "(24 mod gs_frequency s = 0 \<or> gs_frequency s mod 24 = 0) \<longrightarrow>
    gs_frequency s \<in> {1, 2, 3, 4, 6, 8, 12, 24, 48, 72, 96, 120, 144, 168}" by (rule bspec)
  with f(3) have "gs_frequency s \<in> {1, 2, 3, 4, 6, 8, 12, 24, 48, 72, 96, 120, 144, 168}" by (rule rev_mp)
  then show "gs_frequency s \<in> {1, 2, 3, 4, 6, 8, 12, 24, 48, 72, 96, 120, 144, 168} \<and> gs_hour s < 24"
    using h by (rule conjI)
qed

lemma gc_hours_exact:
  "list_all (\<lambda>f. list_all (\<lambda>h. gc_hours h f = filter (\<lambda>x. x mod f = h mod f) [0..<24]) [0..<24]) [1, 2, 3, 4, 6, 8, 12]"
  by code_simp

text \<open>Accepted settings without an expression of their own run at the given hour and every so many hours of
  the day from it, or at the given hour of each day, each Monday, or every so many days of the month.\<close>

lemma gc_expression_exact:
  assumes "validate_gc E now s = None" and "custom_cron s = None"
  shows "gc_cron_expression s =
    (if gs_frequency s < 24
     then lit ''0 '' @ join [44] (map dec (filter (\<lambda>x. x mod gs_frequency s = gs_hour s mod gs_frequency s) [0..<24])) @ lit '' * * *''
     else lit ''0 '' @ dec (gs_hour s) @
       (if gs_frequency s = 24 then lit '' * * *'' else if gs_frequency s = 168 then lit '' * * 1''
        else lit '' */'' @ dec (gs_frequency s div 24) @ lit '' * *''))"
proof -
  have f: "gs_frequency s \<in> {1, 2, 3, 4, 6, 8, 12, 24, 48, 72, 96, 120, 144, 168}" and h: "gs_hour s < 24"
    using frequency_ok [OF assms(1)] by simp_all
  then have m: "min (gs_hour s) 23 = gs_hour s" by simp
  show ?thesis
  proof (cases "gs_frequency s < 24")
    case True
    with f have f': "gs_frequency s \<in> {1, 2, 3, 4, 6, 8, 12}" by auto
    with gc_hours_exact h have "gc_hours (gs_hour s) (gs_frequency s) = filter (\<lambda>x. x mod gs_frequency s = gs_hour s mod gs_frequency s) [0..<24]"
      by (auto simp: list_all_iff)
    moreover from f' have "min (max (gs_frequency s) 1) 168 = gs_frequency s" "24 mod gs_frequency s = 0" by auto
    ultimately show ?thesis using True assms(2) m by (simp add: gc_cron_expression_def Let_def del: lit_simps)
  next
    case False
    with f have "gs_frequency s \<in> {24, 48, 72, 96, 120, 144, 168}" by auto
    with assms(2) m show ?thesis by (auto simp: gc_cron_expression_def Let_def simp del: lit_simps)
  qed
qed

section \<open>A reading that fails\<close>

text \<open>With readable settings that are disabled, the loop sends nothing.\<close>

lemma quiet_refresh:
  assumes "gw_faults w = []" and "gw_settings w = Some (gl_settings l)"
  shows "refresh E (l, w) = (l, w)"
  using assms by (simp add: refresh_def load_settings_def gc_query_def)

lemma disabled_round:
  assumes "gw_faults w = []" and "gw_settings w = Some (gl_settings l)" and "\<not> gs_enabled (gl_settings l)"
  shows "gc_round E (l, w) = (l, w)"
  using assms(3) by (simp add: gc_round_def quiet_refresh [OF assms(1,2)])

lemma sent_query: "(\<And>w. gw_sent (fst (q w)) = gw_sent w) \<Longrightarrow> gw_sent (fst (gc_query q w)) = gw_sent w"
proof -
  assume q: "\<And>w. gw_sent (fst (q w)) = gw_sent w"
  have snd_q: "fst (case q x of (w', y) \<Rightarrow> (w', Some y)) = fst (q x)" for x by (simp split: prod.split)
  show ?thesis by (simp add: gc_query_def snd_q q split: list.split bool.split)
qed

lemma sent_exec: "gn_online n \<Longrightarrow> gw_sent (fst (gc_exec E n c w)) = gw_sent w @ [(gn_exec n, c)]"
  by (simp add: gc_exec_def split: prod.split)

lemma sent_record: "gw_sent (record_run r w) = gw_sent w"
proof -
  let ?ins = "\<lambda>w. (w\<lparr> gw_runs := gw_runs w @ [r] \<rparr>, ())"
  let ?del = "\<lambda>w. (w\<lparr> gw_runs := drop (length (gw_runs w) - run_limit) (gw_runs w) \<rparr>, ())"
  have "gw_sent (fst (gc_query ?del (fst (gc_query ?ins w)))) = gw_sent (fst (gc_query ?ins w))" by (rule sent_query) simp
  also have "\<dots> = gw_sent w" by (rule sent_query) simp
  finally show ?thesis by (simp add: record_run_def)
qed

lemma sent_plan: "gn_online n \<Longrightarrow> gw_sent (fst (plan_node E n s h False w)) = gw_sent w @ [(gn_exec n, inventory_command)]"
  using sent_exec [of n E inventory_command w]
  by (cases "gc_exec E n inventory_command w") (simp add: plan_node_def measure_cache_def Let_def split: sum.split)

lemma sent_script:
  assumes "gn_online n"
  shows "\<exists>cs. gw_sent (fst (run_script E n h p w)) = gw_sent w @ cs"
proof -
  let ?c = "cleanup_command (iv_builders (np_inventory p)) (iv_buildkit (np_inventory p)) h (np_plan p)"
  obtain w1 r where e: "gc_exec E n ?c w = (w1, r)" by (rule prod.exhaust)
  obtain w2 d where d: "gc_exec E n disk_command w1 = (w2, d)" by (rule prod.exhaust)
  have "gw_sent w2 = gw_sent w @ [(gn_exec n, ?c), (gn_exec n, disk_command)]"
    using sent_exec [OF assms, of E ?c w] sent_exec [OF assms, of E disk_command w1] e d by simp
  then show ?thesis by (cases d) (simp_all add: run_script_def e d Let_def)
qed

lemma sent_run:
  assumes "gn_online n"
  shows "\<exists>cs. gw_sent (run_node E n s t w) = gw_sent w @ (gn_exec n, inventory_command) # cs"
proof -
  let ?h = "if t \<noteq> lit ''emergency'' then Some (gs_retention s) else None"
  obtain w1 r where e: "plan_node E n s ?h False w = (w1, r)" by (rule prod.exhaust)
  have w1: "gw_sent w1 = gw_sent w @ [(gn_exec n, inventory_command)]" using sent_plan [OF assms, of E s ?h w] e by simp
  have "\<exists>cs. gw_sent (fst (clean_node E n s t w)) = gw_sent w1 @ cs"
    using sent_script [OF assms, of E ?h _ w1] by (cases r) (simp_all add: clean_node_def e Let_def del: lit_simps)
  with w1 show ?thesis by (cases "clean_node E n s t w") (auto simp: run_node_def sent_record)
qed

text \<open>When the settings cannot be read in one round, the loop goes on with the default ones, in which the
  cleaning is enabled: although the administrator disabled it, a node above the default threshold is
  cleaned.\<close>

lemma settings_fault_cleans:
  assumes "gw_settings w = Some (gl_settings l)" and "\<not> gs_enabled (gl_settings l)"
    and "gw_faults w = [True]" and "gw_nodes w = [n]" and "n_role n = Leader" and "gw_marks w (n_id n) = None"
    and "\<not> is_some_and (gc_next_run E default_gc_settings (gw_now w)) (\<lambda>t. t \<le> gw_now w)"
    and "300000000000 \<le> gw_now w - gl_checked l"
    and "ge_exec E (lit ''default'') disk_command (length (gw_sent w)) = (d, Inr x)" and "850 \<le> di_tenths (parse_disk E (er_out x))"
  shows "(\<exists>cmds. gw_sent (snd (gc_round E (l, w))) = gw_sent w @ (lit ''default'', disk_command) # (lit ''default'', inventory_command) # cmds) \<and>
    gc_round E (l, w\<lparr> gw_faults := [] \<rparr>) = (l, w\<lparr> gw_faults := [] \<rparr>)"
proof (rule conjI)
  show "gc_round E (l, w\<lparr> gw_faults := [] \<rparr>) = (l, w\<lparr> gw_faults := [] \<rparr>)"
    by (rule disabled_round) (simp_all add: assms(1,2))
  let ?d = default_gc_settings and ?g = "gc_node_of n"
  let ?w = "(apply_log_rotation ?d (w\<lparr> gw_faults := [] \<rparr>))"
  let ?l = "l\<lparr> gl_settings := ?d, gl_next := gc_next_run E ?d (gw_now w) \<rparr>"
  have en: "gs_enabled ?d" and al: "gs_alert ?d = 85" by (simp_all add: default_gc_settings_def)
  have "?d \<noteq> gl_settings l" using assms(2) en by metis
  then have r: "refresh E (l, w) = (?l, ?w)"
    by (simp add: refresh_def load_settings_def gc_query_def assms(3) unwrap_or_def)
  have n: "gc_nodes ?w = (?w, [?g])" by (simp add: gc_nodes_def gc_query_def apply_log_rotation_def assms(4) unwrap_or_def)
  have g: "gn_online ?g" "gn_exec ?g = lit ''default''" "gn_id ?g = n_id n" by (simp_all add: gc_node_of_def assms(5))
  let ?v = "?w\<lparr> gw_sent := gw_sent w @ [(lit ''default'', disk_command)], gw_now := gw_now w + int d \<rparr>"
  have ex: "gc_exec E ?g disk_command ?w = (?v, Inr (er_out x))"
    using assms(9) by (simp add: gc_exec_def g apply_log_rotation_def del: lit_simps)
  have due: "emergency_due (di_tenths (parse_disk E (er_out x))) (gs_alert ?d) (gw_marks ?v (gn_id ?g)) (gw_now ?v)"
    using assms(6,10) by (simp add: emergency_due_def al g apply_log_rotation_def)
  have "snd (gc_round E (l, w)) = emergency E ?g ?v"
  proof -
    have now: "gw_now ?w = gw_now w" by (simp add: apply_log_rotation_def)
    have "snd (gc_round E (l, w)) = check_disks E ?d [?g] ?w"
      unfolding gc_round_def r using assms(7,8) by (simp add: n en now del: check_disks.simps lit_simps)
    also have "\<dots> = emergency E ?g ?v" using due g(1) by (simp add: ex del: lit_simps)
    finally show ?thesis .
  qed
  moreover have "\<exists>cs. gw_sent (emergency E ?g ?v) = gw_sent ?v @ (lit ''default'', inventory_command) # cs"
  proof -
    let ?u = "?v\<lparr> gw_marks := (gw_marks ?v)(gn_id ?g \<mapsto> gw_now ?v), gw_alerts := gw_alerts ?v @ [(gw_now ?v, gn_id ?g)] \<rparr>"
    obtain s where s: "load_settings ?u = (?u, s)" by (simp add: load_settings_def gc_query_def apply_log_rotation_def)
    have ns: "gc_nodes ?u = (?u, [?g])" by (simp add: gc_nodes_def gc_query_def apply_log_rotation_def assms(4) unwrap_or_def)
    have "emergency E ?g ?v = run_node E ?g s (lit ''emergency'') ?u"
      unfolding emergency_def run_all_def s prod.case ns by (simp del: lit_simps)
    with sent_run [OF g(1), of E s "lit ''emergency''" ?u] g(2) show ?thesis by simp
  qed
  ultimately show "\<exists>cmds. gw_sent (snd (gc_round E (l, w))) = gw_sent w @ (lit ''default'', disk_command) # (lit ''default'', inventory_command) # cmds"
    by simp
qed

text \<open>Any answer of the executor counts as a run of the script: one that failed before it printed anything is
  recorded as a success that freed nothing.\<close>

lemma failed_script_recorded_ok:
  assumes "gn_online n" and "ge_exec E (gn_exec n) (cleanup_command (iv_builders (np_inventory p)) (iv_buildkit (np_inventory p)) h (np_plan p))
      (length (gw_sent w)) = (d, Inr \<lparr> er_ok = False, er_code = 1, er_out = [] \<rparr>)"
  shows "gx_ok (snd (run_script E n h p w))"
proof -
  have "co_errors (parse_cleanup []) = []" by (simp add: parse_cleanup_def str_lines_def count_removed_def)
  with assms show ?thesis by (simp add: run_script_def gc_exec_def Let_def split: prod.split sum.split)
qed

section \<open>Witnesses\<close>

definition sample_gc_env :: "(nat, unit) gc_env" where
  "sample_gc_env = \<lparr> ge_cron = sample_cron_env\<lparr> ce_zone := (\<lambda>_. Some ()), ce_after := (\<lambda>_ _ _. None) \<rparr>, ge_tenths = (\<lambda>_ _. 900), ge_scaled = (\<lambda>_ _. None), ge_date = (\<lambda>_. None),
     ge_exec = (\<lambda>_ _ _. (0, Inr \<lparr> er_ok = True, er_code = 0, er_out = lit ''@@df'' @ [10] @ lit ''x 10 9 1'' \<rparr>)) \<rparr>"

definition sample_gc_world :: gc_world where
  "sample_gc_world = \<lparr> gw_settings = Some (default_gc_settings\<lparr> gs_enabled := False \<rparr>), gw_runs = [],
     gw_nodes = [leader_node (lit ''L'') [] [] [] []], gw_faults = [True], gw_now = 0, gw_sent = [],
     gw_rotation = None, gw_marks = (\<lambda>_. None), gw_alerts = [] \<rparr>"

lemma sample_sections: "sections (lit ''@@df'' @ [10] @ lit ''x 10 9 1'') = (\<lambda>_. None)(lit ''df'' \<mapsto> [lit ''x 10 9 1''])"
proof -
  have "str_lines (lit ''@@df'' @ [10] @ lit ''x 10 9 1'') = [lit ''@@df'', lit ''x 10 9 1'']" by (simp add: str_lines_def strip_cr_def)
  then show ?thesis by (simp add: sections_def trim_defs is_ws_def strip_prefix_def unwrap_or_def)
qed

lemma sample_columns: "split_whitespace (lit ''x 10 9 1'') = [lit ''x'', lit ''10'', lit ''9'', lit ''1'']"
  by (simp add: split_whitespace_def is_ws_def)

lemma sample_sizes: "kib (lit ''9'') = 9216" "kib (lit ''1'') = 1024"
  by (simp_all add: kib_def parse_uint_def digits_val_def is_ascii_digit_def unwrap_or_def)

lemma sample_disk: "di_tenths (parse_disk E (lit ''@@df'' @ [10] @ lit ''x 10 9 1'')) = ge_tenths E 9216 10240"
  unfolding parse_disk_def section_of_def sample_sections Let_def
  by (simp add: unwrap_or_def sample_columns sample_sizes del: lit_simps)

definition sample_image :: image_info where
  "sample_image = \<lparr> im_id = lit ''sha256:1'', im_created = 0, im_size = 5, im_tags = [] \<rparr>"

lemmas sample_gc_defs = sample_gc_env_def sample_gc_world_def sample_image_def sample_cron_env_def

lemma sample_plan: "map ca_refs (pl_remove (select_images [sample_image] [] 7200000000001 1 1)) = [[lit ''sha256:1'']]"
  by code_simp


lemma gc_script_contract_witness:
  "\<exists>actions ps. list_all2 (runs_as None) actions ps \<and>
    cleanup_command [] [] None (select_images [sample_image] [] 7200000000001 1 1) =
      root_detect @ lit ''; A0='' @ avail_text @ concat (map announced ps) @
      lit ''; echo '' @ [34] @ lit ''@@avail $A0 '' @ avail_text @ [34] @ end_mark"
  using gc_script_contract [of None "[]" "[]" "[sample_image]" "[]" 7200000000001 1 1] 
  apply (elim exE conjE)
  apply (rule exI, rule exI, rule conjI, assumption)
  apply assumption
  done

lemma cleanup_counts_witness:
  "co_removed (parse_cleanup (lit ''@@rmi r'' @ [10] @ lit ''Deleted: x'' @ [10] @ lit ''@@end'')) = 1 \<and>
   co_errors (parse_cleanup (lit ''@@rmi r'' @ [10] @ lit ''Deleted: x'' @ [10] @ lit ''@@end'')) = []"
proof -
  let ?out = "lit ''@@rmi r'' @ [10] @ lit ''Deleted: x'' @ [10] @ lit ''@@end''"
  let ?segs = "[(lit ''rmi r'', [lit ''Deleted: x'']), (lit ''end'', [])]"
  have "str_lines ?out = concat (map (\<lambda>(h, body). (lit ''@@'' @ h) # body) ?segs)"
    by (simp add: str_lines_def strip_cr_def)
  moreover have "well_sectioned ?segs" by (simp add: well_sectioned_def trim_defs is_ws_def)
  ultimately have "co_removed (parse_cleanup ?out) = length (filter (\<lambda>(h, body). starts_with h (lit ''rmi '') \<and> deletes body) ?segs) \<and>
    co_errors (parse_cleanup ?out) = concat (map section_errors ?segs)"
    by (rule cleanup_counts)
  moreover have "length (filter (\<lambda>(h, body). starts_with h (lit ''rmi '') \<and> deletes body) ?segs) = 1"
    by (simp add: deletes_def trim_defs is_ws_def)
  moreover have "concat (map section_errors ?segs) = []"
    by (simp add: section_errors_def is_error_def trim_defs is_ws_def)
  ultimately show ?thesis by metis
qed


lemma gc_expression_exact_witness:
  "gc_cron_expression (default_gc_settings\<lparr> gs_frequency := 8 \<rparr>) = lit ''0 3,11,19 * * *''"
proof -
  let ?s = "default_gc_settings\<lparr> gs_frequency := 8 \<rparr>"
  have "validate_gc sample_gc_env 0 ?s = None"
    by (simp add: validate_gc_def default_gc_settings_def sample_gc_defs timezone_is_known_def custom_cron_def opt_filter_def within_def)
  moreover have "custom_cron ?s = None" by (simp add: default_gc_settings_def custom_cron_def opt_filter_def)
  ultimately have "gc_cron_expression ?s = (if gs_frequency ?s < 24
     then lit ''0 '' @ join [44] (map dec (filter (\<lambda>x. x mod gs_frequency ?s = gs_hour ?s mod gs_frequency ?s) [0..<24])) @ lit '' * * *''
     else lit ''0 '' @ dec (gs_hour ?s) @
       (if gs_frequency ?s = 24 then lit '' * * *'' else if gs_frequency ?s = 168 then lit '' * * 1''
        else lit '' */'' @ dec (gs_frequency ?s div 24) @ lit '' * *''))"
    by (rule gc_expression_exact)
  also have "\<dots> = lit ''0 3,11,19 * * *''" by code_simp
  finally show ?thesis .
qed

lemma settings_fault_cleans_witness:
  "\<exists>cmds. gw_sent (snd (gc_round sample_gc_env (\<lparr> gl_settings = default_gc_settings\<lparr> gs_enabled := False \<rparr>, gl_next = None, gl_checked = -400000000000 \<rparr>, sample_gc_world))) =
     gw_sent sample_gc_world @ (lit ''default'', disk_command) # (lit ''default'', inventory_command) # cmds"
proof -
  let ?x = "\<lparr> er_ok = True, er_code = 0, er_out = lit ''@@df'' @ [10] @ lit ''x 10 9 1'' \<rparr>"
  let ?l = "\<lparr> gl_settings = default_gc_settings\<lparr> gs_enabled := False \<rparr>, gl_next = None, gl_checked = -400000000000 \<rparr>"
  let ?n = "leader_node (lit ''L'') [] [] [] []"
  have next_run: "gc_next_run sample_gc_env default_gc_settings t = None" for t
    by (simp add: gc_next_run_def next_run_time_def sample_gc_env_def split: sum.split)
  have hot: "850 \<le> di_tenths (parse_disk sample_gc_env (er_out ?x))"
    unfolding exec_result.simps sample_disk by (simp add: sample_gc_env_def)
  have "(\<exists>cmds. gw_sent (snd (gc_round sample_gc_env (?l, sample_gc_world))) = gw_sent sample_gc_world @ (lit ''default'', disk_command) # (lit ''default'', inventory_command) # cmds) \<and>
      gc_round sample_gc_env (?l, sample_gc_world\<lparr> gw_faults := [] \<rparr>) = (?l, sample_gc_world\<lparr> gw_faults := [] \<rparr>)"
  proof (rule settings_fault_cleans [where n = ?n and d = 0 and x = ?x])
    show "\<not> is_some_and (gc_next_run sample_gc_env default_gc_settings (gw_now sample_gc_world)) (\<lambda>t. t \<le> gw_now sample_gc_world)"
      by (simp add: sample_gc_world_def next_run is_some_and_def)
    show "ge_exec sample_gc_env (lit ''default'') disk_command (length (gw_sent sample_gc_world)) = (0, Inr ?x)"
      by (simp add: sample_gc_env_def del: lit_simps)
  qed (rule hot | simp add: sample_gc_world_def leader_node_def del: lit_simps)+
  then show ?thesis by (rule conjunct1)
qed

end
