(* ===== verification/AgentGuard.thy ===== *)
theory AgentGuard
  imports Json Prelude
begin

text \<open>
  What an agent may call: the locks on the actions that write outside its working directory
  (\<open>crates/agent/src/guard.rs\<close>), the tools of each role (\<open>roles.rs\<close>), and the refusals that depend on the
  message of the user (\<open>lib.rs\<close>). \<open>publish_intent\<close>, which only chooses a text of the prompt, is left out.
\<close>

section \<open>Objects\<close>

text \<open>The objects of \<open>json!\<close>, and an argument read as a text.\<close>

definition jobject :: "(string \<times> json) list \<Rightarrow> json" where
  "jobject kvs = JObj (fold (\<lambda>(k, v) m. jinsert (lit k) v m) kvs [])"

definition jset :: "string \<Rightarrow> json \<Rightarrow> json \<Rightarrow> json" where
  "jset k v j = (case j of JObj m \<Rightarrow> JObj (jinsert (lit k) v m) | _ \<Rightarrow> j)"

definition arg_str :: "string \<Rightarrow> json \<Rightarrow> ustr option" where
  "arg_str k args = Option.bind (jgets k args) as_str"

definition jstr :: "string \<Rightarrow> json" where
  "jstr s = JStr (lit s)"

section \<open>Remote writes\<close>

definition always_remote :: "ustr list" where
  "always_remote = map lit [''create_github_fix'', ''sync_workdir_to_github'', ''publish_to_github'', ''create_github_repo'',
     ''trigger_deploy'', ''cancel_deployment'', ''upsert_env_var'']"

definition mcp_writes :: "ustr list" where
  "mcp_writes = map lit [''create_pull_request'', ''create_or_update_file'', ''create_branch'', ''push_files'',
     ''merge_pull_request'', ''delete_file'', ''create_repository'', ''update_pull_request'']"

definition mcp_tool_name :: "json \<Rightarrow> ustr" where
  "mcp_tool_name args =
     to_lowercase (trim (unwrap_or (Option.bind
       (opt_or (opt_or (jgets ''tool'' args) (jgets ''tool_name'' args)) (jgets ''name'' args)) as_str) []))"

definition is_remote_write :: "ustr \<Rightarrow> json \<Rightarrow> bool" where
  "is_remote_write tool args \<longleftrightarrow>
     (if tool \<in> set always_remote then True
      else if tool = lit ''write_project_file'' then map_option trim (arg_str ''mode'' args) = Some (lit ''github'')
      else if tool = lit ''mcp_call_tool'' then list_ex (ends_with (mcp_tool_name args)) mcp_writes
      else False)"

definition autonomous_tools :: "ustr list" where
  "autonomous_tools = [lit ''trigger_deploy'']"

definition autonomous_covers :: "ustr \<Rightarrow> bool" where
  "autonomous_covers tool \<longleftrightarrow> tool \<in> set autonomous_tools"

text \<open>Texts compare as their bytes do, and that is as their scalar values.\<close>

definition grant_still_valid :: "(ustr \<Rightarrow> int option) \<Rightarrow> (int \<Rightarrow> ustr) \<Rightarrow> ustr \<Rightarrow> int \<Rightarrow> bool" where
  "grant_still_valid parse_date show_date expires_at now \<longleftrightarrow>
     (case parse_date (trim expires_at) of Some e \<Rightarrow> now < e | None \<Rightarrow> show_date now < expires_at)"

definition trimmed_arg :: "string \<Rightarrow> json \<Rightarrow> ustr" where
  "trimmed_arg k args = trim (unwrap_or (arg_str k args) [])"

definition remote_write_summary :: "ustr \<Rightarrow> json \<Rightarrow> ustr" where
  "remote_write_summary tool args =
     (if tool = lit ''create_github_fix'' then
        (let title = trimmed_arg ''title'' args
         in if title = [] then lit ''ouvrir une pull request'' else (lit ''pull request '' @ [171] @ lit '' '') @ title @ (lit '' '' @ [187]))
      else if tool = lit ''sync_workdir_to_github'' then
        (let msg = trimmed_arg ''commit_message'' args
         in if msg = [] then lit ''pousser le brouillon sur GitHub'' else (lit ''pousser sur GitHub : '' @ [171] @ lit '' '') @ msg @ (lit '' '' @ [187]))
      else if tool = lit ''publish_to_github'' then lit ''publier le projet sur GitHub''
      else if tool = lit ''create_github_repo'' then (lit ''cr'' @ [233] @ lit ''er le d'' @ [233] @ lit ''p'' @ [244] @ lit ''t GitHub'')
      else if tool = lit ''trigger_deploy'' then (lit ''lancer un d'' @ [233] @ lit ''ploiement'')
      else if tool = lit ''cancel_deployment'' then (lit ''annuler un d'' @ [233] @ lit ''ploiement'')
      else if tool = lit ''upsert_env_var'' then (lit ''modifier des variables d'' @ [39] @ lit ''environnement de production'')
      else if tool = lit ''write_project_file'' then ([233] @ lit ''crire '') @ trimmed_arg ''path'' args @ lit '' directement sur GitHub''
      else if tool = lit ''mcp_call_tool'' then lit ''appel GitHub '' @ trimmed_arg ''tool'' args
      else tool)"

definition remote_write_blocked :: "ustr \<Rightarrow> json \<Rightarrow> json" where
  "remote_write_blocked tool args = jobject
     [(''ok'', JBool False), (''code'', jstr ''publish_approval_required''),
      (''error'', JStr (lit ''Action distante bloqu'' @ [233] @ lit ''e : validation explicite requise.'')),
      (''needs_user_action'', JBool True), (''kind'', jstr ''publish_approval''), (''blocked_tool'', JStr tool),
      (''message_fr'', JStr ((lit ''Je suis pr'' @ [234] @ lit ''t '' @ [224] @ lit '' publier ('') @ remote_write_summary tool args @
         lit ''). Valide pour que je continue.'')),
      (''resume_hint'', JStr (lit ''Apr'' @ [232] @ lit ''s validation, l'' @ [39]
     @ lit ''agent reprend la publication (accord valable 15 minutes).''))]"

definition remote_write_blocked_unattended :: "ustr \<Rightarrow> json \<Rightarrow> json" where
  "remote_write_blocked_unattended tool args =
     jset ''message_fr'' (JStr ((lit ''Ex'' @ [233] @ lit ''cution automatique : je n'' @ [39] @ lit ''ai pas lanc''
     @ [233] @ lit '' '' @ [171] @ lit '' '') @ remote_write_summary tool args @
         (lit '' '' @ [187] @ lit ''. Le travail reste dans le brouillon ; valide quand tu es l''
     @ [224] @ lit ''.'')))
     (jset ''error'' (JStr (lit ''Ex'' @ [233] @ lit ''cution automatique : action distante non lanc'' @ [233]
     @ lit ''e, validation demand'' @ [233] @ lit ''e.''))
     (jset ''unattended'' (JBool True) (remote_write_blocked tool args)))"

section \<open>The cap on pushes\<close>

definition max_pushes_per_run :: "ustr option \<Rightarrow> nat" where
  "max_pushes_per_run var = unwrap_or (opt_filter (\<lambda>n. 0 < n) (Option.bind var (\<lambda>v. parse_uint 64 (trim v)))) 3"

definition is_github_push :: "ustr \<Rightarrow> json \<Rightarrow> bool" where
  "is_github_push tool args \<longleftrightarrow>
     (if tool \<in> set (map lit [''create_github_fix'', ''sync_workdir_to_github'', ''publish_to_github'']) then True
      else if tool \<in> set (map lit [''write_project_file'', ''mcp_call_tool'']) then is_remote_write tool args
      else False)"

definition push_limit_blocked :: "ustr \<Rightarrow> json \<Rightarrow> nat \<Rightarrow> json" where
  "push_limit_blocked tool args most = jobject
     [(''ok'', JBool False), (''needs_user_action'', JBool True), (''kind'', jstr ''push_limit''),
      (''code'', jstr ''push_limit_reached''),
      (''message_fr'', JStr ((lit ''J'' @ [39] @ lit ''ai d'' @ [233] @ lit ''j'' @ [224] @ lit '' pouss'' @ [233]
     @ lit '' '') @ dec most @
         (lit '' fois sur GitHub pendant ce travail. Je m'' @ [39] @ lit ''arr'' @ [234]
     @ lit ''te avant de continuer ('') @ remote_write_summary tool args @
         (lit '') : v'' @ [233] @ lit ''rifie les derniers commits, puis dis-moi si je continue.''))),
      (''resume_hint'', JStr ([171] @ lit '' Continuer '' @ [187] @ lit '' relance l'' @ [39]
     @ lit ''agent avec un nouveau quota de pushes.'')),
      (''error'', JStr (lit ''Plafond de '' @ dec most @ lit '' pushes GitHub par run atteint.''))]"

section \<open>Roles\<close>

definition role_always :: "ustr list" where
  "role_always = map lit [''list_agent_messages'', ''memory_search'', ''memory_write'', ''memory_forget'',
     ''ask_user'', ''record_decision'']"

definition role_worker :: "ustr list" where
  "role_worker = map lit [''list_project_files'', ''read_project_file'', ''write_project_file'', ''run_workdir_command'',
     ''start_local_preview'', ''stop_local_preview'', ''local_preview_status'', ''run_application_tests'',
     ''propose_plan'', ''sdd_loop'', ''get_project'', ''get_deployment_logs'',
     ''list_deployments'', ''http_smoke'', ''read_github_file'', ''create_github_fix'',
     ''sync_workdir_to_github'', ''publish_to_github'', ''create_github_repo'', ''trigger_deploy'',
     ''mcp_list_servers'', ''mcp_list_remote_tools'', ''mcp_call_tool'']"

definition role_deploy :: "ustr list" where
  "role_deploy = map lit [''get_project'', ''list_deployments'', ''get_container_logs'', ''get_deployment_logs'',
     ''trigger_deploy'', ''cancel_deployment'', ''http_smoke'', ''github_workflow_runs'',
     ''list_project_files'', ''read_project_file'', ''run_workdir_command'', ''start_local_preview'',
     ''local_preview_status'', ''run_application_tests'', ''propose_plan'', ''write_project_file'',
     ''stop_local_preview'', ''sync_workdir_to_github'', ''publish_to_github'', ''create_github_repo'']"

definition role_repair :: "ustr list" where
  "role_repair = map lit [''get_project'', ''list_deployments'', ''get_container_logs'', ''get_deployment_logs'',
     ''list_env_vars'', ''list_project_files'', ''read_project_file'', ''write_project_file'',
     ''run_workdir_command'', ''run_application_tests'', ''start_local_preview'', ''stop_local_preview'',
     ''local_preview_status'', ''http_smoke'', ''read_github_file'']"

definition role_ops :: "ustr list" where
  "role_ops = map lit [''create_routine'', ''list_routines'', ''delete_routine'', ''get_project'',
     ''get_container_logs'', ''get_deployment_logs'', ''list_deployments'', ''list_env_vars'',
     ''upsert_env_var'', ''http_smoke'', ''local_preview_status'']"

definition role_reviewer :: "ustr list" where
  "role_reviewer = map lit [''review_project_security'', ''get_project'', ''github_list_prs'', ''github_workflow_runs'',
     ''read_project_file'', ''list_project_files'', ''read_github_file'']"

definition role_watcher :: "ustr list" where
  "role_watcher = map lit [''get_project'', ''github_workflow_runs'', ''github_list_prs'', ''http_smoke'',
     ''list_routines'']"

definition tools_for_role :: "ustr \<Rightarrow> ustr option \<Rightarrow> ustr list option" where
  "tools_for_role role kind =
     (if kind = Some (lit ''subagent'') then Some role_worker
      else if role = lit ''coordinator'' then None
      else if role \<in> set (map lit [''custom'', ''worker'', ''subagent'']) then Some role_worker
      else if role = lit ''deploy'' then Some role_deploy
      else if role = lit ''repair'' then Some role_repair
      else if role = lit ''ops'' then Some role_ops
      else if role = lit ''reviewer'' then Some role_reviewer
      else if role \<in> set (map lit [''runner'', ''actions'', ''crons'']) then Some role_watcher
      else Some role_worker)"

definition role_allows :: "ustr \<Rightarrow> ustr option \<Rightarrow> ustr \<Rightarrow> bool \<Rightarrow> bool" where
  "role_allows role kind tool security_review \<longleftrightarrow>
     (if tool = lit ''ask_user'' \<and> kind = Some (lit ''subagent'') then False
      else if tool \<in> set role_always then True
      else case tools_for_role role kind of
             None \<Rightarrow> tool \<noteq> lit ''review_project_security'' \<or> security_review
           | Some ts \<Rightarrow> tool \<in> set ts)"

definition role_refusal :: "ustr \<Rightarrow> ustr \<Rightarrow> json" where
  "role_refusal role tool = jobject
     [(''ok'', JBool False), (''code'', jstr ''tool_not_available_for_role''),
      (''error'', JStr (lit ''Outil '' @ tool @ (lit '' non disponible pour le r'' @ [244] @ lit ''le '') @ role @ (lit ''. D'' @ [233] @ lit ''l'' @ [232] @ lit ''gue au Coordinateur.'')))]"

section \<open>The message of the user\<close>

definition normalize_user_text :: "ustr \<Rightarrow> ustr" where
  "normalize_user_text msg = trim (trim_end_by (\<lambda>c. c \<in> set (lit ''.!?'') \<or> c = 8230) (to_lowercase (trim msg)))"

definition is_execute_nudge :: "ustr \<Rightarrow> bool" where
  "is_execute_nudge msg \<longleftrightarrow> normalize_user_text msg \<in> set (map lit [''go'', ''oui'', ''ok'', ''yes'', ''vas-y'', ''vas y'',
     ''fais-le'', ''fais le'', ''continue'', ''lance'', ''go go'', ''ok go''])"

definition security_needles :: "ustr list" where
  "security_needles = [(lit ''revue s'' @ [233] @ lit ''curit'' @ [233]), lit ''revue securite'', (lit ''audit s'' @ [233] @ lit ''curit'' @ [233]), lit ''audit securite'',
     lit ''review_project_security'', (lit ''en-t'' @ [234] @ lit ''tes de s'' @ [233] @ lit ''curit'' @ [233]), lit ''en-tetes de securite'', (lit ''ent'' @ [234] @ lit ''tes de s'' @ [233] @ lit ''curit'' @ [233])]"

definition is_security_review_request :: "ustr \<Rightarrow> bool" where
  "is_security_review_request msg \<longleftrightarrow> list_ex (contains (normalize_user_text msg)) security_needles"

definition spec_blocked :: "ustr list" where
  "spec_blocked = map lit [''create_github_repo'', ''create_github_fix'', ''publish_to_github'', ''sync_workdir_to_github'',
     ''trigger_deploy'']"

definition refuse_spec_publish :: "ustr \<Rightarrow> ustr \<Rightarrow> json option" where
  "refuse_spec_publish tool msg =
     (if (contains msg (lit ''SDD-IMPLEMENT:'') \<or> contains msg (lit ''SDD-SPECIFY:'') \<or> contains msg (lit ''SDD-APPROVED:''))
         \<and> tool \<in> set spec_blocked
      then Some (jobject [(''ok'', JBool False),
        (''error'', JStr (lit ''Interdit pendant la spec : pas de d'' @ [233] @ lit ''p'' @ [244]
     @ lit ''t, pas de pull request, pas de d'' @ [233] @ lit ''ploiement.''))])
      else None)"

definition refuse_bare_spec_approval :: "ustr \<Rightarrow> json \<Rightarrow> ustr \<Rightarrow> json option" where
  "refuse_bare_spec_approval tool args msg =
     (if tool \<noteq> lit ''sdd_loop'' then None
      else if trimmed_arg ''action'' args \<noteq> lit ''approve'' \<or> \<not> is_execute_nudge msg then None
      else Some (jobject [(''ok'', JBool False),
        (''error'', JStr ([171] @ lit '' oui '' @ [187] @ lit '' et '' @ [171] @ lit '' go '' @ [187]
     @ lit '' ne valident pas la spec. Il faut une approbation explicite, par exemple ''
     @ [171] @ lit '' j'' @ [39] @ lit ''approuve la spec '' @ [187] @ lit ''.''))]))"

end
