(* ===== verification/Receipts.thy ===== *)
theory Receipts
  imports AgentGuard Tables
begin

text \<open>
  The receipts of actions that a person approved, \<open>crates/agent/src/receipts.rs\<close>, with the grants and
  the setting of \<open>guard.rs\<close>: tables under failing queries. SHA-256, the reader and the printer of
  dates, the printer of JSON and the identifiers are fields of an environment. Instants are integers;
  the dates of the grants are texts, as in the table.
\<close>

section \<open>Tables\<close>

datatype receipt_status = Pending | Approved | Executing | Done | Failed | Unknown | Expired

record receipt =
  rc_uuid :: ustr
  rc_workspace :: "ustr option"
  rc_project :: "ustr option"
  rc_project_name :: "ustr option"
  rc_action :: ustr
  rc_label :: ustr
  rc_target :: ustr
  rc_version :: "ustr option"
  rc_hash :: ustr
  rc_status :: receipt_status
  rc_source :: ustr
  rc_by :: "ustr option"
  rc_by_label :: "ustr option"
  rc_approved :: "int option"
  rc_expires :: "int option"
  rc_consumed :: "int option"
  rc_finished :: "int option"
  rc_detail :: "ustr option"
  rc_run :: "ustr option"
  rc_tool :: "ustr option"
  rc_deployment :: "ustr option"
  rc_created :: int
  rc_updated :: int

record grant_row =
  gt_project :: ustr
  gt_granted :: ustr
  gt_expires :: ustr
  gt_by :: "ustr option"
  gt_label :: "ustr option"

record autonomous_row =
  au_project :: ustr
  au_by :: "ustr option"
  au_label :: "ustr option"
  au_at :: ustr

record workspace_row =
  wk_project :: ustr
  wk_workspace :: "ustr option"
  wk_name :: "ustr option"

record agent_db =
  ad_receipts :: "receipt list"
  ad_grants :: "grant_row list"
  ad_autonomous :: "autonomous_row list"
  ad_projects :: "workspace_row list"
  ad_faults :: "bool list"
  ad_now :: int
  ad_ids :: nat

record receipt_env =
  re_id :: "nat \<Rightarrow> ustr"
  re_sha :: "ustr \<Rightarrow> ustr"
  re_print :: "json \<Rightarrow> ustr"
  re_date :: "ustr \<Rightarrow> int option"
  re_show_date :: "int \<Rightarrow> ustr"

text \<open>The answer of a query is \<open>None\<close> when it fails.\<close>

definition ask :: "(agent_db \<Rightarrow> agent_db \<times> 'a) \<Rightarrow> agent_db \<Rightarrow> agent_db \<times> 'a option" where
  "ask q w =
     (case ad_faults w of
        True # fs \<Rightarrow> (w\<lparr> ad_faults := fs \<rparr>, None)
      | False # fs \<Rightarrow> (case q (w\<lparr> ad_faults := fs \<rparr>) of (w', x) \<Rightarrow> (w', Some x))
      | [] \<Rightarrow> (case q w of (w', x) \<Rightarrow> (w', Some x)))"

definition newest :: "(receipt \<Rightarrow> int) \<Rightarrow> receipt list \<Rightarrow> receipt option" where
  "newest f rs = min_by (\<lambda>r. - f r) rs"

definition set_receipts :: "(receipt \<Rightarrow> bool) \<Rightarrow> (receipt \<Rightarrow> receipt) \<Rightarrow> agent_db \<Rightarrow> agent_db" where
  "set_receipts p f w = w\<lparr> ad_receipts := map (\<lambda>r. if p r then f r else r) (ad_receipts w) \<rparr>"

section \<open>Grants and the setting of a project\<close>

definition publish_grant_valid :: "receipt_env \<Rightarrow> ustr \<Rightarrow> agent_db \<Rightarrow> agent_db \<times> bool" where
  "publish_grant_valid E project w =
     (if trim project = [] then (w, False)
      else case ask (\<lambda>w. (w, select_row gt_project project (ad_grants w))) w of
             (w', row) \<Rightarrow>
               (w', is_some_and (Option.bind row (\<lambda>r. r))
                  (\<lambda>g. grant_still_valid (re_date E) (re_show_date E) (gt_expires g) (ad_now w'))))"

definition autonomous_publish :: "ustr \<Rightarrow> agent_db \<Rightarrow> agent_db \<times> autonomous_row option" where
  "autonomous_publish project w =
     (if trim project = [] then (w, None)
      else case ask (\<lambda>w. (w, select_row au_project project (ad_autonomous w))) w of
             (w', row) \<Rightarrow> (w', Option.bind row (\<lambda>r. r)))"

datatype deploy_gate = ByGrant | ByAutonomy autonomous_row | Locked

definition deploy_gate :: "receipt_env \<Rightarrow> ustr \<Rightarrow> agent_db \<Rightarrow> agent_db \<times> deploy_gate" where
  "deploy_gate E project w =
     (case publish_grant_valid E project w of
        (w1, True) \<Rightarrow> (w1, ByGrant)
      | (w1, False) \<Rightarrow>
          (case autonomous_publish project w1 of
             (w2, Some a) \<Rightarrow> (w2, ByAutonomy a)
           | (w2, None) \<Rightarrow> (w2, Locked)))"

definition set_autonomous_publish ::
    "receipt_env \<Rightarrow> ustr \<Rightarrow> bool \<Rightarrow> ustr option \<Rightarrow> ustr option \<Rightarrow> agent_db \<Rightarrow> agent_db \<times> unit option" where
  "set_autonomous_publish E project enabled by label =
     (if enabled
      then ask (\<lambda>w. (w\<lparr> ad_autonomous := upsert_row au_project (\<lambda>old new. new)
             \<lparr> au_project = project, au_by = by, au_label = label, au_at = re_show_date E (ad_now w) \<rparr> (ad_autonomous w) \<rparr>, ()))
      else ask (\<lambda>w. (w\<lparr> ad_autonomous := delete_row au_project project (ad_autonomous w) \<rparr>, ())))"

definition publish_approval_refusal :: "receipt_env \<Rightarrow> ustr \<Rightarrow> agent_db \<Rightarrow> agent_db \<times> json option" where
  "publish_approval_refusal E project w =
     (case publish_grant_valid E project w of
        (w', ok) \<Rightarrow> (w', if ok then None else Some (jobject
          [(''ok'', JBool False), (''error'', jstr ''Accord explicite requis avant publication.''),
           (''hint'', jstr ''POST /api/v1/projects/{uuid}/publish-approval''), (''code'', jstr ''publish_approval_required'')])))"

definition grant_approver :: "receipt_env \<Rightarrow> ustr \<Rightarrow> agent_db \<Rightarrow> agent_db \<times> (ustr option \<times> ustr option \<times> int option) option" where
  "grant_approver E project w =
     (case ask (\<lambda>w. (w, select_row gt_project project (ad_grants w))) w of
        (w', row) \<Rightarrow> (w', map_option (\<lambda>g. (gt_by g, gt_label g, re_date E (trim (gt_granted g)))) (Option.bind row (\<lambda>r. r))))"

section \<open>The hash of an action\<close>

definition action_hash :: "receipt_env \<Rightarrow> ustr \<Rightarrow> ustr \<Rightarrow> ustr \<Rightarrow> ustr \<Rightarrow> ustr" where
  "action_hash E project action target version =
     re_sha E (concat (map (\<lambda>p. trim p @ [31]) [project, action, target, version]))"

text \<open>The keys of an object are in order already, and stay so.\<close>

function canonical_json :: "receipt_env \<Rightarrow> json \<Rightarrow> ustr" where
  "canonical_json E (JObj m) =
     lit ''{'' @ join [44] (map (\<lambda>(k, v). re_print E (JStr k) @ lit '':'' @ canonical_json E v) (sort_key fst m)) @ lit ''}''"
| "canonical_json E (JArr vs) = lit ''['' @ join [44] (map (canonical_json E) vs) @ lit '']''"
| "canonical_json E JNull = re_print E JNull"
| "canonical_json E (JBool b) = re_print E (JBool b)"
| "canonical_json E (JNum n) = re_print E (JNum n)"
| "canonical_json E (JStr s) = re_print E (JStr s)"
  by pat_completeness auto
termination
proof (relation "measure (\<lambda>(E, j). size j)", goal_cases)
  case (2 E m p k v)
  then have "(k, v) \<in> set m" by simp
  then have "size v < size_list (size_prod (\<lambda>_. 0) size) m"
    by (induction m) auto
  then show ?case by simp
next
  case (3 E vs v)
  then have "size v \<le> size_list size vs" by (simp add: size_list_estimation')
  then show ?case by simp
qed simp_all

definition remove_keys :: "ustr list \<Rightarrow> json \<Rightarrow> json" where
  "remove_keys ks j = (case j of JObj m \<Rightarrow> JObj (filter (\<lambda>(k, v). k \<notin> set ks) m) | _ \<Rightarrow> j)"

definition tool_hash :: "receipt_env \<Rightarrow> ustr \<Rightarrow> ustr \<Rightarrow> json \<Rightarrow> ustr" where
  "tool_hash E project tool args =
     action_hash E project (lit ''agent_tool'') tool
       (canonical_json E (remove_keys (map lit [''project_uuid'', ''run_uuid'', ''agent_uuid'']) args))"

section \<open>Operations\<close>

record new_receipt =
  nr_workspace :: "ustr option"
  nr_project :: "ustr option"
  nr_project_name :: "ustr option"
  nr_action :: ustr
  nr_label :: ustr
  nr_target :: ustr
  nr_version :: "ustr option"
  nr_source :: ustr
  nr_by :: "ustr option"
  nr_by_label :: "ustr option"
  nr_approved :: "int option"
  nr_run :: "ustr option"
  nr_tool :: "ustr option"
  nr_deployment :: "ustr option"
  nr_detail :: "ustr option"
  nr_hash :: "ustr option"

definition receipt_hash :: "receipt_env \<Rightarrow> new_receipt \<Rightarrow> ustr" where
  "receipt_hash E r =
     unwrap_or (nr_hash r) (action_hash E (unwrap_or (nr_project r) []) (nr_action r) (nr_target r) (unwrap_or (nr_version r) []))"

definition ttl :: int where
  "ttl = 30 * 60000000000"

definition project_row :: "ustr option \<Rightarrow> agent_db \<Rightarrow> workspace_row option" where
  "project_row project w = Option.bind project (\<lambda>p. select_row wk_project p (ad_projects w))"

definition receipt_row :: "receipt_env \<Rightarrow> new_receipt \<Rightarrow> receipt_status \<Rightarrow> ustr \<Rightarrow> agent_db \<Rightarrow> receipt" where
  "receipt_row E r st uuid w =
     (let now = ad_now w;
          approved = opt_or (nr_approved r) (if st = Pending then None else Some now)
      in \<lparr> rc_uuid = uuid, rc_workspace = opt_or (nr_workspace r) (Option.bind (project_row (nr_project r) w) wk_workspace),
           rc_project = nr_project r, rc_project_name = opt_or (nr_project_name r) (Option.bind (project_row (nr_project r) w) wk_name),
           rc_action = nr_action r, rc_label = nr_label r, rc_target = nr_target r, rc_version = nr_version r,
           rc_hash = receipt_hash E r, rc_status = st, rc_source = (if nr_source r = [] then lit ''web'' else nr_source r),
           rc_by = nr_by r, rc_by_label = nr_by_label r, rc_approved = approved, rc_expires = Some (unwrap_or approved now + ttl),
           rc_consumed = (if st = Executing then Some now else None), rc_finished = None, rc_detail = nr_detail r,
           rc_run = nr_run r, rc_tool = nr_tool r, rc_deployment = nr_deployment r, rc_created = now, rc_updated = now \<rparr>)"

definition insert_receipt :: "receipt_env \<Rightarrow> new_receipt \<Rightarrow> receipt_status \<Rightarrow> agent_db \<Rightarrow> agent_db \<times> ustr option" where
  "insert_receipt E r st w =
     (let uuid = re_id E (ad_ids w)
      in ask (\<lambda>w. (w\<lparr> ad_receipts := ad_receipts w @ [receipt_row E r st uuid w] \<rparr>, uuid)) (w\<lparr> ad_ids := Suc (ad_ids w) \<rparr>))"

definition begin_receipt :: "receipt_env \<Rightarrow> new_receipt \<Rightarrow> agent_db \<Rightarrow> agent_db \<times> ustr option" where
  "begin_receipt E r = insert_receipt E r Executing"

definition truncate_text :: "nat \<Rightarrow> ustr \<Rightarrow> ustr" where
  "truncate_text n s = (if length s \<le> n then s else take n s @ [8230])"

definition finish_receipt :: "ustr \<Rightarrow> receipt_status \<Rightarrow> ustr option \<Rightarrow> agent_db \<Rightarrow> agent_db \<times> bool option" where
  "finish_receipt uuid st detail =
     ask (\<lambda>w. let p = (\<lambda>r. rc_uuid r = uuid \<and> rc_status r \<in> {Executing, Unknown})
       in (set_receipts p (\<lambda>r. r\<lparr> rc_status := st, rc_detail := opt_or (map_option (truncate_text 500) detail) (rc_detail r),
             rc_finished := Some (ad_now w), rc_updated := ad_now w \<rparr>) w,
           length (filter p (ad_receipts w)) = 1))"

definition record_done :: "receipt_env \<Rightarrow> new_receipt \<Rightarrow> agent_db \<Rightarrow> agent_db \<times> ustr option" where
  "record_done E r w =
     (case insert_receipt E r Executing w of
        (w1, None) \<Rightarrow> (w1, None)
      | (w1, Some uuid) \<Rightarrow>
          (case finish_receipt uuid Done (nr_detail r) w1 of
             (w2, None) \<Rightarrow> (w2, None)
           | (w2, Some _) \<Rightarrow> (w2, Some uuid)))"

definition alive :: "int \<Rightarrow> receipt \<Rightarrow> bool" where
  "alive now r \<longleftrightarrow> is_some_and (rc_expires r) (\<lambda>e. now < e)"

definition propose :: "receipt_env \<Rightarrow> new_receipt \<Rightarrow> agent_db \<Rightarrow> agent_db \<times> ustr option" where
  "propose E r w =
     (case ask (\<lambda>w. (w, newest rc_created (filter (\<lambda>x. rc_project x = nr_project r \<and> rc_hash x = receipt_hash E r \<and>
             rc_status x \<in> {Pending, Approved} \<and> alive (ad_now w) x) (ad_receipts w)))) w of
        (w1, None) \<Rightarrow> (w1, None)
      | (w1, Some (Some x)) \<Rightarrow> (w1, Some (rc_uuid x))
      | (w1, Some None) \<Rightarrow> insert_receipt E r Pending w1)"

definition approve_pending :: "ustr \<Rightarrow> ustr option \<Rightarrow> ustr option \<Rightarrow> agent_db \<Rightarrow> agent_db \<times> nat option" where
  "approve_pending project user label =
     ask (\<lambda>w. let p = (\<lambda>r. rc_project r = Some project \<and> rc_status r = Pending \<and> alive (ad_now w) r)
       in (set_receipts p (\<lambda>r. r\<lparr> rc_status := Approved, rc_by := user, rc_by_label := label, rc_approved := Some (ad_now w),
             rc_expires := Some (ad_now w + ttl), rc_updated := ad_now w \<rparr>) w,
           length (filter p (ad_receipts w))))"

text \<open>\<open>ORDER BY approved_at DESC\<close> puts the rows without one first.\<close>

definition consume :: "ustr \<Rightarrow> ustr \<Rightarrow> ustr option \<Rightarrow> agent_db \<Rightarrow> agent_db \<times> ustr option option" where
  "consume project hash run =
     ask (\<lambda>w. let able = filter (\<lambda>r. rc_project r = Some project \<and> rc_hash r = hash \<and> rc_status r = Approved \<and> alive (ad_now w) r) (ad_receipts w);
              chosen = opt_or (find (\<lambda>r. rc_approved r = None) able) (newest (\<lambda>r. the (rc_approved r)) able)
       in case chosen of
            None \<Rightarrow> (w, None)
          | Some c \<Rightarrow>
              (set_receipts (\<lambda>r. rc_uuid r = rc_uuid c \<and> rc_status r = Approved)
                 (\<lambda>r. r\<lparr> rc_status := Executing, rc_consumed := Some (ad_now w), rc_updated := ad_now w, rc_run := opt_or run (rc_run r) \<rparr>) w,
               Some (rc_uuid c)))"

definition link_deployment :: "ustr \<Rightarrow> ustr \<Rightarrow> agent_db \<Rightarrow> agent_db \<times> unit option" where
  "link_deployment uuid deployment =
     ask (\<lambda>w. (set_receipts (\<lambda>r. rc_uuid r = uuid) (\<lambda>r. r\<lparr> rc_deployment := Some deployment, rc_updated := ad_now w \<rparr>) w, ()))"

definition unknown_after_restart :: ustr where
  "unknown_after_restart = (lit ''DevForge a red'' @ [233] @ lit ''marr'' @ [233] @ lit '' pendant l'' @ [39]
     @ lit ''action : issue inconnue. V'' @ [233] @ lit ''rifie le r'' @ [233]
     @ lit ''sultat avant de relancer.'')"

definition mark_interrupted :: "agent_db \<Rightarrow> agent_db \<times> nat option" where
  "mark_interrupted =
     ask (\<lambda>w. (set_receipts (\<lambda>r. rc_status r = Executing)
         (\<lambda>r. r\<lparr> rc_status := Unknown, rc_detail := Some unknown_after_restart, rc_updated := ad_now w \<rparr>) w,
       length (filter (\<lambda>r. rc_status r = Executing) (ad_receipts w))))"

definition expire_stale :: "agent_db \<Rightarrow> agent_db \<times> nat option" where
  "expire_stale =
     ask (\<lambda>w. let p = (\<lambda>r. rc_status r \<in> {Pending, Approved} \<and> is_some_and (rc_expires r) (\<lambda>e. e \<le> ad_now w))
       in (set_receipts p (\<lambda>r. r\<lparr> rc_status := Expired, rc_updated := ad_now w,
             rc_detail := opt_or (rc_detail r) (Some (lit ''Validation non utilis'' @ [233] @ lit ''e sous 30 min.'')) \<rparr>) w,
           length (filter p (ad_receipts w))))"

section \<open>What a run did before\<close>

datatype prior = NoPrior | PriorDone ustr | PriorUnknown ustr

definition judge_prior :: "receipt_env \<Rightarrow> agent_db \<Rightarrow> receipt \<Rightarrow> prior" where
  "judge_prior E w r =
     (if rc_status r = Done then PriorDone (rc_uuid r)
      else let granted = Option.bind (rc_project r) (\<lambda>p. map_option gt_granted (select_row gt_project p (ad_grants w)))
           in if is_some_and (Option.bind granted (\<lambda>g. re_date E (trim g))) (\<lambda>g. rc_created r < g) then NoPrior
              else PriorUnknown (rc_uuid r))"

definition prior_in_run :: "receipt_env \<Rightarrow> ustr \<Rightarrow> ustr \<Rightarrow> int \<Rightarrow> agent_db \<Rightarrow> agent_db \<times> prior option" where
  "prior_in_run E run hash turn_started =
     ask (\<lambda>w. (w, case newest rc_created (filter (\<lambda>r. rc_run r = Some run \<and> rc_hash r = hash \<and> rc_created r < turn_started \<and>
             rc_status r \<in> {Done, Executing, Unknown}) (ad_receipts w)) of
          None \<Rightarrow> NoPrior
        | Some r \<Rightarrow> judge_prior E w r))"

text \<open>The first eight bytes of an identifier, which is ASCII.\<close>

definition short_id :: "ustr \<Rightarrow> ustr" where
  "short_id uuid = (if 8 \<le> length uuid then take 8 uuid else uuid)"

definition already_done_result :: "ustr \<Rightarrow> ustr \<Rightarrow> json" where
  "already_done_result tool rc = jobject
     [(''ok'', JBool True), (''skipped'', JBool True), (''code'', jstr ''already_executed''), (''receipt'', JStr rc),
      (''message_fr'', JStr (([171] @ lit '' '') @ tool @ (lit '' '' @ [187] @ lit '' a d'' @ [233] @ lit ''j'' @ [224] @ lit '' '' @ [233]
     @ lit ''t'' @ [233] @ lit '' ex'' @ [233] @ lit ''cut'' @ [233] @ lit '' avant l''
     @ [39] @ lit ''interruption (re'' @ [231] @ lit ''u '') @ short_id rc @
         lit '') : je ne le rejoue pas.''))]"

definition outcome_unknown_result :: "ustr \<Rightarrow> ustr \<Rightarrow> json" where
  "outcome_unknown_result tool rc = jobject
     [(''ok'', JBool False), (''code'', jstr ''outcome_unknown''), (''receipt'', JStr rc), (''needs_user_action'', JBool True),
      (''kind'', jstr ''publish_approval''),
      (''error'', JStr (([171] @ lit '' '') @ tool @ (lit '' '' @ [187] @ lit '' a '' @ [233] @ lit ''t'' @ [233] @ lit '' coup'' @ [233]
     @ lit '' par un red'' @ [233] @ lit ''marrage : issue inconnue. V'' @ [233]
     @ lit ''rifie le r'' @ [233]
     @ lit ''sultat (list_deployments, GitHub) avant de relancer ; une nouvelle validation est requise pour rejouer.''))),
      (''message_fr'', JStr (lit ''Une action a '' @ [233] @ lit ''t'' @ [233] @ lit '' coup'' @ [233]
     @ lit ''e par un red'' @ [233] @ lit ''marrage. Je v'' @ [233]
     @ lit ''rifie avant de la relancer ; valide '' @ [224] @ lit '' nouveau si elle doit ''
     @ [234] @ lit ''tre rejou'' @ [233] @ lit ''e.''))]"

definition result_ok :: "json \<Rightarrow> bool" where
  "result_ok j = unwrap_or (Option.bind (jgets ''ok'' j) as_bool) True"

definition tool_outcome :: "json \<Rightarrow> receipt_status \<times> ustr option" where
  "tool_outcome result =
     (if Option.bind (jgets ''cancelled'' result) as_bool = Some True
      then (Unknown, Some (lit ''Arr'' @ [234] @ lit ''t'' @ [233] @ lit '' pendant l'' @ [39]
     @ lit ''action : issue inconnue.''))
      else (if result_ok result then Done else Failed,
            Option.bind (opt_or (opt_or (jgets ''error'' result) (jgets ''message'' result)) (jgets ''message_fr'' result)) as_str))"

fun jpath :: "string list \<Rightarrow> json \<Rightarrow> json option" where
  "jpath [] j = Some j"
| "jpath (k # ks) j = Option.bind (jgets k j) (jpath ks)"

fun first_text :: "string list list \<Rightarrow> json \<Rightarrow> ustr option" where
  "first_text [] j = None"
| "first_text (p # ps) j =
     (case opt_filter (\<lambda>s. trim s \<noteq> []) (Option.bind (jpath p j) as_str) of
        Some s \<Rightarrow> Some s
      | None \<Rightarrow> first_text ps j)"

definition deployment_of :: "json \<Rightarrow> ustr option" where
  "deployment_of = first_text [[''deployment_uuid''], [''data'', ''uuid''], [''deployment'', ''uuid''], [''deploy'', ''uuid'']]"

end
