(* ===== verification/Coerce.thy ===== *)
theory Coerce
  imports AgentGuard
begin

text \<open>
  The types of the arguments of a tool, put right after its schema: \<open>crates/agent/src/coerce.rs\<close>. The
  parser of JSON and the reading and rounding of floating-point numbers are fields of an environment.
\<close>

record coerce_env =
  co_json :: "ustr \<Rightarrow> json option"
  co_float :: "ustr \<Rightarrow> ustr option"
  co_is_float :: "ustr \<Rightarrow> bool"
  co_round :: "ustr \<Rightarrow> int"

definition parse_i64 :: "ustr \<Rightarrow> int option" where
  "parse_i64 s =
     (let (neg, digits) = (case s of c # r \<Rightarrow> if c = 45 then (True, r) else if c = 43 then (False, r) else (False, s) | [] \<Rightarrow> (False, s))
      in if digits = [] \<or> \<not> list_all is_ascii_digit digits then None
         else let n = (if neg then - int (digits_val digits) else int (digits_val digits))
              in if - (2 ^ 63) \<le> n \<and> n < 2 ^ 63 then Some n else None)"

definition jint :: "int \<Rightarrow> json" where
  "jint n = JNum (show_int n)"

section \<open>A text read as a list\<close>

record splitting =
  sp_out :: "ustr list"
  sp_cur :: ustr
  sp_quote :: "uchar option"
  sp_depth :: int

definition split_step :: "uchar \<Rightarrow> splitting \<Rightarrow> uchar \<Rightarrow> splitting" where
  "split_step sep s c =
     (if c \<in> {34, 39} \<and> sp_quote s = None \<and> trim (sp_cur s) = [] then s\<lparr> sp_quote := Some c, sp_cur := sp_cur s @ [c] \<rparr>
      else if sp_quote s = Some c then s\<lparr> sp_quote := None, sp_cur := sp_cur s @ [c] \<rparr>
      else if c \<in> {40, 91, 123} \<and> sp_quote s = None then s\<lparr> sp_depth := sp_depth s + 1, sp_cur := sp_cur s @ [c] \<rparr>
      else if c \<in> {41, 93, 125} \<and> sp_quote s = None then s\<lparr> sp_depth := sp_depth s - 1, sp_cur := sp_cur s @ [c] \<rparr>
      else if c = sep \<and> sp_quote s = None \<and> sp_depth s \<le> 0 then s\<lparr> sp_out := sp_out s @ [sp_cur s], sp_cur := [] \<rparr>
      else s\<lparr> sp_cur := sp_cur s @ [c] \<rparr>)"

definition split_outside_quotes :: "ustr \<Rightarrow> uchar \<Rightarrow> ustr list" where
  "split_outside_quotes s sep =
     (let e = foldl (split_step sep) \<lparr> sp_out = [], sp_cur = [], sp_quote = None, sp_depth = 0 \<rparr> s
      in sp_out e @ [sp_cur e])"

definition clean_item :: "ustr \<Rightarrow> ustr" where
  "clean_item s =
     (let t = trim_start (trim_start_by (\<lambda>c. c \<in> {45, 42, 8226}) (trim s));
          digits = takeWhile is_ascii_digit t;
          rest = dropWhile is_ascii_digit t;
          t' = (if digits \<noteq> [] \<and> (starts_with rest (lit ''. '') \<or> starts_with rest (lit '') '')) then trim_start (drop 2 rest) else t)
      in trim (trim_by (\<lambda>c. c \<in> {34, 39}) (trim t')))"

definition prop_items_are_prose :: "json \<Rightarrow> bool" where
  "prop_items_are_prose prop =
     (case arg_str ''description'' prop of
        None \<Rightarrow> False
      | Some d \<Rightarrow> contains (to_lowercase d) ([233] @ lit ''tape'') \<or> contains (to_lowercase d) (lit ''phrase''))"

definition list_parts :: "ustr \<Rightarrow> json \<Rightarrow> ustr list" where
  "list_parts t prop =
     (if starts_with t (lit ''['') \<and> ends_with t (lit '']'') then split_outside_quotes (butlast (tl t)) 44
      else if 10 \<in> set t then str_lines t
      else if 59 \<in> set t then split_on (\<lambda>c. c = 59) t
      else if 44 \<in> set t \<and> \<not> prop_items_are_prose prop then split_outside_quotes t 44
      else [t])"

definition string_to_array :: "coerce_env \<Rightarrow> ustr \<Rightarrow> json \<Rightarrow> json list" where
  "string_to_array E s prop =
     (let t = trim s
      in if t = [] then []
         else case co_json E t of
                Some (JArr vs) \<Rightarrow> vs
              | _ \<Rightarrow>
                  (let kind = unwrap_or (Option.bind (Option.bind (jgets ''items'' prop) (jgets ''type'')) as_str) (lit ''string'')
                   in map (\<lambda>i. if kind = lit ''integer'' then (case parse_i64 i of Some n \<Rightarrow> jint n | None \<Rightarrow> JStr i) else JStr i)
                        (filter (\<lambda>i. i \<noteq> []) (map clean_item (list_parts t prop)))))"

section \<open>The arguments\<close>

definition coerce_value :: "coerce_env \<Rightarrow> ustr \<Rightarrow> json \<Rightarrow> json \<Rightarrow> json option" where
  "coerce_value E expected prop v =
     (case v of
        JStr s \<Rightarrow>
          (if expected = lit ''array'' then Some (JArr (string_to_array E s prop))
           else if expected = lit ''boolean'' then
             (let t = to_lowercase (trim s)
              in if t \<in> set (map lit [''true'', ''1'', ''yes'', ''oui'']) then Some (JBool True)
                 else if t \<in> set (map lit [''false'', ''0'', ''no'', ''non'']) then Some (JBool False)
                 else None)
           else if expected = lit ''integer'' then map_option jint (parse_i64 (trim s))
           else if expected = lit ''number'' then map_option JNum (co_float E (trim s))
           else if expected = lit ''object'' then (case co_json E (trim s) of Some (JObj m) \<Rightarrow> Some (JObj m) | _ \<Rightarrow> None)
           else None)
      | JNum n \<Rightarrow>
          (if expected = lit ''integer'' \<and> co_is_float E n then Some (jint (co_round E n))
           else if expected = lit ''string'' then Some (JStr n)
           else None)
      | JBool b \<Rightarrow> (if expected = lit ''string'' then Some (JStr (lit (if b then ''true'' else ''false''))) else None)
      | _ \<Rightarrow> None)"

definition coerce_one :: "coerce_env \<Rightarrow> (ustr \<times> json) list \<Rightarrow> ustr \<times> json \<Rightarrow> (ustr \<times> json) list" where
  "coerce_one E obj e =
     (case e of (key, prop) \<Rightarrow>
        (case (arg_str ''type'' prop, map_of obj key) of
           (Some expected, Some v) \<Rightarrow> (case coerce_value E expected prop v of Some w \<Rightarrow> jinsert key w obj | None \<Rightarrow> obj)
         | _ \<Rightarrow> obj))"

definition coerce_args :: "coerce_env \<Rightarrow> json \<Rightarrow> json \<Rightarrow> json" where
  "coerce_args E schema args =
     (case (jgets ''properties'' schema, args) of
        (Some (JObj props), JObj obj) \<Rightarrow> JObj (foldl (coerce_one E) obj props)
      | _ \<Rightarrow> args)"

end
