(* ===== verification/Truncate.thy ===== *)
theory Truncate
  imports AgentGuard
begin

text \<open>
  What the model is given of the result of a tool, \<open>crates/agent/src/truncate.rs\<close>. The printer of JSON
  is an argument; lengths count characters.
\<close>

definition TOOL_RESULT_BUDGET :: nat where "TOOL_RESULT_BUDGET = 8000"
definition READ_FILE_BUDGET :: nat where "READ_FILE_BUDGET = 12000"
definition LOCKFILE_BUDGET :: nat where "LOCKFILE_BUDGET = 2000"
definition MAX_ARRAY_ITEMS :: nat where "MAX_ARRAY_ITEMS = 50"

definition long_text_keys :: "ustr list" where
  "long_text_keys = map lit [''content'', ''logs'', ''logs_tail'', ''stdout'', ''stderr'', ''output'', ''unified_diff'',
     ''previous_content'', ''diff'', ''excerpt'', ''body'']"

definition budget_from_env :: "ustr option \<Rightarrow> nat" where
  "budget_from_env var = unwrap_or (opt_filter (\<lambda>n. 1000 \<le> n) (Option.bind var (\<lambda>v. parse_uint 64 (trim v)))) TOOL_RESULT_BUDGET"

definition is_lockfile :: "ustr \<Rightarrow> bool" where
  "is_lockfile path \<longleftrightarrow>
     (let name = to_lowercase (last (split_on (\<lambda>c. c = 47 \<or> c = 92) path))
      in name \<in> set (map lit [''package-lock.json'', ''npm-shrinkwrap.json'', ''pnpm-lock.yaml'', ''yarn.lock'', ''bun.lockb''])
         \<or> ends_with name (lit ''.lock''))"

definition tail_first :: "ustr \<Rightarrow> bool" where
  "tail_first key \<longleftrightarrow> starts_with key (lit ''logs'') \<or> key \<in> set (map lit [''stderr'', ''output'', ''stdout''])"

definition head_tail :: "nat \<Rightarrow> nat \<Rightarrow> ustr \<Rightarrow> ustr" where
  "head_tail h t s =
     (let n = length s
      in if n \<le> h + t then s
         else take h s @ ([10, 8230] @ lit ''['') @ dec (n - h - t) @ (lit '' caract'' @ [232] @ lit ''res omis]'' @ [8230, 10]) @ drop (n - t) s)"

record limits =
  lm_head :: nat
  lm_tail :: nat
  lm_log_head :: nat
  lm_log_tail :: nat
  lm_other :: nat

definition limits_level :: "nat \<Rightarrow> limits" where
  "limits_level level =
     (let f = 2 ^ level
      in \<lparr> lm_head = 2000 div f, lm_tail = 4000 div f, lm_log_head = 1000 div f, lm_log_tail = 5000 div f, lm_other = 4000 div f \<rparr>)"

definition shrink_text :: "limits \<Rightarrow> ustr \<Rightarrow> bool \<Rightarrow> ustr \<Rightarrow> ustr" where
  "shrink_text lim key lockfile s =
     (if lockfile \<and> key \<in> set (map lit [''content'', ''previous_content'', ''unified_diff''])
      then head_tail (LOCKFILE_BUDGET div 2) (LOCKFILE_BUDGET div 2 - 200) s
      else if key \<in> set long_text_keys \<or> starts_with key (lit ''logs'')
      then (if tail_first key then head_tail (lm_log_head lim) (lm_log_tail lim) s else head_tail (lm_head lim) (lm_tail lim) s)
      else if lm_other lim < length s then head_tail (lm_other lim div 2) (lm_other lim div 2) s
      else s)"

definition has_lock_path :: "json \<Rightarrow> bool" where
  "has_lock_path v = is_some_and (arg_str ''path'' v) is_lockfile"

definition put_entry :: "ustr \<Rightarrow> json \<Rightarrow> json \<Rightarrow> (ustr \<times> json) list \<Rightarrow> (ustr \<times> json) list" where
  "put_entry k old new out =
     (let out' = jinsert k new out
      in case old of
           JArr vs \<Rightarrow> if MAX_ARRAY_ITEMS < length vs
                      then jinsert (k @ lit ''_omitted'') (JNum (dec (length vs - MAX_ARRAY_ITEMS))) out' else out'
         | _ \<Rightarrow> out')"

function shrink :: "limits \<Rightarrow> ustr \<Rightarrow> bool \<Rightarrow> json \<Rightarrow> json" where
  "shrink lim key lockfile (JStr s) = JStr (shrink_text lim key lockfile s)"
| "shrink lim key lockfile (JArr vs) = JArr (map (shrink lim key lockfile) (take MAX_ARRAY_ITEMS vs))"
| "shrink lim key lockfile (JObj m) =
     JObj (fold (\<lambda>(k, x) out. put_entry k x (shrink lim k (lockfile \<or> has_lock_path (JObj m)) x) out) m [])"
| "shrink lim key lockfile JNull = JNull"
| "shrink lim key lockfile (JBool b) = JBool b"
| "shrink lim key lockfile (JNum n) = JNum n"
  by pat_completeness auto
termination
proof (relation "measure (\<lambda>(lim, key, lockfile, v). size v)", goal_cases)
  case (2 lim key lockfile vs v)
  then have "v \<in> set vs" by (auto dest: in_set_takeD)
  then have "size v \<le> size_list size vs" by (simp add: size_list_estimation')
  then show ?case by simp
next
  case (3 lim key lockfile m e k x)
  then have "(k, x) \<in> set m" by simp
  then have "size x < size_list (size_prod (\<lambda>_. 0) size) m" by (induction m) auto
  then show ?case by simp
qed simp_all

fun has_array_over :: "nat \<Rightarrow> json \<Rightarrow> bool" where
  "has_array_over n (JArr vs) = (n < length vs \<or> list_ex (has_array_over n) vs)"
| "has_array_over n (JObj m) = list_ex (\<lambda>e. has_array_over n (snd e)) m"
| "has_array_over n _ = False"

definition read_file_view :: "(json \<Rightarrow> ustr) \<Rightarrow> json \<Rightarrow> ustr" where
  "read_file_view print result =
     (let full = print result; content = arg_str ''content'' result
      in if length (unwrap_or content []) \<le> READ_FILE_BUDGET \<and> length full \<le> READ_FILE_BUDGET + 2000 then full
         else print (jset ''hint'' (JStr (lit ''Fichier long : relis la partie utile avec offset (1re ligne) et limit (nb de lignes).''))
           (jset ''truncated'' (JBool True)
             (case content of Some c \<Rightarrow> jset ''content'' (JStr (head_tail 4000 7000 c)) result | None \<Rightarrow> result))))"

definition for_model :: "(json \<Rightarrow> ustr) \<Rightarrow> nat \<Rightarrow> ustr \<Rightarrow> json \<Rightarrow> json \<Rightarrow> ustr" where
  "for_model print budget tool args result =
     (let full = print result; lockfile = has_lock_path args \<or> has_lock_path result
      in if tool = lit ''read_project_file'' \<and> \<not> lockfile then read_file_view print result
         else if length full \<le> budget \<and> \<not> lockfile \<and> \<not> has_array_over MAX_ARRAY_ITEMS result then full
         else case find (\<lambda>s. length s \<le> budget) (map (\<lambda>level. print (shrink (limits_level level) [] lockfile result)) [0..<5]) of
                Some s \<Rightarrow> s
              | None \<Rightarrow> print (jobject [(''ok'', unwrap_or (jgets ''ok'' result) JNull), (''truncated'', JBool True),
                  (''excerpt'', JStr (head_tail (budget div 3) (budget div 2) full))]))"

section \<open>What is kept\<close>

lemma head_tail_keeps: "length s \<le> h + t \<Longrightarrow> head_tail h t s = s"
  and head_tail_cuts: "h + t < length s \<Longrightarrow> \<exists>m. head_tail h t s = take h s @ m @ drop (length s - t) s"
  by (simp_all add: head_tail_def Let_def)

text \<open>A result that is within the budget and has no long list and no lock file is given as it is.\<close>

lemma for_model_short:
  "length (print result) \<le> budget \<Longrightarrow> \<not> has_lock_path args \<Longrightarrow> \<not> has_lock_path result \<Longrightarrow>
   \<not> has_array_over MAX_ARRAY_ITEMS result \<Longrightarrow> tool \<noteq> lit ''read_project_file'' \<Longrightarrow>
   for_model print budget tool args result = print result"
  by (simp add: for_model_def Let_def)

end
