(* ===== verification/AgentLoop.thy ===== *)
theory AgentLoop
  imports Receipts Coerce Redact Truncate
begin

text \<open>
  One turn of an agent (\<open>run_loop_inner\<close> of \<open>crates/agent/src/lib.rs\<close>) and one tool asked for by name
  (\<open>handle_with_provider\<close>): the model is called at most sixteen times, and each tool it asks for is
  refused or executed. The language model, the tools, what others do to the tables meanwhile, the
  cancellations, the prompts and the labels are fields of an environment; the log of the state keeps
  every tool that was executed, with the tables as they were. The progress events are left out.
\<close>

section \<open>Data\<close>

record tool_call =
  tc_id :: ustr
  tc_name :: ustr
  tc_args :: json

datatype chat =
    System ustr
  | User ustr "ustr list"
  | Assistant ustr
  | AssistantTools ustr "tool_call list"
  | ToolResult ustr ustr ustr

fun chat_text :: "chat \<Rightarrow> ustr" where
  "chat_text (System s) = s"
| "chat_text (User s _) = s"
| "chat_text (Assistant s) = s"
| "chat_text (AssistantTools s _) = s"
| "chat_text (ToolResult _ _ s) = s"

datatype tool_error =
    TextError ustr
  | NotFoundError ustr
  | NeedsUser ustr ustr "ustr option" "ustr option"

fun show_tool_error :: "tool_error \<Rightarrow> ustr" where
  "show_tool_error (TextError s) = s"
| "show_tool_error (NotFoundError s) = lit ''not found: '' @ s"
| "show_tool_error (NeedsUser _ m _ _) = lit ''action utilisateur requise : '' @ m"

record call_record =
  cr_id :: ustr
  cr_name :: ustr
  cr_args :: json
  cr_result :: json

record agent_reply =
  rp_text :: ustr
  rp_calls :: "call_record list"
  rp_provider :: ustr
  rp_plan :: bool

record chat_ctx =
  cx_project :: "ustr option"
  cx_agent :: "ustr option"
  cx_role :: "ustr option"
  cx_kind :: "ustr option"
  cx_name :: "ustr option"
  cx_brief :: "ustr option"
  cx_owner :: "ustr option"
  cx_repo :: "ustr option"
  cx_branch :: "ustr option"
  cx_history :: "(ustr \<times> ustr) list"
  cx_user :: "ustr option"
  cx_profile :: "ustr option"
  cx_recall :: "ustr option"
  cx_run :: "ustr option"
  cx_cancel :: bool
  cx_images :: "ustr list"
  cx_unattended :: bool

text \<open>\<open>ae_stopped\<close> answers the looks at the token of cancellation; \<open>ae_cut\<close> is what a tool that is
  dropped on the way did to the tables.\<close>

record agent_env =
  ae_rc :: receipt_env
  ae_co :: coerce_env
  ae_gate :: bool
  ae_pool :: bool
  ae_registry :: "(ustr \<times> json) list"
  ae_tool :: "ustr \<Rightarrow> json \<Rightarrow> nat \<Rightarrow> agent_db \<Rightarrow> (tool_error + json) \<times> agent_db"
  ae_cut :: "ustr \<Rightarrow> json \<Rightarrow> nat \<Rightarrow> agent_db \<Rightarrow> agent_db"
  ae_model :: "chat list \<Rightarrow> ustr list \<Rightarrow> nat \<Rightarrow> agent_db \<Rightarrow> (tool_error + (ustr \<times> tool_call list)) \<times> agent_db"
  ae_stopped :: "nat \<Rightarrow> bool"
  ae_provider :: ustr
  ae_vision :: bool
  ae_system :: "chat_ctx \<Rightarrow> ustr \<Rightarrow> ustr"
  ae_memory :: "(chat_ctx \<Rightarrow> ustr \<Rightarrow> ustr option \<times> ustr option) option"
  ae_claim :: "ustr \<Rightarrow> bool"
  ae_budget_var :: "ustr option"
  ae_label :: "ustr \<Rightarrow> json \<Rightarrow> ustr"
  ae_pretty :: "json \<Rightarrow> ustr"
  ae_push_var :: "ustr option"
  ae_pick :: "ustr list \<Rightarrow> nat"

record ran_tool =
  rn_tool :: ustr
  rn_args :: json
  rn_db :: agent_db

record agent_world =
  aw_db :: agent_db
  aw_looks :: nat
  aw_turns :: nat
  aw_ran :: "ran_tool list"

record turn_state =
  ts_messages :: "chat list"
  ts_records :: "call_record list"
  ts_claimed :: bool
  ts_deployed :: bool
  ts_last :: ustr
  ts_delegated :: "ustr option"
  ts_refusals :: nat
  ts_pushes :: nat

definition max_rounds :: nat where
  "max_rounds = 16"

definition has_tool :: "agent_env \<Rightarrow> ustr \<Rightarrow> bool" where
  "has_tool E name \<longleftrightarrow> map_of (ae_registry E) name \<noteq> None"

definition on_db :: "(agent_db \<Rightarrow> agent_db \<times> 'a) \<Rightarrow> agent_world \<Rightarrow> agent_world \<times> 'a" where
  "on_db f w = (case f (aw_db w) of (d, x) \<Rightarrow> (w\<lparr> aw_db := d \<rparr>, x))"

text \<open>Without a token nothing is cancelled.\<close>

definition token_stopped :: "agent_env \<Rightarrow> chat_ctx \<Rightarrow> agent_world \<Rightarrow> agent_world \<times> bool" where
  "token_stopped E C w =
     (if cx_cancel C then (w\<lparr> aw_looks := Suc (aw_looks w) \<rparr>, ae_stopped E (aw_looks w)) else (w, False))"

section \<open>Arguments\<close>

definition non_empty :: "ustr option \<Rightarrow> ustr option" where
  "non_empty = opt_filter (\<lambda>s. s \<noteq> [])"

definition put_text :: "string \<times> ustr option \<Rightarrow> (ustr \<times> json) list \<Rightarrow> (ustr \<times> json) list" where
  "put_text e obj = (case e of (k, v) \<Rightarrow> (case non_empty v of Some s \<Rightarrow> jinsert (lit k) (JStr s) obj | None \<Rightarrow> obj))"

definition impose :: "(string \<times> ustr option) list \<Rightarrow> string list \<Rightarrow> (ustr \<times> json) list \<Rightarrow> (ustr \<times> json) list" where
  "impose kvs removed obj = fold put_text kvs (filter (\<lambda>(k, v). k \<notin> set (map lit removed)) obj)"

definition default_text :: "string \<times> ustr option \<Rightarrow> (ustr \<times> json) list \<Rightarrow> (ustr \<times> json) list" where
  "default_text e obj =
     (case e of (k, v) \<Rightarrow> (case v of
        None \<Rightarrow> obj
      | Some s \<Rightarrow> if unwrap_or (arg_str k (JObj obj)) [] = [] then jinsert (lit k) (JStr s) obj else obj))"

definition memory_identity :: "string list" where
  "memory_identity = [''user_uuid'', ''project_uuid'', ''caller_agent_uuid'', ''caller_agent_role'', ''caller_agent_kind'']"

definition routine_identity :: "string list" where
  "routine_identity = [''project_uuid'', ''caller_agent_uuid'']"

definition inject_tool_defaults :: "ustr \<Rightarrow> chat_ctx \<Rightarrow> json \<Rightarrow> json" where
  "inject_tool_defaults tool C args =
     (case args of
        JObj obj \<Rightarrow> JObj
          (if starts_with tool (lit ''memory_'') then
             impose [(''user_uuid'', cx_user C), (''project_uuid'', cx_project C), (''caller_agent_uuid'', cx_agent C),
                (''caller_agent_role'', cx_role C), (''caller_agent_kind'', cx_kind C)] memory_identity obj
           else if tool \<in> set (map lit [''create_routine'', ''list_routines'', ''delete_routine'']) then
             impose [(''project_uuid'', cx_project C), (''caller_agent_uuid'', cx_agent C)] routine_identity obj
           else if tool = lit ''delegate_task'' then
             impose [(''project_uuid'', cx_project C), (''caller_agent_uuid'', cx_agent C), (''parent_run_uuid'', cx_run C)]
               [''project_uuid'', ''caller_agent_uuid'', ''parent_run_uuid''] obj
           else
             fold default_text [(''caller_agent_uuid'', cx_agent C), (''owner'', cx_owner C), (''repo'', cx_repo C), (''branch'', cx_branch C)]
               (case cx_project C of
                  None \<Rightarrow> obj
                | Some uuid \<Rightarrow>
                    (let given = trimmed_arg ''project_uuid'' (JObj obj)
                     in if given = [] \<or> given \<noteq> uuid then jinsert (lit ''project_uuid'') (JStr uuid) obj else obj)))
      | _ \<Rightarrow> args)"

definition prepare_args :: "agent_env \<Rightarrow> chat_ctx \<Rightarrow> ustr \<Rightarrow> json \<Rightarrow> json" where
  "prepare_args E C tool args =
     (let a = inject_tool_defaults tool C args
      in case map_of (ae_registry E) tool of Some schema \<Rightarrow> coerce_args (ae_co E) schema a | None \<Rightarrow> a)"

definition remote_project :: "json \<Rightarrow> chat_ctx \<Rightarrow> ustr" where
  "remote_project args C =
     unwrap_or (opt_or (opt_filter (\<lambda>s. trim s \<noteq> []) (arg_str ''project_uuid'' args)) (cx_project C)) []"

section \<open>The locks\<close>

definition publish_allowed :: "agent_env \<Rightarrow> ustr \<Rightarrow> agent_db \<Rightarrow> agent_db \<times> bool" where
  "publish_allowed E project d =
     (if trim project = [] then (d, False)
      else if ae_gate E then publish_grant_valid (ae_rc E) project d
      else (d, False))"

definition autonomous_allowed :: "agent_env \<Rightarrow> ustr \<Rightarrow> ustr \<Rightarrow> agent_db \<Rightarrow> agent_db \<times> bool" where
  "autonomous_allowed E project tool d =
     (if trim project = [] \<or> \<not> autonomous_covers tool then (d, False)
      else if ae_gate E then (case autonomous_publish project d of (d', a) \<Rightarrow> (d', a \<noteq> None))
      else (d, False))"

definition tool_receipt :: "agent_env \<Rightarrow> ustr \<Rightarrow> json \<Rightarrow> chat_ctx \<Rightarrow> ustr \<Rightarrow> new_receipt" where
  "tool_receipt E tool args C project =
     \<lparr> nr_workspace = None, nr_project = non_empty (Some project), nr_project_name = None, nr_action = lit ''agent_tool'',
        nr_label = lit ''Agent : '' @ remote_write_summary tool args, nr_target = unwrap_or (cx_name C) (lit ''Agent''),
        nr_version = opt_or (Option.bind (opt_or (jgets ''git_sha'' args) (jgets ''branch'' args)) as_str) (cx_branch C),
        nr_source = lit ''agent'', nr_by = None, nr_by_label = None, nr_approved = None, nr_run = cx_run C,
        nr_tool = Some tool, nr_deployment = None, nr_detail = None, nr_hash = Some (tool_hash (ae_rc E) project tool args) \<rparr>"

definition remote_write_refusal :: "agent_env \<Rightarrow> chat_ctx \<Rightarrow> ustr \<Rightarrow> json \<Rightarrow> agent_db \<Rightarrow> agent_db \<times> json option" where
  "remote_write_refusal E C tool args d =
     (if \<not> is_remote_write tool args then (d, None)
      else let project = remote_project args C
           in case autonomous_allowed E project tool d of
                (d1, True) \<Rightarrow> (d1, None)
              | (d1, False) \<Rightarrow>
                  (case (if cx_unattended C then (d1, False) else publish_allowed E project d1) of
                     (d2, True) \<Rightarrow> (d2, None)
                   | (d2, False) \<Rightarrow>
                       (if ae_pool E then fst (propose (ae_rc E) (tool_receipt E tool args C project) d2) else d2,
                        Some (if cx_unattended C then remote_write_blocked_unattended tool args else remote_write_blocked tool args))))"

definition replay_guard :: "agent_env \<Rightarrow> chat_ctx \<Rightarrow> int \<Rightarrow> ustr \<Rightarrow> json \<Rightarrow> agent_db \<Rightarrow> agent_db \<times> json option" where
  "replay_guard E C turn_started tool args d =
     (if \<not> is_remote_write tool args \<or> \<not> ae_pool E then (d, None)
      else case non_empty (cx_run C) of
             None \<Rightarrow> (d, None)
           | Some run \<Rightarrow>
               (case prior_in_run (ae_rc E) run (tool_hash (ae_rc E) (remote_project args C) tool args) turn_started d of
                  (d', Some (PriorDone u)) \<Rightarrow> (d', Some (already_done_result tool u))
                | (d', Some (PriorUnknown u)) \<Rightarrow> (d', Some (outcome_unknown_result tool u))
                | (d', _) \<Rightarrow> (d', None)))"

definition with_approver :: "(ustr option \<times> ustr option \<times> int option) option \<Rightarrow> new_receipt \<Rightarrow> new_receipt" where
  "with_approver a r =
     (case a of None \<Rightarrow> r | Some (by, label, t) \<Rightarrow> r\<lparr> nr_by := by, nr_by_label := label, nr_approved := t \<rparr>)"

definition receipt_unapproved :: "agent_env \<Rightarrow> chat_ctx \<Rightarrow> ustr \<Rightarrow> json \<Rightarrow> agent_db \<Rightarrow> agent_db \<times> ustr option" where
  "receipt_unapproved E C tool args d =
     (let project = remote_project args C
      in case publish_allowed E project d of
           (d1, granted) \<Rightarrow>
             (case (if granted then (d1, False) else autonomous_allowed E project tool d1) of
                (d2, True) \<Rightarrow> (d2, None)
              | (d2, False) \<Rightarrow>
                  (case grant_approver (ae_rc E) project d2 of
                     (d3, who) \<Rightarrow> begin_receipt (ae_rc E) (with_approver who (tool_receipt E tool args C project)) d3)))"

definition receipt_start :: "agent_env \<Rightarrow> chat_ctx \<Rightarrow> ustr \<Rightarrow> json \<Rightarrow> agent_db \<Rightarrow> agent_db \<times> ustr option" where
  "receipt_start E C tool args d =
     (if \<not> is_remote_write tool args \<or> \<not> ae_pool E then (d, None)
      else let project = remote_project args C; r = tool_receipt E tool args C project
           in case consume project (receipt_hash (ae_rc E) r) (cx_run C) d of
                (d1, Some (Some u)) \<Rightarrow> (d1, Some u)
              | (d1, _) \<Rightarrow> receipt_unapproved E C tool args d1)"

definition launches_deploy :: "ustr list" where
  "launches_deploy = [lit ''trigger_deploy'', lit ''publish_to_github'']"

definition receipt_finish :: "agent_env \<Rightarrow> ustr \<Rightarrow> ustr option \<Rightarrow> json \<Rightarrow> agent_db \<Rightarrow> agent_db" where
  "receipt_finish E tool receipt result d =
     (case receipt of
        None \<Rightarrow> d
      | Some u \<Rightarrow>
          if \<not> ae_pool E then d
          else case tool_outcome result of
            (st, detail) \<Rightarrow>
              (case (if st = Done \<and> tool \<in> set launches_deploy then deployment_of result else None) of
                 Some dep \<Rightarrow> fst (link_deployment u dep d)
               | None \<Rightarrow> fst (finish_receipt u st detail d)))"

section \<open>What the model is told\<close>

definition user_turn :: "agent_env \<Rightarrow> chat_ctx \<Rightarrow> ustr \<Rightarrow> chat" where
  "user_turn E C msg =
     (if cx_images C = [] then User msg []
      else if ae_vision E then User msg (cx_images C)
      else User (msg @ [10] @ join [10] (map (\<lambda>i. lit ''[image jointe : '' @ i @ lit '']'') (cx_images C))) [])"

definition memory_blocks :: "agent_env \<Rightarrow> chat_ctx \<Rightarrow> ustr \<Rightarrow> ustr option \<times> ustr option" where
  "memory_blocks E C msg =
     (case (cx_profile C, ae_memory E) of
        (Some p, _) \<Rightarrow> (Some p, cx_recall C)
      | (None, Some load) \<Rightarrow> load C msg
      | (None, None) \<Rightarrow> (None, cx_recall C))"

definition opening_messages :: "agent_env \<Rightarrow> chat_ctx \<Rightarrow> ustr \<Rightarrow> chat list" where
  "opening_messages E C msg =
     [System (ae_system E C msg)]
     @ (case cx_brief C of
          Some b \<Rightarrow> [System b]
        | None \<Rightarrow> (case cx_project C of
              Some u \<Rightarrow> [System (lit ''Contexte projet courant : project_uuid='' @ u @ (lit ''. Pref'' @ [232] @ lit ''re cet uuid pour les tools.''))]
            | None \<Rightarrow> []))
     @ (case memory_blocks E C msg of (p, r) \<Rightarrow> map System ((case p of Some x \<Rightarrow> [x] | None \<Rightarrow> []) @ (case r of Some x \<Rightarrow> [x] | None \<Rightarrow> [])))
     @ map (\<lambda>(role, content). if role = lit ''assistant'' then Assistant content else User content []) (cx_history C)
     @ [user_turn E C msg]"

definition executed_plan :: "call_record list \<Rightarrow> bool" where
  "executed_plan rs =
     list_ex (\<lambda>r. cr_name r = lit ''write_project_file'' \<and> \<not> is_remote_write (cr_name r) (cr_args r) \<and>
       Option.bind (jgets ''ok'' (cr_result r)) as_bool \<noteq> Some False) rs"

definition normalize_tool_call :: "agent_env \<Rightarrow> call_record \<Rightarrow> ustr" where
  "normalize_tool_call E r =
     (if cr_name r = lit ''write_project_file''
      then unwrap_or (arg_str ''path'' (cr_args r)) [] @ lit ''::'' @ unwrap_or (arg_str ''mode'' (cr_args r)) (lit ''local'')
      else re_print (ae_rc E) (cr_args r))"

definition last_records :: "nat \<Rightarrow> 'a list \<Rightarrow> 'a list" where
  "last_records n rs = drop (length rs - n) rs"

text \<open>Of three calls at most one pair of a name and arguments comes twice.\<close>

definition repeated :: "'a list \<Rightarrow> 'a list" where
  "repeated ks = remdups (filter (\<lambda>k. 2 \<le> count_list ks k) ks)"

definition detect_duplicate_calls :: "agent_env \<Rightarrow> call_record list \<Rightarrow> ustr option" where
  "detect_duplicate_calls E rs =
     (if length rs < 2 then None
      else case repeated (map (\<lambda>r. (cr_name r, normalize_tool_call E r)) (last_records 3 rs)) of
             [] \<Rightarrow> None
           | (tool, norm) # _ \<Rightarrow> Some
               (if tool = lit ''write_project_file'' then ([9888, 65039] @ lit '' D'' @ [201] @ lit ''TECTION DE BOUCLE : Tu viens d'' @ [39]
     @ lit ''appeler write_project_file plusieurs fois avec les m'' @ [234]
     @ lit ''mes arguments. STOP ! Ne r'' @ [233, 233] @ lit ''cris pas le m'' @ [234]
     @ lit ''me fichier en boucle. ACTIONS REQUISES : 1. Si tu as des MULTIPLES fichiers ''
     @ [224] @ lit '' '' @ [233] @ lit ''crire : '' @ [233]
     @ lit ''cris CHAQUE fichier UNE SEULE FOIS 2. Si tous les fichiers sont '' @ [233]
     @ lit ''crits : utilise sync_workdir_to_github pour tout pousser sur GitHub 3. Puis appelle trigger_deploy pour d''
     @ [233] @ lit ''ployer le projet. Ne perds plus de tours sur des fichiers d'' @ [233]
     @ lit ''j'' @ [224] @ lit '' '' @ [233]
     @ lit ''crits. Avance dans le workflow scaffold.'')
                else ([9888, 65039] @ lit '' D'' @ [201] @ lit ''TECTION DE BOUCLE : Tu viens d'' @ [39]
     @ lit ''appeler '' @ [39]) @ tool @ ([39] @ lit '' plusieurs fois avec les m'' @ [234] @ lit ''mes arguments. STOP ! Ne r''
     @ [233] @ lit ''p'' @ [232] @ lit ''te pas le m'' @ [234]
     @ lit ''me tool call en boucle. Soit tu passes '' @ [224] @ lit '' l'' @ [39, 233]
     @ lit ''tape suivante du workflow, soit tu termines ton tour si la t'' @ [226]
     @ lit ''che est compl'' @ [232] @ lit ''te.'')))"

definition error_of :: "call_record \<Rightarrow> ustr option" where
  "error_of r = arg_str ''error'' (cr_result r)"

definition failure_key :: "agent_env \<Rightarrow> call_record \<Rightarrow> (ustr \<times> ustr \<times> ustr) option" where
  "failure_key E r = map_option (\<lambda>e. (cr_name r, normalize_tool_call E r, take 100 e)) (error_of r)"

text \<open>Which entry of a hash map comes first is not said.\<close>

definition any_of :: "agent_env \<Rightarrow> (ustr \<times> 'a) list \<Rightarrow> (ustr \<times> 'a) option" where
  "any_of E xs = (if xs = [] then None else Some (xs ! (ae_pick E (map fst xs) mod length xs)))"

definition detect_repeated_failures :: "agent_env \<Rightarrow> call_record list \<Rightarrow> ustr option" where
  "detect_repeated_failures E rs =
     (let recent = last_records 4 rs
      in if length rs < 2 then None
         else if 2 \<le> length (filter (\<lambda>r. is_some_and (error_of r) (\<lambda>e. contains e (lit ''Unknown tool'') \<or> contains e (lit ''tool introuvable''))) recent)
         then Some ([10060] @ lit '' ERREUR CRITIQUE : Tu as appel'' @ [233]
     @ lit '' des tools INEXISTANTS plusieurs fois. TOOLS VALIDES pour scaffold : create_github_repo, write_project_file (mode=''
     @ [39] @ lit ''local'' @ [39]
     @ lit ''), sync_workdir_to_github, trigger_deploy, get_project, get_deployment_logs. TOOLS INEXISTANTS : github_create_repo, push_files. Le workflow s''
     @ [39] @ lit ''arr'' @ [234] @ lit ''te ici.'')
         else case any_of E (repeated (List.map_filter (failure_key E) recent)) of
                None \<Rightarrow> None
              | Some (tool, norm, err) \<Rightarrow> Some
                  (if tool = lit ''get_deployment_logs'' \<and> (contains err (lit ''introuvable'') \<or> contains err (lit ''not found''))
                   then ([10060]
     @ lit '' ERREUR CRITIQUE : Tu appelles get_deployment_logs avec un deployment_uuid INVALIDE de mani''
     @ [232] @ lit ''re r'' @ [233] @ lit ''p'' @ [233] @ lit ''t'' @ [233]
     @ lit ''e. WORKFLOW CORRECT : 1. create_github_repo 2. write_project_file ou sync_workdir_to_github 3. trigger_deploy 4. ENSUITE get_deployment_logs avec le vrai UUID.'')
                   else ([10060] @ lit '' ERREUR CRITIQUE : Le tool '' @ [39]) @ tool @ ([39] @ lit '' '' @ [233] @ lit ''choue de mani'' @ [232] @ lit ''re r'' @ [233]
     @ lit ''p'' @ [233] @ lit ''t'' @ [233] @ lit ''e avec la m'' @ [234]
     @ lit ''me erreur. Erreur : '') @ take 200 err @ (lit '' Le workflow s'' @ [39] @ lit ''arr'' @ [234] @ lit ''te ici.'')))"

definition post_deploy_nudge :: ustr where
  "post_deploy_nudge = (lit ''Avant de conclure : attends la fin du d'' @ [233]
     @ lit ''ploiement (list_deployments / get_deployment_logs avec l'' @ [39]
     @ lit ''uuid renvoy'' @ [233] @ lit '') puis http_smoke sur production_url. Ne dis ''
     @ [171] @ lit '' en ligne '' @ [187]
     @ lit '' que si http_smoke renvoie un status 2xx/3xx, et cite ce status.'')"

definition delegated_nudge :: ustr where
  "delegated_nudge = (lit ''T'' @ [226] @ lit ''che d'' @ [233] @ lit ''l'' @ [233] @ lit ''gu'' @ [233]
     @ lit ''e au worker. R'' @ [233]
     @ lit ''ponds maintenant en une phrase ce que tu as lanc'' @ [233] @ lit '' (sans d''
     @ [233] @ lit ''tailler la suite) et arr'' @ [234] @ lit ''te-toi : n'' @ [39]
     @ lit ''appelle plus d'' @ [39] @ lit ''outil.'')"

definition claim_nudge :: ustr where
  "claim_nudge = (lit ''Tu affirmes avoir agi mais tu n'' @ [39] @ lit ''as appel'' @ [233]
     @ lit '' aucun outil dans ce tour. Soit tu appelles maintenant les outils n'' @ [233]
     @ lit ''cessaires, soit tu reformules en disant ce qui a '' @ [233] @ lit ''t'' @ [233]
     @ lit '' fait AU TOUR PR'' @ [201] @ lit ''C'' @ [201] @ lit ''DENT (avec la r'' @ [233]
     @ lit ''f'' @ [233] @ lit ''rence) ou ce qui reste '' @ [224] @ lit '' faire. N'' @ [39]
     @ lit ''invente rien.'')"

definition unverified_prefix :: ustr where
  "unverified_prefix = ([9888, 65039] @ lit '' Non v'' @ [233] @ lit ''rifi'' @ [233] @ lit '' dans ce tour : '')"

section \<open>One call of a tool\<close>

definition the_reply :: "agent_env \<Rightarrow> ustr \<Rightarrow> call_record list \<Rightarrow> agent_reply" where
  "the_reply E text rs = \<lparr> rp_text = text, rp_calls = rs, rp_provider = ae_provider E, rp_plan = executed_plan rs \<rparr>"

definition cancelled_reply :: "agent_env \<Rightarrow> turn_state \<Rightarrow> agent_reply" where
  "cancelled_reply E ts = the_reply E
     (if ts_last ts = [] then (lit ''Arr'' @ [234] @ lit ''t'' @ [233] @ lit '' '' @ [224]
     @ lit '' ta demande, avant toute action.'')
      else (lit ''Arr'' @ [234] @ lit ''t'' @ [233] @ lit '' '' @ [224] @ lit '' ta demande apr''
     @ [232] @ lit ''s '' @ [171] @ lit '' '') @ ts_last ts @ (lit '' '' @ [187] @ lit ''.'')) (ts_records ts)"

definition turn_role :: "chat_ctx \<Rightarrow> ustr" where
  "turn_role C = unwrap_or (cx_role C) (lit ''ops'')"

definition may_call :: "chat_ctx \<Rightarrow> ustr \<Rightarrow> ustr \<Rightarrow> bool" where
  "may_call C msg tool \<longleftrightarrow> role_allows (turn_role C) (cx_kind C) tool (is_security_review_request msg)"

definition delegated_refusal :: json where
  "delegated_refusal = jobject [(''ok'', JBool False), (''code'', jstr ''delegated''),
     (''error'', JStr (lit ''T'' @ [226] @ lit ''che d'' @ [233] @ lit ''l'' @ [233] @ lit ''gu'' @ [233]
     @ lit ''e : laisse le worker travailler.''))]"

definition message_refusal :: "ustr \<Rightarrow> ustr \<Rightarrow> json \<Rightarrow> json option" where
  "message_refusal msg tool args = opt_or (refuse_bare_spec_approval tool args msg) (refuse_spec_publish tool msg)"

definition is_delegated :: "turn_state \<Rightarrow> ustr \<Rightarrow> bool" where
  "is_delegated ts tool \<longleftrightarrow> ts_delegated ts \<noteq> None \<and> tool \<noteq> lit ''delegate_task''"

definition call_refusal :: "agent_env \<Rightarrow> chat_ctx \<Rightarrow> ustr \<Rightarrow> int \<Rightarrow> turn_state \<Rightarrow> ustr \<Rightarrow> json \<Rightarrow> agent_db \<Rightarrow> agent_db \<times> json option" where
  "call_refusal E C msg t0 ts tool args d =
     (if is_delegated ts tool then (d, Some delegated_refusal)
      else case message_refusal msg tool args of
        Some b \<Rightarrow> (d, Some b)
      | None \<Rightarrow>
          if has_tool E tool \<and> \<not> may_call C msg tool then (d, Some (role_refusal (turn_role C) tool))
          else case remote_write_refusal E C tool args d of
            (d1, Some b) \<Rightarrow> (d1, Some b)
          | (d1, None) \<Rightarrow>
              (case replay_guard E C t0 tool args d1 of
                 (d2, Some b) \<Rightarrow> (d2, Some b)
               | (d2, None) \<Rightarrow>
                   (d2, if is_github_push tool args \<and> max_pushes_per_run (ae_push_var E) \<le> ts_pushes ts
                        then Some (push_limit_blocked tool args (max_pushes_per_run (ae_push_var E))) else None)))"

text \<open>\<open>ToolRegistry::execute\<close>, awaited to its end or dropped on the way.\<close>

definition ran :: "ustr \<Rightarrow> json \<Rightarrow> agent_world \<Rightarrow> ran_tool list" where
  "ran tool args w = aw_ran w @ [\<lparr> rn_tool = tool, rn_args = args, rn_db = aw_db w \<rparr>]"

definition registry_execute :: "agent_env \<Rightarrow> ustr \<Rightarrow> json \<Rightarrow> agent_world \<Rightarrow> agent_world \<times> (tool_error + json)" where
  "registry_execute E tool args w =
     (if has_tool E tool
      then case ae_tool E tool args (length (aw_ran w)) (aw_db w) of
             (r, d) \<Rightarrow> (w\<lparr> aw_db := d, aw_ran := ran tool args w \<rparr>, map_sum (\<lambda>e. e) redact_json r)
      else (w, Inl (NotFoundError (lit ''Unknown tool: '' @ tool))))"

definition registry_cut :: "agent_env \<Rightarrow> ustr \<Rightarrow> json \<Rightarrow> agent_world \<Rightarrow> agent_world" where
  "registry_cut E tool args w =
     (if has_tool E tool
      then w\<lparr> aw_db := ae_cut E tool args (length (aw_ran w)) (aw_db w), aw_ran := ran tool args w \<rparr>
      else w)"

definition opt_json :: "ustr option \<Rightarrow> json" where
  "opt_json s = (case s of None \<Rightarrow> JNull | Some t \<Rightarrow> JStr t)"

definition tool_value :: "tool_error + json \<Rightarrow> json" where
  "tool_value r =
     (case r of
        Inr v \<Rightarrow> v
      | Inl (NeedsUser kind m href hint) \<Rightarrow> jobject
          [(''ok'', JBool False), (''needs_user_action'', JBool True), (''kind'', JStr kind), (''message_fr'', JStr m),
           (''settings_href'', opt_json href), (''resume_hint'', opt_json hint)]
      | Inl e \<Rightarrow> jobject [(''ok'', JBool False), (''error'', JStr (show_tool_error e))])"

definition cancelled_value :: json where
  "cancelled_value = jobject [(''ok'', JBool False), (''cancelled'', JBool True), (''error'', JStr ((lit ''Arr'' @ [234] @ lit ''t'' @ [233] @ lit '' '' @ [224] @ lit '' ta demande.'')))]"

definition run_tool :: "agent_env \<Rightarrow> chat_ctx \<Rightarrow> ustr \<Rightarrow> json \<Rightarrow> agent_world \<Rightarrow> agent_world \<times> bool \<times> json" where
  "run_tool E C tool args w =
     (case on_db (receipt_start E C tool args) w of
        (w1, receipt) \<Rightarrow>
          (case token_stopped E C w1 of
             (w2, halted) \<Rightarrow>
               (case (if halted then (registry_cut E tool args w2, cancelled_value)
                      else case registry_execute E tool args w2 of (w3, r) \<Rightarrow> (w3, tool_value r)) of
                  (w3, v) \<Rightarrow> (w3\<lparr> aw_db := receipt_finish E tool receipt v (aw_db w3) \<rparr>, halted, v))))"

definition note_deploy :: "turn_state \<Rightarrow> ustr \<Rightarrow> bool \<Rightarrow> turn_state" where
  "note_deploy ts tool ok =
     (if ok \<and> tool \<in> set (map lit [''trigger_deploy'', ''publish_to_github'']) \<and> \<not> ts_deployed ts
      then ts\<lparr> ts_deployed := True, ts_messages := ts_messages ts @ [System post_deploy_nudge] \<rparr> else ts)"

text \<open>What the turn does with the result of a call.\<close>

definition after_call :: "agent_env \<Rightarrow> tool_call \<Rightarrow> json \<Rightarrow> json \<Rightarrow> bool \<Rightarrow> bool \<Rightarrow> turn_state \<Rightarrow> agent_reply + turn_state" where
  "after_call E call args v interrupted push_limited ts =
     (let tool = tc_name call; ok = result_ok v;
          rs = ts_records ts @ [\<lparr> cr_id = tc_id call, cr_name = tool, cr_args = args, cr_result = v \<rparr>]
      in if interrupted then Inl (cancelled_reply E (ts\<lparr> ts_records := rs \<rparr>))
         else let ts = (if tool = lit ''delegate_task'' \<and> ok \<and> ts_delegated ts = None
                        then ts\<lparr> ts_delegated := Some (unwrap_or (arg_str ''title'' v) ((lit ''la t'' @ [226] @ lit ''che''))) \<rparr> else ts)
         in if 2 \<le> ts_refusals ts
            then Inl (the_reply E ((lit ''J'' @ [39] @ lit ''ai lanc'' @ [233] @ lit '' un worker : '' @ [171] @ lit '' '') @ unwrap_or (ts_delegated ts) []
                 @ (lit '' '' @ [187] @ lit ''. Je te mets le r'' @ [233] @ lit ''sultat ici d'' @ [232]
     @ lit ''s qu'' @ [39] @ lit ''il a fini.'')) rs)
            else if tool = lit ''ask_user'' \<and> ok then Inl (the_reply E (unwrap_or (arg_str ''question'' v) []) rs)
            else if push_limited then Inl (the_reply E (unwrap_or (arg_str ''message_fr'' v) (lit ''Plafond de pushes atteint.'')) rs)
            else Inr (note_deploy (ts\<lparr> ts_records := rs, ts_messages := ts_messages ts @ [ToolResult (tc_id call) tool (for_model (re_print (ae_rc E)) (budget_from_env (ae_budget_var E)) tool args v)] \<rparr>) tool ok))"

definition one_call :: "agent_env \<Rightarrow> chat_ctx \<Rightarrow> ustr \<Rightarrow> int \<Rightarrow> tool_call \<Rightarrow> turn_state \<Rightarrow> agent_world \<Rightarrow> agent_world \<times> (agent_reply + turn_state)" where
  "one_call E C msg t0 call ts w =
     (let tool = tc_name call; args = prepare_args E C tool (tc_args call)
      in case token_stopped E C w of
           (w1, True) \<Rightarrow> (w1, Inl (cancelled_reply E ts))
         | (w1, False) \<Rightarrow>
             (let ts1 = (if is_delegated ts tool then ts\<lparr> ts_refusals := Suc (ts_refusals ts) \<rparr> else ts)
              in case on_db (call_refusal E C msg t0 ts tool args) w1 of
                   (w2, Some b) \<Rightarrow> (w2, after_call E call args b False (arg_str ''kind'' b = Some (lit ''push_limit'')) ts1)
                 | (w2, None) \<Rightarrow>
                     (case run_tool E C tool args w2 of
                        (w3, halted, v) \<Rightarrow> (w3, after_call E call args v halted False
                           (ts1\<lparr> ts_last := ae_label E tool args,
                                 ts_pushes := ts_pushes ts1 + (if is_github_push tool args then 1 else 0) \<rparr>)))))"

fun run_calls :: "agent_env \<Rightarrow> chat_ctx \<Rightarrow> ustr \<Rightarrow> int \<Rightarrow> tool_call list \<Rightarrow> turn_state \<Rightarrow> agent_world \<Rightarrow> agent_world \<times> (agent_reply + turn_state)" where
  "run_calls E C msg t0 [] ts w = (w, Inr ts)"
| "run_calls E C msg t0 (c # cs) ts w =
     (case one_call E C msg t0 c ts w of
        (w', Inl r) \<Rightarrow> (w', Inl r)
      | (w', Inr ts') \<Rightarrow> run_calls E C msg t0 cs ts' w')"

section \<open>The rounds\<close>

datatype round_end = Reply agent_reply | Broken tool_error | Again turn_state

definition ask_model :: "agent_env \<Rightarrow> chat_ctx \<Rightarrow> ustr \<Rightarrow> turn_state \<Rightarrow> agent_world \<Rightarrow> agent_world \<times> (tool_error + (ustr \<times> tool_call list)) option" where
  "ask_model E C msg ts w =
     (case token_stopped E C w of
        (w1, True) \<Rightarrow> (w1, None)
      | (w1, False) \<Rightarrow>
          (case ae_model E (ts_messages ts) (filter (may_call C msg) (map fst (ae_registry E))) (aw_turns w1) (aw_db w1) of
             (r, d) \<Rightarrow> (w1\<lparr> aw_db := d, aw_turns := Suc (aw_turns w1) \<rparr>, Some r)))"

definition answer_text :: "agent_env \<Rightarrow> bool \<Rightarrow> ustr \<Rightarrow> turn_state \<Rightarrow> round_end" where
  "answer_text E rounds_left content ts =
     (let reply = Reply (the_reply E (if trim content = [] then (lit ''Termin'' @ [233] @ lit ''.'') else content) (ts_records ts))
      in if ts_records ts = [] \<and> ae_claim E content
         then (if \<not> ts_claimed ts \<and> rounds_left
               then Again (ts\<lparr> ts_claimed := True, ts_messages := ts_messages ts @ [Assistant content, System claim_nudge] \<rparr>)
               else if ts_claimed ts
               then Reply \<lparr> rp_text = unverified_prefix @ trim content, rp_calls = ts_records ts, rp_provider = ae_provider E, rp_plan = False \<rparr>
               else reply)
         else reply)"

definition nudge_delegated :: "turn_state \<Rightarrow> turn_state" where
  "nudge_delegated ts =
     (if ts_delegated ts \<noteq> None \<and> \<not> list_ex (\<lambda>m. chat_text m = delegated_nudge) (ts_messages ts)
      then ts\<lparr> ts_messages := ts_messages ts @ [System delegated_nudge] \<rparr> else ts)"

definition warned :: "agent_env \<Rightarrow> nat \<Rightarrow> turn_state \<Rightarrow> turn_state" where
  "warned E round ts =
     (case (if 2 \<le> round then detect_duplicate_calls E (ts_records ts) else None) of
        Some m \<Rightarrow> ts\<lparr> ts_messages := ts_messages ts @ [System m] \<rparr>
      | None \<Rightarrow> ts)"

definition one_round :: "agent_env \<Rightarrow> chat_ctx \<Rightarrow> ustr \<Rightarrow> int \<Rightarrow> nat \<Rightarrow> turn_state \<Rightarrow> agent_world \<Rightarrow> agent_world \<times> round_end" where
  "one_round E C msg t0 round ts0 w =
     (case token_stopped E C w of
        (w1, True) \<Rightarrow> (w1, Reply (cancelled_reply E ts0))
      | (w1, False) \<Rightarrow>
          (let ts = warned E round ts0
           in case (if 2 \<le> round then detect_repeated_failures E (ts_records ts) else None) of
                Some m \<Rightarrow> (w1, Reply (the_reply E m (ts_records ts)))
              | None \<Rightarrow>
                  (case ask_model E C msg ts w1 of
                     (w2, None) \<Rightarrow> (w2, Reply (cancelled_reply E ts))
                   | (w2, Some (Inl e)) \<Rightarrow> (w2, Broken e)
                   | (w2, Some (Inr (content, []))) \<Rightarrow> (w2, answer_text E (Suc round < max_rounds) content ts)
                   | (w2, Some (Inr (content, calls))) \<Rightarrow>
                       (case run_calls E C msg t0 calls (ts\<lparr> ts_messages := ts_messages ts @ [AssistantTools content calls] \<rparr>) w2 of
                          (w3, Inl r) \<Rightarrow> (w3, Reply r)
                        | (w3, Inr ts') \<Rightarrow> (w3, Again (nudge_delegated ts'))))))"

text \<open>The rounds that remain; the answer is an error or a reply.\<close>

fun run_rounds :: "agent_env \<Rightarrow> chat_ctx \<Rightarrow> ustr \<Rightarrow> int \<Rightarrow> nat \<Rightarrow> turn_state \<Rightarrow> agent_world \<Rightarrow> agent_world \<times> (tool_error + agent_reply)" where
  "run_rounds E C msg t0 0 ts w =
     (w, Inr (the_reply E ((lit ''Limite de tours agent atteinte '' @ [8212] @ lit '' voici les tool calls effectu''
     @ [233] @ lit ''s.'')) (ts_records ts)))"
| "run_rounds E C msg t0 (Suc n) ts w =
     (case one_round E C msg t0 (max_rounds - Suc n) ts w of
        (w', Reply r) \<Rightarrow> (w', Inr r)
      | (w', Broken e) \<Rightarrow> (w', Inl e)
      | (w', Again ts') \<Rightarrow> run_rounds E C msg t0 n ts' w')"

definition first_state :: "agent_env \<Rightarrow> chat_ctx \<Rightarrow> ustr \<Rightarrow> turn_state" where
  "first_state E C msg =
     \<lparr> ts_messages = opening_messages E C msg, ts_records = [], ts_claimed = False, ts_deployed = False, ts_last = [],
        ts_delegated = None, ts_refusals = 0, ts_pushes = 0 \<rparr>"

definition run_loop :: "agent_env \<Rightarrow> chat_ctx \<Rightarrow> ustr \<Rightarrow> agent_world \<Rightarrow> agent_world \<times> (tool_error + agent_reply)" where
  "run_loop E C msg w = run_rounds E C msg (ad_now (aw_db w)) max_rounds (first_state E C msg) w"

section \<open>A tool asked for by name\<close>

definition summarize :: "agent_env \<Rightarrow> ustr \<Rightarrow> json \<Rightarrow> ustr" where
  "summarize E tool result =
     (if Option.bind (jgets ''ok'' result) as_bool = Some True then ([10003] @ lit '' '') @ tool @ (lit '' OK.'' @ [10]) @ ae_pretty E result
      else ([10007] @ lit '' '') @ tool @ lit '' : ''
        @ unwrap_or (Option.bind (opt_or (jgets ''error'' result) (jgets ''reason'' result)) as_str) (([233] @ lit ''chec'')) @ [10] @ ae_pretty E result)"

definition forced_refusal :: "agent_env \<Rightarrow> chat_ctx \<Rightarrow> ustr \<Rightarrow> ustr \<Rightarrow> json \<Rightarrow> agent_db \<Rightarrow> agent_db \<times> json option" where
  "forced_refusal E C msg tool args d =
     (case message_refusal msg tool args of
        Some b \<Rightarrow> (d, Some b)
      | None \<Rightarrow>
          (case remote_write_refusal E C tool args d of
             (d1, Some b) \<Rightarrow> (d1, Some b)
           | (d1, None) \<Rightarrow> replay_guard E C (ad_now d) tool args d1))"

definition run_forced :: "agent_env \<Rightarrow> chat_ctx \<Rightarrow> ustr \<Rightarrow> ustr \<Rightarrow> json \<Rightarrow> agent_world \<Rightarrow> agent_world \<times> (tool_error + json)" where
  "run_forced E C msg tool args w =
     (case on_db (forced_refusal E C msg tool args) w of
        (w1, Some b) \<Rightarrow> (w1, Inr b)
      | (w1, None) \<Rightarrow>
          (case on_db (receipt_start E C tool args) w1 of
             (w2, receipt) \<Rightarrow>
               (case registry_execute E tool args w2 of
                  (w3, r) \<Rightarrow>
                    (w3\<lparr> aw_db := receipt_finish E tool receipt
                       (case r of Inr v \<Rightarrow> v | Inl e \<Rightarrow> jobject [(''ok'', JBool False), (''error'', JStr (show_tool_error e))]) (aw_db w3) \<rparr>, r))))"

definition handle_with_provider ::
    "agent_env \<Rightarrow> chat_ctx \<Rightarrow> ustr \<Rightarrow> ustr option \<Rightarrow> json option \<Rightarrow> agent_world \<Rightarrow> agent_world \<times> (tool_error + agent_reply)" where
  "handle_with_provider E C msg force_tool force_args w =
     (case non_empty force_tool of
        None \<Rightarrow> run_loop E C msg w
      | Some tool \<Rightarrow>
          (let args = prepare_args E C tool (unwrap_or force_args (JObj []))
           in case run_forced E C msg tool args w of
                (w', Inl e) \<Rightarrow> (w', Inl e)
              | (w', Inr v) \<Rightarrow> (w', Inr
                  \<lparr> rp_text = summarize E tool v,
                     rp_calls = [\<lparr> cr_id = lit ''forced-'' @ tool, cr_name = tool, cr_args = args, cr_result = v \<rparr>],
                     rp_provider = ae_provider E, rp_plan = False \<rparr>)))"

end
