(* ===== verification/ReceiptsServer.thy ===== *)
theory ReceiptsServer
  imports Receipts
begin

text \<open>
  The receipts in the server, \<open>apps/server/src/receipts.rs\<close>: the receipts of what a user confirms, their
  reconciliation with the deployments, the pages of the list; and the routes of \<open>routes.rs\<close> that give
  a grant, publish a project and change the setting of autonomous publication. The user, the project and
  what the request says of the session come with the call, as the authentication answered them; the
  table of deployments is an argument, being written by the deployment queue.
\<close>

record user_row =
  us_uuid :: ustr
  us_email :: ustr
  us_name :: ustr
  us_role :: ustr

record server_project =
  sj_uuid :: ustr
  sj_workspace :: ustr
  sj_name :: ustr
  sj_slug :: ustr
  sj_branch :: "ustr option"
  sj_repository :: "ustr option"

record client_headers =
  ch_client :: "ustr option"
  ch_agent :: "ustr option"

record deployment_row =
  dr_uuid :: ustr
  dr_status :: ustr
  dr_sha :: "ustr option"
  dr_error :: "ustr option"

section \<open>Reconciliation\<close>

definition deployment_final :: "deployment_row \<Rightarrow> bool" where
  "deployment_final d \<longleftrightarrow> dr_status d \<in> set (map lit [''success'', ''failed'', ''cancelled''])"

definition known_version :: "deployment_row \<Rightarrow> ustr option" where
  "known_version d = opt_filter (\<lambda>s. s \<notin> set (map lit [''pending'', ''unknown''])) (dr_sha d)"

definition reconciled :: "int \<Rightarrow> deployment_row \<Rightarrow> receipt \<Rightarrow> receipt" where
  "reconciled now d r =
     (let ok = dr_status d = lit ''success''
      in r\<lparr> rc_status := (if ok then Done else Failed),
            rc_version := opt_or (known_version d) (rc_version r),
            rc_detail := (if ok \<and> rc_status r = Unknown then Some ((lit ''Termin'' @ [233] @ lit '' apr'' @ [232] @ lit ''s un red'' @ [233]
     @ lit ''marrage de DevForge.''))
               else if ok then rc_detail r
               else if dr_status d = lit ''cancelled'' then Some ((lit ''D'' @ [233] @ lit ''ploiement annul'' @ [233] @ lit '' (arr'' @ [234] @ lit ''t''
     @ [233] @ lit '' ou remplac'' @ [233] @ lit '' par un plus r'' @ [233] @ lit ''cent).''))
               else Some (unwrap_or (dr_error d) (([201] @ lit ''chec du d'' @ [233] @ lit ''ploiement'')))),
            rc_finished := Some now, rc_updated := now \<rparr>)"

definition linked :: "deployment_row list \<Rightarrow> receipt \<Rightarrow> deployment_row option" where
  "linked deps r =
     (if rc_status r \<in> {Executing, Unknown}
      then opt_filter deployment_final (Option.bind (rc_deployment r) (\<lambda>u. find (\<lambda>d. dr_uuid d = u) deps))
      else None)"

definition reconcile :: "deployment_row list \<Rightarrow> agent_db \<Rightarrow> agent_db \<times> nat option" where
  "reconcile deps =
     ask (\<lambda>w. (w\<lparr> ad_receipts := map (\<lambda>r. case linked deps r of Some d \<Rightarrow> reconciled (ad_now w) d r | None \<Rightarrow> r) (ad_receipts w) \<rparr>,
       length (filter (\<lambda>r. linked deps r \<noteq> None) (ad_receipts w))))"

definition recover_at_boot :: "deployment_row list \<Rightarrow> agent_db \<Rightarrow> agent_db" where
  "recover_at_boot deps d = fst (expire_stale (fst (reconcile deps (fst (mark_interrupted d)))))"

section \<open>What a user confirms\<close>

definition source_from_headers :: "client_headers \<Rightarrow> ustr" where
  "source_from_headers h =
     (let explicit = unwrap_or (map_option (\<lambda>s. to_lowercase (trim s)) (ch_client h)) [];
          ua = to_lowercase (unwrap_or (ch_agent h) [])
      in if explicit \<in> set (map lit [''web'', ''android'', ''api'', ''agent'']) then explicit
         else if contains ua (lit ''okhttp'') \<or> contains ua (lit ''devforge-android'') then lit ''android''
         else if contains ua (lit ''mozilla'') then lit ''web''
         else lit ''api'')"

definition user_label :: "user_row \<Rightarrow> ustr" where
  "user_label u = (if trim (us_name u) = [] then us_email u else trim (us_name u))"

definition action_labels :: "(ustr \<times> ustr) list" where
  "action_labels =
     [(lit ''deploy'', lit ''Mettre en ligne''),
      (lit ''rebuild'', lit ''Reconstruire''),
      (lit ''retry'', lit ''Relancer la mise en ligne''),
      (lit ''publish'', lit ''Publier sur GitHub''),
      (lit ''restart'', (lit ''Red'' @ [233] @ lit ''marrer'')),
      (lit ''stop'', (lit ''Arr'' @ [234] @ lit ''ter'')),
      (lit ''build'', (lit ''Reconstruire l'' @ [39] @ lit ''image'')),
      (lit ''cancel_deploy'', (lit ''Arr'' @ [234] @ lit ''ter un d'' @ [233] @ lit ''ploiement'')),
      (lit ''publish_approval'', (lit ''Accord de publication '' @ [224] @ lit '' l'' @ [39] @ lit ''agent'')),
      (lit ''autonomous_publish'', (lit ''Publication autonome de l'' @ [39] @ lit ''agent'')),
      (lit ''autonomous_publish_setting'', (lit ''R'' @ [233] @ lit ''glage '' @ [171] @ lit '' publication autonome '' @ [187]))]"

definition action_label :: "ustr \<Rightarrow> ustr" where
  "action_label action = unwrap_or (map_of action_labels action) (lit ''Action'')"

definition deploy_action :: "ustr option \<Rightarrow> ustr" where
  "deploy_action requested =
     (let a = unwrap_or (map_option (\<lambda>s. to_lowercase (trim s)) requested) []
      in if a \<in> set (map lit [''rebuild'', ''retry'', ''publish'']) then a else lit ''deploy'')"

definition not_blank :: "ustr option \<Rightarrow> ustr option" where
  "not_blank = opt_filter (\<lambda>s. trim s \<noteq> [])"

definition user_receipt :: "client_headers \<Rightarrow> user_row \<Rightarrow> server_project \<Rightarrow> string \<Rightarrow> ustr \<Rightarrow> ustr option \<Rightarrow> ustr option \<Rightarrow> new_receipt" where
  "user_receipt h u p action target version detail =
     \<lparr> nr_workspace = Some (sj_workspace p), nr_project = Some (sj_uuid p), nr_project_name = Some (sj_name p),
        nr_action = lit action, nr_label = action_label (lit action), nr_target = target, nr_version = version,
        nr_source = source_from_headers h, nr_by = Some (us_uuid u), nr_by_label = Some (user_label u), nr_approved = None,
        nr_run = None, nr_tool = None, nr_deployment = None, nr_detail = detail, nr_hash = None \<rparr>"

definition begin_for_user ::
    "receipt_env \<Rightarrow> client_headers \<Rightarrow> user_row \<Rightarrow> server_project \<Rightarrow> string \<Rightarrow> ustr option \<Rightarrow> ustr option \<Rightarrow> agent_db \<Rightarrow> agent_db \<times> ustr option" where
  "begin_for_user E h u p action target version =
     begin_receipt E (user_receipt h u p action (unwrap_or target (sj_name p))
       (opt_or (opt_filter (\<lambda>v. v \<noteq> lit ''pending'') (not_blank version)) (not_blank (sj_branch p))) None)"

definition finish_for_user :: "ustr option \<Rightarrow> bool \<Rightarrow> ustr option \<Rightarrow> agent_db \<Rightarrow> agent_db" where
  "finish_for_user receipt ok detail d =
     (case receipt of None \<Rightarrow> d | Some u \<Rightarrow> fst (finish_receipt u (if ok then Done else Failed) detail d))"

definition link_for_user :: "ustr option \<Rightarrow> ustr \<Rightarrow> agent_db \<Rightarrow> agent_db" where
  "link_for_user receipt dep d = (case receipt of None \<Rightarrow> d | Some u \<Rightarrow> fst (link_deployment u dep d))"

definition record_publish_approval :: "receipt_env \<Rightarrow> client_headers \<Rightarrow> user_row \<Rightarrow> server_project \<Rightarrow> agent_db \<Rightarrow> agent_db" where
  "record_publish_approval E h u p d =
     (case approve_pending (sj_uuid p) (Some (us_uuid u)) (Some (user_label u)) d of
        (d1, n) \<Rightarrow> fst (record_done E (user_receipt h u p ''publish_approval'' (sj_name p) (sj_branch p)
          (Some (if 0 < unwrap_or n 0 then lit ''Accord de 15 min ; '' @ dec (unwrap_or n 0) @ (lit '' action(s) de l'' @ [39] @ lit ''agent valid'' @ [233] @ lit ''e(s).'')
                 else (lit ''Accord de 15 min pour les actions distantes de l'' @ [39] @ lit ''agent.'')))) d1))"

definition record_autonomous_publish :: "receipt_env \<Rightarrow> server_project \<Rightarrow> autonomous_row \<Rightarrow> ustr \<Rightarrow> agent_db \<Rightarrow> agent_db \<times> ustr option" where
  "record_autonomous_publish E p a dep d =
     (let by = unwrap_or (au_label a) (lit ''un admin'')
      in case begin_receipt E
           \<lparr> nr_workspace = Some (sj_workspace p), nr_project = Some (sj_uuid p), nr_project_name = Some (sj_name p),
              nr_action = lit ''autonomous_publish'', nr_label = action_label (lit ''autonomous_publish''), nr_target = sj_name p,
              nr_version = not_blank (sj_branch p), nr_source = lit ''agent'', nr_by = au_by a,
              nr_by_label = Some ((lit ''Publication autonome (activ'' @ [233] @ lit ''e par '') @ by @ lit '')''), nr_approved = re_date E (trim (au_at a)),
              nr_run = None, nr_tool = Some (lit ''trigger_deploy''), nr_deployment = None,
              nr_detail = Some ((lit ''Mise en ligne lanc'' @ [233] @ lit ''e par l'' @ [39]
     @ lit ''agent sans accord de 15 min (r'' @ [233] @ lit ''glage activ'' @ [233]
     @ lit '' par '') @ by @ lit '').''),
              nr_hash = None \<rparr> d of
           (d1, Some u) \<Rightarrow> (fst (link_deployment u dep d1), Some u)
         | (d1, None) \<Rightarrow> (d1, None))"

definition record_autonomous_setting :: "receipt_env \<Rightarrow> client_headers \<Rightarrow> user_row \<Rightarrow> server_project \<Rightarrow> bool \<Rightarrow> agent_db \<Rightarrow> agent_db" where
  "record_autonomous_setting E h u p enabled d =
     fst (record_done E (user_receipt h u p ''autonomous_publish_setting'' (sj_name p) None
       (Some (if enabled then (lit ''Activ'' @ [233] @ lit ''e : l'' @ [39]
     @ lit ''agent peut mettre ce projet en ligne sans accord de 15 min.'')
              else (lit ''D'' @ [233] @ lit ''sactiv'' @ [233] @ lit ''e : chaque mise en ligne de l''
     @ [39] @ lit ''agent demande de nouveau un accord.'')))) d)"

section \<open>The list\<close>

record list_query =
  lq_project :: "ustr option"
  lq_status :: "ustr option"
  lq_action :: "ustr option"
  lq_source :: "ustr option"
  lq_before :: "ustr option"
  lq_limit :: "int option"

definition csv :: "ustr option \<Rightarrow> ustr list option" where
  "csv v =
     (let items = filter (\<lambda>s. s \<noteq> []) (map trim (split_on (\<lambda>c. c = 44) (unwrap_or v [])))
      in if items = [] then None else Some items)"

fun status_text :: "receipt_status \<Rightarrow> ustr" where
  "status_text Pending = lit ''pending''"
| "status_text Approved = lit ''approved''"
| "status_text Executing = lit ''executing''"
| "status_text Done = lit ''done''"
| "status_text Failed = lit ''failed''"
| "status_text Unknown = lit ''unknown''"
| "status_text Expired = lit ''expired''"

definition in_workspace :: "ustr \<Rightarrow> agent_db \<Rightarrow> receipt \<Rightarrow> bool" where
  "in_workspace ws w r \<longleftrightarrow> rc_workspace r = Some ws \<or>
     is_some_and (rc_project r) (\<lambda>p. list_ex (\<lambda>x. wk_project x = p \<and> wk_workspace x = Some ws) (ad_projects w))"

definition none_or :: "'a option \<Rightarrow> ('a \<Rightarrow> bool) \<Rightarrow> bool" where
  "none_or x p \<longleftrightarrow> (case x of None \<Rightarrow> True | Some y \<Rightarrow> p y)"

definition query_limit :: "list_query \<Rightarrow> nat" where
  "query_limit q = nat (min 200 (max 1 (unwrap_or (lq_limit q) 50)))"

definition query_matches :: "receipt_env \<Rightarrow> ustr \<Rightarrow> list_query \<Rightarrow> agent_db \<Rightarrow> receipt \<Rightarrow> bool" where
  "query_matches E ws q w r \<longleftrightarrow> in_workspace ws w r
     \<and> none_or (not_blank (lq_project q)) (\<lambda>p. rc_project r = Some p)
     \<and> none_or (csv (lq_status q)) (\<lambda>l. status_text (rc_status r) \<in> set l)
     \<and> none_or (csv (lq_action q)) (\<lambda>l. rc_action r \<in> set l)
     \<and> none_or (not_blank (lq_source q)) (\<lambda>s. rc_source r = s)
     \<and> none_or (Option.bind (lq_before q) (\<lambda>b. re_date E (trim b))) (\<lambda>t. rc_created r < t)"

definition list_for_workspace :: "receipt_env \<Rightarrow> deployment_row list \<Rightarrow> ustr \<Rightarrow> list_query \<Rightarrow> agent_db \<Rightarrow> agent_db \<times> receipt list option" where
  "list_for_workspace E deps ws q d =
     ask (\<lambda>w. (w, take (query_limit q) (sort_key (\<lambda>r. - rc_created r) (filter (query_matches E ws q w) (ad_receipts w)))))
       (fst (reconcile deps (fst (expire_stale d))))"

definition get_for_workspace :: "deployment_row list \<Rightarrow> ustr \<Rightarrow> ustr \<Rightarrow> agent_db \<Rightarrow> agent_db \<times> receipt option option" where
  "get_for_workspace deps ws uuid d =
     ask (\<lambda>w. (w, find (\<lambda>r. rc_uuid r = uuid \<and> in_workspace ws w r) (ad_receipts w))) (fst (reconcile deps d))"

definition list_page :: "receipt_env \<Rightarrow> deployment_row list \<Rightarrow> ustr \<Rightarrow> list_query \<Rightarrow> agent_db \<Rightarrow> agent_db \<times> (receipt list \<times> ustr option) option" where
  "list_page E deps ws q d =
     (case list_for_workspace E deps ws q d of
        (d', rows) \<Rightarrow> (d', map_option (\<lambda>rs. (rs,
          if length rs = query_limit q \<and> rs \<noteq> [] then Some (re_show_date E (rc_created (last rs))) else None)) rows))"

section \<open>Routes\<close>

datatype route_error = Forbidden ustr | Database | Message ustr

definition grant_ttl :: int where
  "grant_ttl = 15 * 60000000000"

definition grant_publish :: "receipt_env \<Rightarrow> ustr \<Rightarrow> user_row \<Rightarrow> agent_db \<Rightarrow> agent_db \<times> unit option" where
  "grant_publish E project u d =
     (let now = ad_now d
      in ask (\<lambda>w. (w\<lparr> ad_grants := upsert_row gt_project (\<lambda>old new. new)
           \<lparr> gt_project = project, gt_granted = re_show_date E now, gt_expires = re_show_date E (now + grant_ttl),
              gt_by = Some (us_uuid u), gt_label = Some (user_label u) \<rparr> (ad_grants w) \<rparr>, ())) d)"

definition approve_publish :: "receipt_env \<Rightarrow> client_headers \<Rightarrow> user_row \<Rightarrow> server_project \<Rightarrow> agent_db \<Rightarrow> agent_db \<times> (route_error + json)" where
  "approve_publish E h u p d =
     (case grant_publish E (sj_uuid p) u d of
        (d1, None) \<Rightarrow> (d1, Inl Database)
      | (d1, Some _) \<Rightarrow> (record_publish_approval E h u p d1, Inr (jobject
          [(''ok'', JBool True), (''expires_in_seconds'', JNum (lit ''900'')),
           (''message'', JStr ((lit ''Accord enregistr'' @ [233] @ lit ''. L'' @ [39]
     @ lit ''agent peut publier pendant 15 minutes.'')))])))"

definition autonomous_edit_refusal :: "ustr \<Rightarrow> bool \<Rightarrow> ustr option" where
  "autonomous_edit_refusal role ui_session =
     (if role \<noteq> lit ''instance_admin''
      then Some ((lit ''R'' @ [233] @ lit ''serv'' @ [233] @ lit '' '' @ [224] @ lit '' un admin de l''
     @ [39] @ lit ''instance : la publication autonome se r'' @ [232]
     @ lit ''gle par un admin.''))
      else if \<not> ui_session
      then Some (([192] @ lit '' r'' @ [233] @ lit ''gler depuis l'' @ [39]
     @ lit ''interface DevForge : un jeton d'' @ [39] @ lit ''API ou d'' @ [39]
     @ lit ''agent ne peut pas changer ce r'' @ [233] @ lit ''glage.''))
      else None)"

definition setting_json :: "autonomous_row option \<Rightarrow> bool \<Rightarrow> json" where
  "setting_json a can_edit =
     (let text = (\<lambda>x. case x of None \<Rightarrow> JNull | Some s \<Rightarrow> JStr s)
      in jobject [(''enabled'', JBool (a \<noteq> None)), (''enabled_by_label'', text (Option.bind a au_label)),
           (''enabled_at'', text (map_option au_at a)), (''can_edit'', JBool can_edit), (''covers'', JArr (map JStr autonomous_tools))])"

definition get_autonomous_route :: "user_row \<Rightarrow> bool \<Rightarrow> server_project \<Rightarrow> agent_db \<Rightarrow> agent_db \<times> json" where
  "get_autonomous_route u ui_session p d =
     (case autonomous_publish (sj_uuid p) d of
        (d1, a) \<Rightarrow> (d1, jobject [(''data'', setting_json a (autonomous_edit_refusal (us_role u) ui_session = None))]))"

definition set_autonomous_route ::
    "receipt_env \<Rightarrow> client_headers \<Rightarrow> user_row \<Rightarrow> bool \<Rightarrow> server_project \<Rightarrow> bool \<Rightarrow> agent_db \<Rightarrow> agent_db \<times> (route_error + json)" where
  "set_autonomous_route E h u ui_session p enabled d =
     (case autonomous_edit_refusal (us_role u) ui_session of
        Some m \<Rightarrow> (d, Inl (Forbidden m))
      | None \<Rightarrow>
          (case set_autonomous_publish E (sj_uuid p) enabled (Some (us_uuid u)) (Some (user_label u)) d of
             (d1, None) \<Rightarrow> (d1, Inl Database)
           | (d1, Some _) \<Rightarrow>
               (case autonomous_publish (sj_uuid p) (record_autonomous_setting E h u p enabled d1) of
                  (d2, a) \<Rightarrow> (d2, Inr (jobject
                    [(''ok'', JBool True), (''data'', setting_json a True),
                     (''message'', JStr (if enabled
                        then (lit ''Publication autonome activ'' @ [233] @ lit ''e : l'' @ [39]
     @ lit ''agent peut mettre ce projet en ligne sans accord de 15 min.'')
                        else (lit ''Publication autonome d'' @ [233] @ lit ''sactiv'' @ [233] @ lit ''e : l'' @ [39]
     @ lit ''accord de 15 min est de nouveau requis.'')))])))))"

text \<open>The slug without its suffix of four letters and digits.\<close>

definition repo_from_slug :: "ustr \<Rightarrow> ustr" where
  "repo_from_slug slug =
     (case rsplit_once 45 slug of
        Some (a, b) \<Rightarrow> if utf8_len b = 4 \<and> list_all is_ascii_alnum b then a else slug
      | None \<Rightarrow> slug)"

record publish_body =
  pb_repo :: "ustr option"
  pb_description :: "ustr option"
  pb_private :: "bool option"

text \<open>\<open>exec\<close> runs the tool \<open>publish_to_github\<close> of the registry; an error comes as its text.\<close>

definition publish_project ::
    "receipt_env \<Rightarrow> (json \<Rightarrow> agent_db \<Rightarrow> agent_db \<times> (ustr + json)) \<Rightarrow> client_headers \<Rightarrow> user_row \<Rightarrow> server_project \<Rightarrow> publish_body
     \<Rightarrow> agent_db \<Rightarrow> agent_db \<times> (route_error + nat \<times> json)" where
  "publish_project E exec h u p body d =
     (case grant_publish E (sj_uuid p) u d of
        (d1, None) \<Rightarrow> (d1, Inl Database)
      | (d1, Some _) \<Rightarrow>
          (let repo = unwrap_or (pb_repo body) (repo_from_slug (sj_slug p));
               description = unwrap_or (pb_description body) (lit ''Application '' @ sj_name p @ (lit '' g'' @ [233] @ lit ''n'' @ [233] @ lit ''r'' @ [233] @ lit ''e par DevForge''))
           in case not_blank (sj_repository p) of
                Some url \<Rightarrow> (d1, Inr (200, jobject
                  [(''ok'', JBool True), (''already_published'', JBool True), (''git_repository'', JStr url),
                   (''message'', JStr ((lit ''Le projet est d'' @ [233] @ lit ''j'' @ [224] @ lit '' publi'' @ [233]
     @ lit '' sur GitHub.'')))]))
              | None \<Rightarrow>
                  (case begin_for_user E h u p ''publish'' (Some (sj_name p @ (lit '' '' @ [8594] @ lit '' GitHub '') @ repo)) None d1 of
                     (d2, rc) \<Rightarrow>
                       (case exec (jobject [(''project_uuid'', JStr (sj_uuid p)), (''repo_name'', JStr repo),
                            (''description'', JStr description), (''private'', JBool (unwrap_or (pb_private body) True))]) d2 of
                          (d3, Inl e) \<Rightarrow> (finish_for_user rc False (Some e) d3, Inl (Message e))
                        | (d3, Inr v) \<Rightarrow>
                            ((case rc of
                                None \<Rightarrow> d3
                              | Some x \<Rightarrow> (case tool_outcome v of (st, detail) \<Rightarrow> fst (finish_receipt x st detail d3))),
                             Inr (if unwrap_or (Option.bind (jgets ''ok'' v) as_bool) False then 200 else 422, jobject [(''data'', v)]))))))"

end
