(* ===== verification/ReceiptsFacts.thy ===== *)
theory ReceiptsFacts
  imports ReceiptsServer
begin

text \<open>
  The life of a receipt: what one statement does to every row of the table, and what any sequence of
  statements from any number of processes does, whichever of them fail.
\<close>

section \<open>The life of a receipt\<close>

fun may_become :: "receipt_status \<Rightarrow> receipt_status \<Rightarrow> bool" where
  "may_become Pending b = True"
| "may_become Approved b = (b \<noteq> Pending)"
| "may_become Executing b = (b \<in> {Executing, Done, Failed, Unknown})"
| "may_become Unknown b = (b \<in> {Unknown, Done, Failed})"
| "may_become Done b = (b = Done)"
| "may_become Failed b = (b = Failed)"
| "may_become Expired b = (b = Expired)"

lemma may_become_refl [simp]: "may_become a a"
  by (cases a) simp_all

lemma may_become_trans: "may_become a b \<Longrightarrow> may_become b c \<Longrightarrow> may_become a c"
  by (cases a; cases b; cases c) simp_all

definition advanced :: "receipt \<Rightarrow> receipt \<Rightarrow> bool" where
  "advanced r r' \<longleftrightarrow> rc_uuid r' = rc_uuid r \<and> rc_project r' = rc_project r \<and> rc_hash r' = rc_hash r \<and>
     rc_created r' = rc_created r \<and> may_become (rc_status r) (rc_status r')"

lemma advanced_refl [simp]: "advanced r r"
  by (simp add: advanced_def)

lemma advanced_trans: "advanced a b \<Longrightarrow> advanced b c \<Longrightarrow> advanced a c"
  by (auto simp: advanced_def intro: may_become_trans)

text \<open>Rows are never lost: the rows there were come first, each advanced, then the new ones.\<close>

definition ledger :: "agent_db \<Rightarrow> agent_db \<Rightarrow> bool" where
  "ledger d d' \<longleftrightarrow> list_all2 advanced (ad_receipts d) (take (length (ad_receipts d)) (ad_receipts d'))"

lemma ledgerI: "ad_receipts d' = map f (ad_receipts d) @ new \<Longrightarrow> (\<And>r. r \<in> set (ad_receipts d) \<Longrightarrow> advanced r (f r)) \<Longrightarrow> ledger d d'"
  by (simp add: ledger_def list_all2_conv_all_nth)

lemma ledger_same: "ad_receipts d' = ad_receipts d \<Longrightarrow> ledger d d'"
  by (rule ledgerI [where f = "\<lambda>r. r" and new = "[]"]) simp_all

lemma ledger_trans: "ledger a b \<Longrightarrow> ledger b c \<Longrightarrow> ledger a c"
  unfolding ledger_def list_all2_conv_all_nth
  by (auto intro: advanced_trans)

lemma ledger_faults: "ledger (d\<lparr> ad_faults := fs \<rparr>) d' = ledger d d'"
  by (simp add: ledger_def)

lemma ask_ledger:
  assumes "\<And>w. ledger w (fst (q w))"
  shows "ledger w (fst (ask q w))"
proof -
  have "ledger w (fst (q (w\<lparr> ad_faults := fs \<rparr>)))" for fs
    using assms [of "w\<lparr> ad_faults := fs \<rparr>"] by (simp add: ledger_faults)
  then show ?thesis
    using assms [of w] by (simp add: ask_def case_prod_beta ledger_same split: list.split bool.split)
qed

lemma ask_answer: "snd (ask q w) = None \<or> (\<exists>fs. ask q w = map_prod (\<lambda>d. d) Some (q (w\<lparr> ad_faults := fs \<rparr>)))"
proof (cases "ad_faults w")
  case Nil
  then have same: "w\<lparr> ad_faults := [] \<rparr> = w" by (cases w) simp
  have "ask q w = map_prod (\<lambda>d. d) Some (q w)" by (simp add: ask_def map_prod_def Nil)
  then have "ask q w = map_prod (\<lambda>d. d) Some (q (w\<lparr> ad_faults := [] \<rparr>))" by (simp only: same)
  then show ?thesis by blast
next
  case (Cons b fs)
  then show ?thesis by (cases b) (auto simp: ask_def map_prod_def)
qed

lemma no_faults_ask: "ad_faults d = [] \<Longrightarrow> ask q d = (case q d of (d', x) \<Rightarrow> (d', Some x))"
  by (simp add: ask_def)

lemma set_receipts_ledger:
  "(\<And>r. p r \<Longrightarrow> advanced r (f r)) \<Longrightarrow> ledger w (set_receipts p f w)"
  by (rule ledgerI [where f = "\<lambda>r. if p r then f r else r" and new = "[]"]) (simp_all add: set_receipts_def)

section \<open>Statements\<close>

datatype receipt_op =
    OpPropose new_receipt
  | OpBegin new_receipt
  | OpRecord new_receipt
  | OpApprove ustr "ustr option" "ustr option"
  | OpConsume ustr ustr "ustr option"
  | OpFinish ustr receipt_status "ustr option"
  | OpLink ustr ustr
  | OpInterrupted
  | OpExpire
  | OpReconcile "deployment_row list"
  | OpMeanwhile int "bool list"

fun run_receipt_op :: "receipt_env \<Rightarrow> receipt_op \<Rightarrow> agent_db \<Rightarrow> agent_db" where
  "run_receipt_op E (OpPropose r) d = fst (propose E r d)"
| "run_receipt_op E (OpBegin r) d = fst (begin_receipt E r d)"
| "run_receipt_op E (OpRecord r) d = fst (record_done E r d)"
| "run_receipt_op E (OpApprove p u l) d = fst (approve_pending p u l d)"
| "run_receipt_op E (OpConsume p h run) d = fst (consume p h run d)"
| "run_receipt_op E (OpFinish u st x) d = fst (finish_receipt u st x d)"
| "run_receipt_op E (OpLink u x) d = fst (link_deployment u x d)"
| "run_receipt_op E OpInterrupted d = fst (mark_interrupted d)"
| "run_receipt_op E OpExpire d = fst (expire_stale d)"
| "run_receipt_op E (OpReconcile deps) d = fst (reconcile deps d)"
| "run_receipt_op E (OpMeanwhile t fs) d = d\<lparr> ad_now := t, ad_faults := fs \<rparr>"

text \<open>An action ends done, failed or unknown.\<close>

fun outcome_op :: "receipt_op \<Rightarrow> bool" where
  "outcome_op (OpFinish u st x) = (st \<in> {Done, Failed, Unknown})"
| "outcome_op _ = True"

definition run_ops :: "receipt_env \<Rightarrow> receipt_op list \<Rightarrow> agent_db \<Rightarrow> agent_db" where
  "run_ops E ops d = fold (run_receipt_op E) ops d"

lemma read_ledger: "ledger w (fst (ask (\<lambda>w. (w, f w)) w))"
  by (rule ask_ledger) (simp add: ledger_same)

lemma insert_ledger: "ledger d (fst (insert_receipt E r st d))"
proof -
  have "ledger (d\<lparr> ad_ids := Suc (ad_ids d) \<rparr>) (fst (insert_receipt E r st d))"
    unfolding insert_receipt_def Let_def
    by (rule ask_ledger) (simp add: ledgerI [where f = "\<lambda>r. r"])
  then show ?thesis by (simp add: ledger_def)
qed

lemma propose_ledger: "ledger d (fst (propose E r d))"
proof -
  let ?q = "\<lambda>w. (w, newest rc_created (filter (\<lambda>x. rc_project x = nr_project r \<and> rc_hash x = receipt_hash E r \<and>
             rc_status x \<in> {Pending, Approved} \<and> alive (ad_now w) x) (ad_receipts w)))"
  obtain w1 a where 1: "ask ?q d = (w1, a)" by fastforce
  moreover have "ledger d (fst (ask ?q d))" by (rule read_ledger)
  ultimately have "ledger d w1" by (simp only: fst_conv)
  then show ?thesis
    unfolding propose_def 1 prod.case
    by (simp add: ledger_trans [OF _ insert_ledger] split: option.split)
qed

lemma finish_ledger: "st \<in> {Done, Failed, Unknown} \<Longrightarrow> ledger d (fst (finish_receipt u st x d))"
  unfolding finish_receipt_def
  by (rule ask_ledger) (auto simp: Let_def advanced_def intro!: set_receipts_ledger)

lemma record_ledger: "ledger d (fst (record_done E r d))"
proof -
  obtain w1 a where 1: "insert_receipt E r Executing d = (w1, a)" by fastforce
  moreover have "ledger d (fst (insert_receipt E r Executing d))" by (rule insert_ledger)
  ultimately have 2: "ledger d w1" by (simp only: fst_conv)
  show ?thesis
  proof (cases a)
    case (Some u)
    then have "fst (record_done E r d) = fst (finish_receipt u Done (nr_detail r) w1)"
      by (simp add: record_done_def 1 case_prod_beta split: option.split)
    then show ?thesis using ledger_trans [OF 2 finish_ledger] by simp
  qed (simp add: record_done_def 1 2)
qed

lemma consume_ledger: "ledger d (fst (consume p h run d))"
  unfolding consume_def
  by (rule ask_ledger) (auto simp: Let_def advanced_def ledger_same intro!: set_receipts_ledger split: option.split)

lemma reconcile_ledger: "ledger d (fst (reconcile deps d))"
  unfolding reconcile_def
proof (rule ask_ledger)
  fix w :: agent_db
  show "ledger w (fst (w\<lparr> ad_receipts := map (\<lambda>r. case linked deps r of Some d \<Rightarrow> reconciled (ad_now w) d r | None \<Rightarrow> r) (ad_receipts w) \<rparr>,
      length (filter (\<lambda>r. linked deps r \<noteq> None) (ad_receipts w))))"
    by (rule ledgerI [where f = "\<lambda>r. case linked deps r of Some d \<Rightarrow> reconciled (ad_now w) d r | None \<Rightarrow> r" and new = "[]"])
      (auto simp: advanced_def reconciled_def Let_def linked_def split: option.split if_splits)
qed

lemma op_ledger: "outcome_op op \<Longrightarrow> ledger d (run_receipt_op E op d)"
proof (cases op)
  case (OpApprove p u l)
  show ?thesis unfolding OpApprove run_receipt_op.simps approve_pending_def
    by (rule ask_ledger) (auto simp: Let_def advanced_def intro!: set_receipts_ledger)
next
  case (OpLink u x)
  show ?thesis unfolding OpLink run_receipt_op.simps link_deployment_def
    by (rule ask_ledger) (auto simp: advanced_def intro!: set_receipts_ledger)
next
  case OpInterrupted
  show ?thesis unfolding OpInterrupted run_receipt_op.simps mark_interrupted_def
    by (rule ask_ledger) (auto simp: advanced_def intro!: set_receipts_ledger)
next
  case OpExpire
  show ?thesis unfolding OpExpire run_receipt_op.simps expire_stale_def
    by (rule ask_ledger) (auto simp: Let_def advanced_def intro!: set_receipts_ledger)
qed (simp_all add: propose_ledger begin_receipt_def insert_ledger record_ledger consume_ledger finish_ledger reconcile_ledger ledger_same)

lemma ops_ledger: "list_all outcome_op ops \<Longrightarrow> ledger d (run_ops E ops d)"
  unfolding run_ops_def
  by (induction ops arbitrary: d) (auto simp: ledger_same intro: ledger_trans [OF op_ledger])


section \<open>Identifiers\<close>

definition uuids :: "agent_db \<Rightarrow> ustr list" where
  "uuids d = map rc_uuid (ad_receipts d)"

definition fresh_step :: "receipt_env \<Rightarrow> agent_db \<Rightarrow> agent_db \<Rightarrow> bool" where
  "fresh_step E d d' \<longleftrightarrow> ad_ids d \<le> ad_ids d' \<and>
     (uuids d' = uuids d \<or> (\<exists>k. ad_ids d \<le> k \<and> k < ad_ids d' \<and> uuids d' = uuids d @ [re_id E k]))"

text \<open>Identifiers come from the generator and no two rows share one.\<close>

definition ids_ok :: "receipt_env \<Rightarrow> agent_db \<Rightarrow> bool" where
  "ids_ok E d \<longleftrightarrow> distinct (uuids d) \<and> set (uuids d) \<subseteq> re_id E ` {..<ad_ids d}"

lemma fresh_ids_ok: "fresh_step E d d' \<Longrightarrow> inj (re_id E) \<Longrightarrow> ids_ok E d \<Longrightarrow> ids_ok E d'"
  by (fastforce simp: fresh_step_def ids_ok_def inj_def)

definition same_ids :: "agent_db \<Rightarrow> agent_db \<Rightarrow> bool" where
  "same_ids d d' \<longleftrightarrow> uuids d' = uuids d \<and> ad_ids d' = ad_ids d"

lemma same_ids_refl [simp]: "same_ids d d"
  by (simp add: same_ids_def)

lemma ask_ids:
  assumes "\<And>w. same_ids w (fst (q w))"
  shows "same_ids w (fst (ask q w))"
proof -
  have "same_ids w (fst (q (w\<lparr> ad_faults := fs \<rparr>)))" for fs
    using assms [of "w\<lparr> ad_faults := fs \<rparr>"] by (simp add: same_ids_def uuids_def)
  then show ?thesis
    using assms [of w] by (simp add: ask_def case_prod_beta same_ids_def uuids_def split: list.split bool.split)
qed

lemma set_receipts_ids: "(\<And>r. rc_uuid (f r) = rc_uuid r) \<Longrightarrow> same_ids w (set_receipts p f w)"
  by (simp add: same_ids_def uuids_def set_receipts_def)

lemma same_fresh: "same_ids d d' \<Longrightarrow> fresh_step E d d'"
  by (simp add: same_ids_def fresh_step_def)

lemma fresh_same: "fresh_step E d d' \<Longrightarrow> same_ids d' d'' \<Longrightarrow> fresh_step E d d''"
  by (simp add: same_ids_def fresh_step_def)

lemma same_fresh_trans: "same_ids d d' \<Longrightarrow> fresh_step E d' d'' \<Longrightarrow> fresh_step E d d''"
  by (simp add: same_ids_def fresh_step_def)

lemma read_ids: "same_ids w (fst (ask (\<lambda>w. (w, f w)) w))"
  by (rule ask_ids) (simp add: same_ids_def)

lemma insert_ids: "fresh_step E d (fst (insert_receipt E r st d))"
proof -
  let ?d = "d\<lparr> ad_ids := Suc (ad_ids d) \<rparr>"
  let ?row = "\<lambda>w. (w\<lparr> ad_receipts := ad_receipts w @ [receipt_row E r st (re_id E (ad_ids d)) w] \<rparr>, re_id E (ad_ids d))"
  have "uuids (fst (ask ?row ?d)) \<in> {uuids d, uuids d @ [re_id E (ad_ids d)]} \<and> ad_ids (fst (ask ?row ?d)) = Suc (ad_ids d)"
    by (auto simp: ask_def uuids_def receipt_row_def Let_def split: list.split bool.split)
  then show ?thesis
    unfolding insert_receipt_def Let_def fresh_step_def by auto
qed

lemma propose_ids: "fresh_step E d (fst (propose E r d))"
proof -
  let ?q = "\<lambda>w. (w, newest rc_created (filter (\<lambda>x. rc_project x = nr_project r \<and> rc_hash x = receipt_hash E r \<and>
             rc_status x \<in> {Pending, Approved} \<and> alive (ad_now w) x) (ad_receipts w)))"
  obtain w1 a where 1: "ask ?q d = (w1, a)" by fastforce
  moreover have "same_ids d (fst (ask ?q d))" by (rule read_ids)
  ultimately have "same_ids d w1" by (simp only: fst_conv)
  then show ?thesis
    unfolding propose_def 1 prod.case
    by (simp add: same_fresh same_fresh_trans [OF _ insert_ids] split: option.split)
qed

lemma finish_ids: "same_ids d (fst (finish_receipt u st x d))"
  unfolding finish_receipt_def by (rule ask_ids) (simp add: Let_def set_receipts_ids)

lemma record_ids: "fresh_step E d (fst (record_done E r d))"
proof -
  obtain w1 a where 1: "insert_receipt E r Executing d = (w1, a)" by fastforce
  moreover have "fresh_step E d (fst (insert_receipt E r Executing d))" by (rule insert_ids)
  ultimately have 2: "fresh_step E d w1" by (simp only: fst_conv)
  show ?thesis
  proof (cases a)
    case (Some u)
    then have "fst (record_done E r d) = fst (finish_receipt u Done (nr_detail r) w1)"
      by (simp add: record_done_def 1 case_prod_beta split: option.split)
    then show ?thesis using fresh_same [OF 2 finish_ids] by simp
  qed (simp add: record_done_def 1 2)
qed

lemma consume_ids: "same_ids d (fst (consume p h run d))"
  unfolding consume_def
  by (rule ask_ids) (simp add: Let_def set_receipts_ids split: option.split)

lemma op_ids: "fresh_step E d (run_receipt_op E op d)"
proof (cases op)
  case (OpApprove p u l)
  show ?thesis unfolding OpApprove run_receipt_op.simps approve_pending_def
    by (rule same_fresh, rule ask_ids) (simp add: Let_def set_receipts_ids)
next
  case (OpLink u x)
  show ?thesis unfolding OpLink run_receipt_op.simps link_deployment_def
    by (rule same_fresh, rule ask_ids) (simp add: set_receipts_ids)
next
  case OpInterrupted
  show ?thesis unfolding OpInterrupted run_receipt_op.simps mark_interrupted_def
    by (rule same_fresh, rule ask_ids) (simp add: set_receipts_ids)
next
  case OpExpire
  show ?thesis unfolding OpExpire run_receipt_op.simps expire_stale_def
    by (rule same_fresh, rule ask_ids) (simp add: Let_def set_receipts_ids)
next
  case (OpReconcile deps)
  show ?thesis unfolding OpReconcile run_receipt_op.simps reconcile_def
    by (rule same_fresh, rule ask_ids)
      (auto simp: same_ids_def uuids_def reconciled_def Let_def split: option.split)
qed (simp_all add: propose_ids begin_receipt_def insert_ids record_ids same_fresh [OF consume_ids] same_fresh [OF finish_ids]
      fresh_step_def [of _ d "d\<lparr> ad_now := n, ad_faults := fs \<rparr>" for n fs] uuids_def)

lemma ops_ids: "inj (re_id E) \<Longrightarrow> ids_ok E d \<Longrightarrow> ids_ok E (run_ops E ops d)"
  unfolding run_ops_def by (induction ops arbitrary: d) (simp_all add: fresh_ids_ok [OF op_ids])

section \<open>One use of an approval\<close>

text \<open>A receipt of the table that is past its approval.\<close>

definition spent :: "ustr \<Rightarrow> agent_db \<Rightarrow> bool" where
  "spent u d \<longleftrightarrow> u \<in> set (uuids d) \<and> (\<forall>r \<in> set (ad_receipts d). rc_uuid r = u \<longrightarrow> rc_status r \<notin> {Pending, Approved})"

lemma advanced_spent: "advanced r r' \<Longrightarrow> rc_status r \<notin> {Pending, Approved} \<Longrightarrow> rc_status r' \<notin> {Pending, Approved}"
  by (cases "rc_status r") (auto simp: advanced_def)

lemma ledger_uuids: "ledger d d' \<Longrightarrow> take (length (uuids d)) (uuids d') = uuids d"
  unfolding ledger_def uuids_def length_map take_map
  by (induction rule: list_all2_induct) (simp_all add: advanced_def)

lemma ledger_row:
  assumes "ledger d d'" and "r' \<in> set (ad_receipts d')"
  shows "(\<exists>r \<in> set (ad_receipts d). advanced r r') \<or> rc_uuid r' \<in> set (drop (length (uuids d)) (uuids d'))"
proof -
  let ?n = "length (ad_receipts d)"
  have "r' \<in> set (take ?n (ad_receipts d')) \<union> set (drop ?n (ad_receipts d'))"
    using assms(2) by (metis append_take_drop_id set_append)
  then show ?thesis
  proof
    assume "r' \<in> set (take ?n (ad_receipts d'))"
    then have "\<exists>r \<in> set (ad_receipts d). advanced r r'"
      using assms(1) unfolding ledger_def list_all2_conv_all_nth in_set_conv_nth [of r'] by (metis nth_mem)
    then show ?thesis by blast
  qed (simp add: uuids_def drop_map)
qed

lemma spent_step:
  assumes "spent u d" "ids_ok E d" "inj (re_id E)" "ledger d d'" "fresh_step E d d'"
  shows "spent u d'"
proof -
  have new: "u \<notin> set (drop (length (uuids d)) (uuids d'))"
  proof
    assume u: "u \<in> set (drop (length (uuids d)) (uuids d'))"
    then obtain k where "u = re_id E k" "ad_ids d \<le> k" using assms(5) by (auto simp: fresh_step_def)
    moreover obtain j where "u = re_id E j" "j < ad_ids d" using assms(1,2) by (auto simp: spent_def ids_ok_def)
    ultimately show False using inj_eq [OF assms(3), of j k] by auto
  qed
  have "u \<in> set (uuids d')"
    using assms(1) in_set_takeD [of u "length (uuids d)" "uuids d'"] ledger_uuids [OF assms(4)] by (simp add: spent_def)
  moreover have "rc_status r' \<notin> {Pending, Approved}" if r': "r' \<in> set (ad_receipts d')" "rc_uuid r' = u" for r'
  proof -
    obtain r where r: "r \<in> set (ad_receipts d)" "advanced r r'" using ledger_row [OF assms(4) r'(1)] new r'(2) by auto
    then have "rc_uuid r = u" using r'(2) by (simp add: advanced_def)
    then have "rc_status r \<notin> {Pending, Approved}" using assms(1) r(1) by (auto simp: spent_def)
    then show ?thesis by (rule advanced_spent [OF r(2)])
  qed
  ultimately show ?thesis by (simp add: spent_def)
qed

lemma spent_ops:
  assumes "list_all outcome_op ops" and "inj (re_id E)"
  shows "spent u d \<Longrightarrow> ids_ok E d \<Longrightarrow> spent u (run_ops E ops d)"
  using assms unfolding run_ops_def
  by (induction ops arbitrary: d) (simp_all add: spent_step [OF _ _ _ op_ledger op_ids] fresh_ids_ok [OF op_ids])

end
