(* ===== verification/AgentFacts.thy ===== *)
theory AgentFacts
  imports AgentLoop ReceiptsFacts
begin

text \<open>
  What every step of a turn keeps: the queries leave the grants, the settings and the clock as they
  are, and a call of a tool adds to the log at most one tool, one that was allowed to run.
\<close>

section \<open>Queries and the locks\<close>

definition locks :: "agent_db \<Rightarrow> grant_row list \<times> autonomous_row list \<times> int" where
  "locks d = (ad_grants d, ad_autonomous d, ad_now d)"

definition granted :: "agent_env \<Rightarrow> ustr \<Rightarrow> agent_db \<Rightarrow> bool" where
  "granted E project d \<longleftrightarrow> ae_gate E \<and> trim project \<noteq> [] \<and>
     is_some_and (select_row gt_project project (ad_grants d))
       (\<lambda>g. grant_still_valid (re_date (ae_rc E)) (re_show_date (ae_rc E)) (gt_expires g) (ad_now d))"

definition autonomous :: "agent_env \<Rightarrow> ustr \<Rightarrow> agent_db \<Rightarrow> bool" where
  "autonomous E project d \<longleftrightarrow> ae_gate E \<and> trim project \<noteq> [] \<and>
     select_row au_project project (ad_autonomous d) \<noteq> None"

text \<open>A remote write may run: autonomy covers the tool, or someone is there and gave a grant that holds.\<close>

definition allowed :: "agent_env \<Rightarrow> chat_ctx \<Rightarrow> ustr \<Rightarrow> json \<Rightarrow> agent_db \<Rightarrow> bool" where
  "allowed E C tool args d \<longleftrightarrow> is_remote_write tool args \<longrightarrow>
     (autonomous_covers tool \<and> autonomous E (remote_project args C) d) \<or>
     (\<not> cx_unattended C \<and> granted E (remote_project args C) d)"

lemma allowed_locks: "locks d = locks d' \<Longrightarrow> allowed E C tool args d \<Longrightarrow> allowed E C tool args d'"
  by (simp add: allowed_def locks_def autonomous_def granted_def)

lemma ask_locks:
  assumes "\<And>w. locks (fst (q w)) = locks w"
  shows "locks (fst (ask q w)) = locks w"
proof -
  have faults: "locks (fst (q (w\<lparr> ad_faults := fs \<rparr>))) = locks w" for fs
    by (simp only: assms) (simp add: locks_def)
  show ?thesis
    using faults assms [of w] by (simp add: ask_def case_prod_beta locks_def split: list.split bool.split)
qed

lemma set_receipts_locks [simp]: "locks (set_receipts p f w) = locks w"
  by (simp add: set_receipts_def locks_def)

lemma read_locks: "locks (fst (ask (\<lambda>w. (w, f w)) w)) = locks w"
  by (rule ask_locks) simp

lemma grant_valid_locks [simp]: "locks (fst (publish_grant_valid E p d)) = locks d"
  by (simp add: publish_grant_valid_def case_prod_beta read_locks)

lemma autonomous_publish_locks [simp]: "locks (fst (autonomous_publish p d)) = locks d"
  by (simp add: autonomous_publish_def case_prod_beta read_locks)

lemma publish_allowed_locks [simp]: "locks (fst (publish_allowed E p d)) = locks d"
  by (simp add: publish_allowed_def)

lemma autonomous_allowed_locks [simp]: "locks (fst (autonomous_allowed E p tool d)) = locks d"
  by (simp add: autonomous_allowed_def case_prod_beta)

lemma grant_approver_locks [simp]: "locks (fst (grant_approver E p d)) = locks d"
  by (simp add: grant_approver_def case_prod_beta read_locks)

lemma insert_locks [simp]: "locks (fst (insert_receipt E r st d)) = locks d"
proof -
  have "locks (fst (insert_receipt E r st d)) = locks (d\<lparr> ad_ids := Suc (ad_ids d) \<rparr>)"
    unfolding insert_receipt_def Let_def by (rule ask_locks) (simp add: locks_def)
  then show ?thesis by (simp add: locks_def)
qed

lemma propose_locks [simp]: "locks (fst (propose E r d)) = locks d"
proof -
  let ?q = "\<lambda>w. (w, newest rc_created (filter (\<lambda>x. rc_project x = nr_project r \<and> rc_hash x = receipt_hash E r \<and>
             rc_status x \<in> {Pending, Approved} \<and> alive (ad_now w) x) (ad_receipts w)))"
  have "locks (fst (ask ?q d)) = locks d" by (rule read_locks)
  then show ?thesis
    unfolding propose_def by (cases "ask ?q d") (auto split: option.split)
qed

lemma consume_locks [simp]: "locks (fst (consume p h run d)) = locks d"
  unfolding consume_def by (rule ask_locks) (simp add: Let_def split: option.split)

lemma prior_locks [simp]: "locks (fst (prior_in_run E run h t d)) = locks d"
  unfolding prior_in_run_def by (rule read_locks)

lemma replay_locks [simp]: "locks (fst (replay_guard E C t tool args d)) = locks d"
  by (simp add: replay_guard_def case_prod_beta split: option.split prior.split)

lemma read_answer: "snd (ask (\<lambda>w. (w, f w)) w) = Some x \<Longrightarrow> \<exists>fs. x = f (w\<lparr> ad_faults := fs \<rparr>)"
  using ask_answer [of "\<lambda>w. (w, f w)" w] by auto

lemma publish_allowed_granted:
  assumes "publish_allowed E p d = (d', True)"
  shows "granted E p d"
proof -
  let ?q = "ask (\<lambda>w. (w, select_row gt_project p (ad_grants w))) d"
  have here: "ae_gate E" "trim p \<noteq> []" and v: "publish_grant_valid (ae_rc E) p d = (d', True)"
    using assms by (auto simp: publish_allowed_def split: if_splits)
  have valid: "is_some_and (Option.bind (snd ?q) (\<lambda>r. r))
      (\<lambda>g. grant_still_valid (re_date (ae_rc E)) (re_show_date (ae_rc E)) (gt_expires g) (ad_now (fst ?q)))"
    using v here(2) by (auto simp: publish_grant_valid_def case_prod_beta)
  then obtain row where row: "snd ?q = Some row" by (cases "snd ?q") (simp_all add: is_some_and_def)
  have "row = select_row gt_project p (ad_grants d)" using read_answer [OF row] by auto
  moreover have "ad_now (fst ?q) = ad_now d"
    using read_locks [of "\<lambda>w. select_row gt_project p (ad_grants w)" d] by (simp add: locks_def)
  ultimately show ?thesis using valid here by (simp add: granted_def row)
qed

lemma autonomous_allowed_set:
  assumes "autonomous_allowed E p tool d = (d', True)"
  shows "autonomous_covers tool \<and> autonomous E p d"
proof -
  let ?q = "ask (\<lambda>w. (w, select_row au_project p (ad_autonomous w))) d"
  have here: "ae_gate E" "trim p \<noteq> []" "autonomous_covers tool" and v: "snd (autonomous_publish p d) \<noteq> None"
    using assms by (auto simp: autonomous_allowed_def case_prod_beta split: if_splits)
  have some: "Option.bind (snd ?q) (\<lambda>r. r) \<noteq> None"
    using v here(2) by (simp add: autonomous_publish_def case_prod_beta)
  then obtain row where row: "snd ?q = Some row" by (cases "snd ?q") simp_all
  have "row = select_row au_project p (ad_autonomous d)" using read_answer [OF row] by auto
  then show ?thesis using some here by (simp add: autonomous_def row)
qed

lemma refusal_locks [simp]: "locks (fst (remote_write_refusal E C tool args d)) = locks d"
  using autonomous_allowed_locks publish_allowed_locks
  by (auto simp: remote_write_refusal_def Let_def case_prod_beta split: bool.split)

lemma not_refused_allowed:
  assumes "remote_write_refusal E C tool args d = (d', None)"
  shows "allowed E C tool args d"
proof (cases "is_remote_write tool args")
  case False
  then show ?thesis by (simp add: allowed_def)
next
  case True
  let ?p = "remote_project args C"
  obtain d1 a where a: "autonomous_allowed E ?p tool d = (d1, a)" by fastforce
  show ?thesis
  proof (cases a)
    case True
    then show ?thesis using autonomous_allowed_set a by (simp add: allowed_def)
  next
    case False
    then have "\<not> cx_unattended C \<and> snd (publish_allowed E ?p d1)"
      using assms \<open>is_remote_write tool args\<close> a
      by (auto simp: remote_write_refusal_def Let_def case_prod_beta split: bool.splits if_splits)
    moreover obtain d2 b where b: "publish_allowed E ?p d1 = (d2, b)" by fastforce
    ultimately have "\<not> cx_unattended C \<and> granted E ?p d1" using publish_allowed_granted by auto
    moreover have "locks d1 = locks d" using autonomous_allowed_locks [of E ?p tool d] a by simp
    ultimately show ?thesis by (simp add: allowed_def granted_def locks_def)
  qed
qed

section \<open>The log\<close>

definition lawful :: "agent_env \<Rightarrow> chat_ctx \<Rightarrow> ustr \<Rightarrow> ran_tool \<Rightarrow> bool" where
  "lawful E C msg r \<longleftrightarrow> allowed E C (rn_tool r) (rn_args r) (rn_db r) \<and> has_tool E (rn_tool r) \<and>
     may_call C msg (rn_tool r) \<and> message_refusal msg (rn_tool r) (rn_args r) = None"

definition pushes_of :: "ran_tool list \<Rightarrow> nat" where
  "pushes_of rs = length (filter (\<lambda>r. is_github_push (rn_tool r) (rn_args r)) rs)"

lemma pushes_append [simp]: "pushes_of (rs @ rs') = pushes_of rs + pushes_of rs'"
  by (simp add: pushes_of_def)

lemma pushes_Nil [simp]: "pushes_of [] = 0"
  by (simp add: pushes_of_def)

lemma call_refusal_locks [simp]: "locks (fst (call_refusal E C msg t ts tool args d)) = locks d"
  by (simp add: call_refusal_def case_prod_beta split: option.split)

lemma not_refused:
  assumes "call_refusal E C msg t ts tool args d = (d', None)"
  shows "allowed E C tool args d" and "message_refusal msg tool args = None" and "has_tool E tool \<longrightarrow> may_call C msg tool"
    and "is_github_push tool args \<longrightarrow> ts_pushes ts < max_pushes_per_run (ae_push_var E)"
    and "\<not> is_delegated ts tool"
proof -
  show "\<not> is_delegated ts tool" using assms by (auto simp: call_refusal_def)
  moreover show "message_refusal msg tool args = None"
    using assms calculation by (auto simp: call_refusal_def split: option.splits)
  moreover show "has_tool E tool \<longrightarrow> may_call C msg tool"
    using assms calculation by (auto simp: call_refusal_def split: if_splits)
  ultimately have rest: "(case remote_write_refusal E C tool args d of
      (d1, Some b) \<Rightarrow> (d1, Some b)
    | (d1, None) \<Rightarrow> (case replay_guard E C t tool args d1 of
         (d2, Some b) \<Rightarrow> (d2, Some b)
       | (d2, None) \<Rightarrow>
           (d2, if is_github_push tool args \<and> max_pushes_per_run (ae_push_var E) \<le> ts_pushes ts
                then Some (push_limit_blocked tool args (max_pushes_per_run (ae_push_var E))) else None))) = (d', None)"
    using assms by (auto simp: call_refusal_def)
  obtain d1 a where a: "remote_write_refusal E C tool args d = (d1, a)" by fastforce
  then have "a = None" using rest by (cases a) simp_all
  then show "allowed E C tool args d" using a not_refused_allowed by simp
  obtain d2 b where b: "replay_guard E C t tool args d1 = (d2, b)" by fastforce
  then have "b = None" using rest a \<open>a = None\<close> by (cases b) simp_all
  then show "is_github_push tool args \<longrightarrow> ts_pushes ts < max_pushes_per_run (ae_push_var E)"
    using rest a b \<open>a = None\<close> by (auto split: if_splits)
qed


lemma unapproved_locks [simp]: "locks (fst (receipt_unapproved E C tool args d)) = locks d"
  by (simp add: receipt_unapproved_def Let_def case_prod_beta begin_receipt_def split: bool.split)

lemma receipt_start_locks [simp]: "locks (fst (receipt_start E C tool args d)) = locks d"
  by (simp add: receipt_start_def Let_def case_prod_beta split: option.split)

text \<open>A tool that is run is in the log with the tables as they were when it started.\<close>

definition same_run :: "agent_world \<Rightarrow> agent_world \<Rightarrow> bool" where
  "same_run w w' \<longleftrightarrow> aw_ran w' = aw_ran w \<and> aw_turns w' = aw_turns w"

lemma on_db_same [simp]: "aw_ran (fst (on_db f w)) = aw_ran w" "aw_turns (fst (on_db f w)) = aw_turns w"
    "aw_db (fst (on_db f w)) = fst (f (aw_db w))" "snd (on_db f w) = snd (f (aw_db w))"
  by (simp_all add: on_db_def case_prod_beta)

lemma token_stopped_same [simp]: "aw_ran (fst (token_stopped E C w)) = aw_ran w" "aw_turns (fst (token_stopped E C w)) = aw_turns w"
    "aw_db (fst (token_stopped E C w)) = aw_db w"
  by (simp_all add: token_stopped_def)

lemma run_tool_log:
  assumes "run_tool E C tool args w = (w', rest)"
  shows "aw_turns w' = aw_turns w \<and>
    (\<exists>d. locks d = locks (aw_db w) \<and>
       aw_ran w' = aw_ran w @ (if has_tool E tool then [\<lparr> rn_tool = tool, rn_args = args, rn_db = d \<rparr>] else []))"
proof -
  obtain w1 u where 1: "on_db (receipt_start E C tool args) w = (w1, u)" by fastforce
  obtain w2 b where 2: "token_stopped E C w1 = (w2, b)" by fastforce
  obtain w3 v where 3: "(if b then (registry_cut E tool args w2, cancelled_value)
      else case registry_execute E tool args w2 of (w3, r) \<Rightarrow> (w3, tool_value r)) = (w3, v)" by fastforce
  have w': "w' = w3\<lparr> aw_db := receipt_finish E tool u v (aw_db w3) \<rparr>"
    using assms by (simp add: run_tool_def 1 2 3)
  have base: "aw_ran w2 = aw_ran w" "aw_turns w2 = aw_turns w" "locks (aw_db w2) = locks (aw_db w)"
    using on_db_same [of "receipt_start E C tool args" w] token_stopped_same [of E C w1] by (simp_all add: 1 2)
  have "aw_turns w3 = aw_turns w2 \<and> aw_ran w3 = aw_ran w2 @ (if has_tool E tool then [\<lparr> rn_tool = tool, rn_args = args, rn_db = aw_db w2 \<rparr>] else [])"
    using 3 by (auto simp: registry_cut_def registry_execute_def ran_def case_prod_beta split: if_splits)
  then show ?thesis using base by (auto simp: w')
qed

lemma pushes_after:
  "case after_call E call args v i p ts of Inl r \<Rightarrow> True | Inr ts' \<Rightarrow> ts_pushes ts' = ts_pushes ts"
  by (simp add: after_call_def Let_def note_deploy_def)

lemma one_call_log:
  assumes "one_call E C msg t call ts w = (w', res)" and "ts_pushes ts \<le> max_pushes_per_run (ae_push_var E)"
  shows "aw_turns w' = aw_turns w \<and>
    (\<exists>rs. aw_ran w' = aw_ran w @ rs \<and> list_all (lawful E C msg) rs \<and>
       ts_pushes ts + pushes_of rs \<le> max_pushes_per_run (ae_push_var E) \<and>
       (case res of Inl r \<Rightarrow> True
        | Inr ts' \<Rightarrow> ts_pushes ts + pushes_of rs \<le> ts_pushes ts' \<and> ts_pushes ts' \<le> max_pushes_per_run (ae_push_var E)))"
proof -
  let ?args = "prepare_args E C (tc_name call) (tc_args call)"
  let ?ts1 = "if is_delegated ts (tc_name call) then ts\<lparr> ts_refusals := Suc (ts_refusals ts) \<rparr> else ts"
  let ?most = "max_pushes_per_run (ae_push_var E)"
  obtain w1 b where 1: "token_stopped E C w = (w1, b)" by fastforce
  obtain w2 ref where 2: "on_db (call_refusal E C msg t ts (tc_name call) ?args) w1 = (w2, ref)" by fastforce
  have base: "aw_ran w2 = aw_ran w" "aw_turns w2 = aw_turns w" "aw_ran w1 = aw_ran w" "aw_turns w1 = aw_turns w"
      "locks (aw_db w2) = locks (aw_db w1)"
    using on_db_same [of "call_refusal E C msg t ts (tc_name call) ?args" w1] token_stopped_same [of E C w] by (simp_all add: 1 2)
  have same: "ts_pushes ?ts1 = ts_pushes ts" by simp
  have after: "case after_call E call ?args x False p ?ts1 of Inl r \<Rightarrow> True | Inr ts' \<Rightarrow> ts_pushes ts' = ts_pushes ts" for x p
    using pushes_after [where ts = ?ts1 and call = call and args = ?args and E = E and v = x and i = False and p = p] unfolding same .
  show ?thesis
  proof (cases "b \<or> ref \<noteq> None")
    case True
    then consider "b" | x where "\<not> b" "ref = Some x" by blast
    then have quiet: "aw_ran w' = aw_ran w \<and> aw_turns w' = aw_turns w"
      and "res = Inl (cancelled_reply E ts) \<or> (\<exists>x p. res = after_call E call ?args x False p ?ts1)"
      using assms(1) base by (cases, force simp: one_call_def Let_def 1, force simp: one_call_def Let_def 1 2)+
    then have "case res of Inl r \<Rightarrow> True | Inr ts' \<Rightarrow> ts_pushes ts' = ts_pushes ts"
      using after by auto
    then have "aw_ran w' = aw_ran w \<and> aw_turns w' = aw_turns w \<and>
        (case res of Inl r \<Rightarrow> True | Inr ts' \<Rightarrow> ts_pushes ts' = ts_pushes ts)" using quiet by blast
    then show ?thesis using assms(2) by (auto split: sum.splits intro!: exI [of _ "[]"])
  next
    case False
    then have ref: "call_refusal E C msg t ts (tc_name call) ?args (aw_db w1) = (aw_db w2, None)"
      using 2 by (auto simp: on_db_def case_prod_beta prod_eq_iff)
    obtain w3 halted v where 3: "run_tool E C (tc_name call) ?args w2 = (w3, halted, v)" by (metis prod.exhaust)
    obtain d where d: "locks d = locks (aw_db w2)" "aw_turns w3 = aw_turns w2"
        "aw_ran w3 = aw_ran w2 @ (if has_tool E (tc_name call) then [\<lparr> rn_tool = tc_name call, rn_args = ?args, rn_db = d \<rparr>] else [])"
      using run_tool_log [OF 3] by blast
    let ?rs = "if has_tool E (tc_name call) then [\<lparr> rn_tool = tc_name call, rn_args = ?args, rn_db = d \<rparr>] else []"
    let ?k = "if is_github_push (tc_name call) ?args then 1 else 0"
    let ?ts2 = "?ts1\<lparr> ts_last := ae_label E (tc_name call) ?args, ts_pushes := ts_pushes ?ts1 + ?k \<rparr>"
    have out: "w' = w3" "res = after_call E call ?args v halted False ?ts2"
      using assms(1) False 3 by (simp_all add: one_call_def Let_def 1 2)
    have "allowed E C (tc_name call) ?args d"
      using allowed_locks [OF _ not_refused(1) [OF ref]] d(1) base(5) by simp
    then have "list_all (lawful E C msg) ?rs"
      using not_refused(2,3) [OF ref] by (simp add: lawful_def)
    moreover have "pushes_of ?rs \<le> ?k" by (simp add: pushes_of_def)
    moreover have "ts_pushes ts + ?k \<le> ?most"
      using not_refused(4) [OF ref] assms(2) by auto
    moreover have "case res of Inl r \<Rightarrow> True | Inr ts' \<Rightarrow> ts_pushes ts' = ts_pushes ts + ?k"
    proof -
      have two: "ts_pushes ?ts2 = ts_pushes ts + ?k" using same by simp
      show ?thesis
        using pushes_after [where ts = ?ts2 and E = E and call = call and args = ?args and v = v and i = halted and p = False]
        unfolding out(2) two .
    qed
    moreover have "aw_ran w' = aw_ran w @ ?rs" "aw_turns w' = aw_turns w" using d(2,3) base out(1) by simp_all
    ultimately show ?thesis by (cases res) (auto intro!: exI [of _ ?rs])
  qed
qed

lemma run_calls_log:
  assumes "run_calls E C msg t calls ts w = (w', res)" and "ts_pushes ts \<le> max_pushes_per_run (ae_push_var E)"
  shows "aw_turns w' = aw_turns w \<and>
    (\<exists>rs. aw_ran w' = aw_ran w @ rs \<and> list_all (lawful E C msg) rs \<and>
       ts_pushes ts + pushes_of rs \<le> max_pushes_per_run (ae_push_var E) \<and>
       (case res of Inl r \<Rightarrow> True
        | Inr ts' \<Rightarrow> ts_pushes ts + pushes_of rs \<le> ts_pushes ts' \<and> ts_pushes ts' \<le> max_pushes_per_run (ae_push_var E)))"
  using assms
proof (induction calls arbitrary: ts w)
  case Nil
  then show ?case by (auto intro!: exI [of _ "[]"])
next
  case (Cons c cs)
  obtain w1 r where 1: "one_call E C msg t c ts w = (w1, r)" by fastforce
  obtain rs where rs: "aw_turns w1 = aw_turns w" "aw_ran w1 = aw_ran w @ rs" "list_all (lawful E C msg) rs"
      "ts_pushes ts + pushes_of rs \<le> max_pushes_per_run (ae_push_var E)"
      "case r of Inl x \<Rightarrow> True
       | Inr ts' \<Rightarrow> ts_pushes ts + pushes_of rs \<le> ts_pushes ts' \<and> ts_pushes ts' \<le> max_pushes_per_run (ae_push_var E)"
    using one_call_log [OF 1 Cons.prems(2)] by blast
  show ?case
  proof (cases r)
    case (Inl x)
    then show ?thesis using Cons.prems(1) rs by (auto simp: 1 intro!: exI [of _ rs])
  next
    case (Inr ts1)
    then have "run_calls E C msg t cs ts1 w1 = (w', res)" "ts_pushes ts1 \<le> max_pushes_per_run (ae_push_var E)"
      using Cons.prems(1) rs(5) by (simp_all add: 1)
    then obtain qs where qs: "aw_turns w' = aw_turns w1" "aw_ran w' = aw_ran w1 @ qs" "list_all (lawful E C msg) qs"
      "ts_pushes ts1 + pushes_of qs \<le> max_pushes_per_run (ae_push_var E)"
      "case res of Inl x \<Rightarrow> True
       | Inr ts' \<Rightarrow> ts_pushes ts1 + pushes_of qs \<le> ts_pushes ts' \<and> ts_pushes ts' \<le> max_pushes_per_run (ae_push_var E)"
      using Cons.IH by blast
    then show ?thesis
      using rs Inr by (intro conjI exI [of _ "rs @ qs"]) (auto split: sum.splits)
  qed
qed


lemma warned_same [simp]: "ts_pushes (warned E n ts) = ts_pushes ts" "ts_records (warned E n ts) = ts_records ts"
  by (simp_all add: warned_def split: option.split)

lemma nudged_same [simp]: "ts_pushes (nudge_delegated ts) = ts_pushes ts"
  by (simp add: nudge_delegated_def)

lemma answer_pushes: "answer_text E b c ts = Again ts' \<Longrightarrow> ts_pushes ts' = ts_pushes ts"
  by (auto simp: answer_text_def Let_def split: if_splits)

lemma ask_model_same:
  "ask_model E C msg ts w = (w', r) \<Longrightarrow> aw_ran w' = aw_ran w \<and> aw_turns w' \<le> Suc (aw_turns w)"
  using token_stopped_same [of E C w] by (auto simp: ask_model_def case_prod_beta split: if_splits bool.splits)

lemma one_round_log:
  assumes "one_round E C msg t round ts w = (w', res)" and "ts_pushes ts \<le> max_pushes_per_run (ae_push_var E)"
  shows "aw_turns w' \<le> Suc (aw_turns w) \<and>
    (\<exists>rs. aw_ran w' = aw_ran w @ rs \<and> list_all (lawful E C msg) rs \<and>
       ts_pushes ts + pushes_of rs \<le> max_pushes_per_run (ae_push_var E) \<and>
       (case res of Again ts' \<Rightarrow> ts_pushes ts + pushes_of rs \<le> ts_pushes ts' \<and> ts_pushes ts' \<le> max_pushes_per_run (ae_push_var E)
        | _ \<Rightarrow> True))"
proof -
  let ?ts = "warned E round ts"
  obtain w1 b where 1: "token_stopped E C w = (w1, b)" by fastforce
  have s: "aw_ran w1 = aw_ran w" "aw_turns w1 = aw_turns w" using token_stopped_same [of E C w] by (simp_all add: 1)
  obtain w2 a where 2: "ask_model E C msg ?ts w1 = (w2, a)" by fastforce
  have m: "aw_ran w2 = aw_ran w" "aw_turns w2 \<le> Suc (aw_turns w)" using ask_model_same [OF 2] s by simp_all
  have quiet: ?thesis if "aw_ran w' = aw_ran w" "aw_turns w' \<le> Suc (aw_turns w)"
      "\<And>ts'. res = Again ts' \<Longrightarrow> ts_pushes ts' = ts_pushes ts"
    using that assms(2) by (auto split: round_end.splits intro!: exI [of _ "[]"])
  show ?thesis
  proof (cases "b \<or> (if 2 \<le> round then detect_repeated_failures E (ts_records ?ts) else None) \<noteq> None")
    case True
    then have "w' = w1 \<and> (\<forall>ts'. res \<noteq> Again ts')"
      using assms(1) by (auto simp: one_round_def Let_def 1 split: bool.splits option.splits)
    then show ?thesis using s by (intro quiet) auto
  next
    case False
    then have one: "(case a of
          None \<Rightarrow> (w2, Reply (cancelled_reply E ?ts))
        | Some (Inl e) \<Rightarrow> (w2, Broken e)
        | Some (Inr (content, [])) \<Rightarrow> (w2, answer_text E (Suc round < max_rounds) content ?ts)
        | Some (Inr (content, calls)) \<Rightarrow>
            (case run_calls E C msg t calls (?ts\<lparr> ts_messages := ts_messages ?ts @ [AssistantTools content calls] \<rparr>) w2 of
               (w3, Inl r) \<Rightarrow> (w3, Reply r)
             | (w3, Inr ts') \<Rightarrow> (w3, Again (nudge_delegated ts')))) = (w', res)"
      using assms(1) by (auto simp: one_round_def Let_def 1 2 split: option.splits sum.splits list.splits prod.splits)
    consider "a = None" | e where "a = Some (Inl e)" | c where "a = Some (Inr (c, []))"
      | c d ds where "a = Some (Inr (c, d # ds))"
      by (metis option.exhaust sum.exhaust prod.exhaust list.exhaust)
    then show ?thesis
    proof cases
      case 1
      then show ?thesis using one m by (intro quiet) auto
    next
      case 2
      then show ?thesis using one m by (intro quiet) auto
    next
      case 3
      then show ?thesis using one m answer_pushes by (intro quiet) auto
    next
      case 4
      let ?ts' = "?ts\<lparr> ts_messages := ts_messages ?ts @ [AssistantTools c (d # ds)] \<rparr>"
      obtain w3 r where r: "run_calls E C msg t (d # ds) ?ts' w2 = (w3, r)" by fastforce
      have "w' = w3" and res: "res = (case r of Inl x \<Rightarrow> Reply x | Inr ts' \<Rightarrow> Again (nudge_delegated ts'))"
        using one unfolding 4 option.case sum.case prod.case list.case r by (auto split: sum.splits)
      moreover have "ts_pushes ?ts' = ts_pushes ts" by simp
      ultimately show ?thesis
        using run_calls_log [OF r] assms(2) m by (auto split: sum.splits)
    qed
  qed
qed

lemma run_rounds_log:
  assumes "run_rounds E C msg t n ts w = (w', res)" and "ts_pushes ts \<le> max_pushes_per_run (ae_push_var E)"
  shows "aw_turns w' \<le> aw_turns w + n \<and>
    (\<exists>rs. aw_ran w' = aw_ran w @ rs \<and> list_all (lawful E C msg) rs \<and>
       ts_pushes ts + pushes_of rs \<le> max_pushes_per_run (ae_push_var E))"
  using assms
proof (induction n arbitrary: ts w)
  case 0
  then show ?case by (auto intro!: exI [of _ "[]"])
next
  case (Suc n)
  obtain w1 r where 1: "one_round E C msg t (max_rounds - Suc n) ts w = (w1, r)" by fastforce
  obtain rs where rs: "aw_turns w1 \<le> Suc (aw_turns w)" "aw_ran w1 = aw_ran w @ rs" "list_all (lawful E C msg) rs"
      "ts_pushes ts + pushes_of rs \<le> max_pushes_per_run (ae_push_var E)"
      "case r of Again ts' \<Rightarrow> ts_pushes ts + pushes_of rs \<le> ts_pushes ts' \<and> ts_pushes ts' \<le> max_pushes_per_run (ae_push_var E)
       | _ \<Rightarrow> True"
    using one_round_log [OF 1 Suc.prems(2)] by blast
  show ?case
  proof (cases r)
    case (Again ts1)
    then have "run_rounds E C msg t n ts1 w1 = (w', res)" "ts_pushes ts1 \<le> max_pushes_per_run (ae_push_var E)"
      using Suc.prems(1) rs(5) by (simp_all add: 1)
    then obtain qs where qs: "aw_turns w' \<le> aw_turns w1 + n" "aw_ran w' = aw_ran w1 @ qs" "list_all (lawful E C msg) qs"
        "ts_pushes ts1 + pushes_of qs \<le> max_pushes_per_run (ae_push_var E)"
      using Suc.IH by blast
    then show ?thesis using rs Again by (intro conjI exI [of _ "rs @ qs"]) auto
  qed (use Suc.prems(1) rs in \<open>auto simp: 1 intro!: exI [of _ rs]\<close>)
qed

end
