(* ===== verification/ReceiptsProps.thy ===== *)
theory ReceiptsProps
  imports ReceiptsFacts
begin

text \<open>
  The receipts as properties: they only advance, an approval serves once, and a restart settles them.
\<close>

lemma consume_spends:
  assumes "consume p h run d = (d1, Some (Some u))" and "distinct (uuids d)"
  shows "spent u d1"
    and "\<exists>r \<in> set (ad_receipts d). rc_uuid r = u \<and> rc_project r = Some p \<and> rc_hash r = h \<and> rc_status r = Approved \<and> alive (ad_now d) r"
proof -
  define able where "able = (\<lambda>w :: agent_db. filter (\<lambda>r. rc_project r = Some p \<and> rc_hash r = h \<and> rc_status r = Approved \<and> alive (ad_now w) r) (ad_receipts w))"
  define chosen where "chosen = (\<lambda>w :: agent_db. opt_or (find (\<lambda>r. rc_approved r = None) (able w)) (newest (\<lambda>r. the (rc_approved r)) (able w)))"
  define q where "q = (\<lambda>w. case chosen w of
      None \<Rightarrow> (w, None)
    | Some c \<Rightarrow> (set_receipts (\<lambda>r. rc_uuid r = rc_uuid c \<and> rc_status r = Approved)
        (\<lambda>r. r\<lparr> rc_status := Executing, rc_consumed := Some (ad_now w), rc_updated := ad_now w, rc_run := opt_or run (rc_run r) \<rparr>) w,
        Some (rc_uuid c)))"
  have asked: "ask q d = (d1, Some (Some u))"
    using assms(1) by (simp add: consume_def q_def chosen_def able_def Let_def)
  then obtain fs where "ask q d = map_prod (\<lambda>d. d) Some (q (d\<lparr> ad_faults := fs \<rparr>))"
    using ask_answer [of q d] by auto
  then have q: "q (d\<lparr> ad_faults := fs \<rparr>) = (d1, Some u)"
    using asked by (cases "q (d\<lparr> ad_faults := fs \<rparr>)") simp
  define w where "w = d\<lparr> ad_faults := fs \<rparr>"
  have w: "ad_receipts w = ad_receipts d" "ad_now w = ad_now d" by (simp_all add: w_def)
  note q = q [folded w_def]
  from q obtain c where c: "chosen w = Some c" and u: "u = rc_uuid c"
    and d1: "d1 = set_receipts (\<lambda>r. rc_uuid r = rc_uuid c \<and> rc_status r = Approved)
        (\<lambda>r. r\<lparr> rc_status := Executing, rc_consumed := Some (ad_now w), rc_updated := ad_now w, rc_run := opt_or run (rc_run r) \<rparr>) w"
    by (auto simp: q_def split: option.splits)
  have able: "c \<in> set (able w)"
    using c by (auto simp: chosen_def opt_or_def newest_def find_Some_iff split: option.splits dest: min_by_mem)
  then have c': "c \<in> set (ad_receipts d)" "rc_project c = Some p" "rc_hash c = h" "rc_status c = Approved" "alive (ad_now d) c"
    by (auto simp: able_def w)
  then show "\<exists>r \<in> set (ad_receipts d). rc_uuid r = u \<and> rc_project r = Some p \<and> rc_hash r = h \<and> rc_status r = Approved \<and> alive (ad_now d) r"
    using u by blast
  have "r = c" if "r \<in> set (ad_receipts d)" "rc_uuid r = u" for r
    using assms(2) that c'(1) u by (auto simp: uuids_def distinct_map dest: inj_onD)
  then show "spent u d1"
    using c' u by (auto simp: spent_def d1 set_receipts_def uuids_def w image_iff)
qed


text \<open>What a restart makes of a receipt.\<close>

definition boot_fate :: "deployment_row list \<Rightarrow> int \<Rightarrow> receipt \<Rightarrow> receipt_status" where
  "boot_fate deps now r =
     (if rc_status r \<in> {Executing, Unknown}
      then (case opt_filter deployment_final (Option.bind (rc_deployment r) (\<lambda>u. find (\<lambda>d. dr_uuid d = u) deps)) of
              Some d \<Rightarrow> if dr_status d = lit ''success'' then Done else Failed
            | None \<Rightarrow> Unknown)
      else if rc_status r \<in> {Pending, Approved} \<and> is_some_and (rc_expires r) (\<lambda>e. e \<le> now) then Expired
      else rc_status r)"

text \<open>C30. Whatever sequence of statements the agents, the routes and the restarts run on the table of
  receipts, and whichever of them fail: no receipt is lost, its project, its hash and its date of creation
  stay, and its status only advances: pending, approved, executing, then done, failed or unknown, unknown
  only to done or failed, pending and approved also to expired.\<close>

theorem receipts_only_advance:
  assumes "list_all outcome_op ops"
  shows "list_all2 advanced (ad_receipts d) (take (length (ad_receipts d)) (ad_receipts (run_ops E ops d)))"
  using ops_ledger [OF assms] by (simp add: ledger_def)

text \<open>C26. An approval serves once: the receipt that allowed an action is never consumed again, whatever
  the statements in between.\<close>

theorem approval_serves_once:
  assumes "inj (re_id E)" and "ids_ok E d" and "list_all outcome_op ops"
    and "consume p h run d = (d1, Some (Some u))"
  shows "snd (consume p' h' run' (run_ops E ops d1)) \<noteq> Some (Some u)"
proof
  let ?d2 = "run_ops E ops d1"
  assume "snd (consume p' h' run' ?d2) = Some (Some u)"
  then obtain d3 where 2: "consume p' h' run' ?d2 = (d3, Some (Some u))" by (metis prod.collapse)
  have d1: "same_ids d d1" using consume_ids [of d p h run] assms(4) by simp
  then have ids: "ids_ok E d1" using assms(2) by (simp add: ids_ok_def same_ids_def)
  have "distinct (uuids d)" using assms(2) by (simp add: ids_ok_def)
  then have "spent u d1" by (rule consume_spends(1) [OF assms(4)])
  then have spent: "spent u ?d2" by (rule spent_ops [OF assms(3,1) _ ids])
  have "distinct (uuids ?d2)" using ops_ids [OF assms(1) ids] by (simp add: ids_ok_def)
  then show False using consume_spends(2) [OF 2] spent by (auto simp: spent_def)
qed



section \<open>A small table\<close>

definition small_env :: receipt_env where
  "small_env = \<lparr> re_id = (\<lambda>n. [n]), re_sha = (\<lambda>s. s), re_print = (\<lambda>j. []),
     re_date = (\<lambda>s. case s of [a, n, b] \<Rightarrow> Some (if even n then int (n div 2) else - int (n div 2)) | _ \<Rightarrow> None),
     re_show_date = (\<lambda>t. [90, if 0 \<le> t then 2 * nat t else 2 * nat (- t) + 1, 90]) \<rparr>"

definition small_receipt :: "receipt_status \<Rightarrow> receipt" where
  "small_receipt st = \<lparr> rc_uuid = [0], rc_workspace = None, rc_project = Some [80], rc_project_name = None, rc_action = [97], rc_label = [],
     rc_target = [], rc_version = None, rc_hash = [72], rc_status = st, rc_source = [], rc_by = None, rc_by_label = None,
     rc_approved = Some 1, rc_expires = Some 100, rc_consumed = None, rc_finished = None, rc_detail = None, rc_run = Some [82],
     rc_tool = None, rc_deployment = Some [68], rc_created = 0, rc_updated = 0 \<rparr>"

definition small_db :: "receipt_status \<Rightarrow> agent_db" where
  "small_db st = \<lparr> ad_receipts = [small_receipt st], ad_grants = [], ad_autonomous = [], ad_projects = [], ad_faults = [], ad_now = 10, ad_ids = 1 \<rparr>"

lemmas small_defs = small_env_def small_receipt_def small_db_def

lemma receipts_only_advance_witness:
  "list_all2 advanced [small_receipt Approved]
     (take 1 (ad_receipts (run_ops small_env [OpConsume [80] [72] None, OpInterrupted, OpFinish [0] Done None] (small_db Approved))))"
  using receipts_only_advance [of "[OpConsume [80] [72] None, OpInterrupted, OpFinish [0] Done None]" "small_db Approved" small_env]
  by (simp add: small_db_def)

lemma small_consumed:
  "\<exists>d1. consume [80] [72] None (small_db Approved) = (d1, Some (Some [0]))"
  by (simp add: consume_def no_faults_ask small_defs alive_def is_some_and_def newest_def opt_or_def)

lemma approval_serves_once_witness:
  "\<exists>d1. consume [80] [72] None (small_db Approved) = (d1, Some (Some [0])) \<and>
     snd (consume [80] [72] None (run_ops small_env [OpFinish [0] Unknown None] d1)) \<noteq> Some (Some [0])"
proof -
  have inj: "inj (re_id small_env)" by (simp add: small_env_def inj_def)
  have ids: "ids_ok small_env (small_db Approved)" by (simp add: ids_ok_def uuids_def small_defs)
  obtain d1 where d1: "consume [80] [72] None (small_db Approved) = (d1, Some (Some [0]))" using small_consumed by blast
  have "list_all outcome_op [OpFinish [0] Unknown None]" by simp
  then show ?thesis using approval_serves_once [OF inj ids _ d1] d1 by blast
qed


section \<open>Pages\<close>

text \<open>Nothing to expire and nothing to reconcile, and no query fails.\<close>

definition settled_table :: "deployment_row list \<Rightarrow> agent_db \<Rightarrow> bool" where
  "settled_table deps d \<longleftrightarrow> ad_faults d = [] \<and>
     list_all (\<lambda>r. linked deps r = None \<and> \<not> (rc_status r \<in> {Pending, Approved} \<and> is_some_and (rc_expires r) (\<lambda>e. e \<le> ad_now d)))
       (ad_receipts d)"

lemma settled_keeps:
  assumes "settled_table deps d"
  shows "fst (reconcile deps (fst (expire_stale d))) = d"
proof -
  have "fst (expire_stale d) = d"
    using assms by (cases d) (auto simp: settled_table_def expire_stale_def no_faults_ask set_receipts_def Let_def list_all_iff intro!: map_idI)
  moreover have "fst (reconcile deps d) = d"
    using assms by (cases d) (auto simp: settled_table_def reconcile_def no_faults_ask list_all_iff intro!: map_idI)
  ultimately show ?thesis by simp
qed

definition all_rows :: "receipt_env \<Rightarrow> ustr \<Rightarrow> list_query \<Rightarrow> agent_db \<Rightarrow> receipt list" where
  "all_rows E ws q d = sort_key (\<lambda>r. - rc_created r) (filter (query_matches E ws q d) (ad_receipts d))"

lemma list_page_settled:
  "settled_table deps d \<Longrightarrow> list_page E deps ws q d =
     (let rs = take (query_limit q) (all_rows E ws q d)
      in (d, Some (rs, if length rs = query_limit q \<and> rs \<noteq> [] then Some (re_show_date E (rc_created (last rs))) else None)))"
  using settled_keeps [of deps d]
  by (simp add: list_page_def list_for_workspace_def settled_table_def no_faults_ask all_rows_def Let_def)

lemma sorted_rows:
  assumes "distinct (map rc_created (ad_receipts d))"
  shows "sorted_wrt (\<lambda>a b. rc_created b < rc_created a) (all_rows E ws q d)"
proof -
  let ?xs = "all_rows E ws q d"
  have "sorted (map (\<lambda>r. - rc_created r) ?xs)" by (simp add: all_rows_def)
  moreover have "distinct (map rc_created ?xs)"
    using assms by (auto simp: all_rows_def distinct_map intro: inj_on_subset)
  then have "distinct (map (\<lambda>r. - rc_created r) ?xs)" by (auto simp: distinct_map inj_on_def)
  ultimately have "sorted_wrt (<) (map (\<lambda>r. - rc_created r) ?xs)" by (simp add: strict_sorted_iff)
  then show ?thesis by (simp add: sorted_wrt_map)
qed

lemma filter_after:
  assumes "sorted_wrt (\<lambda>a b. f b < f a) xs" and "0 < n" and "n \<le> length xs"
  shows "filter (\<lambda>x. f x < (f (xs ! (n - 1)) :: int)) xs = drop n xs"
  using assms
proof (induction xs arbitrary: n)
  case (Cons x xs)
  show ?case
  proof (cases "n = 1")
    case True
    then show ?thesis using Cons.prems by (auto simp: filter_id_conv)
  next
    case False
    then obtain m where m: "n = Suc (Suc m)" using Cons.prems(2) by (cases n; cases "n - 1") auto
    then have "xs ! m \<in> set xs" using Cons.prems(3) by auto
    then have "f (xs ! m) < f x" using Cons.prems(1) by simp
    then have "\<not> f x < f (xs ! m)" by simp
    then show ?thesis using Cons.IH [of "Suc m"] Cons.prems m by simp
  qed
qed simp

lemma matches_before:
  assumes "re_date E (trim (re_show_date E (rc_created x))) = Some (rc_created x)" and "query_matches E ws q d x"
  shows "query_matches E ws (q\<lparr> lq_before := Some (re_show_date E (rc_created x)) \<rparr>) d r
    \<longleftrightarrow> query_matches E ws q d r \<and> rc_created r < rc_created x"
  using assms by (auto simp: query_matches_def none_or_def split: option.splits)

text \<open>The pages of the list follow each other: when the receipts were created at different instants,
  the page asked for with the mark that the first page gives holds the receipts that come next, newest
  first, so that none is shown twice and none is missed.\<close>

lemma pages_continue:
  assumes "settled_table deps d" and "distinct (map rc_created (ad_receipts d))"
    and "\<And>t. re_date E (trim (re_show_date E t)) = Some t"
    and "list_page E deps ws q d = (d, Some (rs, Some mark))"
    and "list_page E deps ws (q\<lparr> lq_before := Some mark \<rparr>) d = (d, Some (rs', mark'))"
  shows "rs @ rs' = take (2 * query_limit q) (all_rows E ws q d)"
proof -
  let ?xs = "all_rows E ws q d" and ?n = "query_limit q"
  have rs: "rs = take ?n ?xs" "length rs = ?n" "rs \<noteq> []" "mark = re_show_date E (rc_created (last rs))"
    using assms(4) list_page_settled [OF assms(1), of E ws q] by (auto simp: Let_def split: if_splits)
  then have n: "0 < ?n" "?n \<le> length ?xs" by (auto simp: min_def split: if_splits)
  have last: "last rs = ?xs ! (?n - 1)" using rs n by (simp add: last_conv_nth)
  then have "last rs \<in> set ?xs" using n by simp
  then have "query_matches E ws q d (last rs)" by (simp add: all_rows_def)
  then have m: "query_matches E ws (q\<lparr> lq_before := Some mark \<rparr>) d = (\<lambda>r. query_matches E ws q d r \<and> rc_created r < rc_created (last rs))"
    using matches_before [OF assms(3)] rs(4) by (simp add: fun_eq_iff)
  have "all_rows E ws (q\<lparr> lq_before := Some mark \<rparr>) d = filter (\<lambda>r. rc_created r < rc_created (last rs)) ?xs"
    unfolding all_rows_def m by (simp add: filter_sort conj_commute)
  also have "\<dots> = drop ?n ?xs" using filter_after [OF sorted_rows [OF assms(2)] n] last by simp
  finally have "rs' = take ?n (drop ?n ?xs)"
    using assms(5) list_page_settled [OF assms(1), of E ws "q\<lparr> lq_before := Some mark \<rparr>"]
    by (simp add: Let_def query_limit_def)
  then show ?thesis using rs(1) by (simp add: take_add mult_2)
qed

end
