(* ===== verification/AgentLoopProps.thy ===== *)
theory AgentLoopProps
  imports AgentFacts ReceiptsProps
begin

text \<open>
  The turn of an agent as properties: what may run, how often, and what is not run twice.
\<close>

section \<open>What runs\<close>

definition new_runs :: "agent_world \<Rightarrow> agent_world \<Rightarrow> ran_tool list" where
  "new_runs w w' = drop (length (aw_ran w)) (aw_ran w')"

definition may_run :: "agent_env \<Rightarrow> chat_ctx \<Rightarrow> ran_tool \<Rightarrow> bool" where
  "may_run E C r \<longleftrightarrow> has_tool E (rn_tool r) \<and> allowed E C (rn_tool r) (rn_args r) (rn_db r)"

lemma new_runs_append: "aw_ran w' = aw_ran w @ rs \<Longrightarrow> new_runs w w' = rs"
  by (simp add: new_runs_def)

lemma run_loop_log:
  "\<exists>rs. aw_ran (fst (run_loop E C msg w)) = aw_ran w @ rs \<and> list_all (lawful E C msg) rs \<and>
     pushes_of rs \<le> max_pushes_per_run (ae_push_var E)"
  "aw_turns (fst (run_loop E C msg w)) \<le> aw_turns w + max_rounds"
proof -
  obtain w' r where run: "run_loop E C msg w = (w', r)" by fastforce
  then have "run_rounds E C msg (ad_now (aw_db w)) max_rounds (first_state E C msg) w = (w', r)"
    by (simp add: run_loop_def)
  from run_rounds_log [OF this] have log: "aw_turns w' \<le> aw_turns w + max_rounds \<and>
      (\<exists>rs. aw_ran w' = aw_ran w @ rs \<and> list_all (lawful E C msg) rs \<and> pushes_of rs \<le> max_pushes_per_run (ae_push_var E))"
    by (simp add: first_state_def)
  show "\<exists>rs. aw_ran (fst (run_loop E C msg w)) = aw_ran w @ rs \<and> list_all (lawful E C msg) rs \<and>
     pushes_of rs \<le> max_pushes_per_run (ae_push_var E)"
    using log by (simp add: run)
  show "aw_turns (fst (run_loop E C msg w)) \<le> aw_turns w + max_rounds" using log by (simp add: run)
qed

lemma forced_refusal_locks [simp]: "locks (fst (forced_refusal E C msg tool args d)) = locks d"
  by (simp add: forced_refusal_def case_prod_beta split: option.split)

lemma forced_allowed:
  assumes "forced_refusal E C msg tool args d = (d', None)"
  shows "allowed E C tool args d"
proof -
  obtain d1 a where a: "remote_write_refusal E C tool args d = (d1, a)" by fastforce
  have "a = None" using assms by (cases a) (auto simp: forced_refusal_def a split: option.splits)
  then show ?thesis using a not_refused_allowed by simp
qed

lemma run_forced_log:
  "\<exists>rs. aw_ran (fst (run_forced E C msg tool args w)) = aw_ran w @ rs \<and> list_all (may_run E C) rs"
proof -
  obtain w1 b where 1: "on_db (forced_refusal E C msg tool args) w = (w1, b)" by fastforce
  have s: "aw_ran w1 = aw_ran w" "locks (aw_db w1) = locks (aw_db w)"
    using on_db_same [of "forced_refusal E C msg tool args" w] by (simp_all add: 1)
  show ?thesis
  proof (cases b)
    case (Some v)
    then show ?thesis by (auto simp: run_forced_def 1 s intro!: exI [of _ "[]"])
  next
    case None
    then have "forced_refusal E C msg tool args (aw_db w) = (aw_db w1, None)"
      using 1 by (auto simp: on_db_def case_prod_beta prod_eq_iff)
    then have ok: "allowed E C tool args (aw_db w)" by (rule forced_allowed)
    obtain w2 u where 2: "on_db (receipt_start E C tool args) w1 = (w2, u)" by fastforce
    have s2: "aw_ran w2 = aw_ran w" "locks (aw_db w2) = locks (aw_db w)"
      using on_db_same [of "receipt_start E C tool args" w1] s by (simp_all add: 2)
    have ok2: "allowed E C tool args (aw_db w2)" by (rule allowed_locks [OF s2(2) [symmetric] ok])
    obtain w3 r where 3: "registry_execute E tool args w2 = (w3, r)" by fastforce
    then have "aw_ran w3 = aw_ran w @ (if has_tool E tool then [\<lparr> rn_tool = tool, rn_args = args, rn_db = aw_db w2 \<rparr>] else [])"
      using s2(1) by (auto simp: registry_execute_def ran_def case_prod_beta split: if_splits)
    moreover have "aw_ran (fst (run_forced E C msg tool args w)) = aw_ran w3"
      by (simp add: run_forced_def 1 None 2 3)
    ultimately show ?thesis
      using ok2 by (auto simp: may_run_def)
  qed
qed

lemma handle_log:
  "\<exists>rs. aw_ran (fst (handle_with_provider E C msg tool args w)) = aw_ran w @ rs \<and> list_all (may_run E C) rs"
proof (cases "non_empty tool")
  case None
  have "lawful E C msg r \<Longrightarrow> may_run E C r" for r by (simp add: lawful_def may_run_def)
  then show ?thesis
    using run_loop_log(1) [of E C msg w] None by (fastforce simp: handle_with_provider_def list_all_iff)
next
  case (Some t)
  then have "aw_ran (fst (handle_with_provider E C msg tool args w)) =
      aw_ran (fst (run_forced E C msg t (prepare_args E C t (unwrap_or args (JObj []))) w))"
    by (simp add: handle_with_provider_def Let_def case_prod_beta split: sum.split)
  then show ?thesis using run_forced_log by simp
qed

text \<open>C25. Whatever the model answers, the tools do and the other users change meanwhile, and whichever
  queries fail, a turn of an agent executes a remote write only if, in the tables as they are when the tool
  starts, the project has autonomous publication and the tool is a deployment, or someone is attending the
  run and gave a grant for the project that has not expired.\<close>

theorem remote_writes_allowed:
  "list_all (may_run E C) (new_runs w (fst (handle_with_provider E C msg tool args w)))"
  using handle_log [of E C msg tool args w] new_runs_append by fastforce

text \<open>C28. A turn pushes to GitHub at most as often as the limit says.\<close>

theorem pushes_bounded:
  "length (filter (\<lambda>r. is_github_push (rn_tool r) (rn_args r)) (new_runs w (fst (run_loop E C msg w))))
     \<le> max_pushes_per_run (ae_push_var E)"
  using run_loop_log(1) [of E C msg w] new_runs_append [of "fst (run_loop E C msg w)" w] by (auto simp: pushes_of_def)

text \<open>C27. A turn executes only tools of the registry that the role of the agent has, and none that the
  message of the user forbids: no publication during a specification, no approval of one by a bare yes.\<close>

theorem only_tools_of_the_role:
  "list_all (\<lambda>r. has_tool E (rn_tool r) \<and> role_allows (turn_role C) (cx_kind C) (rn_tool r) (is_security_review_request msg) \<and>
      refuse_spec_publish (rn_tool r) msg = None \<and> refuse_bare_spec_approval (rn_tool r) (rn_args r) msg = None)
     (new_runs w (fst (run_loop E C msg w)))"
proof -
  obtain rs where rs: "aw_ran (fst (run_loop E C msg w)) = aw_ran w @ rs" "list_all (lawful E C msg) rs"
    using run_loop_log(1) by blast
  have "has_tool E (rn_tool r) \<and> role_allows (turn_role C) (cx_kind C) (rn_tool r) (is_security_review_request msg) \<and>
      refuse_spec_publish (rn_tool r) msg = None \<and> refuse_bare_spec_approval (rn_tool r) (rn_args r) msg = None"
    if "lawful E C msg r" for r
    using that by (auto simp: lawful_def may_call_def message_refusal_def opt_or_def split: option.splits)
  then show ?thesis using rs new_runs_append [OF rs(1)] by (simp add: list_all_iff)
qed

text \<open>A turn ends: it asks the model at most sixteen times.\<close>

lemma model_asked_at_most_16_times:
  "aw_turns (fst (run_loop E C msg w)) \<le> aw_turns w + 16"
  using run_loop_log(2) by (simp add: max_rounds_def)


section \<open>What does not run again\<close>

text \<open>The last receipt that the run left for this action in an earlier turn.\<close>

definition left_by_run :: "agent_env \<Rightarrow> chat_ctx \<Rightarrow> int \<Rightarrow> ustr \<Rightarrow> json \<Rightarrow> agent_db \<Rightarrow> receipt option" where
  "left_by_run E C t tool args d =
     newest rc_created (filter (\<lambda>r. rc_run r = cx_run C \<and> rc_hash r = tool_hash (ae_rc E) (remote_project args C) tool args \<and>
       rc_created r < t \<and> rc_status r \<in> {Done, Executing, Unknown}) (ad_receipts d))"

text \<open>The project of a receipt got a grant after the receipt was created.\<close>

definition regranted :: "receipt_env \<Rightarrow> agent_db \<Rightarrow> receipt \<Rightarrow> bool" where
  "regranted E d r \<longleftrightarrow>
     is_some_and (Option.bind (Option.bind (rc_project r) (\<lambda>p. select_row gt_project p (ad_grants d))) (\<lambda>g. re_date E (trim (gt_granted g))))
       (\<lambda>g. rc_created r < g)"

lemma judge_prior_regranted:
  "judge_prior E d r = (if rc_status r = Done then PriorDone (rc_uuid r) else if regranted E d r then NoPrior else PriorUnknown (rc_uuid r))"
  by (simp add: judge_prior_def regranted_def Let_def bind_map_option comp_def)

lemma replay_guard_answer:
  assumes "is_remote_write tool args" "ae_pool E" "cx_run C = Some run" "run \<noteq> []" "ad_faults d = []"
  shows "replay_guard E C t tool args d = (d, case left_by_run E C t tool args d of
     None \<Rightarrow> None
   | Some r \<Rightarrow> if rc_status r = Done then Some (already_done_result tool (rc_uuid r))
       else if regranted (ae_rc E) d r then None
       else Some (outcome_unknown_result tool (rc_uuid r)))"
  using assms
  by (simp add: replay_guard_def non_empty_def opt_filter_def prior_in_run_def no_faults_ask left_by_run_def judge_prior_regranted
      split: option.split)

lemma ask_keeps:
  assumes "ad_faults d = []" and "ask (\<lambda>w. (w, f w)) d = (d', x)"
  shows "d' = d"
  using assms by (simp add: no_faults_ask)

lemma refusal_keeps:
  assumes "ad_faults d = []" and "remote_write_refusal E C tool args d = (d', None)"
  shows "d' = d"
proof -
  have g: "fst (publish_grant_valid (ae_rc E) p d) = d" for p
    using assms(1) by (simp add: publish_grant_valid_def no_faults_ask)
  have p: "fst (publish_allowed E p d) = d" for p
    using g by (simp add: publish_allowed_def)
  have "fst (autonomous_publish p d) = d" for p
    using assms(1) by (simp add: autonomous_publish_def no_faults_ask)
  then have "fst (autonomous_allowed E p tool d) = d" for p
    by (simp add: autonomous_allowed_def case_prod_beta)
  then show ?thesis
    using assms(2) p by (auto simp: remote_write_refusal_def Let_def case_prod_beta split: bool.splits if_splits)
qed


text \<open>A grant comes after the receipt it approves was proposed: an approved action that a restart cuts
  counts as granted again, so neither lock stops it when its run is taken up while the grant lasts.\<close>

lemma cut_action_repeated:
  assumes "is_remote_write tool args" and "ae_pool E" and "cx_run C = Some run" and "run \<noteq> []" and "ad_faults d = []"
    and "left_by_run E C t tool args d = Some r" and "rc_status r = Unknown"
    and "rc_project r = Some p" and "select_row gt_project p (ad_grants d) = Some g"
    and "re_date (ae_rc E) (trim (gt_granted g)) = Some approved" and "rc_created r < approved"
  shows "replay_guard E C t tool args d = (d, None)"
  by (simp add: replay_guard_answer [OF assms(1-5)] assms(6-11) regranted_def is_some_and_def)

section \<open>The grant\<close>

lemma approve_pending_locks [simp]: "locks (fst (approve_pending p u l d)) = locks d"
  unfolding approve_pending_def by (rule ask_locks) (simp add: Let_def)

lemma finish_locks [simp]: "locks (fst (finish_receipt u st x d)) = locks d"
  unfolding finish_receipt_def by (rule ask_locks) (simp add: Let_def)

lemma record_done_locks [simp]: "locks (fst (record_done E r d)) = locks d"
proof -
  obtain w1 a where 1: "insert_receipt E r Executing d = (w1, a)" by fastforce
  have w1: "locks w1 = locks d" using insert_locks [of E r Executing d] by (simp add: 1)
  show ?thesis
  proof (cases a)
    case (Some u)
    then have "fst (record_done E r d) = fst (finish_receipt u Done (nr_detail r) w1)"
      by (simp add: record_done_def 1 case_prod_beta split: option.split)
    then show ?thesis by (simp add: w1)
  qed (simp add: record_done_def 1 w1)
qed

lemma publish_approval_locks [simp]: "locks (record_publish_approval E h u p d) = locks d"
  by (simp add: record_publish_approval_def case_prod_beta)

text \<open>An approval of a publication that was answered opens the lock of that project for fifteen minutes
  and not a moment longer.\<close>

lemma grant_lasts_15_minutes:
  assumes "approve_publish (ae_rc E) h u p d = (d', Inr answer)" and "ae_gate E" and "trim (sj_uuid p) \<noteq> []"
    and "\<And>t. re_date (ae_rc E) (trim (re_show_date (ae_rc E) t)) = Some t"
  shows "granted E (sj_uuid p) (d'\<lparr> ad_now := t \<rparr>) \<longleftrightarrow> t < ad_now d + 15 * 60 * 10 ^ 9"
proof -
  let ?g = "\<lparr> gt_project = sj_uuid p, gt_granted = re_show_date (ae_rc E) (ad_now d),
     gt_expires = re_show_date (ae_rc E) (ad_now d + grant_ttl), gt_by = Some (us_uuid u), gt_label = Some (user_label u) \<rparr>"
  obtain d1 x where 1: "grant_publish (ae_rc E) (sj_uuid p) u d = (d1, x)" by fastforce
  then obtain y where x: "x = Some y" and d': "d' = record_publish_approval (ae_rc E) h u p d1"
    using assms(1) by (cases x) (auto simp: approve_publish_def)
  have "ad_grants d1 = upsert_row gt_project (\<lambda>old new. new) ?g (ad_grants d)"
    using 1 x by (auto simp: grant_publish_def Let_def ask_def split: list.splits bool.splits)
  then have "ad_grants d' = upsert_row gt_project (\<lambda>old new. new) ?g (ad_grants d)"
    using publish_approval_locks [of "ae_rc E" h u p d1] by (simp add: d' locks_def)
  then have "select_row gt_project (sj_uuid p) (ad_grants d') = Some ?g" by (simp add: select_put)
  then show ?thesis
    using assms(2-4) by (simp add: granted_def is_some_and_def grant_still_valid_def grant_ttl_def)
qed

section \<open>A small agent\<close>

definition small_agent :: agent_env where
  "small_agent = \<lparr> ae_rc = small_env, ae_co = \<lparr> co_json = (\<lambda>_. None), co_float = (\<lambda>_. None), co_is_float = (\<lambda>_. False), co_round = (\<lambda>_. 0) \<rparr>,
     ae_gate = True, ae_pool = True, ae_registry = [], ae_tool = (\<lambda>_ _ _ d. (Inr JNull, d)), ae_cut = (\<lambda>_ _ _ d. d),
     ae_model = (\<lambda>_ _ _ d. (Inr ([], []), d)), ae_stopped = (\<lambda>_. False), ae_provider = [], ae_vision = False, ae_system = (\<lambda>_ _. []),
     ae_memory = None, ae_claim = (\<lambda>_. False), ae_budget_var = None, ae_label = (\<lambda>_ _. []), ae_pretty = (\<lambda>_. []),
     ae_push_var = None, ae_pick = (\<lambda>_. 0) \<rparr>"

definition small_ctx :: chat_ctx where
  "small_ctx = \<lparr> cx_project = None, cx_agent = None, cx_role = None, cx_kind = None, cx_name = None, cx_brief = None, cx_owner = None,
     cx_repo = None, cx_branch = None, cx_history = [], cx_user = None, cx_profile = None, cx_recall = None, cx_run = Some [82],
     cx_cancel = False, cx_images = [], cx_unattended = False \<rparr>"

definition small_call :: tool_call where
  "small_call = \<lparr> tc_id = [49], tc_name = lit ''trigger_deploy'', tc_args = JObj [] \<rparr>"

abbreviation small_args :: json where
  "small_args \<equiv> prepare_args small_agent small_ctx (tc_name small_call) (tc_args small_call)"

definition small_world :: agent_world where
  "small_world = \<lparr> aw_db = (small_db Done)\<lparr> ad_receipts := [(small_receipt Done)
       \<lparr> rc_hash := tool_hash small_env (remote_project small_args small_ctx) (tc_name small_call) small_args \<rparr>] \<rparr>,
     aw_looks = 0, aw_turns = 0, aw_ran = [] \<rparr>"


definition small_user :: user_row where
  "small_user = \<lparr> us_uuid = [85], us_email = [64], us_name = [], us_role = [] \<rparr>"

definition small_project :: server_project where
  "small_project = \<lparr> sj_uuid = [80], sj_workspace = [87], sj_name = [78], sj_slug = [83], sj_branch = None, sj_repository = None \<rparr>"

lemma small_dates: "re_date (ae_rc small_agent) (trim (re_show_date (ae_rc small_agent) t)) = Some t"
  by (simp add: small_agent_def small_env_def trim_defs is_ws_def)

lemma grant_lasts_15_minutes_witness:
  "\<exists>d' a. approve_publish small_env \<lparr> ch_client = None, ch_agent = None \<rparr> small_user small_project (small_db Pending) = (d', Inr a) \<and>
     granted small_agent [80] (d'\<lparr> ad_now := 11 \<rparr>) \<and> \<not> granted small_agent [80] (d'\<lparr> ad_now := 900000000010 \<rparr>)"
proof -
  have rc: "ae_rc small_agent = small_env" and gate: "ae_gate small_agent" by (simp_all add: small_agent_def)
  have uuid: "trim (sj_uuid small_project) \<noteq> []" by (simp add: small_project_def trim_defs is_ws_def)
  obtain d' a where a: "approve_publish small_env \<lparr> ch_client = None, ch_agent = None \<rparr> small_user small_project (small_db Pending) = (d', Inr a)"
    by (simp add: approve_publish_def grant_publish_def no_faults_ask small_db_def Let_def)
  have "granted small_agent (sj_uuid small_project) (d'\<lparr> ad_now := t \<rparr>) \<longleftrightarrow> t < ad_now (small_db Pending) + 15 * 60 * 10 ^ 9" for t
    by (rule grant_lasts_15_minutes [OF a [folded rc] gate uuid small_dates])
  then show ?thesis using a by (simp add: small_project_def small_db_def)
qed

end
