(* ===== verification/Update.thy ===== *)
theory Update
  imports AgentGuard Shell
begin

text \<open>
  The pure part of \<open>crates/update/src/lib.rs\<close>: versions, the choice of a release and of its installer,
  the modes of an update, and the commands that replace the container of DevForge. The text of
  \<open>remote_container_update.sh\<close> is an argument; the branches for Windows hosts are left out.
\<close>

section \<open>Versions\<close>

type_synonym version = "nat \<times> nat \<times> nat"

definition ver_less :: "version \<Rightarrow> version \<Rightarrow> bool" where
  "ver_less a b \<longleftrightarrow>
     (case (a, b) of ((a1, a2, a3), (b1, b2, b3)) \<Rightarrow> a1 < b1 \<or> a1 = b1 \<and> (a2 < b2 \<or> a2 = b2 \<and> a3 < b3))"

definition strip_v :: "ustr \<Rightarrow> ustr" where
  "strip_v s = trim_start_char 118 s"

definition part_of :: "nat \<Rightarrow> ustr list \<Rightarrow> nat" where
  "part_of i ps = (if i < length ps then unwrap_or (parse_uint 64 (ps ! i)) 0 else 0)"

definition parse_ver :: "ustr \<Rightarrow> version" where
  "parse_ver s = (let ps = split_on (\<lambda>c. c = 46 \<or> c = 45) (strip_v (trim s)) in (part_of 0 ps, part_of 1 ps, part_of 2 ps))"

definition version_gt :: "ustr \<Rightarrow> ustr \<Rightarrow> bool" where
  "version_gt a b \<longleftrightarrow> ver_less (parse_ver b) (parse_ver a)"

definition release_semver :: "ustr \<Rightarrow> version option" where
  "release_semver tag =
     (case split_on (\<lambda>c. c = 46) (strip_v (trim tag)) of
        [a, b, c] \<Rightarrow>
          (case (parse_uint 64 a, parse_uint 64 b, if list_all is_ascii_digit c then parse_uint 64 c else None) of
             (Some x, Some y, Some z) \<Rightarrow> Some (x, y, z)
           | _ \<Rightarrow> None)
      | _ \<Rightarrow> None)"

definition show_ver :: "version \<Rightarrow> ustr" where
  "show_ver v = (case v of (a, b, c) \<Rightarrow> dec a @ [46] @ dec b @ [46] @ dec c)"

definition release_version_str :: "ustr \<Rightarrow> ustr option" where
  "release_version_str tag = map_option show_ver (release_semver tag)"

section \<open>The latest release\<close>

record candidate_release =
  cd_tag :: ustr
  cd_name :: ustr
  cd_url :: ustr
  cd_notes :: "ustr list"

definition note_line :: "ustr \<Rightarrow> ustr option" where
  "note_line line =
     (let t = trim line
      in if t = [] \<or> starts_with t [35] then None
         else let u = trim (trim_start_by (\<lambda>c. c \<in> {45, 42, 8226} \<or> is_ws c) t)
              in if u = [] then None else Some (take 180 u))"

definition release_note_lines :: "ustr \<Rightarrow> ustr list" where
  "release_note_lines body = take 3 (List.map_filter note_line (str_lines body))"

definition consider_latest :: "ustr \<Rightarrow> ustr \<Rightarrow> ustr \<Rightarrow> ustr list \<Rightarrow> candidate_release option \<Rightarrow> candidate_release option" where
  "consider_latest tag name url notes best =
     (case release_semver tag of
        None \<Rightarrow> best
      | Some v \<Rightarrow>
          if (case Option.bind best (\<lambda>b. release_semver (cd_tag b)) of Some c \<Rightarrow> ver_less c v | None \<Rightarrow> True)
          then (let shown = strip_v (trim tag)
                in Some \<lparr> cd_tag = shown, cd_name = (if trim name = [] then shown else trim name), cd_url = url, cd_notes = notes \<rparr>)
          else best)"

section \<open>Installers\<close>

record release_asset =
  ra_name :: ustr
  ra_url :: ustr
  ra_size :: nat

record installer_choice =
  ic_asset :: release_asset
  ic_version :: ustr

datatype release_kind = ZipOrBinary | WindowsSetup | Flatpak

definition release_kind :: "ustr \<Rightarrow> release_kind" where
  "release_kind name =
     (let l = to_lowercase name
      in if ends_with l (lit ''.flatpak'') then Flatpak
         else if ends_with l (lit ''.msi'') \<or> (ends_with l (lit ''.exe'') \<and> (contains l (lit ''setup'') \<or> contains l (lit ''installer'')))
         then WindowsSetup
         else ZipOrBinary)"

definition arch_matches :: "ustr \<Rightarrow> ustr \<Rightarrow> bool" where
  "arch_matches l arch \<longleftrightarrow>
     (if arch = lit ''x86_64'' then contains l (lit ''x86_64'') \<or> contains l (lit ''amd64'') \<or> contains l (lit ''x64'')
      else if arch = lit ''aarch64'' then contains l (lit ''aarch64'') \<or> contains l (lit ''arm64'')
      else contains l arch)"

definition installer_asset_score :: "ustr \<Rightarrow> ustr \<Rightarrow> ustr \<Rightarrow> ustr \<Rightarrow> nat" where
  "installer_asset_score l triple os arch =
     (if list_ex (ends_with l) (map lit [''.sha256'', ''.asc'', ''.sig'', ''.yml'', ''.yaml'']) then 0
      else let arch_ok = arch_matches l arch; triple_ok = contains l (to_lowercase triple);
               setup = ends_with l (lit ''.exe'') \<and> (contains l (lit ''setup'') \<or> contains l (lit ''installer''));
               zip = ends_with l (lit ''.zip'');
               score = (if os = lit ''windows'' then
                   (if (setup \<or> ends_with l (lit ''.msi'')) \<and> (arch_ok \<or> triple_ok) then (if setup then 300 else 280)
                    else if zip \<and> (triple_ok \<or> contains l (lit ''windows'') \<and> arch_ok) then 100 else 0)
                 else if os = lit ''linux'' then
                   (if ends_with l (lit ''.flatpak'') \<and> (arch_ok \<or> triple_ok) then 300
                    else if zip \<and> (triple_ok \<or> contains l (lit ''linux'') \<and> arch_ok) then 100 else 0)
                 else if zip \<and> triple_ok then 100 else 0)
           in if 0 < score \<and> contains l (lit ''devforge'') then score + 20 else score)"

definition as_u64 :: "json \<Rightarrow> nat option" where
  "as_u64 j = (case j of JNum n \<Rightarrow> parse_uint 64 n | _ \<Rightarrow> None)"

text \<open>An asset without a name or without an address ends the search without a choice.\<close>

fun pick_from :: "ustr \<Rightarrow> ustr \<Rightarrow> ustr \<Rightarrow> json list \<Rightarrow> (nat \<times> release_asset) option \<Rightarrow> release_asset option" where
  "pick_from triple os arch [] best = map_option snd best"
| "pick_from triple os arch (a # as) best =
     (case (arg_str ''name'' a, jgets ''browser_download_url'' a) of
        (Some name, Some u) \<Rightarrow>
          (let url = unwrap_or (as_str u) []; score = installer_asset_score (to_lowercase name) triple os arch
           in if url = [] \<or> score = 0 \<or> (case best of Some (s, _) \<Rightarrow> score \<le> s | None \<Rightarrow> False)
              then pick_from triple os arch as best
              else pick_from triple os arch as
                (Some (score, \<lparr> ra_name = name, ra_url = url, ra_size = unwrap_or (Option.bind (jgets ''size'' a) as_u64) 0 \<rparr>)))
      | _ \<Rightarrow> None)"

definition pick_asset_for :: "json list \<Rightarrow> ustr \<Rightarrow> ustr \<Rightarrow> ustr \<Rightarrow> release_asset option" where
  "pick_asset_for assets triple os arch = pick_from triple os arch assets None"

definition flag_of :: "string \<Rightarrow> json \<Rightarrow> bool" where
  "flag_of k j = unwrap_or (Option.bind (jgets k j) as_bool) False"

definition items_of :: "string \<Rightarrow> json \<Rightarrow> json list" where
  "items_of k j = (case jgets k j of Some (JArr vs) \<Rightarrow> vs | _ \<Rightarrow> [])"

definition text_of :: "string \<Rightarrow> json \<Rightarrow> ustr" where
  "text_of k j = unwrap_or (arg_str k j) []"

definition published :: "bool \<Rightarrow> json \<Rightarrow> bool" where
  "published allow_prerelease rel \<longleftrightarrow> \<not> flag_of ''draft'' rel \<and> (flag_of ''prerelease'' rel \<longrightarrow> allow_prerelease)"

definition consider_release :: "ustr \<Rightarrow> ustr \<Rightarrow> ustr \<Rightarrow> bool \<Rightarrow> json \<Rightarrow> candidate_release option \<Rightarrow> candidate_release option" where
  "consider_release triple os arch pre rel best =
     (if \<not> published pre rel \<or> pick_asset_for (items_of ''assets'' rel) triple os arch = None then best
      else consider_latest (text_of ''tag_name'' rel) (unwrap_or (arg_str ''name'' rel) (text_of ''tag_name'' rel)) (text_of ''html_url'' rel)
        (release_note_lines (text_of ''body'' rel)) best)"

definition latest_release_with_installer :: "json list \<Rightarrow> ustr \<Rightarrow> ustr \<Rightarrow> ustr \<Rightarrow> bool \<Rightarrow> candidate_release option" where
  "latest_release_with_installer releases triple os arch pre = fold (consider_release triple os arch pre) releases None"

definition releases_include_version :: "json list \<Rightarrow> ustr \<Rightarrow> bool" where
  "releases_include_version releases v \<longleftrightarrow>
     list_ex (\<lambda>r. Option.bind (arg_str ''tag_name'' r) release_version_str = Some (strip_v (trim v))) releases"

definition release_asset_names :: "json \<Rightarrow> ustr list" where
  "release_asset_names rel = List.map_filter (arg_str ''name'') (items_of ''assets'' rel)"

record choosing =
  ch_exact :: bool
  ch_exact_assets :: "ustr list"
  ch_best :: "(version \<times> installer_choice) option"
  ch_latest :: "(version \<times> ustr \<times> ustr) option"

definition newer_than :: "version \<Rightarrow> (version \<times> 'a) option \<Rightarrow> bool" where
  "newer_than v best = (case best of None \<Rightarrow> True | Some (b, _) \<Rightarrow> ver_less b v)"

definition note_installer :: "version option \<Rightarrow> ustr \<Rightarrow> version \<Rightarrow> release_asset \<Rightarrow> choosing \<Rightarrow> choosing" where
  "note_installer want current v asset c =
     (let c1 = (if newer_than v (ch_latest c) then c\<lparr> ch_latest := Some (v, show_ver v, ra_name asset) \<rparr> else c)
      in if is_some_and want (\<lambda>w. \<not> ver_less w v) \<and> version_gt (show_ver v) current \<and> newer_than v (ch_best c1)
         then c1\<lparr> ch_best := Some (v, \<lparr> ic_asset = asset, ic_version = show_ver v \<rparr>) \<rparr>
         else c1)"

text \<open>\<open>Inl\<close> is the release that was asked for, when it has an installer.\<close>

fun choose_from :: "ustr \<Rightarrow> ustr \<Rightarrow> ustr \<Rightarrow> ustr \<Rightarrow> ustr \<Rightarrow> bool \<Rightarrow> json list \<Rightarrow> choosing \<Rightarrow> installer_choice + choosing" where
  "choose_from requested current triple os arch pre [] c = Inr c"
| "choose_from requested current triple os arch pre (rel # rels) c =
     (if \<not> published pre rel then choose_from requested current triple os arch pre rels c
      else case release_semver (text_of ''tag_name'' rel) of
        None \<Rightarrow> choose_from requested current triple os arch pre rels c
      | Some v \<Rightarrow>
          (let picked = pick_asset_for (items_of ''assets'' rel) triple os arch; exact = show_ver v = requested;
               c1 = (if exact then c\<lparr> ch_exact := True, ch_exact_assets := release_asset_names rel \<rparr> else c)
           in case picked of
                None \<Rightarrow> choose_from requested current triple os arch pre rels c1
              | Some asset \<Rightarrow>
                  if exact then Inl \<lparr> ic_asset = asset, ic_version = show_ver v \<rparr>
                  else choose_from requested current triple os arch pre rels
                    (note_installer (release_semver requested) current v asset c1)))"

definition installer_lookup_error :: "ustr \<Rightarrow> ustr \<Rightarrow> bool \<Rightarrow> ustr list \<Rightarrow> (ustr \<times> ustr) option \<Rightarrow> ustr \<Rightarrow> ustr" where
  "installer_lookup_error requested triple exact_found exact_assets latest current =
     (let expected = lit ''Attendu : DevForge-Setup-'' @ requested @ lit ''-x64.exe (Windows) ou DevForge-'' @ requested @ lit ''-x86_64.flatpak (Linux).'';
          latest_note = (case latest of Some (ver, name) \<Rightarrow> (lit '' Dernier installeur publi'' @ [233] @ lit '' : '') @ name @ lit '' (v'' @ ver @ lit '').'' | None \<Rightarrow> []);
          current_note = (if is_some_and latest (\<lambda>(ver, name). \<not> version_gt ver current)
            then lit '' Cette instance ('' @ current @ (lit '') n'' @ [8217] @ lit ''a pas de paquet plus r'' @ [233] @ lit ''cent '' @ [224]
     @ lit '' installer.'') else [])
      in if \<not> exact_found
         then lit ''Release GitHub v'' @ requested @ lit '' introuvable (404). '' @ expected @ latest_note
         else if exact_assets = []
         then lit ''Release GitHub v'' @ requested @ (lit '' : aucun installeur publi'' @ [233] @ lit ''. '') @ expected @ latest_note @ current_note
         else lit ''Release GitHub v'' @ requested @ lit '' : aucun installeur compatible ('' @ triple @ lit ''). Fichiers : '' @
           join (lit '', '') exact_assets @ lit ''. '' @ expected @ latest_note @ current_note)"

definition select_installer ::
    "json list \<Rightarrow> ustr \<Rightarrow> ustr \<Rightarrow> ustr \<Rightarrow> ustr \<Rightarrow> ustr \<Rightarrow> bool \<Rightarrow> ustr + installer_choice" where
  "select_installer releases req current triple os arch pre =
     (let requested = strip_v (trim req)
      in case choose_from requested current triple os arch pre releases
           \<lparr> ch_exact = False, ch_exact_assets = [], ch_best = None, ch_latest = None \<rparr> of
           Inl choice \<Rightarrow> Inr choice
         | Inr c \<Rightarrow>
             (case ch_best c of
                Some (v, choice) \<Rightarrow> Inr choice
              | None \<Rightarrow> Inl (installer_lookup_error requested triple (ch_exact c) (ch_exact_assets c) (map_option snd (ch_latest c)) current)))"

section \<open>Modes\<close>

datatype update_mode = Compose | Docker | Binary

fun mode_text :: "update_mode \<Rightarrow> ustr" where
  "mode_text Compose = lit ''compose''"
| "mode_text Docker = lit ''docker''"
| "mode_text Binary = lit ''binary''"

record runtime_hints =
  rh_flatpak :: bool
  rh_in_container :: bool
  rh_compose_explicit :: bool
  rh_compose_devforge :: bool
  rh_self_set :: bool

definition effective_update_mode :: "update_mode \<Rightarrow> runtime_hints \<Rightarrow> update_mode" where
  "effective_update_mode configured h =
     (if rh_flatpak h then Binary
      else case configured of
        Compose \<Rightarrow> Compose
      | Docker \<Rightarrow> Docker
      | Binary \<Rightarrow>
          if rh_compose_explicit h \<and> (rh_compose_devforge h \<or> rh_in_container h) then Compose
          else if rh_in_container h \<or> rh_self_set h then Docker
          else Binary)"

definition compose_text_is_devforge :: "ustr option \<Rightarrow> bool" where
  "compose_text_is_devforge text =
     (case text of
        None \<Rightarrow> False
      | Some t \<Rightarrow>
          (let l = to_ascii_lowercase t
           in contains l (lit ''bobdivx/devforge'') \<or> (contains l (lit ''ghcr.io/'') \<and> contains l (lit ''/devforge''))))"

definition kubernetes_runtime :: "ustr option \<Rightarrow> bool" where
  "kubernetes_runtime var =
     is_some_and var (\<lambda>v. to_ascii_lowercase (trim v) \<in> set (map lit [''kubernetes'', ''k8s'', ''kube'']))"

section \<open>Commands\<close>

definition upd_safe :: "uchar \<Rightarrow> bool" where
  "upd_safe c \<longleftrightarrow> is_ascii_alnum c \<or> c \<in> set (lit ''-_./:@'')"

definition upd_escape :: "ustr \<Rightarrow> ustr" where
  "upd_escape s = (if list_all upd_safe s then s else shell_single_quote s)"

definition join_safe :: "uchar \<Rightarrow> bool" where
  "join_safe c \<longleftrightarrow> is_ascii_alnum c \<or> c \<in> set (lit ''-_./:=@'')"

definition shell_join :: "ustr list \<Rightarrow> ustr" where
  "shell_join parts = join [32] (map (\<lambda>p. if list_all join_safe p then p else upd_escape p) parts)"

definition compose_cmd :: "ustr \<Rightarrow> ustr \<Rightarrow> ustr \<Rightarrow> ustr" where
  "compose_cmd file version sub =
     lit ''DEVFORGE_VERSION='' @ upd_escape version @ lit '' docker compose -f '' @ upd_escape file @ [32] @ sub"

definition upd_truncate :: "nat \<Rightarrow> ustr \<Rightarrow> ustr" where
  "upd_truncate n s = (let t = trim s in if length t \<le> n then t else take n t @ [8230])"

definition container_name_from_inspect :: "ustr \<Rightarrow> ustr" where
  "container_name_from_inspect raw = trim_start_char 47 (trim raw)"

definition with_prefix :: "ustr \<Rightarrow> json \<Rightarrow> bool" where
  "with_prefix p v \<longleftrightarrow> is_some_and (as_str v) (\<lambda>s. starts_with s p)"

fun replace_first_json :: "(json \<Rightarrow> bool) \<Rightarrow> json \<Rightarrow> json list \<Rightarrow> json list option" where
  "replace_first_json p new [] = None"
| "replace_first_json p new (v # vs) = (if p v then Some (new # vs) else map_option ((#) v) (replace_first_json p new vs))"

definition upsert_env :: "ustr \<Rightarrow> ustr \<Rightarrow> json \<Rightarrow> json" where
  "upsert_env key val env =
     (let entry = JStr (key @ [61] @ val)
      in case env of
           JArr vs \<Rightarrow> JArr (unwrap_or (replace_first_json (with_prefix (key @ [61])) entry vs) (vs @ [entry]))
         | _ \<Rightarrow> JArr [entry])"

definition role_is_worker :: "(ustr \<Rightarrow> json option) \<Rightarrow> ustr \<Rightarrow> bool" where
  "role_is_worker parse raw =
     is_some_and (Option.bind (parse raw) (arg_str ''role'')) (\<lambda>s. to_ascii_lowercase s = lit ''worker'')"

definition arr_of :: "json \<Rightarrow> json list" where
  "arr_of j = (case j of JArr vs \<Rightarrow> vs | _ \<Rightarrow> [])"

definition obj_of :: "json \<Rightarrow> (ustr \<times> json) list" where
  "obj_of j = (case j of JObj m \<Rightarrow> m | _ \<Rightarrow> [])"

definition flagged :: "string \<Rightarrow> ustr list \<Rightarrow> ustr list" where
  "flagged f vs = concat (map (\<lambda>v. [lit f, v]) vs)"

definition dest_of :: "json \<Rightarrow> ustr option" where
  "dest_of m = Option.bind (opt_or (jgets ''Destination'' m) (jgets ''Target'' m)) as_str"

definition mount_arg :: "json \<Rightarrow> ustr option" where
  "mount_arg m =
     (let typ = unwrap_or (arg_str ''Type'' m) (lit ''bind''); src = text_of ''Source'' m; dst = unwrap_or (dest_of m) []
      in if typ \<noteq> lit ''bind'' \<and> typ \<noteq> lit ''volume'' \<or> src = [] \<or> dst = [] then None
         else Some (src @ [58] @ dst @ (if unwrap_or (Option.bind (jgets ''RW'' m) as_bool) True then [] else lit '':ro'')))"

definition volume_args :: "json \<Rightarrow> json \<Rightarrow> ustr list" where
  "volume_args binds mounts =
     (let bs = List.map_filter as_str (arr_of binds)
      in if bs \<noteq> [] then bs else List.map_filter mount_arg (arr_of mounts))"

definition port_arg :: "ustr \<Rightarrow> json \<Rightarrow> ustr option" where
  "port_arg port h =
     (let ip = text_of ''HostIp'' h; hp = text_of ''HostPort'' h
      in if hp = [] then None
         else Some ((if ip = [] \<or> ip = lit ''0.0.0.0'' then [] else ip @ [58]) @ hp @ [58] @ port))"

definition port_args :: "json \<Rightarrow> ustr list" where
  "port_args ports =
     concat (map (\<lambda>(cp, hosts). List.map_filter (port_arg (replace_str (lit ''/udp'') [] (replace_str (lit ''/tcp'') [] cp))) (arr_of hosts)) (obj_of ports))"

definition env_args :: "ustr \<Rightarrow> json \<Rightarrow> ustr list" where
  "env_args target env =
     (case env of
        JArr vs \<Rightarrow> map (\<lambda>s. if starts_with s (lit ''DEVFORGE_VERSION='') then lit ''DEVFORGE_VERSION='' @ target else s) (List.map_filter as_str vs)
      | _ \<Rightarrow> [lit ''DEVFORGE_VERSION='' @ target])"

definition docker_label_args :: "json \<Rightarrow> ustr list" where
  "docker_label_args labels = List.map_filter (\<lambda>(k, v). map_option (\<lambda>s. k @ [61] @ s) (as_str v)) (obj_of labels)"

definition build_docker_run_args ::
    "ustr \<Rightarrow> ustr \<Rightarrow> ustr \<Rightarrow> ustr \<Rightarrow> json \<Rightarrow> json \<Rightarrow> json \<Rightarrow> json \<Rightarrow> json \<Rightarrow> json \<Rightarrow> ustr list" where
  "build_docker_run_args name image_ref target restart binds mounts ports env networks labels =
     [lit ''docker'', lit ''run'', lit ''-d'', lit ''--name'', name]
     @ (if restart \<noteq> lit ''no'' \<and> restart \<noteq> [] then [lit ''--restart'', restart] else [])
     @ flagged ''-v'' (volume_args binds mounts)
     @ flagged ''-p'' (port_args ports)
     @ flagged ''-e'' (env_args target env)
     @ flagged ''--label'' (docker_label_args labels)
     @ (case obj_of networks of [] \<Rightarrow> [] | (net, _) # _ \<Rightarrow> [lit ''--network'', net])
     @ [image_ref]"

definition nl :: "ustr" where "nl = [10]"

definition helper_script :: "ustr \<Rightarrow> ustr \<Rightarrow> ustr \<Rightarrow> ustr" where
  "helper_script name old run_cmd =
     (let n = upd_escape name; o' = upd_escape old
      in lit ''set +e'' @ nl @ lit ''sleep 2'' @ nl
         @ lit ''docker stop '' @ o' @ lit '' >/dev/null 2>&1'' @ nl
         @ lit ''docker rm -f '' @ n @ lit '' >/dev/null 2>&1'' @ nl
         @ lit ''if '' @ run_cmd @ lit ''; then'' @ nl
         @ lit ''docker rm -f '' @ o' @ lit '' >/dev/null 2>&1'' @ nl
         @ lit ''exit 0'' @ nl @ lit ''fi'' @ nl
         @ lit ''docker rm -f '' @ n @ lit '' >/dev/null 2>&1'' @ nl
         @ lit ''docker rename '' @ o' @ [32] @ n @ lit '' >/dev/null 2>&1'' @ nl
         @ lit ''docker start '' @ n @ lit '' >/dev/null 2>&1'' @ nl
         @ lit ''exit 1'' @ nl)"

text \<open>\<open>str::as_bytes\<close>.\<close>

definition utf8_char :: "uchar \<Rightarrow> nat list" where
  "utf8_char c =
     (if c < 128 then [c]
      else if c < 2048 then [192 + c div 64, 128 + c mod 64]
      else if c < 65536 then [224 + c div 4096, 128 + c div 64 mod 64, 128 + c mod 64]
      else [240 + c div 262144, 128 + c div 4096 mod 64, 128 + c div 64 mod 64, 128 + c mod 64])"

definition as_bytes :: "ustr \<Rightarrow> nat list" where
  "as_bytes s = concat (map utf8_char s)"

text \<open>Base64; the shifts and masks of a group of 24 bits as divisions.\<close>

definition b64_table :: ustr where
  "b64_table = lit ''ABCDEFGHIJKLMNOPQRSTUVWXYZabcdefghijklmnopqrstuvwxyz0123456789+/''"

definition b64_digit :: "nat \<Rightarrow> nat \<Rightarrow> uchar" where
  "b64_digit triple shift = b64_table ! (triple div 2 ^ shift mod 64)"

fun b64_encode :: "nat list \<Rightarrow> ustr" where
  "b64_encode [] = []"
| "b64_encode [a] = (let t = a * 65536 in [b64_digit t 18, b64_digit t 12, 61, 61])"
| "b64_encode [a, b] = (let t = a * 65536 + b * 256 in [b64_digit t 18, b64_digit t 12, b64_digit t 6, 61])"
| "b64_encode (a # b # c # r) =
     (let t = a * 65536 + b * 256 + c in [b64_digit t 18, b64_digit t 12, b64_digit t 6, b64_digit t 0] @ b64_encode r)"

definition detached_recreate_helper_cmd :: "ustr \<Rightarrow> ustr \<Rightarrow> ustr \<Rightarrow> ustr \<Rightarrow> ustr \<Rightarrow> ustr" where
  "detached_recreate_helper_cmd name old updater image_ref run_cmd =
     lit ''docker rm -f '' @ upd_escape updater @ lit '' >/dev/null 2>&1 || true; '' @
     lit ''docker run -d --rm --name '' @ upd_escape updater @ [32] @
     lit ''-v /var/run/docker.sock:/var/run/docker.sock '' @
     lit ''--entrypoint sh '' @ upd_escape image_ref @ [32] @
     (lit ''-c '' @ [39] @ lit ''echo '') @ b64_encode (as_bytes (helper_script name old run_cmd)) @ (lit '' | base64 -d | sh'' @ [39])"

definition traefik_host_dir_from_mounts :: "json \<Rightarrow> ustr \<Rightarrow> ustr option" where
  "traefik_host_dir_from_mounts mounts data_dir =
     (let data = trim_end_char 47 data_dir;
          dir = (\<lambda>m. if unwrap_or (arg_str ''Type'' m) (lit ''bind'') \<noteq> lit ''bind'' then None
                     else case (dest_of m, arg_str ''Source'' m) of
                       (Some dst, Some src) \<Rightarrow>
                         (if trim_end_char 47 src = [] \<or> trim_end_char 47 dst \<notin> {lit ''/data'', data} then None
                          else Some (trim_end_char 47 src @ lit ''/proxy''))
                     | _ \<Rightarrow> None)
      in case List.map_filter dir (arr_of mounts) of [] \<Rightarrow> None | d # _ \<Rightarrow> Some d)"

definition download_name :: "ustr \<Rightarrow> ustr" where
  "download_name asset = map (\<lambda>c. if is_ascii_alnum c \<or> c \<in> set (lit ''.-_'') then c else 95) asset"

definition under_dir :: "ustr \<Rightarrow> ustr \<Rightarrow> ustr" where
  "under_dir dir name = (if ends_with dir [47] then dir @ name else dir @ [47] @ name)"

text \<open>The directory of the downloads, from \<open>FLATPAK_ID\<close>, \<open>XDG_DATA_HOME\<close> and the temporary directory.\<close>

definition update_download_dir :: "ustr option \<Rightarrow> ustr option \<Rightarrow> ustr \<Rightarrow> ustr" where
  "update_download_dir flatpak xdg tmp =
     (case (flatpak, opt_filter (\<lambda>d. trim d \<noteq> []) xdg) of
        (Some _, Some d) \<Rightarrow> under_dir (under_dir (trim d) (lit ''devforge'')) (lit ''updates'')
      | _ \<Rightarrow> under_dir tmp (lit ''devforge-updates''))"

definition release_tag_candidates :: "ustr \<Rightarrow> ustr list" where
  "release_tag_candidates version = (let v = strip_v (trim version) in if v = [] then [118 # v] else [118 # v, v])"

section \<open>Workers\<close>

definition remote_container_update_script :: "ustr \<Rightarrow> ustr \<Rightarrow> ustr" where
  "remote_container_update_script template target =
     (let t = strip_v (trim target)
      in if t = [] \<or> \<not> list_all (\<lambda>c. is_ascii_alnum c \<or> c \<in> set (lit ''.-_'')) t
         then lit ''echo DEVFORGE_UPDATE_FAIL version cible invalide'' @ nl @ lit ''exit 1'' @ nl
         else replace_str (lit ''@@TARGET@@'') t template)"

datatype remote_container_update = NotContainer | Already | Started | RemoteFailed ustr

definition interpret_remote_container_update :: "ustr \<Rightarrow> bool \<Rightarrow> remote_container_update" where
  "interpret_remote_container_update out ok =
     (let detail = take 400 (trim out)
      in if contains out (lit ''DEVFORGE_UPDATE_FAIL'') then RemoteFailed detail
         else if contains out (lit ''DEVFORGE_UPDATE_HOST'') then NotContainer
         else if contains out (lit ''DEVFORGE_UPDATE_ALREADY'') then Already
         else if contains out (lit ''DEVFORGE_UPDATE_STARTED'') \<or> contains out (lit ''DEVFORGE_UPDATE_OK'') then Started
         else if trim out \<noteq> [] then RemoteFailed detail
         else RemoteFailed (if ok then (lit ''mise '' @ [224] @ lit '' jour conteneur sans r'' @ [233] @ lit ''sultat'') else ([233] @ lit ''chec mise '' @ [224] @ lit '' jour conteneur'')))"

end
