(* ===== verification/UpdateRun.thy ===== *)
theory UpdateRun
  imports Update TraefikProxy DeployAct
begin

text \<open>
  An update of DevForge (\<open>crates/update/src/lib.rs\<close>): the check of the releases, the start of a job, the
  pipeline that pulls an image and recreates the container, or downloads an installer, and the steps it
  reports. Commands go to the executor of the server and stand in a log; the answers of the executor, of
  GitHub and of the file system, the environment variables and the readers of JSON are fields of an
  environment. The download, the installation of a program file and the launch of an installer answer
  through the environment. The pipeline is a task of its own: \<open>start_update\<close> records the job and says
  whether it runs, \<open>run_update\<close> is the task.
\<close>

section \<open>Data\<close>

datatype step_status = StepPending | StepRunning | StepDone | StepFailed | StepSkipped

record update_step =
  up_id :: ustr
  up_label :: ustr
  up_status :: step_status
  up_detail :: ustr

datatype job_status = JobRunning | JobRestarting | JobFailed

record update_job =
  uj_id :: ustr
  uj_target :: ustr
  uj_status :: job_status
  uj_steps :: "update_step list"
  uj_started :: int
  uj_finished :: "int option"
  uj_message :: ustr
  uj_wait :: ustr

record version_check =
  vk_current :: ustr
  vk_latest :: "ustr option"
  vk_name :: "ustr option"
  vk_url :: "ustr option"
  vk_available :: bool
  vk_ahead :: bool
  vk_can_apply :: bool
  vk_message :: ustr
  vk_notes :: "ustr list"

record git_release =
  gl_tag :: ustr
  gl_name :: ustr
  gl_draft :: bool
  gl_prerelease :: bool
  gl_url :: ustr
  gl_body :: ustr

text \<open>An answer of HTTP: its status as a number and as a text, its body, and the body read as JSON.\<close>

record http_answer =
  ha_status :: nat
  ha_shown :: ustr
  ha_body :: ustr
  ha_json :: "ustr + json"

record update_config =
  uc_current :: ustr
  uc_owner :: ustr
  uc_repo :: ustr
  uc_mode :: update_mode
  uc_container :: ustr
  uc_image :: ustr
  uc_compose_file :: ustr
  uc_compose_service :: ustr
  uc_channel :: ustr

text \<open>The values of the environment of the process, the files it reads and the services it asks.
  \<open>ux_exec k c\<close> is the answer to the command \<open>c\<close>, the \<open>k\<close>th of the log.\<close>

record update_env =
  ux_config :: update_config
  ux_exec :: "nat \<Rightarrow> ustr \<Rightarrow> reply"
  ux_releases :: "ustr + git_release list"
  ux_tags :: "ustr + ustr list"
  ux_get :: "ustr \<Rightarrow> ustr + http_answer"
  ux_var :: "string \<Rightarrow> ustr option"
  ux_hostname :: "ustr option"
  ux_identity :: "ustr option"
  ux_compose_text :: "ustr option"
  ux_in_container :: bool
  ux_triple :: ustr
  ux_os :: ustr
  ux_arch :: ustr
  ux_json :: "ustr \<Rightarrow> ustr + json"
  ux_acme :: "ustr option"
  ux_exe :: "ustr + ustr"
  ux_temp_dir :: ustr
  ux_download :: "release_asset \<Rightarrow> ustr \<Rightarrow> ustr + unit"
  ux_install :: "ustr \<Rightarrow> ustr \<Rightarrow> ustr \<Rightarrow> ustr + ustr"
  ux_launch :: "release_kind \<Rightarrow> ustr \<Rightarrow> ustr + unit"
  ux_id :: "nat \<Rightarrow> ustr"

record update_world =
  uw_job :: "update_job option"
  uw_cmds :: "ustr list"
  uw_ids :: nat
  uw_now :: int

type_synonym 'a upd = "(update_world, ustr, 'a) rop"

abbreviation conf :: "update_env \<Rightarrow> update_config" where
  "conf \<equiv> ux_config"

definition exec_cmd :: "update_env \<Rightarrow> ustr \<Rightarrow> exec_result upd" where
  "exec_cmd E c w = (w\<lparr> uw_cmds := uw_cmds w @ [c] \<rparr>, ux_exec E (length (uw_cmds w)) c)"

text \<open>\<open>let _ = ...\<close>, \<open>.unwrap_or(...)\<close> and \<open>.ok()\<close>.\<close>

definition or_else :: "'a \<Rightarrow> 'a upd \<Rightarrow> 'a upd" where
  "or_else d m w = (case m w of (w', Inr x) \<Rightarrow> (w', Inr x) | (w', Inl _) \<Rightarrow> (w', Inr d))"

definition dropped :: "'a upd \<Rightarrow> unit upd" where
  "dropped m w = (fst (m w), Inr ())"

abbreviation both :: "'a upd \<Rightarrow> 'b upd \<Rightarrow> 'b upd" where
  "both m n \<equiv> andthen m (\<lambda>_. n)"

section \<open>The job\<close>

definition new_job :: "ustr \<Rightarrow> ustr \<Rightarrow> int \<Rightarrow> update_job" where
  "new_job uid target now =
     \<lparr> uj_id = uid, uj_target = strip_v target, uj_status = JobRunning,
        uj_steps = map (\<lambda>(i, l). \<lparr> up_id = lit i, up_label = l, up_status = StepPending, up_detail = [] \<rparr>)
          [(''check'', (lit ''V'' @ [233] @ lit ''rification'')), (''prepare'', (lit ''Pr'' @ [233] @ lit ''paration'')), (''pull'', (lit ''T'' @ [233] @ lit ''l'' @ [233] @ lit ''chargement'')),
           (''apply'', lit ''Application''), (''restart'', (lit ''Red'' @ [233] @ lit ''marrage''))],
        uj_started = now, uj_finished = None, uj_message = (lit ''Mise '' @ [224] @ lit '' jour en cours'' @ [8230]), uj_wait = lit ''/app/update/wait'' \<rparr>"

fun set_first :: "('a \<Rightarrow> bool) \<Rightarrow> ('a \<Rightarrow> 'a) \<Rightarrow> 'a list \<Rightarrow> 'a list" where
  "set_first p f [] = []"
| "set_first p f (x # xs) = (if p x then f x # xs else x # set_first p f xs)"

definition with_job :: "ustr \<Rightarrow> (update_job \<Rightarrow> update_job) \<Rightarrow> unit upd" where
  "with_job uid f w =
     (case opt_filter (\<lambda>j. uj_id j = uid) (uw_job w) of
        None \<Rightarrow> (w, Inl (lit ''job introuvable''))
      | Some j \<Rightarrow> (w\<lparr> uw_job := Some (f j) \<rparr>, Inr ()))"

definition set_step :: "ustr \<Rightarrow> string \<Rightarrow> step_status \<Rightarrow> ustr \<Rightarrow> unit upd" where
  "set_step uid step st detail =
     with_job uid (\<lambda>j. j\<lparr> uj_steps := set_first (\<lambda>s. up_id s = lit step) (\<lambda>s. s\<lparr> up_status := st, up_detail := detail \<rparr>) (uj_steps j) \<rparr>)"

definition note_resolved_version :: "ustr \<Rightarrow> ustr \<Rightarrow> ustr \<Rightarrow> unit upd" where
  "note_resolved_version uid version msg = with_job uid (\<lambda>j. j\<lparr> uj_target := version, uj_message := msg \<rparr>)"

definition failed_step :: "ustr \<Rightarrow> update_step \<Rightarrow> update_step" where
  "failed_step msg s = (if up_status s = StepRunning then s\<lparr> up_status := StepFailed, up_detail := msg \<rparr> else s)"

definition fail_job :: "ustr \<Rightarrow> ustr \<Rightarrow> update_world \<Rightarrow> update_world" where
  "fail_job uid msg w =
     (case opt_filter (\<lambda>j. uj_id j = uid) (uw_job w) of
        None \<Rightarrow> w
      | Some j \<Rightarrow> w\<lparr> uw_job := Some (j\<lparr> uj_status := JobFailed, uj_message := msg, uj_finished := Some (uw_now w),
          uj_steps := map (failed_step msg) (uj_steps j) \<rparr>) \<rparr>)"

definition restarting :: "ustr \<Rightarrow> update_world \<Rightarrow> update_world" where
  "restarting uid w =
     (case opt_filter (\<lambda>j. uj_id j = uid) (uw_job w) of
        None \<Rightarrow> w
      | Some j \<Rightarrow> w\<lparr> uw_job := Some (j\<lparr> uj_status := JobRestarting, uj_message := (lit ''Red'' @ [233] @ lit ''marrage de DevForge'' @ [8230]),
          uj_wait := lit ''/app/update/wait?job='' @ uj_id j @ lit ''&to='' @ uj_target j \<rparr>) \<rparr>)"

section \<open>The releases\<close>

definition is_kubernetes :: "update_env \<Rightarrow> bool" where
  "is_kubernetes E = kubernetes_runtime (ux_var E ''DEVFORGE_RUNTIME'')"

definition kubernetes_update_hint :: ustr where
  "kubernetes_update_hint = (lit ''DEVFORGE_RUNTIME=kubernetes : mise '' @ [224]
     @ lit '' jour via Helm (helm upgrade --set image.tag='' @ [8230]
     @ lit ''), pas via Docker.'')"

definition mode_ready_hint :: "update_env \<Rightarrow> ustr option" where
  "mode_ready_hint E = (if is_kubernetes E then Some kubernetes_update_hint else None)"

definition stable_only :: "update_env \<Rightarrow> bool" where
  "stable_only E \<longleftrightarrow> uc_channel (conf E) = lit ''stable''"

definition repo_path :: "update_env \<Rightarrow> ustr" where
  "repo_path E = uc_owner (conf E) @ [47] @ uc_repo (conf E)"

definition is_success :: "http_answer \<Rightarrow> bool" where
  "is_success a \<longleftrightarrow> 200 \<le> ha_status a \<and> ha_status a < 300"

definition fetch_release_list :: "update_env \<Rightarrow> ustr + json list" where
  "fetch_release_list E =
     (case ux_get E (lit ''https://api.github.com/repos/'' @ repo_path E @ lit ''/releases?per_page=20'') of
        Inl e \<Rightarrow> Inl (lit ''GitHub releases : '' @ e)
      | Inr a \<Rightarrow>
          if \<not> is_success a then Inl (lit ''GitHub releases : '' @ ha_shown a)
          else (case ha_json a of Inl e \<Rightarrow> Inl (lit ''JSON releases : '' @ e) | Inr v \<Rightarrow> Inr (arr_of v)))"

fun fetch_tags :: "update_env \<Rightarrow> ustr list \<Rightarrow> ustr + json option" where
  "fetch_tags E [] = Inr None"
| "fetch_tags E (t # ts) =
     (case ux_get E (lit ''https://api.github.com/repos/'' @ repo_path E @ lit ''/releases/tags/'' @ t) of
        Inl e \<Rightarrow> Inl (lit ''GitHub release '' @ t @ lit '' : '' @ e)
      | Inr a \<Rightarrow>
          if ha_status a = 404 then fetch_tags E ts
          else if \<not> is_success a then Inl (lit ''GitHub release '' @ t @ lit '' : '' @ ha_shown a)
          else (case ha_json a of Inl e \<Rightarrow> Inl (lit ''JSON release : '' @ e) | Inr v \<Rightarrow> Inr (Some v)))"

definition fetch_release_tag :: "update_env \<Rightarrow> ustr \<Rightarrow> ustr + json option" where
  "fetch_release_tag E version = fetch_tags E (release_tag_candidates version)"

definition fetch_latest_with_installer :: "update_env \<Rightarrow> ustr + candidate_release option" where
  "fetch_latest_with_installer E =
     (case fetch_release_list E of
        Inl e \<Rightarrow> Inl e
      | Inr rs \<Rightarrow> Inr (latest_release_with_installer rs (ux_triple E) (ux_os E) (ux_arch E) (\<not> stable_only E)))"

definition best_of_releases :: "update_env \<Rightarrow> candidate_release option" where
  "best_of_releases E =
     (case ux_releases E of
        Inl _ \<Rightarrow> None
      | Inr rs \<Rightarrow> fold (\<lambda>r b. if gl_draft r \<or> (stable_only E \<and> gl_prerelease r) then b
          else consider_latest (gl_tag r) (gl_name r) (gl_url r) (release_note_lines (gl_body r)) b) rs None)"

definition best_of_tags :: "update_env \<Rightarrow> candidate_release option \<Rightarrow> candidate_release option" where
  "best_of_tags E best =
     (if uc_mode (conf E) = Binary then best
      else case ux_tags E of
        Inl _ \<Rightarrow> best
      | Inr ts \<Rightarrow> fold (\<lambda>t b. consider_latest t t (lit ''https://github.com/'' @ repo_path E @ lit ''/tree/'' @ t) [] b) ts best)"

definition latest_endpoint :: "update_env \<Rightarrow> ustr + candidate_release" where
  "latest_endpoint E =
     (case ux_get E (lit ''https://api.github.com/repos/'' @ repo_path E @ lit ''/releases/latest'') of
        Inl e \<Rightarrow> Inl (lit ''GitHub releases: '' @ e)
      | Inr a \<Rightarrow>
          if \<not> is_success a then Inl (lit ''GitHub '' @ ha_shown a @ lit '': '' @ take 200 (ha_body a))
          else (case ha_json a of
            Inl e \<Rightarrow> Inl (lit ''JSON releases: '' @ e)
          | Inr v \<Rightarrow>
              (case arg_str ''tag_name'' v of
                 None \<Rightarrow> Inl (lit ''release sans tag'')
               | Some tag \<Rightarrow> Inr \<lparr> cd_tag = tag, cd_name = unwrap_or (arg_str ''name'' v) tag, cd_url = text_of ''html_url'' v,
                   cd_notes = release_note_lines (text_of ''body'' v) \<rparr>)))"

definition fetch_latest :: "update_env \<Rightarrow> ustr + candidate_release" where
  "fetch_latest E =
     (case (if uc_mode (conf E) = Binary then fetch_latest_with_installer E else Inr None) of
        Inr (Some c) \<Rightarrow> Inr c
      | _ \<Rightarrow>
          (case best_of_tags E (best_of_releases E) of
             Some c \<Rightarrow> Inr c
           | None \<Rightarrow> latest_endpoint E))"

definition check_update :: "update_env \<Rightarrow> version_check" where
  "check_update E =
     (let cur = uc_current (conf E)
      in case fetch_latest E of
        Inl e \<Rightarrow> \<lparr> vk_current = cur, vk_latest = None, vk_name = None, vk_url = None, vk_available = False, vk_ahead = False,
            vk_can_apply = False, vk_message = (lit ''Impossible de v'' @ [233] @ lit ''rifier les releases : '') @ e, vk_notes = [] \<rparr>
      | Inr c \<Rightarrow>
          (let latest = strip_v (cd_tag c); available = version_gt latest cur; ahead = version_gt cur latest;
               hint = mode_ready_hint E
           in \<lparr> vk_current = cur, vk_latest = Some latest, vk_name = Some (cd_name c), vk_url = Some (cd_url c),
                 vk_available = available, vk_ahead = ahead, vk_can_apply = (available \<and> hint = None),
                 vk_message = (if available
                   then (case hint of
                      Some h \<Rightarrow> lit ''Nouvelle version '' @ latest @ (lit '' disponible '' @ [8212] @ lit '' '') @ h
                    | None \<Rightarrow> lit ''Nouvelle version '' @ latest @ lit '' disponible.'')
                   else if ahead
                   then lit ''Cette instance ('' @ cur @ (lit '') est en avance sur la derni'' @ [232] @ lit ''re version publi'' @ [233]
     @ lit ''e ('') @ latest @ lit '').''
                   else (lit ''DevForge est '' @ [224] @ lit '' jour.'')),
                 vk_notes = cd_notes c \<rparr>))"

text \<open>\<open>Inr (job, True)\<close> when the task was launched.\<close>

definition start_update :: "update_env \<Rightarrow> ustr option \<Rightarrow> update_world \<Rightarrow> update_world \<times> (ustr + update_job \<times> bool)" where
  "start_update E wanted w =
     (if is_kubernetes E then (w, Inl kubernetes_update_hint)
      else case opt_filter (\<lambda>j. uj_status j \<in> {JobRunning, JobRestarting}) (uw_job w) of
        Some j \<Rightarrow> (w, Inr (j, False))
      | None \<Rightarrow>
          (case (case opt_filter (\<lambda>s. trim s \<noteq> []) wanted of
                   Some t \<Rightarrow> Some (strip_v t)
                 | None \<Rightarrow> map_option strip_v (vk_latest (check_update E))) of
             None \<Rightarrow> (w, Inl (lit ''Aucune version cible (releases introuvables).''))
           | Some target \<Rightarrow>
               if \<not> version_gt target (uc_current (conf E))
               then (w, Inl ((lit ''D'' @ [233] @ lit ''j'' @ [224] @ lit '' '' @ [224] @ lit '' jour ('') @ uc_current (conf E) @ lit '').''))
               else (let j = new_job (ux_id E (uw_ids w)) target (uw_now w)
                     in (w\<lparr> uw_job := Some j, uw_ids := Suc (uw_ids w) \<rparr>, Inr (j, True)))))"

section \<open>The container\<close>

definition docker_inspect_str :: "update_env \<Rightarrow> ustr \<Rightarrow> ustr \<Rightarrow> ustr upd" where
  "docker_inspect_str E name fmt =
     andthen (exec_cmd E (lit ''docker inspect --format '' @ upd_escape fmt @ [32] @ upd_escape name)) (\<lambda>x.
       if er_ok x then ret (er_out x)
       else fail (lit ''Conteneur '' @ name @ lit '' introuvable : '' @ upd_truncate 200 (er_out x)))"

definition docker_inspect_json :: "update_env \<Rightarrow> ustr \<Rightarrow> string \<Rightarrow> json upd" where
  "docker_inspect_json E name fmt =
     andthen (docker_inspect_str E name (lit fmt)) (\<lambda>out.
       let raw = trim out
       in if raw = [] \<or> raw = lit ''null'' then ret JNull
          else lift_res (\<lambda>e. lit ''inspect JSON ('' @ lit fmt @ lit ''): '' @ e @ (lit '' '' @ [8212] @ lit '' '') @ upd_truncate 120 raw) (ux_json E raw))"

definition running_container_name :: "update_env \<Rightarrow> ustr option upd" where
  "running_container_name E =
     (let host = trim (unwrap_or (ux_hostname E) [])
      in if host = [] \<or> 128 < utf8_len host then ret None
         else or_else None (andthen (docker_inspect_str E host (lit ''{{.Name}}'')) (\<lambda>raw.
           ret (opt_filter (\<lambda>n. n \<noteq> []) (Some (container_name_from_inspect raw))))))"

definition container_name_of :: "update_env \<Rightarrow> ustr upd" where
  "container_name_of E = andthen (running_container_name E) (\<lambda>n. ret (unwrap_or n (uc_container (conf E))))"

definition inspect_or_null :: "update_env \<Rightarrow> ustr \<Rightarrow> string \<Rightarrow> json upd" where
  "inspect_or_null E name fmt = or_else JNull (docker_inspect_json E name fmt)"

definition swap_in :: "update_env \<Rightarrow> ustr \<Rightarrow> ustr \<Rightarrow> ustr \<Rightarrow> ustr upd" where
  "swap_in E name image_ref run_text =
     (let old = name @ lit ''-old''; updater = name @ lit ''-updater''
      in both (dropped (exec_cmd E (lit ''docker rm -f '' @ upd_escape old @ [32] @ upd_escape updater @ lit '' >/dev/null 2>&1 || true'')))
        (andthen (exec_cmd E (lit ''docker rename '' @ upd_escape name @ [32] @ upd_escape old)) (\<lambda>r.
          if \<not> er_ok r then fail ((lit ''rename '' @ [233] @ lit ''chou'' @ [233] @ lit '' : '') @ upd_truncate 200 (er_out r))
          else andthen (exec_cmd E (detached_recreate_helper_cmd name old updater image_ref run_text)) (\<lambda>s.
            if er_ok s
            then ret ((lit ''Recreate planifi'' @ [233] @ lit '' '') @ name @ (lit '' '' @ [8592] @ lit '' '') @ image_ref @ lit '' (stop old puis run)'')
            else both (dropped (exec_cmd E (lit ''docker rename '' @ upd_escape old @ [32] @ upd_escape name)))
              (fail ((lit ''planification recreate '' @ [233] @ lit ''chou'' @ [233] @ lit ''e : '') @ upd_truncate 400 (er_out s)))))))"

definition recreate_docker_container :: "update_env \<Rightarrow> ustr \<Rightarrow> ustr upd" where
  "recreate_docker_container E target =
     andthen (container_name_of E) (\<lambda>name.
     andthen (or_else (lit ''unless-stopped'') (docker_inspect_str E name (lit ''{{.HostConfig.RestartPolicy.Name}}''))) (\<lambda>restart.
     andthen (inspect_or_null E name ''{{json .HostConfig.Binds}}'') (\<lambda>binds.
     andthen (inspect_or_null E name ''{{json .Mounts}}'') (\<lambda>mounts.
     andthen (inspect_or_null E name ''{{json .HostConfig.PortBindings}}'') (\<lambda>ports.
     andthen (inspect_or_null E name ''{{json .Config.Env}}'') (\<lambda>env.
     andthen (inspect_or_null E name ''{{json .NetworkSettings.Networks}}'') (\<lambda>networks.
     andthen (inspect_or_null E name ''{{json .Config.Labels}}'') (\<lambda>labels.
       let image_ref = uc_image (conf E) @ [58] @ target;
           env' = upsert_env (lit ''DEVFORGE_VERSION'') target (upsert_env (lit ''DEVFORGE_SELF_CONTAINER'') name env)
       in swap_in E name image_ref
            (shell_join (build_docker_run_args name image_ref target (trim restart) binds mounts ports env' networks labels))))))))))"

section \<open>The reverse proxy after an update\<close>

definition proxy :: ustr where
  "proxy = lit ''devforge-traefik''"

definition proxy_state_cmd :: ustr where
  "proxy_state_cmd = (lit ''docker inspect devforge-traefik --format '' @ [39] @ lit ''{{.State.Status}}''
     @ [39] @ lit '' 2>/dev/null || echo '' @ [39] @ lit ''missing'' @ [39])"

definition proxy_mount_cmd :: ustr where
  "proxy_mount_cmd = (lit ''docker inspect devforge-traefik --format '' @ [39]
     @ lit ''{{range .Mounts}}{{if eq .Destination '' @ [34] @ lit ''/traefik'' @ [34]
     @ lit ''}}{{.Source}}{{end}}{{end}}'' @ [39] @ lit '' 2>/dev/null || true'')"

definition data_path :: "update_env \<Rightarrow> ustr" where
  "data_path E = unwrap_or (ux_var E ''DEVFORGE_DATA_DIR'') (lit ''/var/lib/devforge'')"

definition resolve_traefik_host_dir :: "update_env \<Rightarrow> ustr \<Rightarrow> ustr upd" where
  "resolve_traefik_host_dir E data =
     (case opt_filter (\<lambda>s. trim s \<noteq> []) (ux_var E ''DEVFORGE_TRAEFIK_HOST_DIR'') of
        Some s \<Rightarrow> ret (trim s)
      | None \<Rightarrow>
          andthen (container_name_of E) (\<lambda>name.
          andthen (inspect_or_null E name ''{{json .Mounts}}'') (\<lambda>mounts.
            ret (unwrap_or (traefik_host_dir_from_mounts mounts data) (trim_end_char 47 data @ lit ''/proxy'')))))"

definition remove_proxy :: "update_env \<Rightarrow> unit upd" where
  "remove_proxy E = dropped (exec_cmd E (lit ''docker rm -f devforge-traefik''))"

definition proxy_run :: "update_env \<Rightarrow> ustr \<Rightarrow> bool \<Rightarrow> ustr" where
  "proxy_run E dir publish = traefik_run_command proxy (lit ''devforge'') dir (lit ''traefik:v3.6'') (ux_acme E) publish"

definition create_proxy :: "update_env \<Rightarrow> ustr \<Rightarrow> unit upd" where
  "create_proxy E dir =
     andthen (exec_cmd E (proxy_run E dir True)) (\<lambda>first.
     andthen (if \<not> er_ok first \<and> contains (to_ascii_lowercase (er_out first)) (lit ''port is already allocated'')
              then both (remove_proxy E) (exec_cmd E (proxy_run E dir False))
              else ret first) (\<lambda>r.
       if er_ok r then ret () else fail (lit ''Failed to create Traefik: '' @ upd_truncate 300 (er_out r))))"

definition proxy_mount :: "update_env \<Rightarrow> ustr upd" where
  "proxy_mount E = or_else [] (andthen (exec_cmd E proxy_mount_cmd) (\<lambda>x. ret (trim (er_out x))))"

definition prepare_proxy_dir :: "ustr \<Rightarrow> ustr" where
  "prepare_proxy_dir dir =
     lit ''mkdir -p '' @ upd_escape dir @ lit ''/dynamic && touch '' @ upd_escape dir @ lit ''/acme.json && chmod 600 ''
       @ upd_escape dir @ lit ''/acme.json''"

definition ensure_traefik_after_update :: "update_env \<Rightarrow> unit upd" where
  "ensure_traefik_after_update E =
     andthen (exec_cmd E proxy_state_cmd) (\<lambda>x.
       let st = trim (er_out x)
       in if st = lit ''running'' then ret ()
          else both (dropped (exec_cmd E (lit ''docker network inspect devforge >/dev/null 2>&1 || docker network create devforge'')))
            (andthen (resolve_traefik_host_dir E (data_path E)) (\<lambda>dir.
              both (dropped (exec_cmd E (prepare_proxy_dir (trim_end_char 47 (data_path E) @ lit ''/proxy''))))
              (if st = lit ''missing'' then create_proxy E dir
               else andthen (proxy_mount E) (\<lambda>actual.
                 if actual \<noteq> [] \<and> actual \<noteq> dir then both (remove_proxy E) (create_proxy E dir)
                 else andthen (exec_cmd E (lit ''docker start devforge-traefik'')) (\<lambda>s.
                   if er_ok s then ret () else both (remove_proxy E) (create_proxy E dir)))))))"

section \<open>The pipeline\<close>

definition pull_cmd :: "update_env \<Rightarrow> update_mode \<Rightarrow> ustr \<Rightarrow> ustr" where
  "pull_cmd E mode target =
     (if mode = Compose
      then compose_cmd (uc_compose_file (conf E)) target (lit ''pull '' @ upd_escape (uc_compose_service (conf E)))
      else lit ''docker pull '' @ upd_escape (uc_image (conf E)) @ [58] @ upd_escape target)"

definition compose_up :: "update_env \<Rightarrow> ustr \<Rightarrow> ustr" where
  "compose_up E target =
     compose_cmd (uc_compose_file (conf E)) target (lit ''up -d --no-deps --force-recreate '' @ upd_escape (uc_compose_service (conf E)))"

definition apply_update :: "update_env \<Rightarrow> update_mode \<Rightarrow> ustr \<Rightarrow> ustr upd" where
  "apply_update E mode target =
     (if mode = Compose
      then andthen (exec_cmd E (compose_up E target)) (\<lambda>a.
        if er_ok a then ret (upd_truncate 180 (er_out a)) else fail ((lit ''Apply '' @ [233] @ lit ''chou'' @ [233] @ lit '' : '') @ upd_truncate 400 (er_out a)))
      else recreate_docker_container E target)"

definition is_worker_node :: "update_env \<Rightarrow> bool" where
  "is_worker_node E = role_is_worker (\<lambda>s. case ux_json E s of Inr v \<Rightarrow> Some v | Inl _ \<Rightarrow> None) (unwrap_or (ux_identity E) [])"

definition docker_version_cmd :: ustr where
  "docker_version_cmd = (lit ''docker version --format '' @ [39] @ lit ''{{.Server.Version}}'' @ [39])"

definition run_container_pipeline :: "update_env \<Rightarrow> ustr \<Rightarrow> ustr \<Rightarrow> update_mode \<Rightarrow> unit upd" where
  "run_container_pipeline E uid target mode =
     andthen (exec_cmd E docker_version_cmd) (\<lambda>probe.
     both (if er_ok probe then ret () else fail (lit ''Docker indisponible : '' @ er_out probe))
    (both (set_step uid ''prepare'' StepDone (lit ''Docker '' @ trim (er_out probe)))
    (both (set_step uid ''pull'' StepRunning ((lit ''Pull image'' @ [8230])))
    (andthen (exec_cmd E (pull_cmd E mode target)) (\<lambda>pull.
     both (if er_ok pull then ret () else fail ((lit ''Pull '' @ [233] @ lit ''chou'' @ [233] @ lit '' : '') @ upd_truncate 400 (er_out pull)))
    (both (set_step uid ''pull'' StepDone (upd_truncate 180 (er_out pull)))
    (both (set_step uid ''apply'' StepRunning ((lit ''Recr'' @ [233] @ lit ''ation'' @ [8230])))
    (andthen (apply_update E mode target) (\<lambda>detail.
     both (set_step uid ''apply'' StepDone detail)
     (if is_worker_node E then ret () else ensure_traefik_after_update E)))))))))) "

definition resolve_release_asset :: "update_env \<Rightarrow> ustr \<Rightarrow> ustr + installer_choice" where
  "resolve_release_asset E tag =
     (case fetch_release_list E of
        Inl e \<Rightarrow> Inl e
      | Inr rs \<Rightarrow>
          (case (if releases_include_version rs tag then Inr None else fetch_release_tag E tag) of
             Inl e \<Rightarrow> Inl e
           | Inr extra \<Rightarrow> select_installer (rs @ (case extra of Some r \<Rightarrow> [r] | None \<Rightarrow> [])) tag (uc_current (conf E))
               (ux_triple E) (ux_os E) (ux_arch E) (\<not> stable_only E)))"

definition download_path_for :: "update_env \<Rightarrow> ustr \<Rightarrow> ustr" where
  "download_path_for E name =
     under_dir (update_download_dir (ux_var E ''FLATPAK_ID'') (ux_var E ''XDG_DATA_HOME'') (ux_temp_dir E)) (download_name name)"

definition run_binary_pipeline :: "update_env \<Rightarrow> ustr \<Rightarrow> ustr \<Rightarrow> (release_kind \<times> ustr) upd" where
  "run_binary_pipeline E uid target =
     both (set_step uid ''prepare'' StepDone (lit ''Paquet '' @ ux_triple E))
    (both (set_step uid ''pull'' StepRunning ((lit ''Recherche de l'' @ [8217] @ lit ''asset GitHub'' @ [8230])))
    (andthen (lift_res (\<lambda>e. e) (resolve_release_asset E target)) (\<lambda>choice.
       let asset = ic_asset choice; requested = strip_v (trim target); kind = release_kind (ra_name asset)
       in both (if ic_version choice = requested then ret ()
             else note_resolved_version uid (ic_version choice)
               (lit ''Release v'' @ requested @ (lit '' sans installeur '' @ [8212] @ lit '' installation de v'') @ ic_version choice @ lit '' ('' @ ra_name asset @ lit '')''))
         (andthen (lift_res (\<lambda>e. (lit ''Impossible de r'' @ [233] @ lit ''soudre le binaire courant : '') @ e) (ux_exe E)) (\<lambda>exe.
          let path = download_path_for E (ra_name asset)
          in both (set_step uid ''pull'' StepRunning ((lit ''T'' @ [233] @ lit ''l'' @ [233] @ lit ''chargement '') @ ra_name asset @ [8230]))
         (both (lift_res (\<lambda>e. e) (ux_download E asset path))
         (both (set_step uid ''pull'' StepDone (ra_name asset @ lit '' ('' @ dec (ra_size asset) @ lit '' octets)''))
          (case kind of
             ZipOrBinary \<Rightarrow>
               both (set_step uid ''apply'' StepRunning (lit ''Remplacement du programme'' @ [8230]))
              (andthen (lift_res (\<lambda>e. e) (ux_install E path exe (ra_name asset))) (\<lambda>installed.
               both (set_step uid ''apply'' StepDone ((lit ''Install'' @ [233] @ lit '' '' @ [8594] @ lit '' '') @ installed)) (ret (kind, installed))))
           | WindowsSetup \<Rightarrow> both (set_step uid ''apply'' StepDone ((lit ''Assistant Windows pr'' @ [234] @ lit ''t''))) (ret (kind, path))
           | Flatpak \<Rightarrow> both (set_step uid ''apply'' StepDone ((lit ''Paquet Flatpak pr'' @ [234] @ lit ''t''))) (ret (kind, path))))))))))"

definition hints_of :: "update_env \<Rightarrow> runtime_hints" where
  "hints_of E =
     \<lparr> rh_flatpak = (ux_var E ''FLATPAK_ID'' \<noteq> None), rh_in_container = ux_in_container E,
        rh_compose_explicit = is_some_and (ux_var E ''DEVFORGE_UPDATE_COMPOSE_FILE'') (\<lambda>s. trim s \<noteq> []),
        rh_compose_devforge = compose_text_is_devforge (ux_compose_text E),
        rh_self_set = is_some_and (ux_var E ''DEVFORGE_SELF_CONTAINER'') (\<lambda>s. trim s \<noteq> []) \<rparr>"

definition run_pipeline :: "update_env \<Rightarrow> ustr \<Rightarrow> ustr \<Rightarrow> unit upd" where
  "run_pipeline E uid target =
     (let mode = effective_update_mode (uc_mode (conf E)) (hints_of E)
      in both (set_step uid ''check'' StepRunning ((lit ''Comparaison des versions'' @ [8230])))
        (both (set_step uid ''check'' StepDone (uc_current (conf E) @ (lit '' '' @ [8594] @ lit '' '') @ target))
        (both (set_step uid ''prepare'' StepRunning (lit ''Mode '' @ mode_text mode @ [8230]))
        (andthen (if mode = Binary then andthen (run_binary_pipeline E uid target) (\<lambda>r. ret (Some r))
                  else both (run_container_pipeline E uid target mode) (ret None)) (\<lambda>downloaded.
         both (set_step uid ''restart'' StepRunning ((lit ''Le service va red'' @ [233] @ lit ''marrer'' @ [8230])))
        (both (\<lambda>w. (restarting uid w, Inr ()))
         (case downloaded of
            None \<Rightarrow> ret ()
          | Some (kind, path) \<Rightarrow> lift_res (\<lambda>e. e) (ux_launch E kind path))))))))"

definition run_update :: "update_env \<Rightarrow> ustr \<Rightarrow> ustr \<Rightarrow> update_world \<Rightarrow> update_world" where
  "run_update E uid target w =
     (case run_pipeline E uid target w of
        (w', Inr _) \<Rightarrow> w'
      | (w', Inl e) \<Rightarrow> fail_job uid e w')"

end
