(* ===== verification/UpdateShell.thy ===== *)
theory UpdateShell
  imports UpdateRun Script
begin

text \<open>
  The texts an update gives to the shell: the command that creates the new container is read back as its
  arguments, the script that replaces the container reaches its interpreter unchanged, and whatever docker
  answers to it the node keeps a server under the name of DevForge.
\<close>

section \<open>Quoting\<close>

lemma upd_safe_plain: "upd_safe c \<Longrightarrow> sh_plain c"
  by (auto simp: upd_safe_def sh_plain_def)

lemma join_safe_plain: "join_safe c \<Longrightarrow> sh_plain c"
  by (auto simp: join_safe_def sh_plain_def)

lemma reads_upd_escape [reads_intros]: "s \<noteq> [] \<Longrightarrow> reads (upd_escape s) s"
  by (cases "list_all upd_safe s")
    (auto simp: upd_escape_def list_all_iff intro!: reads_plain reads_quoted upd_safe_plain)

lemma reads_joined: "s \<noteq> [] \<Longrightarrow> reads (if list_all join_safe s then s else upd_escape s) s"
  by (auto simp: list_all_iff intro!: reads_plain reads_upd_escape join_safe_plain)

lemma shell_join_reads:
  assumes "[] \<notin> set parts"
  shows "sh_words (shell_join parts) = Some parts"
  unfolding shell_join_def
proof (rule words_join)
  show "list_all2 reads (map (\<lambda>p. if list_all join_safe p then p else upd_escape p) parts) parts"
    unfolding list_all2_map1 list_all2_same using assms reads_joined by metis
qed

section \<open>Base64\<close>

text \<open>The decoder of \<open>base64 -d\<close>: groups of four digits, the last one padded.\<close>

definition b64_value :: "uchar \<Rightarrow> nat" where
  "b64_value c =
     (if 65 \<le> c \<and> c \<le> 90 then c - 65 else if 97 \<le> c \<and> c \<le> 122 then c - 71 else if 48 \<le> c \<and> c \<le> 57 then c + 4
      else if c = 43 then 62 else if c = 47 then 63 else 64)"

definition b64_bytes :: "uchar \<Rightarrow> uchar \<Rightarrow> uchar \<Rightarrow> uchar \<Rightarrow> nat list option" where
  "b64_bytes p q r s =
     (let v = b64_value; t = v p * 262144 + v q * 4096 in
      if 64 \<le> v p \<or> 64 \<le> v q then None
      else if r = 61 \<and> s = 61 then Some [t div 65536]
      else if 64 \<le> v r then None
      else if s = 61 then Some [t div 65536, (t + v r * 64) div 256 mod 256]
      else if 64 \<le> v s then None
      else Some [t div 65536, (t + v r * 64) div 256 mod 256, (t + v r * 64 + v s) mod 256])"

fun b64_decode :: "ustr \<Rightarrow> nat list option" where
  "b64_decode [] = Some []"
| "b64_decode (p # q # r # s # rest) =
     (case (b64_bytes p q r s, b64_decode rest) of
        (Some bs, Some tail) \<Rightarrow> if (r = 61 \<or> s = 61) \<and> rest \<noteq> [] then None else Some (bs @ tail)
      | _ \<Rightarrow> None)"
| "b64_decode _ = None"

lemma b64_table_codes: "b64_table =
    [65, 66, 67, 68, 69, 70, 71, 72, 73, 74, 75, 76, 77, 78, 79, 80, 81, 82, 83, 84, 85, 86, 87, 88, 89, 90,
     97, 98, 99, 100, 101, 102, 103, 104, 105, 106, 107, 108, 109, 110, 111, 112, 113, 114, 115, 116, 117, 118,
     119, 120, 121, 122, 48, 49, 50, 51, 52, 53, 54, 55, 56, 57, 43, 47]"
  by (simp add: b64_table_def)

lemma b64_table_values: "map b64_value b64_table = [0..<64]"
  unfolding b64_table_codes by code_simp

lemma b64_table_plain: "list_all (\<lambda>c. c \<noteq> 61 \<and> sh_plain c) b64_table"
  unfolding b64_table_codes by (simp add: sh_plain_def char_defs)

lemma b64_alphabet:
  assumes "n < 64"
  shows "b64_value (b64_table ! n) = n \<and> b64_table ! n \<noteq> 61 \<and> sh_plain (b64_table ! n)"
proof -
  have len: "length b64_table = 64" using arg_cong [OF b64_table_values, of length] by simp
  have "b64_value (b64_table ! n) = map b64_value b64_table ! n" using assms len by simp
  also have "\<dots> = n" using assms by (simp add: b64_table_values)
  finally show ?thesis using b64_table_plain assms len by (simp add: list_all_length)
qed

lemma digit_value: "b64_value (b64_digit t k) = t div 2 ^ k mod 64"
  by (simp add: b64_digit_def b64_alphabet)

lemma digit_plain: "b64_digit t k \<noteq> 61" "sh_plain (b64_digit t k)"
  by (simp_all add: b64_digit_def b64_alphabet)

lemma next_digit:
  fixes x d :: nat
  assumes "d < 64"
  shows "(x * 64 + d) div 64 = x" "(x * 64 + d) mod 64 = d"
  using assms by simp_all

lemma group_digits:
  fixes t :: nat
  assumes "t = ((p * 64 + q) * 64 + r) * 64 + s" "p < 64" "q < 64" "r < 64" "s < 64"
  shows "b64_value (b64_digit t 18) = p" "b64_value (b64_digit t 12) = q" "b64_value (b64_digit t 6) = r" "b64_value (b64_digit t 0) = s"
proof -
  have 6: "t div 64 = (p * 64 + q) * 64 + r" "t mod 64 = s" using assms next_digit by blast+
  then have 12: "t div 64 div 64 = p * 64 + q" "t div 64 mod 64 = r" using assms next_digit by metis+
  then have 18: "t div 64 div 64 div 64 = p" "t div 64 div 64 mod 64 = q" using assms next_digit by metis+
  have powers: "t div 2 ^ 6 = t div 64" "t div 2 ^ 12 = t div 64 div 64" "t div 2 ^ 18 = t div 64 div 64 div 64"
    by (simp_all add: div_mult2_eq [symmetric])
  show "b64_value (b64_digit t 18) = p" "b64_value (b64_digit t 12) = q" "b64_value (b64_digit t 6) = r" "b64_value (b64_digit t 0) = s"
    using 6 12 18 assms(2) powers by (simp_all add: digit_value)
qed

lemma digit_small: "b64_value (b64_digit t k) < 64"
  by (simp add: digit_value)

lemma group_values:
  assumes "a < 256" "b < 256" "c < 256" and t: "t = a * 65536 + b * 256 + c"
  defines "u \<equiv> b64_value (b64_digit t 18) * 262144 + b64_value (b64_digit t 12) * 4096"
    and "v \<equiv> b64_value (b64_digit t 6) * 64" and "w \<equiv> b64_value (b64_digit t 0)"
  shows "u div 65536 = a" "(u + v) div 256 mod 256 = b" "(u + v + w) mod 256 = c"
proof -
  obtain a1 a0 where a: "a = a1 * 4 + a0" "a0 < 4" by (rule that [of "a div 4" "a mod 4"]) simp_all
  obtain b1 b0 where b: "b = b1 * 16 + b0" "b0 < 16" by (rule that [of "b div 16" "b mod 16"]) simp_all
  obtain c1 c0 where c: "c = c1 * 64 + c0" "c0 < 64" by (rule that [of "c div 64" "c mod 64"]) simp_all
  have small: "a1 < 64" "b1 < 16" "c1 < 4" using assms(1-3) a b c by linarith+
  have "t = ((a1 * 64 + (a0 * 16 + b1)) * 64 + (b0 * 4 + c1)) * 64 + c0" using t a b c by simp
  from group_digits [OF this] small a b c
  have "u = a1 * 262144 + (a0 * 16 + b1) * 4096" "v = (b0 * 4 + c1) * 64" "w = c0" by (simp_all add: u_def v_def w_def)
  then have u: "u = a * 65536 + b1 * 4096" and v: "u + v = (a * 256 + b) * 256 + c1 * 64"
    and w: "u + v + w = (a * 256 + b) * 256 + c" using a b c by simp_all
  show "u div 65536 = a" unfolding u using small by simp
  have "((a * 256 + b) * 256 + c1 * 64) div 256 = a * 256 + b" using small by simp
  then show "(u + v) div 256 mod 256 = b" unfolding v using assms(2) by simp
  show "(u + v + w) mod 256 = c" unfolding w using assms(3) by (simp only: mod_mult_self3 mod_less)
qed

lemma group_three:
  assumes "a < 256" "b < 256" "c < 256" and t: "t = a * 65536 + b * 256 + c"
  shows "b64_bytes (b64_digit t 18) (b64_digit t 12) (b64_digit t 6) (b64_digit t 0) = Some [a, b, c]"
    and "b64_bytes (b64_digit t 18) (b64_digit t 12) (b64_digit t 6) 61 = Some [a, b]"
    and "b64_bytes (b64_digit t 18) (b64_digit t 12) 61 61 = Some [a]"
  unfolding b64_bytes_def Let_def using group_values [OF assms] digit_small [of t] digit_plain(1) [of t]
  by (simp_all add: not_le)

lemma b64_round_trip: "list_all (\<lambda>b. b < 256) bs \<Longrightarrow> b64_decode (b64_encode bs) = Some bs"
proof (induction bs rule: b64_encode.induct)
  case (2 a)
  then show ?case using group_three [of a 0 0] by (simp add: Let_def)
next
  case (3 a b)
  then show ?case using group_three [of a b 0] by (simp add: Let_def)
next
  case (4 a b c r)
  then show ?case using group_three [of a b c] digit_plain by (simp add: Let_def)
qed simp

lemma b64_plain: "list_all sh_plain (b64_encode bs)"
proof -
  have "sh_plain 61" by (simp add: sh_plain_def char_defs)
  then show ?thesis by (induction bs rule: b64_encode.induct) (simp_all add: Let_def digit_plain)
qed

lemma as_bytes_small: "list_all (\<lambda>c. c < 1114112) s \<Longrightarrow> list_all (\<lambda>b. b < 256) (as_bytes s)"
proof -
  have "c < 1114112 \<Longrightarrow> list_all (\<lambda>b. b < 256) (utf8_char c)" for c
  proof -
    have "x mod 64 < 128" for x :: nat by (rule less_trans [OF mod_less_divisor]) simp_all
    then show "c < 1114112 \<Longrightarrow> ?thesis" by (simp add: utf8_char_def less_mult_imp_div_less)
  qed
  then show "list_all (\<lambda>c. c < 1114112) s \<Longrightarrow> ?thesis" by (induction s) (simp_all add: as_bytes_def)
qed

section \<open>The command that schedules the replacement\<close>

definition pipe_text :: "ustr \<Rightarrow> ustr" where
  "pipe_text script = lit ''echo '' @ b64_encode (as_bytes script) @ lit '' | base64 -d | sh''"

definition clear_updater :: "ustr \<Rightarrow> ustr" where
  "clear_updater updater = lit ''docker rm -f '' @ upd_escape updater @ lit '' >/dev/null 2>&1 || true; ''"

definition schedule_words :: "ustr \<Rightarrow> ustr \<Rightarrow> ustr \<Rightarrow> ustr list" where
  "schedule_words updater img script =
     [lit ''docker'', lit ''run'', lit ''-d'', lit ''--rm'', lit ''--name'', updater,
      lit ''-v'', lit ''/var/run/docker.sock:/var/run/docker.sock'', lit ''--entrypoint'', lit ''sh'', img, lit ''-c'', pipe_text script]"

definition schedule_texts :: "ustr \<Rightarrow> ustr \<Rightarrow> ustr \<Rightarrow> ustr list" where
  "schedule_texts updater img script =
     [lit ''docker'', lit ''run'', lit ''-d'', lit ''--rm'', lit ''--name'', upd_escape updater,
      lit ''-v'', lit ''/var/run/docker.sock:/var/run/docker.sock'', lit ''--entrypoint'', lit ''sh'', upd_escape img, lit ''-c'',
      [39] @ pipe_text script @ [39]]"

lemma requote_plain: "39 \<notin> set s \<Longrightarrow> requote s = s"
  by (induction s) (auto simp: requote_def)

lemma pipe_unquoted: "39 \<notin> set (pipe_text script)"
proof -
  have "39 \<notin> set (b64_encode (as_bytes script))"
    using b64_plain [of "as_bytes script"] by (auto simp: list_all_iff sh_plain_def char_defs)
  then show ?thesis by (simp add: pipe_text_def)
qed

lemma schedule_reads:
  assumes "updater \<noteq> []" "img \<noteq> []"
  shows "sh_words (join [32] (schedule_texts updater img script)) = Some (schedule_words updater img script)"
proof (rule words_join)
  have "reads ([39] @ pipe_text script @ [39]) (pipe_text script)"
    using reads_quoted [of "pipe_text script"] requote_plain [OF pipe_unquoted] by (simp add: shell_single_quote_def)
  moreover have "s \<noteq> [] \<Longrightarrow> list_all sh_plain s \<Longrightarrow> reads s s" for s by (rule reads_plain)
  ultimately show "list_all2 reads (schedule_texts updater img script) (schedule_words updater img script)"
    unfolding schedule_texts_def schedule_words_def
    by (simp add: assms reads_upd_escape reads_plain sh_plain_def char_defs)
qed

lemma helper_cmd_split:
  "detached_recreate_helper_cmd name old updater img run_text =
     clear_updater updater @ join [32] (schedule_texts updater img (helper_script name old run_text))"
  by (simp add: detached_recreate_helper_cmd_def clear_updater_def schedule_texts_def pipe_text_def join_Cons)

section \<open>The script of the helper\<close>

text \<open>A script as lines that are not indented.\<close>

fun flat_lines :: "script \<Rightarrow> ustr" where
  "flat_lines (Semi a b) = flat_lines a @ flat_lines b"
| "flat_lines (When c a) = lit ''if '' @ sh_text c @ lit ''; then'' @ nl @ flat_lines a @ lit ''fi'' @ nl"
| "flat_lines s = sh_text s @ nl"

definition quietly :: "ustr \<Rightarrow> ustr" where
  "quietly c = c @ lit '' >/dev/null 2>&1''"

definition halt_old :: "ustr \<Rightarrow> ustr" where
  "halt_old c = quietly (lit ''docker stop '' @ upd_escape c)"

definition drop_container :: "ustr \<Rightarrow> ustr" where
  "drop_container c = quietly (lit ''docker rm -f '' @ upd_escape c)"

definition rename_back :: "ustr \<Rightarrow> ustr \<Rightarrow> ustr" where
  "rename_back a b = quietly (lit ''docker rename '' @ upd_escape a @ [32] @ upd_escape b)"

definition start_again :: "ustr \<Rightarrow> ustr" where
  "start_again c = quietly (lit ''docker start '' @ upd_escape c)"

definition swap_back :: "ustr \<Rightarrow> ustr \<Rightarrow> script" where
  "swap_back n old =
     Semi (Simple (drop_container n)) (Semi (Simple (rename_back old n)) (Semi (Simple (start_again n)) (Leave 1)))"

definition swap_script :: "ustr \<Rightarrow> ustr \<Rightarrow> ustr \<Rightarrow> script" where
  "swap_script n old run =
     Semi (Simple (lit ''set +e''))
    (Semi (Simple (lit ''sleep 2''))
    (Semi (Simple (halt_old old))
    (Semi (Simple (drop_container n))
    (Semi (When (Simple run) (Semi (Simple (drop_container old)) (Leave 0)))
          (swap_back n old)))))"

lemma leave_texts: "lit ''exit '' @ dec 0 @ r = lit ''exit 0'' @ r" "lit ''exit '' @ dec 1 @ r = lit ''exit 1'' @ r"
  by (simp_all add: dec.simps [of "Suc 0"] dec.simps [of 0])

lemma helper_text: "helper_script n old run = flat_lines (swap_script n old run)"
  unfolding helper_script_def swap_script_def swap_back_def quietly_def halt_old_def drop_container_def rename_back_def
      start_again_def Let_def flat_lines.simps sh_text.simps append_assoc leave_texts ..

text \<open>What docker documents of these commands, as far as it is used; \<open>held s c\<close> is the identity of the
  container that has the name \<open>c\<close>.\<close>

definition quiet_steps :: "ustr \<Rightarrow> ustr \<Rightarrow> ustr list" where
  "quiet_steps n old = [lit ''set +e'', lit ''sleep 2'', halt_old old, start_again n]"

definition docker_laws :: "('s \<Rightarrow> ustr \<rightharpoonup> nat) \<Rightarrow> 's commands \<Rightarrow> ustr \<Rightarrow> ustr \<Rightarrow> ustr \<Rightarrow> bool" where
  "docker_laws held ex n old run \<longleftrightarrow>
     (\<forall>s. list_all (\<lambda>c. held (fst (ex c s)) = held s) (quiet_steps n old) \<and>
        held (fst (ex (drop_container n) s)) = (held s)(n := None) \<and>
        held (fst (ex (drop_container old) s)) = (held s)(old := None) \<and>
        held (fst (ex (rename_back old n) s)) =
          (if held s old \<noteq> None \<and> held s n = None then (held s)(old := None, n := held s old) else held s) \<and>
        (\<forall>c. c \<noteq> n \<longrightarrow> held (fst (ex run s)) c = held s c) \<and>
        (snd (ex run s) = 0 \<longrightarrow> held (fst (ex run s)) n \<noteq> None))"

lemma docker_lawsD:
  assumes "docker_laws held ex n old run"
  shows "held (fst (ex (lit ''set +e'') s)) = held s" "held (fst (ex (lit ''sleep 2'') s)) = held s"
    and "held (fst (ex (halt_old old) s)) = held s" "held (fst (ex (start_again n) s)) = held s"
    and "held (fst (ex (drop_container n) s)) = (held s)(n := None)"
    and "held (fst (ex (drop_container old) s)) = (held s)(old := None)"
    and "held (fst (ex (rename_back old n) s)) =
      (if held s old \<noteq> None \<and> held s n = None then (held s)(old := None, n := held s old) else held s)"
    and "c \<noteq> n \<Longrightarrow> held (fst (ex run s)) c = held s c"
    and "snd (ex run s) = 0 \<Longrightarrow> held (fst (ex run s)) n \<noteq> None"
  using spec [OF assms [unfolded docker_laws_def quiet_steps_def list.pred_inject], of s] by (elim conjE; simp del: lit_simps)+

text \<open>Scripts as compositions: what a simple command leaves, and with which status.\<close>

lemma run_semi: "sh_run ex (Semi (Simple c) b) s = sh_run ex b (fst (ex c s))"
  by (simp split: prod.split)

lemma run_when:
  "sh_run ex (Semi (When (Simple c) (Semi (Simple d) (Leave 0))) b) s =
     (if snd (ex c s) = 0 then (fst (ex d (fst (ex c s))), Left 0) else sh_run ex b (fst (ex c s)))"
  by (auto split: prod.split nat.split)

lemma swap_script_runs:
  assumes laws: "docker_laws held ex n old run" and other: "old \<noteq> n" and here: "held s old = Some k"
    and go: "sh_run ex (swap_script n old run) s = (t, r)"
  shows "r = Left 0 \<and> held t n \<noteq> None \<and> held t old = None \<or>
    r = Left 1 \<and> held t n = Some k \<and> (\<exists>u. held u n = Some k \<and> t = fst (ex (start_again n) u))"
proof -
  note D = docker_lawsD [OF laws]
  define s1 where "s1 = fst (ex (drop_container n) (fst (ex (halt_old old) (fst (ex (lit ''sleep 2'') (fst (ex (lit ''set +e'') s)))))))"
  have 1: "held s1 = (held s)(n := None)" unfolding s1_def by (simp add: D(1-5) del: lit_simps)
  define s2 where "s2 = fst (ex run s1)"
  have 2: "held s2 old = Some k" using D(8) [OF other] 1 here other by (simp add: s2_def)
  have go: "(if snd (ex run s1) = 0 then (fst (ex (drop_container old) s2), Left 0) else sh_run ex (swap_back n old) s2) = (t, r)"
    using go unfolding swap_script_def run_semi run_when s1_def s2_def .
  show ?thesis
  proof (cases "snd (ex run s1) = 0")
    case True
    with go have "r = Left 0" "t = fst (ex (drop_container old) s2)" by simp_all
    moreover have "held s2 n \<noteq> None" using D(9) [OF True] by (simp add: s2_def)
    ultimately show ?thesis using D(6) [of s2] other by simp
  next
    case False
    define s3 where "s3 = fst (ex (drop_container n) s2)"
    have 3: "held s3 = (held s2)(n := None)" unfolding s3_def by (rule D(5))
    define u where "u = fst (ex (rename_back old n) s3)"
    have u: "held u n = Some k" using D(7) [of s3] 2 3 other by (simp add: u_def)
    from go False have "(fst (ex (start_again n) u), Left 1) = (t, r)"
      by (simp add: swap_back_def run_semi s3_def u_def del: sh_run.simps(4))
    moreover have "held (fst (ex (start_again n) u)) = held u" by (rule D(4))
    ultimately show ?thesis using u by auto
  qed
qed

text \<open>Texts of Unicode characters.\<close>

definition unicode :: "ustr \<Rightarrow> bool" where
  "unicode s \<longleftrightarrow> list_all (\<lambda>c. c < 1114112) s"

lemma unicode_simps [simp]:
  "unicode []" "unicode (c # s) \<longleftrightarrow> c < 1114112 \<and> unicode s" "unicode (s @ t) \<longleftrightarrow> unicode s \<and> unicode t"
  by (simp_all add: unicode_def)

lemma unicode_escape: "unicode s \<Longrightarrow> unicode (upd_escape s)"
proof -
  have "unicode s \<Longrightarrow> unicode (requote s)" by (induction s) (auto simp: requote_def)
  then show "unicode s \<Longrightarrow> ?thesis" by (simp add: upd_escape_def shell_single_quote_def)
qed

lemma unicode_helper:
  assumes "unicode name" "unicode old" "unicode run"
  shows "unicode (helper_script name old run)"
  using assms unicode_escape by (simp add: helper_script_def nl_def Let_def)

lemma unicode_join: "list_all unicode parts \<Longrightarrow> unicode (shell_join parts)"
proof -
  have "list_all unicode ps \<Longrightarrow> unicode (join [32] ps)" for ps
  proof (induction ps)
    case (Cons p ps)
    then show ?case by (cases "ps = []") (simp_all add: join_Cons)
  qed simp
  moreover have "list_all unicode ps \<Longrightarrow> list_all unicode (map (\<lambda>p. if list_all join_safe p then p else upd_escape p) ps)" for ps
    by (induction ps) (simp_all add: unicode_escape)
  ultimately show "list_all unicode parts \<Longrightarrow> ?thesis" by (simp only: shell_join_def)
qed

section \<open>Properties\<close>

text \<open>C39. The shell reads the command that creates the new container as the arguments it was made of, if none
  of them is empty, and the command that schedules the replacement as one container of the new image that is
  given the script in Base64; what the container decodes is the script.\<close>

theorem replacement_reads_back:
  fixes img name target binds mounts ports env networks labels restart
  defines "run \<equiv> shell_join (build_docker_run_args name img target restart binds mounts ports env networks labels)"
    and "old \<equiv> name @ lit ''-old''" and "updater \<equiv> name @ lit ''-updater''"
  assumes "[] \<notin> set (build_docker_run_args name img target restart binds mounts ports env networks labels)"
    and "list_all unicode (name # build_docker_run_args name img target restart binds mounts ports env networks labels)" and "img \<noteq> []"
  shows "sh_words run = Some (build_docker_run_args name img target restart binds mounts ports env networks labels) \<and>
    (\<exists>schedule. detached_recreate_helper_cmd name old updater img run = clear_updater updater @ schedule \<and>
       sh_words schedule = Some (schedule_words updater img (helper_script name old run))) \<and>
    b64_decode (b64_encode (as_bytes (helper_script name old run))) = Some (as_bytes (helper_script name old run))"
proof (intro conjI)
  show "sh_words run = Some (build_docker_run_args name img target restart binds mounts ports env networks labels)"
    unfolding run_def by (rule shell_join_reads) (rule assms(4))
  have "updater \<noteq> []" by (simp add: updater_def)
  from schedule_reads [OF this assms(6)]
  show "\<exists>schedule. detached_recreate_helper_cmd name old updater img run = clear_updater updater @ schedule \<and>
       sh_words schedule = Some (schedule_words updater img (helper_script name old run))"
    using helper_cmd_split by blast
  show "b64_decode (b64_encode (as_bytes (helper_script name old run))) = Some (as_bytes (helper_script name old run))"
  proof (rule b64_round_trip, rule as_bytes_small, fold unicode_def, rule unicode_helper)
    show "unicode name" "unicode old" "unicode run" using assms(5) by (simp_all add: old_def run_def unicode_join)
  qed
qed


section \<open>Witnesses\<close>

lemma replacement_reads_back_witness:
  "sh_words (shell_join (build_docker_run_args (lit ''df'') (lit ''img:2'') (lit ''2'') (lit ''no'') JNull JNull JNull JNull JNull JNull)) =
     Some (build_docker_run_args (lit ''df'') (lit ''img:2'') (lit ''2'') (lit ''no'') JNull JNull JNull JNull JNull JNull)"
  (is "sh_words (shell_join ?parts) = _")
proof -
  have parts: "[] \<notin> set ?parts" by code_simp
  have "?parts = [lit ''docker'', lit ''run'', lit ''-d'', lit ''--name'', lit ''df'', lit ''-e'', lit ''DEVFORGE_VERSION=2'', lit ''img:2'']"
    by code_simp
  then have small: "list_all unicode (lit ''df'' # ?parts)" by simp
  show ?thesis by (rule conjunct1 [OF replacement_reads_back [OF parts small]]) simp
qed

text \<open>DevForge is called \<open>t\<close>; the new container is created and docker answers that it could not start it.\<close>

definition refusing_docker :: "(ustr \<rightharpoonup> nat) commands" where
  "refusing_docker c m =
     (if c = drop_container [116] then (m([116] := None), 0)
      else if c = drop_container (lit ''t-old'') then (m(lit ''t-old'' := None), 0)
      else if c = rename_back (lit ''t-old'') [116]
      then (if m (lit ''t-old'') \<noteq> None \<and> m [116] = None then (m(lit ''t-old'' := None, [116] := m (lit ''t-old'')), 0) else (m, 1))
      else if c = lit ''run'' then (m([116] \<mapsto> 2), 1)
      else (m, 0))"

lemma sample_names: "upd_escape [116] = [116]" "upd_escape [116, 45, 111, 108, 100] = [116, 45, 111, 108, 100]"
  by (simp_all add: upd_escape_def upd_safe_def char_defs)

lemma refusing_docker_lawful: "docker_laws id refusing_docker [116] (lit ''t-old'') (lit ''run'')"
  by (simp add: docker_laws_def quiet_steps_def refusing_docker_def drop_container_def rename_back_def halt_old_def
      start_again_def quietly_def sample_names fun_eq_iff)


end
