(* ===== verification/UpdateProps.thy ===== *)
theory UpdateProps
  imports UpdateShell
begin

text \<open>
  What an update reports and does: the states in which its task may stop, the version that is installed, and
  when a task is started.
\<close>

section \<open>Operations in the background\<close>

text \<open>\<open>leads P m Q R\<close>: from a state of \<open>P\<close>, \<open>m\<close> returns a value in \<open>Q\<close> or fails in \<open>R\<close>.\<close>

definition leads :: "(update_world \<Rightarrow> bool) \<Rightarrow> 'a upd \<Rightarrow> ('a \<Rightarrow> update_world \<Rightarrow> bool) \<Rightarrow> (ustr \<Rightarrow> update_world \<Rightarrow> bool) \<Rightarrow> bool" where
  "leads P m Q R \<longleftrightarrow> (\<forall>w. P w \<longrightarrow> (case m w of (w', Inr x) \<Rightarrow> Q x w' | (w', Inl e) \<Rightarrow> R e w'))"

lemma leads_andthen: "leads P m Q R \<Longrightarrow> (\<And>x. leads (Q x) (f x) T R) \<Longrightarrow> leads P (andthen m f) T R"
  unfolding leads_def andthen_def by (fastforce split: prod.splits sum.splits)

lemma leads_weaken: "leads P m Q R \<Longrightarrow> (\<And>w. P' w \<Longrightarrow> P w) \<Longrightarrow> (\<And>x w. Q x w \<Longrightarrow> Q' x w) \<Longrightarrow> (\<And>e w. R e w \<Longrightarrow> R' e w) \<Longrightarrow>
    leads P' m Q' R'"
  unfolding leads_def by (fastforce split: prod.splits sum.splits)

lemma leads_ret: "(\<And>w. P w \<Longrightarrow> Q x w) \<Longrightarrow> leads P (ret x) Q R"
  by (simp add: leads_def ret_def)

lemma leads_fail: "(\<And>w. P w \<Longrightarrow> R e w) \<Longrightarrow> leads P (fail e) Q R"
  by (simp add: leads_def fail_def)

lemma leads_lift: "(\<And>x w. r = Inr x \<Longrightarrow> P w \<Longrightarrow> Q x w) \<Longrightarrow> (\<And>e w. P w \<Longrightarrow> R (h e) w) \<Longrightarrow> leads P (lift_res h r) Q R"
  by (cases r) (simp_all add: leads_def lift_res_def ret_def fail_def)

lemma leads_if: "(b \<Longrightarrow> leads P m Q R) \<Longrightarrow> (\<not> b \<Longrightarrow> leads P n Q R) \<Longrightarrow> leads P (if b then m else n) Q R"
  by simp

text \<open>Operations that only send commands.\<close>

definition sends :: "'a upd \<Rightarrow> bool" where
  "sends m \<longleftrightarrow> (\<forall>w. \<exists>more. fst (m w) = w\<lparr> uw_cmds := uw_cmds w @ more \<rparr>)"

lemma sends_ret [intro]: "sends (ret x)"
  unfolding sends_def by (intro allI exI [of _ "[]"]) (simp add: ret_def)

lemma sends_fail [intro]: "sends (fail e)"
  unfolding sends_def by (intro allI exI [of _ "[]"]) (simp add: fail_def)

lemma sends_lift [intro]: "sends (lift_res h r)"
  by (cases r) (simp_all add: lift_res_def sends_ret sends_fail)

lemma sends_exec [intro]: "sends (exec_cmd E c)"
  unfolding sends_def exec_cmd_def by (intro allI exI [of _ "[c]"]) simp

lemma sends_andthen [intro]:
  assumes "sends m" "\<And>x. sends (f x)"
  shows "sends (andthen m f)"
  unfolding sends_def
proof
  fix w
  obtain w1 r where m: "m w = (w1, r)" by fastforce
  with assms(1) obtain a where 1: "w1 = w\<lparr> uw_cmds := uw_cmds w @ a \<rparr>" unfolding sends_def by (metis fst_conv)
  show "\<exists>more. fst (andthen m f w) = w\<lparr> uw_cmds := uw_cmds w @ more \<rparr>"
  proof (cases r)
    case (Inl e)
    with m 1 show ?thesis by (auto simp: andthen_def)
  next
    case (Inr x)
    obtain b where "fst (f x w1) = w1\<lparr> uw_cmds := uw_cmds w1 @ b \<rparr>" using assms(2) unfolding sends_def by metis
    with m 1 Inr show ?thesis by (auto simp: andthen_def)
  qed
qed

lemma sends_or_else [intro]: "sends m \<Longrightarrow> sends (or_else d m)"
proof -
  have "fst (or_else d m w) = fst (m w)" for w by (simp add: or_else_def split: prod.split sum.split)
  then show "sends m \<Longrightarrow> ?thesis" by (simp add: sends_def)
qed

lemma sends_dropped [intro]: "sends m \<Longrightarrow> sends (dropped m)"
  unfolding sends_def dropped_def by simp

lemma sends_if [intro]: "sends m \<Longrightarrow> sends n \<Longrightarrow> sends (if b then m else n)"
  by simp

lemma sends_inspect [intro]: "sends (docker_inspect_str E n f)" "sends (docker_inspect_json E n g)" "sends (inspect_or_null E n g)"
  unfolding inspect_or_null_def docker_inspect_json_def docker_inspect_str_def Let_def by blast+

lemma sends_names [intro]: "sends (running_container_name E)" "sends (container_name_of E)"
  unfolding container_name_of_def running_container_name_def Let_def by blast+

lemma sends_swap [intro]: "sends (swap_in E n i r)"
  unfolding swap_in_def Let_def by blast

lemma sends_recreate [intro]: "sends (recreate_docker_container E t)"
  unfolding recreate_docker_container_def Let_def by (intro sends_andthen sends_or_else sends_names sends_inspect sends_swap)

lemma sends_apply [intro]: "sends (apply_update E mode t)"
  unfolding apply_update_def by (intro sends_if sends_andthen sends_exec sends_recreate sends_ret sends_fail)

lemma sends_host_dir [intro]: "sends (resolve_traefik_host_dir E d)"
  unfolding resolve_traefik_host_dir_def by (auto split: option.split intro!: sends_andthen)

lemma sends_create_proxy [intro]: "sends (create_proxy E d)"
  unfolding create_proxy_def remove_proxy_def
  by (intro sends_if sends_andthen sends_exec sends_ret sends_fail sends_dropped)

lemma sends_ensure [intro]: "sends (ensure_traefik_after_update E)"
  unfolding ensure_traefik_after_update_def remove_proxy_def proxy_mount_def Let_def
  by (intro sends_if sends_andthen sends_exec sends_ret sends_fail sends_dropped sends_or_else sends_host_dir sends_create_proxy)

lemma leads_sends:
  assumes "sends m" "\<And>w more. P w \<Longrightarrow> P (w\<lparr> uw_cmds := uw_cmds w @ more \<rparr>)"
  shows "leads P m (\<lambda>_. P) (\<lambda>_. P)"
  unfolding leads_def
proof (intro allI impI)
  fix w assume "P w"
  obtain w' r where m: "m w = (w', r)" by fastforce
  with assms(1) obtain more where "w' = w\<lparr> uw_cmds := uw_cmds w @ more \<rparr>" unfolding sends_def by (metis fst_conv)
  with assms(2) [OF \<open>P w\<close>] m show "case m w of (w', Inr x) \<Rightarrow> P w' | (w', Inl e) \<Rightarrow> P w'"
    by (cases r) simp_all
qed

lemma leads_exec:
  assumes "\<And>w x. P w \<Longrightarrow> ux_exec E (length (uw_cmds w)) c = Inr x \<Longrightarrow> Q x (w\<lparr> uw_cmds := uw_cmds w @ [c] \<rparr>)"
    and "\<And>w e. P w \<Longrightarrow> R e (w\<lparr> uw_cmds := uw_cmds w @ [c] \<rparr>)"
  shows "leads P (exec_cmd E c) Q R"
  using assms by (simp add: leads_def exec_cmd_def split: sum.split)

section \<open>Where a job stands\<close>

definition step_names :: "ustr list" where
  "step_names = map lit [''check'', ''prepare'', ''pull'', ''apply'', ''restart'']"

definition shows_steps :: "ustr \<Rightarrow> job_status \<Rightarrow> step_status list \<Rightarrow> update_job \<Rightarrow> bool" where
  "shows_steps uid st ss j \<longleftrightarrow>
     uj_id j = uid \<and> uj_status j = st \<and> map up_id (uj_steps j) = step_names \<and> map up_status (uj_steps j) = ss"

definition stands :: "ustr \<Rightarrow> int \<Rightarrow> (ustr list \<Rightarrow> bool) \<Rightarrow> job_status \<Rightarrow> step_status list \<Rightarrow> update_world \<Rightarrow> bool" where
  "stands uid now L st ss w \<longleftrightarrow> (\<exists>j. uw_job w = Some j \<and> shows_steps uid st ss j) \<and> uw_now w = now \<and> L (uw_cmds w)"

lemma name_ne:
  "lit ''check'' \<noteq> lit ''prepare''" "lit ''check'' \<noteq> lit ''pull''" "lit ''check'' \<noteq> lit ''apply''" "lit ''check'' \<noteq> lit ''restart''"
  "lit ''prepare'' \<noteq> lit ''pull''" "lit ''prepare'' \<noteq> lit ''apply''" "lit ''prepare'' \<noteq> lit ''restart''"
  "lit ''pull'' \<noteq> lit ''apply''" "lit ''pull'' \<noteq> lit ''restart''" "lit ''apply'' \<noteq> lit ''restart''"
  by simp_all

lemma five_steps:
  assumes "shows_steps uid st ss j"
  obtains s0 s1 s2 s3 s4 where "uj_steps j = [s0, s1, s2, s3, s4]" "ss = map up_status [s0, s1, s2, s3, s4]"
    "up_id s0 = lit ''check''" "up_id s1 = lit ''prepare''" "up_id s2 = lit ''pull''" "up_id s3 = lit ''apply''" "up_id s4 = lit ''restart''" "uj_id j = uid" "uj_status j = st"
  using assms by (auto simp: shows_steps_def step_names_def map_eq_Cons_conv simp del: lit_simps)

lemma set_step_shows:
  assumes "shows_steps uid st [a, b, c, d, e] j"
  defines "upd \<equiv> \<lambda>n s det. j\<lparr> uj_steps := set_first (\<lambda>x. up_id x = lit n) (\<lambda>x. x\<lparr> up_status := s, up_detail := det \<rparr>) (uj_steps j) \<rparr>"
  shows "shows_steps uid st [s, b, c, d, e] (upd ''check'' s det)"
    and "shows_steps uid st [a, s, c, d, e] (upd ''prepare'' s det)"
    and "shows_steps uid st [a, b, s, d, e] (upd ''pull'' s det)"
    and "shows_steps uid st [a, b, c, s, e] (upd ''apply'' s det)"
    and "shows_steps uid st [a, b, c, d, s] (upd ''restart'' s det)"
  using assms(1) by - (erule five_steps; simp add: upd_def shows_steps_def step_names_def name_ne name_ne [symmetric] del: lit_simps)+

lemma leads_step:
  assumes "\<And>j. shows_steps uid st ss j \<Longrightarrow>
    shows_steps uid st ss' (j\<lparr> uj_steps := set_first (\<lambda>x. up_id x = lit n) (\<lambda>x. x\<lparr> up_status := s, up_detail := det \<rparr>) (uj_steps j) \<rparr>)"
  shows "leads (stands uid now L st ss) (set_step uid n s det) (\<lambda>_. stands uid now L st ss') R"
  using assms unfolding leads_def stands_def set_step_def with_job_def
  by (auto simp: opt_filter_def shows_steps_def split: option.split simp del: lit_simps)

lemma leads_steps:
  shows "leads (stands uid now L st [a, b, c, d, e]) (set_step uid ''check'' s det) (\<lambda>_. stands uid now L st [s, b, c, d, e]) R"
    and "leads (stands uid now L st [a, b, c, d, e]) (set_step uid ''prepare'' s det) (\<lambda>_. stands uid now L st [a, s, c, d, e]) R"
    and "leads (stands uid now L st [a, b, c, d, e]) (set_step uid ''pull'' s det) (\<lambda>_. stands uid now L st [a, b, s, d, e]) R"
    and "leads (stands uid now L st [a, b, c, d, e]) (set_step uid ''apply'' s det) (\<lambda>_. stands uid now L st [a, b, c, s, e]) R"
    and "leads (stands uid now L st [a, b, c, d, e]) (set_step uid ''restart'' s det) (\<lambda>_. stands uid now L st [a, b, c, d, s]) R"
  by (rule leads_step, erule set_step_shows)+

lemma leads_note:
  "leads (stands uid now L st ss) (note_resolved_version uid v msg) (\<lambda>_. stands uid now L st ss) R"
  unfolding leads_def stands_def note_resolved_version_def with_job_def
  by (auto simp: opt_filter_def shows_steps_def split: option.split)

lemma leads_restarting:
  "leads (stands uid now L JobRunning ss) (\<lambda>w. (restarting uid w, Inr ())) (\<lambda>_. stands uid now L JobRestarting ss) R"
  unfolding leads_def stands_def restarting_def
  by (auto simp: opt_filter_def shows_steps_def split: option.split)

text \<open>The states in which the pipeline may fail.\<close>

definition ends_in :: "ustr \<Rightarrow> int \<Rightarrow> ((ustr list \<Rightarrow> bool) \<times> job_status \<times> step_status list) set \<Rightarrow> ustr \<Rightarrow> update_world \<Rightarrow> bool" where
  "ends_in uid now S e w \<longleftrightarrow> (\<exists>(L, st, ss) \<in> S. stands uid now L st ss w)"

lemma leads_background:
  assumes "sends m" "(L, st, ss) \<in> S" "\<And>cs later. L cs \<Longrightarrow> L (cs @ later)"
  shows "leads (stands uid now L st ss) m (\<lambda>_. stands uid now L st ss) (ends_in uid now S)"
proof -
  have here: "ends_in uid now S e w" if "stands uid now L st ss w" for e w
    unfolding ends_in_def by (rule bexI [OF _ assms(2)]) (simp add: that)
  have "leads (stands uid now L st ss) m (\<lambda>_. stands uid now L st ss) (\<lambda>_. stands uid now L st ss)"
    by (rule leads_sends [OF assms(1)]) (simp add: stands_def assms(3))
  then show ?thesis by (rule leads_weaken) (simp_all add: here)
qed

lemma stands_ends: "(L, st, ss) \<in> S \<Longrightarrow> stands uid now L st ss w \<Longrightarrow> ends_in uid now S e w"
  unfolding ends_in_def by (rule bexI [of _ "(L, st, ss)"]) simp_all

lemma leads_stop: "(L, st, ss) \<in> S \<Longrightarrow> leads (stands uid now L st ss) (fail e) Q (ends_in uid now S)"
  by (rule leads_fail) (rule stands_ends)

lemma leads_answer: "(L, st, ss) \<in> S \<Longrightarrow>
    leads (stands uid now L st ss) (lift_res h r) (\<lambda>_. stands uid now L st ss) (ends_in uid now S)"
  by (rule leads_lift) (simp, rule stands_ends)

section \<open>The pipelines\<close>

definition answered :: "update_env \<Rightarrow> nat \<Rightarrow> ustr \<Rightarrow> bool" where
  "answered E k c \<longleftrightarrow> (case ux_exec E k c of Inr x \<Rightarrow> er_ok x | Inl _ \<Rightarrow> False)"

definition asked :: "ustr list \<Rightarrow> ustr list \<Rightarrow> ustr list \<Rightarrow> bool" where
  "asked before cs log \<longleftrightarrow> log = before @ cs"

definition swapping :: "update_env \<Rightarrow> ustr list \<Rightarrow> ustr \<Rightarrow> ustr list \<Rightarrow> bool" where
  "swapping E before pull log \<longleftrightarrow>
     answered E (length before) docker_version_cmd \<and> answered E (Suc (length before)) pull \<and>
     (\<exists>more. log = before @ docker_version_cmd # pull # more)"

definition ready :: "update_env \<Rightarrow> ustr list \<Rightarrow> ustr list \<Rightarrow> bool" where
  "ready E before log \<longleftrightarrow> answered E (length before) docker_version_cmd \<and> asked before [docker_version_cmd] log"

definition pulling :: "update_env \<Rightarrow> ustr list \<Rightarrow> ustr \<Rightarrow> ustr list \<Rightarrow> bool" where
  "pulling E before pull log \<longleftrightarrow> answered E (length before) docker_version_cmd \<and> asked before [docker_version_cmd, pull] log"

definition container_stops :: "update_env \<Rightarrow> ustr list \<Rightarrow> ustr \<Rightarrow> ((ustr list \<Rightarrow> bool) \<times> job_status \<times> step_status list) set" where
  "container_stops E before pull =
     {(asked before [docker_version_cmd], JobRunning, [StepDone, StepRunning, StepPending, StepPending, StepPending]),
      (pulling E before pull, JobRunning, [StepDone, StepDone, StepRunning, StepPending, StepPending]),
      (swapping E before pull, JobRunning, [StepDone, StepDone, StepDone, StepRunning, StepPending]),
      (swapping E before pull, JobRunning, [StepDone, StepDone, StepDone, StepDone, StepPending])}"

definition binary_stops :: "ustr list \<Rightarrow> ((ustr list \<Rightarrow> bool) \<times> job_status \<times> step_status list) set" where
  "binary_stops before =
     {(asked before [], JobRunning, [StepDone, StepDone, StepRunning, StepPending, StepPending]),
      (asked before [], JobRunning, [StepDone, StepDone, StepDone, StepRunning, StepPending]),
      (asked before [], JobRestarting, [StepDone, StepDone, StepDone, StepDone, StepRunning])}"

lemma swapping_more: "swapping E before pull log \<Longrightarrow> swapping E before pull (log @ later)"
  by (auto simp: swapping_def)

lemma leads_probe:
  assumes "(asked before [c], JobRunning, ss) \<in> S"
  shows "leads (stands uid now (asked before []) JobRunning ss) (exec_cmd E c)
    (\<lambda>x. stands uid now (\<lambda>cs. asked before [c] cs \<and> ux_exec E (length before) c = Inr x) JobRunning ss) (ends_in uid now S)"
proof (rule leads_exec)
  fix w x
  assume w: "stands uid now (asked before []) JobRunning ss w"
  show "ux_exec E (length (uw_cmds w)) c = Inr x \<Longrightarrow>
      stands uid now (\<lambda>cs. asked before [c] cs \<and> ux_exec E (length before) c = Inr x) JobRunning ss (w\<lparr>uw_cmds := uw_cmds w @ [c]\<rparr>)"
    using w by (simp add: stands_def asked_def)
  show "ends_in uid now S e (w\<lparr>uw_cmds := uw_cmds w @ [c]\<rparr>)" for e
    using w by (intro stands_ends [OF assms]) (simp add: stands_def asked_def)
qed

lemma leads_pull:
  assumes "(pulling E before c, JobRunning, ss) \<in> S"
  shows "leads (stands uid now (ready E before) JobRunning ss) (exec_cmd E c)
    (\<lambda>x. stands uid now (\<lambda>cs. pulling E before c cs \<and> ux_exec E (Suc (length before)) c = Inr x) JobRunning ss) (ends_in uid now S)"
proof (rule leads_exec)
  fix w x
  assume w: "stands uid now (ready E before) JobRunning ss w"
  show "ux_exec E (length (uw_cmds w)) c = Inr x \<Longrightarrow>
      stands uid now (\<lambda>cs. pulling E before c cs \<and> ux_exec E (Suc (length before)) c = Inr x) JobRunning ss (w\<lparr>uw_cmds := uw_cmds w @ [c]\<rparr>)"
    using w by (simp add: stands_def asked_def ready_def pulling_def)
  show "ends_in uid now S e (w\<lparr>uw_cmds := uw_cmds w @ [c]\<rparr>)" for e
    using w by (intro stands_ends [OF assms]) (simp add: stands_def asked_def ready_def pulling_def)
qed

lemma leads_check:
  assumes "(L, st, ss) \<in> S" "\<And>cs. er_ok x \<Longrightarrow> M cs \<Longrightarrow> N cs" "\<And>cs. M cs \<Longrightarrow> L cs"
  shows "leads (stands uid now M st ss) (if er_ok x then ret () else fail e) (\<lambda>_. stands uid now N st ss) (ends_in uid now S)"
proof (rule leads_if)
  show "er_ok x \<Longrightarrow> leads (stands uid now M st ss) (ret ()) (\<lambda>_. stands uid now N st ss) (ends_in uid now S)"
    by (rule leads_ret) (auto simp: stands_def assms(2))
  have "stands uid now M st ss w \<Longrightarrow> stands uid now L st ss w" for w by (auto simp: stands_def assms(3))
  then show "leads (stands uid now M st ss) (fail e) (\<lambda>_. stands uid now N st ss) (ends_in uid now S)"
    by (intro leads_fail stands_ends [OF assms(1)])
qed

lemma container_pipeline_leads:
  fixes E uid target mode before
  defines "pull \<equiv> pull_cmd E mode target"
  defines "S \<equiv> container_stops E before pull"
  shows "leads (stands uid now (asked before []) JobRunning [StepDone, StepRunning, StepPending, StepPending, StepPending])
    (run_container_pipeline E uid target mode)
    (\<lambda>_. stands uid now (swapping E before pull) JobRunning [StepDone, StepDone, StepDone, StepDone, StepPending]) (ends_in uid now S)"
  unfolding run_container_pipeline_def pull_def [symmetric]
  apply (rule leads_andthen, rule leads_probe, simp add: S_def container_stops_def)
  apply (rule leads_andthen, rule leads_check [where L = "asked before [docker_version_cmd]" and N = "ready E before"])
     apply (simp add: S_def container_stops_def)
    apply (simp add: ready_def answered_def)
   apply simp
  apply (rule leads_andthen, rule leads_steps(2))
  apply (rule leads_andthen, rule leads_steps(3))
  apply (rule leads_andthen, rule leads_pull, simp add: S_def container_stops_def)
  apply (rule leads_andthen, rule leads_check [where L = "pulling E before pull" and N = "swapping E before pull"])
     apply (simp add: S_def container_stops_def)
    apply (simp add: pulling_def swapping_def answered_def asked_def)
   apply simp
  apply (rule leads_andthen, rule leads_steps(3))
  apply (rule leads_andthen, rule leads_steps(4))
  apply (rule leads_andthen, rule leads_background [OF sends_apply], simp add: S_def container_stops_def, erule swapping_more)
  apply (rule leads_andthen, rule leads_steps(4))
  apply (rule leads_if, rule leads_ret, assumption)
  apply (rule leads_background [OF sends_ensure], simp add: S_def container_stops_def, erule swapping_more)
  done

lemma leads_kind: "leads P m Q R \<Longrightarrow> leads P n Q R \<Longrightarrow> leads P l Q R \<Longrightarrow>
    leads P (case k of ZipOrBinary \<Rightarrow> m | WindowsSetup \<Rightarrow> n | Flatpak \<Rightarrow> l) Q R"
  by (cases k) simp_all

lemma binary_pipeline_leads:
  fixes before
  defines "S \<equiv> binary_stops before"
  shows "leads (stands uid now (asked before []) JobRunning [StepDone, StepRunning, StepPending, StepPending, StepPending])
    (run_binary_pipeline E uid target)
    (\<lambda>_. stands uid now (asked before []) JobRunning [StepDone, StepDone, StepDone, StepDone, StepPending]) (ends_in uid now S)"
  unfolding run_binary_pipeline_def Let_def
  apply (rule leads_andthen, rule leads_steps(2))
  apply (rule leads_andthen, rule leads_steps(3))
  apply (rule leads_andthen, rule leads_answer, simp add: S_def binary_stops_def)
  apply (rule leads_andthen [where Q = "\<lambda>_. stands uid now (asked before []) JobRunning [StepDone, StepDone, StepRunning, StepPending, StepPending]"])
   apply (rule leads_if, rule leads_ret, assumption, rule leads_note)
  apply (rule leads_andthen, rule leads_answer, simp add: S_def binary_stops_def)
  apply (rule leads_andthen, rule leads_steps(3))
  apply (rule leads_andthen, rule leads_answer, simp add: S_def binary_stops_def)
  apply (rule leads_andthen, rule leads_steps(3))
  apply (rule leads_kind)
    apply (rule leads_andthen, rule leads_steps(4))
    apply (rule leads_andthen, rule leads_answer, simp add: S_def binary_stops_def)
    apply (rule leads_andthen, rule leads_steps(4), rule leads_ret, assumption)
   apply (rule leads_andthen, rule leads_steps(4), rule leads_ret, assumption)
  apply (rule leads_andthen, rule leads_steps(4), rule leads_ret, assumption)
  done

text \<open>What stays when the job is over: the commands that were sent, and the steps.\<close>

definition mode_of :: "update_env \<Rightarrow> update_mode" where
  "mode_of E = effective_update_mode (uc_mode (conf E)) (hints_of E)"

definition possible_stops :: "update_env \<Rightarrow> ustr \<Rightarrow> ustr list \<Rightarrow> ((ustr list \<Rightarrow> bool) \<times> job_status \<times> step_status list) set" where
  "possible_stops E target before =
     (if mode_of E = Binary then binary_stops before else container_stops E before (pull_cmd E (mode_of E) target))"

definition reached :: "update_env \<Rightarrow> ustr \<Rightarrow> ustr list \<Rightarrow> ustr list \<Rightarrow> bool" where
  "reached E target before =
     (if mode_of E = Binary then asked before [] else swapping E before (pull_cmd E (mode_of E) target))"

lemma leads_rest:
  assumes "\<And>w. stands uid now L JobRestarting [a, b, c, d, StepRunning] w \<Longrightarrow> T w"
    and "\<And>k p. x = Some (k, p) \<Longrightarrow> (L, JobRestarting, [a, b, c, d, StepRunning]) \<in> S"
  shows "leads (stands uid now L JobRunning [a, b, c, d, e])
    (both (set_step uid ''restart'' StepRunning det)
      (both (\<lambda>w. (restarting uid w, Inr ()))
        (case x of None \<Rightarrow> ret () | Some (kind, path) \<Rightarrow> lift_res (\<lambda>e. e) (ux_launch E kind path))))
    (\<lambda>_. T) (ends_in uid now S)"
proof (rule leads_andthen [OF leads_steps(5)], rule leads_andthen [OF leads_restarting])
  fix u v
  let ?P = "stands uid now L JobRestarting [a, b, c, d, StepRunning]"
  show "leads ?P (case x of None \<Rightarrow> ret () | Some (kind, path) \<Rightarrow> lift_res (\<lambda>e. e) (ux_launch E kind path))
      (\<lambda>_. T) (ends_in uid now S)"
  proof (cases x)
    case None
    then show ?thesis by (simp add: leads_ret assms(1))
  next
    case (Some y)
    obtain k p where "y = (k, p)" by (cases y)
    then have "leads ?P (lift_res (\<lambda>e. e) (ux_launch E k p)) (\<lambda>_. T) (ends_in uid now S)"
      using leads_answer [OF assms(2), of k p] Some assms(1) by (blast intro: leads_weaken)
    then show ?thesis using Some \<open>y = (k, p)\<close> by simp
  qed
qed

lemma pipeline_leads:
  "leads (stands uid now (asked before []) JobRunning (replicate 5 StepPending)) (run_pipeline E uid target)
     (\<lambda>_. stands uid now (reached E target before) JobRestarting [StepDone, StepDone, StepDone, StepDone, StepRunning])
     (ends_in uid now (possible_stops E target before))"
  (is "leads _ _ (\<lambda>_. ?T) (ends_in uid now ?S)")
proof -
  have five: "replicate 5 StepPending = [StepPending, StepPending, StepPending, StepPending, StepPending]"
    by (simp add: eval_nat_numeral)
  let ?all = "[StepDone, StepDone, StepDone, StepDone, StepPending]"
  let ?m = "if mode_of E = Binary then andthen (run_binary_pipeline E uid target) (\<lambda>r. ret (Some r))
                  else both (run_container_pipeline E uid target (mode_of E)) (ret None)"
  let ?Q = "\<lambda>x. if mode_of E = Binary then stands uid now (asked before []) JobRunning ?all
    else (\<lambda>w. x = None \<and> stands uid now (swapping E before (pull_cmd E (mode_of E) target)) JobRunning ?all w)"
  have work: "leads (stands uid now (asked before []) JobRunning [StepDone, StepRunning, StepPending, StepPending, StepPending])
      ?m ?Q (ends_in uid now ?S)"
  proof (cases "mode_of E = Binary")
    case True
    then show ?thesis using leads_andthen [OF binary_pipeline_leads leads_ret] by (simp add: possible_stops_def)
  next
    case False
    have "leads (stands uid now (asked before []) JobRunning [StepDone, StepRunning, StepPending, StepPending, StepPending])
        (both (run_container_pipeline E uid target (mode_of E)) (ret None)) ?Q
        (ends_in uid now (container_stops E before (pull_cmd E (mode_of E) target)))"
      by (rule leads_andthen [OF container_pipeline_leads leads_ret]) (simp add: False)
    with False show ?thesis by (simp add: possible_stops_def)
  qed
  have rest: "leads (?Q x)
    (both (set_step uid ''restart'' StepRunning det)
      (both (\<lambda>w. (restarting uid w, Inr ()))
        (case x of None \<Rightarrow> ret () | Some (kind, path) \<Rightarrow> lift_res (\<lambda>e. e) (ux_launch E kind path))))
    (\<lambda>_. ?T) (ends_in uid now ?S)" for x det
  proof (cases "mode_of E = Binary")
    case True
    then show ?thesis by (auto intro!: leads_rest simp: reached_def possible_stops_def binary_stops_def)
  next
    case False
    show ?thesis
    proof (cases x)
      case None
      have "leads (stands uid now (swapping E before (pull_cmd E (mode_of E) target)) JobRunning ?all)
        (both (set_step uid ''restart'' StepRunning det)
          (both (\<lambda>w. (restarting uid w, Inr ()))
            (case None of None \<Rightarrow> ret () | Some (kind, path) \<Rightarrow> lift_res (\<lambda>e. e) (ux_launch E kind path))))
        (\<lambda>_. ?T) (ends_in uid now ?S)"
        by (rule leads_rest) (simp_all add: reached_def False)
      with False None show ?thesis by simp
    next
      case (Some y)
      with False show ?thesis by (simp add: leads_def)
    qed
  qed
  show ?thesis
    unfolding run_pipeline_def Let_def mode_of_def [symmetric] five
    by (rule leads_andthen [OF leads_steps(1)], rule leads_andthen [OF leads_steps(1)], rule leads_andthen [OF leads_steps(2)],
        rule leads_andthen [OF work rest])
qed

section \<open>What a job reports\<close>

lemma new_job_stands:
  "uw_job w = Some (new_job uid target t) \<Longrightarrow> stands uid (uw_now w) (asked (uw_cmds w) []) JobRunning (replicate 5 StepPending) w"
  by (simp add: stands_def shows_steps_def asked_def new_job_def step_names_def eval_nat_numeral del: lit_simps)

definition as_failed :: "step_status \<Rightarrow> step_status" where
  "as_failed s = (if s = StepRunning then StepFailed else s)"

lemma fail_job_shows:
  assumes "stands uid now L st ss w"
  shows "\<exists>j. uw_job (fail_job uid e w) = Some j \<and> shows_steps uid JobFailed (map as_failed ss) j \<and> uj_message j = e \<and>
    uj_finished j = Some now \<and> L (uw_cmds (fail_job uid e w))"
proof -
  obtain j where j: "uw_job w = Some j" "shows_steps uid st ss j" "uw_now w = now" "L (uw_cmds w)"
    using assms by (auto simp: stands_def)
  have "up_id (failed_step e s) = up_id s" "up_status (failed_step e s) = as_failed (up_status s)" for s
    by (simp_all add: failed_step_def as_failed_def)
  with j show ?thesis by (simp add: fail_job_def opt_filter_def shows_steps_def) (auto simp: comp_def)
qed

text \<open>The task of an update leaves its job restarting with every step done but the last, or failed with the
  message of the error; the step that failed and the commands that were sent say where.\<close>

definition done_until :: "nat \<Rightarrow> step_status list" where
  "done_until n = replicate n StepDone @ StepFailed # replicate (4 - n) StepPending"

definition pulled_first :: "update_env \<Rightarrow> ustr \<Rightarrow> ustr list \<Rightarrow> ustr list \<Rightarrow> bool" where
  "pulled_first E target before cs \<longleftrightarrow>
     take 2 cs = [docker_version_cmd, pull_cmd E (mode_of E) target] \<and> answered E (length before) docker_version_cmd \<and>
     answered E (Suc (length before)) (pull_cmd E (mode_of E) target)"

definition reports :: "update_env \<Rightarrow> ustr \<Rightarrow> ustr list \<Rightarrow> ustr list \<Rightarrow> step_status list \<Rightarrow> bool" where
  "reports E target before cs ss \<longleftrightarrow>
     (let pull = pull_cmd E (mode_of E) target; probe = docker_version_cmd
      in if mode_of E = Binary then cs = [] \<and> ss \<in> {done_until 2, done_until 3, done_until 4}
         else ss = done_until 1 \<and> cs = [probe] \<or> ss = done_until 2 \<and> cs = [probe, pull] \<and> answered E (length before) probe
           \<or> (ss = done_until 3 \<or> ss = replicate 4 StepDone @ [StepPending]) \<and> pulled_first E target before cs)"

lemma stop_reports:
  assumes "ends_in uid now (possible_stops E target before) e w"
  shows "\<exists>j cs. uw_job (fail_job uid e w) = Some j \<and> uj_id j = uid \<and> uj_status j = JobFailed \<and> uj_message j = e \<and>
    uj_finished j = Some now \<and> uw_cmds (fail_job uid e w) = before @ cs \<and> reports E target before cs (map up_status (uj_steps j))"
proof -
  obtain L st ss where S: "(L, st, ss) \<in> possible_stops E target before" and "stands uid now L st ss w"
    using assms by (auto simp: ends_in_def)
  then obtain j where j: "uw_job (fail_job uid e w) = Some j" "shows_steps uid JobFailed (map as_failed ss) j" "uj_message j = e"
      "uj_finished j = Some now" and L: "L (uw_cmds (fail_job uid e w))"
    using fail_job_shows by blast
  have "\<exists>cs. uw_cmds (fail_job uid e w) = before @ cs \<and> reports E target before cs (map as_failed ss)"
  proof (cases "mode_of E = Binary")
    case True
    with S L show ?thesis
      by (auto simp: possible_stops_def binary_stops_def reports_def asked_def as_failed_def done_until_def eval_nat_numeral Let_def)
  next
    case False
    with S L show ?thesis
      by (auto simp: possible_stops_def container_stops_def reports_def asked_def as_failed_def done_until_def
          pulling_def swapping_def pulled_first_def eval_nat_numeral Let_def)
  qed
  with j show ?thesis by (auto simp: shows_steps_def)
qed

lemma leadsD: "leads P m Q R \<Longrightarrow> P w \<Longrightarrow> m w = (w', r) \<Longrightarrow> (case r of Inl e \<Rightarrow> R e w' | Inr x \<Rightarrow> Q x w')"
  unfolding leads_def by (auto split: sum.splits prod.splits)

text \<open>C37. The task of an update leaves its job restarting with every step done but the last, or failed with the
  message of the error, and then the step that failed says which commands were sent: none of a container before
  docker answered and the image was pulled.\<close>

theorem update_stops_where_reported:
  assumes "uw_job w = Some (new_job uid target t)"
  shows "\<exists>j cs. uw_job (run_update E uid target w) = Some j \<and> uj_id j = uid \<and>
    uw_cmds (run_update E uid target w) = uw_cmds w @ cs \<and>
    (case snd (run_pipeline E uid target w) of
       Inl e \<Rightarrow> uj_status j = JobFailed \<and> uj_message j = e \<and> uj_finished j = Some (uw_now w) \<and>
         reports E target (uw_cmds w) cs (map up_status (uj_steps j))
     | Inr _ \<Rightarrow> uj_status j = JobRestarting \<and> map up_status (uj_steps j) = replicate 4 StepDone @ [StepRunning] \<and>
         (if mode_of E = Binary then cs = [] else pulled_first E target (uw_cmds w) cs))"
proof -
  obtain w' r where r: "run_pipeline E uid target w = (w', r)" by fastforce
  note leads = leadsD [OF pipeline_leads [of uid "uw_now w" "uw_cmds w" E target] new_job_stands [OF assms] r]
  show ?thesis
  proof (cases r)
    case (Inl e)
    with leads r have "ends_in uid (uw_now w) (possible_stops E target (uw_cmds w)) e w'" by simp
    from stop_reports [OF this] show ?thesis using r Inl by (simp add: run_update_def) blast
  next
    case (Inr x)
    with leads r have "stands uid (uw_now w) (reached E target (uw_cmds w)) JobRestarting
        [StepDone, StepDone, StepDone, StepDone, StepRunning] w'" by simp
    then show ?thesis using r Inr
      by (auto simp: run_update_def stands_def shows_steps_def reached_def asked_def swapping_def pulled_first_def eval_nat_numeral split: if_splits)
  qed
qed

section \<open>The choice of an installer\<close>

lemma ver_less_trans: "ver_less a b \<Longrightarrow> ver_less b c \<Longrightarrow> ver_less a c"
  by (cases a; cases b; cases c) (auto simp: ver_less_def)

lemma ver_less_irrefl: "\<not> ver_less a a"
  by (cases a) (simp add: ver_less_def)

lemma ver_not_less_trans: "\<not> ver_less a b \<Longrightarrow> \<not> ver_less b c \<Longrightarrow> \<not> ver_less a c"
  by (cases a; cases b; cases c) (auto simp: ver_less_def)

text \<open>The versions that are offered with an installer for this machine.\<close>

definition offer_of :: "ustr \<Rightarrow> ustr \<Rightarrow> ustr \<Rightarrow> bool \<Rightarrow> json \<Rightarrow> (version \<times> release_asset) option" where
  "offer_of triple os arch pre rel =
     (if published pre rel
      then case (release_semver (text_of ''tag_name'' rel), pick_asset_for (items_of ''assets'' rel) triple os arch) of
             (Some v, Some a) \<Rightarrow> Some (v, a) | _ \<Rightarrow> None
      else None)"

definition eligible :: "ustr \<Rightarrow> ustr \<Rightarrow> version \<Rightarrow> bool" where
  "eligible requested current v \<longleftrightarrow>
     is_some_and (release_semver requested) (\<lambda>w. \<not> ver_less w v) \<and> version_gt (show_ver v) current"

definition choice_of :: "version \<times> release_asset \<Rightarrow> installer_choice" where
  "choice_of x = \<lparr> ic_asset = snd x, ic_version = show_ver (fst x) \<rparr>"

definition better :: "ustr \<Rightarrow> ustr \<Rightarrow> version \<times> release_asset \<Rightarrow> (version \<times> installer_choice) option \<Rightarrow> (version \<times> installer_choice) option" where
  "better requested current x best =
     (if eligible requested current (fst x) \<and> newer_than (fst x) best then Some (fst x, choice_of x) else best)"

lemma choose_from_offers:
  fixes triple os arch pre
  defines "offers \<equiv> List.map_filter (offer_of triple os arch pre)"
  shows "case find (\<lambda>x. show_ver (fst x) = requested) (offers rels) of
      Some x \<Rightarrow> choose_from requested current triple os arch pre rels c = Inl (choice_of x)
    | None \<Rightarrow> \<exists>d. choose_from requested current triple os arch pre rels c = Inr d \<and>
        ch_best d = fold (better requested current) (offers rels) (ch_best c)"
proof (induction rels arbitrary: c)
  case Nil
  then show ?case by (simp add: offers_def map_filter_simps)
next
  case (Cons rel rels)
  let ?o = "offer_of triple os arch pre rel"
  have offers: "offers (rel # rels) = (case ?o of None \<Rightarrow> offers rels | Some x \<Rightarrow> x # offers rels)"
    by (simp add: offers_def map_filter_simps split: option.split)
  show ?case
  proof (cases ?o)
    case None
    then obtain d where step: "choose_from requested current triple os arch pre (rel # rels) c = choose_from requested current triple os arch pre rels d"
      and same: "ch_best d = ch_best c"
      by (auto simp: offer_of_def Let_def split: if_splits option.splits)
    have offers: "offers (rel # rels) = offers rels" using offers None by simp
    show ?thesis unfolding step offers using Cons.IH [of d] unfolding same .
  next
    case (Some x)
    obtain v a where x: "x = (v, a)" by (cases x)
    with Some have rel: "published pre rel" "release_semver (text_of ''tag_name'' rel) = Some v"
      "pick_asset_for (items_of ''assets'' rel) triple os arch = Some a"
      by (auto simp: offer_of_def split: if_splits option.splits)
    show ?thesis
    proof (cases "show_ver v = requested")
      case True
      with rel x Some offers show ?thesis by (simp add: choice_of_def Let_def)
    next
      case False
      define d where "d = note_installer (release_semver requested) current v a c"
      have d: "ch_best d = better requested current x (ch_best c)"
        by (auto simp: d_def note_installer_def better_def eligible_def choice_of_def x Let_def)
      from rel False have step: "choose_from requested current triple os arch pre (rel # rels) c = choose_from requested current triple os arch pre rels d"
        by (simp add: d_def Let_def)
      have offers: "offers (rel # rels) = x # offers rels" using offers Some by simp
      show ?thesis unfolding step offers using Cons.IH [of d] False
        by (cases "find (\<lambda>x. show_ver (fst x) = requested) (offers rels)") (simp_all add: x d)
    qed
  qed
qed

definition none_better :: "ustr \<Rightarrow> ustr \<Rightarrow> version option \<Rightarrow> version \<times> release_asset \<Rightarrow> bool" where
  "none_better requested current best x \<longleftrightarrow>
     (eligible requested current (fst x) \<longrightarrow> is_some_and best (\<lambda>b. \<not> ver_less b (fst x)))"

lemma better_simps:
  "better requested current x None = (if eligible requested current (fst x) then Some (fst x, choice_of x) else None)"
  "better requested current x (Some (u, ch)) =
     (if eligible requested current (fst x) \<and> ver_less u (fst x) then Some (fst x, choice_of x) else Some (u, ch))"
  by (simp_all add: better_def newer_than_def)

lemma best_offer:
  "case fold (better requested current) xs None of
     None \<Rightarrow> list_all (none_better requested current None) xs
   | Some (v, ch) \<Rightarrow> (\<exists>x \<in> set xs. v = fst x \<and> ch = choice_of x \<and> eligible requested current v) \<and>
       list_all (none_better requested current (Some v)) xs"
proof (induction xs rule: rev_induct)
  case Nil
  then show ?case by simp
next
  case (snoc x xs)
  let ?b = "fold (better requested current) xs None"
  show ?case
  proof (cases ?b)
    case None
    with snoc have "list_all (none_better requested current None) xs" by simp
    then have none: "\<not> eligible requested current (fst y)" if "y \<in> set xs" for y
      using that by (auto simp: none_better_def list_all_iff)
    show ?thesis
      unfolding fold_append comp_apply fold_simps None better_simps
      by (auto simp: none_better_def list_all_iff ver_less_irrefl dest: none)
  next
    case (Some y)
    obtain u ch where y: "y = (u, ch)" by (cases y)
    with snoc Some have IH: "\<exists>x \<in> set xs. u = fst x \<and> ch = choice_of x \<and> eligible requested current u"
      "list_all (none_better requested current (Some u)) xs" by simp_all
    show ?thesis
    proof (cases "eligible requested current (fst x) \<and> ver_less u (fst x)")
      case True
      have "\<not> ver_less (fst x) w" if "\<not> ver_less u w" for w using True that ver_less_trans by blast
      with IH(2) have "list_all (none_better requested current (Some (fst x))) xs"
        by (auto simp: none_better_def list_all_iff)
      with True show ?thesis
        unfolding fold_append comp_apply fold_simps Some y better_simps by (auto simp: none_better_def ver_less_irrefl)
    next
      case False
      with IH show ?thesis
        unfolding fold_append comp_apply fold_simps Some y better_simps by (auto simp: none_better_def)
    qed
  qed
qed

text \<open>C38. The installer that is chosen is the one of the requested version if a published release has one for
  this machine, else the newest one that is newer than this server and not newer than the request; an error means
  that there is none.\<close>

theorem installer_never_downgrades:
  "let requested = strip_v (trim req); offers = List.map_filter (offer_of triple os arch pre) releases
   in case select_installer releases req current triple os arch pre of
        Inr choice \<Rightarrow>
          (\<exists>x \<in> set offers. choice = choice_of x \<and>
             (if list_ex (\<lambda>y. show_ver (fst y) = requested) offers then show_ver (fst x) = requested
              else eligible requested current (fst x) \<and> list_all (none_better requested current (Some (fst x))) offers))
      | Inl e \<Rightarrow> list_all (\<lambda>y. show_ver (fst y) \<noteq> requested \<and> \<not> eligible requested current (fst y)) offers"
proof -
  define requested where "requested = strip_v (trim req)"
  define offers where "offers = List.map_filter (offer_of triple os arch pre) releases"
  let ?c = "\<lparr> ch_exact = False, ch_exact_assets = [], ch_best = None, ch_latest = None \<rparr>"
  note chosen = choose_from_offers [where requested = requested and triple = triple and os = os and arch = arch and pre = pre and rels = releases
      and current = current and c = ?c, folded offers_def]
  show ?thesis
  proof (cases "find (\<lambda>x. show_ver (fst x) = requested) offers")
    case (Some x)
    then have x: "x \<in> set offers" "show_ver (fst x) = requested" by (auto simp: find_Some_iff)
    then have "list_ex (\<lambda>y. show_ver (fst y) = requested) offers" unfolding list_ex_iff by blast
    then have "\<exists>y \<in> set offers. choice_of x = choice_of y \<and>
        (if list_ex (\<lambda>y. show_ver (fst y) = requested) offers then show_ver (fst y) = requested
         else eligible requested current (fst y) \<and> list_all (none_better requested current (Some (fst y))) offers)"
      using x by (intro bexI [of _ x]) simp_all
    moreover have "select_installer releases req current triple os arch pre = Inr (choice_of x)"
      using chosen Some by (simp add: select_installer_def requested_def [symmetric] Let_def)
    ultimately show ?thesis unfolding requested_def [symmetric] offers_def [symmetric] Let_def by simp
  next
    case None
    then have not: "\<forall>y \<in> set offers. show_ver (fst y) \<noteq> requested" unfolding find_None_iff by blast
    then have no_exact: "list_ex (\<lambda>y. show_ver (fst y) = requested) offers = False" unfolding list_ex_iff by blast
    obtain d where d: "choose_from requested current triple os arch pre releases ?c = Inr d"
      "ch_best d = fold (better requested current) offers None" using chosen None by auto
    note best = best_offer [of requested current offers, folded d(2)]
    have eq: "select_installer releases req current triple os arch pre = (case ch_best d of
        Some (v, choice) \<Rightarrow> Inr choice
      | None \<Rightarrow> Inl (installer_lookup_error requested triple (ch_exact d) (ch_exact_assets d) (map_option snd (ch_latest d)) current))"
      unfolding select_installer_def requested_def [symmetric] Let_def d(1) by simp
    show ?thesis
    proof (cases "ch_best d")
      case None
      with best have "list_all (none_better requested current None) offers" by simp
      with not have "list_all (\<lambda>y. show_ver (fst y) \<noteq> requested \<and> \<not> eligible requested current (fst y)) offers"
        unfolding list_all_iff none_better_def by simp
      then show ?thesis unfolding requested_def [symmetric] offers_def [symmetric] Let_def eq None by simp
    next
      case (Some y)
      then obtain v ch where y: "ch_best d = Some (v, ch)" by (cases y) simp
      from best [unfolded y option.case prod.case] obtain x where "x \<in> set offers" "v = fst x" "ch = choice_of x" "eligible requested current v"
        "list_all (none_better requested current (Some v)) offers" by blast
      then show ?thesis unfolding requested_def [symmetric] offers_def [symmetric] Let_def eq y no_exact by auto
    qed
  qed
qed

section \<open>The start of an update\<close>


section \<open>Witness\<close>

definition offline :: update_env where
  "offline =
     \<lparr> ux_config = \<lparr> uc_current = lit ''1.0.0'', uc_owner = lit ''o'', uc_repo = lit ''r'', uc_mode = Docker, uc_container = lit ''d'',
         uc_image = lit ''i'', uc_compose_file = [], uc_compose_service = [], uc_channel = lit ''stable'' \<rparr>,
       ux_exec = (\<lambda>_ _. Inl (lit ''off'')), ux_releases = Inl [], ux_tags = Inl [], ux_get = (\<lambda>_. Inl []), ux_var = (\<lambda>_. None),
       ux_hostname = None, ux_identity = None, ux_compose_text = None, ux_in_container = True, ux_triple = [], ux_os = [], ux_arch = [],
       ux_json = (\<lambda>_. Inl []), ux_acme = None, ux_exe = Inl [], ux_temp_dir = [], ux_download = (\<lambda>_ _. Inl []),
       ux_install = (\<lambda>_ _ _. Inl []), ux_launch = (\<lambda>_ _. Inl []), ux_id = (\<lambda>_. []) \<rparr>"

definition offline_start :: update_world where
  "offline_start = \<lparr> uw_job = Some (new_job (lit ''j'') (lit ''1.1.0'') 5), uw_cmds = [], uw_ids = 0, uw_now = 7 \<rparr>"

lemma update_stops_where_reported_witness:
  "\<exists>j. uw_job (run_update offline (lit ''j'') (lit ''1.1.0'') offline_start) = Some j \<and> uj_id j = lit ''j''"
proof -
  have "uw_job offline_start = Some (new_job (lit ''j'') (lit ''1.1.0'') 5)" by (simp add: offline_start_def)
  from update_stops_where_reported [OF this] show ?thesis by blast
qed

end
