(* ===== verification/Spec2Isabelle.thy ===== *)
theory Spec2Isabelle
  imports SlotProps ClusterProps FailoverProps DeployGuardProps DeployRunProps DockerCmdProps EnvProps
    GitSyncProps BuildersProps TraefikProxyProps CronProps DockerGcRunProps
    AgentLoopProps UpdateProps
begin

text \<open>
  DevForge: a verification library of the control plane.

  \<^bold>\<open>The program.\<close> DevForge is a self-hosted platform: a leader node and its workers build the
  projects of a team and run them in containers. The server (\<open>apps/server\<close>) holds the queue of
  deployments and the automatic agents; the crates hold the cluster (\<open>crates/cluster\<close>) and the
  deployment engine (\<open>crates/deploy\<close>). A deployment is admitted by the queue, runs on one node,
  replaces the container of its project, and when it fails its cause is counted and an agent may
  be woken; the guard decides whether a commit may be deployed again on its own. Nodes join with
  an invitation, and when the leader is lost one worker leads until it is back.

  \<^bold>\<open>Foundations.\<close>
    \<^item> \<open>Prelude\<close>: combinators of \<open>Option\<close>, \<open>Result\<close> and \<open>Iterator\<close>, collections of rewrite rules.
    \<^item> \<open>RustStr\<close>: \<open>str\<close> and \<open>char\<close>; a string is the list of its scalar values.
    \<^item> \<open>Json\<close>: \<open>serde_json::Value\<close>, objects as lists in key order.
    \<^item> \<open>Tables\<close>: the SQL statements on one row of a table with a primary key.

  \<^bold>\<open>Deployment queue\<close> (\<open>apps/server/src/deploy_queue.rs\<close>, the opening of
  \<open>run_real_deploy_inner\<close> in \<open>routes.rs\<close>).
    \<^item> \<open>DeployDb\<close>: the tables \<open>projects\<close>, \<open>deployments\<close>, \<open>builder_events\<close> and the queries on them.
    \<^item> \<open>DeployQueue\<close>: one definition per function of \<open>deploy_queue.rs\<close>, with its names.
    \<^item> \<open>DeployQueueFacts\<close>: the contract of every operation on a row (locales \<open>row_law\<close>,
      \<open>row_law_all\<close>), interpreted on two relations.
    \<^item> \<open>DeployQueueProps\<close>: supersession, cancellation against finalisation, claims, the reaper,
      the derived status of a project.
    \<^item> \<open>SlotRun\<close>, \<open>SlotProps\<close>: deployments side by side as a step relation (a deployment is
      \<open>fire\<close>d one step at a time, the rest of the server moves in between): mutual exclusion, no
      deadlock, a closed row never works, the signal that is lost before the subscription.

  \<^bold>\<open>Cluster\<close> (\<open>crates/cluster/src\<close>, \<open>apps/server/src/cluster_store.rs\<close>).
    \<^item> \<open>ClusterModel\<close>: nodes, announced URLs, eligibility and the election.
    \<^item> \<open>ClusterStore\<close>: the trait as a record of operations, its contract as the locale
      \<open>cluster_store\<close>, the store in memory; \<open>ClusterSql\<close>: the production store. Both interpret it.
    \<^item> \<open>JoinCode\<close>: tokens and invitations; \<open>ClusterFacade\<close>: the operations over any store.
    \<^item> \<open>ClusterProps\<close>: join, heartbeat and removal as refinements of what they promise.

  \<^bold>\<open>Failover\<close> (\<open>apps/server/src/worker.rs\<close>, \<open>cluster_routes.rs\<close>): \<open>Failover\<close> has the rounds of a
  worker, the handlers between nodes and the restarts as steps; \<open>FailoverProps\<close> shows that terms
  never decrease, that a roster elects one node, and that writes are closed before a return.

  \<^bold>\<open>Automatic wakes\<close> (\<open>wake_causes.rs\<close>, \<open>wake_gate.rs\<close>, \<open>auto_deploy_guard.rs\<close>, and
  \<open>handle_deploy_failure\<close> of \<open>routes.rs\<close>).
    \<^item> \<open>WakeStore\<close>: the tables; \<open>WakeCauses\<close>: the counting of causes; \<open>WakeGate\<close>: fingerprints, log
      and launches; \<open>DeployFailure\<close>: what a failed deployment leads to; \<open>DeployGuard\<close>: the guard.
    \<^item> \<open>WakeGateProps\<close> (locale \<open>fingerprint_law\<close>), \<open>DeployFailureProps\<close>, \<open>DeployGuardProps\<close>: how often
      somebody is woken or told, what is launched again, how long a commit waits.

  \<^bold>\<open>Deployment engine\<close> (\<open>crates/deploy/src\<close>).
    \<^item> \<open>RunSpec\<close> (\<open>runtime.rs\<close>): the options of a run and their validation; \<open>RunSpecProps\<close>: what
      normalised options satisfy.
    \<^item> \<open>Shell\<close>: the quoting functions and a reader of shell words, the specification they are proved
      against; \<open>Script\<close>: shell scripts as a datatype with their text and the status they end with.
    \<^item> \<open>DockerCmd\<close> (\<open>docker.rs\<close>): the commands as texts, the labels of the reverse proxy, the
      verdict of a probe; \<open>DockerCmdProps\<close>: what a shell reads of the commands.
    \<^item> \<open>GitSync\<close> (\<open>lib.rs\<close>): the scripts that bring a working directory to a commit, what is logged of
      them, the conflict markers; \<open>GitSyncProps\<close>: what the shell reads, which failures the scripts
      hide, the token stays out of the log.
    \<^item> \<open>Builders\<close> (\<open>builders.rs\<close>, \<open>docker.rs\<close>): the commands and Dockerfiles of image builds;
      \<open>BuildersProps\<close>: the here-documents, the variables a build receives.
    \<^item> \<open>TraefikProxy\<close> (\<open>docker.rs\<close>): the container of the reverse proxy and its replacement;
      \<open>TraefikProxyProps\<close>: a replacement never loses the proxy.
    \<^item> \<open>DeployAct\<close>: commands, log messages, pauses and clock readings as events of an action monad
      (state to option, \<open>None\<close> when a loop does not end); \<open>BlueGreen\<close> (\<open>lib.rs\<close>): the replacement of a
      container; \<open>BlueGreenFacts\<close>, \<open>BlueGreenProps\<close>: the old container is kept until the new one has
      answered, a failure cleans up, and the replacement returns.
    \<^item> \<open>DeploySetup\<close>, \<open>DeployRun\<close> (\<open>deploy_with_log_hook\<close>): a whole deployment, one definition per step
      and per arm of the \<open>match\<close> on the pack; \<open>DeployRunFacts\<close>: the three ways it goes (relation
      \<open>arm\<close>); \<open>DeployRunProps\<close>: the order of its commands, what its success means, that it returns.

  \<^bold>\<open>Secrets and variables.\<close>
    \<^item> \<open>Redact\<close> (\<open>crates/shared/src/redact.rs\<close>), \<open>RedactProps\<close>: the masks of secrets in JSON, texts and
      URLs; what they show and what an update with a mask keeps.
    \<^item> \<open>EnvFile\<close>, \<open>EnvStore\<close> (\<open>crates/env/src/lib.rs\<close>, \<open>state.rs\<close>), \<open>EnvProps\<close>: the texts of \<open>.env\<close> files,
      the two stores of the variables of a project, what previews receive, the exchange with the
      working directory.

  \<^bold>\<open>Scheduled commands\<close> (\<open>crates/cron/src\<close>, \<open>cron_routes.rs\<close>): \<open>Cron\<close> has the expressions, the tables
  under failing queries, the scheduler and the handlers as steps of a world with a clock;
  \<open>CronProps\<close>: expressions stay valid, no run before its instant, the command that is sent, the
  crons that come due again. \<open>Fnv\<close> is the hash of summaries and of the proxy's arguments.

  \<^bold>\<open>Cleaning of the nodes\<close> (\<open>apps/server/src/docker_gc.rs\<close>, \<open>docker_gc_routes.rs\<close>): \<open>DockerGc\<close> has the
  settings, the commands, the readers of their output and the choice of the images; \<open>DockerGcRun\<close> the
  runs on the nodes, the handlers and the loop as steps. \<open>DockerGcProps\<close>: no image in use is removed,
  what the shell reads of the script, what is counted; \<open>DockerGcRunProps\<close>: emergencies are an hour
  apart, the schedule of accepted settings, a failing reading of the settings.

  \<^bold>\<open>Agents\<close> (\<open>crates/agent/src\<close>, \<open>apps/server/src/receipts.rs\<close>, the routes of grants in \<open>routes.rs\<close>).
    \<^item> \<open>AgentGuard\<close> (\<open>guard.rs\<close>, \<open>roles.rs\<close>): remote writes, the tools of a role, what the message of the
      user forbids; \<open>Coerce\<close> (\<open>coerce.rs\<close>): arguments put right after the schema of the tool; \<open>Truncate\<close>
      (\<open>truncate.rs\<close>): what the model is given of a result.
    \<^item> \<open>Receipts\<close> (\<open>receipts.rs\<close>): the table of approved actions under failing queries; \<open>ReceiptsServer\<close>:
      its reconciliation with the deployments, its list, the grants. \<open>ReceiptsFacts\<close>: one statement and
      any sequence of statements as a step of a ledger; \<open>ReceiptsProps\<close>: receipts only advance, an
      approval serves once, a restart settles them, the pages of the list follow each other.
    \<^item> \<open>AgentLoop\<close> (\<open>lib.rs\<close>): one turn (\<open>run_loop_inner\<close>) and a tool asked for by name; \<open>AgentFacts\<close>: what
      each step keeps; \<open>AgentLoopProps\<close>: what is executed was allowed, pushes are bounded, an action is not
      repeated when its run is taken up, how long a grant lasts. The log of the state holds every tool that
      was executed with the tables as they were; nothing is asked of the model or of the tools.

  \<^bold>\<open>Updates of DevForge\<close> (\<open>crates/update/src/lib.rs\<close>).
    \<^item> \<open>Update\<close>: versions, the choice of a release and of its installer, modes, the commands that replace the
      container of DevForge; \<open>UpdateRun\<close>: the check, the start, the pipelines and the steps of a job, over an
      environment that answers for the executor, GitHub, the files and the variables.
    \<^item> \<open>UpdateShell\<close>: the commands are read back by the shell and by \<open>base64 -d\<close>, and the script that
      replaces the container never leaves the node without a server; \<open>UpdateProps\<close>: where a task may stop and
      what its job then shows, the installer that is chosen, when a task starts.

  \<^bold>\<open>Conventions.\<close> Functions keep the names of the source where Isabelle allows it. Integers that can
  wrap or saturate are words or carry their bound; instants and durations are nanoseconds. A
  table carries the schedule of its failing queries, so every property holds under every schedule
  unless it says otherwise. Loops are structural recursions; the readiness loop is a partial
  function, and \<open>deployment_terminates\<close> shows it returns when pauses move the clock (\<open>clock_ok\<close>),
  after at most two waits of at most 901 probes. The rounds of an agent count down from the bound
  of the source. No definition uses fuel.

  \<^bold>\<open>Arguments.\<close> What comes from libraries and services is a parameter: SHA-256, chrono, regular
  expressions and the JSON parser (\<open>cenv\<close>, \<open>wake_env\<close>), the watch channels of tokio (\<open>watch_ops\<close> with
  their documented behaviour \<open>watch_ok\<close>), the executor, clock, file system and environment of a
  deployment (\<open>site\<close>, \<open>host\<close>) and of an update (\<open>update_env\<close>), and whether a message between nodes arrives. Each hypothesis on a parameter
  is met by a concrete instance in a witness.

  \<^bold>\<open>Simplifications.\<close> An operation reads the clock once. One task runs per deployment. Writes of
  state files whose result the code drops are taken to succeed in the steps of the failover. Log
  texts of a deployment are typed messages with the values they show. The two JSON columns of the
  cluster store hold the value they serialise. The branches for Windows hosts are left out.

  \<^bold>\<open>Not modelled.\<close> The HTTP handlers and their JSON, the user interfaces, the clients of services
  (GitHub, registrars, language models, object storage), encryption and single sign-on, the
  provisioning of databases; the prompts, the tools and the memory of the agents; the runners, backups
  and the Kubernetes back end; of an update the download and the programs of the host that install it. Some of these hold pure logic that can be added beside what is here.
\<close>

end
